(* ===== verification/Prelude.thy ===== *)
theory Prelude
  imports "HOL-Library.Word" "HOL-Library.AList"
begin

section \<open>Prelude: shared types, stores and state machines\<close>

text \<open>
  This theory holds what every component of the AB-Bot model shares.

  \<^item> Machine types. A Rust \<open>u8\<close>, \<open>u32\<close>, \<open>u64\<close> is a word of that width (\<open>+\<close> wraps, as in a
    release build); \<open>usize\<close> counters of in-memory collections are \<open>nat\<close>; \<open>i64\<close> minutes and
    hours are \<open>int\<close>. A \<open>Uuid\<close> is a 128-bit word, and \<open>Uuid::new_v4()\<close> is an argument.
  \<^item> Time. A \<open>DateTime<Utc>\<close> is an \<open>int\<close>: nanoseconds since the Unix epoch. Each call of
    \<open>Utc::now()\<close> is an argument of the operation that makes it.
  \<^item> Keyed stores. A \<open>HashMap\<close> or \<open>DashMap\<close> is an association list: looking a key up,
    inserting, removing, and iterating in the (unspecified) order of the list. The locale
    \<open>keyed_store\<close> states what clients rely on.
  \<^item> State machines. The locale \<open>machine\<close> turns "the start state satisfies the invariant and
    every step keeps it" into "every reachable state satisfies it".
  \<^item> The string operations of the standard library that the sources use.
\<close>

subsection \<open>Collections of facts\<close>

named_theorems store_simps \<open>lookup after insert and remove\<close>
named_theorems dec_simps \<open>exact results of Decimal operations\<close>
named_theorems step_defs \<open>definitions of the operations of a state machine\<close>

subsection \<open>Machine types\<close>

type_synonym u8 = "8 word"
type_synonym u32 = "32 word"
type_synonym u64 = "64 word"
type_synonym i16 = "16 word"
type_synonym i32 = "32 word"
type_synonym uuid = "128 word"

lemma unat_suc: "unat (w :: u32) + 1 < 2 ^ 32 \<Longrightarrow> unat (w + 1) = unat w + 1"
  by (simp add: unat_word_ariths)

lemma unat_not_max: "(w :: u32) \<noteq> - 1 \<Longrightarrow> unat w < 2 ^ 32 - 1"
proof -
  assume "w \<noteq> - 1"
  then have "w < - 1" by (simp add: order_less_le)
  then have "unat w < unat (- 1 :: u32)" by (simp add: word_less_nat_alt)
  moreover have "(- 1 :: u32) = 4294967295" by simp
  ultimately show ?thesis by (simp only:) simp
qed

text \<open>An operation that may panic: the state reached so far is returned beside the outcome.\<close>

datatype 'a outcome = Done 'a | Panic

text \<open>A fallible operation returns \<open>Inl\<close> of the error or \<open>Inr\<close> of the value.\<close>

definition is_ok :: "'e + 'a \<Rightarrow> bool" where
  "is_ok r = (case r of Inl _ \<Rightarrow> False | Inr _ \<Rightarrow> True)"

lemma is_ok_simps [simp]: "\<not> is_ok (Inl e)" "is_ok (Inr a)"
  by (simp_all add: is_ok_def)

lemma is_ok_iff: "is_ok r \<longleftrightarrow> (\<exists>a. r = Inr a)"
  by (cases r) auto

subsection \<open>Time\<close>

type_synonym datetime = int

definition ns_per_sec :: int where
  "ns_per_sec = 1000000000"

definition minutes :: "int \<Rightarrow> int" where
  "minutes m = m * 60 * ns_per_sec"

definition date_naive :: "datetime \<Rightarrow> int" where
  "date_naive t = t div (86400 * ns_per_sec)"

text \<open>\<open>u64::saturating_add\<close>.\<close>

definition saturating_inc :: "u64 \<Rightarrow> u64" where
  "saturating_inc w = (if w = - 1 then w else w + 1)"

definition saturating_add :: "u64 \<Rightarrow> nat \<Rightarrow> u64" where
  "saturating_add w n = (if unat w + n < 2 ^ 64 then w + of_nat n else - 1)"

text \<open>\<open>Duration::num_seconds\<close>, \<open>num_milliseconds\<close> and \<open>num_hours\<close> truncate towards zero.\<close>

definition trunc_div :: "int \<Rightarrow> int \<Rightarrow> int" where
  "trunc_div a b = sgn a * sgn b * (\<bar>a\<bar> div \<bar>b\<bar>)"

definition num_seconds :: "int \<Rightarrow> int" where
  "num_seconds d = trunc_div d ns_per_sec"

definition num_milliseconds :: "int \<Rightarrow> int" where
  "num_milliseconds d = trunc_div d 1000000"

definition num_hours :: "int \<Rightarrow> int" where
  "num_hours d = trunc_div d (3600 * ns_per_sec)"

text \<open>Hour of the day in UTC, and the day of the week with Sunday as 0 (the epoch was a Thursday).\<close>

definition hour_of :: "datetime \<Rightarrow> int" where
  "hour_of t = (t div (3600 * ns_per_sec)) mod 24"

definition days_from_sunday :: "datetime \<Rightarrow> int" where
  "days_from_sunday t = (date_naive t + 4) mod 7"

lemma ns_per_sec_pos [simp]: "0 < ns_per_sec"
  by (simp add: ns_per_sec_def)

lemma minutes_nonneg [simp]: "0 \<le> m \<Longrightarrow> 0 \<le> minutes m"
  by (simp add: minutes_def ns_per_sec_def)

lemma hour_of_bounds: "0 \<le> hour_of t" "hour_of t < 24"
  by (simp_all add: hour_of_def)

lemma days_from_sunday_bounds: "0 \<le> days_from_sunday t" "days_from_sunday t < 7"
  by (simp_all add: days_from_sunday_def)

subsection \<open>Strings\<close>

text \<open>
  \<open>str::to_lowercase\<close> on ASCII text: the messages it is applied to are built from ASCII
  literals, numbers and identifiers. \<open>str::contains\<close> looks for a contiguous occurrence.
\<close>

definition to_lower_char :: "char \<Rightarrow> char" where
  "to_lower_char c =
     (if 65 \<le> (of_char c :: nat) \<and> (of_char c :: nat) \<le> 90
      then char_of ((of_char c :: nat) + 32) else c)"

definition to_lowercase :: "string \<Rightarrow> string" where
  "to_lowercase s = map to_lower_char s"

definition is_space :: "char \<Rightarrow> bool" where
  "is_space c = (c \<in> {CHR 0x20, CHR 0x09, CHR 0x0A, CHR 0x0B, CHR 0x0C, CHR 0x0D})"

text \<open>\<open>str::trim\<close>, with the ASCII white space.\<close>

definition trim :: "string \<Rightarrow> string" where
  "trim s = rev (dropWhile is_space (rev (dropWhile is_space s)))"

definition eq_ignore_ascii_case :: "string \<Rightarrow> string \<Rightarrow> bool" where
  "eq_ignore_ascii_case a b = (to_lowercase a = to_lowercase b)"

fun starts_with :: "'a list \<Rightarrow> 'a list \<Rightarrow> bool" where
  "starts_with [] _ = True"
| "starts_with (p # ps) [] = False"
| "starts_with (p # ps) (c # cs) = (p = c \<and> starts_with ps cs)"

fun contains :: "'a list \<Rightarrow> 'a list \<Rightarrow> bool" where
  "contains pat [] = (pat = [])"
| "contains pat (c # cs) = (starts_with pat (c # cs) \<or> contains pat cs)"

lemma starts_with_iff: "starts_with ps cs \<longleftrightarrow> (\<exists>rest. cs = ps @ rest)"
  by (induction ps cs rule: starts_with.induct) auto

lemma contains_iff: "contains pat cs \<longleftrightarrow> (\<exists>pre post. cs = pre @ pat @ post)"
proof (induction cs)
  case Nil
  then show ?case by simp
next
  case (Cons c cs)
  note IH = Cons.IH
  show ?case
  proof
    assume "contains pat (c # cs)"
    then consider "starts_with pat (c # cs)" | "contains pat cs" by auto
    then show "\<exists>pre post. c # cs = pre @ pat @ post"
    proof cases
      case 1
      then obtain rest where "c # cs = [] @ pat @ rest" by (auto simp: starts_with_iff)
      then show ?thesis by blast
    next
      case 2
      then obtain pre post where "cs = pre @ pat @ post" using IH by blast
      then have "c # cs = (c # pre) @ pat @ post" by simp
      then show ?thesis by blast
    qed
  next
    assume "\<exists>pre post. c # cs = pre @ pat @ post"
    then obtain pre post where eq: "c # cs = pre @ pat @ post" by blast
    show "contains pat (c # cs)"
    proof (cases pre)
      case Nil
      with eq have "starts_with pat (c # cs)" by (auto simp: starts_with_iff)
      then show ?thesis by simp
    next
      case (Cons d pre')
      with eq have "cs = pre' @ pat @ post" by simp
      then have "contains pat cs" using IH by blast
      then show ?thesis by simp
    qed
  qed
qed

subsection \<open>Keyed stores\<close>

type_synonym ('k, 'v) store = "('k \<times> 'v) list"

definition store_get :: "('k, 'v) store \<Rightarrow> 'k \<Rightarrow> 'v option" where
  "store_get m k = map_of m k"

definition store_insert :: "'k \<Rightarrow> 'v \<Rightarrow> ('k, 'v) store \<Rightarrow> ('k, 'v) store" where
  "store_insert k v m = AList.update k v m"

definition store_remove :: "'k \<Rightarrow> ('k, 'v) store \<Rightarrow> ('k, 'v) store" where
  "store_remove k m = AList.delete k m"

definition store_values :: "('k, 'v) store \<Rightarrow> 'v list" where
  "store_values m = map snd m"

definition store_wf :: "('k, 'v) store \<Rightarrow> bool" where
  "store_wf m = distinct (map fst m)"

text \<open>The contract of a keyed store: what its clients may rely on.\<close>

locale keyed_store =
  fixes get :: "'m \<Rightarrow> 'k \<Rightarrow> 'v option"
    and insert :: "'k \<Rightarrow> 'v \<Rightarrow> 'm \<Rightarrow> 'm"
    and remove :: "'k \<Rightarrow> 'm \<Rightarrow> 'm"
    and vals :: "'m \<Rightarrow> 'v list"
    and wf :: "'m \<Rightarrow> bool"
  assumes get_insert: "get (insert k v m) = (get m)(k \<mapsto> v)"
    and get_remove: "get (remove k m) = (get m)(k := None)"
    and wf_insert: "wf m \<Longrightarrow> wf (insert k v m)"
    and wf_remove: "wf m \<Longrightarrow> wf (remove k m)"
    and vals_get: "wf m \<Longrightarrow> set (vals m) = ran (get m)"
begin

lemma get_insert_same: "get (insert k v m) k = Some v"
  by (simp add: get_insert)

lemma get_remove_same: "get (remove k m) k = None"
  by (simp add: get_remove)

lemma remove_insert_absent: "get m k = None \<Longrightarrow> get (remove k (insert k v m)) = get m"
  by (rule ext) (simp add: get_insert get_remove)

lemma vals_remove: "wf m \<Longrightarrow> set (vals (remove k m)) \<subseteq> set (vals m)"
  by (auto simp: vals_get wf_remove get_remove ran_def split: if_splits)

lemma vals_insert: "wf m \<Longrightarrow> set (vals (insert k v m)) \<subseteq> {v} \<union> (set (vals m))"
  by (auto simp: vals_get wf_insert get_insert ran_def split: if_splits)

end

interpretation st: keyed_store store_get store_insert store_remove store_values store_wf
proof unfold_locales
  fix m :: "('k, 'v) store" and k :: 'k and v :: 'v
  show "store_get (store_insert k v m) = (store_get m)(k \<mapsto> v)"
    by (simp add: store_get_def store_insert_def update_conv' fun_eq_iff)
  show "store_get (store_remove k m) = (store_get m)(k := None)"
    by (simp add: store_get_def store_remove_def delete_conv' fun_eq_iff)
  show "store_wf m \<Longrightarrow> store_wf (store_insert k v m)"
    by (simp add: store_wf_def store_insert_def distinct_update)
  show "store_wf m \<Longrightarrow> store_wf (store_remove k m)"
    by (simp add: store_wf_def store_remove_def distinct_delete)
  show "store_wf m \<Longrightarrow> set (store_values m) = ran (store_get m)"
    by (simp add: store_wf_def store_values_def store_get_def [abs_def] ran_distinct)
qed

lemmas [store_simps] = st.get_insert st.get_remove st.get_insert_same st.get_remove_same

lemma store_get_Nil [simp]: "store_get [] k = None"
  by (simp add: store_get_def)

lemma store_get_Cons [simp]:
  "store_get ((k', v) # m) k = (if k' = k then Some v else store_get m k)"
  by (simp add: store_get_def)

lemma store_wf_Nil [simp]: "store_wf []"
  by (simp add: store_wf_def)

lemma finite_store_dom: "finite (dom (store_get m))"
  by (simp add: store_get_def [abs_def] finite_dom_map_of)

text \<open>A sum over the values that satisfy a condition, as a sum over the keys.\<close>

lemma sum_store_values:
  fixes f :: "'v \<Rightarrow> 'a :: comm_monoid_add"
  assumes "store_wf m"
  shows "sum_list (map f (filter P (store_values m))) =
    (\<Sum>k \<in> dom (store_get m). if P (the (store_get m k)) then f (the (store_get m k)) else 0)"
  using assms
proof (induction m)
  case (Cons x m)
  obtain k v where x: "x = (k, v)" by fastforce
  have k: "k \<notin> dom (store_get m)"
    using Cons.prems by (force simp: x store_wf_def store_get_def dom_def dest: map_of_SomeD)
  have dom: "dom (store_get ((k, v) # m)) = insert k (dom (store_get m))" by (auto simp: dom_def)
  have "(\<Sum>j \<in> dom (store_get m). if P (the (store_get ((k, v) # m) j)) then f (the (store_get ((k, v) # m) j)) else 0) =
      (\<Sum>j \<in> dom (store_get m). if P (the (store_get m j)) then f (the (store_get m j)) else 0)"
    using k by (intro sum.cong) auto
  with Cons k show ?case
    unfolding x dom by (simp add: finite_store_dom store_values_def store_wf_def)
qed (simp add: store_values_def store_get_def [abs_def])

text \<open>Adding one key.\<close>

lemma sum_store_new:
  fixes f :: "'v \<Rightarrow> 'a :: comm_monoid_add"
  assumes "store_wf t" "store_wf t'" "store_get t i = None" "store_get t' i = Some r"
    and "\<And>j. j \<noteq> i \<Longrightarrow> store_get t' j = store_get t j"
  shows "sum_list (map f (filter P (store_values t'))) =
    (if P r then f r else 0) + sum_list (map f (filter P (store_values t)))"
proof -
  have dom: "dom (store_get t') = insert i (dom (store_get t))"
    using assms(4,5) by (auto simp: dom_def) metis+
  have i: "i \<notin> dom (store_get t)" using assms(3) by auto
  have "(\<Sum>j \<in> dom (store_get t). if P (the (store_get t' j)) then f (the (store_get t' j)) else 0) =
      (\<Sum>j \<in> dom (store_get t). if P (the (store_get t j)) then f (the (store_get t j)) else 0)"
  proof (rule sum.cong [OF refl])
    fix j
    assume "j \<in> dom (store_get t)"
    with i have "store_get t' j = store_get t j" by (intro assms(5)) auto
    then show "(if P (the (store_get t' j)) then f (the (store_get t' j)) else 0) =
      (if P (the (store_get t j)) then f (the (store_get t j)) else 0)" by simp
  qed
  then show ?thesis
    using i assms(4) by (simp add: sum_store_values assms(1,2) dom finite_store_dom)
qed

lemma store_get_in_values: "store_get m k = Some v \<Longrightarrow> v \<in> set (store_values m)"
  by (auto simp: store_get_def store_values_def dest: map_of_SomeD intro: rev_image_eqI)

lemma store_insert_new: "store_get m k = None \<Longrightarrow> store_insert k v m = m @ [(k, v)]"
  by (induction m) (auto simp: store_insert_def split: if_splits)

lemma store_get_map: "store_get (map (\<lambda>(k, r). (k, f r)) s) k = map_option f (store_get s k)"
  by (induction s) auto

lemma store_wf_map: "store_wf (map (\<lambda>(k, r). (k, f r)) s) = store_wf s"
proof -
  have "map fst (map (\<lambda>(k, r). (k, f r)) s) = map fst s" by (induction s) auto
  then show ?thesis unfolding store_wf_def by (simp only:)
qed

lemma in_set_map_filter: "y \<in> set (List.map_filter f xs) \<longleftrightarrow> (\<exists>x \<in> set xs. f x = Some y)"
  by (induction xs) (auto split: option.split)

subsection \<open>State machines\<close>

text \<open>
  A component is a start state (or several) and a step relation; \<open>reach\<close> is the set of
  reachable states. The locale \<open>machine\<close> is the contract of an inductive invariant.
\<close>

inductive reach :: "('s \<Rightarrow> bool) \<Rightarrow> ('s \<Rightarrow> 's \<Rightarrow> bool) \<Rightarrow> 's \<Rightarrow> bool"
  for start :: "'s \<Rightarrow> bool" and step :: "'s \<Rightarrow> 's \<Rightarrow> bool"
where
  reach_start: "start s \<Longrightarrow> reach start step s"
| reach_step: "reach start step s \<Longrightarrow> step s t \<Longrightarrow> reach start step t"

locale machine =
  fixes start :: "'s \<Rightarrow> bool"
    and step :: "'s \<Rightarrow> 's \<Rightarrow> bool"
    and inv :: "'s \<Rightarrow> bool"
  assumes inv_start: "start s \<Longrightarrow> inv s"
    and inv_step: "inv s \<Longrightarrow> step s t \<Longrightarrow> inv t"
begin

lemma inv_reach: "reach start step s \<Longrightarrow> inv s"
  by (induction rule: reach.induct) (auto intro: inv_start inv_step)

lemma inv_steps: "step\<^sup>*\<^sup>* s t \<Longrightarrow> inv s \<Longrightarrow> inv t"
  by (induction rule: rtranclp_induct) (auto intro: inv_step)

end

end
