(* ===== verification/Numeric.thy ===== *)
theory Numeric
  imports Complex_Main Prelude
begin

section \<open>Decimal and floating-point arithmetic\<close>

text \<open>
  Prices, sizes and P\&L are \<open>rust_decimal::Decimal\<close> values, and a few scores are \<open>f64\<close>. The
  crate \<open>rust_decimal\<close> is not part of the repository, so its rounding is a parameter of the
  model: a numeric environment \<open>E\<close> with

  \<^item> \<open>dec_round E x\<close>: the Decimal an operation returns when \<open>x\<close> is its exact result;
  \<^item> \<open>f64_round E x\<close>: the same for \<open>f64\<close> operations;
  \<^item> \<open>dec_to_f64 E\<close> and \<open>f64_to_dec E\<close>: the conversions between the two types
    (\<open>f64_to_dec\<close> is \<open>Decimal::from_f64_retain\<close>, which may fail);
  \<^item> \<open>f64_short E\<close>: \<open>Decimal::from_f64\<close> and \<open>try_from\<close>, which keep the significant digits of an \<open>f64\<close> only.

  A Decimal (and an \<open>f64\<close>) value is the rational number it denotes. The locale \<open>numeric_env\<close>
  states the documented behaviour that properties may assume: rounding is monotone and
  idempotent, and a result that a Decimal can represent (a 96-bit integer divided by a power
  of ten up to \<open>10 ^ 28\<close>) is returned unchanged; likewise for \<open>f64\<close> (IEEE 754 rounding, finite
  values) and for the conversions. Two environments satisfy it here: exact arithmetic, and
  rounding to the nearest multiple of \<open>10 ^ -28\<close>.

  Results of \<open>2 ^ 96\<close> and more make \<open>rust_decimal\<close> panic; the model covers the executions in
  which no Decimal operation overflows. Division by zero panics as well: where the code does
  not exclude it, the operation of the model has an explicit panic result.
\<close>

type_synonym decimal = rat
type_synonym f64 = rat

record num_env =
  dec_round :: "rat \<Rightarrow> rat"
  f64_round :: "rat \<Rightarrow> rat"
  dec_to_f64 :: "rat \<Rightarrow> rat"
  f64_to_dec :: "rat \<Rightarrow> rat option"
  f64_short :: "rat \<Rightarrow> rat option"

definition dadd :: "num_env \<Rightarrow> decimal \<Rightarrow> decimal \<Rightarrow> decimal" where
  "dadd E a b = dec_round E (a + b)"

definition dsub :: "num_env \<Rightarrow> decimal \<Rightarrow> decimal \<Rightarrow> decimal" where
  "dsub E a b = dec_round E (a - b)"

definition dmul :: "num_env \<Rightarrow> decimal \<Rightarrow> decimal \<Rightarrow> decimal" where
  "dmul E a b = dec_round E (a * b)"

definition ddiv :: "num_env \<Rightarrow> decimal \<Rightarrow> decimal \<Rightarrow> decimal" where
  "ddiv E a b = dec_round E (a / b)"

text \<open>\<open>Iterator::sum\<close> adds from zero, left to right.\<close>

definition dsum :: "num_env \<Rightarrow> decimal list \<Rightarrow> decimal" where
  "dsum E xs = foldl (dadd E) 0 xs"

definition fmul :: "num_env \<Rightarrow> f64 \<Rightarrow> f64 \<Rightarrow> f64" where
  "fmul E a b = f64_round E (a * b)"

definition fsub :: "num_env \<Rightarrow> f64 \<Rightarrow> f64 \<Rightarrow> f64" where
  "fsub E a b = f64_round E (a - b)"

definition fdiv :: "num_env \<Rightarrow> f64 \<Rightarrow> f64 \<Rightarrow> f64" where
  "fdiv E a b = f64_round E (a / b)"

definition fadd :: "num_env \<Rightarrow> f64 \<Rightarrow> f64 \<Rightarrow> f64" where
  "fadd E a b = f64_round E (a + b)"

definition clamp :: "f64 \<Rightarrow> f64 \<Rightarrow> f64 \<Rightarrow> f64" where
  "clamp lo hi x = (if x < lo then lo else if hi < x then hi else x)"

text \<open>A literal of the source, which the compiler rounds to the nearest \<open>f64\<close>.\<close>

definition flit :: "num_env \<Rightarrow> rat \<Rightarrow> f64" where
  "flit E x = f64_round E x"

text \<open>\<open>f64::round\<close> takes halves away from zero.\<close>

definition round_half_away :: "f64 \<Rightarrow> int" where
  "round_half_away x = (if 0 \<le> x then \<lfloor>x + 1 / 2\<rfloor> else \<lceil>x - 1 / 2\<rceil>)"

text \<open>The cast \<open>x as u32\<close> of an \<open>f64\<close>: towards zero, saturating at both ends.\<close>

definition f64_as_u32 :: "f64 \<Rightarrow> u32" where
  "f64_as_u32 x =
     (if x \<le> 0 then 0 else if 4294967295 \<le> x then 4294967295 else word_of_int \<lfloor>x\<rfloor>)"

definition dec_of_u32 :: "u32 \<Rightarrow> decimal" where
  "dec_of_u32 w = of_nat (unat w)"

text \<open>\<open>Decimal::new(m, s)\<close> and \<open>Decimal::from_parts(m, 0, 0, false, s)\<close>.\<close>

definition dec_new :: "int \<Rightarrow> nat \<Rightarrow> decimal" where
  "dec_new m s = of_int m / 10 ^ s"

subsection \<open>Representable values\<close>

definition dec_rep_at :: "nat \<Rightarrow> rat \<Rightarrow> bool" where
  "dec_rep_at s x = (of_int \<lfloor>x * 10 ^ s\<rfloor> = x * 10 ^ s \<and> \<bar>x * 10 ^ s\<bar> < 2 ^ 96)"

definition dec_rep :: "rat \<Rightarrow> bool" where
  "dec_rep x = (\<exists>s \<in> {0..28}. dec_rep_at s x)"

lemma dec_repI: "s \<le> 28 \<Longrightarrow> x * 10 ^ s = of_int m \<Longrightarrow> \<bar>m\<bar> < 2 ^ 96 \<Longrightarrow> dec_rep x"
  unfolding dec_rep_def dec_rep_at_def
  by (rule bexI [of _ s]) (auto simp: of_int_abs [symmetric] simp del: of_int_abs)

lemma dec_rep_int: "\<bar>m\<bar> < 2 ^ 96 \<Longrightarrow> dec_rep (of_int m)"
  by (rule dec_repI [of 0 _ m]) auto

lemma dec_rep_0 [simp]: "dec_rep 0"
  using dec_rep_int [of 0] by simp

lemma dec_rep_1 [simp]: "dec_rep 1"
  using dec_rep_int [of 1] by simp

lemma dec_repE:
  assumes "dec_rep x"
  obtains s m where "s \<le> 28" "x * 10 ^ s = of_int m" "\<bar>m\<bar> < 2 ^ 96"
proof -
  from assms obtain s m where s: "s \<le> 28" "x * 10 ^ s = of_int m" "\<bar>x * 10 ^ s\<bar> < 2 ^ 96"
    by (auto simp: dec_rep_def dec_rep_at_def)
  from s(3) have "\<bar>of_int m :: rat\<bar> < of_int (2 ^ 96)" unfolding s(2) by simp
  then have "\<bar>m\<bar> < 2 ^ 96" by (simp only: of_int_abs [symmetric] of_int_less_iff)
  with s(1,2) show ?thesis by (rule that)
qed

lemma dec_rep_uminus [simp]: "dec_rep (- x) = dec_rep x"
proof -
  have one: "dec_rep (- x)" if rep: "dec_rep x" for x
    using rep by (rule dec_repE) (rule dec_repI [where m = "- m" for m], auto)
  from one [of x] one [of "- x"] show ?thesis by auto
qed

text \<open>An \<open>f64\<close> represents a 53-bit integer divided by a power of two (normal range).\<close>

definition f64_rep :: "rat \<Rightarrow> bool" where
  "f64_rep x = (\<exists>k \<in> {0..1000}. of_int \<lfloor>x * 2 ^ k\<rfloor> = x * 2 ^ k \<and> \<bar>x * 2 ^ k\<bar> \<le> 2 ^ 53)"

lemma f64_repI: "k \<le> 1000 \<Longrightarrow> x * 2 ^ k = of_int m \<Longrightarrow> \<bar>m\<bar> \<le> 2 ^ 53 \<Longrightarrow> f64_rep x"
  unfolding f64_rep_def
  by (rule bexI [of _ k]) (auto simp: of_int_abs [symmetric] simp del: of_int_abs)

lemma dec_rep_one_minus:
  assumes "dec_rep x" "0 \<le> x" "x \<le> 1"
  shows "dec_rep (1 - x)"
proof -
  from assms(1) obtain s m where s: "s \<le> 28" "x * 10 ^ s = of_int m" by (rule dec_repE)
  have pow: "(10::int) ^ s \<le> 10 ^ 28" using s(1) by (intro power_increasing) auto
  from assms(2) have "0 \<le> x * 10 ^ s" by simp
  then have m0: "0 \<le> m" by (simp add: s(2))
  from assms(3) have "x * 10 ^ s \<le> 1 * 10 ^ s" by (intro mult_right_mono) auto
  then have "of_int m \<le> (of_int (10 ^ s) :: rat)" by (simp add: s(2))
  then have m1: "m \<le> 10 ^ s" by (simp only: of_int_le_iff)
  have "(1 - x) * 10 ^ s = of_int (10 ^ s - m)" using s(2) by (simp add: left_diff_distrib)
  moreover have "\<bar>10 ^ s - m\<bar> < 2 ^ 96" using m0 m1 pow by simp
  ultimately show ?thesis using s(1) by (intro dec_repI [of s _ "10 ^ s - m"])
qed

subsection \<open>The contract of a numeric environment\<close>

locale numeric_env =
  fixes E :: num_env
  assumes dec_mono: "x \<le> y \<Longrightarrow> dec_round E x \<le> dec_round E y"
    and dec_exact: "dec_rep x \<Longrightarrow> dec_round E x = x"
    and dec_idem: "dec_round E (dec_round E x) = dec_round E x"
    and f64_mono: "x \<le> y \<Longrightarrow> f64_round E x \<le> f64_round E y"
    and f64_exact: "f64_rep x \<Longrightarrow> f64_round E x = x"
    and to_f64_mono: "x \<le> y \<Longrightarrow> dec_to_f64 E x \<le> dec_to_f64 E y"
    and to_f64_exact: "f64_rep x \<Longrightarrow> dec_to_f64 E x = x"
    and of_f64_mono: "f64_to_dec E x = Some a \<Longrightarrow> f64_to_dec E y = Some b \<Longrightarrow> x \<le> y \<Longrightarrow> a \<le> b"
    and of_f64_exact: "f64_rep x \<Longrightarrow> dec_rep x \<Longrightarrow> f64_to_dec E x = Some x"
    and short_mono: "f64_short E x = Some a \<Longrightarrow> f64_short E y = Some b \<Longrightarrow> x \<le> y \<Longrightarrow> a \<le> b"
    and short_0: "f64_short E 0 = Some 0"
    and short_1: "f64_short E 1 = Some 1"
begin

lemma of_f64_bounds:
  assumes "f64_to_dec E x = Some d" "a \<le> x" "x \<le> b"
    and "f64_rep a" "dec_rep a" "f64_rep b" "dec_rep b"
  shows "a \<le> d \<and> d \<le> b"
  using assms of_f64_exact of_f64_mono by blast

lemma f64_round_unit: "0 \<le> x \<Longrightarrow> x \<le> 1 \<Longrightarrow> 0 \<le> f64_round E x \<and> f64_round E x \<le> 1"
  using f64_mono [of 0 x] f64_mono [of x 1] f64_exact [OF f64_repI [of 0 0 0]] f64_exact [OF f64_repI [of 0 1 1]]
  by simp

lemma short_bounds: "f64_short E x = Some d \<Longrightarrow> 0 \<le> x \<Longrightarrow> x \<le> 1 \<Longrightarrow> 0 \<le> d \<and> d \<le> 1"
  using short_mono [OF short_0] short_mono [OF _ short_1] by blast

lemma round_0 [simp]: "dec_round E 0 = 0"
  by (simp add: dec_exact)

lemma round_1 [simp]: "dec_round E 1 = 1"
  by (simp add: dec_exact)

lemma round_nonneg: "0 \<le> x \<Longrightarrow> 0 \<le> dec_round E x"
  using dec_mono [of 0 x] by simp

lemma round_nonpos: "x \<le> 0 \<Longrightarrow> dec_round E x \<le> 0"
  using dec_mono [of x 0] by simp

lemma round_le_1: "x \<le> 1 \<Longrightarrow> dec_round E x \<le> 1"
  using dec_mono [of x 1] by simp

lemma round_ge_rep: "dec_rep y \<Longrightarrow> y \<le> x \<Longrightarrow> y \<le> dec_round E x"
  using dec_mono [of y x] by (simp add: dec_exact)

lemma round_le_rep: "dec_rep y \<Longrightarrow> x \<le> y \<Longrightarrow> dec_round E x \<le> y"
  using dec_mono [of x y] by (simp add: dec_exact)

lemma dadd_mono: "a \<le> a' \<Longrightarrow> b \<le> b' \<Longrightarrow> dadd E a b \<le> dadd E a' b'"
  unfolding dadd_def by (rule dec_mono) simp

lemma dsub_mono: "a \<le> a' \<Longrightarrow> b' \<le> b \<Longrightarrow> dsub E a b \<le> dsub E a' b'"
  unfolding dsub_def by (rule dec_mono) simp

lemma dmul_mono: "0 \<le> b \<Longrightarrow> a \<le> a' \<Longrightarrow> dmul E a b \<le> dmul E a' b"
  unfolding dmul_def by (rule dec_mono) (simp add: mult_right_mono)

lemma dmul_mono_right: "0 \<le> a \<Longrightarrow> b \<le> b' \<Longrightarrow> dmul E a b \<le> dmul E a b'"
  unfolding dmul_def by (rule dec_mono) (simp add: mult_left_mono)

lemma dadd_nonneg: "0 \<le> a \<Longrightarrow> 0 \<le> b \<Longrightarrow> 0 \<le> dadd E a b"
  unfolding dadd_def by (rule round_nonneg) simp

lemma dmul_nonneg: "0 \<le> a \<Longrightarrow> 0 \<le> b \<Longrightarrow> 0 \<le> dmul E a b"
  unfolding dmul_def by (rule round_nonneg) simp

lemma dsub_nonneg: "b \<le> a \<Longrightarrow> 0 \<le> dsub E a b"
  unfolding dsub_def by (rule round_nonneg) simp

lemma dmul_0 [simp]: "dmul E 0 x = 0" "dmul E x 0 = 0"
  by (simp_all add: dmul_def)

lemma dadd_0 [simp]: "dec_rep x \<Longrightarrow> dadd E 0 x = x" "dec_rep x \<Longrightarrow> dadd E x 0 = x"
  by (simp_all add: dadd_def dec_exact)

lemma dmul_1 [simp]: "dec_rep x \<Longrightarrow> dmul E 1 x = x" "dec_rep x \<Longrightarrow> dmul E x 1 = x"
  by (simp_all add: dmul_def dec_exact)

lemma dec_idem_ops [simp]:
  "dec_round E (dadd E a b) = dadd E a b" "dec_round E (dsub E a b) = dsub E a b"
  "dec_round E (dmul E a b) = dmul E a b" "dec_round E (ddiv E a b) = ddiv E a b"
  by (simp_all add: dadd_def dsub_def dmul_def ddiv_def dec_idem)

lemma dsub_self [simp]: "dsub E x x = 0"
  by (simp add: dsub_def)

lemmas dec_monos = dadd_mono dsub_mono dmul_mono dmul_mono_right

end

subsection \<open>Two environments that satisfy the contract\<close>

definition exact_env :: num_env where
  "exact_env = \<lparr>dec_round = (\<lambda>x. x), f64_round = (\<lambda>x. x), dec_to_f64 = (\<lambda>x. x), f64_to_dec = Some,
     f64_short = Some\<rparr>"

definition round28 :: "rat \<Rightarrow> rat" where
  "round28 x = of_int \<lfloor>x * 10 ^ 28 + 1 / 2\<rfloor> / 10 ^ 28"

definition round28_env :: num_env where
  "round28_env =
     \<lparr>dec_round = round28, f64_round = (\<lambda>x. x), dec_to_f64 = (\<lambda>x. x),
      f64_to_dec = (\<lambda>x. Some (round28 x)), f64_short = (\<lambda>x. Some (round28 x))\<rparr>"

lemma exact_env_simps [simp]:
  "dec_round exact_env x = x" "f64_round exact_env x = x"
  "dec_to_f64 exact_env x = x" "f64_to_dec exact_env x = Some x" "f64_short exact_env x = Some x"
  by (simp_all add: exact_env_def)

lemma exact_ops [simp]:
  "dadd exact_env a b = a + b" "dsub exact_env a b = a - b"
  "dmul exact_env a b = a * b" "ddiv exact_env a b = a / b"
  "fmul exact_env a b = a * b" "fsub exact_env a b = a - b" "fdiv exact_env a b = a / b"
  "fadd exact_env a b = a + b" "flit exact_env a = a"
  by (simp_all add: dadd_def dsub_def dmul_def ddiv_def fmul_def fsub_def fdiv_def fadd_def flit_def)

interpretation exact: numeric_env exact_env
  by unfold_locales auto

lemma round28_mono: "x \<le> y \<Longrightarrow> round28 x \<le> round28 y"
  unfolding round28_def
  by (intro divide_right_mono) (auto intro!: floor_mono)

lemma round28_scaled: "x * 10 ^ s = of_int m \<Longrightarrow> s \<le> 28 \<Longrightarrow> round28 x = x"
proof -
  assume eq: "x * 10 ^ s = of_int m" and s: "s \<le> 28"
  have "x * 10 ^ 28 = x * 10 ^ s * 10 ^ (28 - s)"
    using s by (simp add: mult.assoc flip: power_add)
  also have "\<dots> = of_int (m * 10 ^ (28 - s))" by (simp add: eq)
  finally have x: "x * 10 ^ 28 = of_int (m * 10 ^ (28 - s))" .
  have "\<lfloor>of_int (m * 10 ^ (28 - s)) + 1 / 2 :: rat\<rfloor> = m * 10 ^ (28 - s)" by linarith
  then have "round28 x = of_int (m * 10 ^ (28 - s)) / 10 ^ 28"
    unfolding round28_def x by simp
  also have "\<dots> = x" by (simp only: x [symmetric]) simp
  finally show ?thesis .
qed

lemma round28_rep: "dec_rep x \<Longrightarrow> round28 x = x"
  by (erule dec_repE) (rule round28_scaled)

lemma round28_idem: "round28 (round28 x) = round28 x"
  by (rule round28_scaled [of _ 28 "\<lfloor>x * 10 ^ 28 + 1 / 2\<rfloor>"]) (simp_all add: round28_def)

interpretation nearest: numeric_env round28_env
  by unfold_locales
    (auto simp: round28_env_def round28_mono round28_rep round28_idem)

subsection \<open>Shared facts\<close>

lemma f64_as_u32_ge_1: "1 \<le> x \<Longrightarrow> f64_as_u32 x \<noteq> 0"
proof (cases "4294967295 \<le> x")
  case True
  then show ?thesis by (simp add: f64_as_u32_def)
next
  case False
  assume x: "1 \<le> x"
  with False have fl: "1 \<le> \<lfloor>x\<rfloor>" "\<lfloor>x\<rfloor> < 2 ^ 32" by (simp_all add: floor_less_iff)
  then have "uint (word_of_int \<lfloor>x\<rfloor> :: u32) = \<lfloor>x\<rfloor>" by (simp add: uint_word_of_int)
  moreover from x have "\<lfloor>x\<rfloor> \<noteq> 0" by linarith
  ultimately have "(word_of_int \<lfloor>x\<rfloor> :: u32) \<noteq> 0" by (metis unsigned_0)
  with False x show ?thesis by (simp add: f64_as_u32_def)
qed

end
