(* ===== verification/Database.thy ===== *)
theory Database
  imports Numeric
begin

section \<open>The database parameter\<close>

text \<open>
  PostgreSQL is not part of the repository. What the persisted components need of it is a
  parameter \<open>P\<close>: \<open>pg_ok P i\<close> tells whether the \<open>i\<close>-th statement of a call succeeds, and \<open>pg_dec P\<close>,
  \<open>pg_ts P\<close> are the values the \<open>NUMERIC\<close> and \<open>TIMESTAMPTZ\<close> columns store for what is written to
  them. A table is a keyed store of rows. \<open>pg_wf\<close> states what properties may assume: \<open>NUMERIC\<close>
  rounding is monotone and keeps zero. \<open>pg_exact\<close> is a database that never fails and stores
  values unchanged.
\<close>

record pg_env =
  pg_ok :: "nat \<Rightarrow> bool"
  pg_dec :: "decimal \<Rightarrow> decimal"
  pg_ts :: "datetime \<Rightarrow> datetime"

definition pg_wf :: "pg_env \<Rightarrow> bool" where
  "pg_wf P \<longleftrightarrow> mono (pg_dec P) \<and> pg_dec P 0 = 0"

definition pg_exact :: pg_env where
  "pg_exact = \<lparr>pg_ok = (\<lambda>_. True), pg_dec = (\<lambda>x. x), pg_ts = (\<lambda>t. t)\<rparr>"

lemma pg_exact_simps [simp]: "pg_ok pg_exact i" "pg_dec pg_exact x = x" "pg_ts pg_exact t = t"
  by (simp_all add: pg_exact_def)

lemma pg_wf_exact [simp]: "pg_wf pg_exact"
  by (simp add: pg_wf_def mono_def)

lemma pg_wf_nonneg: "pg_wf P \<Longrightarrow> 0 \<le> x \<Longrightarrow> 0 \<le> pg_dec P x"
  by (metis pg_wf_def monoD)

end
