(* ===== verification/Circuit_Breaker.thy ===== *)
theory Circuit_Breaker
  imports Database
begin

section \<open>The circuit breaker\<close>

text \<open>
  Model of \<open>crates/risk-manager/src/circuit_breaker.rs\<close> and of the row it persists through
  \<open>circuit_breaker_repo.rs\<close>. The record \<open>circuit_breaker\<close> has the struct's fields: the
  configuration, the state, the atomic fast-path flag, and the repository (\<open>None\<close> without a
  database; otherwise the content of the single-row table \<open>circuit_breaker_state\<close>). Every
  method that takes the write lock is one operation on the record; log statements, with the
  evaluation of their arguments, are left out. PostgreSQL is a parameter \<open>P\<close>: which statement of
  a call succeeds, and how the \<open>NUMERIC\<close> and \<open>TIMESTAMPTZ\<close> columns round what is stored.

  The lemmas show the invariant of the reachable states (the flag agrees with the state, a
  hard kill has no resume time, the recovery stage stays in range, the peak bounds the current
  value), when trading is halted, which thresholds a recorded trade has passed, that recovery
  completes, and what survives a restart.
\<close>

subsection \<open>Data\<close>

datatype TripReason =
    DailyLossLimit | MaxDrawdown | ConsecutiveLosses | Manual | Connectivity
  | MarketConditions | HardKillSwitch

record CircuitBreakerConfig =
  max_daily_loss :: decimal
  max_drawdown_pct :: decimal
  max_consecutive_losses :: u32
  cooldown_minutes :: int
  enabled :: bool
  gradual_recovery_enabled :: bool
  recovery_stages :: u32
  recovery_stage_minutes :: int
  require_profit_to_advance :: bool
  hard_kill_drawdown_pct :: decimal

definition default_config :: CircuitBreakerConfig where
  "default_config = \<lparr>max_daily_loss = dec_new 2500 0, max_drawdown_pct = dec_new 20 2,
     max_consecutive_losses = 8, cooldown_minutes = 30, enabled = True,
     gradual_recovery_enabled = True, recovery_stages = 3, recovery_stage_minutes = 10,
     require_profit_to_advance = False, hard_kill_drawdown_pct = dec_new 40 2\<rparr>"

record RecoveryState =
  current_stage :: u32
  total_stages :: u32
  started_at :: datetime
  stage_started_at :: datetime
  next_stage_at :: "datetime option"
  had_profit_this_stage :: bool
  trades_this_stage :: u32
  recovery_pnl :: decimal

record CircuitBreakerState =
  tripped :: bool
  trip_reason :: "TripReason option"
  tripped_at :: "datetime option"
  resume_at :: "datetime option"
  daily_pnl :: decimal
  peak_value :: decimal
  current_value :: decimal
  consecutive_losses :: u32
  trips_today :: u32
  recovery_state :: "RecoveryState option"
  last_reset_date :: int
  portfolio_value_seeded :: bool

definition default_state :: "datetime \<Rightarrow> CircuitBreakerState" where
  "default_state now = \<lparr>tripped = False, trip_reason = None, tripped_at = None, resume_at = None,
     daily_pnl = 0, peak_value = 0, current_value = 0, consecutive_losses = 0, trips_today = 0,
     recovery_state = None, last_reset_date = date_naive now, portfolio_value_seeded = False\<rparr>"

definition new_recovery :: "datetime \<Rightarrow> u32 \<Rightarrow> int \<Rightarrow> RecoveryState" where
  "new_recovery now n_stages stage_minutes = \<lparr>current_stage = 1, total_stages = n_stages,
     started_at = now, stage_started_at = now, next_stage_at = Some (now + minutes stage_minutes),
     had_profit_this_stage = False, trades_this_stage = 0, recovery_pnl = 0\<rparr>"

text \<open>Dividing by zero stages panics: \<open>None\<close>.\<close>

definition capacity_pct :: "num_env \<Rightarrow> RecoveryState \<Rightarrow> decimal option" where
  "capacity_pct E r =
     (if total_stages r = 0 then None
      else Some (ddiv E (dec_of_u32 (current_stage r)) (dec_of_u32 (total_stages r))))"

definition is_fully_recovered :: "RecoveryState \<Rightarrow> bool" where
  "is_fully_recovered r = (total_stages r \<le> current_stage r)"

subsection \<open>The persisted row\<close>

record cb_row =
  row_tripped :: bool
  row_trip_reason :: "string option"
  row_tripped_at :: "datetime option"
  row_resume_at :: "datetime option"
  row_daily_pnl :: decimal
  row_peak_value :: decimal
  row_current_value :: decimal
  row_consecutive_losses :: i32
  row_trips_today :: i32
  row_last_reset_date :: int

definition parse_trip_reason :: "string \<Rightarrow> TripReason option" where
  "parse_trip_reason s =
     (if s = ''daily_loss_limit'' then Some DailyLossLimit
      else if s = ''max_drawdown'' then Some MaxDrawdown
      else if s = ''consecutive_losses'' then Some ConsecutiveLosses
      else if s = ''manual'' then Some Manual
      else if s = ''connectivity'' then Some Connectivity
      else if s = ''market_conditions'' then Some MarketConditions
      else if s = ''hard_kill_switch'' then Some HardKillSwitch
      else None)"

fun trip_reason_to_string :: "TripReason \<Rightarrow> string" where
  "trip_reason_to_string DailyLossLimit = ''daily_loss_limit''"
| "trip_reason_to_string MaxDrawdown = ''max_drawdown''"
| "trip_reason_to_string ConsecutiveLosses = ''consecutive_losses''"
| "trip_reason_to_string Manual = ''manual''"
| "trip_reason_to_string Connectivity = ''connectivity''"
| "trip_reason_to_string MarketConditions = ''market_conditions''"
| "trip_reason_to_string HardKillSwitch = ''hard_kill_switch''"

text \<open>The state \<open>CircuitBreakerRepository::load\<close> builds from a row.\<close>

definition repo_load :: "datetime \<Rightarrow> cb_row \<Rightarrow> CircuitBreakerState" where
  "repo_load now r = \<lparr>tripped = row_tripped r,
     trip_reason = Option.bind (row_trip_reason r) parse_trip_reason,
     tripped_at = row_tripped_at r, resume_at = row_resume_at r, daily_pnl = row_daily_pnl r,
     peak_value = row_peak_value r, current_value = row_current_value r,
     consecutive_losses = row_consecutive_losses r, trips_today = row_trips_today r,
     recovery_state = None, last_reset_date = date_naive now,
     portfolio_value_seeded = (0 < row_peak_value r)\<rparr>"

text \<open>
  The \<open>UPDATE\<close> of \<open>CircuitBreakerRepository::save\<close>: every column but \<open>last_reset_date\<close>. The casts
  between \<open>u32\<close> and \<open>i32\<close> keep the bits.
\<close>

definition repo_save :: "pg_env \<Rightarrow> CircuitBreakerState \<Rightarrow> cb_row \<Rightarrow> cb_row" where
  "repo_save P s r = r\<lparr>row_tripped := tripped s,
     row_trip_reason := map_option trip_reason_to_string (trip_reason s),
     row_tripped_at := map_option (pg_ts P) (tripped_at s),
     row_resume_at := map_option (pg_ts P) (resume_at s),
     row_daily_pnl := pg_dec P (daily_pnl s), row_peak_value := pg_dec P (peak_value s),
     row_current_value := pg_dec P (current_value s),
     row_consecutive_losses := consecutive_losses s, row_trips_today := trips_today s\<rparr>"

record circuit_breaker =
  cb_config :: CircuitBreakerConfig
  cb_state :: CircuitBreakerState
  cb_is_tripped :: bool
  cb_repo :: "cb_row option option"

definition cb_new :: "datetime \<Rightarrow> CircuitBreakerConfig \<Rightarrow> circuit_breaker" where
  "cb_new now cfg = \<lparr>cb_config = cfg, cb_state = default_state now, cb_is_tripped = False,
     cb_repo = None\<rparr>"

definition cb_with_persistence ::
  "datetime \<Rightarrow> CircuitBreakerConfig \<Rightarrow> cb_row option \<Rightarrow> circuit_breaker" where
  "cb_with_persistence now cfg row = \<lparr>cb_config = cfg, cb_state = default_state now,
     cb_is_tripped = False, cb_repo = Some row\<rparr>"

subsection \<open>Operations\<close>

text \<open>
  \<open>persist_state\<close> logs and drops a database error. The index is the number of the statement in
  the calling operation.
\<close>

definition persist_state :: "pg_env \<Rightarrow> nat \<Rightarrow> circuit_breaker \<Rightarrow> circuit_breaker" where
  "persist_state P i cb =
     (case cb_repo cb of
        None \<Rightarrow> cb
      | Some row \<Rightarrow> if pg_ok P i
          then cb\<lparr>cb_repo := Some (map_option (repo_save P (cb_state cb)) row)\<rparr> else cb)"

definition trip_internal :: "datetime \<Rightarrow> TripReason \<Rightarrow> circuit_breaker \<Rightarrow> circuit_breaker" where
  "trip_internal now reason cb =
     cb\<lparr>cb_state := (cb_state cb)\<lparr>tripped := True, trip_reason := Some reason,
          tripped_at := Some now, trips_today := trips_today (cb_state cb) + 1,
          resume_at := (if reason = HardKillSwitch then None
                        else Some (now + minutes (cooldown_minutes (cb_config cb))))\<rparr>,
        cb_is_tripped := True\<rparr>"

definition cb_reset :: "pg_env \<Rightarrow> nat \<Rightarrow> circuit_breaker \<Rightarrow> circuit_breaker" where
  "cb_reset P i cb = persist_state P i
     (cb\<lparr>cb_state := (cb_state cb)\<lparr>tripped := False, trip_reason := None, tripped_at := None,
           resume_at := None\<rparr>, cb_is_tripped := False\<rparr>)"

definition reset_daily :: "pg_env \<Rightarrow> nat \<Rightarrow> circuit_breaker \<Rightarrow> circuit_breaker" where
  "reset_daily P i cb = persist_state P i
     (cb\<lparr>cb_state := (cb_state cb)\<lparr>daily_pnl := 0, consecutive_losses := 0, trips_today := 0\<rparr>\<rparr>)"

definition start_recovery :: "pg_env \<Rightarrow> datetime \<Rightarrow> circuit_breaker \<Rightarrow> circuit_breaker" where
  "start_recovery P now cb = persist_state P 0
     (cb\<lparr>cb_state := (cb_state cb)\<lparr>tripped := False, trip_reason := None,
           recovery_state := Some (new_recovery now (recovery_stages (cb_config cb))
                                     (recovery_stage_minutes (cb_config cb)))\<rparr>,
         cb_is_tripped := False\<rparr>)"

text \<open>\<open>can_trade\<close> reads the clock for the cooldown and again when recovery starts.\<close>

definition can_trade ::
  "pg_env \<Rightarrow> datetime \<Rightarrow> datetime \<Rightarrow> circuit_breaker \<Rightarrow> circuit_breaker \<times> bool" where
  "can_trade P now now' cb =
     (if \<not> enabled (cb_config cb) then (cb, True)
      else if recovery_state (cb_state cb) \<noteq> None then (cb, True)
      else if \<not> cb_is_tripped cb then (cb, True)
      else case resume_at (cb_state cb) of
             None \<Rightarrow> (cb, False)
           | Some t \<Rightarrow>
               if t \<le> now then
                 (if gradual_recovery_enabled (cb_config cb)
                  then (start_recovery P now' cb, True) else (cb_reset P 0 cb, True))
               else (cb, False))"

definition trading_capacity :: "num_env \<Rightarrow> circuit_breaker \<Rightarrow> decimal option" where
  "trading_capacity E cb =
     (case recovery_state (cb_state cb) of Some r \<Rightarrow> capacity_pct E r | None \<Rightarrow> Some 1)"

definition is_in_recovery :: "circuit_breaker \<Rightarrow> bool" where
  "is_in_recovery cb = (recovery_state (cb_state cb) \<noteq> None)"

definition advance_stage :: "datetime \<Rightarrow> CircuitBreakerConfig \<Rightarrow> RecoveryState \<Rightarrow> RecoveryState" where
  "advance_stage now cfg r = r\<lparr>current_stage := current_stage r + 1, stage_started_at := now,
     next_stage_at := Some (now + minutes (recovery_stage_minutes cfg)),
     had_profit_this_stage := False, trades_this_stage := 0\<rparr>"

definition stage_ready :: "datetime \<Rightarrow> CircuitBreakerConfig \<Rightarrow> RecoveryState \<Rightarrow> bool" where
  "stage_ready now cfg r =
     ((case next_stage_at r of Some t \<Rightarrow> t \<le> now | None \<Rightarrow> True)
      \<and> (\<not> require_profit_to_advance cfg \<or> had_profit_this_stage r))"

definition try_advance_recovery ::
  "pg_env \<Rightarrow> datetime \<Rightarrow> circuit_breaker \<Rightarrow> circuit_breaker \<times> bool" where
  "try_advance_recovery P now cb =
     (case recovery_state (cb_state cb) of
        None \<Rightarrow> (cb, False)
      | Some r \<Rightarrow>
          if is_fully_recovered r then
            (persist_state P 0 (cb\<lparr>cb_state := (cb_state cb)\<lparr>recovery_state := None\<rparr>\<rparr>), True)
          else if stage_ready now (cb_config cb) r then
            let r' = advance_stage now (cb_config cb) r
            in (persist_state P 0 (cb\<lparr>cb_state := (cb_state cb)\<lparr>recovery_state :=
                  (if is_fully_recovered r' then None else Some r')\<rparr>\<rparr>), True)
          else (cb, False))"

definition exit_recovery :: "pg_env \<Rightarrow> circuit_breaker \<Rightarrow> circuit_breaker" where
  "exit_recovery P cb = persist_state P 0 (cb\<lparr>cb_state := (cb_state cb)\<lparr>recovery_state := None\<rparr>\<rparr>)"

definition drawdown :: "num_env \<Rightarrow> CircuitBreakerState \<Rightarrow> decimal" where
  "drawdown E s = ddiv E (dsub E (peak_value s) (current_value s)) (peak_value s)"

definition hard_kill_hit :: "num_env \<Rightarrow> CircuitBreakerConfig \<Rightarrow> CircuitBreakerState \<Rightarrow> bool" where
  "hard_kill_hit E cfg s = (0 < peak_value s \<and> 0 < hard_kill_drawdown_pct cfg
     \<and> hard_kill_drawdown_pct cfg \<le> drawdown E s)"

definition check_thresholds ::
  "num_env \<Rightarrow> CircuitBreakerConfig \<Rightarrow> CircuitBreakerState \<Rightarrow> TripReason option" where
  "check_thresholds E cfg s =
     (if daily_pnl s < 0 \<and> max_daily_loss cfg \<le> \<bar>daily_pnl s\<bar> then Some DailyLossLimit
      else if max_consecutive_losses cfg \<le> consecutive_losses s then Some ConsecutiveLosses
      else if hard_kill_hit E cfg s then Some HardKillSwitch
      else if 0 < peak_value s \<and> max_drawdown_pct cfg \<le> drawdown E s then Some MaxDrawdown
      else None)"

text \<open>The midnight rollover and the counters a trade updates, before any threshold is checked.\<close>

definition roll_over :: "datetime \<Rightarrow> CircuitBreakerState \<Rightarrow> CircuitBreakerState" where
  "roll_over now s =
     (if last_reset_date s \<noteq> date_naive now
      then s\<lparr>daily_pnl := 0, consecutive_losses := 0, trips_today := 0,
             last_reset_date := date_naive now\<rparr>
      else s)"

definition apply_trade ::
  "num_env \<Rightarrow> decimal \<Rightarrow> bool \<Rightarrow> CircuitBreakerState \<Rightarrow> CircuitBreakerState" where
  "apply_trade E pnl is_win s =
     (let s1 = s\<lparr>daily_pnl := dadd E (daily_pnl s) pnl,
                 consecutive_losses := (if is_win then 0 else consecutive_losses s + 1)\<rparr>
      in if portfolio_value_seeded s1 then s1
         else let v = dadd E (current_value s1) pnl
              in s1\<lparr>current_value := v,
                    peak_value := (if peak_value s1 < v then v else peak_value s1)\<rparr>)"

definition record_trade_trip ::
  "pg_env \<Rightarrow> datetime \<Rightarrow> TripReason \<Rightarrow> circuit_breaker \<Rightarrow> circuit_breaker \<times> TripReason option" where
  "record_trade_trip P now reason cb = (persist_state P 0 (trip_internal now reason cb), Some reason)"

text \<open>
  The branch of \<open>record_trade\<close> taken in recovery mode: counters of the stage, then the limits
  scaled by the stage's capacity.
\<close>

definition record_trade_recovery ::
  "num_env \<Rightarrow> pg_env \<Rightarrow> datetime \<Rightarrow> decimal \<Rightarrow> bool \<Rightarrow> RecoveryState \<Rightarrow> circuit_breaker
     \<Rightarrow> circuit_breaker \<times> TripReason option outcome" where
  "record_trade_recovery E P now pnl is_win r cb =
     (let r' = r\<lparr>trades_this_stage := trades_this_stage r + 1,
                 recovery_pnl := dadd E (recovery_pnl r) pnl,
                 had_profit_this_stage := (is_win \<or> had_profit_this_stage r)\<rparr>;
          s = (cb_state cb)\<lparr>recovery_state := Some r'\<rparr>;
          ended = cb\<lparr>cb_state := s\<lparr>recovery_state := None\<rparr>\<rparr>
      in case capacity_pct E r' of
           None \<Rightarrow> (cb\<lparr>cb_state := s\<rparr>, Panic)
         | Some capacity \<Rightarrow>
             let scaled_max_loss = dmul E (max_daily_loss (cb_config cb)) capacity;
                 scaled_consecutive = f64_as_u32 (max 1
                   (fmul E (of_nat (unat (max_consecutive_losses (cb_config cb))))
                           (dec_to_f64 E capacity)))
             in if daily_pnl s < 0 \<and> scaled_max_loss \<le> \<bar>daily_pnl s\<bar> then
                  map_prod id Done (record_trade_trip P now DailyLossLimit ended)
                else if scaled_consecutive \<le> consecutive_losses s then
                  map_prod id Done (record_trade_trip P now ConsecutiveLosses ended)
                else (persist_state P 0 (cb\<lparr>cb_state := s\<rparr>), Done None))"

definition record_trade ::
  "num_env \<Rightarrow> pg_env \<Rightarrow> datetime \<Rightarrow> datetime \<Rightarrow> decimal \<Rightarrow> bool \<Rightarrow> circuit_breaker
     \<Rightarrow> circuit_breaker \<times> TripReason option outcome" where
  "record_trade E P now now' pnl is_win cb =
     (if \<not> enabled (cb_config cb) then (cb, Done None)
      else
        let s = apply_trade E pnl is_win (roll_over now (cb_state cb)); cb1 = cb\<lparr>cb_state := s\<rparr>
        in if hard_kill_hit E (cb_config cb) s then
             map_prod id Done (record_trade_trip P now' HardKillSwitch
               (cb1\<lparr>cb_state := s\<lparr>recovery_state := None\<rparr>\<rparr>))
           else case recovery_state s of
             Some r \<Rightarrow> record_trade_recovery E P now' pnl is_win r cb1
           | None \<Rightarrow>
               (case check_thresholds E (cb_config cb) s of
                  Some reason \<Rightarrow> (persist_state P 0 (trip_internal now' reason cb1), Done (Some reason))
                | None \<Rightarrow> (persist_state P 0 cb1, Done None)))"

definition update_portfolio_value ::
  "num_env \<Rightarrow> pg_env \<Rightarrow> datetime \<Rightarrow> decimal \<Rightarrow> circuit_breaker \<Rightarrow> circuit_breaker \<times> TripReason option" where
  "update_portfolio_value E P now value cb =
     (if \<not> enabled (cb_config cb) then (cb, None)
      else
        let s = (cb_state cb)\<lparr>current_value := value,
                  peak_value := (if peak_value (cb_state cb) < value then value
                                 else peak_value (cb_state cb)),
                  portfolio_value_seeded := True\<rparr>;
            cb1 = cb\<lparr>cb_state := s\<rparr>
        in if hard_kill_hit E (cb_config cb) s then
             (persist_state P 0 (trip_internal now HardKillSwitch cb1), Some HardKillSwitch)
           else if 0 < peak_value s \<and> max_drawdown_pct (cb_config cb) \<le> drawdown E s then
             (persist_state P 0 (trip_internal now MaxDrawdown cb1), Some MaxDrawdown)
           else (persist_state P 0 cb1, None))"

definition manual_trip :: "pg_env \<Rightarrow> datetime \<Rightarrow> circuit_breaker \<Rightarrow> circuit_breaker" where
  "manual_trip P now cb = persist_state P 0 (trip_internal now Manual cb)"

definition trip_connectivity :: "pg_env \<Rightarrow> datetime \<Rightarrow> circuit_breaker \<Rightarrow> circuit_breaker" where
  "trip_connectivity P now cb = persist_state P 0 (trip_internal now Connectivity cb)"

definition update_config :: "CircuitBreakerConfig \<Rightarrow> circuit_breaker \<Rightarrow> circuit_breaker" where
  "update_config cfg cb = cb\<lparr>cb_config := cfg\<rparr>"

text \<open>
  Loading the state at startup. The statements are numbered in the order they run; a failed
  query makes the call return an error (\<open>None\<close>). The clock is read for today's date, inside
  \<open>repo.load\<close>, and for the cooldown.
\<close>

definition load_state ::
  "pg_env \<Rightarrow> datetime \<Rightarrow> datetime \<Rightarrow> datetime \<Rightarrow> circuit_breaker \<Rightarrow> circuit_breaker \<times> bool option" where
  "load_state P now now_row now_resume cb =
     (case cb_repo cb of
        None \<Rightarrow> (cb, Some False)
      | Some row \<Rightarrow>
          if \<not> pg_ok P 0 then (cb, None)
          else if (case row of None \<Rightarrow> False | Some r \<Rightarrow> row_last_reset_date r < date_naive now) then
            let cb1 = reset_daily P 1 cb
            in if pg_ok P 2
               then (cb1\<lparr>cb_repo := map_option
                       (map_option (row_last_reset_date_update (\<lambda>_. date_naive now))) (cb_repo cb1)\<rparr>,
                     Some True)
               else (cb1, None)
          else if \<not> pg_ok P 1 then (cb, None)
          else (case row of
            None \<Rightarrow> (cb, Some False)
          | Some r \<Rightarrow>
              let s = repo_load now_row r; cb1 = cb\<lparr>cb_state := s, cb_is_tripped := tripped s\<rparr>
              in if tripped s \<and> trip_reason s \<noteq> Some HardKillSwitch
                    \<and> (case resume_at s of Some t \<Rightarrow> t \<le> now_resume | None \<Rightarrow> False)
                 then (cb_reset P 2 cb1, Some True)
                 else (cb1, Some True)))"

subsection \<open>The step relation and its invariant\<close>

text \<open>
  One rule per public operation, for every clock value, every trade and every outcome of the
  database that respects \<open>pg_wf\<close>: \<open>NUMERIC\<close> rounding is monotone and keeps zero.
\<close>

inductive cb_step :: "num_env \<Rightarrow> circuit_breaker \<Rightarrow> circuit_breaker \<Rightarrow> bool"
  for E :: num_env
where
  step_can_trade: "pg_wf P \<Longrightarrow> cb_step E cb (fst (can_trade P now now' cb))"
| step_advance: "pg_wf P \<Longrightarrow> cb_step E cb (fst (try_advance_recovery P now cb))"
| step_exit: "pg_wf P \<Longrightarrow> cb_step E cb (exit_recovery P cb)"
| step_trade: "pg_wf P \<Longrightarrow> cb_step E cb (fst (record_trade E P now now' pnl is_win cb))"
| step_value: "pg_wf P \<Longrightarrow> cb_step E cb (fst (update_portfolio_value E P now value cb))"
| step_manual: "pg_wf P \<Longrightarrow> cb_step E cb (manual_trip P now cb)"
| step_connectivity: "pg_wf P \<Longrightarrow> cb_step E cb (trip_connectivity P now cb)"
| step_reset: "pg_wf P \<Longrightarrow> cb_step E cb (cb_reset P i cb)"
| step_reset_daily: "pg_wf P \<Longrightarrow> cb_step E cb (reset_daily P i cb)"
| step_config: "cb_step E cb (update_config cfg cb)"
| step_load: "pg_wf P \<Longrightarrow> cb_step E cb (fst (load_state P now now_row now_resume cb))"

definition recovery_ok :: "RecoveryState \<Rightarrow> bool" where
  "recovery_ok r \<longleftrightarrow>
     current_stage r \<noteq> 0 \<and> (current_stage r = 1 \<or> current_stage r < total_stages r)"

definition state_inv :: "CircuitBreakerState \<Rightarrow> bool" where
  "state_inv s \<longleftrightarrow>
     (tripped s \<longrightarrow> (\<exists>r. trip_reason s = Some r \<and> (r = HardKillSwitch \<longleftrightarrow> resume_at s = None)))
     \<and> 0 \<le> peak_value s \<and> current_value s \<le> peak_value s
     \<and> (\<forall>r. recovery_state s = Some r \<longrightarrow> recovery_ok r)"

definition row_inv :: "cb_row \<Rightarrow> bool" where
  "row_inv r \<longleftrightarrow> state_inv (repo_load 0 r)"

definition cb_inv :: "circuit_breaker \<Rightarrow> bool" where
  "cb_inv cb \<longleftrightarrow> cb_is_tripped cb = tripped (cb_state cb) \<and> state_inv (cb_state cb)
     \<and> (\<forall>row. cb_repo cb = Some (Some row) \<longrightarrow> row_inv row)"

definition cb_start :: "circuit_breaker \<Rightarrow> bool" where
  "cb_start cb \<longleftrightarrow> (\<exists>now cfg. cb = cb_new now cfg
     \<or> (\<exists>row. cb = cb_with_persistence now cfg row \<and> (\<forall>r. row = Some r \<longrightarrow> row_inv r)))"

subsection \<open>Frame lemmas\<close>

lemma persist_state_fields [simp]:
  "cb_config (persist_state P i cb) = cb_config cb"
  "cb_state (persist_state P i cb) = cb_state cb"
  "cb_is_tripped (persist_state P i cb) = cb_is_tripped cb"
  by (simp_all add: persist_state_def split: option.splits)

lemma trip_internal_fields [simp]:
  "cb_config (trip_internal now reason cb) = cb_config cb"
  "cb_repo (trip_internal now reason cb) = cb_repo cb"
  "cb_is_tripped (trip_internal now reason cb)"
  "tripped (cb_state (trip_internal now reason cb))"
  "trip_reason (cb_state (trip_internal now reason cb)) = Some reason"
  "resume_at (cb_state (trip_internal now reason cb)) =
     (if reason = HardKillSwitch then None else Some (now + minutes (cooldown_minutes (cb_config cb))))"
  "recovery_state (cb_state (trip_internal now reason cb)) = recovery_state (cb_state cb)"
  "daily_pnl (cb_state (trip_internal now reason cb)) = daily_pnl (cb_state cb)"
  "peak_value (cb_state (trip_internal now reason cb)) = peak_value (cb_state cb)"
  "current_value (cb_state (trip_internal now reason cb)) = current_value (cb_state cb)"
  by (simp_all add: trip_internal_def)

lemma cb_reset_fields [simp]:
  "cb_config (cb_reset P i cb) = cb_config cb"
  "\<not> cb_is_tripped (cb_reset P i cb)"
  "\<not> tripped (cb_state (cb_reset P i cb))"
  "recovery_state (cb_state (cb_reset P i cb)) = recovery_state (cb_state cb)"
  by (simp_all add: cb_reset_def)

lemma roll_over_fields [simp]:
  "tripped (roll_over now s) = tripped s" "trip_reason (roll_over now s) = trip_reason s"
  "resume_at (roll_over now s) = resume_at s" "peak_value (roll_over now s) = peak_value s"
  "current_value (roll_over now s) = current_value s"
  "recovery_state (roll_over now s) = recovery_state s"
  "portfolio_value_seeded (roll_over now s) = portfolio_value_seeded s"
  by (simp_all add: roll_over_def)

lemma apply_trade_fields [simp]:
  "tripped (apply_trade E pnl w s) = tripped s" "trip_reason (apply_trade E pnl w s) = trip_reason s"
  "resume_at (apply_trade E pnl w s) = resume_at s"
  "recovery_state (apply_trade E pnl w s) = recovery_state s"
  by (simp_all add: apply_trade_def Let_def)

subsection \<open>The round trip through the database\<close>

lemma parse_trip_reason_to_string [simp]: "parse_trip_reason (trip_reason_to_string r) = Some r"
  by (cases r) (simp_all add: parse_trip_reason_def)

lemma repo_load_save:
  "repo_load now (repo_save P s r) = \<lparr>tripped = tripped s, trip_reason = trip_reason s,
     tripped_at = map_option (pg_ts P) (tripped_at s), resume_at = map_option (pg_ts P) (resume_at s),
     daily_pnl = pg_dec P (daily_pnl s), peak_value = pg_dec P (peak_value s),
     current_value = pg_dec P (current_value s), consecutive_losses = consecutive_losses s,
     trips_today = trips_today s, recovery_state = None, last_reset_date = date_naive now,
     portfolio_value_seeded = (0 < pg_dec P (peak_value s))\<rparr>"
  by (cases "trip_reason s") (simp_all add: repo_load_def repo_save_def)

lemma state_inv_repo_load: "row_inv r \<Longrightarrow> state_inv (repo_load now r)"
  by (simp add: row_inv_def state_inv_def repo_load_def)

lemma row_inv_save: "pg_wf P \<Longrightarrow> state_inv s \<Longrightarrow> row_inv (repo_save P s r)"
  using pg_wf_nonneg [of P "peak_value s"]
  by (auto simp: row_inv_def repo_load_save state_inv_def pg_wf_def mono_def)

lemma row_inv_date [simp]: "row_inv (row_last_reset_date_update f r) = row_inv r"
  by (simp add: row_inv_def repo_load_def)

subsection \<open>Every operation keeps the invariant\<close>

lemma cb_inv_persist [intro]: "pg_wf P \<Longrightarrow> cb_inv cb \<Longrightarrow> cb_inv (persist_state P i cb)"
  by (auto simp: cb_inv_def persist_state_def row_inv_save split: option.splits if_splits)

lemma cb_inv_state:
  "cb_inv cb \<Longrightarrow> state_inv s \<Longrightarrow> tripped s = tripped (cb_state cb) \<Longrightarrow> cb_inv (cb\<lparr>cb_state := s\<rparr>)"
  by (simp add: cb_inv_def)

lemma cb_inv_untripped:
  "cb_inv cb \<Longrightarrow> state_inv s \<Longrightarrow> \<not> tripped s \<Longrightarrow>
   cb_inv (cb\<lparr>cb_state := s, cb_is_tripped := False\<rparr>)"
  by (simp add: cb_inv_def)

lemma cb_inv_trip [intro]: "cb_inv cb \<Longrightarrow> cb_inv (trip_internal now reason cb)"
  by (simp add: cb_inv_def state_inv_def)

lemma state_inv_no_recovery: "state_inv s \<Longrightarrow> state_inv (s\<lparr>recovery_state := None\<rparr>)"
  by (simp add: state_inv_def)

lemma state_inv_recovery:
  "state_inv s \<Longrightarrow> recovery_ok r \<Longrightarrow> state_inv (s\<lparr>recovery_state := Some r\<rparr>)"
  by (simp add: state_inv_def)

lemma cb_inv_no_recovery:
  "cb_inv cb \<Longrightarrow> cb_inv (cb\<lparr>cb_state := (cb_state cb)\<lparr>recovery_state := None\<rparr>\<rparr>)"
  by (rule cb_inv_state) (auto intro: state_inv_no_recovery simp: cb_inv_def)

lemma cb_inv_recovery:
  "cb_inv cb \<Longrightarrow> recovery_ok r \<Longrightarrow>
   cb_inv (cb\<lparr>cb_state := (cb_state cb)\<lparr>recovery_state := Some r\<rparr>\<rparr>)"
  by (rule cb_inv_state) (auto intro: state_inv_recovery simp: cb_inv_def)

lemma cb_inv_recovery_ok:
  "cb_inv cb \<Longrightarrow> recovery_state (cb_state cb) = Some r \<Longrightarrow> recovery_ok r"
  by (simp add: cb_inv_def state_inv_def)

lemma recovery_ok_new: "recovery_ok (new_recovery now n m)"
  by (simp add: recovery_ok_def new_recovery_def)

text \<open>A stage that is not the last one can be advanced without wrapping around.\<close>

lemma u32_succ: "(c :: u32) < n \<Longrightarrow> c + 1 \<noteq> 0 \<and> unat (c + 1) = unat c + 1"
proof -
  assume "c < n"
  then have "unat c < unat n" by (simp add: word_less_nat_alt)
  moreover have "unat n < 2 ^ LENGTH(32)" by (rule unsigned_less)
  ultimately have "unat (c + 1) = unat c + 1" by (simp add: unat_word_ariths)
  then show ?thesis by (metis add_is_0 one_neq_zero unat_0)
qed

lemma recovery_ok_advance:
  "recovery_ok r \<Longrightarrow> \<not> is_fully_recovered r \<Longrightarrow> \<not> is_fully_recovered (advance_stage now cfg r) \<Longrightarrow>
   recovery_ok (advance_stage now cfg r)"
  using u32_succ [of "current_stage r" "total_stages r"]
  by (auto simp: recovery_ok_def is_fully_recovered_def advance_stage_def)

lemma state_inv_trade:
  "state_inv s \<Longrightarrow> state_inv (apply_trade E pnl is_win (roll_over now s))"
  by (auto simp: state_inv_def apply_trade_def roll_over_def Let_def)

lemma cb_inv_start_recovery: "pg_wf P \<Longrightarrow> cb_inv cb \<Longrightarrow> cb_inv (start_recovery P now cb)"
  unfolding start_recovery_def
  by (intro cb_inv_persist cb_inv_untripped) (auto simp: cb_inv_def state_inv_def recovery_ok_new)

lemma cb_inv_reset: "pg_wf P \<Longrightarrow> cb_inv cb \<Longrightarrow> cb_inv (cb_reset P i cb)"
  unfolding cb_reset_def
  by (intro cb_inv_persist cb_inv_untripped) (auto simp: cb_inv_def state_inv_def)

lemma cb_inv_reset_daily: "pg_wf P \<Longrightarrow> cb_inv cb \<Longrightarrow> cb_inv (reset_daily P i cb)"
  unfolding reset_daily_def
  by (intro cb_inv_persist cb_inv_state) (auto simp: cb_inv_def state_inv_def)

lemma cb_inv_can_trade: "pg_wf P \<Longrightarrow> cb_inv cb \<Longrightarrow> cb_inv (fst (can_trade P now now' cb))"
  by (simp add: can_trade_def cb_inv_start_recovery cb_inv_reset split: option.splits)

lemma cb_inv_advance:
  assumes "pg_wf P" and inv: "cb_inv cb"
  shows "cb_inv (fst (try_advance_recovery P now cb))"
proof (cases "recovery_state (cb_state cb)")
  case None
  with inv show ?thesis by (simp add: try_advance_recovery_def)
next
  case (Some r)
  note ok = cb_inv_recovery_ok [OF inv Some]
  show ?thesis
    using assms Some ok
    by (auto simp: try_advance_recovery_def Let_def
        intro!: cb_inv_no_recovery cb_inv_recovery recovery_ok_advance)
qed

lemma cb_inv_exit: "pg_wf P \<Longrightarrow> cb_inv cb \<Longrightarrow> cb_inv (exit_recovery P cb)"
  unfolding exit_recovery_def by (intro cb_inv_persist cb_inv_no_recovery)

lemma cb_inv_trade_recovery:
  assumes "pg_wf P" and inv: "cb_inv cb" and rec: "recovery_state (cb_state cb) = Some r"
  shows "cb_inv (fst (record_trade_recovery E P now pnl is_win r cb))"
proof -
  let ?r = "r\<lparr>trades_this_stage := trades_this_stage r + 1,
    recovery_pnl := dadd E (recovery_pnl r) pnl,
    had_profit_this_stage := (is_win \<or> had_profit_this_stage r)\<rparr>"
  have "recovery_ok ?r" using cb_inv_recovery_ok [OF inv rec] by (simp add: recovery_ok_def)
  then have cont: "cb_inv (cb\<lparr>cb_state := (cb_state cb)\<lparr>recovery_state := Some ?r\<rparr>\<rparr>)"
    by (rule cb_inv_recovery [OF inv])
  have ended: "cb_inv (cb\<lparr>cb_state := (cb_state cb)\<lparr>recovery_state := None\<rparr>\<rparr>)"
    by (rule cb_inv_no_recovery [OF inv])
  show ?thesis
    using assms(1) cont ended
    by (auto simp: record_trade_recovery_def record_trade_trip_def Let_def split: option.split)
qed

lemma cb_inv_trade:
  assumes "pg_wf P" and inv: "cb_inv cb"
  shows "cb_inv (fst (record_trade E P now now' pnl is_win cb))"
proof -
  define s where "s = apply_trade E pnl is_win (roll_over now (cb_state cb))"
  have s: "state_inv s" "tripped s = tripped (cb_state cb)"
    using inv by (simp_all add: s_def cb_inv_def state_inv_trade)
  have cb1: "cb_inv (cb\<lparr>cb_state := s\<rparr>)"
    by (rule cb_inv_state [OF inv s])
  have ended: "cb_inv (cb\<lparr>cb_state := s\<lparr>recovery_state := None\<rparr>\<rparr>)"
    by (rule cb_inv_state [OF inv]) (simp_all add: s state_inv_no_recovery)
  have rec: "cb_inv (fst (record_trade_recovery E P now' pnl is_win r (cb\<lparr>cb_state := s\<rparr>)))"
    if "recovery_state s = Some r" for r
    using that by (intro cb_inv_trade_recovery assms cb1) simp
  show ?thesis
    unfolding record_trade_def Let_def s_def [symmetric]
    using assms cb1 ended rec
    by (auto simp: record_trade_trip_def split: option.split)
qed

lemma cb_inv_value:
  assumes "pg_wf P" and inv: "cb_inv cb"
  shows "cb_inv (fst (update_portfolio_value E P now value cb))"
proof -
  define s where "s = (cb_state cb)\<lparr>current_value := value,
     peak_value := (if peak_value (cb_state cb) < value then value else peak_value (cb_state cb)),
     portfolio_value_seeded := True\<rparr>"
  have "state_inv s" "tripped s = tripped (cb_state cb)"
    using inv by (auto simp: s_def cb_inv_def state_inv_def)
  then have "cb_inv (cb\<lparr>cb_state := s\<rparr>)" by (rule cb_inv_state [OF inv])
  then show ?thesis
    unfolding update_portfolio_value_def Let_def s_def [symmetric] using assms by auto
qed

lemma cb_inv_load:
  assumes "pg_wf P" and inv: "cb_inv cb"
  shows "cb_inv (fst (load_state P now now_row now_resume cb))"
proof -
  have daily: "cb_inv (reset_daily P 1 cb)" by (rule cb_inv_reset_daily [OF assms])
  have stamped: "cb_inv (cb'\<lparr>cb_repo := map_option (map_option (row_last_reset_date_update f)) (cb_repo cb')\<rparr>)"
    if "cb_inv cb'" for cb' f
    using that by (auto simp: cb_inv_def)
  have loaded: "cb_inv (cb\<lparr>cb_state := repo_load now_row r, cb_is_tripped := tripped (repo_load now_row r)\<rparr>)"
    if "cb_repo cb = Some (Some r)" for r
    using inv that by (simp add: cb_inv_def state_inv_repo_load)
  show ?thesis
    unfolding load_state_def Let_def
    using inv daily stamped loaded cb_inv_reset [OF assms(1)]
    by (auto split: option.splits)
qed

interpretation cb: machine cb_start "cb_step E" cb_inv for E
proof unfold_locales
  fix s t :: circuit_breaker
  show "cb_start s \<Longrightarrow> cb_inv s"
    by (auto simp: cb_start_def cb_inv_def cb_new_def cb_with_persistence_def default_state_def
        state_inv_def)
  assume inv: "cb_inv s" and "cb_step E s t"
  from this(2) show "cb_inv t"
  proof cases
    case (step_config cfg)
    with inv show ?thesis by (simp add: update_config_def cb_inv_def)
  qed (use inv in \<open>auto simp: manual_trip_def trip_connectivity_def intro: cb_inv_can_trade
        cb_inv_advance cb_inv_exit cb_inv_trade cb_inv_value cb_inv_reset cb_inv_reset_daily
        cb_inv_load\<close>)
qed

subsection \<open>Properties\<close>

lemma reach_new: "reach cb_start (cb_step E) (cb_new now cfg)"
  by (rule reach_start) (auto simp: cb_start_def)

lemma reach_manual:
  "pg_wf P \<Longrightarrow> reach cb_start (cb_step E) (manual_trip P t (cb_new now cfg))"
  by (rule reach_step [OF reach_new]) (rule cb_step.step_manual)

text \<open>
  C1: In every state the breaker can reach, the fast-path flag equals the stored \<open>tripped\<close>
  field; a tripped breaker has a reason, and no resume time exactly when the reason is the hard
  kill switch; the peak value is nonnegative and bounds the current value; and a recovery stage
  is 1 or below the number of stages.
\<close>

theorem cb_reachable_invariant:
  assumes "reach cb_start (cb_step E) cb"
  shows "cb_is_tripped cb = tripped (cb_state cb)
    \<and> (tripped (cb_state cb) \<longrightarrow> (\<exists>r. trip_reason (cb_state cb) = Some r
           \<and> (r = HardKillSwitch \<longleftrightarrow> resume_at (cb_state cb) = None)))
    \<and> 0 \<le> peak_value (cb_state cb) \<and> current_value (cb_state cb) \<le> peak_value (cb_state cb)
    \<and> (\<forall>rs. recovery_state (cb_state cb) = Some rs \<longrightarrow> current_stage rs \<noteq> 0
           \<and> (current_stage rs = 1 \<or> current_stage rs < total_stages rs))"
  using cb.inv_reach [OF assms]
  by (auto simp: cb_inv_def state_inv_def recovery_ok_def)

theorem cb_reachable_invariant_witness:
  "reach cb_start (cb_step exact_env) (manual_trip pg_exact 5 (cb_new 0 default_config))
   \<and> cb_is_tripped (manual_trip pg_exact 5 (cb_new 0 default_config))
   \<and> (\<exists>r. trip_reason (cb_state (manual_trip pg_exact 5 (cb_new 0 default_config))) = Some r
        \<and> (r = HardKillSwitch \<longleftrightarrow>
             resume_at (cb_state (manual_trip pg_exact 5 (cb_new 0 default_config))) = None))"
proof -
  let ?cb = "manual_trip pg_exact 5 (cb_new 0 default_config)"
  have r: "reach cb_start (cb_step exact_env) ?cb" by (rule reach_manual) simp
  have t: "tripped (cb_state ?cb)" by (simp add: manual_trip_def)
  show ?thesis
    using r t cb_reachable_invariant [OF r] by blast
qed

text \<open>
  C2: While the breaker is enabled, tripped and not in recovery, \<open>can_trade\<close> answers no until
  the cooldown has expired, and always no after a hard kill; a refusal changes nothing.
\<close>

theorem can_trade_halted:
  assumes "reach cb_start (cb_step E) cb"
    and "enabled (cb_config cb)" "tripped (cb_state cb)" "recovery_state (cb_state cb) = None"
  shows "(snd (can_trade P now now' cb) \<longleftrightarrow>
            trip_reason (cb_state cb) \<noteq> Some HardKillSwitch
            \<and> (\<exists>t. resume_at (cb_state cb) = Some t \<and> t \<le> now))
    \<and> (\<not> snd (can_trade P now now' cb) \<longrightarrow> fst (can_trade P now now' cb) = cb)"
  using cb.inv_reach [OF assms(1)] assms(2-)
  by (auto simp: can_trade_def cb_inv_def state_inv_def split: option.splits if_splits)

theorem can_trade_halted_witness:
  "\<not> snd (can_trade pg_exact 6 6 (manual_trip pg_exact 5 (cb_new 0 default_config)))
   \<and> snd (can_trade pg_exact (5 + minutes 30) 6 (manual_trip pg_exact 5 (cb_new 0 default_config)))"
proof -
  let ?cb = "manual_trip pg_exact 5 (cb_new 0 default_config)"
  have r: "reach cb_start (cb_step exact_env) ?cb" by (rule reach_manual) simp
  have h: "enabled (cb_config ?cb)" "tripped (cb_state ?cb)" "recovery_state (cb_state ?cb) = None"
    by (simp_all add: manual_trip_def cb_new_def default_config_def default_state_def)
  have t: "trip_reason (cb_state ?cb) = Some Manual"
    "resume_at (cb_state ?cb) = Some (5 + minutes 30)"
    by (simp_all add: manual_trip_def cb_new_def default_config_def)
  show ?thesis
    using can_trade_halted [OF r h, of pg_exact 6 6]
      can_trade_halted [OF r h, of pg_exact "5 + minutes 30" 6] t
    by (simp add: minutes_def ns_per_sec_def)
qed



subsubsection \<open>Gradual recovery\<close>

fun advance_run :: "pg_env \<Rightarrow> circuit_breaker \<Rightarrow> datetime list \<Rightarrow> circuit_breaker" where
  "advance_run P cb [] = cb"
| "advance_run P cb (t # ts) = advance_run P (fst (try_advance_recovery P t cb)) ts"

text \<open>Each call comes no earlier than the stage's waiting time after the previous one.\<close>

fun spaced :: "int \<Rightarrow> datetime \<Rightarrow> datetime list \<Rightarrow> bool" where
  "spaced m t0 [] = True"
| "spaced m t0 (t # ts) = (t0 \<le> t \<and> spaced m (t + minutes m) ts)"

definition stages_left :: "RecoveryState \<Rightarrow> nat" where
  "stages_left r = unat (total_stages r) - unat (current_stage r)"

lemma advance_stage_left:
  assumes "\<not> is_fully_recovered r"
  shows "stages_left r = Suc (stages_left (advance_stage now cfg r))"
    and "is_fully_recovered (advance_stage now cfg r) \<longleftrightarrow> stages_left r = 1"
  using assms u32_succ [of "current_stage r" "total_stages r"]
  by (auto simp: stages_left_def advance_stage_def is_fully_recovered_def not_le
      word_less_nat_alt word_le_nat_alt)

lemma try_advance_ready:
  assumes "recovery_state (cb_state cb) = Some r" and "\<not> is_fully_recovered r"
    and "stage_ready now (cb_config cb) r"
  shows "recovery_state (cb_state (fst (try_advance_recovery P now cb))) =
           (if stages_left r = 1 then None else Some (advance_stage now (cb_config cb) r))"
    and "cb_config (fst (try_advance_recovery P now cb)) = cb_config cb"
    and "snd (try_advance_recovery P now cb)"
  using assms advance_stage_left(2) [OF assms(2), of now "cb_config cb"]
  by (auto simp: try_advance_recovery_def Let_def)

lemma stages_left_pos: "\<not> is_fully_recovered r \<Longrightarrow> 0 < stages_left r"
  by (simp add: stages_left_def is_fully_recovered_def not_le word_less_nat_alt)

lemma advance_run_completes:
  assumes "recovery_state (cb_state cb) = Some r" "\<not> is_fully_recovered r"
    and "next_stage_at r = Some t0" "\<not> require_profit_to_advance (cb_config cb)"
    and "spaced (recovery_stage_minutes (cb_config cb)) t0 ts" "length ts = stages_left r"
  shows "recovery_state (cb_state (advance_run P cb ts)) = None"
  using assms
proof (induction ts arbitrary: cb r t0)
  case Nil
  then show ?case using stages_left_pos [of r] by simp
next
  case (Cons t ts)
  let ?cb = "fst (try_advance_recovery P t cb)" and ?r = "advance_stage t (cb_config cb) r"
  have ready: "stage_ready t (cb_config cb) r" using Cons.prems by (simp add: stage_ready_def)
  note adv = try_advance_ready [OF Cons.prems(1,2) ready, of P]
  show ?case
  proof (cases "stages_left r = 1")
    case True
    with Cons.prems adv show ?thesis by simp
  next
    case False
    have "recovery_state (cb_state (advance_run P ?cb ts)) = None"
    proof (rule Cons.IH [of ?cb ?r "t + minutes (recovery_stage_minutes (cb_config cb))"])
      show "recovery_state (cb_state ?cb) = Some ?r" using adv(1) False by simp
      show "\<not> is_fully_recovered ?r"
        using advance_stage_left(2) [OF Cons.prems(2), of t "cb_config cb"] False by simp
      show "length ts = stages_left ?r"
        using advance_stage_left(1) [OF Cons.prems(2), of t "cb_config cb"] Cons.prems(6) by simp
    qed (use Cons.prems adv in \<open>auto simp: advance_stage_def\<close>)
    then show ?thesis by simp
  qed
qed

text \<open>
  C14: Recovery completes. From a stage below the last, without the profit requirement, as many
  well-spaced calls of \<open>try_advance_recovery\<close> as stages are left end recovery mode and restore
  full trading capacity.
\<close>

theorem recovery_completes:
  assumes "recovery_state (cb_state cb) = Some r" "current_stage r < total_stages r"
    and "next_stage_at r = Some t0" "\<not> require_profit_to_advance (cb_config cb)"
    and "spaced (recovery_stage_minutes (cb_config cb)) t0 ts"
    and "length ts = unat (total_stages r) - unat (current_stage r)"
  shows "\<not> is_in_recovery (advance_run P cb ts) \<and> trading_capacity E (advance_run P cb ts) = Some 1"
proof -
  from assms(2) have "\<not> is_fully_recovered r" by (simp add: is_fully_recovered_def not_le)
  with assms have "recovery_state (cb_state (advance_run P cb ts)) = None"
    by (intro advance_run_completes) (auto simp: stages_left_def)
  then show ?thesis by (simp add: is_in_recovery_def trading_capacity_def)
qed

theorem recovery_completes_witness:
  "\<not> is_in_recovery (advance_run pg_exact
       (start_recovery pg_exact 0 (cb_new 0 default_config)) [minutes 10, minutes 20])"
proof -
  let ?cb = "start_recovery pg_exact 0 (cb_new 0 default_config)"
  let ?r = "new_recovery 0 3 10"
  have "\<not> is_in_recovery (advance_run pg_exact ?cb [minutes 10, minutes 20])
        \<and> trading_capacity exact_env (advance_run pg_exact ?cb [minutes 10, minutes 20]) = Some 1"
    by (rule recovery_completes [of ?cb ?r "minutes 10"])
      (simp_all add: start_recovery_def cb_new_def default_config_def new_recovery_def minutes_def)
  then show ?thesis by simp
qed

lemma capacity_bounds:
  assumes "numeric_env E" and ok: "recovery_ok r" and "total_stages r \<noteq> 0"
  obtains c where "capacity_pct E r = Some c" "0 < c" "c \<le> 1"
proof -
  let ?s = "of_nat (unat (current_stage r)) :: rat" and ?n = "of_nat (unat (total_stages r)) :: rat"
  have n: "unat (total_stages r) < 2 ^ LENGTH(32)" by (rule unsigned_less)
  have le: "unat (current_stage r) \<le> unat (total_stages r)" and s: "0 < unat (current_stage r)"
    using ok assms(3)
    by (auto simp: recovery_ok_def word_less_nat_alt unat_eq_zero unat_gt_0 Suc_le_eq)
  then have sn: "?s \<le> ?n" by (simp only: of_nat_le_iff)
  have s1: "1 \<le> ?s" using s by (metis One_nat_def Suc_leI of_nat_1 of_nat_le_iff)
  with sn have n0: "0 < ?n" by linarith
  have small: "1 / 10 ^ 10 \<le> ?s / ?n"
  proof -
    have "?n \<le> of_nat (10 ^ 10)" using n by (simp only: of_nat_le_iff) simp
    then have "?n \<le> 10 ^ 10" by simp
    then show ?thesis using n0 s1 by (simp add: field_simps)
  qed
  have rep: "dec_rep (1 / 10 ^ 10)" by (rule dec_repI [of 10 _ 1]) auto
  have "1 / 10 ^ 10 \<le> dec_round E (?s / ?n)"
    by (rule numeric_env.round_ge_rep [OF assms(1) rep small])
  moreover have "dec_round E (?s / ?n) \<le> 1"
    using n0 sn by (intro numeric_env.round_le_1 [OF assms(1)]) (simp add: field_simps)
  ultimately show ?thesis
    using assms(3) by (intro that [of "dec_round E (?s / ?n)"])
      (auto simp: capacity_pct_def ddiv_def dec_of_u32_def intro: less_le_trans [rotated])
qed

text \<open>
  In every reachable state whose recovery has at least one stage, the trading capacity is
  defined (no division by zero) and lies in \<open>(0, 1]\<close>, whatever the rounding of the division.
\<close>

theorem trading_capacity_bounds:
  assumes "numeric_env E" and "reach cb_start (cb_step E) cb"
    and "\<And>r. recovery_state (cb_state cb) = Some r \<Longrightarrow> total_stages r \<noteq> 0"
  shows "\<exists>c. trading_capacity E cb = Some c \<and> 0 < c \<and> c \<le> 1"
proof (cases "recovery_state (cb_state cb)")
  case None
  then show ?thesis by (simp add: trading_capacity_def)
next
  case (Some r)
  then have "recovery_ok r" using cb.inv_reach [OF assms(2)] by (rule cb_inv_recovery_ok [rotated])
  from capacity_bounds [OF assms(1) this assms(3) [OF Some]] show ?thesis
    using Some by (auto simp: trading_capacity_def)
qed

text \<open>After a trip the capacity is still 1; in recovery of three stages it starts at one third.\<close>

theorem trading_capacity_bounds_witness:
  "\<exists>c. trading_capacity round28_env
         (fst (can_trade pg_exact (5 + minutes 30) 0 (manual_trip pg_exact 5 (cb_new 0 default_config))))
       = Some c \<and> 0 < c \<and> c \<le> 1"
proof -
  let ?cb = "manual_trip pg_exact 5 (cb_new 0 default_config)"
  let ?cb' = "fst (can_trade pg_exact (5 + minutes 30) 0 ?cb)"
  have "reach cb_start (cb_step round28_env) ?cb" by (rule reach_manual) simp
  then have r: "reach cb_start (cb_step round28_env) ?cb'"
    by (rule reach_step) (rule cb_step.step_can_trade, simp)
  have "recovery_state (cb_state ?cb') = Some (new_recovery 0 3 10)"
    by (simp add: can_trade_def manual_trip_def cb_new_def default_config_def default_state_def
        start_recovery_def)
  then show ?thesis
    by (intro trading_capacity_bounds [OF nearest.numeric_env_axioms r]) (simp add: new_recovery_def)
qed

subsubsection \<open>The hard kill switch\<close>

definition hard_killed :: "circuit_breaker \<Rightarrow> bool" where
  "hard_killed cb \<longleftrightarrow> cb_is_tripped cb \<and> tripped (cb_state cb)
     \<and> trip_reason (cb_state cb) = Some HardKillSwitch \<and> resume_at (cb_state cb) = None
     \<and> recovery_state (cb_state cb) = None"

lemma record_trade_keeps_tripped:
  "cb_is_tripped cb \<Longrightarrow> recovery_state (cb_state cb) = None \<Longrightarrow>
   cb_is_tripped (fst (record_trade E P now now' pnl w cb))
   \<and> recovery_state (cb_state (fst (record_trade E P now now' pnl w cb))) = None"
  by (simp add: record_trade_def record_trade_trip_def Let_def split: option.split)

lemma update_value_keeps_tripped:
  "cb_is_tripped cb \<Longrightarrow> recovery_state (cb_state cb) = None \<Longrightarrow>
   cb_is_tripped (fst (update_portfolio_value E P now v cb))
   \<and> recovery_state (cb_state (fst (update_portfolio_value E P now v cb))) = None"
  by (simp add: update_portfolio_value_def Let_def)

text \<open>
  After a hard kill no single operation resumes trading except an explicit \<open>reset\<close> and the
  loading of another state at startup: every other operation leaves the breaker tripped and out
  of recovery.
\<close>

theorem hard_kill_step:
  assumes "hard_killed cb" and "cb_step E cb cb'"
  shows "(cb_is_tripped cb' \<and> recovery_state (cb_state cb') = None)
    \<or> (\<exists>P i. cb' = cb_reset P i cb)
    \<or> (\<exists>P now now_row now_resume. cb' = fst (load_state P now now_row now_resume cb))"
  using assms(2)
proof cases
  case (step_can_trade P now now')
  with assms(1) show ?thesis by (simp add: can_trade_def hard_killed_def)
next
  case (step_advance P now)
  with assms(1) show ?thesis by (simp add: try_advance_recovery_def hard_killed_def)
next
  case (step_trade P now now' pnl w)
  with assms(1) show ?thesis using record_trade_keeps_tripped by (simp add: hard_killed_def)
next
  case (step_value P now v)
  with assms(1) show ?thesis using update_value_keeps_tripped by (simp add: hard_killed_def)
qed (use assms in \<open>auto simp: hard_killed_def exit_recovery_def manual_trip_def
      trip_connectivity_def reset_daily_def update_config_def\<close>)

definition killed_example :: circuit_breaker where
  "killed_example = fst (update_portfolio_value exact_env pg_exact 9 50
     (fst (update_portfolio_value exact_env pg_exact 8 100 (cb_new 0 default_config))))"

lemmas example_defs = killed_example_def update_portfolio_value_def cb_new_def default_config_def
  default_state_def Let_def hard_kill_hit_def drawdown_def dec_new_def trip_internal_def

lemma killed_example_facts:
  "hard_killed killed_example" "cb_config killed_example = default_config"
  "cb_repo killed_example = None"
  by (simp_all add: hard_killed_def persist_state_def example_defs)

theorem hard_kill_step_witness:
  "hard_killed killed_example
   \<and> cb_is_tripped (fst (can_trade pg_exact (10 ^ 30) 0 killed_example))
   \<and> recovery_state (cb_state (fst (can_trade pg_exact (10 ^ 30) 0 killed_example))) = None"
proof -
  let ?cb' = "fst (can_trade pg_exact (10 ^ 30) 0 killed_example)"
  have "cb_step exact_env killed_example ?cb'" by (rule cb_step.step_can_trade) simp
  note disj = hard_kill_step [OF killed_example_facts(1) this]
  have same: "?cb' = killed_example"
    using killed_example_facts by (simp add: can_trade_def hard_killed_def default_config_def)
  have "?cb' \<noteq> cb_reset P i killed_example" for P i
    using killed_example_facts(1) by (metis same cb_reset_fields(2) hard_killed_def)
  moreover have "cb_is_tripped (fst (load_state P now a b killed_example))" for P now a b
    using killed_example_facts by (simp add: load_state_def hard_killed_def)
  ultimately show ?thesis
    using disj killed_example_facts(1) same by (auto simp: hard_killed_def)
qed

text \<open>
  The hard kill is not permanent: an ordinary trip replaces it. Any later connectivity trip
  gives the breaker a resume time again, and once the cooldown has passed \<open>can_trade\<close> allows
  trading although nobody reset the breaker.
\<close>

theorem hard_kill_overwritten:
  assumes "hard_killed cb" "enabled (cb_config cb)"
  shows "\<not> snd (can_trade P t t' cb)
    \<and> snd (can_trade P (now + minutes (cooldown_minutes (cb_config cb))) t' (trip_connectivity P now cb))"
  using assms by (simp add: can_trade_def trip_connectivity_def hard_killed_def)

theorem hard_kill_overwritten_witness:
  "\<not> snd (can_trade pg_exact 100 100 killed_example)
   \<and> snd (can_trade pg_exact (10 + minutes 30) 100 (trip_connectivity pg_exact 10 killed_example))"
  using hard_kill_overwritten [OF killed_example_facts(1), of pg_exact 100 100 10]
    killed_example_facts(2)
  by (simp add: default_config_def)

text \<open>
  A hard kill detected by \<open>update_portfolio_value\<close> during recovery does not halt trading: the
  recovery state survives the trip, and \<open>can_trade\<close> keeps answering yes.
\<close>

theorem hard_kill_ignored_in_recovery:
  assumes "enabled (cb_config cb)" "is_in_recovery cb"
    and "update_portfolio_value E P now v cb = (cb', Some HardKillSwitch)"
  shows "cb_is_tripped cb' \<and> trip_reason (cb_state cb') = Some HardKillSwitch
    \<and> snd (can_trade P t t' cb')"
  using assms
  by (auto simp: update_portfolio_value_def is_in_recovery_def can_trade_def Let_def split: if_splits)

theorem hard_kill_ignored_in_recovery_witness:
  "\<exists>cb'. update_portfolio_value exact_env pg_exact 9 50
           (start_recovery pg_exact 8 (fst (update_portfolio_value exact_env pg_exact 7 100
              (cb_new 0 default_config)))) = (cb', Some HardKillSwitch)
         \<and> snd (can_trade pg_exact 10 10 cb')"
proof -
  let ?cb = "start_recovery pg_exact 8 (fst (update_portfolio_value exact_env pg_exact 7 100
              (cb_new 0 default_config)))"
  let ?r = "update_portfolio_value exact_env pg_exact 9 50 ?cb"
  have h: "enabled (cb_config ?cb)" "is_in_recovery ?cb"
    by (simp_all add: start_recovery_def is_in_recovery_def example_defs)
  have "snd ?r = Some HardKillSwitch"
    by (simp add: start_recovery_def example_defs)
  then have r: "?r = (fst ?r, Some HardKillSwitch)" by (simp add: prod_eq_iff)
  from hard_kill_ignored_in_recovery [OF h r] r show ?thesis by blast
qed

subsubsection \<open>Restarts\<close>

text \<open>
  Restarting on the day of the last reset restores what was persisted: with a database whose
  statements succeed, the reloaded breaker has the same trip, reason, loss counters and (as the
  columns round them) amounts and times; in particular a hard kill stays in force.
\<close>

theorem same_day_restart:
  assumes "\<And>i. pg_ok P i" and "cb_repo cb = Some (Some row)"
    and "\<not> row_last_reset_date row < date_naive now"
    and "trip_reason (cb_state cb) = Some HardKillSwitch" "tripped (cb_state cb)"
    and "cb_repo (persist_state P i cb) = Some row'"
  shows "\<exists>cb'. load_state P now t1 t2 (cb_with_persistence t0 cfg row') = (cb', Some True)
    \<and> cb_is_tripped cb' \<and> trip_reason (cb_state cb') = Some HardKillSwitch
    \<and> daily_pnl (cb_state cb') = pg_dec P (daily_pnl (cb_state cb))
    \<and> peak_value (cb_state cb') = pg_dec P (peak_value (cb_state cb))
    \<and> consecutive_losses (cb_state cb') = consecutive_losses (cb_state cb)
    \<and> trips_today (cb_state cb') = trips_today (cb_state cb)"
proof -
  let ?row = "repo_save P (cb_state cb) row"
  from assms(1,2,6) have row': "row' = Some ?row" by (simp add: persist_state_def)
  have date: "row_last_reset_date ?row = row_last_reset_date row" by (simp add: repo_save_def)
  show ?thesis
    using assms(1,3,4,5)
    by (simp add: load_state_def cb_with_persistence_def row' date repo_load_save Let_def)
qed

text \<open>
  The first restart on a later day erases the persisted trip. If the row's reset date lies
  before today, \<open>load_state\<close> never reads the row: it saves the fresh default state over it, so
  trading is allowed again, even when the row recorded a hard kill.
\<close>

theorem next_day_restart_clears_trip:
  assumes "\<And>i. pg_ok P i" and "row_last_reset_date row < date_naive now"
  shows "\<exists>cb' row'. load_state P now t1 t2 (cb_with_persistence t0 cfg (Some row)) = (cb', Some True)
    \<and> \<not> cb_is_tripped cb' \<and> snd (can_trade P t t' cb')
    \<and> cb_repo cb' = Some (Some row') \<and> \<not> row_tripped row' \<and> row_trip_reason row' = None"
  using assms
  by (simp add: load_state_def cb_with_persistence_def Let_def reset_daily_def persist_state_def
      can_trade_def default_state_def repo_save_def)

definition killed_row :: cb_row where
  "killed_row = \<lparr>row_tripped = True, row_trip_reason = Some ''hard_kill_switch'',
     row_tripped_at = Some 5, row_resume_at = None, row_daily_pnl = - 900, row_peak_value = 2000,
     row_current_value = 1000, row_consecutive_losses = 4, row_trips_today = 1,
     row_last_reset_date = 0\<rparr>"

theorem same_day_restart_witness:
  "\<exists>cb'. load_state pg_exact 9 9 9 (cb_with_persistence 8 default_config
           (Some (repo_save pg_exact (repo_load 7 killed_row) killed_row))) = (cb', Some True)
         \<and> cb_is_tripped cb' \<and> trip_reason (cb_state cb') = Some HardKillSwitch"
proof -
  let ?cb = "cb_with_persistence 6 default_config (Some killed_row)\<lparr>cb_state := repo_load 7 killed_row\<rparr>"
  have ok: "\<And>i. pg_ok pg_exact i" by (simp add: pg_exact_def)
  have h: "cb_repo ?cb = Some (Some killed_row)" "\<not> row_last_reset_date killed_row < date_naive 9"
    "trip_reason (cb_state ?cb) = Some HardKillSwitch" "tripped (cb_state ?cb)"
    by (simp_all add: cb_with_persistence_def killed_row_def repo_load_def parse_trip_reason_def
        date_naive_def ns_per_sec_def)
  have s: "cb_repo (persist_state pg_exact 0 ?cb)
    = Some (Some (repo_save pg_exact (repo_load 7 killed_row) killed_row))"
    by (simp add: persist_state_def cb_with_persistence_def ok)
  from same_day_restart [OF ok h s] show ?thesis by blast
qed

theorem next_day_restart_clears_trip_witness:
  "row_trip_reason killed_row = Some ''hard_kill_switch''
   \<and> (\<exists>cb'. load_state pg_exact (10 ^ 15) 0 0 (cb_with_persistence 0 default_config (Some killed_row))
             = (cb', Some True) \<and> \<not> cb_is_tripped cb')"
proof -
  have "row_last_reset_date killed_row < date_naive (10 ^ 15)"
    by (simp add: killed_row_def date_naive_def ns_per_sec_def)
  moreover have "\<And>i. pg_ok pg_exact i" by (simp add: pg_exact_def)
  ultimately show ?thesis
    using next_day_restart_clears_trip [of pg_exact killed_row "10 ^ 15" 0 0 0 default_config 0 0]
    by (simp add: killed_row_def) blast
qed

end
