(* ===== verification/Market.thy ===== *)
theory Market
  imports Numeric
begin

section \<open>Order books and arbitrage opportunities\<close>

text \<open>
  Model of \<open>crates/polymarket-core/src/types/market.rs\<close>: order books, the paired book of a binary
  market, and the arbitrage opportunity computed from it, with the flat-fee and the
  share-based fee model. The lemmas bound the fee and characterise when an opportunity exists.
\<close>

subsection \<open>Data\<close>

record Outcome =
  oc_id :: string
  oc_name :: string
  oc_token_id :: string
  oc_price :: "decimal option"
  oc_winner :: "bool option"

record Market =
  mkt_id :: string
  mkt_question :: string
  mkt_description :: "string option"
  mkt_outcomes :: "Outcome list"
  mkt_volume :: decimal
  mkt_liquidity :: decimal
  mkt_end_date :: "datetime option"
  mkt_resolved :: bool
  mkt_resolution :: "string option"
  mkt_category :: "string option"
  mkt_tags :: "string list"
  mkt_fees_enabled :: bool
  mkt_fee_type :: "string option"

record PriceLevel =
  pl_price :: decimal
  pl_size :: decimal

record OrderBook =
  ob_market_id :: string
  ob_outcome_id :: string
  ob_timestamp :: datetime
  bids :: "PriceLevel list"
  asks :: "PriceLevel list"

record BinaryMarketBook =
  bm_market_id :: string
  bm_timestamp :: datetime
  yes_book :: OrderBook
  no_book :: OrderBook

record ArbOpportunity =
  arb_market_id :: string
  arb_timestamp :: datetime
  yes_ask :: decimal
  no_ask :: decimal
  total_cost :: decimal
  gross_profit :: decimal
  net_profit :: decimal
  fee_drag :: decimal
  worst_case_payout :: decimal
  yes_fee_shares :: decimal
  no_fee_shares :: decimal

subsection \<open>Operations\<close>

fun first :: "'a list \<Rightarrow> 'a option" where
  "first [] = None"
| "first (x # _) = Some x"

definition best_bid :: "OrderBook \<Rightarrow> decimal option" where
  "best_bid b = map_option pl_price (first (bids b))"

definition best_ask :: "OrderBook \<Rightarrow> decimal option" where
  "best_ask b = map_option pl_price (first (asks b))"

definition book_entry_cost ::
  "num_env \<Rightarrow> BinaryMarketBook \<Rightarrow> (decimal \<times> decimal \<times> decimal) option" where
  "book_entry_cost E b =
     (case best_ask (yes_book b) of
        None \<Rightarrow> None
      | Some y \<Rightarrow> (case best_ask (no_book b) of
                    None \<Rightarrow> None
                  | Some n \<Rightarrow> Some (y, n, dadd E y n)))"

definition entry_cost_with_depth ::
  "num_env \<Rightarrow> decimal \<Rightarrow> BinaryMarketBook
     \<Rightarrow> (decimal \<times> decimal \<times> decimal \<times> decimal \<times> decimal) option" where
  "entry_cost_with_depth E min_depth_usd b =
     (case first (asks (yes_book b)) of
        None \<Rightarrow> None
      | Some y \<Rightarrow> (case first (asks (no_book b)) of
          None \<Rightarrow> None
        | Some n \<Rightarrow>
            if dmul E (pl_price y) (pl_size y) < min_depth_usd
               \<or> dmul E (pl_price n) (pl_size n) < min_depth_usd then None
            else Some (pl_price y, pl_price n, dadd E (pl_price y) (pl_price n),
                       pl_size y, pl_size n)))"

definition exit_value ::
  "num_env \<Rightarrow> BinaryMarketBook \<Rightarrow> (decimal \<times> decimal \<times> decimal) option" where
  "exit_value E b =
     (case best_bid (yes_book b) of
        None \<Rightarrow> None
      | Some y \<Rightarrow> (case best_bid (no_book b) of
                    None \<Rightarrow> None
                  | Some n \<Rightarrow> Some (y, n, dadd E y n)))"

definition DEFAULT_FEE :: decimal where
  "DEFAULT_FEE = dec_new 2 2"

definition FEE_ENABLED_BASE_RATE :: decimal where
  "FEE_ENABLED_BASE_RATE = dec_new 25 2"

definition arb_calculate :: "num_env \<Rightarrow> BinaryMarketBook \<Rightarrow> decimal \<Rightarrow> ArbOpportunity option" where
  "arb_calculate E b fee =
     (case book_entry_cost E b of
        None \<Rightarrow> None
      | Some (y, n, cost) \<Rightarrow>
          if cost \<le> 0 then None
          else let gross = dsub E 1 cost
               in Some \<lparr>arb_market_id = bm_market_id b, arb_timestamp = bm_timestamp b,
                    yes_ask = y, no_ask = n, total_cost = cost, gross_profit = gross,
                    net_profit = dsub E gross (dmul E cost fee), fee_drag = dmul E cost fee,
                    worst_case_payout = dsub E 1 (dmul E cost fee),
                    yes_fee_shares = 0, no_fee_shares = 0\<rparr>)"

text \<open>
  The buy-side fee in shares. \<open>to_f64\<close> on a Decimal always succeeds, and \<open>powi(2)\<close> is one
  multiplication.
\<close>

definition estimate_buy_fee_shares :: "num_env \<Rightarrow> decimal \<Rightarrow> bool \<Rightarrow> decimal" where
  "estimate_buy_fee_shares E price fees_enabled =
     (if \<not> fees_enabled then 0
      else
        let bounded_price = min (max price 0) 1;
            curve_input = dmul E bounded_price (dsub E 1 bounded_price)
        in if curve_input \<le> 0 then 0
           else
             let base_rate = dec_to_f64 E FEE_ENABLED_BASE_RATE;
                 curve_value = dec_to_f64 E curve_input;
                 fee_shares = fmul E base_rate (fmul E curve_value curve_value)
             in case f64_to_dec E fee_shares of None \<Rightarrow> 0 | Some d \<Rightarrow> d)"

definition calculate_with_fees_enabled ::
  "num_env \<Rightarrow> BinaryMarketBook \<Rightarrow> bool \<Rightarrow> ArbOpportunity option" where
  "calculate_with_fees_enabled E b fees_enabled =
     (case book_entry_cost E b of
        None \<Rightarrow> None
      | Some (y, n, cost) \<Rightarrow>
          if cost \<le> 0 then None
          else
            let yf = estimate_buy_fee_shares E y fees_enabled;
                nf = estimate_buy_fee_shares E n fees_enabled;
                drag = max yf nf;
                payout = max (dsub E 1 drag) 0
            in Some \<lparr>arb_market_id = bm_market_id b, arb_timestamp = bm_timestamp b,
                 yes_ask = y, no_ask = n, total_cost = cost, gross_profit = dsub E 1 cost,
                 net_profit = dsub E payout cost, fee_drag = drag, worst_case_payout = payout,
                 yes_fee_shares = yf, no_fee_shares = nf\<rparr>)"

definition is_profitable :: "ArbOpportunity \<Rightarrow> bool" where
  "is_profitable a = (0 < net_profit a)"

subsection \<open>Properties\<close>

lemma dec_const_rep [simp]:
  "dec_rep (1 / 4)" "dec_rep (1 / 64)" "f64_rep (1 / 4)" "f64_rep (1 / 64)" "f64_rep (1 / 16)"
  "f64_rep 0" "f64_rep 1"
  by (rule dec_repI [of 2 _ 25], auto, rule dec_repI [of 6 _ 15625], auto,
      rule f64_repI [of 2 _ 1], auto, rule f64_repI [of 6 _ 1], auto,
      rule f64_repI [of 4 _ 1], auto, rule f64_repI [of 0 _ 0], auto, rule f64_repI [of 0 _ 1], auto)

lemma base_rate_quarter: "FEE_ENABLED_BASE_RATE = 1 / 4"
  by (simp add: FEE_ENABLED_BASE_RATE_def dec_new_def)

lemma quarter_max: "(x :: rat) * (1 - x) \<le> 1 / 4"
proof -
  have "0 \<le> (x - 1 / 2) * (x - 1 / 2)" by simp
  then show ?thesis by (simp add: algebra_simps)
qed

text \<open>The curve input \<open>p (1 - p)\<close> of a representable price is at most one quarter.\<close>

lemma curve_input_bound:
  assumes "numeric_env E" "dec_rep p" "0 \<le> p" "p \<le> 1"
  shows "dmul E p (dsub E 1 p) \<le> 1 / 4"
proof -
  have "dsub E 1 p = 1 - p"
    using assms by (simp add: dsub_def numeric_env.dec_exact dec_rep_one_minus)
  moreover have "dec_round E (p * (1 - p)) \<le> 1 / 4"
    by (rule numeric_env.round_le_rep [OF assms(1) dec_const_rep(1) quarter_max])
  ultimately show ?thesis by (simp add: dmul_def)
qed

lemma fee_shares_range:
  assumes "numeric_env E" "dec_rep price"
  shows "0 \<le> estimate_buy_fee_shares E price fe \<and> estimate_buy_fee_shares E price fe \<le> 1 / 64"
proof -
  define p where "p = min (max price 0) 1"
  define c where "c = dmul E p (dsub E 1 p)"
  define v where "v = dec_to_f64 E c"
  have p: "dec_rep p" "0 \<le> p" "p \<le> 1" using assms(2) by (auto simp: p_def min_def max_def)
  have c: "c \<le> 1 / 4" unfolding c_def by (rule curve_input_bound [OF assms(1) p])
  have fee: "0 \<le> d \<and> d \<le> 1 / 64"
    if pos: "0 < c" and d: "f64_to_dec E (fmul E (dec_to_f64 E FEE_ENABLED_BASE_RATE) (fmul E v v)) = Some d" for d
  proof -
    note env = assms(1)
    have v0: "0 \<le> v"
      using numeric_env.to_f64_mono [OF env, of 0 c] numeric_env.to_f64_exact [OF env, of 0] pos
      by (simp add: v_def)
    have v1: "v \<le> 1 / 4"
      using numeric_env.to_f64_mono [OF env c] numeric_env.to_f64_exact [OF env, of "1 / 4"]
      by (simp add: v_def)
    have vv: "v * v \<le> 1 / 4 * (1 / 4)" using v0 v1 by (intro mult_mono) auto
    have sq: "0 \<le> fmul E v v" "fmul E v v \<le> 1 / 16"
      using numeric_env.f64_mono [OF env, of 0 "v * v"] numeric_env.f64_exact [OF env, of 0]
        numeric_env.f64_mono [OF env vv] numeric_env.f64_exact [OF env, of "1 / 16"] v0
      by (simp_all add: fmul_def)
    have base: "dec_to_f64 E FEE_ENABLED_BASE_RATE = 1 / 4"
      by (simp add: base_rate_quarter numeric_env.to_f64_exact [OF env])
    have "1 / 4 * fmul E v v \<le> 1 / 64" using sq by simp
    then have "0 \<le> fmul E (1 / 4) (fmul E v v)" "fmul E (1 / 4) (fmul E v v) \<le> 1 / 64"
      using numeric_env.f64_mono [OF env, of 0 "1 / 4 * fmul E v v"] numeric_env.f64_exact [OF env, of 0]
        numeric_env.f64_mono [OF env, of "1 / 4 * fmul E v v" "1 / 64"]
        numeric_env.f64_exact [OF env, of "1 / 64"] sq
      by (simp_all add: fmul_def)
    with d base show ?thesis by (intro numeric_env.of_f64_bounds [OF env]) auto
  qed
  show ?thesis
    unfolding estimate_buy_fee_shares_def Let_def p_def [symmetric] c_def [symmetric] v_def [symmetric]
    using fee by (auto simp: not_le split: option.split)
qed

lemma fee_shares_nonneg:
  "numeric_env E \<Longrightarrow> dec_rep price \<Longrightarrow> 0 \<le> estimate_buy_fee_shares E price fe"
  using fee_shares_range by blast

text \<open>
  The estimated buy fee of a fee-enabled market lies between 0 and 1/64 of a share, for
  every Decimal price (also outside \<open>[0, 1]\<close>) and every rounding that respects the contract.
\<close>

theorem fee_shares_bounds:
  assumes "numeric_env E" "dec_rep price"
  shows "0 \<le> estimate_buy_fee_shares E price fe \<and> estimate_buy_fee_shares E price fe \<le> 1 / 64"
  by (rule fee_shares_range [OF assms])

theorem fee_shares_bounds_witness:
  "0 \<le> estimate_buy_fee_shares round28_env (1 / 2) True
   \<and> estimate_buy_fee_shares round28_env (1 / 2) True \<le> 1 / 64"
proof -
  have "dec_rep (1 / 2)" by (rule dec_repI [of 1 _ 5]) auto
  then show ?thesis by (rule fee_shares_bounds [OF nearest.numeric_env_axioms])
qed

lemma calculate_with_fees_SomeD:
  assumes "calculate_with_fees_enabled E b fe = Some a"
  shows "total_cost a = dadd E (yes_ask a) (no_ask a)" "0 < total_cost a"
    and "worst_case_payout a = max (dsub E 1 (max (yes_fee_shares a) (no_fee_shares a))) 0"
    and "net_profit a = dsub E (worst_case_payout a) (total_cost a)"
    and "arb_market_id a = bm_market_id b"
  using assms
  by (auto simp: calculate_with_fees_enabled_def book_entry_cost_def Let_def
      split: option.splits if_splits)

end
