(* ===== verification/Orders.thy ===== *)
theory Orders
  imports Market
begin

section \<open>Orders and execution reports\<close>

text \<open>
  Model of \<open>crates/polymarket-core/src/types/order.rs\<close>: market and limit orders, the report of an
  execution with its constructors, and the paired order of an arbitrage. An id made by
  \<open>Uuid::new_v4()\<close> and the clock are arguments of the constructors.
\<close>

subsection \<open>Data\<close>

datatype OrderSide = Buy | Sell

datatype OrderType = MarketType | LimitType | GTC | FOK

datatype OrderStatus = Created | PendingStatus | PartiallyFilled | Filled | Cancelled | Rejected | Expired

record MarketOrder =
  mo_id :: uuid
  mo_market_id :: string
  mo_outcome_id :: string
  mo_side :: OrderSide
  mo_quantity :: decimal
  mo_created_at :: datetime
  mo_status :: OrderStatus
  max_slippage :: "decimal option"
  expected_price :: decimal

record LimitOrder =
  lo_id :: uuid
  lo_market_id :: string
  lo_outcome_id :: string
  lo_side :: OrderSide
  lo_price :: decimal
  lo_quantity :: decimal
  lo_order_type :: OrderType
  lo_created_at :: datetime
  expires_at :: "datetime option"
  lo_status :: OrderStatus
  lo_filled_quantity :: decimal
  average_fill_price :: "decimal option"

text \<open>
  The message of a rejected order. The variants that the sources build with \<open>format!\<close> carry the
  interpolated values; \<open>Message\<close> is any other text.
\<close>

datatype order_error =
    OrderTooLarge decimal decimal
  | InsufficientLiquidity decimal decimal
  | ExceedsBestLevel decimal decimal
  | SlippageExceeded decimal decimal
  | RetriesExhausted u32 string
  | Message string

record ExecutionReport =
  er_order_id :: uuid
  exchange_order_id :: "string option"
  er_market_id :: string
  er_outcome_id :: string
  er_side :: OrderSide
  er_status :: OrderStatus
  requested_quantity :: decimal
  filled_quantity :: decimal
  average_price :: decimal
  fees_paid :: decimal
  executed_at :: datetime
  transaction_hash :: "string option"
  error_message :: "order_error option"

record ArbOrder =
  ao_id :: uuid
  ao_market_id :: string
  yes_order :: MarketOrder
  no_order :: MarketOrder
  total_quantity :: decimal
  expected_cost :: decimal
  expected_profit :: decimal
  ao_created_at :: datetime

subsection \<open>Operations\<close>

definition new_market_order ::
  "uuid \<Rightarrow> datetime \<Rightarrow> string \<Rightarrow> string \<Rightarrow> OrderSide \<Rightarrow> decimal \<Rightarrow> MarketOrder" where
  "new_market_order oid now market outcome side qty = \<lparr>mo_id = oid, mo_market_id = market,
     mo_outcome_id = outcome, mo_side = side, mo_quantity = qty, mo_created_at = now,
     mo_status = Created, max_slippage = None, expected_price = 0\<rparr>"

definition with_slippage :: "decimal \<Rightarrow> MarketOrder \<Rightarrow> MarketOrder" where
  "with_slippage slippage o1 = o1\<lparr>max_slippage := Some slippage\<rparr>"

definition with_expected_price :: "decimal \<Rightarrow> MarketOrder \<Rightarrow> MarketOrder" where
  "with_expected_price price o1 = o1\<lparr>expected_price := price\<rparr>"

definition new_limit_order ::
  "uuid \<Rightarrow> datetime \<Rightarrow> string \<Rightarrow> string \<Rightarrow> OrderSide \<Rightarrow> decimal \<Rightarrow> decimal \<Rightarrow> LimitOrder" where
  "new_limit_order oid now market outcome side price qty = \<lparr>lo_id = oid, lo_market_id = market,
     lo_outcome_id = outcome, lo_side = side, lo_price = price, lo_quantity = qty,
     lo_order_type = LimitType, lo_created_at = now, expires_at = None, lo_status = Created,
     lo_filled_quantity = 0, average_fill_price = None\<rparr>"

definition lo_gtc :: "LimitOrder \<Rightarrow> LimitOrder" where
  "lo_gtc o1 = o1\<lparr>lo_order_type := GTC\<rparr>"

definition lo_fok :: "LimitOrder \<Rightarrow> LimitOrder" where
  "lo_fok o1 = o1\<lparr>lo_order_type := FOK\<rparr>"

definition with_expiry :: "datetime \<Rightarrow> LimitOrder \<Rightarrow> LimitOrder" where
  "with_expiry t o1 = o1\<lparr>expires_at := Some t\<rparr>"

definition remaining_quantity :: "num_env \<Rightarrow> LimitOrder \<Rightarrow> decimal" where
  "remaining_quantity E o1 = dsub E (lo_quantity o1) (lo_filled_quantity o1)"

definition is_fully_filled :: "LimitOrder \<Rightarrow> bool" where
  "is_fully_filled o1 = (lo_quantity o1 \<le> lo_filled_quantity o1)"

definition report_filled ::
  "datetime \<Rightarrow> uuid \<Rightarrow> string \<Rightarrow> string \<Rightarrow> OrderSide \<Rightarrow> decimal \<Rightarrow> decimal \<Rightarrow> decimal \<Rightarrow> ExecutionReport" where
  "report_filled now oid market outcome side qty price fees = \<lparr>er_order_id = oid,
     exchange_order_id = None, er_market_id = market, er_outcome_id = outcome, er_side = side,
     er_status = Filled, requested_quantity = qty, filled_quantity = qty, average_price = price,
     fees_paid = fees, executed_at = now, transaction_hash = None, error_message = None\<rparr>"

definition report_partial_fill ::
  "datetime \<Rightarrow> uuid \<Rightarrow> string \<Rightarrow> string \<Rightarrow> OrderSide \<Rightarrow> decimal \<Rightarrow> decimal \<Rightarrow> decimal \<Rightarrow> decimal
     \<Rightarrow> ExecutionReport" where
  "report_partial_fill now oid market outcome side requested filled price fees =
     \<lparr>er_order_id = oid, exchange_order_id = None, er_market_id = market, er_outcome_id = outcome,
      er_side = side, er_status = PartiallyFilled, requested_quantity = requested,
      filled_quantity = filled, average_price = price, fees_paid = fees, executed_at = now,
      transaction_hash = None, error_message = None\<rparr>"

definition report_success ::
  "datetime \<Rightarrow> uuid \<Rightarrow> string \<Rightarrow> string \<Rightarrow> OrderSide \<Rightarrow> decimal \<Rightarrow> decimal \<Rightarrow> decimal \<Rightarrow> ExecutionReport" where
  "report_success now oid market outcome side qty price fees =
     report_filled now oid market outcome side qty price fees"

definition with_tx_hash :: "string \<Rightarrow> ExecutionReport \<Rightarrow> ExecutionReport" where
  "with_tx_hash hash r = r\<lparr>transaction_hash := Some hash\<rparr>"

definition with_exchange_id :: "string \<Rightarrow> ExecutionReport \<Rightarrow> ExecutionReport" where
  "with_exchange_id eid r = r\<lparr>exchange_order_id := Some eid\<rparr>"

definition report_rejected ::
  "datetime \<Rightarrow> uuid \<Rightarrow> string \<Rightarrow> string \<Rightarrow> OrderSide \<Rightarrow> order_error \<Rightarrow> ExecutionReport" where
  "report_rejected now oid market outcome side err = \<lparr>er_order_id = oid,
     exchange_order_id = None, er_market_id = market, er_outcome_id = outcome, er_side = side,
     er_status = Rejected, requested_quantity = 0, filled_quantity = 0, average_price = 0,
     fees_paid = 0, executed_at = now, transaction_hash = None, error_message = Some err\<rparr>"

definition total_value :: "num_env \<Rightarrow> ExecutionReport \<Rightarrow> decimal" where
  "total_value E r = dmul E (filled_quantity r) (average_price r)"

definition is_success :: "ExecutionReport \<Rightarrow> bool" where
  "is_success r = (er_status r = Filled \<or> er_status r = PartiallyFilled)"

definition DEFAULT_FEE_RATE :: decimal where
  "DEFAULT_FEE_RATE = dec_new 2 2"

definition new_arb_order ::
  "num_env \<Rightarrow> uuid \<Rightarrow> uuid \<Rightarrow> uuid \<Rightarrow> datetime \<Rightarrow> datetime \<Rightarrow> datetime \<Rightarrow> string \<Rightarrow> string \<Rightarrow> string
     \<Rightarrow> decimal \<Rightarrow> decimal \<Rightarrow> decimal \<Rightarrow> ArbOrder" where
  "new_arb_order E oid yes_id no_id t1 t2 t3 market yes_outcome no_outcome qty yes_price no_price =
     (let cost = dmul E (dadd E yes_price no_price) qty; gross = dsub E qty cost
      in \<lparr>ao_id = oid, ao_market_id = market,
          yes_order = new_market_order yes_id t1 market yes_outcome Buy qty,
          no_order = new_market_order no_id t2 market no_outcome Buy qty,
          total_quantity = qty, expected_cost = cost,
          expected_profit = dsub E gross (dmul E cost DEFAULT_FEE_RATE), ao_created_at = t3\<rparr>)"

subsection \<open>Facts\<close>

lemma report_rejected_simps [simp]:
  "\<not> is_success (report_rejected now oid m out side e)"
  "er_order_id (report_rejected now oid m out side e) = oid"
  "er_status (report_rejected now oid m out side e) = Rejected"
  "filled_quantity (report_rejected now oid m out side e) = 0"
  "error_message (report_rejected now oid m out side e) = Some e"
  by (simp_all add: report_rejected_def is_success_def)

lemma report_filled_simps [simp]:
  "is_success (report_filled now oid m out side q p f)"
  "er_order_id (report_filled now oid m out side q p f) = oid"
  "er_status (report_filled now oid m out side q p f) = Filled"
  "filled_quantity (report_filled now oid m out side q p f) = q"
  "average_price (report_filled now oid m out side q p f) = p"
  "fees_paid (report_filled now oid m out side q p f) = f"
  "er_side (report_filled now oid m out side q p f) = side"
  "er_outcome_id (report_filled now oid m out side q p f) = out"
  by (simp_all add: report_filled_def is_success_def)

end
