(* ===== verification/Position.thy ===== *)
theory Position
  imports Market
begin

section \<open>Positions\<close>

text \<open>
  Model of \<open>crates/polymarket-core/src/types/position.rs\<close>: the life cycle of a position, its P\&L
  under the two fee models, the per-leg quantities, and recovery after failures. Every
  \<open>&mut self\<close> method is a function from the record to the updated record; a method returning
  \<open>Result\<close> returns \<open>Inl\<close> of the error, whose state is unchanged. The \<open>Display\<close> text of
  \<open>status_message\<close> is not modelled.
\<close>

subsection \<open>Data\<close>

datatype ExitStrategy = HoldToResolution | ExitOnCorrection

datatype PositionState =
    Pending | Open | ExitReady | Closing | Closed | EntryFailed | ExitFailed | Stalled

datatype PositionFeeModel = LegacyFlat | ShareBased

definition fee_model_from_i16 :: "i16 \<Rightarrow> PositionFeeModel" where
  "fee_model_from_i16 v = (if v = 1 then ShareBased else LegacyFlat)"

fun fee_model_as_i16 :: "PositionFeeModel \<Rightarrow> i16" where
  "fee_model_as_i16 LegacyFlat = 0"
| "fee_model_as_i16 ShareBased = 1"

datatype FailureReason =
    OrderRejected string
  | OrderTimeout u64
  | InsufficientBalance
  | MarketClosed
  | PriceSlippage decimal decimal
  | ConnectivityError string
  | OneLeggedEntry string string
  | StalePosition u64
  | UnknownFailure string

record Position =
  pos_id :: uuid
  pos_market_id :: string
  yes_entry_price :: decimal
  no_entry_price :: decimal
  quantity :: decimal
  entry_timestamp :: datetime
  exit_strategy :: ExitStrategy
  pos_state :: PositionState
  unrealized_pnl :: decimal
  realized_pnl :: "decimal option"
  exit_timestamp :: "datetime option"
  yes_exit_price :: "decimal option"
  no_exit_price :: "decimal option"
  failure_reason :: "FailureReason option"
  retry_count :: u32
  last_updated :: datetime
  pre_stall_state :: "PositionState option"
  fee_model :: PositionFeeModel
  resolution_payout_per_share :: decimal
  yes_entry_fee_shares :: decimal
  no_entry_fee_shares :: decimal
  held_yes_qty :: decimal
  held_no_qty :: decimal
  exited_yes_qty :: decimal
  exited_no_qty :: decimal
  resolution_winner :: "string option"

text \<open>The error strings of the methods, with the values they interpolate.\<close>

datatype position_error =
    CannotTransition PositionState PositionState
  | NoYesLeg | NoNoLeg
  | YesAlreadyExited | NoAlreadyExited
  | FillOnClosed | FillOnEntryFailed
  | YesNotExited | NoNotExited
  | ExceedsHeld decimal decimal
  | AlreadyClosed | NeverEntered
  | NotEntryFailed PositionState | NotOneLegged
  | MaxRetriesExceeded u32

definition MAX_RETRY_ATTEMPTS :: u32 where
  "MAX_RETRY_ATTEMPTS = 3"

definition STALE_THRESHOLD_SECS :: u64 where
  "STALE_THRESHOLD_SECS = 300"

subsection \<open>Creation and P\&L\<close>

definition new_position ::
  "num_env \<Rightarrow> uuid \<Rightarrow> datetime \<Rightarrow> string \<Rightarrow> decimal \<Rightarrow> decimal \<Rightarrow> decimal \<Rightarrow> ExitStrategy \<Rightarrow> Position" where
  "new_position E pid now market yes_price no_price qty strategy =
     (let legacy_entry_fee_drag = dmul E (dadd E yes_price no_price) DEFAULT_FEE
      in \<lparr>pos_id = pid, pos_market_id = market, yes_entry_price = yes_price,
          no_entry_price = no_price, quantity = qty, entry_timestamp = now,
          exit_strategy = strategy, pos_state = Pending, unrealized_pnl = 0, realized_pnl = None,
          exit_timestamp = None, yes_exit_price = None, no_exit_price = None,
          failure_reason = None, retry_count = 0, last_updated = now, pre_stall_state = None,
          fee_model = LegacyFlat,
          resolution_payout_per_share = max (dsub E 1 legacy_entry_fee_drag) 0,
          yes_entry_fee_shares = 0, no_entry_fee_shares = 0, held_yes_qty = 0, held_no_qty = 0,
          exited_yes_qty = 0, exited_no_qty = 0, resolution_winner = None\<rparr>)"

definition entry_cost :: "num_env \<Rightarrow> Position \<Rightarrow> decimal" where
  "entry_cost E p = dmul E (dadd E (yes_entry_price p) (no_entry_price p)) (quantity p)"

definition apply_arb_fee_model :: "ArbOpportunity \<Rightarrow> Position \<Rightarrow> Position" where
  "apply_arb_fee_model arb p = p\<lparr>fee_model := ShareBased,
     resolution_payout_per_share := max (worst_case_payout arb) 0,
     yes_entry_fee_shares := max (yes_fee_shares arb) 0,
     no_entry_fee_shares := max (no_fee_shares arb) 0\<rparr>"

definition net_yes_shares :: "num_env \<Rightarrow> Position \<Rightarrow> decimal" where
  "net_yes_shares E p = dmul E (quantity p) (max (dsub E 1 (yes_entry_fee_shares p)) 0)"

definition net_no_shares :: "num_env \<Rightarrow> Position \<Rightarrow> decimal" where
  "net_no_shares E p = dmul E (quantity p) (max (dsub E 1 (no_entry_fee_shares p)) 0)"

text \<open>
  The P\&L of selling at given prices and of holding to resolution; \<open>update_pnl\<close> and the closing
  methods compute them with the same expressions.
\<close>

definition exit_pnl :: "num_env \<Rightarrow> decimal \<Rightarrow> decimal \<Rightarrow> decimal \<Rightarrow> Position \<Rightarrow> decimal" where
  "exit_pnl E yes_price no_price fee p =
     (case fee_model p of
        LegacyFlat \<Rightarrow>
          let value = dmul E (dadd E yes_price no_price) (quantity p);
              entry_fees = dmul E fee (entry_cost E p);
              exit_fees = dmul E fee value
          in dsub E (dsub E (dsub E value (entry_cost E p)) entry_fees) exit_fees
      | ShareBased \<Rightarrow>
          dsub E (dadd E (dmul E yes_price (net_yes_shares E p)) (dmul E no_price (net_no_shares E p)))
                 (entry_cost E p))"

definition resolution_pnl :: "num_env \<Rightarrow> decimal \<Rightarrow> Position \<Rightarrow> decimal" where
  "resolution_pnl E fee p =
     (case fee_model p of
        LegacyFlat \<Rightarrow>
          dsub E (dsub E (dmul E 1 (quantity p)) (entry_cost E p)) (dmul E fee (entry_cost E p))
      | ShareBased \<Rightarrow>
          dsub E (dmul E (resolution_payout_per_share p) (quantity p)) (entry_cost E p))"

definition update_pnl ::
  "num_env \<Rightarrow> datetime \<Rightarrow> decimal \<Rightarrow> decimal \<Rightarrow> decimal \<Rightarrow> Position \<Rightarrow> Position" where
  "update_pnl E now yes_bid no_bid fee p =
     p\<lparr>unrealized_pnl := (case exit_strategy p of
          ExitOnCorrection \<Rightarrow> exit_pnl E yes_bid no_bid fee p
        | HoldToResolution \<Rightarrow> resolution_pnl E fee p),
       last_updated := now\<rparr>"

subsection \<open>Transitions\<close>

definition mark_open :: "datetime \<Rightarrow> Position \<Rightarrow> position_error + Position" where
  "mark_open now p =
     (if pos_state p \<noteq> Pending then Inl (CannotTransition (pos_state p) Pending)
      else Inr (p\<lparr>pos_state := Open, last_updated := now\<rparr>))"

definition mark_exit_ready :: "datetime \<Rightarrow> Position \<Rightarrow> position_error + Position" where
  "mark_exit_ready now p =
     (if pos_state p \<noteq> Open then Inl (CannotTransition (pos_state p) Open)
      else Inr (p\<lparr>pos_state := ExitReady, last_updated := now\<rparr>))"

definition mark_closing :: "datetime \<Rightarrow> Position \<Rightarrow> position_error + Position" where
  "mark_closing now p =
     (if pos_state p \<noteq> ExitReady then Inl (CannotTransition (pos_state p) ExitReady)
      else Inr (p\<lparr>pos_state := Closing, last_updated := now\<rparr>))"

definition record_yes_exit_fill :: "datetime \<Rightarrow> decimal \<Rightarrow> Position \<Rightarrow> position_error + Position" where
  "record_yes_exit_fill now price p =
     (if yes_entry_price p \<le> 0 then Inl NoYesLeg
      else if yes_exit_price p \<noteq> None then Inl YesAlreadyExited
      else if pos_state p = Closed then Inl FillOnClosed
      else if pos_state p = EntryFailed then Inl FillOnEntryFailed
      else Inr (p\<lparr>yes_exit_price := Some price, last_updated := now\<rparr>))"

definition record_no_exit_fill :: "datetime \<Rightarrow> decimal \<Rightarrow> Position \<Rightarrow> position_error + Position" where
  "record_no_exit_fill now price p =
     (if no_entry_price p \<le> 0 then Inl NoNoLeg
      else if no_exit_price p \<noteq> None then Inl NoAlreadyExited
      else if pos_state p = Closed then Inl FillOnClosed
      else if pos_state p = EntryFailed then Inl FillOnEntryFailed
      else Inr (p\<lparr>no_exit_price := Some price, last_updated := now\<rparr>))"

definition resolved_exit_prices :: "Position \<Rightarrow> position_error + decimal \<times> decimal" where
  "resolved_exit_prices p =
     (if 0 < yes_entry_price p \<and> yes_exit_price p = None then Inl YesNotExited
      else if 0 < no_entry_price p \<and> no_exit_price p = None then Inl NoNotExited
      else Inr (if 0 < yes_entry_price p then the (yes_exit_price p) else 0,
                if 0 < no_entry_price p then the (no_exit_price p) else 0))"

definition held_outcomes :: "Position \<Rightarrow> bool \<times> bool" where
  "held_outcomes p =
     (if pos_state p = Closed then (False, False)
      else (0 < yes_entry_price p \<and> yes_exit_price p = None,
            0 < no_entry_price p \<and> no_exit_price p = None))"

definition has_full_pair_exposure :: "Position \<Rightarrow> bool" where
  "has_full_pair_exposure p =
     (if 0 < held_yes_qty p \<or> 0 < held_no_qty p then 0 < held_yes_qty p \<and> 0 < held_no_qty p
      else held_outcomes p = (True, True))"

definition apply_yes_entry_fill :: "num_env \<Rightarrow> datetime \<Rightarrow> decimal \<Rightarrow> Position \<Rightarrow> Position" where
  "apply_yes_entry_fill E now qty p =
     p\<lparr>held_yes_qty := dadd E (held_yes_qty p) qty, last_updated := now\<rparr>"

definition apply_no_entry_fill :: "num_env \<Rightarrow> datetime \<Rightarrow> decimal \<Rightarrow> Position \<Rightarrow> Position" where
  "apply_no_entry_fill E now qty p =
     p\<lparr>held_no_qty := dadd E (held_no_qty p) qty, last_updated := now\<rparr>"

definition apply_yes_exit_fill ::
  "num_env \<Rightarrow> datetime \<Rightarrow> decimal \<Rightarrow> Position \<Rightarrow> position_error + Position" where
  "apply_yes_exit_fill E now qty p =
     (if held_yes_qty p < qty then Inl (ExceedsHeld qty (held_yes_qty p))
      else Inr (p\<lparr>held_yes_qty := dsub E (held_yes_qty p) qty,
                  exited_yes_qty := dadd E (exited_yes_qty p) qty, last_updated := now\<rparr>))"

definition apply_no_exit_fill ::
  "num_env \<Rightarrow> datetime \<Rightarrow> decimal \<Rightarrow> Position \<Rightarrow> position_error + Position" where
  "apply_no_exit_fill E now qty p =
     (if held_no_qty p < qty then Inl (ExceedsHeld qty (held_no_qty p))
      else Inr (p\<lparr>held_no_qty := dsub E (held_no_qty p) qty,
                  exited_no_qty := dadd E (exited_no_qty p) qty, last_updated := now\<rparr>))"

definition held_legs :: "Position \<Rightarrow> bool \<times> bool" where
  "held_legs p = (0 < held_yes_qty p, 0 < held_no_qty p)"

definition has_open_exposure :: "Position \<Rightarrow> bool" where
  "has_open_exposure p = (0 < held_yes_qty p \<or> 0 < held_no_qty p)"

text \<open>The closing methods share their guard.\<close>

definition close_guard :: "Position \<Rightarrow> position_error option" where
  "close_guard p =
     (if pos_state p = Closed then Some AlreadyClosed
      else if pos_state p = EntryFailed then Some NeverEntered else None)"

definition close_via_recorded_exit ::
  "num_env \<Rightarrow> datetime \<Rightarrow> decimal \<Rightarrow> Position \<Rightarrow> position_error + Position" where
  "close_via_recorded_exit E now fee p =
     (case close_guard p of
        Some e \<Rightarrow> Inl e
      | None \<Rightarrow>
          (case resolved_exit_prices p of
             Inl e \<Rightarrow> Inl e
           | Inr (y, n) \<Rightarrow>
               Inr (p\<lparr>exit_timestamp := Some now, pos_state := Closed,
                      realized_pnl := Some (exit_pnl E y n fee p), unrealized_pnl := 0\<rparr>)))"

text \<open>
  \<open>close_via_exit\<close> and \<open>close_via_resolution_with_winner\<close> set the missing exit prices and then
  call \<open>close_via_recorded_exit\<close>, which cannot fail any more (lemma \<open>close_filled_ok\<close>).
\<close>

definition close_via_exit ::
  "num_env \<Rightarrow> datetime \<Rightarrow> decimal \<Rightarrow> decimal \<Rightarrow> decimal \<Rightarrow> Position \<Rightarrow> position_error + Position" where
  "close_via_exit E now yes_price no_price fee p =
     (case close_guard p of
        Some e \<Rightarrow> Inl e
      | None \<Rightarrow>
          let (has_yes, has_no) = held_outcomes p;
              p1 = (if has_yes then p\<lparr>yes_exit_price := Some yes_price\<rparr> else p);
              p2 = (if has_no then p1\<lparr>no_exit_price := Some no_price\<rparr> else p1)
          in close_via_recorded_exit E now fee p2)"

definition close_via_resolution_with_winner ::
  "num_env \<Rightarrow> datetime \<Rightarrow> bool \<Rightarrow> decimal \<Rightarrow> Position \<Rightarrow> position_error + Position" where
  "close_via_resolution_with_winner E now yes_wins fee p =
     (case close_guard p of
        Some e \<Rightarrow> Inl e
      | None \<Rightarrow>
          let p1 = (if 0 < yes_entry_price p \<and> yes_exit_price p = None
                    then p\<lparr>yes_exit_price := Some (if yes_wins then 1 else 0)\<rparr> else p);
              p2 = (if 0 < no_entry_price p1 \<and> no_exit_price p1 = None
                    then p1\<lparr>no_exit_price := Some (if yes_wins then 0 else 1)\<rparr> else p1)
          in close_via_recorded_exit E now fee p2)"

definition close_via_resolution ::
  "num_env \<Rightarrow> datetime \<Rightarrow> decimal \<Rightarrow> Position \<Rightarrow> position_error + Position" where
  "close_via_resolution E now fee p =
     (case close_guard p of
        Some e \<Rightarrow> Inl e
      | None \<Rightarrow> Inr (p\<lparr>exit_timestamp := Some now, pos_state := Closed,
                        realized_pnl := Some (resolution_pnl E fee p), unrealized_pnl := 0\<rparr>))"

subsection \<open>Failures and recovery\<close>

definition is_active :: "Position \<Rightarrow> bool" where
  "is_active p = (pos_state p \<notin> {Closed, EntryFailed})"

definition needs_recovery :: "Position \<Rightarrow> bool" where
  "needs_recovery p = (pos_state p \<in> {ExitFailed, Stalled})"

definition one_legged_text :: "string \<Rightarrow> bool" where
  "one_legged_text m =
     (contains ''one-legged'' (to_lowercase m) \<or> contains ''one_legged'' (to_lowercase m))"

definition is_one_legged_entry_fail :: "Position \<Rightarrow> bool" where
  "is_one_legged_entry_fail p =
     (pos_state p = EntryFailed
      \<and> (case failure_reason p of
           Some (OneLeggedEntry _ _) \<Rightarrow> True
         | Some (OrderRejected m) \<Rightarrow> one_legged_text m
         | Some (ConnectivityError m) \<Rightarrow> one_legged_text m
         | _ \<Rightarrow> False))"

definition should_persist_as_open :: "Position \<Rightarrow> bool" where
  "should_persist_as_open p =
     (case pos_state p of Closed \<Rightarrow> False | EntryFailed \<Rightarrow> is_one_legged_entry_fail p | _ \<Rightarrow> True)"

definition can_retry :: "Position \<Rightarrow> bool" where
  "can_retry p = (retry_count p < MAX_RETRY_ATTEMPTS)"

definition age_secs :: "datetime \<Rightarrow> Position \<Rightarrow> u64" where
  "age_secs now p = word_of_int (max (num_seconds (now - last_updated p)) 0)"

definition is_stale :: "datetime \<Rightarrow> Position \<Rightarrow> bool" where
  "is_stale now p =
     (STALE_THRESHOLD_SECS < age_secs now p \<and> pos_state p \<in> {Pending, Open, Closing})"

definition mark_entry_failed :: "datetime \<Rightarrow> FailureReason \<Rightarrow> Position \<Rightarrow> Position" where
  "mark_entry_failed now reason p =
     p\<lparr>pos_state := EntryFailed, failure_reason := Some reason, last_updated := now\<rparr>"

definition mark_exit_failed :: "datetime \<Rightarrow> FailureReason \<Rightarrow> Position \<Rightarrow> Position" where
  "mark_exit_failed now reason p =
     p\<lparr>pos_state := ExitFailed, failure_reason := Some reason,
       retry_count := retry_count p + 1, last_updated := now\<rparr>"

text \<open>The elapsed time is cast to \<open>u64\<close> without a lower bound of zero.\<close>

definition mark_stalled :: "datetime \<Rightarrow> datetime \<Rightarrow> Position \<Rightarrow> Position" where
  "mark_stalled now now' p =
     p\<lparr>pre_stall_state := Some (pos_state p), pos_state := Stalled,
       failure_reason := Some (StalePosition (word_of_int (num_seconds (now - last_updated p)))),
       last_updated := now'\<rparr>"

definition attempt_exit_recovery :: "datetime \<Rightarrow> Position \<Rightarrow> Position \<times> bool" where
  "attempt_exit_recovery now p =
     (if pos_state p \<noteq> ExitFailed then (p, False)
      else if MAX_RETRY_ATTEMPTS \<le> retry_count p then (p, False)
      else (p\<lparr>pos_state := ExitReady, failure_reason := None, last_updated := now\<rparr>, True))"

definition recovery_target :: "Position \<Rightarrow> PositionState" where
  "recovery_target p =
     (case pre_stall_state p of
        Some prev \<Rightarrow> prev
      | None \<Rightarrow>
          if yes_exit_price p \<noteq> None \<or> no_exit_price p \<noteq> None then ExitReady
          else if 0 < yes_entry_price p \<and> 0 < no_entry_price p then Open
          else Pending)"

definition attempt_stalled_recovery :: "datetime \<Rightarrow> Position \<Rightarrow> Position \<times> PositionState option" where
  "attempt_stalled_recovery now p =
     (if pos_state p \<noteq> Stalled then (p, None)
      else (p\<lparr>pre_stall_state := None, pos_state := recovery_target p, failure_reason := None,
              retry_count := retry_count p + 1, last_updated := now\<rparr>,
            Some (recovery_target p)))"

definition recover_one_legged_to_open :: "datetime \<Rightarrow> Position \<Rightarrow> position_error + Position" where
  "recover_one_legged_to_open now p =
     (if pos_state p \<noteq> EntryFailed then Inl (NotEntryFailed (pos_state p))
      else if \<not> is_one_legged_entry_fail p then Inl NotOneLegged
      else if MAX_RETRY_ATTEMPTS \<le> retry_count p then Inl (MaxRetriesExceeded (retry_count p))
      else Inr (p\<lparr>pos_state := Open, failure_reason := None, retry_count := retry_count p + 1,
                  last_updated := now\<rparr>))"

definition touch :: "datetime \<Rightarrow> Position \<Rightarrow> Position" where
  "touch now p = p\<lparr>last_updated := now\<rparr>"

record PositionStats =
  total_positions :: u64
  open_positions :: u64
  closed_positions :: u64
  total_realized_pnl :: decimal
  total_unrealized_pnl :: decimal
  win_count :: u64
  loss_count :: u64

definition win_rate :: "num_env \<Rightarrow> PositionStats \<Rightarrow> f64 option" where
  "win_rate E s =
     (let n = win_count s + loss_count s
      in if n = 0 then None
         else Some (fdiv E (f64_round E (of_nat (unat (win_count s)))) (f64_round E (of_nat (unat n)))))"

subsection \<open>Closing\<close>

lemma close_guard_None [simp]:
  "close_guard p = None \<longleftrightarrow> pos_state p \<noteq> Closed \<and> pos_state p \<noteq> EntryFailed"
  by (simp add: close_guard_def)

lemma entry_cost_cong [simp]:
  "entry_cost E (p\<lparr>yes_exit_price := y\<rparr>) = entry_cost E p"
  "entry_cost E (p\<lparr>no_exit_price := n\<rparr>) = entry_cost E p"
  "entry_cost E (p\<lparr>unrealized_pnl := u\<rparr>) = entry_cost E p"
  "entry_cost E (p\<lparr>last_updated := t\<rparr>) = entry_cost E p"
  by (simp_all add: entry_cost_def)

lemma exit_pnl_cong [simp]:
  "exit_pnl E a b fee (p\<lparr>yes_exit_price := y\<rparr>) = exit_pnl E a b fee p"
  "exit_pnl E a b fee (p\<lparr>no_exit_price := n\<rparr>) = exit_pnl E a b fee p"
  "exit_pnl E a b fee (p\<lparr>unrealized_pnl := u\<rparr>) = exit_pnl E a b fee p"
  "exit_pnl E a b fee (p\<lparr>last_updated := t\<rparr>) = exit_pnl E a b fee p"
  by (cases "fee_model p", simp_all add: exit_pnl_def net_yes_shares_def net_no_shares_def Let_def)+

text \<open>The prices a position is closed at: what was recorded, and the offered price otherwise.\<close>

definition final_price :: "decimal \<Rightarrow> decimal option \<Rightarrow> decimal \<Rightarrow> decimal" where
  "final_price entry recorded offered =
     (if 0 < entry then (case recorded of Some r \<Rightarrow> r | None \<Rightarrow> offered) else 0)"

definition closed_at :: "num_env \<Rightarrow> datetime \<Rightarrow> decimal \<Rightarrow> decimal \<Rightarrow> decimal \<Rightarrow> Position \<Rightarrow> Position" where
  "closed_at E now yes_price no_price fee p =
     p\<lparr>yes_exit_price := (if 0 < yes_entry_price p \<and> yes_exit_price p = None
                           then Some yes_price else yes_exit_price p),
       no_exit_price := (if 0 < no_entry_price p \<and> no_exit_price p = None
                          then Some no_price else no_exit_price p),
       exit_timestamp := Some now, pos_state := Closed,
       realized_pnl := Some (exit_pnl E (final_price (yes_entry_price p) (yes_exit_price p) yes_price)
                                        (final_price (no_entry_price p) (no_exit_price p) no_price) fee p),
       unrealized_pnl := 0\<rparr>"

lemma close_via_exit_eq:
  "pos_state p \<noteq> Closed \<Longrightarrow> pos_state p \<noteq> EntryFailed \<Longrightarrow> 
     close_via_exit E now y n fee p = Inr (closed_at E now y n fee p)"
  by (cases "yes_exit_price p"; cases "no_exit_price p";
      cases "0 < yes_entry_price p"; cases "0 < no_entry_price p")
    (simp_all add: close_via_exit_def held_outcomes_def close_via_recorded_exit_def Let_def
      resolved_exit_prices_def closed_at_def final_price_def close_guard_def)

lemma close_with_winner_eq:
  "pos_state p \<noteq> Closed \<Longrightarrow> pos_state p \<noteq> EntryFailed \<Longrightarrow> close_via_resolution_with_winner E now w fee p =
     Inr (closed_at E now (if w then 1 else 0) (if w then 0 else 1) fee p)"
  by (cases "yes_exit_price p"; cases "no_exit_price p";
      cases "0 < yes_entry_price p"; cases "0 < no_entry_price p")
    (simp_all add: close_via_resolution_with_winner_def close_via_recorded_exit_def Let_def
      resolved_exit_prices_def closed_at_def final_price_def close_guard_def)

lemma closed_at_fields [simp]:
  "pos_state (closed_at E now y n fee p) = Closed"
  "exit_timestamp (closed_at E now y n fee p) = Some now"
  "realized_pnl (closed_at E now y n fee p) \<noteq> None"
  "unrealized_pnl (closed_at E now y n fee p) = 0"
  by (simp_all add: closed_at_def)

text \<open>
  Selling out of a position is total and atomic. \<open>close_via_exit\<close> fails exactly on a closed
  or entry-failed position; otherwise the result is closed, its exit time is set, each held leg
  has the offered price, a leg that was already sold keeps its recorded fill, and the realized
  P\&L is that of those prices.
\<close>

theorem close_via_exit_spec:
  "close_via_exit E now y n fee p =
     (if pos_state p = Closed then Inl AlreadyClosed
      else if pos_state p = EntryFailed then Inl NeverEntered
      else Inr (closed_at E now y n fee p))"
  using close_via_exit_eq [of p E now y n fee]
  by (simp add: close_via_exit_def close_guard_def)

text \<open>
  Mark-to-market agrees with the outcome: for an exit-on-correction position with both legs
  held, closing at the bids of the last \<open>update_pnl\<close> realizes exactly the unrealized P\&L shown
  before, under both fee models and any rounding.
\<close>

theorem realized_matches_unrealized:
  assumes "exit_strategy p = ExitOnCorrection" "is_active p"
    and "0 < yes_entry_price p" "0 < no_entry_price p"
    and "yes_exit_price p = None" "no_exit_price p = None"
  shows "\<exists>p'. close_via_exit E now' y n fee (update_pnl E now y n fee p) = Inr p'
    \<and> realized_pnl p' = Some (unrealized_pnl (update_pnl E now y n fee p))"
  using assms
  by (simp add: close_via_exit_eq update_pnl_def closed_at_def final_price_def is_active_def)

definition sample_position :: Position where
  "sample_position = (new_position exact_env 1 0 ''m'' (48 / 100) (49 / 100) 100 ExitOnCorrection)
     \<lparr>pos_state := Open\<rparr>"

theorem realized_matches_unrealized_witness:
  "\<exists>p'. close_via_exit exact_env 7 (51 / 100) (50 / 100) (2 / 100)
          (update_pnl exact_env 6 (51 / 100) (50 / 100) (2 / 100) sample_position) = Inr p'
        \<and> realized_pnl p' =
            Some (unrealized_pnl (update_pnl exact_env 6 (51 / 100) (50 / 100) (2 / 100) sample_position))"
  by (rule realized_matches_unrealized)
    (simp_all add: sample_position_def new_position_def is_active_def Let_def)

subsection \<open>Held-to-resolution arbitrage\<close>

text \<open>A position opened on a share-fee opportunity, as \<open>PositionTracker::create_position\<close> builds it.\<close>

definition arb_position ::
  "num_env \<Rightarrow> uuid \<Rightarrow> datetime \<Rightarrow> ArbOpportunity \<Rightarrow> decimal \<Rightarrow> ExitStrategy \<Rightarrow> Position" where
  "arb_position E pid now arb qty strategy =
     apply_arb_fee_model arb
       (new_position E pid now (arb_market_id arb) (yes_ask arb) (no_ask arb) qty strategy)"

lemma arb_position_fields [simp]:
  "yes_entry_price (arb_position E i t a q s) = yes_ask a"
  "no_entry_price (arb_position E i t a q s) = no_ask a"
  "quantity (arb_position E i t a q s) = q"
  "fee_model (arb_position E i t a q s) = ShareBased"
  "resolution_payout_per_share (arb_position E i t a q s) = max (worst_case_payout a) 0"
  "yes_entry_fee_shares (arb_position E i t a q s) = max (yes_fee_shares a) 0"
  "no_entry_fee_shares (arb_position E i t a q s) = max (no_fee_shares a) 0"
  "yes_exit_price (arb_position E i t a q s) = None"
  "no_exit_price (arb_position E i t a q s) = None"
  by (simp_all add: arb_position_def apply_arb_fee_model_def new_position_def Let_def)

text \<open>
  The payout of the winning leg alone covers the stored worst case: the winner's net shares are
  at least the worst-case payout per share times the quantity.
\<close>

lemma net_shares_cover_payout:
  assumes "numeric_env E" "0 \<le> q" and "payout = max (dsub E 1 (max f g)) 0" and "0 \<le> f"
  shows "dmul E payout q \<le> dmul E q (max (dsub E 1 f) 0)"
proof -
  have "dsub E 1 (max f g) \<le> dsub E 1 f" by (rule numeric_env.dsub_mono [OF assms(1)]) auto
  then have "payout \<le> max (dsub E 1 f) 0" unfolding assms(3) by auto
  then have "dmul E payout q \<le> dmul E (max (dsub E 1 f) 0) q"
    by (rule numeric_env.dmul_mono [OF assms(1,2)])
  then show ?thesis by (simp only: dmul_def mult.commute)
qed

lemma winner_leg_value:
  assumes "numeric_env E"
  shows "dadd E (dmul E 1 (dmul E q m)) (dmul E 0 x) = dmul E q m"
    and "dadd E (dmul E 0 x) (dmul E 1 (dmul E q m)) = dmul E q m"
  using assms
  by (simp_all add: dadd_def numeric_env.dmul_0 dmul_def [of E 1] numeric_env.dec_idem_ops)

lemma arb_winner_ge_worst_case:
  assumes "numeric_env E" "0 \<le> q" and arb: "calculate_with_fees_enabled E b fe = Some a"
    and "0 \<le> yes_fee_shares a" "0 \<le> no_fee_shares a" "0 < yes_ask a" "0 < no_ask a"
    and p: "p = (arb_position E i t a q s)\<lparr>pos_state := st\<rparr>"
  shows "resolution_pnl E fee p \<le>
    exit_pnl E (if w then 1 else 0) (if w then 0 else 1) fee p"
proof -
  note wcp = calculate_with_fees_SomeD(3) [OF arb]
  have pay: "max (worst_case_payout a) 0 = worst_case_payout a" by (simp add: wcp)
  let ?y = "dmul E q (max (dsub E 1 (yes_fee_shares a)) 0)"
  let ?n = "dmul E q (max (dsub E 1 (no_fee_shares a)) 0)"
  have y: "dmul E (worst_case_payout a) q \<le> ?y"
    by (rule net_shares_cover_payout [OF assms(1,2) wcp assms(4)])
  have n: "dmul E (worst_case_payout a) q \<le> ?n"
    using wcp by (intro net_shares_cover_payout [OF assms(1,2) _ assms(5), of _ "yes_fee_shares a"])
      (simp add: max.commute)
  note sub = numeric_env.dsub_mono [OF assms(1) _ order_refl]
  have res: "resolution_pnl E fee p = dsub E (dmul E (worst_case_payout a) q) (entry_cost E p)"
    by (simp add: p resolution_pnl_def pay)
  have ex: "exit_pnl E u v fee p = dsub E (dadd E (dmul E u ?y) (dmul E v ?n)) (entry_cost E p)" for u v
    using assms(4,5) by (simp add: p exit_pnl_def net_yes_shares_def net_no_shares_def max_absorb1)
  show ?thesis
    using sub [OF y] sub [OF n]
    by (cases w) (simp_all add: res ex winner_leg_value [OF assms(1)])
qed

lemma arb_worst_case_nonneg:
  assumes "numeric_env E" "0 \<le> q" and arb: "calculate_with_fees_enabled E b fe = Some a"
    and "is_profitable a" and p: "p = (arb_position E i t a q s)\<lparr>pos_state := st\<rparr>"
  shows "0 \<le> resolution_pnl E fee p"
proof -
  note facts = calculate_with_fees_SomeD [OF arb]
  have pay: "max (worst_case_payout a) 0 = worst_case_payout a" by (simp add: facts)
  have "total_cost a \<le> worst_case_payout a"
  proof (rule ccontr)
    assume "\<not> ?thesis"
    then have "net_profit a \<le> 0"
      unfolding facts(4) dsub_def by (intro numeric_env.round_nonpos [OF assms(1)]) simp
    with assms(4) show False by (simp add: is_profitable_def)
  qed
  then have "dmul E (total_cost a) q \<le> dmul E (worst_case_payout a) q"
    by (rule numeric_env.dmul_mono [OF assms(1,2)])
  then show ?thesis
    using facts(1) by (simp add: p resolution_pnl_def pay entry_cost_def numeric_env.dsub_nonneg [OF assms(1)])
qed



definition sample_level :: "decimal \<Rightarrow> OrderBook" where
  "sample_level a = \<lparr>ob_market_id = ''m'', ob_outcome_id = ''o'', ob_timestamp = 0,
     bids = [], asks = [\<lparr>pl_price = a, pl_size = 200\<rparr>]\<rparr>"

definition sample_book :: BinaryMarketBook where
  "sample_book = \<lparr>bm_market_id = ''m'', bm_timestamp = 0,
     yes_book = sample_level (48 / 100), no_book = sample_level (49 / 100)\<rparr>"

definition sample_arb :: ArbOpportunity where
  "sample_arb = the (calculate_with_fees_enabled exact_env sample_book True)"

lemmas sample_arb_eval = sample_arb_def calculate_with_fees_enabled_def book_entry_cost_def
  best_ask_def sample_book_def sample_level_def estimate_buy_fee_shares_def Let_def
  FEE_ENABLED_BASE_RATE_def dec_new_def is_profitable_def

lemma sample_arb_ok:
  "calculate_with_fees_enabled exact_env sample_book True = Some sample_arb"
  "is_profitable sample_arb" "yes_ask sample_arb = 48 / 100" "no_ask sample_arb = 49 / 100"
  by (simp_all add: sample_arb_eval)


subsection \<open>The life cycle as a state machine\<close>

text \<open>
  One step is one successful call of a \<open>&mut self\<close> method; a call that returns an error changes
  nothing. \<open>pos_start\<close> is what \<open>Position::new\<close> builds.
\<close>

definition pos_start :: "num_env \<Rightarrow> Position \<Rightarrow> bool" where
  "pos_start E p = (\<exists>pid now m y n q s. p = new_position E pid now m y n q s)"

inductive pos_step :: "num_env \<Rightarrow> Position \<Rightarrow> Position \<Rightarrow> bool" for E :: num_env where
  ps_fee_model: "pos_step E p (apply_arb_fee_model arb p)"
| ps_update_pnl: "pos_step E p (update_pnl E now y n fee p)"
| ps_open: "mark_open now p = Inr p' \<Longrightarrow> pos_step E p p'"
| ps_exit_ready: "mark_exit_ready now p = Inr p' \<Longrightarrow> pos_step E p p'"
| ps_closing: "mark_closing now p = Inr p' \<Longrightarrow> pos_step E p p'"
| ps_yes_exit: "record_yes_exit_fill now y p = Inr p' \<Longrightarrow> pos_step E p p'"
| ps_no_exit: "record_no_exit_fill now n p = Inr p' \<Longrightarrow> pos_step E p p'"
| ps_yes_entry_fill: "pos_step E p (apply_yes_entry_fill E now q p)"
| ps_no_entry_fill: "pos_step E p (apply_no_entry_fill E now q p)"
| ps_yes_exit_fill: "apply_yes_exit_fill E now q p = Inr p' \<Longrightarrow> pos_step E p p'"
| ps_no_exit_fill: "apply_no_exit_fill E now q p = Inr p' \<Longrightarrow> pos_step E p p'"
| ps_close_recorded: "close_via_recorded_exit E now fee p = Inr p' \<Longrightarrow> pos_step E p p'"
| ps_close_exit: "close_via_exit E now y n fee p = Inr p' \<Longrightarrow> pos_step E p p'"
| ps_close_winner: "close_via_resolution_with_winner E now w fee p = Inr p' \<Longrightarrow> pos_step E p p'"
| ps_close_resolution: "close_via_resolution E now fee p = Inr p' \<Longrightarrow> pos_step E p p'"
| ps_entry_failed: "pos_step E p (mark_entry_failed now r p)"
| ps_exit_failed: "pos_step E p (mark_exit_failed now r p)"
| ps_stalled: "pos_step E p (mark_stalled now now' p)"
| ps_exit_recovery: "pos_step E p (fst (attempt_exit_recovery now p))"
| ps_stalled_recovery: "pos_step E p (fst (attempt_stalled_recovery now p))"
| ps_one_legged: "recover_one_legged_to_open now p = Inr p' \<Longrightarrow> pos_step E p p'"
| ps_touch: "pos_step E p (touch now p)"

definition pos_inv :: "Position \<Rightarrow> bool" where
  "pos_inv p =
     ((pos_state p = Closed \<or> pre_stall_state p = Some Closed \<longrightarrow>
         realized_pnl p \<noteq> None \<and> exit_timestamp p \<noteq> None)
      \<and> (yes_exit_price p \<noteq> None \<longrightarrow> 0 < yes_entry_price p)
      \<and> (no_exit_price p \<noteq> None \<longrightarrow> 0 < no_entry_price p)
      \<and> 0 \<le> resolution_payout_per_share p \<and> 0 \<le> yes_entry_fee_shares p \<and> 0 \<le> no_entry_fee_shares p)"

lemmas [step_defs] = apply_arb_fee_model_def update_pnl_def mark_open_def mark_exit_ready_def
  mark_closing_def record_yes_exit_fill_def record_no_exit_fill_def apply_yes_entry_fill_def
  apply_no_entry_fill_def apply_yes_exit_fill_def apply_no_exit_fill_def mark_entry_failed_def
  mark_exit_failed_def mark_stalled_def attempt_exit_recovery_def recover_one_legged_to_open_def
  touch_def

lemma close_recorded_InrD:
  assumes "close_via_recorded_exit E now fee p = Inr p'"
  shows "\<exists>r. p' = p\<lparr>exit_timestamp := Some now, pos_state := Closed, realized_pnl := Some r, unrealized_pnl := 0\<rparr>"
  using assms by (auto simp: close_via_recorded_exit_def split: option.splits sum.splits)

lemma close_exit_InrD:
  "close_via_exit E now y n fee p = Inr p' \<Longrightarrow> p' = closed_at E now y n fee p"
  using close_via_exit_eq [of p E now y n fee]
  by (auto simp: close_via_exit_def close_guard_def split: if_splits)

lemma close_winner_InrD:
  "close_via_resolution_with_winner E now w fee p = Inr p' \<Longrightarrow>
     p' = closed_at E now (if w then 1 else 0) (if w then 0 else 1) fee p"
  using close_with_winner_eq [of p E now w fee]
  by (auto simp: close_via_resolution_with_winner_def close_guard_def split: if_splits)

lemma pos_inv_closed_at: "pos_inv p \<Longrightarrow> pos_inv (closed_at E now y n fee p)"
  by (auto simp: pos_inv_def closed_at_def)

lemma recovery_target_Closed:
  "recovery_target p = Closed \<longleftrightarrow> pre_stall_state p = Some Closed"
  by (simp add: recovery_target_def split: option.split)

lemma pos_start_new: "pos_start E (new_position E pid now m y n q s)"
  unfolding pos_start_def by blast

lemma pos_inv_start: "pos_start E p \<Longrightarrow> pos_inv p"
  by (auto simp: pos_start_def new_position_def Let_def pos_inv_def)

lemma pos_inv_step: "pos_step E p p' \<Longrightarrow> pos_inv p \<Longrightarrow> pos_inv p'"
proof (induction rule: pos_step.induct)
  case (ps_close_recorded now fee p p')
  then show ?case by (auto simp: pos_inv_def dest!: close_recorded_InrD)
next
  case (ps_close_exit now y n fee p p')
  then show ?case by (auto dest!: close_exit_InrD intro: pos_inv_closed_at)
next
  case (ps_close_winner now w fee p p')
  then show ?case by (auto dest!: close_winner_InrD intro: pos_inv_closed_at)
next
  case (ps_close_resolution now fee p p')
  then show ?case by (auto simp: pos_inv_def close_via_resolution_def split: option.splits)
next
  case (ps_stalled_recovery p now)
  then show ?case by (auto simp: pos_inv_def attempt_stalled_recovery_def recovery_target_Closed)
qed (clarsimp simp: pos_inv_def step_defs split: if_splits)+

interpretation pos: machine "pos_start E" "pos_step E" pos_inv for E
  by unfold_locales (auto intro: pos_inv_start pos_inv_step)

text \<open>
  C7: Accounting is complete in every reachable position: one that is closed (or stalled out of
  \<open>Closed\<close>) has a realized P\&L and an exit time, an exit price exists only for a leg that was
  bought, and the stored payout and entry fees are never negative.
\<close>

theorem position_reachable_invariant:
  "reach (pos_start E) (pos_step E) p \<Longrightarrow> pos_inv p"
  by (rule pos.inv_reach)

theorem position_reachable_invariant_witness:
  "pos_inv (mark_stalled 5 5 (new_position exact_env 1 0 ''m'' (48 / 100) (49 / 100) 100 HoldToResolution))"
proof (rule position_reachable_invariant)
  show "reach (pos_start exact_env) (pos_step exact_env)
    (mark_stalled 5 5 (new_position exact_env 1 0 ''m'' (48 / 100) (49 / 100) 100 HoldToResolution))"
    by (rule reach_step, rule reach_start, rule pos_start_new, rule ps_stalled)
qed

text \<open>
  A closed position leaves \<open>Closed\<close> in one step only through the three methods without a
  state guard: \<open>mark_entry_failed\<close>, \<open>mark_exit_failed\<close> and \<open>mark_stalled\<close>; every other method
  fails or keeps it closed with the realized P\&L unchanged.
\<close>

theorem closed_left_only_by_failure_marks:
  assumes "pos_step E p p'" "pos_state p = Closed"
  shows "(pos_state p' = Closed \<and> realized_pnl p' = realized_pnl p)
    \<or> (\<exists>now r. p' = mark_entry_failed now r p) \<or> (\<exists>now r. p' = mark_exit_failed now r p)
    \<or> (\<exists>now now'. p' = mark_stalled now now' p)"
  using assms
proof (induction rule: pos_step.induct)
  case (ps_entry_failed p now r)
  then show ?case by blast
next
  case (ps_exit_failed p now r)
  then show ?case by blast
next
  case (ps_stalled p now now')
  then show ?case by blast
qed (auto simp: step_defs close_via_recorded_exit_def close_via_exit_def close_guard_def
    close_via_resolution_with_winner_def close_via_resolution_def attempt_stalled_recovery_def
    split: if_splits)

theorem closed_left_only_by_failure_marks_witness:
  "(pos_state (touch 9 (sample_position\<lparr>pos_state := Closed\<rparr>)) = Closed
     \<and> realized_pnl (touch 9 (sample_position\<lparr>pos_state := Closed\<rparr>))
         = realized_pnl (sample_position\<lparr>pos_state := Closed\<rparr>))
    \<or> (\<exists>now r. touch 9 (sample_position\<lparr>pos_state := Closed\<rparr>)
          = mark_entry_failed now r (sample_position\<lparr>pos_state := Closed\<rparr>))
    \<or> (\<exists>now r. touch 9 (sample_position\<lparr>pos_state := Closed\<rparr>)
          = mark_exit_failed now r (sample_position\<lparr>pos_state := Closed\<rparr>))
    \<or> (\<exists>now now'. touch 9 (sample_position\<lparr>pos_state := Closed\<rparr>)
          = mark_stalled now now' (sample_position\<lparr>pos_state := Closed\<rparr>))"
  by (rule closed_left_only_by_failure_marks [OF ps_touch [of exact_env]]) simp

subsection \<open>Leg quantities\<close>

text \<open>
  The fills of the YES leg, in the order they arrive: \<open>Inl q\<close> is an entry fill, \<open>Inr q\<close> an exit
  fill; a rejected exit fill leaves the position as it is.
\<close>

fun run_yes_fills :: "num_env \<Rightarrow> datetime \<Rightarrow> (decimal + decimal) list \<Rightarrow> Position \<Rightarrow> Position" where
  "run_yes_fills E now [] p = p"
| "run_yes_fills E now (Inl q # fs) p = run_yes_fills E now fs (apply_yes_entry_fill E now q p)"
| "run_yes_fills E now (Inr q # fs) p =
     run_yes_fills E now fs (case apply_yes_exit_fill E now q p of Inl _ \<Rightarrow> p | Inr p' \<Rightarrow> p')"

definition ticks :: "nat \<Rightarrow> nat \<Rightarrow> decimal" where
  "ticks s k = of_nat k / 10 ^ s"

fun entry_ticks :: "(nat + nat) list \<Rightarrow> nat" where
  "entry_ticks [] = 0"
| "entry_ticks (Inl k # fs) = k + entry_ticks fs"
| "entry_ticks (Inr k # fs) = entry_ticks fs"

lemma ticks_rep: "s \<le> 28 \<Longrightarrow> k < 2 ^ 96 \<Longrightarrow> dec_rep (ticks s k)"
  by (rule dec_repI [of s _ "int k"]) (auto simp: ticks_def)

lemma ticks_le_iff [simp]: "ticks s a \<le> ticks s b \<longleftrightarrow> a \<le> b" "ticks s a < ticks s b \<longleftrightarrow> a < b"
  by (simp_all add: ticks_def divide_le_cancel divide_less_cancel)

lemma ticks_arith:
  assumes "numeric_env E" "s \<le> 28"
  shows "a + b < 2 ^ 96 \<Longrightarrow> dadd E (ticks s a) (ticks s b) = ticks s (a + b)"
    and "a < 2 ^ 96 \<Longrightarrow> b \<le> a \<Longrightarrow> dsub E (ticks s a) (ticks s b) = ticks s (a - b)"
proof -
  assume "a + b < 2 ^ 96"
  moreover have "ticks s a + ticks s b = ticks s (a + b)" by (simp add: ticks_def add_divide_distrib)
  ultimately show "dadd E (ticks s a) (ticks s b) = ticks s (a + b)"
    using assms by (simp add: dadd_def numeric_env.dec_exact ticks_rep)
next
  assume "a < 2 ^ 96" "b \<le> a"
  moreover from this have "ticks s a - ticks s b = ticks s (a - b)"
    by (simp add: ticks_def of_nat_diff diff_divide_distrib)
  ultimately show "dsub E (ticks s a) (ticks s b) = ticks s (a - b)"
    using assms by (simp add: dsub_def numeric_env.dec_exact ticks_rep)
qed

lemma yes_fills_conserve:
  assumes "numeric_env E" "s \<le> 28"
  shows "held_yes_qty p = ticks s h \<Longrightarrow> exited_yes_qty p = ticks s x \<Longrightarrow>
    h + x + entry_ticks fs < 2 ^ 96 \<Longrightarrow>
    \<exists>h' x'. held_yes_qty (run_yes_fills E now (map (map_sum (ticks s) (ticks s)) fs) p) = ticks s h'
      \<and> exited_yes_qty (run_yes_fills E now (map (map_sum (ticks s) (ticks s)) fs) p) = ticks s x'
      \<and> h' + x' = h + x + entry_ticks fs"
proof (induction fs arbitrary: p h x rule: entry_ticks.induct)
  case 1
  then show ?case by auto
next
  case (2 k fs)
  have "held_yes_qty (apply_yes_entry_fill E now (ticks s k) p) = ticks s (h + k)"
    "exited_yes_qty (apply_yes_entry_fill E now (ticks s k) p) = ticks s x"
    using 2 by (simp_all add: apply_yes_entry_fill_def ticks_arith [OF assms])
  from "2.IH" [OF this] "2.prems"(3) show ?case by (simp add: ac_simps)
next
  case (3 k fs)
  show ?case
  proof (cases "k \<le> h")
    case True
    let ?p = "p\<lparr>held_yes_qty := ticks s (h - k), exited_yes_qty := ticks s (x + k), last_updated := now\<rparr>"
    have "apply_yes_exit_fill E now (ticks s k) p = Inr ?p"
      using 3 True by (simp add: apply_yes_exit_fill_def ticks_arith [OF assms])
    with True "3.IH" [of ?p "h - k" "x + k"] "3.prems"(3) show ?thesis by simp
  next
    case False
    then have "apply_yes_exit_fill E now (ticks s k) p = Inl (ExceedsHeld (ticks s k) (ticks s h))"
      using 3 by (simp add: apply_yes_exit_fill_def)
    with "3.IH" [OF "3.prems"(1,2)] "3.prems"(3) show ?thesis by simp
  qed
qed

text \<open>
  C15: Shares are conserved. From a new position, for every interleaving of entry and exit fills
  of the YES leg in multiples of \<open>10 ^ -s\<close> (\<open>s \<le> 28\<close>) whose entries fit in a Decimal, the held and
  the exited quantity are nonnegative and add up to exactly what was bought: an exit that
  exceeds the holding is rejected and no rounding occurs.
\<close>

theorem yes_leg_conservation:
  assumes "numeric_env E" "s \<le> 28" "entry_ticks fs < 2 ^ 96"
  shows "\<exists>h x.
    held_yes_qty (run_yes_fills E now (map (map_sum (ticks s) (ticks s)) fs)
      (new_position E pid t m y n q strat)) = ticks s h
    \<and> exited_yes_qty (run_yes_fills E now (map (map_sum (ticks s) (ticks s)) fs)
      (new_position E pid t m y n q strat)) = ticks s x
    \<and> h + x = entry_ticks fs"
  using yes_fills_conserve [OF assms(1,2), of "new_position E pid t m y n q strat" 0 0 fs now] assms(3)
  by (simp add: new_position_def Let_def ticks_def)

theorem yes_leg_conservation_witness:
  "\<exists>h x.
    held_yes_qty (run_yes_fills round28_env 5 (map (map_sum (ticks 2) (ticks 2)) [Inl 1050, Inr 400, Inr 700, Inl 3])
      (new_position round28_env 1 0 ''m'' (1 / 2) (1 / 2) 10 ExitOnCorrection)) = ticks 2 h
    \<and> exited_yes_qty (run_yes_fills round28_env 5 (map (map_sum (ticks 2) (ticks 2)) [Inl 1050, Inr 400, Inr 700, Inl 3])
      (new_position round28_env 1 0 ''m'' (1 / 2) (1 / 2) 10 ExitOnCorrection)) = ticks 2 x
    \<and> h + x = entry_ticks [Inl 1050, Inr 400, Inr 700, Inl 3]"
  by (rule yes_leg_conservation [OF nearest.numeric_env_axioms]) simp_all

subsection \<open>Retry budget\<close>

text \<open>
  Exit failures and recovery attempts in any order: \<open>Some r\<close> is a failure with reason \<open>r\<close>, \<open>None\<close>
  a recovery attempt. \<open>exit_run\<close> counts the attempts that succeed.
\<close>

fun exit_run :: "datetime \<Rightarrow> FailureReason option list \<Rightarrow> Position \<Rightarrow> nat \<Rightarrow> Position \<times> nat" where
  "exit_run now [] p n = (p, n)"
| "exit_run now (Some r # evs) p n = exit_run now evs (mark_exit_failed now r p) n"
| "exit_run now (None # evs) p n =
     (let (p', ok) = attempt_exit_recovery now p in exit_run now evs p' (if ok then n + 1 else n))"

definition failures :: "'a option list \<Rightarrow> nat" where
  "failures evs = length (filter (\<lambda>e. e \<noteq> None) evs)"

lemma failures_simps [simp]:
  "failures [] = 0" "failures (Some r # evs) = Suc (failures evs)" "failures (None # evs) = failures evs"
  by (simp_all add: failures_def)

text \<open>The potential of a position: recoveries it may still be granted.\<close>

definition recoveries_left :: "Position \<Rightarrow> nat" where
  "recoveries_left p =
     (if pos_state p = ExitFailed then 3 - unat (retry_count p) else 2 - unat (retry_count p))"

lemma max_retry_le_iff: "MAX_RETRY_ATTEMPTS \<le> w \<longleftrightarrow> 3 \<le> unat w"
  by (simp add: MAX_RETRY_ATTEMPTS_def word_le_nat_alt)

lemma exit_run_potential:
  "unat (retry_count p) + failures evs < 2 ^ 32 \<Longrightarrow>
     snd (exit_run now evs p n) \<le> n + recoveries_left p"
proof (induction now evs p n rule: exit_run.induct)
  case (1 now p n)
  then show ?case by simp
next
  case (2 now r evs p n)
  have c: "unat (retry_count p + 1) = unat (retry_count p) + 1"
    using "2.prems" by (intro unat_suc) simp
  have "recoveries_left (mark_exit_failed now r p) \<le> recoveries_left p"
    by (auto simp: recoveries_left_def mark_exit_failed_def c)
  moreover have "snd (exit_run now evs (mark_exit_failed now r p) n)
      \<le> n + recoveries_left (mark_exit_failed now r p)"
    using "2.prems" by (intro "2.IH") (simp add: mark_exit_failed_def c)
  ultimately show ?case by simp
next
  case (3 now evs p n)
  obtain p' ok where eq: "attempt_exit_recovery now p = (p', ok)" by fastforce
  then have "retry_count p' = retry_count p"
    by (auto simp: attempt_exit_recovery_def split: if_splits)
  moreover have "(if ok then n + 1 else n) + recoveries_left p' \<le> n + recoveries_left p"
    using eq by (auto simp: attempt_exit_recovery_def recoveries_left_def max_retry_le_iff split: if_splits)
  ultimately show ?case
    using "3.IH" [OF eq [symmetric] refl] "3.prems" by (fastforce simp: eq)
qed

text \<open>
  The exit retry budget is bounded. However exit failures and recovery attempts are
  interleaved, a position that starts with no retries is granted at most two automatic exit
  recoveries (the counter, a \<open>u32\<close>, does not wrap below \<open>2 ^ 32\<close> failures).
\<close>

theorem exit_retry_budget:
  assumes "retry_count p = 0" "pos_state p \<noteq> ExitFailed" "failures evs < 2 ^ 32"
  shows "snd (exit_run now evs p 0) \<le> 2"
  using exit_run_potential [of p evs now 0] assms by (simp add: recoveries_left_def)

theorem exit_retry_budget_witness:
  "snd (exit_run 5 [Some MarketClosed, None, Some MarketClosed, None, None, Some MarketClosed, None]
     sample_position 0) \<le> 2"
  by (rule exit_retry_budget) (simp_all add: sample_position_def new_position_def Let_def)

text \<open>
  Stalling is reversible: recovering a position right after it was marked stalled returns
  it to the state it had, whichever that was, and changes nothing but the failure reason, the
  retry counter and the time stamp.
\<close>

theorem stall_recovery_roundtrip:
  "attempt_stalled_recovery t (mark_stalled t1 t2 p) =
     (p\<lparr>pre_stall_state := None, failure_reason := None, retry_count := retry_count p + 1,
        last_updated := t\<rparr>, Some (pos_state p))"
  by (simp add: attempt_stalled_recovery_def mark_stalled_def recovery_target_def)

end
