(* ===== verification/Executor.thy ===== *)
theory Executor
  imports Orders
begin

section \<open>The order executor\<close>

text \<open>
  Model of \<open>crates/trading-engine/src/executor.rs\<close>: order validation against the best level of
  the book, paper and live execution, the retry loop with a timeout and exponential backoff,
  the balance preflight, the pending-order table, the metrics and the report channel.

  The CLOB (an HTTP service behind \<open>ClobClient\<close> and \<open>AuthenticatedClobClient\<close>) is a parameter:
  a record of calls on a state \<open>'w\<close> of the outside world. A call returns \<open>Some\<close> of its result, or
  \<open>None\<close> when the timer of \<open>tokio::time::timeout\<close> fires while the call is awaited, in both cases
  with the world as it is then: a request that timed out may still have reached the exchange.
  The clock, the passing of time in \<open>sleep\<close>, parsing and printing of Decimals belong to the same
  record. One call of the executor runs at a time.
\<close>

subsection \<open>Awaited calls\<close>

type_synonym ('w, 'a) call = "'w \<Rightarrow> 'a option \<times> 'w"

definition tret :: "'a \<Rightarrow> ('w, 'a) call" where
  "tret a = (\<lambda>w. (Some a, w))"

definition tbind :: "('w, 'a) call \<Rightarrow> ('a \<Rightarrow> ('w, 'b) call) \<Rightarrow> ('w, 'b) call" where
  "tbind m f = (\<lambda>w. case m w of (None, w') \<Rightarrow> (None, w') | (Some a, w') \<Rightarrow> f a w')"

lemma tret_simp [simp]: "tret a w = (Some a, w)"
  by (simp add: tret_def)

lemma tbind_SomeD:
  assumes "tbind m f w = (Some b, w')"
  obtains a w1 where "m w = (Some a, w1)" "f a w1 = (Some b, w')"
  using assms by (auto simp: tbind_def split: prod.splits option.splits)

subsection \<open>The CLOB interface\<close>

datatype ClobOrderType = Gtc | Fok | Gtd

record BalanceAllowanceResponse =
  ba_balance :: string
  ba_allowance :: string

record PostOrderResponse =
  por_order_id :: string
  por_status :: string
  por_transaction_hash :: "string option"

definition is_unfilled :: "PostOrderResponse \<Rightarrow> bool" where
  "is_unfilled r =
     (to_lowercase (por_status r) = ''unmatched'' \<or> to_lowercase (por_status r) = ''rejected'')"

record ('w, 'o) clob_api =
  api_now :: "'w \<Rightarrow> datetime"
  api_sleep :: "u64 \<Rightarrow> 'w \<Rightarrow> 'w"
  dec_display :: "decimal \<Rightarrow> string"
  dec_parse :: "string \<Rightarrow> decimal option"
  api_order_book :: "string \<Rightarrow> ('w, string + OrderBook) call"
  api_balance :: "string option \<Rightarrow> string \<Rightarrow> ('w, string + BalanceAllowanceResponse) call"
  api_update_balance :: "string \<Rightarrow> ('w, string + unit) call"
  api_update_balance_for_token :: "string \<Rightarrow> string option \<Rightarrow> ('w, string + unit) call"
  api_create_market_order ::
    "string \<Rightarrow> OrderSide \<Rightarrow> decimal \<Rightarrow> decimal \<Rightarrow> ClobOrderType \<Rightarrow> ('w, string + 'o) call"
  api_create_order ::
    "string \<Rightarrow> OrderSide \<Rightarrow> decimal \<Rightarrow> decimal \<Rightarrow> ClobOrderType \<Rightarrow> ('w, string + 'o) call"
  api_post_order :: "'o \<Rightarrow> ClobOrderType \<Rightarrow> ('w, string + PostOrderResponse) call"
  api_cancel_order :: "string \<Rightarrow> ('w, string + unit) call"
  api_derive_key :: "string \<Rightarrow> ('w, string + unit) call"

subsection \<open>Configuration and state\<close>

record ExecutorConfig =
  default_slippage :: decimal
  max_order_size :: decimal
  min_book_depth :: decimal
  fee_rate :: decimal
  live_trading :: bool
  cfg_api_key :: "string option"
  timeout_ms :: u64
  max_retries :: u32
  retry_base_delay_ms :: u64
  retry_max_delay_ms :: u64

definition default_executor_config :: ExecutorConfig where
  "default_executor_config = \<lparr>default_slippage = dec_new 1 2, max_order_size = dec_new 10000 0,
     min_book_depth = dec_new 100 0, fee_rate = dec_new 2 2, live_trading = False,
     cfg_api_key = None, timeout_ms = 30000, max_retries = 3, retry_base_delay_ms = 100,
     retry_max_delay_ms = 5000\<rparr>"

record ExecutionMetrics =
  orders_submitted :: u64
  orders_filled :: u64
  orders_rejected :: u64
  total_volume :: decimal
  total_fees :: decimal
  avg_latency_us :: u64

definition default_metrics :: ExecutionMetrics where
  "default_metrics = \<lparr>orders_submitted = 0, orders_filled = 0, orders_rejected = 0,
     total_volume = 0, total_fees = 0, avg_latency_us = 0\<rparr>"

text \<open>
  The report channel holds up to 1000 reports. Its receiver is inside the executor until
  \<open>take_report_receiver\<close> gives it away; a receiver that was given away may later be dropped.
\<close>

datatype receiver = Held | Taken | Dropped

record AuthClient =
  ac_address :: string
  ac_has_credentials :: bool

record 'w OrderExecutor =
  ex_config :: ExecutorConfig
  pending_orders :: "(uuid, OrderStatus) store"
  report_queue :: "ExecutionReport list"
  report_rx :: receiver
  ex_metrics :: ExecutionMetrics
  auth_client :: "AuthClient option"
  live_override :: bool
  world :: 'w

definition REPORT_CAPACITY :: nat where
  "REPORT_CAPACITY = 1000"

definition new_executor :: "ExecutorConfig \<Rightarrow> 'w \<Rightarrow> 'w OrderExecutor" where
  "new_executor cfg w = \<lparr>ex_config = cfg, pending_orders = [], report_queue = [],
     report_rx = Held, ex_metrics = default_metrics, auth_client = None,
     live_override = live_trading cfg, world = w\<rparr>"

definition new_with_wallet :: "string \<Rightarrow> ExecutorConfig \<Rightarrow> 'w \<Rightarrow> 'w OrderExecutor" where
  "new_with_wallet addr cfg w =
     (new_executor cfg w)\<lparr>auth_client := Some \<lparr>ac_address = addr, ac_has_credentials = False\<rparr>\<rparr>"

subsection \<open>Error classification\<close>

definition BALANCE_ALLOWANCE_RETRY_MARKER :: string where
  "BALANCE_ALLOWANCE_RETRY_MARKER = ''refreshable_balance_allowance''"

definition retryable_patterns :: "string list" where
  "retryable_patterns = [''timeout'', ''connection'', ''network'', ''temporarily unavailable'',
     ''rate limit'', ''503'', ''502'', ''504'', ''etimedout'', ''econnreset'', ''econnrefused'']"

definition is_retryable_error :: "string \<Rightarrow> bool" where
  "is_retryable_error err =
     (let l = to_lowercase err
      in contains BALANCE_ALLOWANCE_RETRY_MARKER l
         \<or> list_ex (\<lambda>p. contains p l) retryable_patterns)"

definition is_balance_allowance_error :: "string \<Rightarrow> bool" where
  "is_balance_allowance_error err =
     (let l = to_lowercase err
      in contains ''not enough balance / allowance'' l
         \<or> contains ''insufficient balance'' l
         \<or> contains ''insufficient allowance'' l
         \<or> (contains ''balance'' l \<and> contains ''allowance'' l))"

definition parse_decimal_value :: "('w, 'o) clob_api \<Rightarrow> string \<Rightarrow> decimal option" where
  "parse_decimal_value A raw = dec_parse A (trim raw)"

subsection \<open>The balance preflight\<close>

definition refresh_clob_allowance_cache_for_client :: "('w, 'o) clob_api \<Rightarrow> ('w, unit) call" where
  "refresh_clob_allowance_cache_for_client A = tbind (api_update_balance A ''COLLATERAL'') (\<lambda>_. tret ())"

definition get_balance_allowance_snapshot ::
  "('w, 'o) clob_api \<Rightarrow> string \<Rightarrow> string option \<Rightarrow> ('w, BalanceAllowanceResponse option) call" where
  "get_balance_allowance_snapshot A asset token =
     tbind (api_balance A token asset)
       (\<lambda>r. tret (case r of Inl _ \<Rightarrow> None | Inr s \<Rightarrow> Some s))"

definition below :: "decimal option \<Rightarrow> decimal \<Rightarrow> bool" where
  "below v req = (case v of None \<Rightarrow> False | Some x \<Rightarrow> x < req)"

definition capacity_text :: "('w, 'o) clob_api \<Rightarrow> string \<Rightarrow> string \<Rightarrow> decimal \<Rightarrow> decimal \<Rightarrow> string" where
  "capacity_text A label what available req =
     ''Insufficient '' @ label @ '' '' @ what @ '' for live order: available ''
     @ dec_display A available @ '', required '' @ dec_display A req"

definition check_capacity ::
  "('w, 'o) clob_api \<Rightarrow> string \<Rightarrow> decimal \<Rightarrow> BalanceAllowanceResponse \<Rightarrow> string + unit" where
  "check_capacity A label req s =
     (if below (parse_decimal_value A (ba_balance s)) req
      then Inl (capacity_text A label ''balance'' (the (parse_decimal_value A (ba_balance s))) req)
      else if below (parse_decimal_value A (ba_allowance s)) req
      then Inl (capacity_text A label ''allowance'' (the (parse_decimal_value A (ba_allowance s))) req)
      else Inr ())"

definition ensure_live_order_capacity ::
  "('w, 'o) clob_api \<Rightarrow> OrderSide \<Rightarrow> string \<Rightarrow> decimal \<Rightarrow> ('w, string + unit) call" where
  "ensure_live_order_capacity A side token req =
     (if req \<le> 0 then tret (Inr ())
      else
        let asset = (case side of Buy \<Rightarrow> ''COLLATERAL'' | Sell \<Rightarrow> ''CONDITIONAL'');
            tok = (case side of Buy \<Rightarrow> None | Sell \<Rightarrow> Some token);
            label = (case side of Buy \<Rightarrow> ''collateral'' | Sell \<Rightarrow> ''conditional'')
        in tbind (get_balance_allowance_snapshot A asset tok) (\<lambda>s0.
             case s0 of
               None \<Rightarrow> tret (Inr ())
             | Some s \<Rightarrow>
                 if below (parse_decimal_value A (ba_balance s)) req
                    \<or> below (parse_decimal_value A (ba_allowance s)) req
                 then tbind (api_update_balance_for_token A asset tok) (\<lambda>_.
                        tbind (get_balance_allowance_snapshot A asset tok) (\<lambda>s1.
                          case s1 of
                            None \<Rightarrow> tret (Inr ())
                          | Some s' \<Rightarrow> tret (check_capacity A label req s')))
                 else tret (check_capacity A label req s)))"

subsection \<open>Validation against the book\<close>

definition reject_market_order :: "datetime \<Rightarrow> MarketOrder \<Rightarrow> order_error \<Rightarrow> ExecutionReport" where
  "reject_market_order now ord err =
     report_rejected now (mo_id ord) (mo_market_id ord) (mo_outcome_id ord) (mo_side ord) err"

definition best_level_for_order ::
  "datetime \<Rightarrow> MarketOrder \<Rightarrow> OrderBook \<Rightarrow> ExecutionReport + decimal \<times> decimal" where
  "best_level_for_order now ord book =
     (case mo_side ord of
        Buy \<Rightarrow> (case first (asks book) of
                  None \<Rightarrow> Inl (reject_market_order now ord (Message ''No asks available''))
                | Some l \<Rightarrow> Inr (pl_price l, pl_size l))
      | Sell \<Rightarrow> (case first (bids book) of
                  None \<Rightarrow> Inl (reject_market_order now ord (Message ''No bids available''))
                | Some l \<Rightarrow> Inr (pl_price l, pl_size l)))"

definition order_slippage :: "num_env \<Rightarrow> MarketOrder \<Rightarrow> decimal \<Rightarrow> decimal" where
  "order_slippage E ord price =
     (if 0 < expected_price ord
      then (case mo_side ord of
              Buy \<Rightarrow> ddiv E (dsub E price (expected_price ord)) (expected_price ord)
            | Sell \<Rightarrow> ddiv E (dsub E (expected_price ord) price) (expected_price ord))
      else 0)"

definition validate_market_order_at_best_level ::
  "num_env \<Rightarrow> ExecutorConfig \<Rightarrow> datetime \<Rightarrow> MarketOrder \<Rightarrow> decimal \<Rightarrow> decimal \<Rightarrow> ExecutionReport option" where
  "validate_market_order_at_best_level E cfg now ord price available =
     (let notional = dmul E available price
      in if notional < min_book_depth cfg
         then Some (reject_market_order now ord (InsufficientLiquidity notional (min_book_depth cfg)))
         else if available < mo_quantity ord
         then Some (reject_market_order now ord (ExceedsBestLevel (mo_quantity ord) available))
         else (case max_slippage ord of
                 None \<Rightarrow> None
               | Some mx \<Rightarrow>
                   if mx < order_slippage E ord price
                   then Some (reject_market_order now ord (SlippageExceeded (order_slippage E ord price) mx))
                   else None))"

subsection \<open>Execution of one attempt\<close>

definition order_fees :: "num_env \<Rightarrow> ExecutorConfig \<Rightarrow> decimal \<Rightarrow> decimal \<Rightarrow> decimal" where
  "order_fees E cfg qty price = dmul E (dmul E qty price) (fee_rate cfg)"

definition fill_market_order ::
  "num_env \<Rightarrow> ExecutorConfig \<Rightarrow> datetime \<Rightarrow> MarketOrder \<Rightarrow> decimal \<Rightarrow> ExecutionReport" where
  "fill_market_order E cfg now ord price =
     report_filled now (mo_id ord) (mo_market_id ord) (mo_outcome_id ord) (mo_side ord)
       (mo_quantity ord) price (order_fees E cfg (mo_quantity ord) price)"

definition fill_limit_order ::
  "num_env \<Rightarrow> ExecutorConfig \<Rightarrow> datetime \<Rightarrow> LimitOrder \<Rightarrow> ExecutionReport" where
  "fill_limit_order E cfg now ord =
     report_filled now (lo_id ord) (lo_market_id ord) (lo_outcome_id ord) (lo_side ord)
       (lo_quantity ord) (lo_price ord) (order_fees E cfg (lo_quantity ord) (lo_price ord))"

text \<open>
  Both kinds of attempt start by reading the book and validating the order at its best level;
  \<open>k\<close> is what follows for an accepted order.
\<close>

definition at_best_level ::
  "num_env \<Rightarrow> ('w, 'o) clob_api \<Rightarrow> ExecutorConfig \<Rightarrow> MarketOrder
     \<Rightarrow> (decimal \<Rightarrow> ('w, string + ExecutionReport) call) \<Rightarrow> ('w, string + ExecutionReport) call" where
  "at_best_level E A cfg ord k =
     tbind (api_order_book A (mo_outcome_id ord)) (\<lambda>r w.
       case r of
         Inl e \<Rightarrow> (Some (Inl e), w)
       | Inr book \<Rightarrow>
           (case best_level_for_order (api_now A w) ord book of
              Inl rep \<Rightarrow> (Some (Inr rep), w)
            | Inr (price, available) \<Rightarrow>
                (case validate_market_order_at_best_level E cfg (api_now A w) ord price available of
                   Some rep \<Rightarrow> (Some (Inr rep), w)
                 | None \<Rightarrow> k price w)))"

definition simulate_market_order ::
  "num_env \<Rightarrow> ('w, 'o) clob_api \<Rightarrow> ExecutorConfig \<Rightarrow> MarketOrder \<Rightarrow> ('w, string + ExecutionReport) call" where
  "simulate_market_order E A cfg ord =
     at_best_level E A cfg ord
       (\<lambda>price w. (Some (Inr (fill_market_order E cfg (api_now A w) ord price)), w))"

definition simulate_limit_order ::
  "num_env \<Rightarrow> ('w, 'o) clob_api \<Rightarrow> ExecutorConfig \<Rightarrow> LimitOrder \<Rightarrow> ('w, string + ExecutionReport) call" where
  "simulate_limit_order E A cfg ord = (\<lambda>w. (Some (Inr (fill_limit_order E cfg (api_now A w) ord)), w))"

definition NOT_INITIALIZED :: string where
  "NOT_INITIALIZED = ''Live trading not initialized - call initialize_live_trading() first''"

text \<open>Posting a signed order: a balance or allowance rejection refreshes the cache and becomes retryable.\<close>

definition post_signed ::
  "('w, 'o) clob_api \<Rightarrow> 'o \<Rightarrow> ClobOrderType \<Rightarrow> ('w, string + PostOrderResponse) call" where
  "post_signed A so typ =
     tbind (api_post_order A so typ) (\<lambda>r.
       case r of
         Inr resp \<Rightarrow> tret (Inr resp)
       | Inl err \<Rightarrow>
           if is_balance_allowance_error err
           then tbind (refresh_clob_allowance_cache_for_client A) (\<lambda>_.
                  tret (Inl (BALANCE_ALLOWANCE_RETRY_MARKER @ '': Failed to post order: '' @ err)))
           else tret (Inl (''Failed to post order: '' @ err)))"

text \<open>
  What follows the answer of a fill-or-kill order: any status but \<open>matched\<close> is a rejection, and
  the order is cancelled first.
\<close>

definition settle_fok ::
  "num_env \<Rightarrow> ('w, 'o) clob_api \<Rightarrow> ExecutorConfig \<Rightarrow> MarketOrder \<Rightarrow> decimal \<Rightarrow> PostOrderResponse
     \<Rightarrow> ('w, string + ExecutionReport) call" where
  "settle_fok E A cfg ord price resp =
     (let status = to_lowercase (por_status resp);
          reject = (\<lambda>w. (Some (Inr (reject_market_order (api_now A w) ord
                      (Message (''FOK order did not confirm a match: status='' @ por_status resp)))), w))
      in if is_unfilled resp \<or> status \<noteq> ''matched''
         then (if status \<noteq> ''matched''
               then tbind (api_cancel_order A (por_order_id resp)) (\<lambda>_. reject)
               else reject)
         else (\<lambda>w. (Some (Inr (fill_market_order E cfg (api_now A w) ord price)), w)))"

definition live_amount :: "num_env \<Rightarrow> OrderSide \<Rightarrow> decimal \<Rightarrow> decimal \<Rightarrow> decimal" where
  "live_amount E side qty price = (case side of Buy \<Rightarrow> dmul E qty price | Sell \<Rightarrow> qty)"

definition submit_market_order ::
  "num_env \<Rightarrow> ('w, 'o) clob_api \<Rightarrow> ExecutorConfig \<Rightarrow> AuthClient \<Rightarrow> MarketOrder \<Rightarrow> decimal
     \<Rightarrow> ('w, string + ExecutionReport) call" where
  "submit_market_order E A cfg client ord price =
     (if \<not> ac_has_credentials client then tret (Inl NOT_INITIALIZED)
      else
        let amount = live_amount E (mo_side ord) (mo_quantity ord) price
        in tbind (ensure_live_order_capacity A (mo_side ord) (mo_outcome_id ord) amount) (\<lambda>c.
             case c of
               Inl e \<Rightarrow> tret (Inl e)
             | Inr _ \<Rightarrow>
                 tbind (api_create_market_order A (mo_outcome_id ord) (mo_side ord) price amount Fok) (\<lambda>s.
                   case s of
                     Inl e \<Rightarrow> tret (Inl (''Failed to create market order: '' @ e))
                   | Inr so \<Rightarrow>
                       tbind (post_signed A so Fok) (\<lambda>p.
                         case p of
                           Inl e \<Rightarrow> tret (Inl e)
                         | Inr resp \<Rightarrow> settle_fok E A cfg ord price resp))))"

definition execute_live_market_order ::
  "num_env \<Rightarrow> ('w, 'o) clob_api \<Rightarrow> ExecutorConfig \<Rightarrow> AuthClient option \<Rightarrow> MarketOrder
     \<Rightarrow> ('w, string + ExecutionReport) call" where
  "execute_live_market_order E A cfg auth ord =
     (case auth of
        None \<Rightarrow> (\<lambda>w. (Some (Inr (reject_market_order (api_now A w) ord
                   (Message ''Live trading wallet is not initialized''))), w))
      | Some client \<Rightarrow> at_best_level E A cfg ord (submit_market_order E A cfg client ord))"

definition execute_live_limit_order ::
  "num_env \<Rightarrow> ('w, 'o) clob_api \<Rightarrow> ExecutorConfig \<Rightarrow> AuthClient option \<Rightarrow> LimitOrder
     \<Rightarrow> ('w, string + ExecutionReport) call" where
  "execute_live_limit_order E A cfg auth ord =
     (case auth of
        None \<Rightarrow> (\<lambda>w. (Some (Inr (report_rejected (api_now A w) (lo_id ord) (lo_market_id ord)
                   (lo_outcome_id ord) (lo_side ord)
                   (Message ''Live trading wallet is not initialized''))), w))
      | Some client \<Rightarrow>
          if \<not> ac_has_credentials client then tret (Inl NOT_INITIALIZED)
          else
            tbind (ensure_live_order_capacity A (lo_side ord) (lo_outcome_id ord)
                     (live_amount E (lo_side ord) (lo_quantity ord) (lo_price ord))) (\<lambda>c.
              case c of
                Inl e \<Rightarrow> tret (Inl e)
              | Inr _ \<Rightarrow>
                  tbind (api_create_order A (lo_outcome_id ord) (lo_side ord) (lo_price ord)
                           (lo_quantity ord) Gtc) (\<lambda>s.
                    case s of
                      Inl e \<Rightarrow> tret (Inl (''Failed to create order: '' @ e))
                    | Inr so \<Rightarrow>
                        tbind (post_signed A so Gtc) (\<lambda>p w.
                          case p of
                            Inl e \<Rightarrow> (Some (Inl e), w)
                          | Inr _ \<Rightarrow> (Some (Inr (fill_limit_order E cfg (api_now A w) ord)), w)))))"

subsection \<open>The retry loop\<close>

text \<open>
  \<open>attempts\<close> is a \<open>u32\<close> and \<open>attempts += 1\<close> wraps; with \<open>max_retries = u32::MAX\<close> the loop
  condition is always true, so the loop is a partial function whose value is \<open>None\<close> when it
  does not end. \<open>2_u64.pow\<close> and the product with the base delay wrap as well.
\<close>

definition backoff_delay :: "ExecutorConfig \<Rightarrow> u32 \<Rightarrow> u64" where
  "backoff_delay cfg attempts =
     min (retry_base_delay_ms cfg * 2 ^ unat (attempts - 1)) (retry_max_delay_ms cfg)"

definition backoff :: "ExecutorConfig \<Rightarrow> (u64 \<Rightarrow> 'w \<Rightarrow> 'w) \<Rightarrow> u32 \<Rightarrow> 'w \<Rightarrow> 'w" where
  "backoff cfg sleep attempts w =
     (if attempts \<le> max_retries cfg then sleep (backoff_delay cfg attempts) w else w)"

fun show_nat :: "nat \<Rightarrow> string" where
  "show_nat n =
     (if n < 10 then [char_of (48 + n)] else show_nat (n div 10) @ [char_of (48 + n mod 10)])"

declare show_nat.simps [simp del]

definition timeout_text :: "ExecutorConfig \<Rightarrow> string" where
  "timeout_text cfg = ''Operation timed out after '' @ show_nat (unat (timeout_ms cfg)) @ ''ms''"

datatype 'r retry_end = Succeeded 'r | NonRetryable string | Exhausted u32 string

partial_function (option) retry_loop ::
  "ExecutorConfig \<Rightarrow> (u64 \<Rightarrow> 'w \<Rightarrow> 'w) \<Rightarrow> ('w, string + 'r) call \<Rightarrow> u32 \<Rightarrow> string \<Rightarrow> 'w
     \<Rightarrow> ('r retry_end \<times> 'w) option" where
  "retry_loop cfg sleep oper attempts last_error w =
     (if attempts \<le> max_retries cfg
      then
        (case oper w of
           (Some (Inr r), w') \<Rightarrow> Some (Succeeded r, w')
         | (Some (Inl e), w') \<Rightarrow>
             if \<not> is_retryable_error e then Some (NonRetryable e, w')
             else retry_loop cfg sleep oper (attempts + 1) e (backoff cfg sleep (attempts + 1) w')
         | (None, w') \<Rightarrow>
             retry_loop cfg sleep oper (attempts + 1) (timeout_text cfg)
               (backoff cfg sleep (attempts + 1) w'))
      else Some (Exhausted attempts last_error, w))"

fun retry_report ::
  "datetime \<Rightarrow> uuid \<Rightarrow> string \<Rightarrow> string \<Rightarrow> OrderSide \<Rightarrow> ExecutionReport retry_end \<Rightarrow> ExecutionReport" where
  "retry_report now oid m out side (Succeeded r) = r"
| "retry_report now oid m out side (NonRetryable e) = report_rejected now oid m out side (Message e)"
| "retry_report now oid m out side (Exhausted n e) =
     report_rejected now oid m out side (RetriesExhausted n e)"

definition execute_with_retry ::
  "('w, 'o) clob_api \<Rightarrow> ExecutorConfig \<Rightarrow> ('w, string + ExecutionReport) call \<Rightarrow> uuid \<Rightarrow> string \<Rightarrow> string
     \<Rightarrow> OrderSide \<Rightarrow> 'w \<Rightarrow> (ExecutionReport \<times> 'w) option" where
  "execute_with_retry A cfg oper oid m out side w =
     map_option (\<lambda>(r, w'). (retry_report (api_now A w') oid m out side r, w'))
       (retry_loop cfg (api_sleep A) oper 0 [] w)"

subsection \<open>The executor's operations\<close>

text \<open>
  A call returns a report, or is \<open>Blocked\<close> on the full report channel, or \<open>Diverges\<close> in the
  retry loop; the state is the one reached.
\<close>

datatype ended = Returns ExecutionReport | Blocked | Diverges

definition send_report :: "ExecutionReport \<Rightarrow> 'w OrderExecutor \<Rightarrow> bool \<times> 'w OrderExecutor" where
  "send_report r ex =
     (if report_rx ex = Dropped then (True, ex)
      else if length (report_queue ex) < REPORT_CAPACITY
      then (True, ex\<lparr>report_queue := report_queue ex @ [r]\<rparr>)
      else (False, ex))"

definition finish_with :: "ExecutionReport \<Rightarrow> 'w OrderExecutor \<Rightarrow> ended \<times> 'w OrderExecutor" where
  "finish_with r ex = (case send_report r ex of (sent, ex') \<Rightarrow> (if sent then Returns r else Blocked, ex'))"

text \<open>Counters wrap; \<open>orders_submitted\<close> is nonzero after the increment for fewer than \<open>2 ^ 64\<close> orders.\<close>

definition update_metrics :: "num_env \<Rightarrow> u64 \<Rightarrow> ExecutionReport \<Rightarrow> ExecutionMetrics \<Rightarrow> ExecutionMetrics" where
  "update_metrics E latency_us rep m =
     (let m1 = m\<lparr>orders_submitted := orders_submitted m + 1\<rparr>;
          m2 = (if is_success rep
                then m1\<lparr>orders_filled := orders_filled m1 + 1,
                        total_volume := dadd E (total_volume m1) (total_value E rep),
                        total_fees := dadd E (total_fees m1) (fees_paid rep)\<rparr>
                else m1\<lparr>orders_rejected := orders_rejected m1 + 1\<rparr>)
      in m2\<lparr>avg_latency_us :=
              (avg_latency_us m2 * (orders_submitted m2 - 1) + latency_us) div orders_submitted m2\<rparr>)"

definition market_attempt ::
  "num_env \<Rightarrow> ('w, 'o) clob_api \<Rightarrow> 'w OrderExecutor \<Rightarrow> MarketOrder \<Rightarrow> ('w, string + ExecutionReport) call" where
  "market_attempt E A ex ord =
     (if live_override ex then execute_live_market_order E A (ex_config ex) (auth_client ex) ord
      else simulate_market_order E A (ex_config ex) ord)"

definition limit_attempt ::
  "num_env \<Rightarrow> ('w, 'o) clob_api \<Rightarrow> 'w OrderExecutor \<Rightarrow> LimitOrder \<Rightarrow> ('w, string + ExecutionReport) call" where
  "limit_attempt E A ex ord =
     (if live_override ex then execute_live_limit_order E A (ex_config ex) (auth_client ex) ord
      else simulate_limit_order E A (ex_config ex) ord)"

definition execute_market_order ::
  "num_env \<Rightarrow> ('w, 'o) clob_api \<Rightarrow> u64 \<Rightarrow> MarketOrder \<Rightarrow> 'w OrderExecutor \<Rightarrow> ended \<times> 'w OrderExecutor" where
  "execute_market_order E A latency_us ord ex =
     (if max_order_size (ex_config ex) < mo_quantity ord
      then finish_with (reject_market_order (api_now A (world ex)) ord
             (OrderTooLarge (mo_quantity ord) (max_order_size (ex_config ex)))) ex
      else
        let ex1 = ex\<lparr>pending_orders := store_insert (mo_id ord) PendingStatus (pending_orders ex)\<rparr>
        in case execute_with_retry A (ex_config ex1) (market_attempt E A ex1 ord) (mo_id ord)
                  (mo_market_id ord) (mo_outcome_id ord) (mo_side ord) (world ex1) of
             None \<Rightarrow> (Diverges, ex1)
           | Some (rep, w') \<Rightarrow>
               finish_with rep (ex1\<lparr>world := w',
                 ex_metrics := update_metrics E latency_us rep (ex_metrics ex1),
                 pending_orders := store_remove (mo_id ord) (pending_orders ex1)\<rparr>))"

definition execute_limit_order ::
  "num_env \<Rightarrow> ('w, 'o) clob_api \<Rightarrow> LimitOrder \<Rightarrow> 'w OrderExecutor \<Rightarrow> ended \<times> 'w OrderExecutor" where
  "execute_limit_order E A ord ex =
     (if max_order_size (ex_config ex) < lo_quantity ord
      then finish_with (report_rejected (api_now A (world ex)) (lo_id ord) (lo_market_id ord)
             (lo_outcome_id ord) (lo_side ord)
             (OrderTooLarge (lo_quantity ord) (max_order_size (ex_config ex)))) ex
      else
        let ex1 = ex\<lparr>pending_orders := store_insert (lo_id ord) PendingStatus (pending_orders ex)\<rparr>
        in case execute_with_retry A (ex_config ex1) (limit_attempt E A ex1 ord) (lo_id ord)
                  (lo_market_id ord) (lo_outcome_id ord) (lo_side ord) (world ex1) of
             None \<Rightarrow> (Diverges, ex1)
           | Some (rep, w') \<Rightarrow>
               finish_with rep (ex1\<lparr>world := w',
                 pending_orders := store_remove (lo_id ord) (pending_orders ex1)\<rparr>))"

definition cancel_order :: "uuid \<Rightarrow> 'w OrderExecutor \<Rightarrow> bool \<times> 'w OrderExecutor" where
  "cancel_order oid ex =
     (store_get (pending_orders ex) oid \<noteq> None,
      ex\<lparr>pending_orders := store_remove oid (pending_orders ex)\<rparr>)"

definition set_live_mode :: "bool \<Rightarrow> 'w OrderExecutor \<Rightarrow> 'w OrderExecutor" where
  "set_live_mode enabled ex = ex\<lparr>live_override := enabled\<rparr>"

definition take_report_receiver :: "'w OrderExecutor \<Rightarrow> bool \<times> 'w OrderExecutor" where
  "take_report_receiver ex =
     (if report_rx ex = Held then (True, ex\<lparr>report_rx := Taken\<rparr>) else (False, ex))"

definition is_live_ready :: "'w OrderExecutor \<Rightarrow> bool" where
  "is_live_ready ex =
     (live_override ex \<and> (case auth_client ex of None \<Rightarrow> False | Some c \<Rightarrow> ac_has_credentials c))"

text \<open>
  Wallet operations. They are not under the order timeout; the result of the key derivation is
  what \<open>create_or_derive_api_key\<close> answers in the end.
\<close>

definition initialize_live_trading ::
  "('w, 'o) clob_api \<Rightarrow> 'w OrderExecutor \<Rightarrow> (string + unit) option \<times> 'w OrderExecutor" where
  "initialize_live_trading A ex =
     (case auth_client ex of
        None \<Rightarrow> (Some (Inl ''No authenticated client - call reload_wallet() or use new_with_wallet() first''), ex)
      | Some c \<Rightarrow>
          (case api_derive_key A (ac_address c) (world ex) of
             (None, w') \<Rightarrow> (None, ex\<lparr>world := w'\<rparr>)
           | (Some (Inl e), w') \<Rightarrow>
               (Some (Inl (''Failed to derive API credentials: '' @ e)), ex\<lparr>world := w'\<rparr>)
           | (Some (Inr _), w') \<Rightarrow>
               (Some (Inr ()), ex\<lparr>world := w', auth_client := Some (c\<lparr>ac_has_credentials := True\<rparr>)\<rparr>)))"

definition reload_wallet ::
  "('w, 'o) clob_api \<Rightarrow> string \<Rightarrow> 'w OrderExecutor \<Rightarrow> (string + string) option \<times> 'w OrderExecutor" where
  "reload_wallet A addr ex =
     (if \<not> live_override ex
      then (Some (Inl ''Executor is not in live mode; set LIVE_TRADING=true''), ex)
      else
        (case api_derive_key A addr (world ex) of
           (None, w') \<Rightarrow> (None, ex\<lparr>world := w'\<rparr>)
         | (Some (Inl e), w') \<Rightarrow>
             (Some (Inl (''Failed to derive API credentials: '' @ e)), ex\<lparr>world := w'\<rparr>)
         | (Some (Inr _), w') \<Rightarrow>
             (Some (Inr addr), ex\<lparr>world := w',
                auth_client := Some \<lparr>ac_address = addr, ac_has_credentials = True\<rparr>\<rparr>)))"

definition ensure_live_buying_power ::
  "('w, 'o) clob_api \<Rightarrow> decimal \<Rightarrow> 'w OrderExecutor \<Rightarrow> (string + unit) option \<times> 'w OrderExecutor" where
  "ensure_live_buying_power A required ex =
     (if required \<le> 0 \<or> \<not> is_live_ready ex then (Some (Inr ()), ex)
      else (case ensure_live_order_capacity A Buy ''collateral'' required (world ex) of
              (r, w') \<Rightarrow> (r, ex\<lparr>world := w'\<rparr>)))"

definition refresh_clob_allowance_cache ::
  "('w, 'o) clob_api \<Rightarrow> 'w OrderExecutor \<Rightarrow> (string + unit) option \<times> 'w OrderExecutor" where
  "refresh_clob_allowance_cache A ex =
     (case auth_client ex of
        None \<Rightarrow> (Some (Inl ''No authenticated client''), ex)
      | Some _ \<Rightarrow>
          (case refresh_clob_allowance_cache_for_client A (world ex) of
             (None, w') \<Rightarrow> (None, ex\<lparr>world := w'\<rparr>)
           | (Some _, w') \<Rightarrow> (Some (Inr ()), ex\<lparr>world := w'\<rparr>)))"

subsection \<open>The retry loop ends\<close>

text \<open>The operation instrumented with a counter of its invocations.\<close>

definition counted :: "('w, 'a) call \<Rightarrow> ('w \<times> nat, 'a) call" where
  "counted oper = (\<lambda>(w, n). case oper w of (r, w') \<Rightarrow> (r, (w', n + 1)))"

definition counted_sleep :: "(u64 \<Rightarrow> 'w \<Rightarrow> 'w) \<Rightarrow> u64 \<Rightarrow> 'w \<times> nat \<Rightarrow> 'w \<times> nat" where
  "counted_sleep sleep d = (\<lambda>(w, n). (sleep d w, n))"

lemma backoff_counted: "\<exists>w'. backoff cfg (counted_sleep sleep) a (w, n) = (w', n)"
  by (simp add: backoff_def counted_sleep_def)

text \<open>The loop ended after \<open>n\<close> invocations in total, within the budget.\<close>

definition within_budget :: "ExecutorConfig \<Rightarrow> nat \<Rightarrow> ('r retry_end \<times> 'w \<times> nat) option \<Rightarrow> bool" where
  "within_budget cfg least res =
     (\<exists>r w' n. res = Some (r, (w', n)) \<and> n \<le> unat (max_retries cfg) + 1 \<and> least \<le> n
        \<and> (\<forall>k e. r = Exhausted k e \<longrightarrow> unat k = n \<and> n = unat (max_retries cfg) + 1))"

lemma within_budget_mono: "within_budget cfg b res \<Longrightarrow> a \<le> b \<Longrightarrow> within_budget cfg a res"
  unfolding within_budget_def using le_trans by blast

lemma retry_loop_counted:
  fixes cfg :: ExecutorConfig and oper :: "('w, string + 'r) call"
  assumes "max_retries cfg \<noteq> - 1" "unat a \<le> unat (max_retries cfg) + 1"
  shows "within_budget cfg (min (unat a + 1) (unat (max_retries cfg) + 1))
    (retry_loop cfg (counted_sleep sleep) (counted oper) a err (w, unat a))"
  using assms
proof (induction "unat (max_retries cfg) + 1 - unat a" arbitrary: a err w)
  case 0
  then have "\<not> a \<le> max_retries cfg" "unat a = unat (max_retries cfg) + 1" by (simp_all add: word_le_nat_alt)
  then show ?case by (subst retry_loop.simps) (simp add: within_budget_def)
next
  case (Suc x)
  then have le: "a \<le> max_retries cfg" by (simp add: word_le_nat_alt)
  have "unat (max_retries cfg) < 2 ^ 32 - 1"
    using Suc.prems(1) by (rule unat_not_max)
  then have a1: "unat (a + 1) = unat a + 1"
    using le by (intro unat_suc) (simp add: word_le_nat_alt)
  have again: "within_budget cfg (unat a + 1)
      (retry_loop cfg (counted_sleep sleep) (counted oper) (a + 1) e
        (backoff cfg (counted_sleep sleep) (a + 1) (v, unat a + 1)))" for e v
  proof -
    obtain v' where b: "backoff cfg (counted_sleep sleep) (a + 1) (v, unat a + 1) = (v', unat (a + 1))"
      using backoff_counted a1 by metis
    have "within_budget cfg (min (unat (a + 1) + 1) (unat (max_retries cfg) + 1))
        (retry_loop cfg (counted_sleep sleep) (counted oper) (a + 1) e (v', unat (a + 1)))"
      using Suc.hyps(2) Suc.prems(1) le by (intro Suc.hyps(1)) (auto simp: a1 word_le_nat_alt)
    then show ?thesis
      unfolding b by (rule within_budget_mono) (use le in \<open>simp add: a1 word_le_nat_alt\<close>)
  qed
  obtain r w' where op: "oper w = (r, w')" by fastforce
  have bound: "unat a + 1 \<le> unat (max_retries cfg) + 1" using le by (simp add: word_le_nat_alt)
  then have stop: "within_budget cfg (unat a + 1) (Some (q, w', unat a + 1))"
    if "\<And>k e. q \<noteq> Exhausted k e" for q :: "'r retry_end"
    using that by (auto simp: within_budget_def)
  have "within_budget cfg (unat a + 1) (retry_loop cfg (counted_sleep sleep) (counted oper) a err (w, unat a))"
  proof (cases r)
    case None
    with le again show ?thesis by (subst retry_loop.simps) (simp add: counted_def op)
  next
    case (Some q)
    with le again stop show ?thesis
      by (subst retry_loop.simps) (cases q; simp add: counted_def op)
  qed
  with bound show ?case by simp
qed

text \<open>The loop without the counter behaves the same.\<close>

lemma retry_loop_erase:
  assumes "max_retries cfg \<noteq> - 1" "unat a \<le> unat (max_retries cfg) + 1"
  shows "retry_loop cfg sleep oper a err w =
    map_option (\<lambda>(r, w', n). (r, w')) (retry_loop cfg (counted_sleep sleep) (counted oper) a err (w, m))"
  using assms
proof (induction "unat (max_retries cfg) + 1 - unat a" arbitrary: a err w m)
  case 0
  then have "\<not> a \<le> max_retries cfg" by (simp add: word_le_nat_alt)
  then show ?case by (subst (1 2) retry_loop.simps) simp
next
  case (Suc x)
  then have le: "a \<le> max_retries cfg" by (simp add: word_le_nat_alt)
  have "unat (max_retries cfg) < 2 ^ 32 - 1" using Suc.prems(1) by (rule unat_not_max)
  then have a1: "unat (a + 1) = unat a + 1"
    using le by (intro unat_suc) (simp add: word_le_nat_alt)
  have b: "backoff cfg (counted_sleep sleep) (a + 1) (v, k) = (backoff cfg sleep (a + 1) v, k)" for v k
    by (simp add: backoff_def counted_sleep_def)
  have again: "retry_loop cfg sleep oper (a + 1) e v = map_option (\<lambda>(r, w', n). (r, w'))
     (retry_loop cfg (counted_sleep sleep) (counted oper) (a + 1) e (v, k))" for e v k
    using Suc.hyps(2) Suc.prems(1) le by (intro Suc.hyps(1)) (auto simp: a1 word_le_nat_alt)
  obtain r w' where op: "oper w = (r, w')" by fastforce
  have c: "counted oper (w, m) = (r, (w', m + 1))" by (simp add: counted_def op)
  show ?case
    using le by (subst (1 2) retry_loop.simps)
      (cases r; simp add: op c b again [symmetric] split: sum.split)
qed

lemma retry_loop_total:
  assumes "max_retries cfg \<noteq> - 1"
  shows "\<exists>r w'. retry_loop cfg sleep oper 0 err w = Some (r, w')"
proof -
  have "within_budget cfg (min (unat (0 :: u32) + 1) (unat (max_retries cfg) + 1))
      (retry_loop cfg (counted_sleep sleep) (counted oper) 0 err (w, unat (0 :: u32)))"
    by (rule retry_loop_counted [OF assms]) simp
  then show ?thesis
    by (subst retry_loop_erase [OF assms, of _ _ _ _ _ "unat (0 :: u32)"]) (auto simp: within_budget_def)
qed

text \<open>A report that the loop returns as a success was returned by one of the attempts.\<close>

lemma retry_loop_succeeded:
  fixes oper :: "('w, string + 'r) call"
  assumes "retry_loop cfg sleep oper a err w = Some (Succeeded r, w')"
  shows "\<exists>w1 w2. oper w1 = (Some (Inr r), w2)"
proof -
  show ?thesis
  proof (rule retry_loop.raw_induct [where
        P = "\<lambda>cfg sleep oper a err w res. fst res = Succeeded r \<longrightarrow> (\<exists>w1 w2. oper w1 = (Some (Inr r), w2))",
        OF _ assms, THEN mp])
    fix loop :: "ExecutorConfig \<Rightarrow> (u64 \<Rightarrow> 'w \<Rightarrow> 'w) \<Rightarrow> ('w, string + 'r) call \<Rightarrow> u32 \<Rightarrow> string \<Rightarrow> 'w
        \<Rightarrow> ('r retry_end \<times> 'w) option"
      and cfg sleep attempts last_error w res and oper :: "('w, string + 'r) call"
    assume "\<And>cfg sleep oper a err w res. loop cfg sleep oper a err w = Some res \<Longrightarrow>
        fst res = Succeeded r \<longrightarrow> (\<exists>w1 w2. oper w1 = (Some (Inr r), w2))"
      and "(if attempts \<le> max_retries cfg
        then (case oper w of
           (Some (Inr r), w') \<Rightarrow> Some (Succeeded r, w')
         | (Some (Inl e), w') \<Rightarrow>
             if \<not> is_retryable_error e then Some (NonRetryable e, w')
             else loop cfg sleep oper (attempts + 1) e (backoff cfg sleep (attempts + 1) w')
         | (None, w') \<Rightarrow>
             loop cfg sleep oper (attempts + 1) (timeout_text cfg)
               (backoff cfg sleep (attempts + 1) w'))
        else Some (Exhausted attempts last_error, w)) = Some res"
    then show "fst res = Succeeded r \<longrightarrow> (\<exists>w1 w2. oper w1 = (Some (Inr r), w2))"
      by (auto split: if_splits prod.splits option.splits sum.splits) blast
  qed simp
qed

text \<open>
  C6: The retry loop is bounded and total. Unless \<open>max_retries\<close> is \<open>u32::MAX\<close>, for every operation
  and every behaviour of the exchange the loop ends after at least one and at most
  \<open>max_retries + 1\<close> invocations, and it reports "failed after k attempts" only after exactly
  \<open>k = max_retries + 1\<close> of them.
\<close>

theorem retry_attempts_bounded:
  assumes "max_retries cfg \<noteq> - 1"
  shows "\<exists>r w' n. retry_loop cfg (counted_sleep sleep) (counted oper) 0 err (w, 0) = Some (r, (w', n))
    \<and> 1 \<le> n \<and> n \<le> unat (max_retries cfg) + 1
    \<and> (\<forall>k e. r = Exhausted k e \<longrightarrow> unat k = n \<and> n = unat (max_retries cfg) + 1)"
  using retry_loop_counted [OF assms, of 0 sleep oper err w]
  by (auto simp: within_budget_def)

theorem retry_attempts_bounded_witness:
  "\<exists>r w' n. retry_loop default_executor_config (counted_sleep (\<lambda>d w. w))
       (counted (\<lambda>w :: nat. (Some (Inl ''503''), w + 1) :: (string + nat) option \<times> nat)) 0 [] (0, 0)
     = Some (r, (w', n))
    \<and> 1 \<le> n \<and> n \<le> unat (max_retries default_executor_config) + 1
    \<and> (\<forall>k e. r = Exhausted k e \<longrightarrow> unat k = n \<and> n = unat (max_retries default_executor_config) + 1)"
  by (rule retry_attempts_bounded) (simp add: default_executor_config_def)

subsection \<open>What a fill means\<close>

definition acceptable :: "num_env \<Rightarrow> ExecutorConfig \<Rightarrow> MarketOrder \<Rightarrow> decimal \<Rightarrow> decimal \<Rightarrow> bool" where
  "acceptable E cfg ord price available =
     (min_book_depth cfg \<le> dmul E available price \<and> mo_quantity ord \<le> available
      \<and> (case max_slippage ord of None \<Rightarrow> True | Some mx \<Rightarrow> order_slippage E ord price \<le> mx))"

lemma reject_market_order_simps [simp]:
  "\<not> is_success (reject_market_order now ord e)" "er_order_id (reject_market_order now ord e) = mo_id ord"
  by (simp_all add: reject_market_order_def)

lemma validate_None_iff:
  "validate_market_order_at_best_level E cfg now ord price available = None
     \<longleftrightarrow> acceptable E cfg ord price available"
  by (auto simp: validate_market_order_at_best_level_def acceptable_def Let_def not_less split: option.split)

lemma validate_SomeD:
  "validate_market_order_at_best_level E cfg now ord price available = Some rep \<Longrightarrow> \<not> is_success rep"
  by (auto simp: validate_market_order_at_best_level_def Let_def split: option.splits if_splits)

lemma best_level_InlD: "best_level_for_order now ord book = Inl rep \<Longrightarrow> \<not> is_success rep"
  by (auto simp: best_level_for_order_def split: OrderSide.splits option.splits)

text \<open>The price a successful attempt fills at was the best level of a book the exchange sent.\<close>

definition filled_from_book ::
  "num_env \<Rightarrow> ('w, 'o) clob_api \<Rightarrow> ExecutorConfig \<Rightarrow> MarketOrder \<Rightarrow> decimal \<Rightarrow> 'w \<Rightarrow> bool" where
  "filled_from_book E A cfg ord price w1 =
     (\<exists>w book available. api_order_book A (mo_outcome_id ord) w = (Some (Inr book), w1)
        \<and> best_level_for_order (api_now A w1) ord book = Inr (price, available)
        \<and> acceptable E cfg ord price available)"

lemma at_best_level_success:
  assumes "at_best_level E A cfg ord k w = (Some (Inr rep), w')" "is_success rep"
  obtains price w1 where "filled_from_book E A cfg ord price w1" "k price w1 = (Some (Inr rep), w')"
proof -
  from assms(1) obtain r w1 where r: "api_order_book A (mo_outcome_id ord) w = (Some r, w1)"
    and next1: "(case r of Inl e \<Rightarrow> (Some (Inl e), w1)
       | Inr book \<Rightarrow>
           (case best_level_for_order (api_now A w1) ord book of
              Inl rep \<Rightarrow> (Some (Inr rep), w1)
            | Inr (price, available) \<Rightarrow>
                (case validate_market_order_at_best_level E cfg (api_now A w1) ord price available of
                   Some rep \<Rightarrow> (Some (Inr rep), w1) | None \<Rightarrow> k price w1))) = (Some (Inr rep), w')"
    unfolding at_best_level_def by (rule tbind_SomeD)
  from next1 assms(2) obtain book price available where "r = Inr book"
    "best_level_for_order (api_now A w1) ord book = Inr (price, available)"
    "validate_market_order_at_best_level E cfg (api_now A w1) ord price available = None"
    "k price w1 = (Some (Inr rep), w')"
    by (auto split: sum.splits prod.splits option.splits dest!: best_level_InlD validate_SomeD)
  with r have "filled_from_book E A cfg ord price w1"
    by (auto simp: filled_from_book_def validate_None_iff)
  with \<open>k price w1 = _\<close> show thesis by (rule that [rotated])
qed

lemma settle_fok_success:
  assumes "settle_fok E A cfg ord price resp w = (Some (Inr rep), w')" "is_success rep"
  shows "to_lowercase (por_status resp) = ''matched'' \<and> rep = fill_market_order E cfg (api_now A w) ord price"
  using assms
  by (auto simp: settle_fok_def Let_def elim!: tbind_SomeD split: if_splits)

lemma post_signed_Inr:
  "post_signed A so typ w = (Some (Inr resp), w') \<Longrightarrow> api_post_order A so typ w = (Some (Inr resp), w')"
  by (auto simp: post_signed_def elim!: tbind_SomeD split: sum.splits if_splits)

lemma submit_market_order_success:
  assumes "submit_market_order E A cfg client ord price w = (Some (Inr rep), w')" "is_success rep"
  shows "ac_has_credentials client \<and> (\<exists>so resp w1 w2 now.
    api_post_order A so Fok w1 = (Some (Inr resp), w2) \<and> to_lowercase (por_status resp) = ''matched''
    \<and> rep = fill_market_order E cfg now ord price)"
proof -
  have c: "ac_has_credentials client"
    using assms by (simp add: submit_market_order_def split: if_splits)
  obtain so p w1 w2 where "post_signed A so Fok w1 = (Some p, w2)"
    and "(case p of Inl e \<Rightarrow> tret (Inl e) | Inr resp \<Rightarrow> settle_fok E A cfg ord price resp) w2 = (Some (Inr rep), w')"
    using assms(1) c by (auto simp: submit_market_order_def Let_def elim!: tbind_SomeD split: sum.splits)
  then obtain resp where "api_post_order A so Fok w1 = (Some (Inr resp), w2)"
    "settle_fok E A cfg ord price resp w2 = (Some (Inr rep), w')"
    by (cases p) (auto dest!: post_signed_Inr)
  with c settle_fok_success [OF this(2) assms(2)] show ?thesis by blast
qed

definition confirmed_fill ::
  "num_env \<Rightarrow> ('w, 'o) clob_api \<Rightarrow> ExecutorConfig \<Rightarrow> MarketOrder \<Rightarrow> ExecutionReport \<Rightarrow> bool" where
  "confirmed_fill E A cfg ord rep =
     (\<exists>price now w1 so resp w2 w3. rep = fill_market_order E cfg now ord price
        \<and> filled_from_book E A cfg ord price w1
        \<and> api_post_order A so Fok w2 = (Some (Inr resp), w3)
        \<and> to_lowercase (por_status resp) = ''matched'')"

lemma live_attempt_success:
  assumes "execute_live_market_order E A cfg auth ord w = (Some (Inr rep), w')" "is_success rep"
  shows "(\<exists>c. auth = Some c \<and> ac_has_credentials c) \<and> confirmed_fill E A cfg ord rep"
proof (cases auth)
  case None
  with assms show ?thesis by (auto simp: execute_live_market_order_def)
next
  case (Some c)
  then obtain price w1 where "filled_from_book E A cfg ord price w1"
    "submit_market_order E A cfg c ord price w1 = (Some (Inr rep), w')"
    using assms by (auto simp: execute_live_market_order_def elim: at_best_level_success)
  with submit_market_order_success [OF this(2) assms(2)] Some show ?thesis
    unfolding confirmed_fill_def by blast
qed

lemma execute_with_retry_success:
  assumes "execute_with_retry A cfg oper oid m out side w = Some (rep, w')" "is_success rep"
  shows "\<exists>w1 w2. oper w1 = (Some (Inr rep), w2)"
proof -
  obtain r where r: "retry_loop cfg (api_sleep A) oper 0 [] w = Some (r, w')"
    "rep = retry_report (api_now A w') oid m out side r"
    using assms(1) by (auto simp: execute_with_retry_def)
  with assms(2) have "r = Succeeded rep" by (cases r) auto
  with r(1) have "retry_loop cfg (api_sleep A) oper 0 [] w = Some (Succeeded rep, w')" by simp
  then show ?thesis by (rule retry_loop_succeeded)
qed

text \<open>How an execution ends: what \<open>execute_market_order\<close> sends is the report of the retry loop.\<close>

lemma execute_market_order_cases:
  assumes "execute_market_order E A lat ord ex = (res, ex')"
  obtains (oversize) "max_order_size (ex_config ex) < mo_quantity ord"
      "(res, ex') = finish_with (reject_market_order (api_now A (world ex)) ord
             (OrderTooLarge (mo_quantity ord) (max_order_size (ex_config ex)))) ex"
  | (diverges) "res = Diverges" "mo_quantity ord \<le> max_order_size (ex_config ex)"
      "execute_with_retry A (ex_config ex) (market_attempt E A ex ord) (mo_id ord)
         (mo_market_id ord) (mo_outcome_id ord) (mo_side ord) (world ex) = None"
  | (ran) rep w' where "mo_quantity ord \<le> max_order_size (ex_config ex)"
      "execute_with_retry A (ex_config ex) (market_attempt E A ex ord) (mo_id ord)
         (mo_market_id ord) (mo_outcome_id ord) (mo_side ord) (world ex) = Some (rep, w')"
      "(res, ex') = finish_with rep (ex\<lparr>world := w',
         ex_metrics := update_metrics E lat rep (ex_metrics ex),
         pending_orders := store_remove (mo_id ord) (store_insert (mo_id ord) PendingStatus (pending_orders ex))\<rparr>)"
  using assms
  by (auto simp: execute_market_order_def market_attempt_def Let_def not_less
      split: if_splits option.splits prod.splits)

lemma finish_with_Returns:
  "finish_with r ex = (Returns rep, ex') \<Longrightarrow> rep = r"
  by (auto simp: finish_with_def split: prod.splits if_splits)

text \<open>In paper and in live mode a successful report fills the whole quantity.\<close>

lemma attempt_fills:
  assumes "market_attempt E A ex ord w = (Some (Inr rep), w')" "is_success rep"
  shows "\<exists>now price. rep = fill_market_order E (ex_config ex) now ord price"
proof (cases "live_override ex")
  case True
  with assms live_attempt_success [of E A "ex_config ex" "auth_client ex" ord w rep w'] show ?thesis
    by (auto simp: market_attempt_def confirmed_fill_def)
next
  case False
  with assms show ?thesis
    by (auto simp: market_attempt_def simulate_market_order_def elim!: at_best_level_success)
qed

lemma market_order_fills:
  assumes "execute_market_order E A lat ord ex = (Returns rep, ex')" "is_success rep"
  shows "\<exists>now price. rep = fill_market_order E (ex_config ex) now ord price"
  using assms(1)
proof (cases rule: execute_market_order_cases)
  case oversize
  with assms(2) show ?thesis by (auto dest!: finish_with_Returns [OF sym])
next
  case (ran rep' w')
  then have "rep' = rep" by (auto dest!: finish_with_Returns [OF sym])
  with ran(2) assms(2) show ?thesis by (auto dest!: execute_with_retry_success intro: attempt_fills)
qed simp

text \<open>
  C4: A live fill is a confirmed fill. When a market order executed in live mode is reported as
  successful, the wallet had credentials, the exchange answered a fill-or-kill post with the
  status \<open>matched\<close>, and the reported price was the best level of a book it had sent, which passed
  the depth, size and slippage checks; the reported quantity is the ordered one.
\<close>

theorem live_fill_confirmed:
  assumes "execute_market_order E A lat ord ex = (Returns rep, ex')"
    and "live_override ex" "is_success rep"
  shows "(\<exists>c. auth_client ex = Some c \<and> ac_has_credentials c)
    \<and> confirmed_fill E A (ex_config ex) ord rep \<and> filled_quantity rep = mo_quantity ord"
  using assms(1)
proof (cases rule: execute_market_order_cases)
  case oversize
  with assms(3) show ?thesis by (auto dest!: finish_with_Returns [OF sym])
next
  case (ran rep' w')
  then have "rep' = rep" by (auto dest!: finish_with_Returns [OF sym])
  with ran(2) assms(3) obtain w1 w2 where "market_attempt E A ex ord w1 = (Some (Inr rep), w2)"
    by (auto dest!: execute_with_retry_success)
  with assms(2,3) have "(\<exists>c. auth_client ex = Some c \<and> ac_has_credentials c)
    \<and> confirmed_fill E A (ex_config ex) ord rep"
    by (intro live_attempt_success) (simp_all add: market_attempt_def)
  then show ?thesis by (auto simp: confirmed_fill_def fill_market_order_def)
qed simp

text \<open>
  A sample exchange on which the properties are exercised: the world counts the orders that were
  posted; the first \<open>k\<close> posts reach the exchange but their answer comes after the timeout, later
  ones are matched.
\<close>

definition sample_api :: "nat \<Rightarrow> (nat, unit) clob_api" where
  "sample_api k = \<lparr>api_now = (\<lambda>_. 0), api_sleep = (\<lambda>_ w. w), dec_display = (\<lambda>_. []),
     dec_parse = (\<lambda>_. None),
     api_order_book = (\<lambda>_ w. (Some (Inr \<lparr>ob_market_id = ''m'', ob_outcome_id = ''yes'',
        ob_timestamp = 0, bids = [], asks = [\<lparr>pl_price = 1 / 2, pl_size = 1000\<rparr>]\<rparr>), w)),
     api_balance = (\<lambda>_ _ w. (Some (Inr \<lparr>ba_balance = [], ba_allowance = []\<rparr>), w)),
     api_update_balance = (\<lambda>_ w. (Some (Inr ()), w)),
     api_update_balance_for_token = (\<lambda>_ _ w. (Some (Inr ()), w)),
     api_create_market_order = (\<lambda>_ _ _ _ _ w. (Some (Inr ()), w)),
     api_create_order = (\<lambda>_ _ _ _ _ w. (Some (Inr ()), w)),
     api_post_order = (\<lambda>_ _ w. (if w < k then None
        else Some (Inr \<lparr>por_order_id = ''o'', por_status = ''MATCHED'', por_transaction_hash = None\<rparr>), w + 1)),
     api_cancel_order = (\<lambda>_ w. (Some (Inr ()), w)),
     api_derive_key = (\<lambda>_ w. (Some (Inr ()), w))\<rparr>"

definition sample_order :: MarketOrder where
  "sample_order = with_slippage (1 / 100) (with_expected_price (1 / 2)
     (new_market_order 1 0 ''m'' ''yes'' Buy 100))"

definition sample_executor :: "nat OrderExecutor" where
  "sample_executor = (new_executor default_executor_config 0)\<lparr>live_override := True,
     auth_client := Some \<lparr>ac_address = ''0x'', ac_has_credentials = True\<rparr>\<rparr>"

lemmas sample_eval = sample_api_def sample_order_def sample_executor_def new_executor_def
  default_executor_config_def with_slippage_def with_expected_price_def new_market_order_def
  market_attempt_def execute_live_market_order_def at_best_level_def tbind_def tret_def
  best_level_for_order_def validate_market_order_at_best_level_def order_slippage_def
  submit_market_order_def ensure_live_order_capacity_def live_amount_def
  get_balance_allowance_snapshot_def below_def check_capacity_def parse_decimal_value_def trim_def
  post_signed_def settle_fok_def is_unfilled_def dec_new_def Let_def

lemma lowercase_matched: "to_lowercase ''MATCHED'' = ''matched''"
  by code_simp

lemma sample_attempt:
  "market_attempt exact_env (sample_api k) sample_executor sample_order w =
     (if w < k then None
      else Some (Inr (fill_market_order exact_env default_executor_config 0 sample_order (1 / 2))), w + 1)"
  by (simp add: sample_eval lowercase_matched)

lemma market_attempt_pending [simp]:
  "market_attempt E A (ex\<lparr>pending_orders := p\<rparr>) ord = market_attempt E A ex ord"
  by (simp add: market_attempt_def)

lemma limit_attempt_pending [simp]:
  "limit_attempt E A (ex\<lparr>pending_orders := p\<rparr>) ord = limit_attempt E A ex ord"
  by (simp add: limit_attempt_def)

lemma sample_clock: "api_sleep (sample_api k) = (\<lambda>_ w. w)" "api_now (sample_api k) w = 0"
  by (simp_all add: sample_api_def)

lemma sample_retry:
  "execute_with_retry (sample_api 1) default_executor_config
     (market_attempt exact_env (sample_api 1) sample_executor sample_order) 1 ''m'' ''yes'' Buy 0
   = Some (fill_market_order exact_env default_executor_config 0 sample_order (1 / 2), 2)"
proof -
  let ?loop = "retry_loop default_executor_config (api_sleep (sample_api 1))
     (market_attempt exact_env (sample_api 1) sample_executor sample_order)"
  have "?loop 0 [] 0 = ?loop 1 (timeout_text default_executor_config) 1"
    by (subst retry_loop.simps) (simp add: sample_attempt backoff_def sample_clock)
  also have "\<dots> = Some (Succeeded (fill_market_order exact_env default_executor_config 0 sample_order (1 / 2)), 2)"
    by (subst retry_loop.simps) (simp add: sample_attempt default_executor_config_def)
  finally show ?thesis by (simp add: execute_with_retry_def)
qed

lemma sample_fields:
  "ex_config sample_executor = default_executor_config" "world sample_executor = 0"
  "mo_id sample_order = 1" "mo_market_id sample_order = ''m''" "mo_outcome_id sample_order = ''yes''"
  "mo_side sample_order = Buy" "mo_quantity sample_order = 100" "live_override sample_executor"
  "pending_orders sample_executor = []" "report_queue sample_executor = []"
  "report_rx sample_executor = Held" "max_order_size default_executor_config = 10000"
  by (simp_all add: sample_executor_def new_executor_def sample_order_def new_market_order_def
      with_slippage_def with_expected_price_def default_executor_config_def dec_new_def)

lemma sample_run:
  "\<exists>ex'. execute_market_order exact_env (sample_api 1) 10 sample_order sample_executor =
     (Returns (fill_market_order exact_env default_executor_config 0 sample_order (1 / 2)), ex')
     \<and> world ex' = 2"
  by (simp add: execute_market_order_def Let_def sample_fields sample_retry finish_with_def send_report_def
      REPORT_CAPACITY_def del: One_nat_def)

theorem live_fill_confirmed_witness:
  "\<exists>ex' rep. execute_market_order exact_env (sample_api 1) 10 sample_order sample_executor = (Returns rep, ex')
    \<and> (\<exists>c. auth_client sample_executor = Some c \<and> ac_has_credentials c)
    \<and> confirmed_fill exact_env (sample_api 1) default_executor_config sample_order rep
    \<and> filled_quantity rep = mo_quantity sample_order"
proof -
  let ?rep = "fill_market_order exact_env default_executor_config 0 sample_order (1 / 2)"
  obtain ex' where run: "execute_market_order exact_env (sample_api 1) 10 sample_order sample_executor
     = (Returns ?rep, ex')" using sample_run by blast
  from live_fill_confirmed [OF run] show ?thesis
    using run by (auto simp: sample_fields fill_market_order_def)
qed

text \<open>
  An order whose answer is late is posted again. The timeout cancels the attempt while the
  post is in flight, and the retry submits a new one: on an exchange that receives the first
  post but answers it too late, one call of \<open>execute_market_order\<close> posts the order twice and
  reports one fill.
\<close>

theorem late_answer_posts_twice:
  "\<exists>rep ex'. execute_market_order exact_env (sample_api 1) 10 sample_order sample_executor = (Returns rep, ex')
    \<and> er_status rep = Filled \<and> filled_quantity rep = 100 \<and> world sample_executor = 0 \<and> world ex' = 2"
  using sample_run by (auto simp: fill_market_order_def sample_fields)

subsection \<open>The report channel and the metrics\<close>

lemma finish_with_cases:
  "report_rx ex \<noteq> Dropped \<Longrightarrow> length (report_queue ex) < REPORT_CAPACITY \<Longrightarrow>
     finish_with r ex = (Returns r, ex\<lparr>report_queue := report_queue ex @ [r]\<rparr>)"
  "report_rx ex \<noteq> Dropped \<Longrightarrow> \<not> length (report_queue ex) < REPORT_CAPACITY \<Longrightarrow>
     finish_with r ex = (Blocked, ex)"
  by (simp_all add: finish_with_def send_report_def)

lemma execute_with_retry_total:
  "max_retries cfg \<noteq> - 1 \<Longrightarrow> \<exists>rep w'. execute_with_retry A cfg oper oid m out side w = Some (rep, w')"
  using retry_loop_total [of cfg "api_sleep A" oper "[]" w] by (auto simp: execute_with_retry_def)

text \<open>Whatever the order, the executor ends up sending one report on the same channel.\<close>

lemma execute_market_order_sends:
  assumes "max_retries (ex_config ex) \<noteq> - 1"
  obtains rep ex1 where "execute_market_order E A lat ord ex = finish_with rep ex1"
    "ex_config ex1 = ex_config ex" "report_rx ex1 = report_rx ex" "report_queue ex1 = report_queue ex"
proof -
  obtain res ex' where run: "execute_market_order E A lat ord ex = (res, ex')" by fastforce
  from run show thesis
  proof (cases rule: execute_market_order_cases)
    case oversize
    with run that show thesis by auto
  next
    case diverges
    with execute_with_retry_total [OF assms] show thesis by (metis option.distinct(1))
  next
    case (ran rep w')
    with run that show thesis by simp
  qed
qed

text \<open>Callers that place one order after the other; nothing follows a call that does not return.\<close>

fun run_orders ::
  "num_env \<Rightarrow> ('w, 'o) clob_api \<Rightarrow> MarketOrder list \<Rightarrow> 'w OrderExecutor \<Rightarrow> ended list" where
  "run_orders E A [] ex = []"
| "run_orders E A (ord # ords) ex =
     (case execute_market_order E A 0 ord ex of
        (Returns rep, ex') \<Rightarrow> Returns rep # run_orders E A ords ex'
      | (res, _) \<Rightarrow> [res])"

lemma run_orders_saturates:
  "max_retries (ex_config ex) \<noteq> - 1 \<Longrightarrow> report_rx ex = Held \<Longrightarrow>
     length (report_queue ex) + n = REPORT_CAPACITY \<Longrightarrow> n < length ords \<Longrightarrow>
     \<exists>reps. run_orders E A ords ex = map Returns reps @ [Blocked] \<and> length reps = n"
proof (induction ords arbitrary: ex n)
  case (Cons ord ords)
  obtain rep ex1 where run: "execute_market_order E A 0 ord ex = finish_with rep ex1"
    and same: "ex_config ex1 = ex_config ex" "report_rx ex1 = report_rx ex" "report_queue ex1 = report_queue ex"
    using Cons.prems(1) by (rule execute_market_order_sends)
  show ?case
  proof (cases n)
    case 0
    then have "finish_with rep ex1 = (Blocked, ex1)"
      using Cons.prems same by (intro finish_with_cases) auto
    with 0 run show ?thesis by simp
  next
    case (Suc m)
    let ?ex2 = "ex1\<lparr>report_queue := report_queue ex1 @ [rep]\<rparr>"
    have fin: "finish_with rep ex1 = (Returns rep, ?ex2)"
      using Cons.prems same Suc by (intro finish_with_cases) auto
    obtain reps where "run_orders E A ords ?ex2 = map Returns reps @ [Blocked]" "length reps = m"
      using Cons.IH [of ?ex2 m] Cons.prems same Suc by auto
    then have "run_orders E A (ord # ords) ex = map Returns (rep # reps) @ [Blocked]"
      "length (rep # reps) = n" using run fin Suc by simp_all
    then show ?thesis by blast
  qed
qed simp

text \<open>
  Without a consumer the executor stops after 1000 orders. The receiver of the report channel
  stays inside a new executor until \<open>take_report_receiver\<close> is called; as long as it is not, for
  every exchange and every sequence of more than 1000 market orders exactly the first 1000
  calls return, and the next one waits on the full channel for ever.
\<close>

theorem unread_reports_block_executor:
  assumes "max_retries cfg \<noteq> - 1" "1000 < length ords"
  shows "\<exists>reps. run_orders E A ords (new_executor cfg w) = map Returns reps @ [Blocked] \<and> length reps = 1000"
  using assms by (intro run_orders_saturates) (simp_all add: new_executor_def REPORT_CAPACITY_def)

theorem unread_reports_block_executor_witness:
  "\<exists>reps. run_orders exact_env (sample_api 0) (replicate 1001 sample_order)
     (new_executor default_executor_config 0) = map Returns reps @ [Blocked] \<and> length reps = 1000"
  by (rule unread_reports_block_executor) (simp_all add: default_executor_config_def)

text \<open>
  The executor as a state machine: any operation, the consumer taking a report off a channel
  that was given away, and the consumer going away.
\<close>

inductive exec_step :: "num_env \<Rightarrow> ('w, 'o) clob_api \<Rightarrow> 'w OrderExecutor \<Rightarrow> 'w OrderExecutor \<Rightarrow> bool"
  for E :: num_env and A :: "('w, 'o) clob_api"
where
  xs_market: "execute_market_order E A lat ord ex = (res, ex') \<Longrightarrow> res \<noteq> Diverges \<Longrightarrow> exec_step E A ex ex'"
| xs_limit: "execute_limit_order E A lo ex = (res, ex') \<Longrightarrow> res \<noteq> Diverges \<Longrightarrow> exec_step E A ex ex'"
| xs_cancel: "exec_step E A ex (snd (cancel_order oid ex))"
| xs_live: "exec_step E A ex (set_live_mode b ex)"
| xs_take: "exec_step E A ex (snd (take_report_receiver ex))"
| xs_init: "exec_step E A ex (snd (initialize_live_trading A ex))"
| xs_reload: "exec_step E A ex (snd (reload_wallet A addr ex))"
| xs_power: "exec_step E A ex (snd (ensure_live_buying_power A req ex))"
| xs_refresh: "exec_step E A ex (snd (refresh_clob_allowance_cache A ex))"
| xs_receive: "report_rx ex = Taken \<Longrightarrow> exec_step E A ex (ex\<lparr>report_queue := tl (report_queue ex)\<rparr>)"
| xs_drop: "report_rx ex = Taken \<Longrightarrow> exec_step E A ex (ex\<lparr>report_rx := Dropped\<rparr>)"

definition exec_start :: "'w OrderExecutor \<Rightarrow> bool" where
  "exec_start ex = (\<exists>cfg w addr. ex = new_executor cfg w \<or> ex = new_with_wallet addr cfg w)"

definition exec_inv :: "'w OrderExecutor \<Rightarrow> bool" where
  "exec_inv ex =
     (orders_submitted (ex_metrics ex) = orders_filled (ex_metrics ex) + orders_rejected (ex_metrics ex)
      \<and> length (report_queue ex) \<le> REPORT_CAPACITY
      \<and> pending_orders ex = [])"

lemma metrics_balanced:
  "orders_submitted m = orders_filled m + orders_rejected m \<Longrightarrow>
     orders_submitted (update_metrics E lat rep m)
       = orders_filled (update_metrics E lat rep m) + orders_rejected (update_metrics E lat rep m)"
  by (simp add: update_metrics_def Let_def)

lemma exec_inv_finish: "exec_inv ex \<Longrightarrow> exec_inv (snd (finish_with r ex))"
  by (auto simp: finish_with_def send_report_def exec_inv_def)

lemma pending_cleared [simp]: "store_remove k (store_insert k v []) = []"
  by (simp add: store_remove_def store_insert_def)

lemma exec_inv_market:
  assumes "exec_inv ex" "execute_market_order E A lat ord ex = (res, ex')" "res \<noteq> Diverges"
  shows "exec_inv ex'"
  using assms(2)
proof (cases rule: execute_market_order_cases)
  case oversize
  with exec_inv_finish [OF assms(1)] show ?thesis by (metis snd_conv)
next
  case diverges
  with assms(3) show ?thesis by simp
next
  case (ran rep w')
  let ?ex = "ex\<lparr>world := w', ex_metrics := update_metrics E lat rep (ex_metrics ex),
    pending_orders := store_remove (mo_id ord) (store_insert (mo_id ord) PendingStatus (pending_orders ex))\<rparr>"
  from assms(1) have "exec_inv ?ex" by (auto simp: exec_inv_def intro!: metrics_balanced)
  with ran(3) show ?thesis using exec_inv_finish by (metis snd_conv)
qed

lemma exec_inv_finishI: "exec_inv ex \<Longrightarrow> finish_with r ex = (res, ex') \<Longrightarrow> exec_inv ex'"
  using exec_inv_finish [of ex r] by simp

lemma exec_inv_limit:
  assumes "exec_inv ex" "execute_limit_order E A lo ex = (res, ex')" "res \<noteq> Diverges"
  shows "exec_inv ex'"
  using assms
  by (auto simp: execute_limit_order_def Let_def split: if_splits option.splits
      elim!: exec_inv_finishI [rotated]) (simp add: exec_inv_def)

lemma exec_inv_step: "exec_step E A ex ex' \<Longrightarrow> exec_inv ex \<Longrightarrow> exec_inv ex'"
proof (induction rule: exec_step.induct)
  case (xs_market lat ord ex res ex')
  then show ?case by (auto intro: exec_inv_market)
next
  case (xs_limit lo ex res ex')
  then show ?case by (auto intro: exec_inv_limit)
qed (auto simp: exec_inv_def cancel_order_def set_live_mode_def take_report_receiver_def
    initialize_live_trading_def reload_wallet_def ensure_live_buying_power_def
    refresh_clob_allowance_cache_def store_remove_def split: option.splits prod.splits sum.splits)

lemma exec_inv_start: "exec_start ex \<Longrightarrow> exec_inv ex"
  by (auto simp: exec_start_def exec_inv_def new_executor_def new_with_wallet_def default_metrics_def)

interpretation exec: machine exec_start "exec_step E A" exec_inv for E A
  by unfold_locales (auto intro: exec_inv_start exec_inv_step)

text \<open>
  C21: The executor's books balance. In every reachable state every submitted market order is
  counted either as filled or as rejected, no order is left in the pending table by a call that
  ended, and the report channel holds at most 1000 reports.
\<close>

theorem executor_reachable_invariant:
  "reach exec_start (exec_step E A) ex \<Longrightarrow> exec_inv ex"
  by (rule exec.inv_reach)

theorem executor_reachable_invariant_witness:
  "exec_inv (set_live_mode True (new_executor default_executor_config (0 :: nat)))"
proof (rule executor_reachable_invariant)
  show "reach exec_start (exec_step exact_env (sample_api 0))
    (set_live_mode True (new_executor default_executor_config 0))"
    by (rule reach_step, rule reach_start) (auto simp: exec_start_def intro: xs_live)
qed

end
