(* ===== verification/Stop_Loss.thy ===== *)
theory Stop_Loss
  imports Executor Database
begin

section \<open>Stop-loss rules\<close>

text \<open>
  Model of \<open>crates/risk-manager/src/stop_loss.rs\<close> and of the table behind \<open>stop_loss_repo.rs\<close>: the
  rules and their triggers, the manager with its two maps (rules, and rule ids by position),
  the check of all rules against the order books, and the exits, which go through the order
  executor of theory \<open>Executor\<close>.

  \<open>check_triggers_detailed\<close> calls \<open>DashMap::get_mut\<close> on an entry to which its own iterator holds a
  reference. \<open>dashmap\<close> is not part of the repository and documents that such a call may deadlock:
  the parameter \<open>blocks\<close> says whether it does, and the result \<open>None\<close> is a check that never ends.
\<close>

subsection \<open>Rules\<close>

datatype StopType =
    FixedStop decimal
  | Percentage decimal
  | Trailing decimal decimal
  | TimeBased datetime

definition st_trailing :: "decimal \<Rightarrow> StopType" where
  "st_trailing offset_pct = Trailing offset_pct 0"

record StopLossRule =
  sl_id :: uuid
  sl_position_id :: uuid
  sl_market_id :: string
  sl_outcome_id :: string
  sl_entry_price :: decimal
  sl_quantity :: decimal
  stop_type :: StopType
  activated :: bool
  activated_at :: "datetime option"
  sl_executed :: bool
  sl_executed_at :: "datetime option"
  sl_created_at :: datetime

definition new_rule ::
  "uuid \<Rightarrow> datetime \<Rightarrow> uuid \<Rightarrow> string \<Rightarrow> string \<Rightarrow> decimal \<Rightarrow> decimal \<Rightarrow> StopType \<Rightarrow> StopLossRule" where
  "new_rule rid now pid m out entry qty typ = \<lparr>sl_id = rid, sl_position_id = pid,
     sl_market_id = m, sl_outcome_id = out, sl_entry_price = entry, sl_quantity = qty,
     stop_type = typ, activated = False, activated_at = None, sl_executed = False,
     sl_executed_at = None, sl_created_at = now\<rparr>"

definition activate :: "datetime \<Rightarrow> StopLossRule \<Rightarrow> StopLossRule" where
  "activate now r = (if activated r then r else r\<lparr>activated := True, activated_at := Some now\<rparr>)"

definition is_triggered :: "num_env \<Rightarrow> datetime \<Rightarrow> decimal \<Rightarrow> StopLossRule \<Rightarrow> bool" where
  "is_triggered E now price r =
     (if \<not> activated r \<or> sl_executed r then False
      else (case stop_type r of
              FixedStop trigger_price \<Rightarrow> price \<le> trigger_price
            | Percentage loss_pct \<Rightarrow>
                if sl_entry_price r \<le> 0 then False
                else loss_pct \<le> ddiv E (dsub E (sl_entry_price r) price) (sl_entry_price r)
            | Trailing offset_pct peak \<Rightarrow>
                if peak \<le> 0 then False else price \<le> dmul E peak (dsub E 1 offset_pct)
            | TimeBased deadline \<Rightarrow> deadline \<le> now))"

definition update_peak :: "decimal \<Rightarrow> StopLossRule \<Rightarrow> StopLossRule" where
  "update_peak price r =
     (case stop_type r of
        Trailing off peak \<Rightarrow> if peak < price then r\<lparr>stop_type := Trailing off price\<rparr> else r
      | _ \<Rightarrow> r)"

definition current_trigger_price :: "num_env \<Rightarrow> StopLossRule \<Rightarrow> decimal option" where
  "current_trigger_price E r =
     (case stop_type r of
        FixedStop trigger_price \<Rightarrow> Some trigger_price
      | Percentage loss_pct \<Rightarrow> Some (dmul E (sl_entry_price r) (dsub E 1 loss_pct))
      | Trailing off peak \<Rightarrow> if 0 < peak then Some (dmul E peak (dsub E 1 off)) else None
      | TimeBased _ \<Rightarrow> None)"

definition mark_executed :: "datetime \<Rightarrow> StopLossRule \<Rightarrow> StopLossRule" where
  "mark_executed now r = r\<lparr>sl_executed := True, sl_executed_at := Some now\<rparr>"

subsection \<open>The table\<close>

record sl_row =
  row_rule :: StopLossRule
  row_stop_type :: i16
  row_trigger_price :: "decimal option"
  row_loss_percentage :: "decimal option"
  row_trailing_offset :: "decimal option"
  row_peak_price :: "decimal option"
  row_deadline :: "datetime option"

text \<open>
  \<open>row_rule\<close> holds the columns that are the rule's own fields; its \<open>stop_type\<close> is not read back.
\<close>

fun decompose_stop_type ::
  "StopType \<Rightarrow> i16 \<times> decimal option \<times> decimal option \<times> decimal option \<times> decimal option \<times> datetime option" where
  "decompose_stop_type (FixedStop p) = (0, Some p, None, None, None, None)"
| "decompose_stop_type (Percentage l) = (1, None, Some l, None, None, None)"
| "decompose_stop_type (Trailing off peak) = (2, None, None, Some off, Some peak, None)"
| "decompose_stop_type (TimeBased d) = (3, None, None, None, None, Some d)"

definition or_zero :: "decimal option \<Rightarrow> decimal" where
  "or_zero x = (case x of None \<Rightarrow> 0 | Some v \<Rightarrow> v)"

definition stop_type_of_row :: "datetime \<Rightarrow> sl_row \<Rightarrow> StopType" where
  "stop_type_of_row now r =
     (if row_stop_type r = 0 then FixedStop (or_zero (row_trigger_price r))
      else if row_stop_type r = 1 then Percentage (or_zero (row_loss_percentage r))
      else if row_stop_type r = 2
      then Trailing (or_zero (row_trailing_offset r)) (or_zero (row_peak_price r))
      else if row_stop_type r = 3
      then TimeBased (case row_deadline r of None \<Rightarrow> now | Some d \<Rightarrow> d)
      else FixedStop 0)"

definition row_to_rule :: "datetime \<Rightarrow> sl_row \<Rightarrow> StopLossRule" where
  "row_to_rule now r = (row_rule r)\<lparr>stop_type := stop_type_of_row now r\<rparr>"

definition set_stop_columns :: "pg_env \<Rightarrow> StopType \<Rightarrow> sl_row \<Rightarrow> sl_row" where
  "set_stop_columns P typ r =
     (case decompose_stop_type typ of
        (i, tp, lp, off, peak, dl) \<Rightarrow>
          r\<lparr>row_stop_type := i, row_trigger_price := map_option (pg_dec P) tp,
            row_loss_percentage := map_option (pg_dec P) lp,
            row_trailing_offset := map_option (pg_dec P) off,
            row_peak_price := map_option (pg_dec P) peak,
            row_deadline := map_option (pg_ts P) dl\<rparr>)"

definition rule_to_row :: "pg_env \<Rightarrow> StopLossRule \<Rightarrow> sl_row" where
  "rule_to_row P r =
     set_stop_columns P (stop_type r)
       \<lparr>row_rule = r\<lparr>sl_entry_price := pg_dec P (sl_entry_price r),
                     sl_quantity := pg_dec P (sl_quantity r),
                     activated_at := map_option (pg_ts P) (activated_at r),
                     sl_executed_at := map_option (pg_ts P) (sl_executed_at r),
                     sl_created_at := pg_ts P (sl_created_at r)\<rparr>,
        row_stop_type = 0, row_trigger_price = None, row_loss_percentage = None,
        row_trailing_offset = None, row_peak_price = None, row_deadline = None\<rparr>"

type_synonym sl_table = "(uuid, sl_row) store"

text \<open>The statements; \<open>i\<close> is the statement's number in the call, \<open>None\<close> a database error.\<close>

definition repo_insert :: "pg_env \<Rightarrow> nat \<Rightarrow> StopLossRule \<Rightarrow> sl_table \<Rightarrow> sl_table option" where
  "repo_insert P i r t =
     (if \<not> pg_ok P i \<or> store_get t (sl_id r) \<noteq> None then None
      else Some (store_insert (sl_id r) (rule_to_row P r) t))"

definition repo_update :: "pg_env \<Rightarrow> nat \<Rightarrow> StopLossRule \<Rightarrow> sl_table \<Rightarrow> sl_table option" where
  "repo_update P i r t =
     (if \<not> pg_ok P i then None
      else (case store_get t (sl_id r) of
              None \<Rightarrow> Some t
            | Some row \<Rightarrow>
                Some (store_insert (sl_id r)
                  (set_stop_columns P (stop_type r)
                    (row\<lparr>row_rule := (row_rule row)
                        \<lparr>activated := activated r, activated_at := map_option (pg_ts P) (activated_at r),
                         sl_executed := sl_executed r,
                         sl_executed_at := map_option (pg_ts P) (sl_executed_at r)\<rparr>\<rparr>)) t)))"

definition repo_delete :: "pg_env \<Rightarrow> nat \<Rightarrow> uuid \<Rightarrow> sl_table \<Rightarrow> sl_table option" where
  "repo_delete P i rid t = (if \<not> pg_ok P i then None else Some (store_remove rid t))"

definition repo_delete_by_position :: "pg_env \<Rightarrow> nat \<Rightarrow> uuid \<Rightarrow> sl_table \<Rightarrow> sl_table option" where
  "repo_delete_by_position P i pid t =
     (if \<not> pg_ok P i then None else Some (filter (\<lambda>(_, r). sl_position_id (row_rule r) \<noteq> pid) t))"

text \<open>\<open>get_active\<close> selects the activated rules that were not executed, oldest first.\<close>

definition repo_get_active :: "pg_env \<Rightarrow> nat \<Rightarrow> datetime \<Rightarrow> sl_table \<Rightarrow> StopLossRule list option" where
  "repo_get_active P i now t =
     (if \<not> pg_ok P i then None
      else Some (map (row_to_rule now)
        (sort_key (\<lambda>r. sl_created_at (row_rule r))
          (filter (\<lambda>r. activated (row_rule r) \<and> \<not> sl_executed (row_rule r)) (store_values t)))))"

subsection \<open>The manager\<close>

record TriggeredStop =
  ts_rule :: StopLossRule
  ts_trigger_price :: decimal
  ts_current_price :: decimal

datatype CheckSkipReason =
    MarketDataMissing | NoBidsAvailable | RuleNotActive | RuleAlreadyExecuted | TrailingNoPeak

record CheckTriggersSummary =
  total_rules :: nat
  n_triggered :: nat
  n_not_triggered :: nat
  skipped_market_missing :: nat
  skipped_no_bids :: nat
  skipped_not_active :: nat
  skipped_already_executed :: nat
  skipped_trailing_no_peak :: nat

definition empty_summary :: CheckTriggersSummary where
  "empty_summary = \<lparr>total_rules = 0, n_triggered = 0, n_not_triggered = 0,
     skipped_market_missing = 0, skipped_no_bids = 0, skipped_not_active = 0,
     skipped_already_executed = 0, skipped_trailing_no_peak = 0\<rparr>"

record 'w StopLossManager =
  rules :: "(uuid, StopLossRule) store"
  rules_by_position :: "(uuid, uuid list) store"
  sl_executor :: "'w OrderExecutor"
  sl_repo :: "sl_table option"
  trigger_queue :: "TriggeredStop list"
  trigger_rx :: receiver

definition new_manager :: "'w OrderExecutor \<Rightarrow> 'w StopLossManager" where
  "new_manager ex = \<lparr>rules = [], rules_by_position = [], sl_executor = ex, sl_repo = None,
     trigger_queue = [], trigger_rx = Held\<rparr>"

definition manager_with_persistence :: "'w OrderExecutor \<Rightarrow> sl_table \<Rightarrow> 'w StopLossManager" where
  "manager_with_persistence ex t = (new_manager ex)\<lparr>sl_repo := Some t\<rparr>"

text \<open>\<open>entry(position_id).or_default().push(rule.id)\<close>, then \<open>rules.insert(rule.id, rule)\<close>.\<close>

definition index_rule :: "StopLossRule \<Rightarrow> 'w StopLossManager \<Rightarrow> 'w StopLossManager" where
  "index_rule r m =
     m\<lparr>rules_by_position := store_insert (sl_position_id r)
         ((case store_get (rules_by_position m) (sl_position_id r) of None \<Rightarrow> [] | Some ids \<Rightarrow> ids)
          @ [sl_id r]) (rules_by_position m),
       rules := store_insert (sl_id r) r (rules m)\<rparr>"

text \<open>\<open>get_mut(position)\<close> and \<open>retain(id != rule_id)\<close>.\<close>

definition unindex_rule :: "uuid \<Rightarrow> uuid \<Rightarrow> 'w StopLossManager \<Rightarrow> 'w StopLossManager" where
  "unindex_rule pid rid m =
     (case store_get (rules_by_position m) pid of
        None \<Rightarrow> m
      | Some ids \<Rightarrow>
          m\<lparr>rules_by_position := store_insert pid (filter (\<lambda>i. i \<noteq> rid) ids) (rules_by_position m)\<rparr>)"

definition load_active_rules ::
  "pg_env \<Rightarrow> datetime \<Rightarrow> 'w StopLossManager \<Rightarrow> nat option \<times> 'w StopLossManager" where
  "load_active_rules P now m =
     (case sl_repo m of
        None \<Rightarrow> (Some 0, m)
      | Some t \<Rightarrow>
          (case repo_get_active P 0 now t of
             None \<Rightarrow> (None, m)
           | Some rs \<Rightarrow> (Some (length rs), fold index_rule rs m)))"

definition add_rule ::
  "pg_env \<Rightarrow> datetime \<Rightarrow> StopLossRule \<Rightarrow> 'w StopLossManager \<Rightarrow> bool \<times> 'w StopLossManager" where
  "add_rule P now rule m =
     (let r = activate now rule
      in case sl_repo m of
           None \<Rightarrow> (True, index_rule r m)
         | Some t \<Rightarrow>
             (case repo_insert P 0 r t of
                None \<Rightarrow> (False, m)
              | Some t' \<Rightarrow> (True, index_rule r (m\<lparr>sl_repo := Some t'\<rparr>))))"

definition remove_rule ::
  "pg_env \<Rightarrow> uuid \<Rightarrow> 'w StopLossManager \<Rightarrow> StopLossRule option option \<times> 'w StopLossManager" where
  "remove_rule P rid m =
     (case store_get (rules m) rid of
        None \<Rightarrow> (Some None, m)
      | Some r \<Rightarrow>
          let m1 = unindex_rule (sl_position_id r) rid (m\<lparr>rules := store_remove rid (rules m)\<rparr>)
          in (case sl_repo m1 of
                None \<Rightarrow> (Some (Some r), m1)
              | Some t \<Rightarrow>
                  (case repo_delete P 0 rid t of
                     None \<Rightarrow> (None, m1)
                   | Some t' \<Rightarrow> (Some (Some r), m1\<lparr>sl_repo := Some t'\<rparr>))))"

fun take_rules :: "uuid list \<Rightarrow> (uuid, StopLossRule) store \<Rightarrow> StopLossRule list \<times> (uuid, StopLossRule) store" where
  "take_rules [] s = ([], s)"
| "take_rules (rid # ids) s =
     (case store_get s rid of
        None \<Rightarrow> take_rules ids s
      | Some r \<Rightarrow> (let (rs, s') = take_rules ids (store_remove rid s) in (r # rs, s')))"

definition remove_rules_for_position ::
  "pg_env \<Rightarrow> uuid \<Rightarrow> 'w StopLossManager \<Rightarrow> StopLossRule list option \<times> 'w StopLossManager" where
  "remove_rules_for_position P pid m =
     (let (removed, m1) =
        (case store_get (rules_by_position m) pid of
           None \<Rightarrow> ([], m)
         | Some ids \<Rightarrow>
             let (rs, s') = take_rules ids (rules m)
             in (rs, m\<lparr>rules_by_position := store_remove pid (rules_by_position m), rules := s'\<rparr>))
      in case sl_repo m1 of
           None \<Rightarrow> (Some removed, m1)
         | Some t \<Rightarrow>
             (case repo_delete_by_position P 0 pid t of
                None \<Rightarrow> (None, m1)
              | Some t' \<Rightarrow> (Some removed, m1\<lparr>sl_repo := Some t'\<rparr>)))"

definition get_rule :: "uuid \<Rightarrow> 'w StopLossManager \<Rightarrow> StopLossRule option" where
  "get_rule rid m = store_get (rules m) rid"

definition rules_for_position :: "uuid \<Rightarrow> 'w StopLossManager \<Rightarrow> StopLossRule list" where
  "rules_for_position pid m =
     (case store_get (rules_by_position m) pid of
        None \<Rightarrow> []
      | Some ids \<Rightarrow> List.map_filter (\<lambda>i. store_get (rules m) i) ids)"

definition active_rules :: "'w StopLossManager \<Rightarrow> StopLossRule list" where
  "active_rules m = filter (\<lambda>r. activated r \<and> \<not> sl_executed r) (store_values (rules m))"

subsection \<open>Checking the rules\<close>

type_synonym prices = "(string, BinaryMarketBook) store"

text \<open>The price a rule is checked at: the best bid of its outcome.\<close>

definition rule_price :: "prices \<Rightarrow> StopLossRule \<Rightarrow> CheckSkipReason + decimal" where
  "rule_price ps r =
     (case store_get ps (sl_market_id r) of
        None \<Rightarrow> Inl MarketDataMissing
      | Some b \<Rightarrow>
          (let bid = (\<lambda>p. case p of None \<Rightarrow> Inl NoBidsAvailable | Some v \<Rightarrow> Inr v)
           in if sl_outcome_id r = ob_outcome_id (yes_book b) then bid (best_bid (yes_book b))
              else if sl_outcome_id r = ob_outcome_id (no_book b) then bid (best_bid (no_book b))
              else Inl MarketDataMissing))"

definition peak_of :: "StopLossRule \<Rightarrow> decimal" where
  "peak_of r = (case stop_type r of Trailing _ peak \<Rightarrow> peak | _ \<Rightarrow> 0)"

definition is_trailing :: "StopLossRule \<Rightarrow> bool" where
  "is_trailing r = (case stop_type r of Trailing _ _ \<Rightarrow> True | _ \<Rightarrow> False)"

text \<open>
  The peak update of one trailing rule, with the copies it pushes on \<open>rules_to_update\<close>. The
  entry reference \<open>rule\<close> of the loop denotes the stored rule, so the trigger test that follows
  sees the new peak.
\<close>

definition raise_peak :: "decimal \<Rightarrow> StopLossRule \<Rightarrow> StopLossRule \<times> StopLossRule list" where
  "raise_peak price r =
     (if \<not> is_trailing r then (r, [])
      else
        let first_update = (peak_of r \<le> 0 \<and> price \<le> sl_entry_price r);
            r1 = (if first_update then update_peak (max price (sl_entry_price r)) r else r);
            r2 = update_peak price r1
        in (r2, (if first_update then [r1] else []) @ (if peak_of r1 < peak_of r2 then [r2] else [])))"

record check_state =
  ck_triggered :: "TriggeredStop list"
  ck_updates :: "StopLossRule list"
  ck_summary :: CheckTriggersSummary

definition ck_count :: "(CheckTriggersSummary \<Rightarrow> CheckTriggersSummary) \<Rightarrow> check_state \<Rightarrow> check_state" where
  "ck_count f c = c\<lparr>ck_summary := f (ck_summary c)\<rparr>"

definition ck_skip :: "CheckSkipReason \<Rightarrow> check_state \<Rightarrow> check_state" where
  "ck_skip why c =
     ck_count (\<lambda>s. case why of
         MarketDataMissing \<Rightarrow> s\<lparr>skipped_market_missing := skipped_market_missing s + 1\<rparr>
       | NoBidsAvailable \<Rightarrow> s\<lparr>skipped_no_bids := skipped_no_bids s + 1\<rparr>
       | RuleNotActive \<Rightarrow> s\<lparr>skipped_not_active := skipped_not_active s + 1\<rparr>
       | RuleAlreadyExecuted \<Rightarrow> s\<lparr>skipped_already_executed := skipped_already_executed s + 1\<rparr>
       | TrailingNoPeak \<Rightarrow> s\<lparr>skipped_trailing_no_peak := skipped_trailing_no_peak s + 1\<rparr>) c"

text \<open>Why a rule is not checked, in the order of the loop's tests.\<close>

definition check_price :: "prices \<Rightarrow> StopLossRule \<Rightarrow> CheckSkipReason + decimal" where
  "check_price ps r =
     (if \<not> activated r then Inl RuleNotActive
      else if sl_executed r then Inl RuleAlreadyExecuted
      else rule_price ps r)"

text \<open>One iteration: the stored rule afterwards and the accumulated results, or \<open>None\<close> if it blocks.\<close>

definition check_rule ::
  "num_env \<Rightarrow> bool \<Rightarrow> (uuid \<Rightarrow> datetime) \<Rightarrow> prices \<Rightarrow> StopLossRule \<Rightarrow> check_state \<Rightarrow> (StopLossRule \<times> check_state) option" where
  "check_rule E blocks clock ps r c0 =
     (let c = ck_count (\<lambda>s. s\<lparr>total_rules := total_rules s + 1\<rparr>) c0
      in case check_price ps r of
           Inl why \<Rightarrow> Some (r, ck_skip why c)
         | Inr price \<Rightarrow>
             if is_trailing r \<and> blocks then None
             else
               let (r', ups) = raise_peak price r;
                   c1 = c\<lparr>ck_updates := ck_updates c @ ups\<rparr>
               in if is_triggered E (clock (sl_id r)) price r'
                  then Some (r', ck_count (\<lambda>s. s\<lparr>n_triggered := n_triggered s + 1\<rparr>)
                    (c1\<lparr>ck_triggered := ck_triggered c1 @
                       [\<lparr>ts_rule = r',
                         ts_trigger_price =
                           (case current_trigger_price E r' of None \<Rightarrow> price | Some t \<Rightarrow> t),
                         ts_current_price = price\<rparr>]\<rparr>))
                  else Some (r', ck_count (\<lambda>s. s\<lparr>n_not_triggered := n_not_triggered s + 1\<rparr>) c1))"

fun check_loop ::
  "num_env \<Rightarrow> bool \<Rightarrow> (uuid \<Rightarrow> datetime) \<Rightarrow> prices \<Rightarrow> (uuid, StopLossRule) store \<Rightarrow> check_state
     \<Rightarrow> ((uuid, StopLossRule) store \<times> check_state) option" where
  "check_loop E blocks clock ps [] c = Some ([], c)"
| "check_loop E blocks clock ps ((k, r) # es) c =
     (case check_rule E blocks clock ps r c of
        None \<Rightarrow> None
      | Some (r', c') \<Rightarrow>
          (case check_loop E blocks clock ps es c' of
             None \<Rightarrow> None
           | Some (es', c'') \<Rightarrow> Some ((k, r') # es', c'')))"

text \<open>The updates of the batch; a failed one is logged and the next is tried.\<close>

fun persist_updates :: "pg_env \<Rightarrow> nat \<Rightarrow> StopLossRule list \<Rightarrow> sl_table \<Rightarrow> sl_table" where
  "persist_updates P i [] t = t"
| "persist_updates P i (r # rs) t =
     persist_updates P (i + 1) rs (case repo_update P i r t of None \<Rightarrow> t | Some t' \<Rightarrow> t')"

definition check_triggers_detailed ::
  "num_env \<Rightarrow> pg_env \<Rightarrow> bool \<Rightarrow> (uuid \<Rightarrow> datetime) \<Rightarrow> prices \<Rightarrow> 'w StopLossManager
     \<Rightarrow> (TriggeredStop list \<times> CheckTriggersSummary \<times> 'w StopLossManager) option" where
  "check_triggers_detailed E P blocks clock ps m =
     (case check_loop E blocks clock ps (rules m)
             \<lparr>ck_triggered = [], ck_updates = [], ck_summary = empty_summary\<rparr> of
        None \<Rightarrow> None
      | Some (rs, c) \<Rightarrow>
          Some (ck_triggered c, ck_summary c,
                m\<lparr>rules := rs,
                  sl_repo := map_option (persist_updates P 0 (ck_updates c)) (sl_repo m)\<rparr>))"

definition check_triggers ::
  "num_env \<Rightarrow> pg_env \<Rightarrow> bool \<Rightarrow> (uuid \<Rightarrow> datetime) \<Rightarrow> prices \<Rightarrow> 'w StopLossManager
     \<Rightarrow> (TriggeredStop list \<times> 'w StopLossManager) option" where
  "check_triggers E P blocks clock ps m =
     map_option (\<lambda>(ts, _, m'). (ts, m')) (check_triggers_detailed E P blocks clock ps m)"

definition rules_missing_market_data :: "prices \<Rightarrow> 'w StopLossManager \<Rightarrow> StopLossRule list" where
  "rules_missing_market_data ps m =
     filter (\<lambda>r. activated r \<and> \<not> sl_executed r \<and> store_get ps (sl_market_id r) = None)
       (store_values (rules m))"

subsection \<open>Exits\<close>

definition exit_order :: "uuid \<Rightarrow> datetime \<Rightarrow> StopLossRule \<Rightarrow> MarketOrder" where
  "exit_order oid now r = new_market_order oid now (sl_market_id r) (sl_outcome_id r) Sell (sl_quantity r)"

definition send_trigger :: "TriggeredStop \<Rightarrow> 'w StopLossManager \<Rightarrow> bool \<times> 'w StopLossManager" where
  "send_trigger stop m =
     (if trigger_rx m = Dropped then (True, m)
      else if length (trigger_queue m) < REPORT_CAPACITY
      then (True, m\<lparr>trigger_queue := trigger_queue m @ [stop]\<rparr>)
      else (False, m))"

text \<open>Marking the stored rule, if it is still there, and writing it to the table.\<close>

definition mark_rule_executed :: "pg_env \<Rightarrow> nat \<Rightarrow> datetime \<Rightarrow> uuid \<Rightarrow> 'w StopLossManager \<Rightarrow> 'w StopLossManager" where
  "mark_rule_executed P i now rid m =
     (case store_get (rules m) rid of
        None \<Rightarrow> m
      | Some r \<Rightarrow>
          m\<lparr>rules := store_insert rid (mark_executed now r) (rules m),
            sl_repo := map_option (\<lambda>t. case repo_update P i (mark_executed now r) t of
                                         None \<Rightarrow> t | Some t' \<Rightarrow> t') (sl_repo m)\<rparr>)"

definition execute_stop ::
  "num_env \<Rightarrow> ('w, 'o) clob_api \<Rightarrow> pg_env \<Rightarrow> u64 \<Rightarrow> uuid \<Rightarrow> datetime \<Rightarrow> datetime \<Rightarrow> TriggeredStop
     \<Rightarrow> 'w StopLossManager \<Rightarrow> ended \<times> 'w StopLossManager" where
  "execute_stop E A P lat oid now now' stop m =
     (case execute_market_order E A lat (exit_order oid now (ts_rule stop)) (sl_executor m) of
        (Returns rep, ex') \<Rightarrow>
          (let rid = sl_id (ts_rule stop);
               m1 = mark_rule_executed P 0 now' rid (m\<lparr>sl_executor := ex'\<rparr>);
               m2 = unindex_rule (sl_position_id (ts_rule stop)) rid (m1\<lparr>rules := store_remove rid (rules m1)\<rparr>)
           in case send_trigger stop m2 of (sent, m3) \<Rightarrow> (if sent then Returns rep else Blocked, m3))
      | (res, ex') \<Rightarrow> (res, m\<lparr>sl_executor := ex'\<rparr>))"

fun exit_rules ::
  "num_env \<Rightarrow> ('w, 'o) clob_api \<Rightarrow> pg_env \<Rightarrow> (uuid \<Rightarrow> u64 \<times> uuid \<times> datetime \<times> datetime) \<Rightarrow> nat
     \<Rightarrow> StopLossRule list \<Rightarrow> 'w StopLossManager \<Rightarrow> ExecutionReport list option \<times> 'w StopLossManager" where
  "exit_rules E A P env i [] m = (Some [], m)"
| "exit_rules E A P env i (r # rs) m =
     (if sl_executed r then exit_rules E A P env i rs m
      else
        (case env (sl_id r) of (lat, oid, now, now') \<Rightarrow>
          (case execute_market_order E A lat (exit_order oid now r) (sl_executor m) of
             (Returns rep, ex') \<Rightarrow>
               (case exit_rules E A P env (i + 1) rs
                       (mark_rule_executed P i now' (sl_id r) (m\<lparr>sl_executor := ex'\<rparr>)) of
                  (res, m') \<Rightarrow> (map_option (\<lambda>reps. rep # reps) res, m'))
           | (_, ex') \<Rightarrow> (None, m\<lparr>sl_executor := ex'\<rparr>))))"

text \<open>
  \<open>env\<close> gives, per rule, the latency, the order id and the two clock values; \<open>None\<close> is an exit
  that does not return.
\<close>

definition manual_exit ::
  "num_env \<Rightarrow> ('w, 'o) clob_api \<Rightarrow> pg_env \<Rightarrow> (uuid \<Rightarrow> u64 \<times> uuid \<times> datetime \<times> datetime) \<Rightarrow> uuid
     \<Rightarrow> 'w StopLossManager \<Rightarrow> ExecutionReport list option \<times> 'w StopLossManager" where
  "manual_exit E A P env pid m = exit_rules E A P env 0 (rules_for_position pid m) m"

record StopLossStats =
  st_total_rules :: nat
  st_active_rules :: nat
  st_executed_rules :: nat
  st_fixed_stops :: nat
  st_percentage_stops :: nat
  st_trailing_stops :: nat
  st_time_based_stops :: nat

definition sl_stats :: "'w StopLossManager \<Rightarrow> StopLossStats" where
  "sl_stats m =
     (let rs = store_values (rules m);
          n = (\<lambda>p. length (filter p rs));
          by_type = (\<lambda>f g h i. n (\<lambda>r. case stop_type r of
             FixedStop _ \<Rightarrow> f | Percentage _ \<Rightarrow> g | Trailing _ _ \<Rightarrow> h | TimeBased _ \<Rightarrow> i))
      in \<lparr>st_total_rules = length rs, st_active_rules = n (\<lambda>r. activated r \<and> \<not> sl_executed r),
          st_executed_rules = n sl_executed,
          st_fixed_stops = by_type True False False False,
          st_percentage_stops = by_type False True False False,
          st_trailing_stops = by_type False False True False,
          st_time_based_stops = by_type False False False True\<rparr>)"

subsection \<open>What a check returns\<close>

definition stop_of :: "num_env \<Rightarrow> decimal \<Rightarrow> StopLossRule \<Rightarrow> TriggeredStop" where
  "stop_of E price r = \<lparr>ts_rule = r,
     ts_trigger_price = (case current_trigger_price E r of None \<Rightarrow> price | Some t \<Rightarrow> t),
     ts_current_price = price\<rparr>"

text \<open>The stop a rule fires at given prices, if it does.\<close>

definition fires :: "num_env \<Rightarrow> (uuid \<Rightarrow> datetime) \<Rightarrow> prices \<Rightarrow> StopLossRule \<Rightarrow> TriggeredStop option" where
  "fires E clock ps r =
     (case check_price ps r of
        Inl _ \<Rightarrow> None
      | Inr price \<Rightarrow>
          if is_triggered E (clock (sl_id r)) price (fst (raise_peak price r))
          then Some (stop_of E price (fst (raise_peak price r))) else None)"

definition skipped :: "CheckTriggersSummary \<Rightarrow> nat" where
  "skipped s = skipped_market_missing s + skipped_no_bids s + skipped_not_active s
     + skipped_already_executed s + skipped_trailing_no_peak s"

definition blocked_by :: "bool \<Rightarrow> prices \<Rightarrow> StopLossRule \<Rightarrow> bool" where
  "blocked_by blocks ps r = (blocks \<and> is_trailing r \<and> is_ok (check_price ps r))"

lemma ck_skip_simps [simp]:
  "ck_triggered (ck_skip why c) = ck_triggered c"
  "total_rules (ck_summary (ck_skip why c)) = total_rules (ck_summary c)"
  "n_triggered (ck_summary (ck_skip why c)) = n_triggered (ck_summary c)"
  "n_not_triggered (ck_summary (ck_skip why c)) = n_not_triggered (ck_summary c)"
  "skipped (ck_summary (ck_skip why c)) = skipped (ck_summary c) + 1"
  by (cases why; simp add: ck_skip_def ck_count_def skipped_def)+

lemma skipped_counts [simp]:
  "skipped (s\<lparr>total_rules := n\<rparr>) = skipped s" "skipped (s\<lparr>n_triggered := n\<rparr>) = skipped s"
  "skipped (s\<lparr>n_not_triggered := n\<rparr>) = skipped s"
  by (simp_all add: skipped_def)

lemma update_peak_fields [simp]:
  "sl_id (update_peak p r) = sl_id r" "sl_position_id (update_peak p r) = sl_position_id r"
  "activated (update_peak p r) = activated r" "sl_executed (update_peak p r) = sl_executed r"
  "sl_entry_price (update_peak p r) = sl_entry_price r" "is_trailing (update_peak p r) = is_trailing r"
  by (simp_all add: update_peak_def is_trailing_def split: StopType.split)

lemma raise_peak_fields [simp]:
  "sl_id (fst (raise_peak p r)) = sl_id r" "sl_position_id (fst (raise_peak p r)) = sl_position_id r"
  "activated (fst (raise_peak p r)) = activated r" "sl_executed (fst (raise_peak p r)) = sl_executed r"
  "is_trailing (fst (raise_peak p r)) = is_trailing r"
  by (simp_all add: raise_peak_def Let_def)

text \<open>The effect of one iteration on the accumulated results.\<close>

definition accounts :: "TriggeredStop list \<Rightarrow> nat \<Rightarrow> check_state \<Rightarrow> check_state \<Rightarrow> bool" where
  "accounts ts n c c' \<longleftrightarrow>
     ck_triggered c' = ck_triggered c @ ts
     \<and> total_rules (ck_summary c') = total_rules (ck_summary c) + n
     \<and> n_triggered (ck_summary c') = n_triggered (ck_summary c) + length ts
     \<and> n_triggered (ck_summary c') + n_not_triggered (ck_summary c') + skipped (ck_summary c')
       = n_triggered (ck_summary c) + n_not_triggered (ck_summary c) + skipped (ck_summary c) + n"

lemma accounts_trans: "accounts ts n c1 c2 \<Longrightarrow> accounts ts' n' c2 c3 \<Longrightarrow> accounts (ts @ ts') (n + n') c1 c3"
  by (simp add: accounts_def)

lemma check_rule_None_iff:
  "check_rule E blocks clock ps r c = None \<longleftrightarrow> blocked_by blocks ps r"
  by (auto simp: check_rule_def blocked_by_def Let_def split: sum.split prod.split)

lemma check_rule_SomeD:
  assumes "check_rule E blocks clock ps r c = Some (r', c')"
  shows "accounts (case fires E clock ps r of None \<Rightarrow> [] | Some s \<Rightarrow> [s]) 1 c c'"
    and "r' = (case check_price ps r of Inl _ \<Rightarrow> r | Inr p \<Rightarrow> fst (raise_peak p r))"
proof -
  show "accounts (case fires E clock ps r of None \<Rightarrow> [] | Some s \<Rightarrow> [s]) 1 c c'"
  proof (cases "check_price ps r")
    case (Inl why)
    with assms show ?thesis by (auto simp: check_rule_def fires_def accounts_def Let_def ck_count_def)
  next
    case (Inr price)
    obtain q ups where q: "raise_peak price r = (q, ups)" by fastforce
    with assms Inr show ?thesis
      by (cases "is_triggered E (clock (sl_id r)) price q")
        (auto simp: check_rule_def fires_def stop_of_def accounts_def Let_def ck_count_def split: if_splits)
  qed
  show "r' = (case check_price ps r of Inl _ \<Rightarrow> r | Inr p \<Rightarrow> fst (raise_peak p r))"
    using assms by (auto simp: check_rule_def Let_def split: sum.splits prod.splits if_splits)
qed

lemma check_loop_None_iff:
  "check_loop E blocks clock ps es c = None \<longleftrightarrow> (\<exists>r \<in> set (store_values es). blocked_by blocks ps r)"
proof (induction E blocks clock ps es c rule: check_loop.induct)
  case (2 E blocks clock ps k r es c)
  show ?case
  proof (cases "check_rule E blocks clock ps r c")
    case None
    then have "blocked_by blocks ps r" by (simp add: check_rule_None_iff)
    with None show ?thesis by (simp add: store_values_def)
  next
    case (Some q)
    obtain r' c' where q: "q = (r', c')" by (cases q)
    from Some have "\<not> blocked_by blocks ps r" using check_rule_None_iff by (metis option.distinct(1))
    with Some q "2.IH" [OF Some q [symmetric]] show ?thesis
      by (auto simp: store_values_def split: option.split)
  qed
qed (simp add: store_values_def)

text \<open>What the loop does to a stored rule.\<close>

definition checked :: "prices \<Rightarrow> StopLossRule \<Rightarrow> StopLossRule" where
  "checked ps r = (case check_price ps r of Inl _ \<Rightarrow> r | Inr p \<Rightarrow> fst (raise_peak p r))"

lemma checked_fields [simp]:
  "sl_id (checked ps r) = sl_id r" "sl_position_id (checked ps r) = sl_position_id r"
  "activated (checked ps r) = activated r" "sl_executed (checked ps r) = sl_executed r"
  by (simp_all add: checked_def split: sum.split)

lemma check_loop_SomeD:
  assumes "check_loop E blocks clock ps es c = Some (es', c')"
  shows "accounts (List.map_filter (fires E clock ps) (store_values es)) (length es) c c'
    \<and> es' = map (\<lambda>(k, r). (k, checked ps r)) es"
  using assms
proof (induction E blocks clock ps es c arbitrary: es' c' rule: check_loop.induct)
  case (1 E blocks clock ps c)
  then show ?case by (simp add: store_values_def accounts_def)
next
  case (2 E blocks clock ps k r es c)
  then obtain r1 c1 es1 where r: "check_rule E blocks clock ps r c = Some (r1, c1)"
    and es: "check_loop E blocks clock ps es c1 = Some (es1, c')" and es': "es' = (k, r1) # es1"
    by (auto split: option.splits prod.splits)
  note rest = "2.IH" [OF r refl es]
  have "accounts ((case fires E clock ps r of None \<Rightarrow> [] | Some s \<Rightarrow> [s])
      @ List.map_filter (fires E clock ps) (store_values es)) (1 + length es) c c'"
    by (rule accounts_trans [OF check_rule_SomeD(1) [OF r]]) (use rest in blast)
  moreover have "(case fires E clock ps r of None \<Rightarrow> [] | Some s \<Rightarrow> [s])
      @ List.map_filter (fires E clock ps) (store_values es)
    = List.map_filter (fires E clock ps) (store_values ((k, r) # es))"
    by (simp add: store_values_def split: option.split)
  ultimately show ?case using rest es' check_rule_SomeD(2) [OF r] by (simp add: checked_def)
qed

lemma check_triggers_SomeD:
  assumes "check_triggers_detailed E P blocks clock ps m = Some (ts, s, m')"
  obtains c where "accounts (List.map_filter (fires E clock ps) (store_values (rules m))) (length (rules m))
      \<lparr>ck_triggered = [], ck_updates = [], ck_summary = empty_summary\<rparr> c"
    "ts = ck_triggered c" "s = ck_summary c"
    "m' = m\<lparr>rules := map (\<lambda>(k, r). (k, checked ps r)) (rules m),
      sl_repo := map_option (persist_updates P 0 (ck_updates c)) (sl_repo m)\<rparr>"
  using assms check_loop_SomeD [of E blocks clock ps "rules m"]
  by (auto simp: check_triggers_detailed_def split: option.splits prod.splits)


lemma check_None_iff:
  "check_triggers_detailed E P blocks clock ps m = None \<longleftrightarrow>
     blocks \<and> (\<exists>r \<in> set (store_values (rules m)). is_trailing r \<and> is_ok (check_price ps r))"
proof -
  have "check_triggers_detailed E P blocks clock ps m = None \<longleftrightarrow>
     (\<exists>r \<in> set (store_values (rules m)). blocked_by blocks ps r)"
    using check_loop_None_iff [of E blocks clock ps "rules m"
        "\<lparr>ck_triggered = [], ck_updates = [], ck_summary = empty_summary\<rparr>"]
    by (auto simp: check_triggers_detailed_def split: option.splits)
  then show ?thesis by (auto simp: blocked_by_def)
qed

definition sample_fixed :: StopLossRule where
  "sample_fixed = activate 0 (new_rule 2 0 7 ''m'' ''yes'' (1 / 2) 10 (FixedStop (2 / 5)))"


text \<open>
  Trailing stops deadlock the check. If \<open>get_mut\<close> blocks while the iterator holds the entry,
  a check never ends exactly when some active trailing rule has a price; if it does not block,
  every check ends.
\<close>

theorem check_deadlocks_iff:
  "check_triggers_detailed E P blocks clock ps m = None \<longleftrightarrow>
     blocks \<and> (\<exists>r \<in> set (store_values (rules m)). is_trailing r \<and> is_ok (check_price ps r))"
  by (rule check_None_iff)

subsection \<open>Trailing stops\<close>

lemma update_peak_is_max: "is_trailing r \<Longrightarrow> peak_of (update_peak p r) = max (peak_of r) p"
  by (cases "stop_type r") (auto simp: is_trailing_def update_peak_def peak_of_def)

lemma raise_peak_bounds:
  assumes "is_trailing r"
  shows "peak_of r \<le> peak_of (fst (raise_peak p r)) \<and> p \<le> peak_of (fst (raise_peak p r))"
  using assms by (auto simp: raise_peak_def Let_def update_peak_is_max)

fun offset_of :: "StopType \<Rightarrow> decimal" where
  "offset_of (Trailing off _) = off"
| "offset_of _ = 0"

lemma update_peak_offset: "offset_of (stop_type (update_peak p r)) = offset_of (stop_type r)"
  by (simp add: update_peak_def split: StopType.split)

lemma raise_peak_offset: "offset_of (stop_type (fst (raise_peak p r))) = offset_of (stop_type r)"
  by (simp add: raise_peak_def Let_def update_peak_offset)

lemma trailing_trigger:
  "is_trailing r \<Longrightarrow> current_trigger_price E r =
     (if 0 < peak_of r then Some (dmul E (peak_of r) (dsub E 1 (offset_of (stop_type r)))) else None)"
  by (cases "stop_type r") (auto simp: is_trailing_def current_trigger_price_def peak_of_def)

lemma trailing_is_triggered:
  "is_trailing r \<Longrightarrow> is_triggered E now p r \<longleftrightarrow>
     activated r \<and> \<not> sl_executed r \<and> (\<exists>t. current_trigger_price E r = Some t \<and> p \<le> t)"
  by (cases "stop_type r")
    (auto simp: is_trailing_def is_triggered_def current_trigger_price_def)

definition observe :: "decimal list \<Rightarrow> StopLossRule \<Rightarrow> StopLossRule" where
  "observe ps r = fold (\<lambda>p q. fst (raise_peak p q)) ps r"

lemma observe_keeps:
  "is_trailing r \<Longrightarrow> is_trailing (observe ps r) \<and> offset_of (stop_type (observe ps r)) = offset_of (stop_type r)
     \<and> activated (observe ps r) = activated r \<and> sl_executed (observe ps r) = sl_executed r"
  unfolding observe_def by (induction ps arbitrary: r) (auto simp: raise_peak_offset)

lemma observe_peak:
  "is_trailing r \<Longrightarrow> peak_of r \<le> peak_of (observe ps r) \<and> (\<forall>p \<in> set ps. p \<le> peak_of (observe ps r))"
proof (induction ps arbitrary: r)
  case (Cons p ps)
  have "is_trailing (fst (raise_peak p r))" using Cons.prems by simp
  from Cons.IH [OF this] raise_peak_bounds [OF Cons.prems, of p] show ?case
    by (auto simp: observe_def)
qed (simp add: observe_def)

text \<open>
  A trailing stop is a ratchet. Over any sequence of observed bids its trigger price never
  falls, and after the sequence the stop fires on a bid exactly when the bid is at or below the
  trigger price derived from a peak that is at least every bid seen; an offset of at most one
  is enough, for every rounding that respects the contract.
\<close>

theorem trailing_ratchet:
  assumes "numeric_env E" "stop_type r = Trailing off peak" "0 < peak" "off \<le> 1"
    and "activated r" "\<not> sl_executed r"
  shows "\<exists>t t' top. current_trigger_price E r = Some t
    \<and> current_trigger_price E (observe ps r) = Some t' \<and> t \<le> t'
    \<and> t' = dmul E top (dsub E 1 off) \<and> peak \<le> top \<and> (\<forall>p \<in> set ps. p \<le> top)
    \<and> (\<forall>now bid. is_triggered E now bid (observe ps r) \<longleftrightarrow> bid \<le> t')"
proof -
  let ?r = "observe ps r"
  have tr: "is_trailing r" "peak_of r = peak" "offset_of (stop_type r) = off"
    using assms(2) by (simp_all add: is_trailing_def peak_of_def)
  note keep = observe_keeps [OF tr(1), of ps] and peaks = observe_peak [OF tr(1), of ps]
  have pos: "0 < peak_of ?r" using peaks assms(3) tr(2) by linarith
  have t': "current_trigger_price E ?r = Some (dmul E (peak_of ?r) (dsub E 1 off))"
    using keep pos tr(3) by (simp add: trailing_trigger)
  have t: "current_trigger_price E r = Some (dmul E peak (dsub E 1 off))"
    using tr assms(3) by (simp add: trailing_trigger)
  have "dmul E peak (dsub E 1 off) \<le> dmul E (peak_of ?r) (dsub E 1 off)"
    using peaks tr(2) numeric_env.dsub_nonneg [OF assms(1,4)]
    by (intro numeric_env.dmul_mono [OF assms(1)]) auto
  moreover have "is_triggered E now bid ?r \<longleftrightarrow> bid \<le> dmul E (peak_of ?r) (dsub E 1 off)" for now bid
    using keep t' assms(5,6) by (simp add: trailing_is_triggered)
  ultimately show ?thesis using t t' peaks tr(2) by blast
qed

definition sample_trailing :: StopLossRule where
  "sample_trailing = activate 0 (new_rule 1 0 7 ''m'' ''yes'' (1 / 2) 10 (Trailing (1 / 10) (3 / 5)))"

theorem trailing_ratchet_witness:
  "\<exists>t t' top. current_trigger_price round28_env sample_trailing = Some t
    \<and> current_trigger_price round28_env (observe [7 / 10, 13 / 20] sample_trailing) = Some t' \<and> t \<le> t'
    \<and> t' = dmul round28_env top (dsub round28_env 1 (1 / 10)) \<and> 3 / 5 \<le> top
    \<and> (\<forall>p \<in> set [7 / 10, 13 / 20]. p \<le> top)
    \<and> (\<forall>now bid. is_triggered round28_env now bid (observe [7 / 10, 13 / 20] sample_trailing) \<longleftrightarrow> bid \<le> t')"
  by (rule trailing_ratchet [OF nearest.numeric_env_axioms])
    (simp_all add: sample_trailing_def activate_def new_rule_def)

text \<open>
  The displayed trigger price is the real one: in exact arithmetic an active fixed or
  percentage stop with a positive entry price fires exactly at bids at or below
  \<open>current_trigger_price\<close>.
\<close>

theorem trigger_price_exact:
  assumes "activated r" "\<not> sl_executed r" "0 < sl_entry_price r"
    and "(\<exists>p. stop_type r = FixedStop p) \<or> (\<exists>l. stop_type r = Percentage l)"
  shows "\<exists>t. current_trigger_price exact_env r = Some t \<and> (is_triggered exact_env now bid r \<longleftrightarrow> bid \<le> t)"
proof -
  have "l \<le> (sl_entry_price r - bid) / sl_entry_price r \<longleftrightarrow> bid \<le> sl_entry_price r * (1 - l)" for l
    using assms(3) by (auto simp: pos_le_divide_eq algebra_simps)
  then show ?thesis
    using assms by (auto simp: current_trigger_price_def is_triggered_def)
qed

theorem trigger_price_exact_witness:
  "\<exists>t. current_trigger_price exact_env
        (activate 0 (new_rule 1 0 7 ''m'' ''yes'' (1 / 2) 10 (Percentage (1 / 10)))) = Some t
     \<and> (is_triggered exact_env 5 (9 / 20)
         (activate 0 (new_rule 1 0 7 ''m'' ''yes'' (1 / 2) 10 (Percentage (1 / 10)))) \<longleftrightarrow> 9 / 20 \<le> t)"
proof (rule trigger_price_exact)
  let ?r = "activate 0 (new_rule 1 0 7 ''m'' ''yes'' (1 / 2) 10 (Percentage (1 / 10)))"
  have "stop_type ?r = Percentage (1 / 10)" by (simp add: activate_def new_rule_def)
  then show "(\<exists>p. stop_type ?r = FixedStop p) \<or> (\<exists>l. stop_type ?r = Percentage l)" by blast
qed (simp_all add: activate_def new_rule_def)

subsection \<open>The position index\<close>

text \<open>
  The invariant of the manager: both maps have unique keys, a rule is stored under its own id, is
  activated and is listed under its position, and every listed id is a stored rule of that
  position.
\<close>

definition listed :: "'w StopLossManager \<Rightarrow> uuid \<Rightarrow> uuid \<Rightarrow> bool" where
  "listed m pid rid = (case store_get (rules_by_position m) pid of None \<Rightarrow> False | Some ids \<Rightarrow> rid \<in> set ids)"

definition sl_inv :: "'w StopLossManager \<Rightarrow> bool" where
  "sl_inv m =
     (store_wf (rules m) \<and> store_wf (rules_by_position m)
      \<and> (\<forall>rid r. store_get (rules m) rid = Some r \<longrightarrow> sl_id r = rid \<and> activated r)
      \<and> (\<forall>pid rid. listed m pid rid \<longleftrightarrow>
           (\<exists>r. store_get (rules m) rid = Some r \<and> sl_position_id r = pid)))"

lemma listed_index_rule [simp]:
  "listed (index_rule r m) pid rid \<longleftrightarrow> listed m pid rid \<or> pid = sl_position_id r \<and> rid = sl_id r"
  by (auto simp: listed_def index_rule_def store_simps split: option.split)

lemma listed_unindex_rule [simp]:
  "listed (unindex_rule p i m) pid rid \<longleftrightarrow> listed m pid rid \<and> \<not> (pid = p \<and> rid = i)"
  by (auto simp: listed_def unindex_rule_def store_simps split: option.splits)

lemma listed_update [simp]:
  "listed (m\<lparr>rules := s\<rparr>) = listed m" "listed (m\<lparr>sl_repo := t\<rparr>) = listed m"
  "listed (m\<lparr>sl_executor := ex\<rparr>) = listed m" "listed (m\<lparr>trigger_queue := q\<rparr>) = listed m"
  "listed (m\<lparr>trigger_rx := x\<rparr>) = listed m"
  by (simp_all add: listed_def fun_eq_iff)

lemma rules_unindex_rule [simp]:
  "rules (unindex_rule p i m) = rules m" "sl_repo (unindex_rule p i m) = sl_repo m"
  "sl_executor (unindex_rule p i m) = sl_executor m"
  by (simp_all add: unindex_rule_def split: option.split)

lemma sl_inv_cong [simp]:
  "sl_inv (m\<lparr>sl_repo := t\<rparr>) = sl_inv m" "sl_inv (m\<lparr>sl_executor := ex\<rparr>) = sl_inv m"
  "sl_inv (m\<lparr>trigger_queue := q\<rparr>) = sl_inv m" "sl_inv (m\<lparr>trigger_rx := x\<rparr>) = sl_inv m"
  by (simp_all add: sl_inv_def)

lemma index_rule_inv:
  assumes "sl_inv m" "store_get (rules m) (sl_id r) = None" "activated r"
  shows "sl_inv (index_rule r m)"
proof -
  have "rules (index_rule r m) = store_insert (sl_id r) r (rules m)"
    "store_wf (rules_by_position (index_rule r m))"
    using assms(1) by (simp_all add: index_rule_def sl_inv_def st.wf_insert)
  with assms show ?thesis
    by (auto simp: sl_inv_def store_simps st.wf_insert split: if_splits)
qed

lemma drop_rule_inv:
  assumes "sl_inv m" "\<And>r. store_get (rules m) rid = Some r \<Longrightarrow> sl_position_id r = pid"
  shows "sl_inv (unindex_rule pid rid (m\<lparr>rules := store_remove rid (rules m)\<rparr>))"
proof -
  have "store_wf (rules_by_position (unindex_rule pid rid (m\<lparr>rules := store_remove rid (rules m)\<rparr>)))"
    using assms(1) by (auto simp: sl_inv_def unindex_rule_def st.wf_insert split: option.split)
  with assms show ?thesis
    by (auto simp: sl_inv_def store_simps st.wf_remove split: if_splits)
qed

lemma mark_rule_inv: "sl_inv m \<Longrightarrow> sl_inv (mark_rule_executed P i now rid m)"
  by (auto simp: sl_inv_def mark_rule_executed_def mark_executed_def st.wf_insert store_simps split: option.split)

lemma check_inv:
  assumes "sl_inv m" "check_triggers_detailed E P blocks clock ps m = Some (ts, su, m')"
  shows "sl_inv m'"
proof -
  obtain ups where m': "m' = m\<lparr>rules := map (\<lambda>(k, r). (k, checked ps r)) (rules m),
      sl_repo := map_option (persist_updates P 0 ups) (sl_repo m)\<rparr>"
    using assms(2) by (blast elim: check_triggers_SomeD)
  show ?thesis
    using assms(1) unfolding m' by (auto simp: sl_inv_def store_get_map store_wf_map)
qed

lemma take_rules_rest:
  "store_get (snd (take_rules ids s)) k = (if k \<in> set ids then None else store_get s k)"
  "store_wf s \<Longrightarrow> store_wf (snd (take_rules ids s))"
  by (induction ids s rule: take_rules.induct)
    (auto simp: store_simps st.wf_remove split: option.split prod.splits)

lemma remove_for_position_inv:
  assumes "sl_inv m"
  shows "sl_inv (snd (remove_rules_for_position P pid m))"
proof -
  define m1 where "m1 = (case store_get (rules_by_position m) pid of None \<Rightarrow> m
     | Some ids \<Rightarrow> m\<lparr>rules_by_position := store_remove pid (rules_by_position m),
         rules := snd (take_rules ids (rules m))\<rparr>)"
  have inv: "sl_inv m1"
  proof (cases "store_get (rules_by_position m) pid")
    case None
    with assms show ?thesis by (simp add: m1_def)
  next
    case (Some ids)
    have l: "listed m1 p rid \<longleftrightarrow> listed m p rid \<and> p \<noteq> pid" for p rid
      using Some by (simp add: m1_def listed_def store_simps)
    have ids: "rid \<in> set ids \<longleftrightarrow> listed m pid rid" for rid using Some by (simp add: listed_def)
    show ?thesis
      using assms Some unfolding sl_inv_def l
      by (auto simp: m1_def take_rules_rest st.wf_remove ids split: if_splits)
  qed
  have "\<exists>t. snd (remove_rules_for_position P pid m) = m1\<lparr>sl_repo := t\<rparr>"
    by (auto simp: remove_rules_for_position_def m1_def Let_def split: option.split prod.splits
        intro: exI [of _ "sl_repo m"])
  then show ?thesis using inv by auto
qed

lemma exit_rules_inv: "sl_inv m \<Longrightarrow> sl_inv (snd (exit_rules E A P env i rs m))"
  by (induction E A P env i rs m rule: exit_rules.induct)
    (auto simp: mark_rule_inv split: prod.split ended.split)

lemma execute_stop_inv:
  assumes "sl_inv m"
    and "\<And>r. store_get (rules m) (sl_id (ts_rule stop)) = Some r \<Longrightarrow>
      sl_position_id r = sl_position_id (ts_rule stop)"
  shows "sl_inv (snd (execute_stop E A P lat oid now now' stop m))"
proof -
  let ?rid = "sl_id (ts_rule stop)"
  have "sl_inv (unindex_rule (sl_position_id (ts_rule stop)) ?rid
      ((mark_rule_executed P 0 now' ?rid (m\<lparr>sl_executor := ex'\<rparr>))
       \<lparr>rules := store_remove ?rid (rules (mark_rule_executed P 0 now' ?rid (m\<lparr>sl_executor := ex'\<rparr>)))\<rparr>))" for ex'
    using assms
    by (intro drop_rule_inv mark_rule_inv)
      (auto simp: mark_rule_executed_def mark_executed_def store_simps split: option.splits)
  then show ?thesis
    using assms(1)
    by (auto simp: execute_stop_def send_trigger_def Let_def split: prod.split ended.split)
qed

lemma fold_index_inv:
  "sl_inv m \<Longrightarrow> distinct (map sl_id rs) \<Longrightarrow> (\<forall>r \<in> set rs. activated r \<and> store_get (rules m) (sl_id r) = None) \<Longrightarrow>
     sl_inv (fold index_rule rs m)
     \<and> (\<forall>k. store_get (rules (fold index_rule rs m)) k =
          (case find (\<lambda>r. sl_id r = k) rs of None \<Rightarrow> store_get (rules m) k | Some r \<Rightarrow> Some r))"
proof (induction rs arbitrary: m)
  case (Cons r rs)
  have "sl_inv (index_rule r m)" using Cons.prems by (intro index_rule_inv) auto
  moreover have "\<forall>q \<in> set rs. activated q \<and> store_get (rules (index_rule r m)) (sl_id q) = None"
    using Cons.prems by (auto simp: index_rule_def store_simps image_iff)
  ultimately have IH: "sl_inv (fold index_rule rs (index_rule r m))"
    "store_get (rules (fold index_rule rs (index_rule r m))) k =
       (case find (\<lambda>r. sl_id r = k) rs of None \<Rightarrow> store_get (rules (index_rule r m)) k | Some r \<Rightarrow> Some r)" for k
    using Cons.IH [of "index_rule r m"] Cons.prems(2) by simp_all
  have "find (\<lambda>q. sl_id q = sl_id r) rs = None"
    using Cons.prems(2) by (auto simp: find_None_iff image_iff)
  moreover have "rules (index_rule r m) = store_insert (sl_id r) r (rules m)"
    by (simp add: index_rule_def)
  ultimately show ?case using IH by (auto simp: store_simps split: option.split)
qed simp

text \<open>The primary key of the table.\<close>

definition table_ok :: "sl_table \<Rightarrow> bool" where
  "table_ok t = (store_wf t \<and> (\<forall>(k, row) \<in> set t. sl_id (row_rule row) = k))"

lemma active_rows:
  assumes "table_ok t" "repo_get_active P i now t = Some rs"
  shows "distinct (map sl_id rs) \<and> (\<forall>r \<in> set rs. activated r)"
    and "r \<in> set rs \<longleftrightarrow> (\<exists>row. (sl_id r, row) \<in> set t \<and> activated (row_rule row)
      \<and> \<not> sl_executed (row_rule row) \<and> r = row_to_rule now row)"
proof -
  let ?sel = "filter (\<lambda>r. activated (row_rule r) \<and> \<not> sl_executed (row_rule r)) (store_values t)"
  have rs: "rs = map (row_to_rule now) (sort_key (\<lambda>r. sl_created_at (row_rule r)) ?sel)"
    using assms(2) by (auto simp: repo_get_active_def split: if_splits)
  have ids: "map (\<lambda>row. sl_id (row_rule row)) (store_values t) = map fst t"
    using assms(1) by (auto simp: table_ok_def store_values_def)
  have "distinct (map (\<lambda>row. sl_id (row_rule row)) ?sel)"
    using assms(1) distinct_map_filter [of "\<lambda>row. sl_id (row_rule row)" "store_values t"]
    by (simp add: ids table_ok_def store_wf_def)
  then have inj: "distinct ?sel" "inj_on (\<lambda>row. sl_id (row_rule row)) (set ?sel)" by (simp_all only: distinct_map)
  have key: "sl_id \<circ> row_to_rule now = (\<lambda>row. sl_id (row_rule row))" by (simp add: fun_eq_iff row_to_rule_def)
  have "distinct (map (\<lambda>row. sl_id (row_rule row)) (sort_key (\<lambda>r. sl_created_at (row_rule r)) ?sel))"
    using inj by (simp add: distinct_map)
  then have "distinct (map sl_id rs)" by (simp add: rs key)
  moreover have "\<forall>r \<in> set rs. activated r" by (auto simp: rs row_to_rule_def)
  ultimately show "distinct (map sl_id rs) \<and> (\<forall>r \<in> set rs. activated r)" by blast
  show "r \<in> set rs \<longleftrightarrow> (\<exists>row. (sl_id r, row) \<in> set t \<and> activated (row_rule row)
      \<and> \<not> sl_executed (row_rule row) \<and> r = row_to_rule now row)"
    using assms(1) by (fastforce simp: rs store_values_def row_to_rule_def table_ok_def image_iff)
qed

lemma empty_manager_inv: "sl_inv (new_manager ex)" "sl_inv (manager_with_persistence ex t)"
  by (simp_all add: sl_inv_def new_manager_def manager_with_persistence_def listed_def)

lemma persistence_fields [simp]:
  "sl_repo (manager_with_persistence ex t) = Some t" "rules (manager_with_persistence ex t) = []"
  by (simp_all add: manager_with_persistence_def new_manager_def)

lemma load_inv:
  assumes "table_ok t"
  shows "sl_inv (snd (load_active_rules P now (manager_with_persistence ex t)))"
proof (cases "repo_get_active P 0 now t")
  case None
  then show ?thesis by (simp add: load_active_rules_def empty_manager_inv)
next
  case (Some rs)
  have "sl_inv (fold index_rule rs (manager_with_persistence ex t))"
    using active_rows(1) [OF assms Some]
    by (intro conjunct1 [OF fold_index_inv]) (auto simp: empty_manager_inv)
  with Some show ?thesis by (simp add: load_active_rules_def)
qed

text \<open>
  The manager as a state machine. A new manager starts empty or from its table; an added rule
  has a fresh id (\<open>Uuid::new_v4\<close>), and a stop that is executed names the position of its rule,
  as the stops of a check do.
\<close>

definition sl_start :: "'w StopLossManager \<Rightarrow> bool" where
  "sl_start m = (\<exists>ex P now t. m = new_manager ex
     \<or> table_ok t \<and> m = snd (load_active_rules P now (manager_with_persistence ex t)))"

inductive sl_step :: "num_env \<Rightarrow> ('w, 'o) clob_api \<Rightarrow> 'w StopLossManager \<Rightarrow> 'w StopLossManager \<Rightarrow> bool"
  for E :: num_env and A :: "('w, 'o) clob_api"
where
  sm_add: "store_get (rules m) (sl_id r) = None \<Longrightarrow> sl_step E A m (snd (add_rule P now r m))"
| sm_remove: "sl_step E A m (snd (remove_rule P rid m))"
| sm_remove_position: "sl_step E A m (snd (remove_rules_for_position P pid m))"
| sm_check: "check_triggers_detailed E P blocks clock ps m = Some (ts, su, m') \<Longrightarrow> sl_step E A m m'"
| sm_stop: "(\<And>r. store_get (rules m) (sl_id (ts_rule stop)) = Some r \<Longrightarrow>
      sl_position_id r = sl_position_id (ts_rule stop)) \<Longrightarrow>
    sl_step E A m (snd (execute_stop E A P lat oid now now' stop m))"
| sm_exit: "sl_step E A m (snd (manual_exit E A P env pid m))"
| sm_executor: "exec_step E A (sl_executor m) ex' \<Longrightarrow> sl_step E A m (m\<lparr>sl_executor := ex'\<rparr>)"

lemma activate_fields [simp]:
  "sl_id (activate now r) = sl_id r" "activated (activate now r)"
  "sl_position_id (activate now r) = sl_position_id r" "sl_executed (activate now r) = sl_executed r"
  by (simp_all add: activate_def)

lemma sl_inv_step: "sl_step E A m m' \<Longrightarrow> sl_inv m \<Longrightarrow> sl_inv m'"
proof (induction rule: sl_step.induct)
  case (sm_add m r P now)
  then have "sl_inv (index_rule (activate now r) (m\<lparr>sl_repo := t\<rparr>))" for t
    by (intro index_rule_inv) auto
  from this [of "sl_repo m"] this sm_add.prems show ?case
    by (auto simp: add_rule_def Let_def split: option.split)
next
  case (sm_remove m P rid)
  then have "sl_inv (unindex_rule (sl_position_id r) rid (m\<lparr>rules := store_remove rid (rules m)\<rparr>))"
    if "store_get (rules m) rid = Some r" for r
    using that by (intro drop_rule_inv) auto
  with sm_remove show ?case by (auto simp: remove_rule_def Let_def split: option.split)
qed (auto intro: remove_for_position_inv check_inv execute_stop_inv exit_rules_inv simp: manual_exit_def)

lemma sl_inv_start: "sl_start m \<Longrightarrow> sl_inv m"
  by (auto simp: sl_start_def intro: empty_manager_inv load_inv)

interpretation slm: machine sl_start "sl_step E A" sl_inv for E A
  by unfold_locales (auto intro: sl_inv_start sl_inv_step)

lemma rules_for_position_iff:
  "sl_inv m \<Longrightarrow> r \<in> set (rules_for_position pid m) \<longleftrightarrow>
     store_get (rules m) (sl_id r) = Some r \<and> sl_position_id r = pid"
proof -
  assume inv: "sl_inv m"
  have "r \<in> set (rules_for_position pid m) \<longleftrightarrow> (\<exists>rid. listed m pid rid \<and> store_get (rules m) rid = Some r)"
    by (cases "store_get (rules_by_position m) pid")
      (auto simp: rules_for_position_def listed_def in_set_map_filter)
  then show ?thesis using inv by (auto simp: sl_inv_def)
qed

text \<open>
  C17: The position index is exact. In every reachable manager, whatever was added, removed,
  checked, executed or reloaded from the database, \<open>rules_for_position\<close> returns exactly the
  stored rules of that position, each under its own id, so that removing a position or exiting
  it manually misses no rule and touches no other position.
\<close>

theorem position_index_exact:
  assumes "reach sl_start (sl_step E A) m"
  shows "r \<in> set (rules_for_position pid m) \<longleftrightarrow> get_rule (sl_id r) m = Some r \<and> sl_position_id r = pid"
  using rules_for_position_iff [OF slm.inv_reach [OF assms]] by (simp add: get_rule_def)

theorem position_index_exact_witness:
  "sample_trailing \<in> set (rules_for_position 7
      (snd (add_rule pg_exact 0 sample_trailing (new_manager sample_executor)))) \<longleftrightarrow>
   get_rule (sl_id sample_trailing)
      (snd (add_rule pg_exact 0 sample_trailing (new_manager sample_executor))) = Some sample_trailing
   \<and> sl_position_id sample_trailing = 7"
proof (rule position_index_exact)
  show "reach sl_start (sl_step exact_env (sample_api 0))
    (snd (add_rule pg_exact 0 sample_trailing (new_manager sample_executor)))"
    by (rule reach_step, rule reach_start)
      (auto simp: sl_start_def new_manager_def intro!: sm_add)
qed

subsection \<open>Persistence and exits\<close>

text \<open>Values a row stores unchanged.\<close>

definition storable :: "pg_env \<Rightarrow> StopLossRule \<Rightarrow> bool" where
  "storable P r =
     (pg_dec P (sl_entry_price r) = sl_entry_price r \<and> pg_dec P (sl_quantity r) = sl_quantity r
      \<and> map_option (pg_ts P) (activated_at r) = activated_at r
      \<and> map_option (pg_ts P) (sl_executed_at r) = sl_executed_at r
      \<and> pg_ts P (sl_created_at r) = sl_created_at r
      \<and> (case stop_type r of
           FixedStop p \<Rightarrow> pg_dec P p = p
         | Percentage l \<Rightarrow> pg_dec P l = l
         | Trailing off peak \<Rightarrow> pg_dec P off = off \<and> pg_dec P peak = peak
         | TimeBased d \<Rightarrow> pg_ts P d = d))"

lemma row_roundtrip: "storable P r \<Longrightarrow> row_to_rule now (rule_to_row P r) = r"
  by (cases "stop_type r")
    (auto simp: storable_def row_to_rule_def rule_to_row_def set_stop_columns_def
      stop_type_of_row_def or_zero_def)

lemma rule_row_fields [simp]:
  "sl_id (row_rule (rule_to_row P r)) = sl_id r" "activated (row_rule (rule_to_row P r)) = activated r"
  "sl_executed (row_rule (rule_to_row P r)) = sl_executed r"
  by (cases "stop_type r"; simp add: rule_to_row_def set_stop_columns_def)+

lemma table_ok_insert:
  assumes "table_ok t" "store_get t (sl_id r) = None"
  shows "table_ok (store_insert (sl_id r) (rule_to_row P r) t)"
    and "(sl_id r, rule_to_row P r) \<in> set (store_insert (sl_id r) (rule_to_row P r) t)"
proof -
  have t: "store_insert (sl_id r) (rule_to_row P r) t = t @ [(sl_id r, rule_to_row P r)]"
    using assms(2) by (rule store_insert_new)
  show "(sl_id r, rule_to_row P r) \<in> set (store_insert (sl_id r) (rule_to_row P r) t)" by (simp add: t)
  have "store_wf (store_insert (sl_id r) (rule_to_row P r) t)"
    using assms(1) by (simp add: table_ok_def st.wf_insert)
  with assms(1) show "table_ok (store_insert (sl_id r) (rule_to_row P r) t)"
    by (auto simp: table_ok_def t)
qed

lemma load_get:
  assumes "table_ok t" "(sl_id r, row) \<in> set t" "activated (row_rule row)" "\<not> sl_executed (row_rule row)"
    and "r = row_to_rule now row" "pg_ok P 0"
  shows "get_rule (sl_id r) (snd (load_active_rules P now (manager_with_persistence ex t))) = Some r"
proof -
  obtain rs where rs: "repo_get_active P 0 now t = Some rs"
    using assms(6) by (simp add: repo_get_active_def)
  note rows = active_rows [OF assms(1) rs]
  have mem: "r \<in> set rs" using assms rows(2) by blast
  then have "find (\<lambda>q. sl_id q = sl_id r) rs \<noteq> None" by (auto simp: find_None_iff)
  then obtain q where q: "find (\<lambda>q. sl_id q = sl_id r) rs = Some q" by blast
  then have "q \<in> set rs" "sl_id q = sl_id r" by (auto simp: find_Some_iff)
  with rows(1) mem have "q = r" by (auto simp: distinct_map inj_on_def)
  with q fold_index_inv [of "manager_with_persistence ex t" rs] rows(1) rs show ?thesis
    by (simp add: load_active_rules_def get_rule_def empty_manager_inv)
qed

text \<open>
  A stop-loss rule survives a restart. When \<open>add_rule\<close> succeeds on a manager with a database,
  a new manager that loads the active rules from that table has the rule again, with the stop
  type, peak, entry price and times it was added with (values the columns store unchanged).
\<close>

theorem rule_survives_restart:
  assumes "sl_repo m = Some t" "table_ok t" "store_get t (sl_id r) = None" "pg_ok P 0"
    and "\<not> sl_executed r" "storable P (activate now r)"
  shows "\<exists>m' t'. add_rule P now r m = (True, m') \<and> sl_repo m' = Some t'
    \<and> get_rule (sl_id r) (snd (load_active_rules P now' (manager_with_persistence ex t')))
        = Some (activate now r)"
proof -
  let ?r = "activate now r"
  let ?t = "store_insert (sl_id ?r) (rule_to_row P ?r) t"
  have "repo_insert P 0 ?r t = Some ?t" using assms(3,4) by (simp add: repo_insert_def)
  then have "add_rule P now r m = (True, index_rule ?r (m\<lparr>sl_repo := Some ?t\<rparr>))"
    using assms(1) by (simp add: add_rule_def Let_def)
  moreover have "sl_repo (index_rule ?r (m\<lparr>sl_repo := Some ?t\<rparr>)) = Some ?t"
    by (simp add: index_rule_def)
  moreover have "get_rule (sl_id ?r) (snd (load_active_rules P now' (manager_with_persistence ex ?t))) = Some ?r"
    using assms table_ok_insert [of t ?r P]
    by (intro load_get [of ?t ?r "rule_to_row P ?r"]) (simp_all add: row_roundtrip)
  ultimately show ?thesis by simp
qed

theorem rule_survives_restart_witness:
  "\<exists>m' t'. add_rule pg_exact 3 (new_rule 1 0 7 ''m'' ''yes'' (1 / 2) 10 (Trailing (1 / 10) 0))
       (manager_with_persistence sample_executor []) = (True, m') \<and> sl_repo m' = Some t'
    \<and> get_rule (sl_id (new_rule 1 0 7 ''m'' ''yes'' (1 / 2) 10 (Trailing (1 / 10) 0)))
        (snd (load_active_rules pg_exact 9 (manager_with_persistence sample_executor t')))
        = Some (activate 3 (new_rule 1 0 7 ''m'' ''yes'' (1 / 2) 10 (Trailing (1 / 10) 0)))"
  by (rule rule_survives_restart [of _ "[]"])
    (simp_all add: table_ok_def new_rule_def storable_def activate_def map_option.identity [unfolded id_def])

text \<open>
  A stop whose exit order is rejected is lost. \<open>execute_stop\<close> does not look at the report: for
  every order the executor answers, filled or rejected, the rule is removed from the manager,
  so that after a rejected sale nothing watches the position any more.
\<close>

theorem rejected_stop_dropped:
  assumes "execute_market_order E A lat (exit_order oid now (ts_rule stop)) (sl_executor m) = (Returns rep, ex')"
  shows "get_rule (sl_id (ts_rule stop)) (snd (execute_stop E A P lat oid now now' stop m)) = None"
  using assms
  by (simp add: execute_stop_def send_trigger_def get_rule_def Let_def store_simps split: prod.split)

text \<open>In the sample market there are no bids, so a sale is rejected.\<close>

lemma sample_no_bids:
  "\<exists>ex'. execute_market_order exact_env (sample_api 0) 1 (exit_order 5 0 sample_trailing)
     (new_executor default_executor_config 0)
     = (Returns (reject_market_order 0 (exit_order 5 0 sample_trailing) (Message ''No bids available'')), ex')"
proof -
  let ?ord = "exit_order 5 0 sample_trailing" and ?ex = "new_executor default_executor_config (0::nat)"
  have at: "market_attempt exact_env (sample_api 0) ?ex ?ord w =
      (Some (Inr (reject_market_order 0 ?ord (Message ''No bids available''))), w)" for w
    by (simp add: market_attempt_def simulate_market_order_def at_best_level_def tbind_def sample_api_def
        best_level_for_order_def exit_order_def new_market_order_def new_executor_def default_executor_config_def)
  have "retry_loop default_executor_config (api_sleep (sample_api 0))
      (market_attempt exact_env (sample_api 0) ?ex ?ord) 0 [] 0
    = Some (Succeeded (reject_market_order 0 ?ord (Message ''No bids available'')), 0)"
    by (subst retry_loop.simps) (simp add: at)
  moreover have "ex_config ?ex = default_executor_config" "world ?ex = 0" "report_queue ?ex = []"
    by (simp_all add: new_executor_def)
  moreover have "mo_quantity ?ord = 10"
    by (simp add: exit_order_def new_market_order_def sample_trailing_def activate_def new_rule_def)
  ultimately show ?thesis
    by (simp add: execute_market_order_def execute_with_retry_def Let_def finish_with_def send_report_def
        REPORT_CAPACITY_def default_executor_config_def dec_new_def)
qed

theorem rejected_stop_dropped_witness:
  "\<exists>rep ex'. execute_market_order exact_env (sample_api 0) 1 (exit_order 5 0 sample_trailing)
       (new_executor default_executor_config 0) = (Returns rep, ex') \<and> er_status rep = Rejected
     \<and> get_rule (sl_id sample_trailing)
         (snd (execute_stop exact_env (sample_api 0) pg_exact 1 5 0 0 (stop_of exact_env (1 / 2) sample_trailing)
            (index_rule sample_trailing (new_manager (new_executor default_executor_config 0))))) = None"
proof -
  let ?m = "index_rule sample_trailing (new_manager (new_executor default_executor_config 0))"
  let ?stop = "stop_of exact_env (1 / 2) sample_trailing"
  obtain ex' where run: "execute_market_order exact_env (sample_api 0) 1 (exit_order 5 0 sample_trailing)
     (new_executor default_executor_config 0)
     = (Returns (reject_market_order 0 (exit_order 5 0 sample_trailing) (Message ''No bids available'')), ex')"
    using sample_no_bids by blast
  have fields: "sl_executor ?m = new_executor default_executor_config 0" "ts_rule ?stop = sample_trailing"
    by (simp_all add: index_rule_def new_manager_def stop_of_def)
  have "get_rule (sl_id (ts_rule ?stop))
      (snd (execute_stop exact_env (sample_api 0) pg_exact 1 5 0 0 ?stop ?m)) = None"
    by (rule rejected_stop_dropped) (simp only: fields run)
  then show ?thesis using run by (auto simp: fields reject_market_order_def)
qed

end
