(* ===== verification/Position_Manager.thy ===== *)
theory Position_Manager
  imports Position
begin

section \<open>The position manager\<close>

text \<open>
  Model of \<open>crates/trading-engine/src/position_manager.rs\<close>: the table of managed positions, the
  limits on their number and exposure, and the realized P\&L. Positions are those of theory
  \<open>Position\<close>. The lemmas show that the limits hold in every reachable state and that the
  advisory check \<open>can_open_position\<close> agrees with \<open>add_position\<close>.
\<close>

subsection \<open>Data\<close>

datatype PositionSource = ManualSource | Arbitrage | Recommendation uuid

record ManagedPosition =
  mp_position :: Position
  mp_source :: PositionSource
  mp_stop_loss_id :: "uuid option"
  mp_tags :: "string list"
  mp_notes :: "string option"
  mp_updated_at :: datetime

definition new_managed :: "datetime \<Rightarrow> Position \<Rightarrow> PositionSource \<Rightarrow> ManagedPosition" where
  "new_managed now p src = \<lparr>mp_position = p, mp_source = src, mp_stop_loss_id = None, mp_tags = [],
     mp_notes = None, mp_updated_at = now\<rparr>"

definition with_stop_loss :: "uuid \<Rightarrow> ManagedPosition \<Rightarrow> ManagedPosition" where
  "with_stop_loss rid mp = mp\<lparr>mp_stop_loss_id := Some rid\<rparr>"

definition add_tag :: "string \<Rightarrow> ManagedPosition \<Rightarrow> ManagedPosition" where
  "add_tag tag mp = mp\<lparr>mp_tags := mp_tags mp @ [tag]\<rparr>"

definition set_notes :: "string \<Rightarrow> ManagedPosition \<Rightarrow> ManagedPosition" where
  "set_notes notes mp = mp\<lparr>mp_notes := Some notes\<rparr>"

definition touch_managed :: "datetime \<Rightarrow> ManagedPosition \<Rightarrow> ManagedPosition" where
  "touch_managed now mp = mp\<lparr>mp_updated_at := now\<rparr>"

record PositionLimits =
  max_total_positions :: nat
  max_per_market :: nat
  max_total_exposure :: decimal
  max_market_exposure :: decimal
  max_position_size :: decimal

definition default_limits :: PositionLimits where
  "default_limits = \<lparr>max_total_positions = 20, max_per_market = 2,
     max_total_exposure = dec_new 25000 0, max_market_exposure = dec_new 5000 0,
     max_position_size = dec_new 500 0\<rparr>"

record PositionManager =
  positions :: "(uuid, ManagedPosition) store"
  limits :: PositionLimits
  pm_unrealized :: decimal
  pm_realized :: decimal

definition new_position_manager :: "PositionLimits \<Rightarrow> PositionManager" where
  "new_position_manager l = \<lparr>positions = [], limits = l, pm_unrealized = 0, pm_realized = 0\<rparr>"

text \<open>The errors of \<open>add_position\<close> and \<open>can_open_position\<close>, with what their messages interpolate.\<close>

datatype limit_error =
    TooManyPositions nat
  | TooManyInMarket nat string
  | PositionTooLarge decimal decimal
  | TotalExposureExceeded decimal decimal decimal
  | MarketExposureExceeded decimal string decimal decimal
  | PositionNotFound uuid

subsection \<open>Operations\<close>

definition all_positions :: "PositionManager \<Rightarrow> ManagedPosition list" where
  "all_positions m = store_values (positions m)"

definition active_positions :: "PositionManager \<Rightarrow> ManagedPosition list" where
  "active_positions m = filter (\<lambda>mp. is_active (mp_position mp)) (store_values (positions m))"

definition positions_for_market :: "string \<Rightarrow> PositionManager \<Rightarrow> ManagedPosition list" where
  "positions_for_market market m =
     filter (\<lambda>mp. pos_market_id (mp_position mp) = market) (store_values (positions m))"

definition positions_by_source :: "PositionSource \<Rightarrow> PositionManager \<Rightarrow> ManagedPosition list" where
  "positions_by_source src m = filter (\<lambda>mp. mp_source mp = src) (store_values (positions m))"

definition positions_with_tag :: "string \<Rightarrow> PositionManager \<Rightarrow> ManagedPosition list" where
  "positions_with_tag tag m = filter (\<lambda>mp. tag \<in> set (mp_tags mp)) (store_values (positions m))"

definition active_in_market :: "string \<Rightarrow> PositionManager \<Rightarrow> ManagedPosition list" where
  "active_in_market market m = filter (\<lambda>mp. is_active (mp_position mp)) (positions_for_market market m)"

definition total_exposure :: "num_env \<Rightarrow> PositionManager \<Rightarrow> decimal" where
  "total_exposure E m = dsum E (map (\<lambda>mp. entry_cost E (mp_position mp)) (active_positions m))"

definition market_exposure :: "num_env \<Rightarrow> string \<Rightarrow> PositionManager \<Rightarrow> decimal" where
  "market_exposure E market m =
     dsum E (map (\<lambda>mp. entry_cost E (mp_position mp)) (active_in_market market m))"

definition add_position ::
  "num_env \<Rightarrow> ManagedPosition \<Rightarrow> PositionManager \<Rightarrow> limit_error + PositionManager" where
  "add_position E mp m =
     (let p = mp_position mp; l = limits m; market = pos_market_id p; cost = entry_cost E p
      in if max_total_positions l \<le> length (active_positions m)
         then Inl (TooManyPositions (max_total_positions l))
         else if max_per_market l \<le> length (active_in_market market m)
         then Inl (TooManyInMarket (max_per_market l) market)
         else if max_position_size l < cost
         then Inl (PositionTooLarge cost (max_position_size l))
         else if max_total_exposure l < dadd E (total_exposure E m) cost
         then Inl (TotalExposureExceeded (max_total_exposure l) (total_exposure E m) cost)
         else if max_market_exposure l < dadd E (market_exposure E market m) cost
         then Inl (MarketExposureExceeded (max_market_exposure l) market (market_exposure E market m) cost)
         else Inr (m\<lparr>positions := store_insert (pos_id p) mp (positions m)\<rparr>))"

definition get_position :: "uuid \<Rightarrow> PositionManager \<Rightarrow> ManagedPosition option" where
  "get_position pid m = store_get (positions m) pid"

definition update_position ::
  "datetime \<Rightarrow> uuid \<Rightarrow> (ManagedPosition \<Rightarrow> ManagedPosition) \<Rightarrow> PositionManager \<Rightarrow> bool \<times> PositionManager" where
  "update_position now pid f m =
     (case store_get (positions m) pid of
        None \<Rightarrow> (False, m)
      | Some mp \<Rightarrow> (True, m\<lparr>positions := store_insert pid (touch_managed now (f mp)) (positions m)\<rparr>))"

definition remove_position :: "uuid \<Rightarrow> PositionManager \<Rightarrow> ManagedPosition option \<times> PositionManager" where
  "remove_position pid m =
     (store_get (positions m) pid, m\<lparr>positions := store_remove pid (positions m)\<rparr>)"

text \<open>The entry is marked closed and then removed; only the P\&L total remains of it.\<close>

definition close_position ::
  "num_env \<Rightarrow> uuid \<Rightarrow> decimal \<Rightarrow> PositionManager \<Rightarrow> limit_error + PositionManager" where
  "close_position E pid pnl m =
     (case store_get (positions m) pid of
        None \<Rightarrow> Inl (PositionNotFound pid)
      | Some mp \<Rightarrow> Inr (m\<lparr>pm_realized := dadd E (pm_realized m) pnl,
                          positions := store_remove pid (positions m)\<rparr>))"

definition update_limits :: "PositionLimits \<Rightarrow> PositionManager \<Rightarrow> PositionManager" where
  "update_limits l m = m\<lparr>limits := l\<rparr>"

definition can_open_position ::
  "num_env \<Rightarrow> string \<Rightarrow> decimal \<Rightarrow> PositionManager \<Rightarrow> limit_error + unit" where
  "can_open_position E market sz m =
     (let l = limits m
      in if max_total_positions l \<le> length (active_positions m)
         then Inl (TooManyPositions (max_total_positions l))
         else if max_per_market l \<le> length (active_in_market market m)
         then Inl (TooManyInMarket (max_per_market l) market)
         else if max_position_size l < sz then Inl (PositionTooLarge sz (max_position_size l))
         else if max_total_exposure l < dadd E (total_exposure E m) sz
         then Inl (TotalExposureExceeded (max_total_exposure l) (total_exposure E m) sz)
         else if max_market_exposure l < dadd E (market_exposure E market m) sz
         then Inl (MarketExposureExceeded (max_market_exposure l) market (market_exposure E market m) sz)
         else Inr ())"

record PositionManagerStats =
  ps_total_positions :: nat
  ps_active_positions :: nat
  ps_total_exposure :: decimal
  ps_total_unrealized_pnl :: decimal
  ps_total_realized_pnl :: decimal
  ps_arbitrage_positions :: nat
  ps_manual_positions :: nat

definition pm_stats :: "num_env \<Rightarrow> PositionManager \<Rightarrow> PositionManagerStats" where
  "pm_stats E m = \<lparr>ps_total_positions = length (all_positions m),
     ps_active_positions = length (active_positions m), ps_total_exposure = total_exposure E m,
     ps_total_unrealized_pnl = dsum E (map (\<lambda>mp. unrealized_pnl (mp_position mp)) (active_positions m)),
     ps_total_realized_pnl = pm_realized m,
     ps_arbitrage_positions = length (positions_by_source Arbitrage m),
     ps_manual_positions = length (positions_by_source ManualSource m)\<rparr>"

subsection \<open>Limits\<close>

text \<open>
  The load of a table: the number and the summed cost of the entries that satisfy \<open>Q\<close>. Both the
  total and the per-market figures are loads.
\<close>

definition load :: "(ManagedPosition \<Rightarrow> bool) \<Rightarrow> (uuid, ManagedPosition) store \<Rightarrow> nat \<times> decimal" where
  "load Q s = (length (filter Q (store_values s)),
     sum_list (map (\<lambda>mp. entry_cost exact_env (mp_position mp)) (filter Q (store_values s))))"

definition load_le :: "nat \<times> decimal \<Rightarrow> nat \<times> decimal \<Rightarrow> bool" where
  "load_le a b = (fst a \<le> fst b \<and> snd a \<le> snd b)"

definition active_mp :: "ManagedPosition \<Rightarrow> bool" where
  "active_mp mp = is_active (mp_position mp)"

definition active_mp_in :: "string \<Rightarrow> ManagedPosition \<Rightarrow> bool" where
  "active_mp_in market mp = (is_active (mp_position mp) \<and> pos_market_id (mp_position mp) = market)"

lemma dsum_exact: "dsum exact_env xs = sum_list xs"
proof -
  have "foldl (dadd exact_env) a xs = a + sum_list xs" for a
    by (induction xs arbitrary: a) simp_all
  from this [of 0] show ?thesis by (simp add: dsum_def)
qed

lemma load_total:
  "load active_mp (positions m) = (length (active_positions m), total_exposure exact_env m)"
  by (simp add: load_def active_mp_def [abs_def] active_positions_def total_exposure_def dsum_exact)

lemma load_market:
  "load (active_mp_in market) (positions m) =
     (length (active_in_market market m), market_exposure exact_env market m)"
  by (simp add: load_def active_mp_in_def [abs_def] active_in_market_def positions_for_market_def
      market_exposure_def dsum_exact conj_commute)

lemma load_le_trans: "load_le a b \<Longrightarrow> load_le b c \<Longrightarrow> load_le a c"
  by (auto simp: load_le_def)

lemma load_append:
  "load Q (s @ [(k, mp)]) =
     (if Q mp then (fst (load Q s) + 1, snd (load Q s) + entry_cost exact_env (mp_position mp)) else load Q s)"
  by (simp add: load_def store_values_def)

text \<open>Costs are nonnegative in the reachable tables, so removing an entry lowers the load.\<close>

definition costs_ok :: "(uuid, ManagedPosition) store \<Rightarrow> bool" where
  "costs_ok s = (\<forall>mp \<in> set (store_values s). 0 \<le> entry_cost exact_env (mp_position mp))"

lemma load_remove: "costs_ok s \<Longrightarrow> load_le (load Q (store_remove k s)) (load Q s)"
  by (induction s)
    (auto simp: load_def load_le_def store_values_def store_remove_def costs_ok_def split: if_splits)

lemma load_replace:
  assumes "store_wf s" "store_get s k = Some mp" "Q mp' \<Longrightarrow> Q mp"
    and "entry_cost exact_env (mp_position mp') = entry_cost exact_env (mp_position mp)" "costs_ok s"
  shows "load_le (load Q (store_insert k mp' s)) (load Q s)"
  using assms
proof (induction s)
  case (Cons e s)
  then show ?case
    by (cases e) (auto simp: load_def load_le_def store_values_def store_insert_def store_wf_def
        costs_ok_def split: if_splits)
qed simp

definition within_limits :: "PositionManager \<Rightarrow> bool" where
  "within_limits m =
     (length (active_positions m) \<le> max_total_positions (limits m)
      \<and> total_exposure exact_env m \<le> max_total_exposure (limits m)
      \<and> (\<forall>market. length (active_in_market market m) \<le> max_per_market (limits m)
           \<and> market_exposure exact_env market m \<le> max_market_exposure (limits m)))"

definition total_cap :: "PositionLimits \<Rightarrow> nat \<times> decimal" where
  "total_cap l = (max_total_positions l, max_total_exposure l)"

definition market_cap :: "PositionLimits \<Rightarrow> nat \<times> decimal" where
  "market_cap l = (max_per_market l, max_market_exposure l)"

lemma within_limits_iff:
  "within_limits m \<longleftrightarrow> load_le (load active_mp (positions m)) (total_cap (limits m))
     \<and> (\<forall>market. load_le (load (active_mp_in market) (positions m)) (market_cap (limits m)))"
  by (simp add: within_limits_def load_total load_market load_le_def total_cap_def market_cap_def)

lemma within_limits_mono:
  assumes "within_limits m" "limits m' = limits m"
    and "load_le (load active_mp (positions m')) (load active_mp (positions m))"
    and "\<And>market. load_le (load (active_mp_in market) (positions m')) (load (active_mp_in market) (positions m))"
  shows "within_limits m'"
  using assms(1) unfolding within_limits_iff assms(2)
  by (auto intro: load_le_trans [OF assms(3)] load_le_trans [OF assms(4)])

definition pm_inv :: "PositionManager \<Rightarrow> bool" where
  "pm_inv m = (store_wf (positions m) \<and> costs_ok (positions m) \<and> within_limits m)"

text \<open>
  The steps: a position with a fresh id and a nonnegative cost is added, a position is closed or
  removed, the limits are raised, or an update that keeps the cost and the market and does not
  reactivate a closed position.
\<close>

inductive pm_step :: "PositionManager \<Rightarrow> PositionManager \<Rightarrow> bool" where
  pm_add: "add_position exact_env mp m = Inr m' \<Longrightarrow> store_get (positions m) (pos_id (mp_position mp)) = None \<Longrightarrow>
    0 \<le> entry_cost exact_env (mp_position mp) \<Longrightarrow> pm_step m m'"
| pm_close: "close_position exact_env pid pnl m = Inr m' \<Longrightarrow> pm_step m m'"
| pm_remove: "pm_step m (snd (remove_position pid m))"
| pm_raise: "load_le (total_cap (limits m)) (total_cap l) \<Longrightarrow> load_le (market_cap (limits m)) (market_cap l) \<Longrightarrow>
    pm_step m (update_limits l m)"
| pm_update: "(\<And>mp. entry_cost exact_env (mp_position (f mp)) = entry_cost exact_env (mp_position mp)
      \<and> pos_market_id (mp_position (f mp)) = pos_market_id (mp_position mp)
      \<and> (is_active (mp_position (f mp)) \<longrightarrow> is_active (mp_position mp))) \<Longrightarrow>
    pm_step m (snd (update_position now pid f m))"

definition pm_start :: "PositionManager \<Rightarrow> bool" where
  "pm_start m = (\<exists>l. 0 \<le> max_total_exposure l \<and> 0 \<le> max_market_exposure l \<and> m = new_position_manager l)"

lemma costs_ok_insert:
  "costs_ok s \<Longrightarrow> 0 \<le> entry_cost exact_env (mp_position mp) \<Longrightarrow> store_wf s \<Longrightarrow> costs_ok (store_insert k mp s)"
  using st.vals_insert [of s k mp] by (auto simp: costs_ok_def)

lemma costs_ok_remove: "costs_ok s \<Longrightarrow> store_wf s \<Longrightarrow> costs_ok (store_remove k s)"
  using st.vals_remove [of s k] by (auto simp: costs_ok_def)

lemma add_position_InrD:
  assumes "add_position E mp m = Inr m'"
  shows "m' = m\<lparr>positions := store_insert (pos_id (mp_position mp)) mp (positions m)\<rparr>"
    and "length (active_positions m) < max_total_positions (limits m)"
    and "length (active_in_market (pos_market_id (mp_position mp)) m) < max_per_market (limits m)"
    and "dadd E (total_exposure E m) (entry_cost E (mp_position mp)) \<le> max_total_exposure (limits m)"
    and "dadd E (market_exposure E (pos_market_id (mp_position mp)) m) (entry_cost E (mp_position mp))
      \<le> max_market_exposure (limits m)"
  using assms by (auto simp: add_position_def Let_def not_less split: if_splits)

lemma pm_inv_add:
  assumes "pm_inv m" "add_position exact_env mp m = Inr m'"
    and "store_get (positions m) (pos_id (mp_position mp)) = None" "0 \<le> entry_cost exact_env (mp_position mp)"
  shows "pm_inv m'"
proof -
  note add = add_position_InrD [OF assms(2)]
  have pos: "positions m' = positions m @ [(pos_id (mp_position mp), mp)]" "limits m' = limits m"
    using add(1) store_insert_new [OF assms(3)] by simp_all
  have inv: "store_wf (positions m)" "costs_ok (positions m)"
    "load_le (load active_mp (positions m)) (total_cap (limits m))"
    "\<And>market. load_le (load (active_mp_in market) (positions m)) (market_cap (limits m))"
    using assms(1) by (simp_all add: pm_inv_def within_limits_iff)
  have "load_le (load active_mp (positions m')) (total_cap (limits m'))"
    using inv(3) add(2,4) by (simp add: pos load_append load_total load_le_def total_cap_def)
  moreover have "load_le (load (active_mp_in market) (positions m')) (market_cap (limits m'))" for market
    using inv(4) [of market] add(3,5)
    by (auto simp: pos load_append load_market load_le_def market_cap_def active_mp_in_def)
  ultimately show ?thesis
    using inv(1,2) assms(4) add(1) by (simp add: pm_inv_def within_limits_iff st.wf_insert costs_ok_insert)
qed

lemma pm_inv_remove: "pm_inv m \<Longrightarrow> pm_inv (m\<lparr>positions := store_remove k (positions m)\<rparr>)"
  by (auto simp: pm_inv_def st.wf_remove costs_ok_remove load_remove intro: within_limits_mono)

lemma pm_inv_realized [simp]: "pm_inv (m\<lparr>pm_realized := x\<rparr>) = pm_inv m"
  by (simp add: pm_inv_def within_limits_iff)

lemma pm_inv_update:
  assumes "pm_inv m" "store_get (positions m) pid = Some mp"
    and "entry_cost exact_env (mp_position mp') = entry_cost exact_env (mp_position mp)"
      "pos_market_id (mp_position mp') = pos_market_id (mp_position mp)"
      "is_active (mp_position mp') \<Longrightarrow> is_active (mp_position mp)"
  shows "pm_inv (m\<lparr>positions := store_insert pid mp' (positions m)\<rparr>)"
proof -
  have inv: "store_wf (positions m)" "costs_ok (positions m)" using assms(1) by (simp_all add: pm_inv_def)
  have "0 \<le> entry_cost exact_env (mp_position mp)"
    using store_get_in_values [OF assms(2)] inv(2) by (simp add: costs_ok_def)
  then have "costs_ok (store_insert pid mp' (positions m))"
    using inv assms(3) by (intro costs_ok_insert) auto
  moreover have "load_le (load active_mp (store_insert pid mp' (positions m))) (load active_mp (positions m))"
    using assms(3,5) by (intro load_replace [OF inv(1) assms(2) _ _ inv(2)]) (auto simp: active_mp_def)
  moreover have "load_le (load (active_mp_in market) (store_insert pid mp' (positions m)))
      (load (active_mp_in market) (positions m))" for market
    using assms(3-5) by (intro load_replace [OF inv(1) assms(2) _ _ inv(2)]) (auto simp: active_mp_in_def)
  ultimately show ?thesis
    using assms(1) inv by (auto simp: pm_inv_def st.wf_insert intro: within_limits_mono)
qed

lemma pm_inv_step: "pm_step m m' \<Longrightarrow> pm_inv m \<Longrightarrow> pm_inv m'"
proof (induction rule: pm_step.induct)
  case (pm_add mp m m')
  then show ?case by (auto intro: pm_inv_add)
next
  case (pm_close pid pnl m m')
  then show ?case
    using pm_inv_remove [of "m\<lparr>pm_realized := dadd exact_env (pm_realized m) pnl\<rparr>" pid]
    by (auto simp: close_position_def split: option.splits)
next
  case (pm_remove m pid)
  then show ?case by (simp add: remove_position_def pm_inv_remove)
next
  case (pm_raise m l)
  then show ?case
    by (auto simp: pm_inv_def within_limits_iff update_limits_def
        intro: load_le_trans [OF _ pm_raise.hyps(1)] load_le_trans [OF _ pm_raise.hyps(2)])
next
  case (pm_update f m now pid)
  then show ?case
    using pm_inv_update [of m pid _ "touch_managed now (f _)"]
    by (auto simp: update_position_def touch_managed_def split: option.split)
qed

lemma pm_inv_start: "pm_start m \<Longrightarrow> pm_inv m"
  by (auto simp: pm_start_def pm_inv_def within_limits_iff new_position_manager_def costs_ok_def
      load_def load_le_def total_cap_def market_cap_def store_values_def)

interpretation pm: machine pm_start pm_step pm_inv
  by unfold_locales (auto intro: pm_inv_start pm_inv_step)


definition sample_managed :: ManagedPosition where
  "sample_managed = new_managed 0 (new_position exact_env 1 0 ''m'' (48 / 100) (49 / 100) 100 HoldToResolution) Arbitrage"


text \<open>
  The advisory check and the operation agree: \<open>can_open_position\<close> accepts a market and a size
  exactly when \<open>add_position\<close> accepts a position of that market and cost, and both refuse with
  the same limit, in any rounding.
\<close>

theorem can_open_agrees_with_add:
  "can_open_position E (pos_market_id (mp_position mp)) (entry_cost E (mp_position mp)) m =
     (case add_position E mp m of Inl e \<Rightarrow> Inl e | Inr _ \<Rightarrow> Inr ())"
  by (simp add: can_open_position_def add_position_def Let_def)

end
