(* ===== verification/Rbac.thy ===== *)
theory Rbac
  imports Prelude
begin

section \<open>Role-based access control\<close>

text \<open>
  Model of \<open>crates/auth/src/rbac.rs\<close>: actions, resources, permissions with their conditions, roles
  with inheritance, the default roles, and the manager. A \<open>HashSet<Permission>\<close> is a list without
  duplicates; each \<open>Utc::now()\<close> is an argument.

  The recursion of \<open>collect_permissions\<close> through the parents of a role is a nested recursive
  function; it ends because every call that recurses visits a role not visited before. The
  lemmas show that it collects exactly the permissions of the roles reachable by inheritance.
\<close>

subsection \<open>Permissions\<close>

datatype Action =
    ActCreate | ActRead | ActUpdate | ActDelete
  | ActExecute | ActCancel | ActClose
  | ActManage | ActConfigure | ActExport
  | ActAll

definition action_includes :: "Action \<Rightarrow> Action \<Rightarrow> bool" where
  "action_includes a b = (a = ActAll \<or> a = b)"

datatype Resource =
    ResPosition | ResOrder | ResMarket | ResWallet
  | ResStopLoss | ResBacktest
  | ResStrategy | ResRiskSettings | ResSystemConfig
  | ResUser | ResRole | ResApiKey
  | ResAuditLog | ResAnalytics | ResReports
  | Specific string string
  | ResAll

definition resource_matches :: "Resource \<Rightarrow> Resource \<Rightarrow> bool" where
  "resource_matches a b =
     (if a = ResAll then True
      else if b = ResAll then True
      else if a = b then True
      else (case (a, b) of (Specific t1 _, Specific t2 _) \<Rightarrow> t1 = t2 | _ \<Rightarrow> False))"

record TimeWindow =
  start_hour :: u8
  end_hour :: u8
  allowed_days :: "u8 list option"

definition time_window_active :: "datetime \<Rightarrow> TimeWindow \<Rightarrow> bool" where
  "time_window_active now w =
     (let hour = (word_of_int (hour_of now) :: u8);
          day = (word_of_int (days_from_sunday now) :: u8);
          in_hours = (if start_hour w \<le> end_hour w
                      then start_hour w \<le> hour \<and> hour < end_hour w
                      else start_hour w \<le> hour \<or> hour < end_hour w);
          in_days = (case allowed_days w of None \<Rightarrow> True | Some days \<Rightarrow> day \<in> set days)
      in in_hours \<and> in_days)"

record PermissionConditions =
  time_window :: "TimeWindow option"
  ip_whitelist :: "string list option"
  max_amount_cents :: "int option"
  require_mfa :: "bool option"

record Permission =
  perm_resource :: Resource
  perm_action :: Action
  perm_conditions :: "PermissionConditions option"

definition new_permission :: "Resource \<Rightarrow> Action \<Rightarrow> Permission" where
  "new_permission r a = \<lparr>perm_resource = r, perm_action = a, perm_conditions = None\<rparr>"

definition with_conditions :: "PermissionConditions \<Rightarrow> Permission \<Rightarrow> Permission" where
  "with_conditions c p = p\<lparr>perm_conditions := Some c\<rparr>"

definition grants :: "Permission \<Rightarrow> Resource \<Rightarrow> Action \<Rightarrow> bool" where
  "grants p r a = (resource_matches (perm_resource p) r \<and> action_includes (perm_action p) a)"

subsection \<open>Roles\<close>

record Role =
  role_name :: string
  role_description :: string
  permissions :: "Permission list"
  inherits :: "string list"
  system_role :: bool
  role_created_at :: datetime
  role_updated_at :: datetime

definition new_role :: "datetime \<Rightarrow> string \<Rightarrow> string \<Rightarrow> Role" where
  "new_role now name descr = \<lparr>role_name = name, role_description = descr, permissions = [],
     inherits = [], system_role = False, role_created_at = now, role_updated_at = now\<rparr>"

definition add_permission :: "datetime \<Rightarrow> Permission \<Rightarrow> Role \<Rightarrow> Role" where
  "add_permission now p r =
     r\<lparr>permissions := (if p \<in> set (permissions r) then permissions r else permissions r @ [p]),
       role_updated_at := now\<rparr>"

definition remove_permission :: "datetime \<Rightarrow> Permission \<Rightarrow> Role \<Rightarrow> bool \<times> Role" where
  "remove_permission now p r =
     (if p \<in> set (permissions r)
      then (True, r\<lparr>permissions := remove1 p (permissions r), role_updated_at := now\<rparr>)
      else (False, r))"

definition inherit_from :: "datetime \<Rightarrow> string \<Rightarrow> Role \<Rightarrow> Role" where
  "inherit_from now name r = r\<lparr>inherits := inherits r @ [name], role_updated_at := now\<rparr>"

definition as_system_role :: "Role \<Rightarrow> Role" where
  "as_system_role r = r\<lparr>system_role := True\<rparr>"

text \<open>\<open>ps\<close> lists the permissions a default role adds, in order.\<close>

definition add_all :: "datetime \<Rightarrow> (Resource \<times> Action) list \<Rightarrow> Role \<Rightarrow> Role" where
  "add_all now ps r = fold (\<lambda>(res, act). add_permission now (new_permission res act)) ps r"

definition role_viewer :: "datetime \<Rightarrow> Role" where
  "role_viewer now =
     add_all now [(ResPosition, ActRead), (ResOrder, ActRead), (ResMarket, ActRead),
       (ResWallet, ActRead), (ResAnalytics, ActRead), (ResBacktest, ActRead)]
     (as_system_role (new_role now ''viewer'' ''Read-only access to dashboards and data''))"

definition role_trader :: "datetime \<Rightarrow> Role" where
  "role_trader now =
     add_all now [(ResPosition, ActCreate), (ResPosition, ActUpdate), (ResPosition, ActClose),
       (ResOrder, ActCreate), (ResOrder, ActExecute), (ResOrder, ActCancel),
       (ResStopLoss, ActCreate), (ResStopLoss, ActUpdate), (ResStopLoss, ActDelete),
       (ResBacktest, ActCreate), (ResBacktest, ActExecute)]
     (inherit_from now ''viewer''
       (as_system_role (new_role now ''trader'' ''Can execute trades and manage positions'')))"

definition role_platform_admin :: "datetime \<Rightarrow> Role" where
  "role_platform_admin now =
     add_all now [(ResAll, ActAll), (ResUser, ActManage), (ResRole, ActManage),
       (ResApiKey, ActManage), (ResSystemConfig, ActConfigure), (ResRiskSettings, ActConfigure),
       (ResAuditLog, ActRead), (ResReports, ActExport)]
     (inherit_from now ''trader''
       (as_system_role (new_role now ''platform_admin''
          ''Platform administrator - manages workspaces and users'')))"

definition role_risk_manager :: "datetime \<Rightarrow> Role" where
  "role_risk_manager now =
     add_all now [(ResRiskSettings, ActRead), (ResRiskSettings, ActUpdate),
       (ResStopLoss, ActManage), (ResPosition, ActClose)]
     (inherit_from now ''viewer'' (new_role now ''risk_manager'' ''Can configure risk settings''))"

definition default_roles :: "datetime \<Rightarrow> Role list" where
  "default_roles now = [role_viewer now, role_trader now, role_platform_admin now, role_risk_manager now]"

subsection \<open>The manager\<close>

type_synonym role_table = "(string, Role) store"

record RbacManager =
  roles :: role_table
  user_roles :: "(string, string list) store"

definition new_rbac :: "datetime \<Rightarrow> RbacManager" where
  "new_rbac now = \<lparr>roles = fold (\<lambda>r. store_insert (role_name r) r) (default_roles now) [], user_roles = []\<rparr>"

datatype rbac_error =
    RoleExists string | CannotModifySystemRole string | CannotDeleteSystemRole string | NoSuchRole string

definition add_role :: "Role \<Rightarrow> RbacManager \<Rightarrow> rbac_error + RbacManager" where
  "add_role r m =
     (if store_get (roles m) (role_name r) \<noteq> None then Inl (RoleExists (role_name r))
      else Inr (m\<lparr>roles := store_insert (role_name r) r (roles m)\<rparr>))"

definition update_role :: "Role \<Rightarrow> RbacManager \<Rightarrow> rbac_error + RbacManager" where
  "update_role r m =
     (case store_get (roles m) (role_name r) of
        Some existing \<Rightarrow>
          if system_role existing then Inl (CannotModifySystemRole (role_name r))
          else Inr (m\<lparr>roles := store_insert (role_name r) r (roles m)\<rparr>)
      | None \<Rightarrow> Inr (m\<lparr>roles := store_insert (role_name r) r (roles m)\<rparr>))"

definition delete_role :: "string \<Rightarrow> RbacManager \<Rightarrow> rbac_error + RbacManager" where
  "delete_role name m =
     (case store_get (roles m) name of
        Some r \<Rightarrow> if system_role r then Inl (CannotDeleteSystemRole name)
                  else Inr (m\<lparr>roles := store_remove name (roles m)\<rparr>)
      | None \<Rightarrow> Inr (m\<lparr>roles := store_remove name (roles m)\<rparr>))"

definition get_role :: "string \<Rightarrow> RbacManager \<Rightarrow> Role option" where
  "get_role name m = store_get (roles m) name"

definition list_roles :: "RbacManager \<Rightarrow> Role list" where
  "list_roles m = store_values (roles m)"

definition get_user_roles :: "string \<Rightarrow> RbacManager \<Rightarrow> string list" where
  "get_user_roles user m = (case store_get (user_roles m) user of None \<Rightarrow> [] | Some rs \<Rightarrow> rs)"

definition assign_role :: "string \<Rightarrow> string \<Rightarrow> RbacManager \<Rightarrow> rbac_error + RbacManager" where
  "assign_role user name m =
     (if store_get (roles m) name = None then Inl (NoSuchRole name)
      else Inr (m\<lparr>user_roles := store_insert user (get_user_roles user m @ [name]) (user_roles m)\<rparr>))"

definition revoke_role :: "string \<Rightarrow> string \<Rightarrow> RbacManager \<Rightarrow> RbacManager" where
  "revoke_role user name m =
     (case store_get (user_roles m) user of
        None \<Rightarrow> m
      | Some rs \<Rightarrow> m\<lparr>user_roles := store_insert user (filter (\<lambda>r. r \<noteq> name) rs) (user_roles m)\<rparr>)"

text \<open>
  \<open>collect_recursive\<close> for a list of role names, one after the other: the accumulator is the
  pair of \<open>permissions\<close> and \<open>visited\<close>, which the calls share.
\<close>

function collect_recursive ::
  "role_table \<Rightarrow> string list \<Rightarrow> Permission list \<times> string list \<Rightarrow> Permission list \<times> string list" where
  "collect_recursive rs [] acc = acc"
| "collect_recursive rs (name # names) (perms, visited) =
     collect_recursive rs names
       (if name \<in> set visited then (perms, visited)
        else (case store_get rs name of
                None \<Rightarrow> (perms, name # visited)
              | Some role \<Rightarrow>
                  collect_recursive rs (inherits role) (perms @ permissions role, name # visited)))"
  by pat_completeness auto

definition unvisited :: "role_table \<Rightarrow> string list \<Rightarrow> nat" where
  "unvisited rs visited = card (fst ` set rs - set visited)"

lemma unvisited_mono: "set v \<subseteq> set v' \<Longrightarrow> unvisited rs v' \<le> unvisited rs v"
  unfolding unvisited_def by (intro card_mono) auto

lemma unvisited_less:
  assumes "store_get rs name = Some r" "name \<notin> set v"
  shows "unvisited rs (name # v) < unvisited rs v"
proof -
  have "name \<in> fst ` set rs"
    using assms(1) by (auto simp: store_get_def dest: map_of_SomeD intro: rev_image_eqI)
  with assms(2) have "name \<in> fst ` set rs - set v" by blast
  then have "fst ` set rs - set (name # v) \<subset> fst ` set rs - set v" by auto
  then show ?thesis unfolding unvisited_def by (intro psubset_card_mono) auto
qed

lemma visited_grows:
  "collect_recursive_dom (rs, names, acc) \<Longrightarrow> set (snd acc) \<subseteq> set (snd (collect_recursive rs names acc))"
proof (induction rule: collect_recursive.pinduct)
  case (1 rs acc)
  then show ?case by (simp add: collect_recursive.psimps)
next
  case (2 rs name names perms visited)
  show ?case
    using 2 by (auto simp: collect_recursive.psimps split: if_splits option.splits)
qed

termination collect_recursive
proof (relation "measures [\<lambda>(rs, names, acc). unvisited rs (snd acc), \<lambda>(rs, names, acc). length names]")
  fix rs :: role_table and name :: string and names visited :: "string list" and perms role
  assume "name \<notin> set visited" "store_get rs name = Some role"
  then show "((rs, inherits role, perms @ permissions role, name # visited), rs, name # names, perms, visited)
    \<in> measures [\<lambda>(rs, names, acc). unvisited rs (snd acc), \<lambda>(rs, names, acc). length names]"
    by (simp add: unvisited_less)
next
  fix rs :: role_table and name :: string and names visited :: "string list" and perms
  let ?acc = "if name \<in> set visited then (perms, visited)
    else (case store_get rs name of None \<Rightarrow> (perms, name # visited)
          | Some role \<Rightarrow> collect_recursive rs (inherits role) (perms @ permissions role, name # visited))"
  assume dom: "\<And>role. name \<notin> set visited \<Longrightarrow> store_get rs name = Some role \<Longrightarrow>
    collect_recursive_dom (rs, inherits role, perms @ permissions role, name # visited)"
  have "set visited \<subseteq> set (snd ?acc)"
    using visited_grows [OF dom] by (auto split: option.split)
  then show "((rs, names, ?acc), rs, name # names, perms, visited)
    \<in> measures [\<lambda>(rs, names, acc). unvisited rs (snd acc), \<lambda>(rs, names, acc). length names]"
    using unvisited_mono [of visited "snd ?acc" rs] by (auto simp: le_less)
qed simp

definition collect_permissions :: "string list \<Rightarrow> role_table \<Rightarrow> Permission list" where
  "collect_permissions names rs = fst (collect_recursive rs names ([], []))"

definition conditions_hold :: "datetime \<Rightarrow> Permission \<Rightarrow> bool" where
  "conditions_hold now p =
     (case perm_conditions p of
        None \<Rightarrow> True
      | Some c \<Rightarrow> (case time_window c of None \<Rightarrow> True | Some w \<Rightarrow> time_window_active now w))"

definition has_permission :: "datetime \<Rightarrow> string \<Rightarrow> Resource \<Rightarrow> Action \<Rightarrow> RbacManager \<Rightarrow> bool" where
  "has_permission now user res act m =
     list_ex (\<lambda>p. grants p res act \<and> conditions_hold now p)
       (collect_permissions (get_user_roles user m) (roles m))"

definition get_effective_permissions :: "string \<Rightarrow> RbacManager \<Rightarrow> Permission list" where
  "get_effective_permissions user m = collect_permissions (get_user_roles user m) (roles m)"

subsection \<open>What is collected\<close>

text \<open>The abstract specification: role \<open>b\<close> is inherited by \<open>a\<close>, directly or not.\<close>

definition parent_of :: "role_table \<Rightarrow> string \<Rightarrow> string \<Rightarrow> bool" where
  "parent_of rs a b = (\<exists>r. store_get rs a = Some r \<and> b \<in> set (inherits r))"

definition direct :: "role_table \<Rightarrow> string \<Rightarrow> Permission \<Rightarrow> bool" where
  "direct rs a p = (\<exists>r. store_get rs a = Some r \<and> p \<in> set (permissions r))"

text \<open>
  What a call adds: it visits its names, everything it newly visits is reachable from them and
  has all its parents visited, and the permissions added are those of the newly visited roles.
\<close>

definition collected ::
  "role_table \<Rightarrow> string list \<Rightarrow> Permission list \<times> string list \<Rightarrow> Permission list \<times> string list \<Rightarrow> bool" where
  "collected rs names acc acc' \<longleftrightarrow>
     set (snd acc) \<union> set names \<subseteq> set (snd acc')
     \<and> (\<forall>v \<in> set (snd acc') - set (snd acc).
          (\<exists>n \<in> set names. (parent_of rs)\<^sup>*\<^sup>* n v) \<and> (\<forall>b. parent_of rs v b \<longrightarrow> b \<in> set (snd acc')))
     \<and> set (fst acc') = set (fst acc) \<union> {p. \<exists>v \<in> set (snd acc') - set (snd acc). direct rs v p}"

lemma collectedI:
  assumes "set (snd acc) \<union> set names \<subseteq> set (snd acc')"
    and "\<And>v. v \<in> set (snd acc') - set (snd acc) \<Longrightarrow> \<exists>n \<in> set names. (parent_of rs)\<^sup>*\<^sup>* n v"
    and "\<And>v b. v \<in> set (snd acc') - set (snd acc) \<Longrightarrow> parent_of rs v b \<Longrightarrow> b \<in> set (snd acc')"
    and "set (fst acc') = set (fst acc) \<union> {p. \<exists>v \<in> set (snd acc') - set (snd acc). direct rs v p}"
  shows "collected rs names acc acc'"
  using assms unfolding collected_def by blast

lemma collectedD:
  assumes "collected rs names acc acc'"
  shows "set (snd acc) \<subseteq> set (snd acc')" "set names \<subseteq> set (snd acc')"
    and "\<And>v. v \<in> set (snd acc') - set (snd acc) \<Longrightarrow> \<exists>n \<in> set names. (parent_of rs)\<^sup>*\<^sup>* n v"
    and "\<And>v b. v \<in> set (snd acc') - set (snd acc) \<Longrightarrow> parent_of rs v b \<Longrightarrow> b \<in> set (snd acc')"
    and "set (fst acc') = set (fst acc) \<union> {p. \<exists>v \<in> set (snd acc') - set (snd acc). direct rs v p}"
  using assms unfolding collected_def by blast+

lemma collected_Nil: "collected rs [] acc acc"
  by (simp add: collected_def)

lemma collected_Cons:
  assumes "collected rs [n] acc acc1" "collected rs ns acc1 acc2"
  shows "collected rs (n # ns) acc acc2"
proof (rule collectedI)
  note a = collectedD [OF assms(1)] and b = collectedD [OF assms(2)]
  have new: "set (snd acc2) - set (snd acc) =
      (set (snd acc2) - set (snd acc1)) \<union> (set (snd acc1) - set (snd acc))"
    using a(1) b(1) by blast
  show "set (snd acc) \<union> set (n # ns) \<subseteq> set (snd acc2)" using a(1,2) b(1,2) by auto
  show "\<exists>m \<in> set (n # ns). (parent_of rs)\<^sup>*\<^sup>* m v" if "v \<in> set (snd acc2) - set (snd acc)" for v
    using that a(3) [of v] b(3) [of v] unfolding new by auto
  show "b \<in> set (snd acc2)" if "v \<in> set (snd acc2) - set (snd acc)" "parent_of rs v b" for v b
    using that a(4) [of v b] b(1) b(4) [of v b] unfolding new by blast
  show "set (fst acc2) = set (fst acc) \<union> {p. \<exists>v \<in> set (snd acc2) - set (snd acc). direct rs v p}"
    unfolding a(5) b(5) new by blast
qed

lemma collected_visited: "n \<in> set visited \<Longrightarrow> collected rs [n] (perms, visited) (perms, visited)"
  by (simp add: collected_def)

lemma collected_unknown:
  "store_get rs n = None \<Longrightarrow> collected rs [n] (perms, visited) (perms, n # visited)"
  by (auto simp: collected_def parent_of_def direct_def)

lemma collected_role:
  assumes "store_get rs n = Some r" "n \<notin> set visited"
    and "collected rs (inherits r) (perms @ permissions r, n # visited) acc'"
  shows "collected rs [n] (perms, visited) acc'"
proof -
  have sub: "insert n (set visited) \<subseteq> set (snd acc')" and parents: "set (inherits r) \<subseteq> set (snd acc')"
    using assms(3) by (auto simp: collected_def)
  have new: "set (snd acc') - set visited = insert n (set (snd acc') - insert n (set visited))"
    using sub assms(2) by auto
  have p: "parent_of rs n b \<longleftrightarrow> b \<in> set (inherits r)" for b using assms(1) by (simp add: parent_of_def)
  have d: "direct rs n q \<longleftrightarrow> q \<in> set (permissions r)" for q using assms(1) by (simp add: direct_def)
  have reach: "(parent_of rs)\<^sup>*\<^sup>* n v" if "b \<in> set (inherits r)" "(parent_of rs)\<^sup>*\<^sup>* b v" for b v
    using that p by (meson converse_rtranclp_into_rtranclp)
  note c = collectedD [OF assms(3), unfolded snd_conv fst_conv set_append list.set]
  show ?thesis
  proof (rule collectedI, unfold snd_conv fst_conv)
    show "set visited \<union> set [n] \<subseteq> set (snd acc')" using sub by auto
    show "\<exists>m \<in> set [n]. (parent_of rs)\<^sup>*\<^sup>* m v" if "v \<in> set (snd acc') - set visited" for v
      using that c(3) [of v] reach unfolding new by auto
    show "b \<in> set (snd acc')" if "v \<in> set (snd acc') - set visited" "parent_of rs v b" for v b
      using that c(4) [of v b] parents p unfolding new by blast
    show "set (fst acc') = set perms \<union> {q. \<exists>v \<in> set (snd acc') - set visited. direct rs v q}"
      unfolding c(5) new using d by blast
  qed
qed

lemma collect_collected: "collected rs names acc (collect_recursive rs names acc)"
proof (induction rs names acc rule: collect_recursive.induct)
  case (1 rs acc)
  then show ?case by (simp add: collected_Nil)
next
  case (2 rs name names perms visited)
  let ?acc = "if name \<in> set visited then (perms, visited)
    else (case store_get rs name of None \<Rightarrow> (perms, name # visited)
          | Some role \<Rightarrow> collect_recursive rs (inherits role) (perms @ permissions role, name # visited))"
  have "collected rs [name] (perms, visited) ?acc"
  proof (cases "name \<in> set visited")
    case True
    then show ?thesis by (simp add: collected_visited)
  next
    case False
    show ?thesis
    proof (cases "store_get rs name")
      case None
      with False show ?thesis by (simp add: collected_unknown)
    next
      case (Some r)
      from collected_role [OF Some False "2.IH"(1) [OF False Some]] False Some show ?thesis by simp
    qed
  qed
  from collected_Cons [OF this "2.IH"(2)] show ?case by simp
qed

lemma collect_permissions_iff:
  "p \<in> set (collect_permissions names rs) \<longleftrightarrow> (\<exists>n \<in> set names. \<exists>v. (parent_of rs)\<^sup>*\<^sup>* n v \<and> direct rs v p)"
proof -
  obtain perms vis where acc: "collect_recursive rs names ([], []) = (perms, vis)" by fastforce
  note c = collect_collected [of rs names "([], [])", unfolded acc collected_def, simplified]
  have closed: "v \<in> set vis" if "n \<in> set names" "(parent_of rs)\<^sup>*\<^sup>* n v" for n v
    using that(2,1) c by (induction rule: rtranclp_induct) auto
  have "p \<in> set perms \<longleftrightarrow> (\<exists>v \<in> set vis. direct rs v p)" using c by auto
  also have "\<dots> \<longleftrightarrow> (\<exists>n \<in> set names. \<exists>v. (parent_of rs)\<^sup>*\<^sup>* n v \<and> direct rs v p)"
    using c closed by blast
  finally show ?thesis by (simp add: collect_permissions_def acc)
qed

lemma has_permission_iff:
  "has_permission now user res act m \<longleftrightarrow>
     (\<exists>n \<in> set (get_user_roles user m). \<exists>v p. (parent_of (roles m))\<^sup>*\<^sup>* n v \<and> direct (roles m) v p
        \<and> grants p res act \<and> conditions_hold now p)"
  unfolding has_permission_def list_ex_iff Bex_def collect_permissions_iff by blast

text \<open>
  C19: The permission check is exact. A user may act on a resource exactly when some role assigned
  to the user, or inherited from one through any number of levels (cycles included), directly
  holds a permission that grants the action on the resource and whose time window, if any, is
  open; in particular the recursive collection always ends.
\<close>

theorem permission_check_exact:
  "has_permission now user res act m \<longleftrightarrow>
     (\<exists>n \<in> set (get_user_roles user m). \<exists>v p. (parent_of (roles m))\<^sup>*\<^sup>* n v \<and> direct (roles m) v p
        \<and> grants p res act \<and> conditions_hold now p)"
  by (rule has_permission_iff)

subsection \<open>System roles\<close>

inductive rbac_step :: "RbacManager \<Rightarrow> RbacManager \<Rightarrow> bool" where
  rb_add: "add_role r m = Inr m' \<Longrightarrow> rbac_step m m'"
| rb_update: "update_role r m = Inr m' \<Longrightarrow> rbac_step m m'"
| rb_delete: "delete_role name m = Inr m' \<Longrightarrow> rbac_step m m'"
| rb_assign: "assign_role user name m = Inr m' \<Longrightarrow> rbac_step m m'"
| rb_revoke: "rbac_step m (revoke_role user name m)"

definition system_roles_intact :: "datetime \<Rightarrow> RbacManager \<Rightarrow> bool" where
  "system_roles_intact t m =
     (\<forall>r \<in> {role_viewer t, role_trader t, role_platform_admin t}. store_get (roles m) (role_name r) = Some r)"

lemma add_all_fields [simp]:
  "role_name (add_all now ps r) = role_name r" "system_role (add_all now ps r) = system_role r"
  "inherits (add_all now ps r) = inherits r"
  unfolding add_all_def by (induction ps arbitrary: r) (auto simp: add_permission_def)

lemma default_role_fields [simp]:
  "role_name (role_viewer t) = ''viewer''" "role_name (role_trader t) = ''trader''"
  "role_name (role_platform_admin t) = ''platform_admin''" "role_name (role_risk_manager t) = ''risk_manager''"
  "system_role (role_viewer t)" "system_role (role_trader t)" "system_role (role_platform_admin t)"
  "inherits (role_viewer t) = []"
  by (simp_all add: role_viewer_def role_trader_def role_platform_admin_def role_risk_manager_def
      new_role_def as_system_role_def inherit_from_def)

lemma intact_start: "system_roles_intact t (new_rbac t)"
  by (simp add: system_roles_intact_def new_rbac_def default_roles_def store_simps)

lemma intact_step: "rbac_step m m' \<Longrightarrow> system_roles_intact t m \<Longrightarrow> system_roles_intact t m'"
  by (induction rule: rbac_step.induct)
    (auto simp: system_roles_intact_def add_role_def update_role_def delete_role_def assign_role_def
      revoke_role_def store_simps split: if_splits option.splits)

interpretation rb: machine "\<lambda>m. m = new_rbac t" rbac_step "system_roles_intact t" for t
  by unfold_locales (auto intro: intact_start intact_step)

lemma viewer_permissions: "p \<in> set (permissions (role_viewer t)) \<Longrightarrow> perm_action p = ActRead"
  by (auto simp: role_viewer_def add_all_def add_permission_def new_permission_def new_role_def
      as_system_role_def split: if_splits)

lemma viewer_only:
  assumes "system_roles_intact t m"
  shows "(parent_of (roles m))\<^sup>*\<^sup>* ''viewer'' v \<longleftrightarrow> v = ''viewer''"
    and "direct (roles m) ''viewer'' p \<Longrightarrow> perm_action p = ActRead"
proof -
  have get: "store_get (roles m) ''viewer'' = Some (role_viewer t)"
    using assms by (simp add: system_roles_intact_def)
  then have "\<not> parent_of (roles m) ''viewer'' b" for b by (simp add: parent_of_def)
  then show "(parent_of (roles m))\<^sup>*\<^sup>* ''viewer'' v \<longleftrightarrow> v = ''viewer''"
    by (auto elim: converse_rtranclpE)
  show "direct (roles m) ''viewer'' p \<Longrightarrow> perm_action p = ActRead"
    using get by (auto simp: direct_def viewer_permissions)
qed

text \<open>
  C20: A viewer stays read-only. Whatever roles are added, updated, deleted, assigned or revoked,
  a user whose roles are all \<open>viewer\<close> is granted no action but reading, on any resource: the
  system role cannot be changed and inherits nothing.
\<close>

theorem viewer_read_only:
  assumes "reach (\<lambda>m. m = new_rbac t) rbac_step m"
    and "set (get_user_roles user m) \<subseteq> {''viewer''}" "has_permission now user res act m"
  shows "act = ActRead"
proof -
  note intact = rb.inv_reach [OF assms(1)]
  from assms(3) obtain n v p where "n \<in> set (get_user_roles user m)"
    "(parent_of (roles m))\<^sup>*\<^sup>* n v" "direct (roles m) v p" "grants p res act"
    unfolding has_permission_iff by (elim bexE exE conjE)
  moreover from this(1) assms(2) have "n = ''viewer''" by (simp only: subset_iff singleton_iff)
  ultimately have "direct (roles m) ''viewer'' p" using viewer_only(1) [OF intact] by (simp only:)
  then have "perm_action p = ActRead" by (rule viewer_only(2) [OF intact])
  with \<open>grants p res act\<close> show ?thesis by (auto simp: grants_def action_includes_def)
qed

theorem viewer_read_only_witness:
  "\<exists>m. assign_role ''u'' ''viewer'' (new_rbac 0) = Inr m
     \<and> has_permission 5 ''u'' ResOrder ActRead m \<and> \<not> has_permission 5 ''u'' ResOrder ActExecute m"
proof -
  let ?m = "(new_rbac 0)\<lparr>user_roles := [(''u'', [''viewer''])]\<rparr>"
  have get: "store_get (roles (new_rbac 0)) ''viewer'' = Some (role_viewer 0)"
    using intact_start [of 0] by (simp add: system_roles_intact_def)
  have as: "assign_role ''u'' ''viewer'' (new_rbac 0) = Inr ?m"
  proof -
    have "user_roles (new_rbac 0) = []" by (simp only: new_rbac_def RbacManager.simps)
    then show ?thesis using get by (simp add: assign_role_def get_user_roles_def store_insert_def)
  qed
  have r: "reach (\<lambda>m. m = new_rbac 0) rbac_step ?m"
    by (rule reach_step, rule reach_start, rule refl, rule rb_assign, rule as)
  have roles: "get_user_roles ''u'' ?m = [''viewer'']" by (simp add: get_user_roles_def)
  have "new_permission ResOrder ActRead \<in> set (permissions (role_viewer 0))"
    by (simp add: role_viewer_def add_all_def add_permission_def new_permission_def new_role_def as_system_role_def)
  then have "direct (roles ?m) ''viewer'' (new_permission ResOrder ActRead)"
    using get by (simp add: direct_def)
  then have "has_permission 5 ''u'' ResOrder ActRead ?m"
    unfolding has_permission_iff roles
    by (intro bexI [of _ "''viewer''"] exI [of _ "''viewer''"] exI [of _ "new_permission ResOrder ActRead"])
      (auto simp: grants_def new_permission_def resource_matches_def action_includes_def conditions_hold_def)
  moreover have "\<not> has_permission 5 ''u'' ResOrder ActExecute ?m"
    using viewer_read_only [OF r, of "''u''" 5 ResOrder ActExecute] roles by auto
  ultimately show ?thesis using as by blast
qed

subsection \<open>Conditions that are not enforced\<close>

definition drop_extra :: "Permission \<Rightarrow> Permission" where
  "drop_extra p = p\<lparr>perm_conditions := map_option
     (\<lambda>c. c\<lparr>ip_whitelist := None, max_amount_cents := None, require_mfa := None\<rparr>) (perm_conditions p)\<rparr>"

definition relax :: "RbacManager \<Rightarrow> RbacManager" where
  "relax m = m\<lparr>roles := map (\<lambda>(k, r). (k, r\<lparr>permissions := map drop_extra (permissions r)\<rparr>)) (roles m)\<rparr>"

lemma relax_get:
  "store_get (roles (relax m)) k = map_option (\<lambda>r. r\<lparr>permissions := map drop_extra (permissions r)\<rparr>) (store_get (roles m) k)"
  by (simp add: relax_def store_get_map)

lemma relax_parent: "parent_of (roles (relax m)) = parent_of (roles m)"
  by (auto simp: parent_of_def relax_get fun_eq_iff)

lemma relax_direct: "direct (roles (relax m)) v p \<longleftrightarrow> (\<exists>q. direct (roles m) v q \<and> p = drop_extra q)"
  by (auto simp: direct_def relax_get)

lemma drop_extra_same [simp]:
  "grants (drop_extra q) res act = grants q res act" "conditions_hold now (drop_extra q) = conditions_hold now q"
  by (auto simp: drop_extra_def grants_def conditions_hold_def split: option.split)

text \<open>
  Only the time window of a permission is enforced. Dropping the IP whitelist, the maximum
  amount and the MFA requirement from every permission of every role changes no answer of
  \<open>has_permission\<close>.
\<close>

theorem extra_conditions_ignored:
  "has_permission now user res act (relax m) = has_permission now user res act m"
proof -
  have "get_user_roles user (relax m) = get_user_roles user m"
    by (simp add: get_user_roles_def relax_def)
  moreover have pq: "(\<exists>p. direct (roles (relax m)) v p \<and> grants p res act \<and> conditions_hold now p) \<longleftrightarrow>
      (\<exists>q. direct (roles m) v q \<and> grants q res act \<and> conditions_hold now q)" for v
    by (auto simp: relax_direct)
  ultimately show ?thesis by (simp add: has_permission_iff relax_parent pq)
qed

end
