(* ===== verification/Book_Feed.thy ===== *)
theory Book_Feed
  imports Market
begin

section \<open>The order book feed\<close>

text \<open>
  Model of the WebSocket part of \<open>crates/polymarket-core/src/api/clob.rs\<close>: decoding a text frame,
  maintaining one order book per asset from snapshots and price changes, the loop that serves
  one connection and the runtime statistics it keeps.

  JSON and Decimal parsing are crates outside the repository, so they are a parameter \<open>V\<close>:
  \<open>json_from_str\<close> classifies a text (array, object, other value, or no JSON), \<open>book_from_value\<close>
  and \<open>event_from_value\<close> are the derived deserializers, \<open>ws_dec_parse\<close>, \<open>from_millis\<close> and
  \<open>dt_parse\<close> parse Decimals and timestamps. The state of a connection is the record \<open>feed\<close>; what
  \<open>tokio::select!\<close> may deliver is the datatype \<open>ws_event\<close>, and \<open>ws_step\<close> is one turn of the loop.
\<close>

subsection \<open>Data\<close>

datatype WsParseKind =
    ControlPing | ControlPong | InvalidOperation | InvalidJson | Snapshot | PriceChange
  | EmptyPriceChange | UnsupportedArray | UnsupportedObject | UnsupportedValue

record OrderBookUpdate =
  ou_market_id :: string
  ou_asset_id :: string
  ou_timestamp :: datetime
  ou_bids :: "PriceLevel list"
  ou_asks :: "PriceLevel list"

record ClobPriceLevel =
  cl_price :: string
  cl_size :: string

record ClobOrderBook =
  cob_market :: string
  cob_asset_id :: string
  cob_bids :: "ClobPriceLevel list"
  cob_asks :: "ClobPriceLevel list"
  cob_timestamp :: string

record WsBook =
  wb_market :: string
  wb_asset_id :: string
  wb_bids :: "ClobPriceLevel list"
  wb_asks :: "ClobPriceLevel list"
  wb_timestamp :: string

record WsPriceChange =
  pc_asset_id :: string
  pc_price :: string
  pc_size :: string
  pc_side :: string

record WsPriceChangeEvent =
  ev_market :: string
  price_changes :: "WsPriceChange list"
  ev_timestamp :: "string option"

record ParsedWsMessage =
  pw_updates :: "OrderBookUpdate list"
  pw_kind :: WsParseKind

record WebSocketRuntimeStatsSnapshot =
  subscribed_assets :: nat
  subscriptions_started_total :: u64
  text_messages_received_total :: u64
  orderbook_updates_emitted_total :: u64
  parse_misses_total :: u64
  snapshot_messages_total :: u64
  price_change_messages_total :: u64
  invalid_operation_messages_total :: u64
  ping_messages_received_total :: u64
  pong_messages_received_total :: u64
  last_message_at :: "datetime option"
  last_orderbook_update_at :: "datetime option"
  last_parse_miss_at :: "datetime option"
  last_parse_miss_kind :: "string option"
  last_message_kind :: "string option"

datatype 'j json_shape = JArray "'j list" | JObject 'j | JOther

record 'j ws_env =
  json_from_str :: "string \<Rightarrow> 'j json_shape option"
  book_from_value :: "'j \<Rightarrow> WsBook option"
  event_from_value :: "'j \<Rightarrow> WsPriceChangeEvent option"
  ws_dec_parse :: "string \<Rightarrow> decimal option"
  from_millis :: "int \<Rightarrow> datetime option"
  dt_parse :: "string \<Rightarrow> datetime option"

type_synonym books = "(string, OrderBook) store"

subsection \<open>Decoding\<close>

fun ws_kind_str :: "WsParseKind \<Rightarrow> string" where
  "ws_kind_str ControlPing = ''control_ping''"
| "ws_kind_str ControlPong = ''control_pong''"
| "ws_kind_str InvalidOperation = ''invalid_operation''"
| "ws_kind_str InvalidJson = ''invalid_json''"
| "ws_kind_str Snapshot = ''snapshot''"
| "ws_kind_str PriceChange = ''price_change''"
| "ws_kind_str EmptyPriceChange = ''empty_price_change''"
| "ws_kind_str UnsupportedArray = ''unsupported_array''"
| "ws_kind_str UnsupportedObject = ''unsupported_object''"
| "ws_kind_str UnsupportedValue = ''unsupported_value''"

definition is_parse_miss :: "WsParseKind \<Rightarrow> bool" where
  "is_parse_miss k = (k \<in> {InvalidOperation, InvalidJson, EmptyPriceChange, UnsupportedArray,
     UnsupportedObject, UnsupportedValue})"

text \<open>\<open>str::parse::<i64>\<close>: an optional sign and digits, within the range of the type.\<close>

fun digits_value :: "nat \<Rightarrow> string \<Rightarrow> nat option" where
  "digits_value acc [] = Some acc"
| "digits_value acc (c # cs) =
     (if 48 \<le> (of_char c :: nat) \<and> (of_char c :: nat) \<le> 57
      then digits_value (10 * acc + (of_char c - 48)) cs else None)"

definition parse_i64 :: "string \<Rightarrow> int option" where
  "parse_i64 s =
     (let negative = (case s of c # _ \<Rightarrow> c = CHR ''-'' | [] \<Rightarrow> False);
          ds = (case s of c # cs \<Rightarrow> (if c = CHR ''-'' \<or> c = CHR ''+'' then cs else s) | [] \<Rightarrow> [])
      in if ds = [] then None
         else case digits_value 0 ds of
                None \<Rightarrow> None
              | Some n \<Rightarrow>
                  let v = (if negative then - int n else int n)
                  in if - (2 ^ 63) \<le> v \<and> v < 2 ^ 63 then Some v else None)"

definition parse_ws_timestamp :: "'j ws_env \<Rightarrow> datetime \<Rightarrow> string \<Rightarrow> datetime" where
  "parse_ws_timestamp V now raw =
     (case Option.bind (parse_i64 raw) (from_millis V) of
        Some ts \<Rightarrow> ts
      | None \<Rightarrow> (case dt_parse V raw of Some ts \<Rightarrow> ts | None \<Rightarrow> now))"

definition parse_level :: "'j ws_env \<Rightarrow> ClobPriceLevel \<Rightarrow> PriceLevel" where
  "parse_level V l =
     \<lparr>pl_price = (case ws_dec_parse V (cl_price l) of Some d \<Rightarrow> d | None \<Rightarrow> 0),
      pl_size = (case ws_dec_parse V (cl_size l) of Some d \<Rightarrow> d | None \<Rightarrow> 0)\<rparr>"

definition orderbook_from_clob :: "'j ws_env \<Rightarrow> datetime \<Rightarrow> ClobOrderBook \<Rightarrow> OrderBook" where
  "orderbook_from_clob V now b =
     \<lparr>ob_market_id = cob_market b, ob_outcome_id = cob_asset_id b,
      ob_timestamp = (case dt_parse V (cob_timestamp b) of Some ts \<Rightarrow> ts | None \<Rightarrow> now),
      bids = map (parse_level V) (cob_bids b), asks = map (parse_level V) (cob_asks b)\<rparr>"

definition parse_ws_book_from_value :: "'j ws_env \<Rightarrow> datetime \<Rightarrow> 'j \<Rightarrow> OrderBookUpdate option" where
  "parse_ws_book_from_value V now j =
     map_option (\<lambda>b. \<lparr>ou_market_id = wb_market b, ou_asset_id = wb_asset_id b,
        ou_timestamp = parse_ws_timestamp V now (wb_timestamp b),
        ou_bids = map (parse_level V) (wb_bids b), ou_asks = map (parse_level V) (wb_asks b)\<rparr>)
       (book_from_value V j)"

subsection \<open>Book maintenance\<close>

definition update_to_orderbook :: "OrderBookUpdate \<Rightarrow> OrderBook" where
  "update_to_orderbook u = \<lparr>ob_market_id = ou_market_id u, ob_outcome_id = ou_asset_id u,
     ob_timestamp = ou_timestamp u, bids = ou_bids u, asks = ou_asks u\<rparr>"

fun position_of :: "('a \<Rightarrow> bool) \<Rightarrow> 'a list \<Rightarrow> nat option" where
  "position_of P [] = None"
| "position_of P (x # xs) = (if P x then Some 0 else map_option Suc (position_of P xs))"

text \<open>\<open>sort_by\<close> is a stable sort, and so is \<open>sort_key\<close>.\<close>

definition upsert_level ::
  "PriceLevel list \<Rightarrow> decimal \<Rightarrow> decimal \<Rightarrow> bool \<Rightarrow> PriceLevel list" where
  "upsert_level levels price sz descending =
     (let levels' =
        (case position_of (\<lambda>l. pl_price l = price) levels of
           Some idx \<Rightarrow>
             if sz \<le> 0 then take idx levels @ drop (Suc idx) levels
             else levels[idx := (levels ! idx)\<lparr>pl_size := sz\<rparr>]
         | None \<Rightarrow> if 0 < sz then levels @ [\<lparr>pl_price = price, pl_size = sz\<rparr>] else levels)
      in if descending then sort_key (\<lambda>l. - pl_price l) levels' else sort_key pl_price levels')"

definition change_update :: "OrderBook \<Rightarrow> OrderBookUpdate" where
  "change_update b = \<lparr>ou_market_id = ob_market_id b, ou_asset_id = ob_outcome_id b,
     ou_timestamp = ob_timestamp b, ou_bids = bids b, ou_asks = asks b\<rparr>"

text \<open>One turn of the loop over the price changes: the update it pushes, if any, and the books.\<close>

definition apply_price_change ::
  "'j ws_env \<Rightarrow> string \<Rightarrow> datetime \<Rightarrow> WsPriceChange \<Rightarrow> books \<Rightarrow> OrderBookUpdate option \<times> books" where
  "apply_price_change V market ts ch st =
     (case ws_dec_parse V (pc_price ch) of
        None \<Rightarrow> (None, st)
      | Some price \<Rightarrow> (case ws_dec_parse V (pc_size ch) of
          None \<Rightarrow> (None, st)
        | Some sz \<Rightarrow>
            let found = (case store_get st (pc_asset_id ch) of
                           Some b \<Rightarrow> b
                         | None \<Rightarrow> \<lparr>ob_market_id = market, ob_outcome_id = pc_asset_id ch,
                                    ob_timestamp = ts, bids = [], asks = []\<rparr>);
                st1 = store_remove (pc_asset_id ch) st;
                book = found\<lparr>ob_market_id := market, ob_timestamp := ts\<rparr>
            in if eq_ignore_ascii_case (pc_side ch) ''BUY'' then
                 let b = book\<lparr>bids := upsert_level (bids book) price sz True\<rparr>
                 in (Some (change_update b), store_insert (pc_asset_id ch) b st1)
               else if eq_ignore_ascii_case (pc_side ch) ''SELL'' then
                 let b = book\<lparr>asks := upsert_level (asks book) price sz False\<rparr>
                 in (Some (change_update b), store_insert (pc_asset_id ch) b st1)
               else (None, store_insert (pc_asset_id ch) book st1)))"

fun apply_changes ::
  "'j ws_env \<Rightarrow> string \<Rightarrow> datetime \<Rightarrow> WsPriceChange list \<Rightarrow> books \<Rightarrow> OrderBookUpdate list \<times> books" where
  "apply_changes V market ts [] st = ([], st)"
| "apply_changes V market ts (ch # chs) st =
     (let (u, st1) = apply_price_change V market ts ch st;
          (us, st2) = apply_changes V market ts chs st1
      in (case u of Some x \<Rightarrow> x # us | None \<Rightarrow> us, st2))"

definition apply_price_changes ::
  "'j ws_env \<Rightarrow> datetime \<Rightarrow> WsPriceChangeEvent \<Rightarrow> books \<Rightarrow> OrderBookUpdate list \<times> books" where
  "apply_price_changes V now ev st =
     apply_changes V (ev_market ev)
       (case ev_timestamp ev of Some raw \<Rightarrow> parse_ws_timestamp V now raw | None \<Rightarrow> now)
       (price_changes ev) st"

definition insert_snapshot :: "OrderBookUpdate \<Rightarrow> books \<Rightarrow> books" where
  "insert_snapshot u st = store_insert (ou_asset_id u) (update_to_orderbook u) st"

text \<open>The \<open>i\<close>-th element of an array reads the clock \<open>clk i\<close> when its timestamp does not parse.\<close>

definition parse_ws_message ::
  "'j ws_env \<Rightarrow> (nat \<Rightarrow> datetime) \<Rightarrow> string \<Rightarrow> books \<Rightarrow> ParsedWsMessage \<times> books" where
  "parse_ws_message V clk msg st =
     (let trimmed = trim msg
      in if eq_ignore_ascii_case trimmed ''PONG'' \<or> eq_ignore_ascii_case trimmed ''PING'' then
           (\<lparr>pw_updates = [], pw_kind = (if eq_ignore_ascii_case trimmed ''PING'' then ControlPing
                                       else ControlPong)\<rparr>, st)
         else if eq_ignore_ascii_case trimmed ''INVALID OPERATION'' then
           (\<lparr>pw_updates = [], pw_kind = InvalidOperation\<rparr>, st)
         else case json_from_str V trimmed of
           None \<Rightarrow> (\<lparr>pw_updates = [], pw_kind = InvalidJson\<rparr>, st)
         | Some (JArray items) \<Rightarrow>
             let updates = List.map_filter (\<lambda>(i, j). parse_ws_book_from_value V (clk i) j)
                             (enumerate 0 items)
             in (\<lparr>pw_updates = updates,
                  pw_kind = (if updates = [] then UnsupportedArray else Snapshot)\<rparr>,
                 fold insert_snapshot updates st)
         | Some (JObject j) \<Rightarrow>
             (case parse_ws_book_from_value V (clk 0) j of
                Some u \<Rightarrow> (\<lparr>pw_updates = [u], pw_kind = Snapshot\<rparr>, insert_snapshot u st)
              | None \<Rightarrow>
                  (case event_from_value V j of
                     Some ev \<Rightarrow>
                       let (updates, st') = apply_price_changes V (clk 0) ev st
                       in (\<lparr>pw_updates = updates,
                            pw_kind = (if updates = [] then EmptyPriceChange else PriceChange)\<rparr>, st')
                   | None \<Rightarrow> (\<lparr>pw_updates = [], pw_kind = UnsupportedObject\<rparr>, st)))
         | Some JOther \<Rightarrow> (\<lparr>pw_updates = [], pw_kind = UnsupportedValue\<rparr>, st))"

subsection \<open>One connection\<close>

text \<open>The statistics of a text frame, as the closure in \<open>ws_loop\<close> updates them.\<close>

definition count_kind :: "WsParseKind \<Rightarrow> WebSocketRuntimeStatsSnapshot \<Rightarrow> WebSocketRuntimeStatsSnapshot" where
  "count_kind k st =
     (case k of
        Snapshot \<Rightarrow> st\<lparr>snapshot_messages_total := saturating_inc (snapshot_messages_total st)\<rparr>
      | PriceChange \<Rightarrow> st\<lparr>price_change_messages_total := saturating_inc (price_change_messages_total st)\<rparr>
      | InvalidOperation \<Rightarrow>
          st\<lparr>invalid_operation_messages_total := saturating_inc (invalid_operation_messages_total st)\<rparr>
      | ControlPing \<Rightarrow> st\<lparr>ping_messages_received_total := saturating_inc (ping_messages_received_total st)\<rparr>
      | ControlPong \<Rightarrow> st\<lparr>pong_messages_received_total := saturating_inc (pong_messages_received_total st)\<rparr>
      | _ \<Rightarrow> st)"

definition count_text ::
  "datetime \<Rightarrow> ParsedWsMessage \<Rightarrow> WebSocketRuntimeStatsSnapshot \<Rightarrow> WebSocketRuntimeStatsSnapshot" where
  "count_text now parsed st =
     (let k = pw_kind parsed;
          s1 = st\<lparr>text_messages_received_total := saturating_inc (text_messages_received_total st),
                  last_message_at := Some now, last_message_kind := Some (ws_kind_str k)\<rparr>;
          s2 = count_kind k s1;
          s3 = (if is_parse_miss k
                then s2\<lparr>parse_misses_total := saturating_inc (parse_misses_total s2),
                        last_parse_miss_at := Some now, last_parse_miss_kind := Some (ws_kind_str k)\<rparr>
                else s2)
      in if pw_updates parsed \<noteq> []
         then s3\<lparr>orderbook_updates_emitted_total :=
                   saturating_add (orderbook_updates_emitted_total s3) (length (pw_updates parsed)),
                 last_orderbook_update_at := Some now\<rparr>
         else s3)"

definition count_subscription ::
  "nat \<Rightarrow> WebSocketRuntimeStatsSnapshot \<Rightarrow> WebSocketRuntimeStatsSnapshot" where
  "count_subscription n st = st\<lparr>subscribed_assets := n,
     subscriptions_started_total := saturating_inc (subscriptions_started_total st),
     last_message_kind := Some ''subscription_started''\<rparr>"

text \<open>
  What one turn of \<open>tokio::select!\<close> may see. A write carries whether it succeeded, a text frame
  the clocks it reads and the number of updates after which the receiver is gone, if it is.
\<close>

datatype ws_event =
    PingTick bool
  | ReadDeadline
  | StreamEnded
  | TextFrame "nat \<Rightarrow> datetime" datetime string "nat option"
  | PingFrame datetime bool
  | PongFrame datetime
  | CloseFrame datetime
  | ReceiveError
  | OtherFrame

datatype ws_end = ClosedOk | Failed

record feed =
  fd_books :: books
  fd_stats :: WebSocketRuntimeStatsSnapshot
  fd_sent :: "OrderBookUpdate list"

text \<open>Sending stops at the first update that finds the receiver dropped.\<close>

definition send_updates ::
  "OrderBookUpdate list \<Rightarrow> nat option \<Rightarrow> feed \<Rightarrow> feed \<times> ws_end option" where
  "send_updates us gone fd =
     (case gone of
        Some k \<Rightarrow>
          if k < length us then (fd\<lparr>fd_sent := fd_sent fd @ take k us\<rparr>, Some ClosedOk)
          else (fd\<lparr>fd_sent := fd_sent fd @ us\<rparr>, None)
      | None \<Rightarrow> (fd\<lparr>fd_sent := fd_sent fd @ us\<rparr>, None))"

fun ws_step :: "'j ws_env \<Rightarrow> ws_event \<Rightarrow> feed \<Rightarrow> feed \<times> ws_end option" where
  "ws_step V (PingTick ok) fd = (fd, if ok then None else Some Failed)"
| "ws_step V ReadDeadline fd = (fd, Some Failed)"
| "ws_step V StreamEnded fd = (fd, Some ClosedOk)"
| "ws_step V (TextFrame clk now msg gone) fd =
     (let (parsed, books') = parse_ws_message V clk msg (fd_books fd)
      in send_updates (pw_updates parsed) gone
           (fd\<lparr>fd_books := books', fd_stats := count_text now parsed (fd_stats fd)\<rparr>))"
| "ws_step V (PingFrame now ok) fd =
     (fd\<lparr>fd_stats := (fd_stats fd)\<lparr>
          ping_messages_received_total := saturating_inc (ping_messages_received_total (fd_stats fd)),
          last_message_at := Some now, last_message_kind := Some ''ping_frame''\<rparr>\<rparr>,
      if ok then None else Some Failed)"
| "ws_step V (PongFrame now) fd =
     (fd\<lparr>fd_stats := (fd_stats fd)\<lparr>
          pong_messages_received_total := saturating_inc (pong_messages_received_total (fd_stats fd)),
          last_message_at := Some now, last_message_kind := Some ''pong_frame''\<rparr>\<rparr>, None)"
| "ws_step V (CloseFrame now) fd =
     (fd\<lparr>fd_stats := (fd_stats fd)\<lparr>last_message_at := Some now,
          last_message_kind := Some ''close_frame''\<rparr>\<rparr>, Some ClosedOk)"
| "ws_step V ReceiveError fd = (fd, Some Failed)"
| "ws_step V OtherFrame fd = (fd, None)"

text \<open>
  A connection: refused without assets, otherwise it connects, subscribes with an empty set of
  books, and serves events until one ends it. \<open>conn_ok\<close> tells whether connecting and
  subscribing succeeded.
\<close>

fun ws_serve :: "'j ws_env \<Rightarrow> ws_event list \<Rightarrow> feed \<Rightarrow> feed \<times> ws_end option" where
  "ws_serve V [] fd = (fd, None)"
| "ws_serve V (ev # evs) fd =
     (case ws_step V ev fd of
        (fd', Some r) \<Rightarrow> (fd', Some r)
      | (fd', None) \<Rightarrow> ws_serve V evs fd')"

definition ws_loop ::
  "'j ws_env \<Rightarrow> string list \<Rightarrow> bool \<Rightarrow> ws_event list \<Rightarrow> feed \<Rightarrow> feed \<times> ws_end option" where
  "ws_loop V assets conn_ok evs fd =
     (if assets = [] then (fd, Some Failed)
      else if \<not> conn_ok then (fd, Some Failed)
      else ws_serve V evs
             (fd\<lparr>fd_books := [], fd_stats := count_subscription (length assets) (fd_stats fd)\<rparr>))"

text \<open>The delay before the next connection, after \<open>attempt\<close> earlier ones; \<open>attempt\<close> is never reset.\<close>

definition reconnect_delay_secs :: "u32 \<Rightarrow> nat" where
  "reconnect_delay_secs attempt = min (min (1 * min (2 ^ unat attempt) (2 ^ 64 - 1)) (2 ^ 64 - 1)) 60"

fun reconnect_delays :: "u32 \<Rightarrow> nat \<Rightarrow> nat list" where
  "reconnect_delays attempt 0 = []"
| "reconnect_delays attempt (Suc n) =
     reconnect_delay_secs attempt # reconnect_delays (if attempt = - 1 then attempt else attempt + 1) n"

subsection \<open>Levels as a price map\<close>

text \<open>What a list of levels means: the size at each price.\<close>

definition level_map :: "PriceLevel list \<Rightarrow> decimal \<rightharpoonup> decimal" where
  "level_map ls = map_of (map (\<lambda>l. (pl_price l, pl_size l)) ls)"

definition levels_distinct :: "PriceLevel list \<Rightarrow> bool" where
  "levels_distinct ls = distinct (map pl_price ls)"

definition side_key :: "bool \<Rightarrow> PriceLevel \<Rightarrow> decimal" where
  "side_key descending l = (if descending then - pl_price l else pl_price l)"

lemma upsert_level_eq:
  "upsert_level ls p s d = sort_key (side_key d)
     (case position_of (\<lambda>l. pl_price l = p) ls of
        Some i \<Rightarrow> if s \<le> 0 then take i ls @ drop (Suc i) ls else ls[i := (ls ! i)\<lparr>pl_size := s\<rparr>]
      | None \<Rightarrow> if 0 < s then ls @ [\<lparr>pl_price = p, pl_size = s\<rparr>] else ls)"
  by (simp add: upsert_level_def side_key_def [abs_def] Let_def)

lemma position_of_None: "position_of P xs = None \<longleftrightarrow> (\<forall>x \<in> set xs. \<not> P x)"
  by (induction xs) auto

lemma position_of_Some:
  "position_of P xs = Some i \<Longrightarrow> \<exists>us y vs. xs = us @ y # vs \<and> length us = i \<and> P y"
proof (induction xs arbitrary: i)
  case (Cons x xs)
  show ?case
  proof (cases "P x")
    case True
    with Cons.prems show ?thesis by (intro exI [of _ "[]"]) auto
  next
    case False
    with Cons.prems obtain j where "position_of P xs = Some j" "i = Suc j" by auto
    with Cons.IH obtain us y vs where "xs = us @ y # vs" "length us = j" "P y" by blast
    with \<open>i = Suc j\<close> show ?thesis by (intro exI [of _ "x # us"]) auto
  qed
qed simp

lemma level_map_perm:
  assumes "levels_distinct ls" "set ls' = set ls" "distinct (map pl_price ls')"
  shows "level_map ls' = level_map ls"
  unfolding level_map_def
  using assms by (intro map_of_inject_set [THEN iffD2]) (auto simp: levels_distinct_def comp_def)

lemma distinct_sort_map: "distinct (map f (sort_key g xs)) = distinct (map f xs)"
  by (simp add: distinct_map)

lemma level_map_sort:
  "levels_distinct ls \<Longrightarrow> level_map (sort_key g ls) = level_map ls"
  by (rule level_map_perm) (auto simp: levels_distinct_def distinct_sort_map)


lemma level_map_simps [simp]:
  "level_map [] = Map.empty"
  "level_map (l # ls) = (level_map ls)(pl_price l \<mapsto> pl_size l)"
  by (simp_all add: level_map_def)

lemma level_map_app: "level_map (us @ vs) = level_map vs ++ level_map us"
  by (simp add: level_map_def)

lemma level_map_notin: "p \<notin> pl_price ` set ls \<Longrightarrow> level_map ls p = None"
  by (induction ls) auto

text \<open>One change of a side is one update of its price map.\<close>

lemma upsert_level_refines:
  assumes "levels_distinct ls"
  shows "level_map (upsert_level ls p s d) = (level_map ls)(p := if s \<le> 0 then None else Some s)"
    and "levels_distinct (upsert_level ls p s d)"
proof -
  define ls' where "ls' = (case position_of (\<lambda>l. pl_price l = p) ls of
        Some i \<Rightarrow> if s \<le> 0 then take i ls @ drop (Suc i) ls else ls[i := (ls ! i)\<lparr>pl_size := s\<rparr>]
      | None \<Rightarrow> if 0 < s then ls @ [\<lparr>pl_price = p, pl_size = s\<rparr>] else ls)"
  have main: "levels_distinct ls' \<and> level_map ls' = (level_map ls)(p := if s \<le> 0 then None else Some s)"
  proof (cases "position_of (\<lambda>l. pl_price l = p) ls")
    case None
    then have p: "p \<notin> pl_price ` set ls" by (auto simp: position_of_None)
    then show ?thesis
      using assms None
      by (auto simp: ls'_def levels_distinct_def level_map_app level_map_notin map_add_def fun_eq_iff
          split: option.splits)
  next
    case (Some i)
    then obtain us y vs where ls: "ls = us @ y # vs" "length us = i" "pl_price y = p"
      by (blast dest: position_of_Some)
    from assms have notin: "p \<notin> pl_price ` set us" "p \<notin> pl_price ` set vs"
      by (auto simp: ls levels_distinct_def)
    have "ls' = (if s \<le> 0 then us @ vs else us @ y\<lparr>pl_size := s\<rparr> # vs)"
      using Some by (simp add: ls'_def ls(1) ls(2) [symmetric])
    then show ?thesis
      using assms notin
      by (auto simp: ls(1,3) levels_distinct_def level_map_app level_map_notin map_add_def fun_eq_iff
          split: option.splits)
  qed
  have eq: "upsert_level ls p s d = sort_key (side_key d) ls'"
    by (simp add: upsert_level_eq ls'_def)
  show "level_map (upsert_level ls p s d) = (level_map ls)(p := if s \<le> 0 then None else Some s)"
    using main by (simp add: eq level_map_sort)
  show "levels_distinct (upsert_level ls p s d)"
    using main by (simp add: eq levels_distinct_def distinct_sort_map)
qed

subsection \<open>Price changes refine map updates\<close>

text \<open>
  The abstract state of the feed: for each asset and side (\<open>True\<close> for bids) a price map. A price
  change whose price, size and side can be read sets or clears one entry; any other is skipped.
\<close>

type_synonym price_maps = "string \<Rightarrow> bool \<Rightarrow> decimal \<rightharpoonup> decimal"

definition book_side :: "bool \<Rightarrow> OrderBook \<Rightarrow> PriceLevel list" where
  "book_side d b = (if d then bids b else asks b)"

definition asset_levels :: "books \<Rightarrow> string \<Rightarrow> bool \<Rightarrow> PriceLevel list" where
  "asset_levels st a d = (case store_get st a of None \<Rightarrow> [] | Some b \<Rightarrow> book_side d b)"

definition books_abs :: "books \<Rightarrow> price_maps" where
  "books_abs st a d = level_map (asset_levels st a d)"

definition change_side :: "WsPriceChange \<Rightarrow> bool option" where
  "change_side ch = (if eq_ignore_ascii_case (pc_side ch) ''BUY'' then Some True
     else if eq_ignore_ascii_case (pc_side ch) ''SELL'' then Some False else None)"

definition spec_change :: "'j ws_env \<Rightarrow> WsPriceChange \<Rightarrow> price_maps \<Rightarrow> price_maps" where
  "spec_change V ch M =
     (case (ws_dec_parse V (pc_price ch), ws_dec_parse V (pc_size ch), change_side ch) of
        (Some p, Some s, Some d) \<Rightarrow>
          M(pc_asset_id ch := (M (pc_asset_id ch))
              (d := (M (pc_asset_id ch) d)(p := if s \<le> 0 then None else Some s)))
      | _ \<Rightarrow> M)"

definition books_distinct :: "books \<Rightarrow> bool" where
  "books_distinct st = (\<forall>a d. levels_distinct (asset_levels st a d))"

text \<open>The levels after one change: the changed side is upserted, everything else is kept.\<close>

lemma apply_price_change_levels:
  assumes "apply_price_change V market ts ch st = (u, st')"
  shows "asset_levels st' a d =
    (case (ws_dec_parse V (pc_price ch), ws_dec_parse V (pc_size ch), change_side ch) of
       (Some p, Some s, Some d') \<Rightarrow>
         if a = pc_asset_id ch \<and> d = d' then upsert_level (asset_levels st a d) p s d
         else asset_levels st a d
     | _ \<Rightarrow> asset_levels st a d)"
  using assms
  by (auto simp: apply_price_change_def change_side_def asset_levels_def book_side_def Let_def
      store_simps split: option.splits if_splits)

lemma levels_distinct_Nil [simp]: "levels_distinct []"
  by (simp add: levels_distinct_def)

lemma apply_price_change_refines:
  assumes "apply_price_change V market ts ch st = (u, st')" "books_distinct st"
  shows "books_abs st' = spec_change V ch (books_abs st)" "books_distinct st'"
proof -
  note lv = apply_price_change_levels [OF assms(1)]
  note dist = assms(2) [unfolded books_distinct_def, rule_format]
  show "books_abs st' = spec_change V ch (books_abs st)"
    by (intro ext) (auto simp: books_abs_def lv spec_change_def upsert_level_refines(1) [OF dist]
        split: option.splits)
  show "books_distinct st'"
    by (auto simp: books_distinct_def lv upsert_level_refines(2) [OF dist] dist split: option.splits)
qed

lemma apply_changes_refines:
  "apply_changes V market ts chs st = (us, st') \<Longrightarrow> books_distinct st
     \<Longrightarrow> books_abs st' = fold (spec_change V) chs (books_abs st) \<and> books_distinct st'"
proof (induction chs arbitrary: st us st')
  case (Cons ch chs)
  obtain u st1 where 1: "apply_price_change V market ts ch st = (u, st1)" by fastforce
  obtain us1 st2 where 2: "apply_changes V market ts chs st1 = (us1, st2)" by fastforce
  from Cons.prems(1) 1 2 have "st' = st2" by simp
  with Cons.IH [OF 2] apply_price_change_refines [OF 1 Cons.prems(2)] show ?case by simp
qed simp

subsection \<open>The consumer's view\<close>

text \<open>
  What a consumer knows of an asset: the levels of the last update it received for it, and
  nothing before the first.
\<close>

definition consumer_levels :: "OrderBookUpdate list \<Rightarrow> string \<Rightarrow> bool \<Rightarrow> PriceLevel list" where
  "consumer_levels us a d =
     fold (\<lambda>u ls. if ou_asset_id u = a then (if d then ou_bids u else ou_asks u) else ls) us []"

definition keys_match :: "books \<Rightarrow> bool" where
  "keys_match st = (\<forall>a b. store_get st a = Some b \<longrightarrow> ob_outcome_id b = a)"

definition view_step :: "OrderBookUpdate list \<Rightarrow> (string \<Rightarrow> bool \<Rightarrow> PriceLevel list) \<Rightarrow> string \<Rightarrow> bool \<Rightarrow> PriceLevel list" where
  "view_step us M a d =
     fold (\<lambda>u ls. if ou_asset_id u = a then (if d then ou_bids u else ou_asks u) else ls) us (M a d)"

lemma view_step_simps [simp]:
  "view_step [] M = M"
  "view_step (u # us) M = view_step us (\<lambda>a d. if ou_asset_id u = a
      then (if d then ou_bids u else ou_asks u) else M a d)"
  by (intro ext; simp add: view_step_def)+

lemma consumer_append: "consumer_levels (us @ vs) = view_step vs (consumer_levels us)"
  by (intro ext) (simp add: consumer_levels_def view_step_def)

lemma apply_price_change_view:
  assumes "apply_price_change V market ts ch st = (u, st')" "keys_match st"
  shows "asset_levels st' = view_step (case u of Some x \<Rightarrow> [x] | None \<Rightarrow> []) (asset_levels st)"
    and "keys_match st'"
proof -
  show "asset_levels st' = view_step (case u of Some x \<Rightarrow> [x] | None \<Rightarrow> []) (asset_levels st)"
    using assms
    by (intro ext) (auto simp: apply_price_change_def asset_levels_def book_side_def Let_def
        keys_match_def change_update_def store_simps split: option.splits if_splits)
  show "keys_match st'"
    using assms
    by (auto simp: apply_price_change_def Let_def keys_match_def store_simps
        split: option.splits if_splits)
qed

lemma apply_changes_view:
  "apply_changes V market ts chs st = (us, st') \<Longrightarrow> keys_match st
     \<Longrightarrow> asset_levels st' = view_step us (asset_levels st) \<and> keys_match st'"
proof (induction chs arbitrary: st us st')
  case (Cons ch chs)
  obtain u st1 where 1: "apply_price_change V market ts ch st = (u, st1)" by fastforce
  obtain us1 st2 where 2: "apply_changes V market ts chs st1 = (us1, st2)" by fastforce
  from Cons.prems(1) 1 2 have "st' = st2" "us = (case u of Some x \<Rightarrow> x # us1 | None \<Rightarrow> us1)"
    by simp_all
  with Cons.IH [OF 2] apply_price_change_view [OF 1 Cons.prems(2)] show ?case
    by (cases u) simp_all
qed simp

lemma insert_snapshot_view:
  "keys_match st \<Longrightarrow> asset_levels (insert_snapshot u st) = view_step [u] (asset_levels st)
     \<and> keys_match (insert_snapshot u st)"
  by (auto simp: insert_snapshot_def asset_levels_def book_side_def update_to_orderbook_def
      keys_match_def store_simps fun_eq_iff)

lemma fold_snapshots_view:
  "keys_match st \<Longrightarrow> asset_levels (fold insert_snapshot us st) = view_step us (asset_levels st)
     \<and> keys_match (fold insert_snapshot us st)"
proof (induction us arbitrary: st)
  case (Cons u us)
  with insert_snapshot_view [OF Cons.prems, of u] show ?case by simp
qed simp

lemma parse_ws_message_view:
  assumes "parse_ws_message V clk msg st = (m, st')" "keys_match st"
  shows "asset_levels st' = view_step (pw_updates m) (asset_levels st) \<and> keys_match st'"
proof -
  have ev: "asset_levels (snd (apply_price_changes V now ev st))
      = view_step (fst (apply_price_changes V now ev st)) (asset_levels st)
      \<and> keys_match (snd (apply_price_changes V now ev st))" for now ev
    unfolding apply_price_changes_def by (rule apply_changes_view [OF _ assms(2)]) simp
  show ?thesis
    using assms fold_snapshots_view [OF assms(2)] insert_snapshot_view [OF assms(2)] ev
    by (auto simp: parse_ws_message_def Let_def case_prod_unfold
        split: if_splits option.splits json_shape.splits)
qed


text \<open>One turn of the loop that leaves the connection open.\<close>

definition feed_start :: "feed \<Rightarrow> bool" where
  "feed_start fd = (fd_books fd = [] \<and> fd_sent fd = [])"

definition feed_step :: "'j ws_env \<Rightarrow> feed \<Rightarrow> feed \<Rightarrow> bool" where
  "feed_step V fd fd' = (\<exists>ev. ws_step V ev fd = (fd', None))"

definition feed_sync :: "feed \<Rightarrow> bool" where
  "feed_sync fd = (keys_match (fd_books fd) \<and> asset_levels (fd_books fd) = consumer_levels (fd_sent fd))"

lemma send_updates_open:
  "send_updates us gone fd = (fd', None) \<Longrightarrow> fd' = fd\<lparr>fd_sent := fd_sent fd @ us\<rparr>"
  by (auto simp: send_updates_def split: option.splits if_splits)

text \<open>An open connection changes its books only through a text frame all of whose updates were sent.\<close>

lemma ws_step_open:
  assumes "ws_step V ev fd = (fd', None)"
  obtains "fd_books fd' = fd_books fd" "fd_sent fd' = fd_sent fd"
  | clk msg m where "parse_ws_message V clk msg (fd_books fd) = (m, fd_books fd')"
      "fd_sent fd' = fd_sent fd @ pw_updates m"
proof (cases ev)
  case (TextFrame clk now msg gone)
  obtain m st where m: "parse_ws_message V clk msg (fd_books fd) = (m, st)" by fastforce
  with assms TextFrame have "send_updates (pw_updates m) gone
      (fd\<lparr>fd_books := st, fd_stats := count_text now m (fd_stats fd)\<rparr>) = (fd', None)" by simp
  from send_updates_open [OF this] m show ?thesis by (intro that(2) [of clk msg m]) simp_all
qed (use assms that(1) in \<open>auto split: if_splits\<close>)

lemma feed_sync_step: "feed_sync fd \<Longrightarrow> feed_step V fd fd' \<Longrightarrow> feed_sync fd'"
  unfolding feed_step_def feed_sync_def
  by (auto elim!: ws_step_open dest!: parse_ws_message_view simp: consumer_append)

interpretation feed: machine feed_start "feed_step V" feed_sync for V
proof unfold_locales
  show "feed_sync fd" if "feed_start fd" for fd
    using that by (auto simp: feed_start_def feed_sync_def keys_match_def asset_levels_def
        consumer_levels_def fun_eq_iff)
qed (rule feed_sync_step)

subsection \<open>Best prices\<close>

definition best_first :: "bool \<Rightarrow> PriceLevel list \<Rightarrow> bool" where
  "best_first d ls = sorted (map (side_key d) ls)"

definition books_ordered :: "books \<Rightarrow> bool" where
  "books_ordered st = (\<forall>a d. best_first d (asset_levels st a d))"

definition snapshots_ordered :: "'j ws_env \<Rightarrow> bool" where
  "snapshots_ordered V = (\<forall>now j u. parse_ws_book_from_value V now j = Some u \<longrightarrow>
     best_first True (ou_bids u) \<and> best_first False (ou_asks u))"

lemma best_first_upsert: "best_first d (upsert_level ls p s d)"
  by (simp add: best_first_def upsert_level_eq)

lemma apply_changes_ordered:
  "apply_changes V market ts chs st = (us, st') \<Longrightarrow> books_ordered st \<Longrightarrow> books_ordered st'"
proof (induction chs arbitrary: st us st')
  case (Cons ch chs)
  obtain u st1 where 1: "apply_price_change V market ts ch st = (u, st1)" by fastforce
  obtain us1 st2 where 2: "apply_changes V market ts chs st1 = (us1, st2)" by fastforce
  from Cons.prems(2) have "books_ordered st1"
    by (auto simp: books_ordered_def apply_price_change_levels [OF 1] best_first_upsert
        split: option.splits)
  with Cons.IH [OF 2] Cons.prems(1) 1 2 show ?case by simp
qed simp

lemma fold_snapshots_ordered:
  "(\<And>u. u \<in> set us \<Longrightarrow> best_first True (ou_bids u) \<and> best_first False (ou_asks u))
     \<Longrightarrow> books_ordered st \<Longrightarrow> books_ordered (fold insert_snapshot us st)"
proof (induction us arbitrary: st)
  case (Cons u us)
  have "books_ordered (insert_snapshot u st)"
    using Cons.prems by (auto simp: books_ordered_def insert_snapshot_def asset_levels_def
        book_side_def update_to_orderbook_def store_simps)
  with Cons show ?case by simp
qed simp

lemma parse_ws_message_ordered:
  assumes "parse_ws_message V clk msg st = (m, st')" "books_ordered st" "snapshots_ordered V"
  shows "books_ordered st'"
proof -
  have ev: "books_ordered (snd (apply_price_changes V now ev st))" for now ev
    unfolding apply_price_changes_def by (rule apply_changes_ordered [OF surjective_pairing assms(2)])
  have arr: "books_ordered (fold insert_snapshot (List.map_filter f (enumerate 0 items)) st)"
    if "f = (\<lambda>(i, j). parse_ws_book_from_value V (clk i) j)" for f items
    using assms(2,3) by (intro fold_snapshots_ordered)
      (auto simp: that in_set_map_filter snapshots_ordered_def)
  have one: "books_ordered (insert_snapshot u st)" if "parse_ws_book_from_value V now j = Some u" for now j u
    using fold_snapshots_ordered [of "[u]" st] assms(2,3) that by (auto simp: snapshots_ordered_def)
  show ?thesis
    using assms(1,2) ev arr one
    by (auto simp: parse_ws_message_def Let_def case_prod_unfold
        split: if_splits option.splits json_shape.splits)
qed

lemma reach_ordered:
  assumes "reach feed_start (feed_step V) fd" "snapshots_ordered V"
  shows "books_ordered (fd_books fd)"
  using assms(1)
proof (induction rule: reach.induct)
  case (reach_start fd)
  then show ?case by (simp add: feed_start_def books_ordered_def asset_levels_def best_first_def)
next
  case (reach_step fd fd')
  then show ?case using assms(2)
    by (auto simp: feed_step_def elim!: ws_step_open dest: parse_ws_message_ordered)
qed

lemma best_first_first:
  "best_first d ls \<Longrightarrow> first ls = Some l \<Longrightarrow> l' \<in> set ls \<Longrightarrow> side_key d l \<le> side_key d l'"
  by (cases ls) (auto simp: best_first_def)


subsection \<open>Properties\<close>

text \<open>
  A small exchange for the witnesses: Decimals are digit strings, a JSON object with an even
  number is the book of asset \<open>''a''\<close> with two bids, an odd one sets the bid at 50 to size 7 and
  clears the one at 48.
\<close>

definition demo_level :: "string \<Rightarrow> string \<Rightarrow> ClobPriceLevel" where
  "demo_level p s = \<lparr>cl_price = p, cl_size = s\<rparr>"

definition demo_event :: WsPriceChangeEvent where
  "demo_event = \<lparr>ev_market = ''m'', price_changes =
     [\<lparr>pc_asset_id = ''a'', pc_price = ''50'', pc_size = ''7'', pc_side = ''BUY''\<rparr>,
      \<lparr>pc_asset_id = ''a'', pc_price = ''48'', pc_size = ''0'', pc_side = ''BUY''\<rparr>],
     ev_timestamp = None\<rparr>"

definition demo_ws :: "ClobPriceLevel list \<Rightarrow> nat ws_env" where
  "demo_ws ls = \<lparr>json_from_str = (\<lambda>s. map_option JObject (digits_value 0 s)),
     book_from_value = (\<lambda>j. if even j then Some \<lparr>wb_market = ''m'', wb_asset_id = ''a'',
        wb_bids = ls, wb_asks = [], wb_timestamp = ''0''\<rparr> else None),
     event_from_value = (\<lambda>j. Some demo_event),
     ws_dec_parse = (\<lambda>s. map_option of_nat (digits_value 0 s)),
     from_millis = (\<lambda>ms. Some (ms * 1000000)), dt_parse = (\<lambda>s. None)\<rparr>"

definition ws_stats_default :: WebSocketRuntimeStatsSnapshot where
  "ws_stats_default = \<lparr>subscribed_assets = 0, subscriptions_started_total = 0,
     text_messages_received_total = 0, orderbook_updates_emitted_total = 0, parse_misses_total = 0,
     snapshot_messages_total = 0, price_change_messages_total = 0,
     invalid_operation_messages_total = 0, ping_messages_received_total = 0,
     pong_messages_received_total = 0, last_message_at = None, last_orderbook_update_at = None,
     last_parse_miss_at = None, last_parse_miss_kind = None, last_message_kind = None\<rparr>"

definition feed_empty :: feed where
  "feed_empty = \<lparr>fd_books = [], fd_stats = ws_stats_default, fd_sent = []\<rparr>"

text \<open>
  C22: Price changes refine map updates: a price-change event applied to books whose levels have
  distinct prices sets or clears exactly the sizes the event names, in its order, for every
  asset and side, skips changes that cannot be read, and keeps prices distinct.
\<close>

theorem price_changes_refine:
  assumes "books_distinct st" "apply_price_changes V now ev st = (us, st')"
  shows "books_abs st' = fold (spec_change V) (price_changes ev) (books_abs st) \<and> books_distinct st'"
  using apply_changes_refines [OF assms(2) [unfolded apply_price_changes_def] assms(1)] .

theorem price_changes_refine_witness:
  "books_abs (snd (apply_price_changes (demo_ws []) 0 demo_event []))
     = fold (spec_change (demo_ws [])) (price_changes demo_event) (books_abs [])
   \<and> books_distinct (snd (apply_price_changes (demo_ws []) 0 demo_event []))"
  by (rule price_changes_refine [OF _ surjective_pairing])
    (simp add: books_distinct_def asset_levels_def)

text \<open>
  The consumer is in sync: while a connection is open, the book kept for an asset carries
  that asset's id, and its bids and asks are those of the last update sent for the asset (none
  are kept for an asset no update was sent for).
\<close>

theorem feed_consumer_in_sync:
  assumes "reach feed_start (feed_step V) fd"
  shows "(\<forall>b. store_get (fd_books fd) a = Some b \<longrightarrow> ob_outcome_id b = a
            \<and> bids b = consumer_levels (fd_sent fd) a True
            \<and> asks b = consumer_levels (fd_sent fd) a False)
    \<and> (store_get (fd_books fd) a = None \<longrightarrow>
         consumer_levels (fd_sent fd) a True = [] \<and> consumer_levels (fd_sent fd) a False = [])"
proof -
  from feed.inv_reach [OF assms] have keys: "keys_match (fd_books fd)"
    and eq: "asset_levels (fd_books fd) a d = consumer_levels (fd_sent fd) a d" for d
    by (simp_all add: feed_sync_def)
  show ?thesis
    using keys eq [of True] eq [of False]
    by (cases "store_get (fd_books fd) a") (simp_all add: keys_match_def asset_levels_def book_side_def)
qed

lemma feed_reach_run:
  "ws_serve V evs fd = (fd', None) \<Longrightarrow> reach feed_start (feed_step V) fd
     \<Longrightarrow> reach feed_start (feed_step V) fd'"
proof (induction evs arbitrary: fd)
  case (Cons ev evs)
  obtain fd1 r where 1: "ws_step V ev fd = (fd1, r)" by fastforce
  with Cons.prems have "r = None" by (cases r) auto
  with 1 have "feed_step V fd fd1" by (auto simp: feed_step_def)
  with Cons 1 \<open>r = None\<close> show ?case by (auto intro: reach_step)
qed simp

lemmas ws_eval = parse_ws_message_def trim_def is_space_def eq_ignore_ascii_case_def
  to_lowercase_def to_lower_char_def demo_ws_def demo_event_def demo_level_def feed_empty_def
  parse_ws_book_from_value_def parse_level_def apply_price_changes_def apply_price_change_def
  insert_snapshot_def update_to_orderbook_def upsert_level_def send_updates_def change_update_def
  parse_ws_timestamp_def parse_i64_def store_insert_def store_remove_def Let_def

lemma demo_snapshot:
  "parse_ws_message (demo_ws [demo_level ''48'' ''3'', demo_level ''47'' ''9'']) (\<lambda>_. 0) ''4'' []
   = (\<lparr>pw_updates = [\<lparr>ou_market_id = ''m'', ou_asset_id = ''a'', ou_timestamp = 0,
        ou_bids = [\<lparr>pl_price = 48, pl_size = 3\<rparr>, \<lparr>pl_price = 47, pl_size = 9\<rparr>], ou_asks = []\<rparr>],
       pw_kind = Snapshot\<rparr>,
      [(''a'', \<lparr>ob_market_id = ''m'', ob_outcome_id = ''a'', ob_timestamp = 0,
        bids = [\<lparr>pl_price = 48, pl_size = 3\<rparr>, \<lparr>pl_price = 47, pl_size = 9\<rparr>], asks = []\<rparr>)])"
  by (simp add: ws_eval)

lemma demo_change:
  "parse_ws_message (demo_ws ls) clk ''7''
      [(''a'', \<lparr>ob_market_id = ''m'', ob_outcome_id = ''a'', ob_timestamp = 0,
        bids = [\<lparr>pl_price = 48, pl_size = 3\<rparr>, \<lparr>pl_price = 47, pl_size = 9\<rparr>], asks = []\<rparr>)]
   = (\<lparr>pw_updates =
        [\<lparr>ou_market_id = ''m'', ou_asset_id = ''a'', ou_timestamp = clk 0, ou_bids =
            [\<lparr>pl_price = 50, pl_size = 7\<rparr>, \<lparr>pl_price = 48, pl_size = 3\<rparr>, \<lparr>pl_price = 47, pl_size = 9\<rparr>],
          ou_asks = []\<rparr>,
         \<lparr>ou_market_id = ''m'', ou_asset_id = ''a'', ou_timestamp = clk 0, ou_bids =
            [\<lparr>pl_price = 50, pl_size = 7\<rparr>, \<lparr>pl_price = 47, pl_size = 9\<rparr>], ou_asks = []\<rparr>],
       pw_kind = PriceChange\<rparr>,
      [(''a'', \<lparr>ob_market_id = ''m'', ob_outcome_id = ''a'', ob_timestamp = clk 0,
        bids = [\<lparr>pl_price = 50, pl_size = 7\<rparr>, \<lparr>pl_price = 47, pl_size = 9\<rparr>], asks = []\<rparr>)])"
  by (simp add: ws_eval)

definition demo_env :: "nat ws_env" where
  "demo_env = demo_ws [demo_level ''48'' ''3'', demo_level ''47'' ''9'']"

definition demo_events :: "ws_event list" where
  "demo_events = [TextFrame (\<lambda>_. 0) 0 ''4'' None, PingTick True, TextFrame (\<lambda>_. 5) 5 ''7'' None]"

definition demo_feed :: feed where
  "demo_feed = fst (ws_serve demo_env demo_events feed_empty)"

lemma demo_feed_run: "ws_serve demo_env demo_events feed_empty = (demo_feed, None)"
  by (simp add: demo_feed_def demo_env_def demo_events_def feed_empty_def demo_snapshot demo_change
      send_updates_def)

lemma demo_feed_reach: "reach feed_start (feed_step demo_env) demo_feed"
  by (rule feed_reach_run [OF demo_feed_run], rule reach_start)
    (simp add: feed_start_def feed_empty_def)

lemma demo_feed_books: "store_get (fd_books demo_feed) ''a'' =
   Some \<lparr>ob_market_id = ''m'', ob_outcome_id = ''a'', ob_timestamp = 5,
     bids = [\<lparr>pl_price = 50, pl_size = 7\<rparr>, \<lparr>pl_price = 47, pl_size = 9\<rparr>], asks = []\<rparr>"
  by (simp add: demo_feed_def demo_env_def demo_events_def feed_empty_def demo_snapshot demo_change
      send_updates_def)

theorem feed_consumer_in_sync_witness:
  "consumer_levels (fd_sent demo_feed) ''a'' True
     = [\<lparr>pl_price = 50, pl_size = 7\<rparr>, \<lparr>pl_price = 47, pl_size = 9\<rparr>]"
  using feed_consumer_in_sync [OF demo_feed_reach, of "''a''"] by (simp add: demo_feed_books)

text \<open>
  The best prices are the best: if the exchange lists the levels of every snapshot best
  first, then in every state of an open connection \<open>best_bid\<close> is the highest bid and \<open>best_ask\<close>
  the lowest ask of the book.
\<close>

theorem feed_best_prices:
  assumes "reach feed_start (feed_step V) fd" "snapshots_ordered V"
    and "store_get (fd_books fd) a = Some b"
  shows "(\<forall>p. best_bid b = Some p \<longrightarrow> (\<forall>l \<in> set (bids b). pl_price l \<le> p))
    \<and> (\<forall>p. best_ask b = Some p \<longrightarrow> (\<forall>l \<in> set (asks b). p \<le> pl_price l))"
proof -
  from reach_ordered [OF assms(1,2)] assms(3)
  have ordered: "best_first d (book_side d b)" for d
    by (auto simp: books_ordered_def asset_levels_def dest: spec [of _ a] spec [of _ d])
  from best_first_first [OF ordered [of True]] best_first_first [OF ordered [of False]]
  show ?thesis by (force simp: best_bid_def best_ask_def book_side_def side_key_def)
qed

lemma demo_env_ordered: "snapshots_ordered demo_env"
  by (auto simp: snapshots_ordered_def best_first_def side_key_def demo_env_def ws_eval
      split: if_splits)

theorem feed_best_prices_witness:
  "best_bid (the (store_get (fd_books demo_feed) ''a'')) = Some 50
   \<and> list_all (\<lambda>l. pl_price l \<le> 50) (bids (the (store_get (fd_books demo_feed) ''a'')))"
  using feed_best_prices [OF demo_feed_reach demo_env_ordered demo_feed_books]
  by (simp add: demo_feed_books best_bid_def list_all_iff)

text \<open>
  Snapshots are stored in the order received: when the exchange lists bids worst first,
  \<open>best_bid\<close> is not the highest bid, until the next change of that side sorts it.
\<close>

lemma snapshot_order_kept:
  "\<exists>b. store_get (snd (parse_ws_message (demo_ws [demo_level ''47'' ''9'', demo_level ''48'' ''3''])
          (\<lambda>_. 0) ''4'' [])) ''a'' = Some b
     \<and> best_bid b = Some 47 \<and> (\<exists>l \<in> set (bids b). 47 < pl_price l)"
  by (simp add: ws_eval best_bid_def)

text \<open>The reconnection delay grows to a minute and stays there.\<close>

lemma reconnect_delay_bounds: "1 \<le> reconnect_delay_secs n \<and> reconnect_delay_secs n \<le> 60"
  by (simp add: reconnect_delay_secs_def)

lemma reconnect_delay_mono: "unat m \<le> unat n \<Longrightarrow> reconnect_delay_secs m \<le> reconnect_delay_secs n"
  unfolding reconnect_delay_secs_def by (intro min.mono mult_mono power_increasing) auto

end
