(* ===== verification/Position_Repo.thy ===== *)
theory Position_Repo
  imports Position Database
begin

section \<open>The table of positions\<close>

text \<open>
  Model of \<open>crates/polymarket-core/src/db/positions.rs\<close>: the columns of the table \<open>positions\<close> that
  the repository uses, its \<open>INSERT\<close> and \<open>UPDATE\<close>, the conversion of a row back to a position, and
  the queries. Rows are keyed by the primary key; a query that orders its result by a time
  leaves the order of equal times open, and \<open>sort_key\<close> is one choice.

  A failure reason is stored as JSON text written by \<open>serde_json\<close>, which is a parameter \<open>J\<close> of
  the model: an encoder and a decoder.
\<close>

subsection \<open>Codes\<close>

fun state_code :: "PositionState \<Rightarrow> i16" where
  "state_code Pending = 0"
| "state_code Open = 1"
| "state_code ExitReady = 2"
| "state_code Closing = 3"
| "state_code Closed = 4"
| "state_code EntryFailed = 5"
| "state_code ExitFailed = 6"
| "state_code Stalled = 7"

definition state_of_code :: "i16 \<Rightarrow> PositionState" where
  "state_of_code c =
     (if c = 0 then Pending else if c = 1 then Open else if c = 2 then ExitReady
      else if c = 3 then Closing else if c = 4 then Closed else if c = 5 then EntryFailed
      else if c = 6 then ExitFailed else if c = 7 then Stalled else Closed)"

fun strategy_code :: "ExitStrategy \<Rightarrow> i16" where
  "strategy_code HoldToResolution = 0"
| "strategy_code ExitOnCorrection = 1"

definition strategy_of_code :: "i16 \<Rightarrow> ExitStrategy" where
  "strategy_of_code c = (if c = 0 then HoldToResolution else ExitOnCorrection)"

definition SOURCE_MANUAL :: i16 where "SOURCE_MANUAL = 0"
definition SOURCE_ARBITRAGE :: i16 where "SOURCE_ARBITRAGE = 1"
definition SOURCE_COPY_TRADE :: i16 where "SOURCE_COPY_TRADE = 2"
definition SOURCE_RECOMMENDATION :: i16 where "SOURCE_RECOMMENDATION = 3"

record reason_codec =
  rc_encode :: "FailureReason \<Rightarrow> string"
  rc_decode :: "string \<Rightarrow> FailureReason option"

subsection \<open>Rows\<close>

record position_row =
  r_id :: uuid
  r_market_id :: string
  r_yes_entry_price :: decimal
  r_no_entry_price :: decimal
  r_quantity :: decimal
  r_entry_timestamp :: datetime
  r_exit_strategy :: i16
  r_state :: i16
  r_unrealized_pnl :: decimal
  r_realized_pnl :: "decimal option"
  r_exit_timestamp :: "datetime option"
  r_yes_exit_price :: "decimal option"
  r_no_exit_price :: "decimal option"
  r_failure_reason :: "string option"
  r_retry_count :: "i32 option"
  r_last_updated :: "datetime option"
  r_fee_model :: "i16 option"
  r_resolution_payout :: "decimal option"
  r_yes_entry_fee_shares :: "decimal option"
  r_no_entry_fee_shares :: "decimal option"
  r_held_yes_qty :: "decimal option"
  r_held_no_qty :: "decimal option"
  r_exited_yes_qty :: "decimal option"
  r_exited_no_qty :: "decimal option"
  r_resolution_winner :: "string option"
  r_is_open :: bool
  r_opened_at :: "datetime option"
  r_source :: i16
  r_source_signal_id :: "uuid option"
  r_entry_price :: "decimal option"

type_synonym position_table = "(uuid, position_row) store"

definition encode_reason :: "reason_codec \<Rightarrow> Position \<Rightarrow> string option" where
  "encode_reason J p = map_option (rc_encode J) (failure_reason p)"

definition row_of_insert ::
  "pg_env \<Rightarrow> reason_codec \<Rightarrow> i16 \<Rightarrow> uuid option \<Rightarrow> Position \<Rightarrow> position_row" where
  "row_of_insert P J src sig p =
     \<lparr>r_id = pos_id p, r_market_id = pos_market_id p,
      r_yes_entry_price = pg_dec P (yes_entry_price p), r_no_entry_price = pg_dec P (no_entry_price p),
      r_quantity = pg_dec P (quantity p), r_entry_timestamp = pg_ts P (entry_timestamp p),
      r_exit_strategy = strategy_code (exit_strategy p), r_state = state_code (pos_state p),
      r_unrealized_pnl = pg_dec P (unrealized_pnl p), r_realized_pnl = None, r_exit_timestamp = None,
      r_yes_exit_price = None, r_no_exit_price = None, r_failure_reason = encode_reason J p,
      r_retry_count = Some (retry_count p), r_last_updated = Some (pg_ts P (last_updated p)),
      r_fee_model = Some (fee_model_as_i16 (fee_model p)),
      r_resolution_payout = Some (pg_dec P (resolution_payout_per_share p)),
      r_yes_entry_fee_shares = Some (pg_dec P (yes_entry_fee_shares p)),
      r_no_entry_fee_shares = Some (pg_dec P (no_entry_fee_shares p)),
      r_held_yes_qty = Some (pg_dec P (held_yes_qty p)), r_held_no_qty = Some (pg_dec P (held_no_qty p)),
      r_exited_yes_qty = Some (pg_dec P (exited_yes_qty p)),
      r_exited_no_qty = Some (pg_dec P (exited_no_qty p)), r_resolution_winner = resolution_winner p,
      r_is_open = should_persist_as_open p, r_opened_at = Some (pg_ts P (entry_timestamp p)),
      r_source = src, r_source_signal_id = sig, r_entry_price = None\<rparr>"

text \<open>\<open>UPDATE\<close> sets the columns below; the entry prices and the quantity are not among them.\<close>

definition row_of_update :: "pg_env \<Rightarrow> reason_codec \<Rightarrow> Position \<Rightarrow> position_row \<Rightarrow> position_row" where
  "row_of_update P J p r =
     r\<lparr>r_state := state_code (pos_state p), r_unrealized_pnl := pg_dec P (unrealized_pnl p),
       r_realized_pnl := map_option (pg_dec P) (realized_pnl p),
       r_exit_timestamp := map_option (pg_ts P) (exit_timestamp p),
       r_yes_exit_price := map_option (pg_dec P) (yes_exit_price p),
       r_no_exit_price := map_option (pg_dec P) (no_exit_price p),
       r_failure_reason := encode_reason J p, r_retry_count := Some (retry_count p),
       r_last_updated := Some (pg_ts P (last_updated p)),
       r_fee_model := Some (fee_model_as_i16 (fee_model p)),
       r_resolution_payout := Some (pg_dec P (resolution_payout_per_share p)),
       r_yes_entry_fee_shares := Some (pg_dec P (yes_entry_fee_shares p)),
       r_no_entry_fee_shares := Some (pg_dec P (no_entry_fee_shares p)),
       r_held_yes_qty := Some (pg_dec P (held_yes_qty p)),
       r_held_no_qty := Some (pg_dec P (held_no_qty p)),
       r_exited_yes_qty := Some (pg_dec P (exited_yes_qty p)),
       r_exited_no_qty := Some (pg_dec P (exited_no_qty p)),
       r_resolution_winner := resolution_winner p, r_is_open := should_persist_as_open p\<rparr>"

definition opt_or :: "'a \<Rightarrow> 'a option \<Rightarrow> 'a" where
  "opt_or d v = (case v of Some x \<Rightarrow> x | None \<Rightarrow> d)"

lemma opt_or_simps [simp]: "opt_or d (Some x) = x" "opt_or d None = d"
  by (simp_all add: opt_or_def)

definition row_to_position :: "num_env \<Rightarrow> reason_codec \<Rightarrow> position_row \<Rightarrow> Position" where
  "row_to_position E J r =
     (let legacy = max (dsub E 1 (dmul E (dadd E (r_yes_entry_price r) (r_no_entry_price r)) DEFAULT_FEE)) 0
      in \<lparr>pos_id = r_id r, pos_market_id = r_market_id r,
          yes_entry_price = r_yes_entry_price r, no_entry_price = r_no_entry_price r,
          quantity = r_quantity r, entry_timestamp = r_entry_timestamp r,
          exit_strategy = strategy_of_code (r_exit_strategy r), pos_state = state_of_code (r_state r),
          unrealized_pnl = r_unrealized_pnl r, realized_pnl = r_realized_pnl r,
          exit_timestamp = r_exit_timestamp r, yes_exit_price = r_yes_exit_price r,
          no_exit_price = r_no_exit_price r,
          failure_reason = Option.bind (r_failure_reason r) (rc_decode J),
          retry_count = opt_or 0 (r_retry_count r),
          last_updated = opt_or (r_entry_timestamp r) (r_last_updated r), pre_stall_state = None,
          fee_model = fee_model_from_i16 (opt_or 0 (r_fee_model r)),
          resolution_payout_per_share = opt_or legacy (r_resolution_payout r),
          yes_entry_fee_shares = opt_or 0 (r_yes_entry_fee_shares r),
          no_entry_fee_shares = opt_or 0 (r_no_entry_fee_shares r),
          held_yes_qty = opt_or 0 (r_held_yes_qty r), held_no_qty = opt_or 0 (r_held_no_qty r),
          exited_yes_qty = opt_or 0 (r_exited_yes_qty r), exited_no_qty = opt_or 0 (r_exited_no_qty r),
          resolution_winner = r_resolution_winner r\<rparr>)"

subsection \<open>Statements\<close>

text \<open>
  \<open>None\<close> is a failed statement, which leaves the table unchanged. An insert fails on a primary
  key that exists; an update of an absent row changes nothing and succeeds.
\<close>

definition insert_with_source ::
  "pg_env \<Rightarrow> nat \<Rightarrow> reason_codec \<Rightarrow> i16 \<Rightarrow> uuid option \<Rightarrow> Position \<Rightarrow> position_table
     \<Rightarrow> position_table option" where
  "insert_with_source P i J src sig p t =
     (if \<not> pg_ok P i \<or> store_get t (pos_id p) \<noteq> None then None
      else Some (store_insert (pos_id p) (row_of_insert P J src sig p) t))"

definition position_insert ::
  "pg_env \<Rightarrow> nat \<Rightarrow> reason_codec \<Rightarrow> Position \<Rightarrow> position_table \<Rightarrow> position_table option" where
  "position_insert P i J p t = insert_with_source P i J SOURCE_MANUAL None p t"

definition position_update ::
  "pg_env \<Rightarrow> nat \<Rightarrow> reason_codec \<Rightarrow> Position \<Rightarrow> position_table \<Rightarrow> position_table option" where
  "position_update P i J p t =
     (if \<not> pg_ok P i then None
      else Some (case store_get t (pos_id p) of
                   None \<Rightarrow> t
                 | Some r \<Rightarrow> store_insert (pos_id p) (row_of_update P J p r) t))"

definition position_get ::
  "num_env \<Rightarrow> pg_env \<Rightarrow> nat \<Rightarrow> reason_codec \<Rightarrow> uuid \<Rightarrow> position_table \<Rightarrow> Position option option" where
  "position_get E P i J pid t =
     (if \<not> pg_ok P i then None else Some (map_option (row_to_position E J) (store_get t pid)))"

subsection \<open>Queries\<close>

definition select_rows ::
  "(position_row \<Rightarrow> bool) \<Rightarrow> (position_row \<Rightarrow> datetime) \<Rightarrow> position_table \<Rightarrow> position_row list" where
  "select_rows cond key t = sort_key key (filter cond (store_values t))"

definition active_row :: "position_row \<Rightarrow> bool" where
  "active_row r = (r_state r \<notin> {4, 5})"

text \<open>Ordering by \<open>last_updated ASC\<close> puts \<open>NULL\<close> last in PostgreSQL; the column has a default.\<close>

definition updated_key :: "position_row \<Rightarrow> datetime" where
  "updated_key r = opt_or 0 (r_last_updated r)"

definition get_active ::
  "num_env \<Rightarrow> pg_env \<Rightarrow> nat \<Rightarrow> reason_codec \<Rightarrow> position_table \<Rightarrow> Position list option" where
  "get_active E P i J t =
     (if \<not> pg_ok P i then None
      else Some (map (row_to_position E J) (select_rows active_row (\<lambda>r. - r_entry_timestamp r) t)))"

definition monitor_source :: "position_row \<Rightarrow> bool" where
  "monitor_source r = (r_source r \<notin> {SOURCE_COPY_TRADE, SOURCE_RECOMMENDATION})"

definition get_active_for_arb_monitor ::
  "num_env \<Rightarrow> pg_env \<Rightarrow> nat \<Rightarrow> reason_codec \<Rightarrow> position_table \<Rightarrow> Position list option" where
  "get_active_for_arb_monitor E P i J t =
     (if \<not> pg_ok P i then None
      else Some (map (row_to_position E J)
             (select_rows (\<lambda>r. active_row r \<and> monitor_source r) (\<lambda>r. - r_entry_timestamp r) t)))"

definition get_needing_recovery ::
  "num_env \<Rightarrow> pg_env \<Rightarrow> nat \<Rightarrow> reason_codec \<Rightarrow> position_table \<Rightarrow> Position list option" where
  "get_needing_recovery E P i J t =
     (if \<not> pg_ok P i then None
      else Some (map (row_to_position E J) (select_rows (\<lambda>r. r_state r \<in> {6, 7}) updated_key t)))"

definition get_needing_recovery_for_arb_monitor ::
  "num_env \<Rightarrow> pg_env \<Rightarrow> nat \<Rightarrow> reason_codec \<Rightarrow> position_table \<Rightarrow> Position list option" where
  "get_needing_recovery_for_arb_monitor E P i J t =
     (if \<not> pg_ok P i then None
      else Some (map (row_to_position E J)
             (select_rows (\<lambda>r. r_state r \<in> {6, 7} \<and> monitor_source r) updated_key t)))"

definition get_exit_ready ::
  "num_env \<Rightarrow> pg_env \<Rightarrow> nat \<Rightarrow> reason_codec \<Rightarrow> position_table \<Rightarrow> Position list option" where
  "get_exit_ready E P i J t =
     (if \<not> pg_ok P i then None
      else Some (map (row_to_position E J) (select_rows (\<lambda>r. r_state r = 2) updated_key t)))"

definition get_hold_to_resolution ::
  "num_env \<Rightarrow> pg_env \<Rightarrow> nat \<Rightarrow> reason_codec \<Rightarrow> position_table \<Rightarrow> Position list option" where
  "get_hold_to_resolution E P i J t =
     (if \<not> pg_ok P i then None
      else Some (map (row_to_position E J)
             (select_rows (\<lambda>r. r_exit_strategy r = 0 \<and> r_state r \<in> {1, 2}) r_entry_timestamp t)))"

record ExitCandidate =
  xc_position :: Position
  xc_source :: i16
  xc_source_signal_id :: "uuid option"

definition get_open_exit_candidates ::
  "num_env \<Rightarrow> pg_env \<Rightarrow> nat \<Rightarrow> reason_codec \<Rightarrow> position_table \<Rightarrow> ExitCandidate list option" where
  "get_open_exit_candidates E P i J t =
     (if \<not> pg_ok P i then None
      else Some (map (\<lambda>r. \<lparr>xc_position = row_to_position E J r, xc_source = r_source r,
                     xc_source_signal_id = r_source_signal_id r\<rparr>)
             (select_rows (\<lambda>r. r_exit_strategy r = 1 \<and> r_state r = 1) r_entry_timestamp t)))"

definition get_failed_exits ::
  "num_env \<Rightarrow> pg_env \<Rightarrow> nat \<Rightarrow> reason_codec \<Rightarrow> position_table \<Rightarrow> Position list option" where
  "get_failed_exits E P i J t =
     (if \<not> pg_ok P i then None
      else Some (map (row_to_position E J) (select_rows (\<lambda>r. r_state r = 6) updated_key t)))"

text \<open>\<open>retry_count < 3\<close> is false for \<open>NULL\<close>; the comparison is the signed one of \<open>INTEGER\<close>.\<close>

definition get_one_legged_entry_failed ::
  "num_env \<Rightarrow> pg_env \<Rightarrow> nat \<Rightarrow> reason_codec \<Rightarrow> position_table \<Rightarrow> Position list option" where
  "get_one_legged_entry_failed E P i J t =
     (if \<not> pg_ok P i then None
      else Some (filter is_one_legged_entry_fail (map (row_to_position E J)
             (select_rows (\<lambda>r. r_state r = 5 \<and>
                (case r_retry_count r of Some c \<Rightarrow> sint c < 3 | None \<Rightarrow> False)) updated_key t))))"

definition active_position_exists_for_market_source :: "string \<Rightarrow> i16 \<Rightarrow> position_table \<Rightarrow> bool" where
  "active_position_exists_for_market_source m src t =
     list_ex (\<lambda>r. r_market_id r = m \<and> r_source r = src \<and> active_row r) (store_values t)"

definition count_active_by_source :: "i16 \<Rightarrow> position_table \<Rightarrow> nat" where
  "count_active_by_source src t =
     length (filter (\<lambda>r. r_source r = src \<and> active_row r) (store_values t))"

definition quant_row :: "position_row \<Rightarrow> bool" where
  "quant_row r = (r_source r = SOURCE_RECOMMENDATION \<and> r_source_signal_id r \<noteq> None
     \<and> r_exit_strategy r = 1 \<and> r_state r \<in> {0, 1, 2, 3, 6, 7})"

definition active_quant_executor_position_exists_for_market :: "string \<Rightarrow> position_table \<Rightarrow> bool" where
  "active_quant_executor_position_exists_for_market m t =
     list_ex (\<lambda>r. r_market_id r = m \<and> quant_row r) (store_values t)"

definition count_active_quant_executor_positions :: "position_table \<Rightarrow> nat" where
  "count_active_quant_executor_positions t = length (filter quant_row (store_values t))"

text \<open>\<open>SUM\<close> over \<open>NUMERIC\<close> columns is exact.\<close>

definition exposure_of :: "position_row \<Rightarrow> decimal" where
  "exposure_of r = r_quantity r * opt_or (r_yes_entry_price r + r_no_entry_price r) (r_entry_price r)"

definition get_total_active_exposure :: "position_table \<Rightarrow> decimal" where
  "get_total_active_exposure t =
     sum_list (map exposure_of (filter (\<lambda>r. r_state r \<in> {0, 1, 2, 3}) (store_values t)))"

definition count_active_positions_for_market :: "string \<Rightarrow> position_table \<Rightarrow> nat" where
  "count_active_positions_for_market m t =
     length (filter (\<lambda>r. r_market_id r = m \<and> r_state r \<in> {0, 1, 2, 3}) (store_values t))"

definition sum_realized :: "position_row list \<Rightarrow> decimal" where
  "sum_realized rs = sum_list (map (\<lambda>r. opt_or 0 (r_realized_pnl r)) rs)"

definition get_stats :: "position_table \<Rightarrow> PositionStats" where
  "get_stats t =
     (let rs = store_values t; op = filter (\<lambda>r. sint (r_state r) < 4) rs
      in \<lparr>total_positions = of_nat (length rs), open_positions = of_nat (length op),
          closed_positions = of_nat (length (filter (\<lambda>r. r_state r = 4) rs)),
          total_realized_pnl = sum_realized rs,
          total_unrealized_pnl = sum_list (map r_unrealized_pnl op),
          win_count = of_nat (length (filter (\<lambda>r. case r_realized_pnl r of Some x \<Rightarrow> 0 < x | None \<Rightarrow> False) rs)),
          loss_count = of_nat (length (filter (\<lambda>r. r_state r = 4
             \<and> (case r_realized_pnl r of Some x \<Rightarrow> x \<le> 0 | None \<Rightarrow> False)) rs))\<rparr>)"

subsection \<open>What survives the database\<close>

lemma state_code_inverse [simp]: "state_of_code (state_code st) = st"
  by (cases st) (simp_all add: state_of_code_def)

lemma state_code_inj: "state_code a = state_code b \<longleftrightarrow> a = b"
  by (metis state_code_inverse)

lemma strategy_code_inverse [simp]: "strategy_of_code (strategy_code x) = x"
  by (cases x) (simp_all add: strategy_of_code_def)

lemma fee_model_inverse [simp]: "fee_model_from_i16 (fee_model_as_i16 m) = m"
  by (cases m) (simp_all add: fee_model_from_i16_def)

text \<open>The columns and the encoding of the failure reason keep every value of the position.\<close>

definition storable :: "pg_env \<Rightarrow> reason_codec \<Rightarrow> Position \<Rightarrow> bool" where
  "storable P J p =
     (list_all (\<lambda>x. pg_dec P x = x)
        [yes_entry_price p, no_entry_price p, quantity p, unrealized_pnl p,
         resolution_payout_per_share p, yes_entry_fee_shares p, no_entry_fee_shares p,
         held_yes_qty p, held_no_qty p, exited_yes_qty p, exited_no_qty p]
      \<and> list_all (\<lambda>v. map_option (pg_dec P) v = v) [realized_pnl p, yes_exit_price p, no_exit_price p]
      \<and> pg_ts P (entry_timestamp p) = entry_timestamp p \<and> pg_ts P (last_updated p) = last_updated p
      \<and> map_option (pg_ts P) (exit_timestamp p) = exit_timestamp p
      \<and> Option.bind (encode_reason J p) (rc_decode J) = failure_reason p)"

lemma storable_exact [simp]:
  "storable pg_exact J p \<longleftrightarrow> Option.bind (encode_reason J p) (rc_decode J) = failure_reason p"
proof -
  have "pg_dec pg_exact = id" "pg_ts pg_exact = id" by (simp_all add: fun_eq_iff)
  then show ?thesis by (simp add: storable_def option.map_id)
qed

text \<open>The fields a position keeps from its row when it is saved and loaded again.\<close>

definition row_identity :: "position_row \<Rightarrow> Position \<Rightarrow> Position" where
  "row_identity r p =
     p\<lparr>pos_id := r_id r, pos_market_id := r_market_id r, yes_entry_price := r_yes_entry_price r,
       no_entry_price := r_no_entry_price r, quantity := r_quantity r,
       entry_timestamp := r_entry_timestamp r, exit_strategy := strategy_of_code (r_exit_strategy r),
       pre_stall_state := None\<rparr>"

lemma row_update_roundtrip:
  assumes "storable P J p"
  shows "row_to_position E J (row_of_update P J p r) = row_identity r p"
  using assms by (simp add: row_to_position_def row_of_update_def row_identity_def storable_def Let_def)

lemma update_get:
  assumes "storable P J p" "position_update P i J p t = Some t'" "store_get t (pos_id p) = Some r"
  shows "map_option (row_to_position E J) (store_get t' (pos_id p)) = Some (row_identity r p)"
  using assms(2,3) row_update_roundtrip [OF assms(1)]
  by (auto simp: position_update_def store_simps split: if_splits)


definition demo_codec :: reason_codec where
  "demo_codec = \<lparr>rc_encode = (\<lambda>r. case r of MarketClosed \<Rightarrow> ''market_closed'' | _ \<Rightarrow> ''unknown''),
     rc_decode = (\<lambda>s. if s = ''market_closed'' then Some MarketClosed else None)\<rparr>"

definition demo_position :: Position where
  "demo_position = new_position exact_env 7 0 ''m'' (48 / 100) (49 / 100) 100 HoldToResolution"


end
