(* ===== verification/Position_Service.thy ===== *)
theory Position_Service
  imports Position_Repo
begin

section \<open>The position service\<close>

text \<open>
  Model of \<open>crates/api-server/src/position_service.rs\<close> and of the recorder in \<open>trade_events.rs\<close>:
  every change of a position goes through a method that mutates the position, saves it and
  records an event. A method takes \<open>&mut Position\<close>, so it returns its result, the position as it
  is then (mutated also when saving failed) and the database.

  \<open>P\<close> gives the outcome of the statements of one call: statement 0 saves the position and
  statement 1 inserts the event, whose failure is only logged. The random id, the metadata of an
  event and the broadcast to subscribers are not modelled. The texts of errors are the values of
  \<open>svc_error\<close>; the reason of an event keeps the value that the code prints.
\<close>

subsection \<open>Events\<close>

datatype event_reason = ReasonText string | ReasonDebug FailureReason

record EventContext =
  execution_mode :: string
  strategy :: string
  source_label :: string

record NewTradeEvent =
  te_strategy :: string
  te_execution_mode :: string
  te_source :: string
  te_market_id :: string
  te_position_id :: "uuid option"
  te_signal_id :: "uuid option"
  te_event_type :: string
  te_state_from :: "string option"
  te_state_to :: "string option"
  te_reason :: "event_reason option"
  te_direction :: "string option"
  te_confidence :: "f64 option"
  te_expected_edge :: "decimal option"
  te_observed_edge :: "decimal option"
  te_requested_size_usd :: "decimal option"
  te_filled_size_usd :: "decimal option"
  te_fill_price :: "decimal option"
  te_realized_pnl :: "decimal option"
  te_unrealized_pnl :: "decimal option"

definition new_trade_event :: "string \<Rightarrow> string \<Rightarrow> string \<Rightarrow> string \<Rightarrow> string \<Rightarrow> NewTradeEvent" where
  "new_trade_event strat mode src market typ =
     \<lparr>te_strategy = strat, te_execution_mode = mode, te_source = src, te_market_id = market,
      te_position_id = None, te_signal_id = None, te_event_type = typ, te_state_from = None, te_state_to = None,
      te_reason = None, te_direction = None, te_confidence = None, te_expected_edge = None, te_observed_edge = None,
      te_requested_size_usd = None, te_filled_size_usd = None, te_fill_price = None,
      te_realized_pnl = None, te_unrealized_pnl = None\<rparr>"

record pos_db =
  db_positions :: position_table
  db_events :: "NewTradeEvent list"

definition record_warn :: "pg_env \<Rightarrow> nat \<Rightarrow> NewTradeEvent \<Rightarrow> pos_db \<Rightarrow> pos_db" where
  "record_warn P i ev db = (if pg_ok P i then db\<lparr>db_events := db_events db @ [ev]\<rparr> else db)"

definition ctx_event :: "EventContext \<Rightarrow> Position \<Rightarrow> string \<Rightarrow> NewTradeEvent" where
  "ctx_event ctx p typ =
     (new_trade_event (strategy ctx) (execution_mode ctx) (source_label ctx) (pos_market_id p) typ)
       \<lparr>te_position_id := Some (pos_id p)\<rparr>"

definition state_change :: "string \<Rightarrow> string \<Rightarrow> NewTradeEvent \<Rightarrow> NewTradeEvent" where
  "state_change from to ev = ev\<lparr>te_state_from := Some from, te_state_to := Some to\<rparr>"

text \<open>\<open>format!("{:?}", state).to_lowercase()\<close>.\<close>

fun state_text :: "PositionState \<Rightarrow> string" where
  "state_text Pending = ''pending''"
| "state_text Open = ''open''"
| "state_text ExitReady = ''exitready''"
| "state_text Closing = ''closing''"
| "state_text Closed = ''closed''"
| "state_text EntryFailed = ''entryfailed''"
| "state_text ExitFailed = ''exitfailed''"
| "state_text Stalled = ''stalled''"

subsection \<open>Operations\<close>

datatype Leg = Yes | No

datatype CloseMethod =
    MarketExit decimal
  | ResolutionWithWinner bool decimal
  | ResolutionConservative decimal

record CreatePositionParams =
  cp_market_id :: string
  cp_yes_entry_price :: decimal
  cp_no_entry_price :: decimal
  cp_quantity :: decimal
  cp_exit_strategy :: ExitStrategy
  cp_source :: i16
  cp_source_signal_id :: "uuid option"
  cp_arb_opportunity :: "ArbOpportunity option"

datatype svc_error =
    RepoFailed
  | Invalid position_error
  | FillExceedsHeld Leg decimal decimal
  | WrongState PositionState
  | PositionNotFound uuid

text \<open>The common end of the methods: save, then record the event.\<close>

definition save_and_record ::
  "pg_env \<Rightarrow> reason_codec \<Rightarrow> NewTradeEvent \<Rightarrow> 'a \<Rightarrow> Position \<Rightarrow> pos_db \<Rightarrow> (svc_error + 'a) \<times> Position \<times> pos_db" where
  "save_and_record P J ev a p db =
     (case position_update P 0 J p (db_positions db) of
        None \<Rightarrow> (Inl RepoFailed, p, db)
      | Some t \<Rightarrow> (Inr a, p, record_warn P 1 ev (db\<lparr>db_positions := t\<rparr>)))"

definition svc_create_position ::
  "num_env \<Rightarrow> pg_env \<Rightarrow> reason_codec \<Rightarrow> uuid \<Rightarrow> datetime \<Rightarrow> CreatePositionParams \<Rightarrow> EventContext \<Rightarrow> pos_db
     \<Rightarrow> (svc_error + Position) \<times> pos_db" where
  "svc_create_position E P J pid now params ctx db =
     (let p0 = new_position E pid now (cp_market_id params) (cp_yes_entry_price params)
                 (cp_no_entry_price params) (cp_quantity params) (cp_exit_strategy params);
          p = (case cp_arb_opportunity params of Some arb \<Rightarrow> apply_arb_fee_model arb p0 | None \<Rightarrow> p0)
      in case insert_with_source P 0 J (cp_source params) (cp_source_signal_id params) p (db_positions db) of
           None \<Rightarrow> (Inl RepoFailed, db)
         | Some t \<Rightarrow>
             (Inr p, record_warn P 1
                ((ctx_event ctx p ''entry_requested'')\<lparr>te_state_to := Some ''pending'',
                   te_requested_size_usd := Some (entry_cost E p)\<rparr>)
                (db\<lparr>db_positions := t\<rparr>)))"

definition svc_record_entry_fill ::
  "num_env \<Rightarrow> pg_env \<Rightarrow> reason_codec \<Rightarrow> datetime \<Rightarrow> Leg \<Rightarrow> decimal \<Rightarrow> decimal \<Rightarrow> EventContext \<Rightarrow> Position \<Rightarrow> pos_db
     \<Rightarrow> (svc_error + unit) \<times> Position \<times> pos_db" where
  "svc_record_entry_fill E P J now leg price qty ctx p db =
     (let p1 = p\<lparr>quantity := qty\<rparr>;
          p2 = (case leg of
                  Yes \<Rightarrow> apply_yes_entry_fill E now qty (p1\<lparr>yes_entry_price := price\<rparr>)
                | No \<Rightarrow> apply_no_entry_fill E now qty (p1\<lparr>no_entry_price := price\<rparr>))
      in save_and_record P J ((ctx_event ctx p2 ''entry_filled'')\<lparr>te_fill_price := Some price,
            te_filled_size_usd := Some (dmul E qty price)\<rparr>) () p2 db)"

definition svc_mark_open ::
  "pg_env \<Rightarrow> reason_codec \<Rightarrow> datetime \<Rightarrow> EventContext \<Rightarrow> Position \<Rightarrow> pos_db
     \<Rightarrow> (svc_error + unit) \<times> Position \<times> pos_db" where
  "svc_mark_open P J now ctx p db =
     (case mark_open now p of
        Inl e \<Rightarrow> (Inl (Invalid e), p, db)
      | Inr p' \<Rightarrow> save_and_record P J
          (state_change (state_text (pos_state p)) ''open'' (ctx_event ctx p' ''position_open'')) () p' db)"

definition svc_mark_entry_failed ::
  "pg_env \<Rightarrow> reason_codec \<Rightarrow> datetime \<Rightarrow> FailureReason \<Rightarrow> EventContext \<Rightarrow> Position \<Rightarrow> pos_db
     \<Rightarrow> (svc_error + unit) \<times> Position \<times> pos_db" where
  "svc_mark_entry_failed P J now reason ctx p db =
     (let p' = mark_entry_failed now reason p
      in save_and_record P J
           ((state_change (state_text (pos_state p)) ''entry_failed'' (ctx_event ctx p' ''entry_failed''))
              \<lparr>te_reason := Some (ReasonDebug reason)\<rparr>) () p' db)"

definition svc_mark_exit_ready ::
  "pg_env \<Rightarrow> reason_codec \<Rightarrow> datetime \<Rightarrow> string \<Rightarrow> EventContext \<Rightarrow> Position \<Rightarrow> pos_db
     \<Rightarrow> (svc_error + unit) \<times> Position \<times> pos_db" where
  "svc_mark_exit_ready P J now reason ctx p db =
     (case mark_exit_ready now p of
        Inl e \<Rightarrow> (Inl (Invalid e), p, db)
      | Inr p' \<Rightarrow> save_and_record P J
          ((state_change (state_text (pos_state p)) ''exit_ready'' (ctx_event ctx p' ''exit_marked_ready''))
             \<lparr>te_reason := Some (ReasonText reason)\<rparr>) () p' db)"

definition svc_mark_closing ::
  "pg_env \<Rightarrow> reason_codec \<Rightarrow> datetime \<Rightarrow> EventContext \<Rightarrow> Position \<Rightarrow> pos_db
     \<Rightarrow> (svc_error + unit) \<times> Position \<times> pos_db" where
  "svc_mark_closing P J now ctx p db =
     (case mark_closing now p of
        Inl e \<Rightarrow> (Inl (Invalid e), p, db)
      | Inr p' \<Rightarrow> save_and_record P J
          (state_change (state_text (pos_state p)) ''closing'' (ctx_event ctx p' ''exit_requested'')) () p' db)"

text \<open>
  The result of \<open>apply_*_exit_fill\<close> is dropped after the check before it: an error leaves the
  position unchanged.
\<close>

definition ignore_error :: "Position \<Rightarrow> position_error + Position \<Rightarrow> Position" where
  "ignore_error p r = (case r of Inl _ \<Rightarrow> p | Inr p' \<Rightarrow> p')"

definition exit_fill ::
  "num_env \<Rightarrow> datetime \<Rightarrow> Leg \<Rightarrow> decimal \<Rightarrow> decimal \<Rightarrow> Position \<Rightarrow> svc_error + Position" where
  "exit_fill E now leg price qty p =
     (case leg of
        Yes \<Rightarrow>
          if held_yes_qty p < qty then Inl (FillExceedsHeld Yes qty (held_yes_qty p))
          else (case record_yes_exit_fill now price p of
                  Inl e \<Rightarrow> Inl (Invalid e)
                | Inr p' \<Rightarrow> Inr (ignore_error p' (apply_yes_exit_fill E now qty p')))
      | No \<Rightarrow>
          if held_no_qty p < qty then Inl (FillExceedsHeld No qty (held_no_qty p))
          else (case record_no_exit_fill now price p of
                  Inl e \<Rightarrow> Inl (Invalid e)
                | Inr p' \<Rightarrow> Inr (ignore_error p' (apply_no_exit_fill E now qty p'))))"

definition svc_record_exit_fill ::
  "num_env \<Rightarrow> pg_env \<Rightarrow> reason_codec \<Rightarrow> datetime \<Rightarrow> Leg \<Rightarrow> decimal \<Rightarrow> decimal \<Rightarrow> EventContext \<Rightarrow> Position \<Rightarrow> pos_db
     \<Rightarrow> (svc_error + unit) \<times> Position \<times> pos_db" where
  "svc_record_exit_fill E P J now leg price qty ctx p db =
     (case exit_fill E now leg price qty p of
        Inl e \<Rightarrow> (Inl e, p, db)
      | Inr p' \<Rightarrow> save_and_record P J ((ctx_event ctx p' ''exit_fill'')\<lparr>te_fill_price := Some price,
            te_filled_size_usd := Some (dmul E qty price)\<rparr>) () p' db)"

definition move_held_to_exited :: "num_env \<Rightarrow> Position \<Rightarrow> Position" where
  "move_held_to_exited E p =
     p\<lparr>exited_yes_qty := dadd E (exited_yes_qty p) (held_yes_qty p),
       exited_no_qty := dadd E (exited_no_qty p) (held_no_qty p), held_yes_qty := 0, held_no_qty := 0\<rparr>"

definition closed_by :: "num_env \<Rightarrow> datetime \<Rightarrow> CloseMethod \<Rightarrow> Position \<Rightarrow> position_error + Position" where
  "closed_by E now how p =
     (case how of
        MarketExit fee \<Rightarrow>
          (case close_via_recorded_exit E now fee p of
             Inl e \<Rightarrow> Inl e | Inr p' \<Rightarrow> Inr (move_held_to_exited E p'))
      | ResolutionWithWinner yes_wins fee \<Rightarrow>
          (case close_via_resolution_with_winner E now yes_wins fee p of
             Inl e \<Rightarrow> Inl e
           | Inr p' \<Rightarrow> Inr (move_held_to_exited E
               (p'\<lparr>resolution_winner := Some (if yes_wins then ''yes'' else ''no'')\<rparr>)))
      | ResolutionConservative fee \<Rightarrow>
          (case close_via_resolution E now fee p of
             Inl e \<Rightarrow> Inl e | Inr p' \<Rightarrow> Inr (move_held_to_exited E p')))"

definition close_event_type :: "CloseMethod \<Rightarrow> string" where
  "close_event_type how =
     (case how of MarketExit _ \<Rightarrow> ''closed_via_exit'' | _ \<Rightarrow> ''closed_via_resolution'')"

definition svc_close_position ::
  "num_env \<Rightarrow> pg_env \<Rightarrow> reason_codec \<Rightarrow> datetime \<Rightarrow> CloseMethod \<Rightarrow> EventContext \<Rightarrow> Position \<Rightarrow> pos_db
     \<Rightarrow> (svc_error + unit) \<times> Position \<times> pos_db" where
  "svc_close_position E P J now how ctx p db =
     (case closed_by E now how p of
        Inl e \<Rightarrow> (Inl (Invalid e), p, db)
      | Inr p' \<Rightarrow> save_and_record P J
          ((state_change (state_text (pos_state p)) ''closed'' (ctx_event ctx p' (close_event_type how)))
             \<lparr>te_realized_pnl := realized_pnl p'\<rparr>) () p' db)"

definition svc_mark_exit_failed ::
  "pg_env \<Rightarrow> reason_codec \<Rightarrow> datetime \<Rightarrow> FailureReason \<Rightarrow> EventContext \<Rightarrow> Position \<Rightarrow> pos_db
     \<Rightarrow> (svc_error + unit) \<times> Position \<times> pos_db" where
  "svc_mark_exit_failed P J now reason ctx p db =
     (let p' = mark_exit_failed now reason p
      in save_and_record P J
           ((state_change (state_text (pos_state p)) ''exit_failed'' (ctx_event ctx p' ''exit_failed''))
              \<lparr>te_reason := Some (ReasonDebug reason)\<rparr>) () p' db)"

definition svc_attempt_exit_recovery ::
  "pg_env \<Rightarrow> reason_codec \<Rightarrow> datetime \<Rightarrow> EventContext \<Rightarrow> Position \<Rightarrow> pos_db
     \<Rightarrow> (svc_error + bool) \<times> Position \<times> pos_db" where
  "svc_attempt_exit_recovery P J now ctx p db =
     (case attempt_exit_recovery now p of
        (p', False) \<Rightarrow> (Inr False, p', db)
      | (p', True) \<Rightarrow> save_and_record P J
          (state_change ''exit_failed'' ''exit_ready'' (ctx_event ctx p' ''exit_recovery_requeued'')) True p' db)"

definition svc_attempt_stalled_recovery ::
  "pg_env \<Rightarrow> reason_codec \<Rightarrow> datetime \<Rightarrow> EventContext \<Rightarrow> Position \<Rightarrow> pos_db
     \<Rightarrow> (svc_error + PositionState option) \<times> Position \<times> pos_db" where
  "svc_attempt_stalled_recovery P J now ctx p db =
     (case attempt_stalled_recovery now p of
        (p', None) \<Rightarrow> (Inr None, p', db)
      | (p', Some st) \<Rightarrow> save_and_record P J
          (state_change ''stalled'' (state_text (pos_state p'))
             (ctx_event ctx p' ''stall_recovery_attempted'')) (Some st) p' db)"

text \<open>The two inner transitions cannot fail: the state is reset to \<open>Pending\<close> before them.\<close>

definition one_legged_exit_ready ::
  "datetime \<Rightarrow> string \<Rightarrow> string \<Rightarrow> Position \<Rightarrow> position_error + Position" where
  "one_legged_exit_ready now held_leg msg p =
     (let p1 = (if held_leg = ''yes'' then p\<lparr>no_entry_price := 0, held_no_qty := 0\<rparr>
                else p\<lparr>yes_entry_price := 0, held_yes_qty := 0\<rparr>)
      in case mark_open now (p1\<lparr>pos_state := Pending\<rparr>) of
           Inl e \<Rightarrow> Inl e
         | Inr p2 \<Rightarrow>
             (case mark_exit_ready now p2 of
                Inl e \<Rightarrow> Inl e
              | Inr p3 \<Rightarrow> Inr (p3\<lparr>failure_reason := Some (OneLeggedEntry held_leg msg)\<rparr>)))"

definition svc_transition_one_legged_to_exit_ready ::
  "pg_env \<Rightarrow> reason_codec \<Rightarrow> datetime \<Rightarrow> string \<Rightarrow> string \<Rightarrow> EventContext \<Rightarrow> Position \<Rightarrow> pos_db
     \<Rightarrow> (svc_error + unit) \<times> Position \<times> pos_db" where
  "svc_transition_one_legged_to_exit_ready P J now held_leg msg ctx p db =
     (if pos_state p \<notin> {Pending, EntryFailed} then (Inl (WrongState (pos_state p)), p, db)
      else case one_legged_exit_ready now held_leg msg p of
             Inl e \<Rightarrow> (Inl (Invalid e), p, db)
           | Inr p' \<Rightarrow> save_and_record P J
               ((state_change ''pending'' ''exit_ready'' (ctx_event ctx p' ''one_legged_exit_ready''))
                  \<lparr>te_reason := Some (ReasonText msg)\<rparr>) () p' db)"

definition svc_load ::
  "num_env \<Rightarrow> pg_env \<Rightarrow> reason_codec \<Rightarrow> uuid \<Rightarrow> pos_db \<Rightarrow> svc_error + Position" where
  "svc_load E P J pid db =
     (case position_get E P 0 J pid (db_positions db) of
        None \<Rightarrow> Inl RepoFailed
      | Some None \<Rightarrow> Inl (PositionNotFound pid)
      | Some (Some p) \<Rightarrow> Inr p)"

subsection \<open>What every method keeps of the table\<close>

text \<open>
  The columns that identify a position and describe its entry. No statement but the insert writes
  them, so every method keeps them, whatever fails.
\<close>

definition same_entry :: "position_row \<Rightarrow> position_row \<Rightarrow> bool" where
  "same_entry r r' \<longleftrightarrow> r_id r' = r_id r \<and> r_market_id r' = r_market_id r
     \<and> r_yes_entry_price r' = r_yes_entry_price r \<and> r_no_entry_price r' = r_no_entry_price r
     \<and> r_quantity r' = r_quantity r \<and> r_entry_timestamp r' = r_entry_timestamp r
     \<and> r_exit_strategy r' = r_exit_strategy r \<and> r_opened_at r' = r_opened_at r
     \<and> r_source r' = r_source r \<and> r_source_signal_id r' = r_source_signal_id r
     \<and> r_entry_price r' = r_entry_price r"

definition table_kept :: "position_table \<Rightarrow> position_table \<Rightarrow> bool" where
  "table_kept t t' \<longleftrightarrow> (\<forall>i. rel_option same_entry (store_get t i) (store_get t' i))"

lemma same_entry_refl [simp]: "same_entry r r"
  by (simp add: same_entry_def)

lemma same_entry_trans: "same_entry r r' \<Longrightarrow> same_entry r' r'' \<Longrightarrow> same_entry r r''"
  by (simp add: same_entry_def)

lemma same_entry_update [simp]: "same_entry r (row_of_update P J p r)"
  by (simp add: same_entry_def row_of_update_def)

lemma table_kept_refl [simp]: "table_kept t t"
  by (simp add: table_kept_def option.rel_refl)

lemma table_kept_trans:
  assumes "table_kept t t'" "table_kept t' t''"
  shows "table_kept t t''"
  unfolding table_kept_def
proof
  fix i
  have "rel_option same_entry (store_get t i) (store_get t' i)"
    "rel_option same_entry (store_get t' i) (store_get t'' i)"
    using assms by (simp_all add: table_kept_def)
  then show "rel_option same_entry (store_get t i) (store_get t'' i)"
    by (cases "store_get t i"; cases "store_get t' i"; cases "store_get t'' i")
      (auto intro: same_entry_trans)
qed

lemma table_kept_update: "position_update P n J p t = Some t' \<Longrightarrow> table_kept t t'"
  by (auto simp: position_update_def table_kept_def store_simps option.rel_refl
      split: if_splits option.splits)

named_theorems service_kept \<open>methods of the service keep the entry columns\<close>

lemma save_and_record_kept [service_kept]:
  "table_kept (db_positions db) (db_positions (snd (snd (save_and_record P J ev a p db))))"
  by (auto simp: save_and_record_def record_warn_def split: option.split intro: table_kept_update)

lemma svc_kept [service_kept]:
  "table_kept (db_positions db) (db_positions (snd (snd (svc_mark_exit_ready P J now reason ctx p db))))"
  "table_kept (db_positions db) (db_positions (snd (snd (svc_mark_closing P J now ctx p db))))"
  "table_kept (db_positions db) (db_positions (snd (snd (svc_record_exit_fill E P J now leg price qty ctx p db))))"
  "table_kept (db_positions db) (db_positions (snd (snd (svc_close_position E P J now how ctx p db))))"
  "table_kept (db_positions db) (db_positions (snd (snd (svc_mark_exit_failed P J now fr ctx p db))))"
  "table_kept (db_positions db) (db_positions (snd (snd (svc_attempt_exit_recovery P J now ctx p db))))"
  "table_kept (db_positions db) (db_positions (snd (snd (svc_transition_one_legged_to_exit_ready P J now l msg ctx p db))))"
  "table_kept (db_positions db) (db_positions (snd (snd (svc_mark_entry_failed P J now fr ctx p db))))"
  "table_kept (db_positions db) (db_positions (snd (snd (svc_mark_open P J now ctx p db))))"
  "table_kept (db_positions db) (db_positions (snd (snd (svc_record_entry_fill E P J now leg price qty ctx p db))))"
  by (simp_all add: svc_mark_exit_ready_def svc_mark_closing_def svc_record_exit_fill_def
      svc_close_position_def svc_mark_exit_failed_def svc_attempt_exit_recovery_def Let_def
      svc_transition_one_legged_to_exit_ready_def svc_mark_entry_failed_def svc_mark_open_def
      svc_record_entry_fill_def save_and_record_kept
      split: sum.split prod.split bool.split)

end
