(* ===== verification/Token_Cache.thy ===== *)
theory Token_Cache
  imports Market
begin

section \<open>The outcome token cache\<close>

text \<open>
  Model of \<open>OutcomeTokenCache\<close> in \<open>crates/api-server/src/arb_executor.rs\<close>: the map from a market to
  the tokens of its YES and NO outcome, the set of active markets and tokens, and the table
  \<open>token_condition_cache\<close>. Each mutation is one step, as its lock makes it; the markets come from
  the Gamma and CLOB services, whose answers are arguments.
\<close>

record token_cache =
  tc_tokens :: "(string, string \<times> string) store"
  tc_active :: "string set"
  tc_conditions :: "(string, string) store"

text \<open>The outcome whose name contains "yes" comes first; with none the order is reversed.\<close>

definition token_pair :: "Market \<Rightarrow> (string \<times> string) option" where
  "token_pair m =
     (case mkt_outcomes m of
        [a, b] \<Rightarrow> Some (if contains ''yes'' (to_lowercase (oc_name a))
                      then (oc_token_id a, oc_token_id b) else (oc_token_id b, oc_token_id a))
      | _ \<Rightarrow> None)"

definition active_ids :: "Market \<Rightarrow> string set" where
  "active_ids m = {mkt_id m} \<union> set (map oc_token_id (mkt_outcomes m))"

definition condition_pairs :: "Market \<Rightarrow> (string \<times> string) list" where
  "condition_pairs m = map (\<lambda>oc. (oc_token_id oc, mkt_id m)) (mkt_outcomes m)"

text \<open>
  The upsert of the pairs, one per token: of several pairs with the same token one wins, here the
  last one. A failure of the statement is logged and ignored.
\<close>

definition upsert_token_condition_cache :: "(string \<times> string) list \<Rightarrow> (string, string) store \<Rightarrow> (string, string) store" where
  "upsert_token_condition_cache pairs t = fold (\<lambda>(k, v) t. store_insert k v t) pairs t"

definition tc_refresh :: "bool \<Rightarrow> Market list \<Rightarrow> token_cache \<Rightarrow> token_cache" where
  "tc_refresh stored markets tc =
     (let live = filter (\<lambda>m. \<not> mkt_resolved m) markets
      in \<lparr>tc_tokens = fold (\<lambda>m t. case token_pair m of Some p \<Rightarrow> store_insert (mkt_id m) p t | None \<Rightarrow> t)
                       markets [],
          tc_active = \<Union> (set (map active_ids live)),
          tc_conditions = (if stored
             then upsert_token_condition_cache (concat (map condition_pairs live)) (tc_conditions tc)
             else tc_conditions tc)\<rparr>)"

definition tc_apply_market_update :: "bool \<Rightarrow> Market \<Rightarrow> token_cache \<Rightarrow> (string \<times> string) option \<times> token_cache" where
  "tc_apply_market_update stored m tc =
     (token_pair m,
      \<lparr>tc_tokens = (case token_pair m of
                      Some p \<Rightarrow> store_insert (mkt_id m) p (tc_tokens tc)
                    | None \<Rightarrow> store_remove (mkt_id m) (tc_tokens tc)),
       tc_active = (if mkt_resolved m then tc_active tc - active_ids m else tc_active tc \<union> active_ids m),
       tc_conditions = (if stored
          then upsert_token_condition_cache (condition_pairs m) (tc_conditions tc)
          else tc_conditions tc)\<rparr>)"

definition tc_get :: "token_cache \<Rightarrow> string \<Rightarrow> (string \<times> string) option" where
  "tc_get tc m = store_get (tc_tokens tc) m"

definition tc_alias :: "string \<Rightarrow> string \<times> string \<Rightarrow> token_cache \<Rightarrow> token_cache" where
  "tc_alias a ids tc = tc\<lparr>tc_tokens := store_insert a ids (tc_tokens tc)\<rparr>"

definition tc_len :: "token_cache \<Rightarrow> nat" where
  "tc_len tc = length (tc_tokens tc)"

subsection \<open>Facts\<close>

lemma fold_tokens_get:
  "store_get (fold (\<lambda>m t. case token_pair m of Some p \<Rightarrow> store_insert (mkt_id m) p t | None \<Rightarrow> t) ms t0) k
     = Some p \<Longrightarrow> (\<exists>m \<in> set ms. mkt_id m = k \<and> token_pair m = Some p) \<or> store_get t0 k = Some p"
proof (induction ms arbitrary: t0)
  case (Cons m ms)
  from Cons.IH Cons.prems show ?case
    by (fastforce simp: store_simps split: option.splits if_splits)
qed simp

text \<open>Every pair after a refresh comes from a market of the answer with two outcomes.\<close>

lemma tc_refresh_sound:
  "tc_get (tc_refresh st ms tc) k = Some p \<Longrightarrow> \<exists>m \<in> set ms. mkt_id m = k \<and> token_pair m = Some p"
  by (auto simp: tc_get_def tc_refresh_def Let_def dest!: fold_tokens_get)

lemma token_pair_outcomes:
  "token_pair m = Some (y, n) \<Longrightarrow> {y, n} = set (map oc_token_id (mkt_outcomes m))"
  by (auto simp: token_pair_def split: list.splits if_splits)

end
