(* ===== verification/Rollouts.thy ===== *)
theory Rollouts
  imports Database
begin

section \<open>Learning rollouts\<close>

text \<open>
  Model of \<open>crates/api-server/src/learning_rollouts.rs\<close>: how an active rollout of a learned model may
  reject or shrink a live trade, and the observer that rolls a rollout back when one of its
  guardrails is violated. The scores of the models and the aggregates the observer reads from
  the database are parameters. A violation is a value, where the code prints it.
\<close>

subsection \<open>JSON metadata\<close>

datatype meta_value = MStr string | MInt int | MFloat f64 | MOther

type_synonym metadata = "(string, meta_value) store"

definition meta_f64 :: "num_env \<Rightarrow> metadata \<Rightarrow> string \<Rightarrow> f64 option" where
  "meta_f64 E m k =
     (case store_get m k of
        Some (MInt i) \<Rightarrow> Some (f64_round E (of_int i))
      | Some (MFloat x) \<Rightarrow> Some x
      | _ \<Rightarrow> None)"

subsection \<open>The decision on a trade\<close>

record ActiveRollout =
  ar_model_id :: uuid
  ar_model_key :: string
  ar_target :: string
  ar_mode :: string
  ar_authority :: string
  ar_bounds :: metadata

record RolloutDecision =
  skip_reason :: "string option"
  size_multiplier :: decimal

definition default_decision :: RolloutDecision where
  "default_decision = \<lparr>skip_reason = None, size_multiplier = 1\<rparr>"

definition can_reject :: "string \<Rightarrow> bool" where
  "can_reject level = (level = ''tail_reject'' \<or> level = ''full'')"

definition can_resize :: "string \<Rightarrow> bool" where
  "can_resize level = (level = ''size_adjust'' \<or> level = ''full'')"

definition skip_text :: "ActiveRollout \<Rightarrow> string" where
  "skip_text r = ''learning_rollout:'' @ ar_mode r @ '':'' @ ar_model_key r @ '':'' @ ar_target r"

text \<open>\<open>1 - clamp(max_size_reduction_pct, 0, 0.95)\<close>, with 0.20 when the bound is absent.\<close>

definition rollout_multiplier :: "num_env \<Rightarrow> ActiveRollout \<Rightarrow> decimal" where
  "rollout_multiplier E r =
     (let pct = (case meta_f64 E (ar_bounds r) ''max_size_reduction_pct'' of
                   Some x \<Rightarrow> x | None \<Rightarrow> f64_round E (20 / 100));
          reduction = min (max pct 0) (f64_round E (95 / 100))
      in case f64_short E (fsub E 1 reduction) of Some d \<Rightarrow> d | None \<Rightarrow> 1)"

text \<open>
  The loop over the rollouts; \<open>score\<close> is the recommended action of a model, \<open>None\<close> when the model is
  not loaded or does not score the trade.
\<close>

fun apply_rollouts ::
  "num_env \<Rightarrow> (uuid \<Rightarrow> string option) \<Rightarrow> ActiveRollout list \<Rightarrow> RolloutDecision
     \<Rightarrow> RolloutDecision" where
  "apply_rollouts E score [] d = d"
| "apply_rollouts E score (r # rs) d =
     (case score (ar_model_id r) of
        None \<Rightarrow> apply_rollouts E score rs d
      | Some action \<Rightarrow>
          if can_reject (ar_authority r) \<and> action = ''skip''
          then d\<lparr>skip_reason := Some (skip_text r)\<rparr>
          else if can_resize (ar_authority r) \<and> action \<in> {''downsize'', ''deprioritize'', ''skip''}
                  \<and> rollout_multiplier E r < size_multiplier d
          then apply_rollouts E score rs (d\<lparr>size_multiplier := rollout_multiplier E r\<rparr>)
          else apply_rollouts E score rs d)"

text \<open>
  \<open>evaluate\<close>: rollouts act on live trades only; a failed lookup leaves the trade as it is. The
  answer of the lookups is \<open>None\<close> when one of them failed or the tables do not exist.
\<close>

definition evaluate_rollouts ::
  "num_env \<Rightarrow> string \<Rightarrow> (uuid \<Rightarrow> string option) \<Rightarrow> ActiveRollout list option
     \<Rightarrow> RolloutDecision" where
  "evaluate_rollouts E mode score found =
     (if mode \<noteq> ''live'' then default_decision
      else case found of
             None \<Rightarrow> default_decision
           | Some rs \<Rightarrow> apply_rollouts E score rs default_decision)"

subsection \<open>Guardrails\<close>

datatype guard_violation = Above string f64 f64 | Below f64 f64

text \<open>The two flags a check works on: has warned, and the violations so far.\<close>

definition check_max_guardrail ::
  "num_env \<Rightarrow> metadata \<Rightarrow> string \<Rightarrow> f64 option \<Rightarrow> bool \<times> guard_violation list \<Rightarrow> bool \<times> guard_violation list" where
  "check_max_guardrail E guardrails key actual st =
     (case (meta_f64 E guardrails key, actual) of
        (Some limit, Some value) \<Rightarrow>
          if limit < value then (fst st, snd st @ [Above key value limit])
          else if fmul E limit (f64_round E (8 / 10)) < value then (True, snd st) else st
      | _ \<Rightarrow> st)"

record observation =
  ob_failure_rate :: "f64 option"
  ob_one_legged_rate :: "f64 option"
  ob_drawdown_pct :: "f64 option"
  ob_latency_p90_ms :: "f64 option"
  ob_edge_capture_ratio :: "f64 option"

definition evaluate_guardrails ::
  "num_env \<Rightarrow> metadata \<Rightarrow> observation \<Rightarrow> string \<times> guard_violation list" where
  "evaluate_guardrails E g ob =
     (let s1 = check_max_guardrail E g ''max_failure_rate'' (ob_failure_rate ob) (False, []);
          s2 = check_max_guardrail E g ''max_one_legged_rate'' (ob_one_legged_rate ob) s1;
          s3 = check_max_guardrail E g ''max_drawdown_pct'' (ob_drawdown_pct ob) s2;
          s4 = check_max_guardrail E g ''max_latency_p90_ms'' (ob_latency_p90_ms ob) s3;
          s5 = (case (meta_f64 E g ''min_edge_capture_ratio'', ob_edge_capture_ratio ob) of
                  (Some least, Some value) \<Rightarrow>
                    if value < least then (fst s4, snd s4 @ [Below value least])
                    else if value < fmul E least (f64_round E (12 / 10)) then (True, snd s4) else s4
                | _ \<Rightarrow> s4)
      in if snd s5 \<noteq> [] then (''rollback'', snd s5) else if fst s5 then (''warn'', []) else (''ok'', []))"

subsection \<open>The observer\<close>

record rollout_row =
  ro_status :: string
  ro_mode :: string
  ro_guardrails :: metadata
  ro_started_at :: datetime
  ro_ended_at :: "datetime option"
  ro_rollback_reason :: "guard_violation list"

record rollout_db =
  rd_rollouts :: "(uuid, rollout_row) store"
  rd_observations :: "(uuid \<times> string) list"

definition observed_rows :: "rollout_db \<Rightarrow> (uuid \<times> rollout_row) list" where
  "observed_rows db = sort_key (\<lambda>(_, r). - ro_started_at r)
     (filter (\<lambda>(_, r). ro_status r = ''active'' \<and> ro_mode r \<noteq> ''shadow'') (rd_rollouts db))"

definition roll_back :: "datetime \<Rightarrow> uuid \<Rightarrow> guard_violation list \<Rightarrow> rollout_db \<Rightarrow> rollout_db" where
  "roll_back now i vs db =
     (case store_get (rd_rollouts db) i of
        Some r \<Rightarrow>
          if ro_status r = ''active''
          then db\<lparr>rd_rollouts := store_insert i (r\<lparr>ro_status := ''rolled_back'',
                   ro_ended_at := (case ro_ended_at r of Some t \<Rightarrow> Some t | None \<Rightarrow> Some now), ro_rollback_reason := vs\<rparr>)
                 (rd_rollouts db)\<rparr>
          else db
      | None \<Rightarrow> db)"

text \<open>
  One cycle over the rows. \<open>metrics\<close> gives the aggregates of a rollout: \<open>Inl\<close> when the query fails,
  \<open>Inr None\<close> when it executed nothing. The statements of the cycle are numbered in order; a failed
  one ends the cycle with an error and the changes so far stay.
\<close>

fun observe_rows ::
  "num_env \<Rightarrow> pg_env \<Rightarrow> datetime \<Rightarrow> nat \<Rightarrow> (uuid \<Rightarrow> unit + observation option) \<Rightarrow> (uuid \<times> rollout_row) list \<Rightarrow> rollout_db
     \<Rightarrow> bool \<times> rollout_db" where
  "observe_rows E P now i metrics [] db = (True, db)"
| "observe_rows E P now i metrics ((rid, r) # rs) db =
     (case metrics rid of
        Inl _ \<Rightarrow> (False, db)
      | Inr None \<Rightarrow> observe_rows E P now i metrics rs db
      | Inr (Some ob) \<Rightarrow>
          let (state, vs) = evaluate_guardrails E (ro_guardrails r) ob
          in if \<not> pg_ok P i then (False, db)
             else let db1 = db\<lparr>rd_observations := rd_observations db @ [(rid, state)]\<rparr>
                  in if vs = [] then observe_rows E P now (i + 1) metrics rs db1
                     else if \<not> pg_ok P (i + 1) then (False, db1)
                     else observe_rows E P now (i + 2) metrics rs (roll_back now rid vs db1))"

definition observe_rollouts ::
  "num_env \<Rightarrow> pg_env \<Rightarrow> datetime \<Rightarrow> (uuid \<Rightarrow> unit + observation option) \<Rightarrow> rollout_db \<Rightarrow> bool \<times> rollout_db" where
  "observe_rollouts E P now metrics db =
     (if \<not> pg_ok P 0 then (False, db) else observe_rows E P now 1 metrics (observed_rows db) db)"

subsection \<open>What a rollout may do\<close>

text \<open>A rollout without authority changes nothing, and none enlarges a trade.\<close>

lemma apply_rollouts_le: "size_multiplier (apply_rollouts E score rs d) \<le> size_multiplier d"
proof (induction rs arbitrary: d)
  case (Cons r rs)
  show ?case
    using Cons.IH [of d] Cons.IH [of "d\<lparr>size_multiplier := rollout_multiplier E r\<rparr>"]
    by (auto split: option.split)
qed simp

lemma apply_rollouts_nonneg:
  assumes "\<And>r. 0 \<le> rollout_multiplier E r" "0 \<le> size_multiplier d"
  shows "0 \<le> size_multiplier (apply_rollouts E score rs d)"
  using assms(2)
proof (induction rs arbitrary: d)
  case (Cons r rs)
  then show ?case
    using Cons.IH [of d] Cons.IH [of "d\<lparr>size_multiplier := rollout_multiplier E r\<rparr>"] assms(1) [of r]
    by (auto split: option.split)
qed simp

lemma apply_rollouts_reject:
  assumes "skip_reason (apply_rollouts E score rs d) = Some why" "skip_reason d = None"
  shows "\<exists>r \<in> set rs. why = skip_text r \<and> can_reject (ar_authority r) \<and> score (ar_model_id r) = Some ''skip''"
  using assms
proof (induction rs arbitrary: d)
  case (Cons r rs)
  from Cons.prems Cons.IH [of d] Cons.IH [of "d\<lparr>size_multiplier := rollout_multiplier E r\<rparr>"] show ?case
    by (auto split: option.splits if_splits)
qed simp

text \<open>A guardrail is broken when a measured value is on the wrong side of its limit.\<close>

definition over_limit :: "num_env \<Rightarrow> metadata \<Rightarrow> string \<Rightarrow> f64 option \<Rightarrow> bool" where
  "over_limit E g key value =
     (case (meta_f64 E g key, value) of (Some limit, Some v) \<Rightarrow> limit < v | _ \<Rightarrow> False)"

definition guard_broken :: "num_env \<Rightarrow> metadata \<Rightarrow> observation \<Rightarrow> bool" where
  "guard_broken E g ob =
     (over_limit E g ''max_failure_rate'' (ob_failure_rate ob)
      \<or> over_limit E g ''max_one_legged_rate'' (ob_one_legged_rate ob)
      \<or> over_limit E g ''max_drawdown_pct'' (ob_drawdown_pct ob)
      \<or> over_limit E g ''max_latency_p90_ms'' (ob_latency_p90_ms ob)
      \<or> (case (meta_f64 E g ''min_edge_capture_ratio'', ob_edge_capture_ratio ob) of
            (Some least, Some v) \<Rightarrow> v < least | _ \<Rightarrow> False))"

lemma check_max_empty:
  "snd (check_max_guardrail E g key v st) = [] \<longleftrightarrow> snd st = [] \<and> \<not> over_limit E g key v"
  by (auto simp: check_max_guardrail_def over_limit_def split: option.split)

lemma guardrails_empty: "snd (evaluate_guardrails E g ob) = [] \<longleftrightarrow> \<not> guard_broken E g ob"
  by (auto simp: evaluate_guardrails_def guard_broken_def Let_def check_max_empty
      split: option.split prod.split)

lemma roll_back_get:
  "store_get (rd_rollouts (roll_back now i vs db)) j =
     (case store_get (rd_rollouts db) j of
        Some r \<Rightarrow> Some (if j = i \<and> ro_status r = ''active''
                       then r\<lparr>ro_status := ''rolled_back'',
                   ro_ended_at := (case ro_ended_at r of Some t \<Rightarrow> Some t | None \<Rightarrow> Some now), ro_rollback_reason := vs\<rparr> else r)
      | None \<Rightarrow> None)"
  by (auto simp: roll_back_def store_simps split: option.split)

text \<open>The status of a rollout after a cycle that ran to its end.\<close>

definition cycle_status :: "num_env \<Rightarrow> (uuid \<Rightarrow> unit + observation option) \<Rightarrow> uuid \<Rightarrow> rollout_row \<Rightarrow> string" where
  "cycle_status E metrics i r =
     (if ro_status r = ''active''
         \<and> (case metrics i of Inr (Some ob) \<Rightarrow> guard_broken E (ro_guardrails r) ob | _ \<Rightarrow> False)
      then ''rolled_back'' else ro_status r)"

lemma observe_rows_status:
  assumes "observe_rows E P now n metrics rs db = (True, db')" "distinct (map fst rs)"
    and "\<And>i r. (i, r) \<in> set rs \<Longrightarrow> store_get (rd_rollouts db) i = Some r"
    and "store_get (rd_rollouts db) i = Some r"
  shows "map_option ro_status (store_get (rd_rollouts db') i) =
    Some (if (i, r) \<in> set rs then cycle_status E metrics i r else ro_status r)"
  using assms
proof (induction rs arbitrary: n db r)
  case (Cons x rs)
  obtain j q where x: "x = (j, q)" by fastforce
  have q: "store_get (rd_rollouts db) j = Some q" using Cons.prems(3) [of j q] by (simp add: x)
  have notin: "(j, q') \<notin> set rs" for q'
    using Cons.prems(2) by (force simp: x)
  have keep: "store_get (rd_rollouts db) k = Some u" if "(k, u) \<in> set rs" for k u
    using Cons.prems(3) that by simp
  have status: "(j, q) \<notin> set rs" "i = j \<Longrightarrow> r = q" using notin q Cons.prems(4) by auto
  consider (none) "metrics j = Inr None" | (fine) ob m where "metrics j = Inr (Some ob)"
      "\<not> guard_broken E (ro_guardrails q) ob"
      "observe_rows E P now m metrics rs (db\<lparr>rd_observations :=
         rd_observations db @ [(j, fst (evaluate_guardrails E (ro_guardrails q) ob))]\<rparr>) = (True, db')"
    | (broken) ob m where "metrics j = Inr (Some ob)" "guard_broken E (ro_guardrails q) ob"
      "observe_rows E P now m metrics rs (roll_back now j (snd (evaluate_guardrails E (ro_guardrails q) ob))
         (db\<lparr>rd_observations := rd_observations db @ [(j, fst (evaluate_guardrails E (ro_guardrails q) ob))]\<rparr>))
         = (True, db')"
    using Cons.prems(1) guardrails_empty [of E "ro_guardrails q"]
    by (auto simp: x Let_def split: sum.splits option.splits prod.splits if_splits) (metis fst_conv snd_conv)+
  then show ?case
  proof cases
    case none
    with Cons.prems(1,2,4) keep status show ?thesis
      using Cons.IH [of n db r] by (auto simp: x cycle_status_def)
  next
    case fine
    with Cons.prems(2,4) keep status show ?thesis
      using Cons.IH [OF fine(3), of r] by (auto simp: x cycle_status_def)
  next
    case broken
    let ?q = "if ro_status q = ''active'' then q\<lparr>ro_status := ''rolled_back'',
       ro_ended_at := (case ro_ended_at q of Some t \<Rightarrow> Some t | None \<Rightarrow> Some now), ro_rollback_reason := snd (evaluate_guardrails E (ro_guardrails q) ob)\<rparr> else q"
    have IH: "map_option ro_status (store_get (rd_rollouts db') i) =
        Some (if (i, u) \<in> set rs then cycle_status E metrics i u else ro_status u)"
      if "u = (if i = j then ?q else r)" for u
      by (rule Cons.IH [OF broken(3)])
        (use Cons.prems(2,4) keep status notin that q in \<open>auto simp: x roll_back_get split: option.split\<close>)
    show ?thesis
    proof (cases "i = j")
      case True
      with IH [of ?q] notin status show ?thesis by (auto simp: x cycle_status_def broken)
    next
      case False
      with IH [of r] show ?thesis by (simp add: x)
    qed
  qed
qed simp

text \<open>
  C13: Guardrails are enforced exactly. After a cycle of the rollout observer that ran to its end, a
  rollout is rolled back when it was active, not in shadow mode and one of its measured values
  broke a guardrail, and every other rollout keeps its status.
\<close>

theorem guardrails_enforced:
  assumes "observe_rollouts E P now metrics db = (True, db')" "store_wf (rd_rollouts db)"
    and "store_get (rd_rollouts db) i = Some r"
  shows "map_option ro_status (store_get (rd_rollouts db') i) =
    Some (if ro_status r = ''active'' \<and> ro_mode r \<noteq> ''shadow''
             \<and> (\<exists>ob. metrics i = Inr (Some ob) \<and> guard_broken E (ro_guardrails r) ob)
          then ''rolled_back'' else ro_status r)"
proof -
  have run: "observe_rows E P now 1 metrics (observed_rows db) db = (True, db')"
    using assms(1) by (simp add: observe_rollouts_def split: if_splits)
  have set: "set (observed_rows db) = {(j, q) \<in> set (rd_rollouts db). ro_status q = ''active'' \<and> ro_mode q \<noteq> ''shadow''}"
    by (auto simp: observed_rows_def)
  have dist: "distinct (map fst (observed_rows db))"
    using assms(2) by (auto simp: observed_rows_def store_wf_def distinct_map intro: inj_on_subset)
  have get: "store_get (rd_rollouts db) j = Some q" if "(j, q) \<in> set (rd_rollouts db)" for j q
    using assms(2) that by (simp add: store_get_def store_wf_def)
  have mem: "(i, r) \<in> set (rd_rollouts db)"
    using assms(3) by (auto simp: store_get_def dest: map_of_SomeD)
  from observe_rows_status [OF run dist _ assms(3)] get set
  have "map_option ro_status (store_get (rd_rollouts db') i) =
    Some (if (i, r) \<in> set (observed_rows db) then cycle_status E metrics i r else ro_status r)" by auto
  with mem show ?thesis
    by (auto simp: set cycle_status_def split: sum.splits option.splits)
qed

definition demo_rollouts :: rollout_db where
  "demo_rollouts = \<lparr>rd_rollouts = [(1, \<lparr>ro_status = ''active'', ro_mode = ''canary'',
      ro_guardrails = [(''max_failure_rate'', MFloat (1 / 8))], ro_started_at = 0, ro_ended_at = None, ro_rollback_reason = []\<rparr>)],
     rd_observations = []\<rparr>"

definition demo_metrics :: "uuid \<Rightarrow> unit + observation option" where
  "demo_metrics i = Inr (Some \<lparr>ob_failure_rate = Some (1 / 4), ob_one_legged_rate = None,
     ob_drawdown_pct = None, ob_latency_p90_ms = None, ob_edge_capture_ratio = None\<rparr>)"

theorem guardrails_enforced_witness:
  "map_option ro_status (store_get (rd_rollouts (snd (observe_rollouts exact_env pg_exact 0 demo_metrics demo_rollouts))) 1)
     = Some ''rolled_back''"
proof -
  let ?r = "\<lparr>ro_status = ''active'', ro_mode = ''canary'',
      ro_guardrails = [(''max_failure_rate'', MFloat (1 / 8))], ro_started_at = 0, ro_ended_at = None, ro_rollback_reason = []\<rparr>"
  obtain ok db' where run: "observe_rollouts exact_env pg_exact 0 demo_metrics demo_rollouts = (ok, db')" by fastforce
  then have "ok"
    by (auto simp: observe_rollouts_def observed_rows_def demo_rollouts_def demo_metrics_def Let_def
        split: prod.splits if_splits)
  with run have run: "observe_rollouts exact_env pg_exact 0 demo_metrics demo_rollouts = (True, db')" by simp
  have "guard_broken exact_env (ro_guardrails ?r) \<lparr>ob_failure_rate = Some (1 / 4), ob_one_legged_rate = None,
     ob_drawdown_pct = None, ob_latency_p90_ms = None, ob_edge_capture_ratio = None\<rparr>"
    by (simp add: guard_broken_def over_limit_def meta_f64_def)
  then show ?thesis
    using guardrails_enforced [OF run, of 1 ?r] run
    by (simp add: demo_rollouts_def store_wf_def demo_metrics_def)
qed

end
