(* ===== verification/Signals.thy ===== *)
theory Signals
  imports Rollouts
begin

section \<open>Quantitative signals\<close>

text \<open>
  Model of \<open>crates/polymarket-core/src/types/signal.rs\<close>: what the signal generators hand to the
  quant executor. The random id and the clock are arguments.
\<close>

datatype QuantSignalKind = Flow | CrossMarket | MeanReversion | ResolutionProximity

fun quant_kind_str :: "QuantSignalKind \<Rightarrow> string" where
  "quant_kind_str Flow = ''flow''"
| "quant_kind_str CrossMarket = ''cross_market''"
| "quant_kind_str MeanReversion = ''mean_reversion''"
| "quant_kind_str ResolutionProximity = ''resolution_proximity''"

datatype SignalDirection = BuyYes | BuyNo

fun direction_str :: "SignalDirection \<Rightarrow> string" where
  "direction_str BuyYes = ''buy_yes''"
| "direction_str BuyNo = ''buy_no''"

record QuantSignal =
  qs_id :: uuid
  qs_kind :: QuantSignalKind
  qs_condition_id :: string
  qs_direction :: SignalDirection
  qs_confidence :: f64
  qs_suggested_size_usd :: decimal
  qs_expiry :: datetime
  qs_metadata :: metadata
  qs_generated_at :: datetime

definition new_quant_signal ::
  "uuid \<Rightarrow> datetime \<Rightarrow> QuantSignalKind \<Rightarrow> string \<Rightarrow> SignalDirection \<Rightarrow> f64 \<Rightarrow> decimal \<Rightarrow> datetime \<Rightarrow> QuantSignal" where
  "new_quant_signal i now kind condition direction confidence suggested expiry =
     \<lparr>qs_id = i, qs_kind = kind, qs_condition_id = condition, qs_direction = direction,
      qs_confidence = min (max confidence 0) 1, qs_suggested_size_usd = suggested, qs_expiry = expiry,
      qs_metadata = [], qs_generated_at = now\<rparr>"

definition signal_with_metadata :: "metadata \<Rightarrow> QuantSignal \<Rightarrow> QuantSignal" where
  "signal_with_metadata m q = q\<lparr>qs_metadata := m\<rparr>"

definition is_expired :: "datetime \<Rightarrow> QuantSignal \<Rightarrow> bool" where
  "is_expired now q \<longleftrightarrow> qs_expiry q < now"

definition meets_confidence :: "f64 \<Rightarrow> QuantSignal \<Rightarrow> bool" where
  "meets_confidence least q \<longleftrightarrow> least \<le> qs_confidence q"

datatype SignalExecutionStatus = SignalPending | SignalExecuted | SignalSkipped | SignalFailed

fun signal_status_str :: "SignalExecutionStatus \<Rightarrow> string" where
  "signal_status_str SignalPending = ''pending''"
| "signal_status_str SignalExecuted = ''executed''"
| "signal_status_str SignalSkipped = ''skipped''"
| "signal_status_str SignalFailed = ''failed''"

subsection \<open>Facts\<close>

lemma new_signal_confidence: "0 \<le> qs_confidence (new_quant_signal i now k c d x u e) \<and> qs_confidence (new_quant_signal i now k c d x u e) \<le> 1"
  by (simp add: new_quant_signal_def)

lemma quant_kind_str_inj: "quant_kind_str k = quant_kind_str l \<Longrightarrow> k = l"
  by (cases k; cases l) simp_all

end
