(* ===== verification/Strategy_Risk.thy ===== *)
theory Strategy_Risk
  imports Signals
begin

section \<open>The breaker of a quant strategy\<close>

text \<open>
  Model of \<open>StrategyState\<close> in \<open>crates/api-server/src/quant_signal_executor.rs\<close>: the daily P\&L and the
  losing streak of one kind of signal, the halt they lead to, the cooldown after which a halt for
  a losing streak is lifted, and the table \<open>strategy_risk_state\<close>. The code keeps the reason of a
  halt as text and tells the two kinds apart by the prefix \<open>consecutive_losses:\<close>; here it is a value.
\<close>

datatype HaltReason = DailyLoss decimal decimal | LossStreak u32 u32

record StrategyState =
  ss_daily_pnl :: decimal
  ss_daily_pnl_date :: int
  ss_losses :: u32
  ss_halted :: bool
  ss_halt_reason :: "HaltReason option"
  ss_halted_at :: "datetime option"

definition new_strategy :: "datetime \<Rightarrow> StrategyState" where
  "new_strategy now = \<lparr>ss_daily_pnl = 0, ss_daily_pnl_date = date_naive now, ss_losses = 0, ss_halted = False,
     ss_halt_reason = None, ss_halted_at = None\<rparr>"

fun is_streak :: "HaltReason option \<Rightarrow> bool" where
  "is_streak (Some (LossStreak _ _)) = True"
| "is_streak _ = False"

text \<open>\<open>halt_cooldown_secs as i64\<close> is the signed reading of the same bits.\<close>

definition cooldown_elapsed :: "datetime \<Rightarrow> u64 \<Rightarrow> StrategyState \<Rightarrow> bool" where
  "cooldown_elapsed now cooldown st =
     (case ss_halted_at st of None \<Rightarrow> False | Some t \<Rightarrow> sint cooldown \<le> num_seconds (now - t))"

definition strategy_refresh :: "datetime \<Rightarrow> u64 \<Rightarrow> StrategyState \<Rightarrow> StrategyState" where
  "strategy_refresh now cooldown st =
     (if date_naive now \<noteq> ss_daily_pnl_date st
      then st\<lparr>ss_daily_pnl := 0, ss_daily_pnl_date := date_naive now, ss_losses := 0, ss_halted := False,
             ss_halt_reason := None, ss_halted_at := None\<rparr>
      else if \<not> ss_halted st \<or> cooldown = 0 then st
      else if cooldown_elapsed now cooldown st \<and> is_streak (ss_halt_reason st)
      then st\<lparr>ss_halted := False, ss_halt_reason := None, ss_halted_at := None, ss_losses := 0\<rparr>
      else st)"

definition record_outcome :: "num_env \<Rightarrow> datetime \<Rightarrow> decimal \<Rightarrow> decimal \<Rightarrow> u32 \<Rightarrow> StrategyState \<Rightarrow> bool \<times> StrategyState" where
  "record_outcome E now pnl max_daily_loss max_losses st =
     (let st1 = strategy_refresh now 0 st;
          st2 = st1\<lparr>ss_daily_pnl := dadd E (ss_daily_pnl st1) pnl,
                    ss_losses := if 0 < pnl then 0 else ss_losses st1 + 1\<rparr>
      in if ss_daily_pnl st2 < - max_daily_loss
         then (True, st2\<lparr>ss_halted := True, ss_halt_reason := Some (DailyLoss (ss_daily_pnl st2) max_daily_loss),
                        ss_halted_at := Some now\<rparr>)
         else if max_losses \<le> ss_losses st2
         then (True, st2\<lparr>ss_halted := True, ss_halt_reason := Some (LossStreak (ss_losses st2) max_losses),
                        ss_halted_at := Some now\<rparr>)
         else (False, st2))"

subsection \<open>The table\<close>

record strategy_row =
  sr_daily_pnl :: decimal
  sr_daily_pnl_date :: int
  sr_consecutive_losses :: i32
  sr_halted :: bool
  sr_halt_reason :: "HaltReason option"
  sr_halted_at :: "datetime option"

text \<open>The casts \<open>as i32\<close> and \<open>as u32\<close> keep the bits.\<close>

definition row_of_strategy :: "pg_env \<Rightarrow> StrategyState \<Rightarrow> strategy_row" where
  "row_of_strategy P st = \<lparr>sr_daily_pnl = pg_dec P (ss_daily_pnl st), sr_daily_pnl_date = ss_daily_pnl_date st,
     sr_consecutive_losses = ucast (ss_losses st), sr_halted = ss_halted st, sr_halt_reason = ss_halt_reason st,
     sr_halted_at = map_option (pg_ts P) (ss_halted_at st)\<rparr>"

definition strategy_of_row :: "strategy_row \<Rightarrow> StrategyState" where
  "strategy_of_row r = \<lparr>ss_daily_pnl = sr_daily_pnl r, ss_daily_pnl_date = sr_daily_pnl_date r,
     ss_losses = ucast (sr_consecutive_losses r), ss_halted = sr_halted r, ss_halt_reason = sr_halt_reason r,
     ss_halted_at = sr_halted_at r\<rparr>"

text \<open>A failure of either statement is logged; then nothing is stored, or the default is used.\<close>

definition strategy_persist :: "pg_env \<Rightarrow> string \<Rightarrow> StrategyState \<Rightarrow> (string, strategy_row) store \<Rightarrow> (string, strategy_row) store" where
  "strategy_persist P name st t = (if pg_ok P 0 then store_insert name (row_of_strategy P st) t else t)"

definition strategy_load :: "pg_env \<Rightarrow> datetime \<Rightarrow> string \<Rightarrow> (string, strategy_row) store \<Rightarrow> StrategyState" where
  "strategy_load P now name t =
     (if \<not> pg_ok P 0 then new_strategy now
      else case store_get t name of Some r \<Rightarrow> strategy_of_row r | None \<Rightarrow> new_strategy now)"

subsection \<open>The state after the outcomes of a day\<close>

definition run_outcomes ::
  "num_env \<Rightarrow> decimal \<Rightarrow> u32 \<Rightarrow> (datetime \<times> decimal) list \<Rightarrow> StrategyState \<Rightarrow> StrategyState" where
  "run_outcomes E max_daily_loss max_losses evs st =
     fold (\<lambda>(t, pnl) st. snd (record_outcome E t pnl max_daily_loss max_losses st)) evs st"

text \<open>The losses since the last win, and the two limits on the outcomes so far.\<close>

definition streak :: "decimal list \<Rightarrow> nat" where
  "streak pnls = length (takeWhile (\<lambda>x. x \<le> 0) (rev pnls))"

definition breach :: "num_env \<Rightarrow> decimal \<Rightarrow> u32 \<Rightarrow> decimal list \<Rightarrow> bool" where
  "breach E max_daily_loss max_losses pnls \<longleftrightarrow>
     dsum E pnls < - max_daily_loss \<or> unat max_losses \<le> streak pnls"

lemma streak_simps [simp]:
  "streak [] = 0" "streak (pnls @ [x]) = (if 0 < x then 0 else Suc (streak pnls))"
  by (auto simp: streak_def not_less)

lemma streak_le: "streak pnls \<le> length pnls"
  by (metis streak_def length_takeWhile_le length_rev)

lemma record_outcome_same_day:
  assumes "ss_daily_pnl_date st = date_naive t" "unat (ss_losses st) < 2 ^ 32 - 1"
    and "record_outcome E t x maxd maxn st = (b, st')"
  shows "ss_daily_pnl st' = dadd E (ss_daily_pnl st) x" "ss_daily_pnl_date st' = date_naive t"
    and "unat (ss_losses st') = (if 0 < x then 0 else Suc (unat (ss_losses st)))"
    and "b \<longleftrightarrow> ss_daily_pnl st' < - maxd \<or> unat maxn \<le> unat (ss_losses st')"
    and "ss_halted st' \<longleftrightarrow> b \<or> ss_halted st"
    and "ss_halted_at st' = (if b then Some t else ss_halted_at st)"
    and "ss_halt_reason st' = (if \<not> b then ss_halt_reason st else if ss_daily_pnl st' < - maxd
           then Some (DailyLoss (ss_daily_pnl st') maxd) else Some (LossStreak (ss_losses st') maxn))"
proof -
  have u: "unat (ss_losses st + 1) = Suc (unat (ss_losses st))"
    using assms(2) unat_suc [of "ss_losses st"] by simp
  show "ss_daily_pnl st' = dadd E (ss_daily_pnl st) x" "ss_daily_pnl_date st' = date_naive t"
    "unat (ss_losses st') = (if 0 < x then 0 else Suc (unat (ss_losses st)))"
    "b \<longleftrightarrow> ss_daily_pnl st' < - maxd \<or> unat maxn \<le> unat (ss_losses st')"
    "ss_halted st' \<longleftrightarrow> b \<or> ss_halted st" "ss_halted_at st' = (if b then Some t else ss_halted_at st)"
    "ss_halt_reason st' = (if \<not> b then ss_halt_reason st else if ss_daily_pnl st' < - maxd
           then Some (DailyLoss (ss_daily_pnl st') maxd) else Some (LossStreak (ss_losses st') maxn))"
    using assms(1,3) u
    by (auto simp: record_outcome_def strategy_refresh_def Let_def word_le_nat_alt split: if_splits)
qed

text \<open>What the state says about the outcomes \<open>evs\<close> of its day.\<close>

definition tallies ::
  "num_env \<Rightarrow> decimal \<Rightarrow> u32 \<Rightarrow> (datetime \<times> decimal) list \<Rightarrow> StrategyState \<Rightarrow> bool" where
  "tallies E max_daily_loss max_losses evs st \<longleftrightarrow>
     ss_daily_pnl st = dsum E (map snd evs) \<and> unat (ss_losses st) = streak (map snd evs)
     \<and> (ss_halted st \<longleftrightarrow> (\<exists>k \<in> {1..length evs}. breach E max_daily_loss max_losses (map snd (take k evs))))
     \<and> (\<forall>k \<in> {1..length evs}. breach E max_daily_loss max_losses (map snd (take k evs))
          \<and> (\<forall>l \<in> {k<..length evs}. \<not> breach E max_daily_loss max_losses (map snd (take l evs)))
          \<longrightarrow> ss_halted_at st = Some (fst (evs ! (k - 1))))"

lemma dsum_snoc [simp]: "dsum E (xs @ [x]) = dadd E (dsum E xs) x"
  by (simp add: dsum_def)

lemma tallies_snoc:
  assumes "tallies E maxd maxn evs st" "ss_daily_pnl_date st = date_naive t" "length evs < 2 ^ 32 - 1"
    and "record_outcome E t x maxd maxn st = (b, st')"
  shows "tallies E maxd maxn (evs @ [(t, x)]) st'"
proof -
  have "unat (ss_losses st) < 2 ^ 32 - 1"
    using assms(1,3) streak_le [of "map snd evs"] by (simp add: tallies_def)
  note step = record_outcome_same_day [OF assms(2) this assms(4)]
  have sums: "ss_daily_pnl st' = dsum E (map snd evs @ [x])" "unat (ss_losses st') = streak (map snd evs @ [x])"
    using assms(1) step(1,3) by (simp_all add: tallies_def)
  then have b: "b \<longleftrightarrow> breach E maxd maxn (map snd evs @ [x])" using step(4) by (simp add: breach_def)
  have top: "{1..length (evs @ [(t, x)])} = insert (Suc (length evs)) {1..length evs}" by auto
  have old: "map snd (take k (evs @ [(t, x)])) = map snd (take k evs)" if "k \<in> {1..length evs}" for k
    using that by simp
  have h: "ss_halted st' \<longleftrightarrow> (\<exists>k \<in> {1..length (evs @ [(t, x)])}. breach E maxd maxn (map snd (take k (evs @ [(t, x)]))))"
    using assms(1) step(5) b old unfolding top tallies_def by auto
  have "ss_halted_at st' = Some (fst ((evs @ [(t, x)]) ! (k - 1)))"
    if k: "k \<in> {1..length (evs @ [(t, x)])}" "breach E maxd maxn (map snd (take k (evs @ [(t, x)])))"
      and later: "\<forall>l \<in> {k<..length (evs @ [(t, x)])}. \<not> breach E maxd maxn (map snd (take l (evs @ [(t, x)])))" for k
  proof (cases "k = Suc (length evs)")
    case True
    with k(2) b step(6) show ?thesis by (simp add: nth_append)
  next
    case False
    with k(1) have k': "k \<in> {1..length evs}" by auto
    have "\<not> b" using bspec [OF later, of "Suc (length evs)"] k' b by simp
    moreover have "\<not> breach E maxd maxn (map snd (take l evs))" if "l \<in> {k<..length evs}" for l
      using bspec [OF later, of l] that k' by simp
    ultimately have "ss_halted_at st' = Some (fst (evs ! (k - 1)))"
      using assms(1) step(6) k' k(2) old [OF k'] unfolding tallies_def by (metis (no_types, lifting))
    then show ?thesis using k' by (auto simp: nth_append)
  qed
  with sums h show ?thesis by (simp add: tallies_def)
qed

lemma run_outcomes_tallies:
  assumes "\<And>t x. (t, x) \<in> set evs \<Longrightarrow> date_naive t = date_naive now" "length evs < 2 ^ 32"
  shows "tallies E maxd maxn evs (run_outcomes E maxd maxn evs (new_strategy now))
    \<and> ss_daily_pnl_date (run_outcomes E maxd maxn evs (new_strategy now)) = date_naive now"
  using assms
proof (induction evs rule: rev_induct)
  case Nil
  then show ?case by (simp add: tallies_def run_outcomes_def new_strategy_def dsum_def)
next
  case (snoc ev evs)
  obtain t x where ev: "ev = (t, x)" by fastforce
  let ?st = "run_outcomes E maxd maxn evs (new_strategy now)"
  have days: "date_naive t' = date_naive now" if "(t', x') \<in> set (evs @ [ev])" for t' x'
    using snoc.prems(1) [OF that] .
  have "tallies E maxd maxn evs ?st \<and> ss_daily_pnl_date ?st = date_naive now"
    using snoc.prems(2) by (intro snoc.IH days) auto
  with days [of t x] have IH: "tallies E maxd maxn evs ?st" "ss_daily_pnl_date ?st = date_naive t"
    by (simp_all add: ev)
  obtain b st' where r: "record_outcome E t x maxd maxn ?st = (b, st')" by fastforce
  then have run: "run_outcomes E maxd maxn (evs @ [ev]) (new_strategy now) = st'"
    by (simp add: run_outcomes_def ev)
  have "length evs < 2 ^ 32 - 1" using snoc.prems(2) by simp
  with IH r have "tallies E maxd maxn (evs @ [ev]) st'" unfolding ev by (intro tallies_snoc)
  moreover have "ss_daily_pnl_date st' = date_naive now"
    using r IH(2) days [of t x]
    by (auto simp: ev record_outcome_def strategy_refresh_def Let_def split: if_splits)
  ultimately show ?case by (simp add: run)
qed

text \<open>
  C31: The breaker of a strategy is exact. After the outcomes of one day, starting from a fresh state
  and with constant limits, the daily P\&L is their sum, the streak is the number of losses since
  the last win, and the strategy is halted exactly when some prefix of the outcomes was below
  the loss limit or reached the streak limit; the halt is dated by the last such outcome.
\<close>

theorem strategy_halt_exact:
  assumes "\<And>t x. (t, x) \<in> set evs \<Longrightarrow> date_naive t = date_naive now" "length evs < 2 ^ 32"
  shows "tallies E maxd maxn evs (run_outcomes E maxd maxn evs (new_strategy now))
    \<and> ss_daily_pnl_date (run_outcomes E maxd maxn evs (new_strategy now)) = date_naive now"
  using assms by (rule run_outcomes_tallies)

theorem strategy_halt_exact_witness:
  "tallies exact_env 200 2 [(1, - 5), (2, - 3), (3, 7)]
     (run_outcomes exact_env 200 2 [(1, - 5), (2, - 3), (3, 7)] (new_strategy 0))"
  by (rule conjunct1 [OF strategy_halt_exact]) (auto simp: date_naive_def ns_per_sec_def)

text \<open>A halt for the daily loss lasts the day, whatever the cooldown.\<close>

lemma daily_loss_halt_lasts:
  assumes "ss_halted st" "ss_halt_reason st = Some (DailyLoss a b)" "date_naive now = ss_daily_pnl_date st"
  shows "strategy_refresh now cooldown st = st"
  using assms by (simp add: strategy_refresh_def)

lemma strategy_roundtrip:
  assumes "pg_ok P 0" "pg_ok P' 0" "pg_dec P (ss_daily_pnl st) = ss_daily_pnl st"
    and "map_option (pg_ts P) (ss_halted_at st) = ss_halted_at st"
  shows "strategy_load P' now name (strategy_persist P name st t) = st"
  using assms by (simp add: strategy_load_def strategy_persist_def store_simps strategy_of_row_def row_of_strategy_def)

end
