(* ===== verification/Server.thy ===== *)
theory Server
  imports Position_Service Token_Cache Executor Circuit_Breaker Strategy_Risk
begin

section \<open>The state the server's tasks share\<close>

text \<open>
  The background tasks of \<open>crates/api-server\<close> share the order executor, the circuit breaker, the
  database, the token cache and the set of markets with an open position (\<open>arb_dedup\<close>). One task
  runs at a time: a task is a function on the shared state.

  The services around them are two parameters: \<open>A\<close> is the exchange as the executor sees it, and
  \<open>S\<close> gives the answers of the market services and of the database. Each database call draws its
  own outcome from the world. A call of the executor that blocks or diverges leaves the task
  \<open>Stuck\<close>. Heartbeats, log lines and the payload of broadcast signals are not modelled; a signal
  is its market and its action. \<open>sa_error_text\<close> and \<open>sa_svc_text\<close> are the texts of a rejected order
  and of an error of the position service, in which the formatting of Decimals is not ours; the fields with \<open>rollouts\<close> and
  \<open>score\<close> are the active rollouts and the scores of the learned models. The quant executor has a token
  cache of its own (\<open>sv_quant_tokens\<close>), the state of its strategies and the outcomes it has seen.
\<close>

datatype 'a flow = Ok 'a | Err string | Stuck

text \<open>
  The runtime status of the arbitrage executor, which the dashboard reads. The code keeps the
  text of the last decision; here it is a value.
\<close>

datatype arb_decision =
    StartedUp bool bool decimal decimal int
  | LaggedSignals nat
  | RefreshFailed string
  | SkippedStale int int
  | SkippedDisabled
  | SkippedLiveNotAcknowledged
  | SkippedMinProfit decimal decimal
  | SkippedActivePosition
  | SkippedBreaker
  | SkippedExposure decimal decimal
  | SkippedTokens
  | SkippedBooks string
  | SkippedDepth decimal decimal decimal
  | SkippedRollout string
  | SizeAdjusted decimal
  | SkippedZeroCost
  | SkippedYesAsk
  | SkippedNoAsk
  | SkippedBuyingPower decimal string
  | YesOrderRejected string
  | NoOrderRejected string
  | ExecutedPosition uuid decimal

record ArbExecutorRuntimeStatus =
  as_enabled :: bool
  as_live_ready :: bool
  signals_seen :: u64
  lagged_signals :: u64
  disabled_skips :: u64
  stale_skips :: u64
  min_profit_skips :: u64
  active_position_skips :: u64
  circuit_breaker_skips :: u64
  token_lookup_skips :: u64
  depth_skips :: u64
  zero_cost_skips :: u64
  execution_failures :: u64
  executed :: u64
  cache_refresh_failures :: u64
  last_signal_at :: "datetime option"
  last_decision_at :: "datetime option"
  as_last_market_id :: "string option"
  last_decision :: "arb_decision option"

definition default_status :: ArbExecutorRuntimeStatus where
  "default_status = \<lparr>as_enabled = False, as_live_ready = False, signals_seen = 0, lagged_signals = 0,
     disabled_skips = 0, stale_skips = 0, min_profit_skips = 0, active_position_skips = 0,
     circuit_breaker_skips = 0, token_lookup_skips = 0, depth_skips = 0, zero_cost_skips = 0,
     execution_failures = 0, executed = 0, cache_refresh_failures = 0, last_signal_at = None,
     last_decision_at = None, as_last_market_id = None, last_decision = None\<rparr>"

text \<open>A row of \<open>quant_signals\<close>; a signal has a fresh id, which is the key here.\<close>

record quant_signal_row =
  qr_kind :: string
  qr_condition_id :: string
  qr_direction :: string
  qr_confidence :: f64
  qr_size_usd :: decimal
  qr_metadata :: metadata
  qr_generated_at :: datetime
  qr_execution_status :: string
  qr_skip_reason :: "string option"
  qr_position_id :: "uuid option"

record 'w srv_api =
  sa_market :: "string \<Rightarrow> 'w \<Rightarrow> (string + Market) \<times> 'w"
  sa_gamma :: "'w \<Rightarrow> (string + Market list) \<times> 'w"
  sa_book :: "string \<Rightarrow> 'w \<Rightarrow> (string + OrderBook) \<times> 'w"
  sa_uuid :: "'w \<Rightarrow> uuid \<times> 'w"
  sa_latency :: "'w \<Rightarrow> u64"
  sa_pg :: "'w \<Rightarrow> pg_env \<times> 'w"
  sa_flow :: "string \<Rightarrow> int \<Rightarrow> 'w \<Rightarrow> decimal option"
  sa_error_text :: "order_error \<Rightarrow> string"
  sa_svc_text :: "svc_error \<Rightarrow> string"
  sa_rollouts :: "'w \<Rightarrow> ActiveRollout list option \<times> 'w"
  sa_arb_score :: "ArbOpportunity \<Rightarrow> uuid \<Rightarrow> string option"
  sa_quant_rollouts :: "'w \<Rightarrow> ActiveRollout list option \<times> 'w"
  sa_quant_score :: "QuantSignal \<Rightarrow> uuid \<Rightarrow> string option"

record 'w server =
  sv_exec :: "'w OrderExecutor"
  sv_cb :: circuit_breaker
  sv_db :: pos_db
  sv_quant :: "(uuid, quant_signal_row) store"
  sv_tokens :: token_cache
  sv_dedup :: "string set"
  sv_signals :: "(string \<times> string) list"
  sv_arb_status :: ArbExecutorRuntimeStatus
  sv_opportunities :: "ArbOpportunity list"
  sv_quant_tokens :: "(string, string \<times> string) store"
  sv_strategies :: "(QuantSignalKind, StrategyState) store"
  sv_risk_rows :: "(string, strategy_row) store"
  sv_processed :: "uuid set"
  sv_processed_date :: int

type_synonym ('w, 'a) task = "'w server \<Rightarrow> 'a flow \<times> 'w server"

definition sret :: "'a \<Rightarrow> ('w, 'a) task" where
  "sret a = (\<lambda>s. (Ok a, s))"

definition sbind :: "('w, 'a) task \<Rightarrow> ('a \<Rightarrow> ('w, 'b) task) \<Rightarrow> ('w, 'b) task" where
  "sbind m f = (\<lambda>s. case m s of
     (Ok a, s') \<Rightarrow> f a s' | (Err e, s') \<Rightarrow> (Err e, s') | (Stuck, s') \<Rightarrow> (Stuck, s'))"

definition sbranch :: "('w server \<Rightarrow> ('w, 'a) task) \<Rightarrow> ('w, 'a) task" where
  "sbranch f = (\<lambda>s. f s s)"

text \<open>Update of the state, and a call on the outside world.\<close>

definition smod :: "('w server \<Rightarrow> 'w server) \<Rightarrow> ('w, unit) task" where
  "smod f = (\<lambda>s. (Ok (), f s))"

definition srv_world :: "'w server \<Rightarrow> 'w" where
  "srv_world s = world (sv_exec s)"

definition set_world :: "'w \<Rightarrow> 'w server \<Rightarrow> 'w server" where
  "set_world w s = s\<lparr>sv_exec := (sv_exec s)\<lparr>world := w\<rparr>\<rparr>"

definition on_world :: "('w \<Rightarrow> 'a \<times> 'w) \<Rightarrow> ('w, 'a) task" where
  "on_world f = (\<lambda>s. case f (srv_world s) of (a, w) \<Rightarrow> (Ok a, set_world w s))"

definition srv_now :: "('w, 'o) clob_api \<Rightarrow> 'w server \<Rightarrow> datetime" where
  "srv_now A s = api_now A (srv_world s)"

text \<open>A call of the position service, with the outcome of its statements drawn from the world.\<close>

definition with_service ::
  "('w, 'o) clob_api \<Rightarrow> 'w srv_api
     \<Rightarrow> (pg_env \<Rightarrow> datetime \<Rightarrow> pos_db \<Rightarrow> (svc_error + 'a) \<times> Position \<times> pos_db)
     \<Rightarrow> ('w, (svc_error + 'a) \<times> Position) task" where
  "with_service A S f =
     sbind (on_world (sa_pg S)) (\<lambda>P s.
       case f P (srv_now A s) (sv_db s) of (r, p, db) \<Rightarrow> (Ok (r, p), s\<lparr>sv_db := db\<rparr>))"

text \<open>A query: \<open>None\<close> is a failed statement, which the callers pass on with \<open>?\<close>.\<close>

definition with_query ::
  "'w srv_api \<Rightarrow> (pg_env \<Rightarrow> position_table \<Rightarrow> 'a option) \<Rightarrow> ('w, 'a) task" where
  "with_query S q =
     sbind (on_world (sa_pg S)) (\<lambda>P s.
       case q P (db_positions (sv_db s)) of
         None \<Rightarrow> (Err ''database error'', s)
       | Some a \<Rightarrow> (Ok a, s))"

text \<open>The repository's update, called without the service; a failure is passed on with \<open>?\<close>.\<close>

definition save_position :: "'w srv_api \<Rightarrow> reason_codec \<Rightarrow> Position \<Rightarrow> ('w, unit) task" where
  "save_position S J p =
     sbind (on_world (sa_pg S)) (\<lambda>P s.
       case position_update P 0 J p (db_positions (sv_db s)) of
         None \<Rightarrow> (Err ''database error'', s)
       | Some t \<Rightarrow> (Ok (), s\<lparr>sv_db := (sv_db s)\<lparr>db_positions := t\<rparr>\<rparr>))"

text \<open>
  Running an order. \<open>execute_market_order\<close> has no path that returns an error: the retry loop turns
  errors into rejected reports, so the error branches of its callers never run and are not
  modelled.
\<close>

definition run_market_order ::
  "num_env \<Rightarrow> ('w, 'o) clob_api \<Rightarrow> 'w srv_api \<Rightarrow> MarketOrder \<Rightarrow> ('w, ExecutionReport) task" where
  "run_market_order E A S ord s =
     (case execute_market_order E A (sa_latency S (srv_world s)) ord (sv_exec s) of
        (Returns rep, ex) \<Rightarrow> (Ok rep, s\<lparr>sv_exec := ex\<rparr>)
      | (Blocked, ex) \<Rightarrow> (Stuck, s\<lparr>sv_exec := ex\<rparr>)
      | (Diverges, ex) \<Rightarrow> (Stuck, s\<lparr>sv_exec := ex\<rparr>))"

text \<open>\<open>circuit_breaker.record_trade\<close>; a panic in it unwinds the task.\<close>

definition breaker_record ::
  "num_env \<Rightarrow> ('w, 'o) clob_api \<Rightarrow> 'w srv_api \<Rightarrow> decimal \<Rightarrow> bool \<Rightarrow> ('w, unit) task" where
  "breaker_record E A S pnl is_win =
     sbind (on_world (sa_pg S)) (\<lambda>P s.
       case record_trade E P (srv_now A s) (srv_now A s) pnl is_win (sv_cb s) of
         (cb, Done _) \<Rightarrow> (Ok (), s\<lparr>sv_cb := cb\<rparr>)
       | (cb, Panic) \<Rightarrow> (Stuck, s\<lparr>sv_cb := cb\<rparr>))"

definition publish :: "string \<Rightarrow> string \<Rightarrow> ('w, unit) task" where
  "publish market action = smod (\<lambda>s. s\<lparr>sv_signals := sv_signals s @ [(market, action)]\<rparr>)"

text \<open>An event recorded outside the position service; a failure is only logged.\<close>

definition record_event :: "'w srv_api \<Rightarrow> NewTradeEvent \<Rightarrow> ('w, unit) task" where
  "record_event S ev =
     sbind (on_world (sa_pg S)) (\<lambda>P s. (Ok (), s\<lparr>sv_db := record_warn P 0 ev (sv_db s)\<rparr>))"

text \<open>\<open>circuit_breaker.can_trade\<close>, which may end a cooldown.\<close>

definition breaker_can_trade :: "('w, 'o) clob_api \<Rightarrow> 'w srv_api \<Rightarrow> ('w, bool) task" where
  "breaker_can_trade A S =
     sbind (on_world (sa_pg S)) (\<lambda>P s.
       case can_trade P (srv_now A s) (srv_now A s) (sv_cb s) of (cb, b) \<Rightarrow> (Ok b, s\<lparr>sv_cb := cb\<rparr>))"

definition execution_mode_of :: "'w server \<Rightarrow> string" where
  "execution_mode_of s = (if is_live_ready (sv_exec s) then ''live'' else ''paper'')"

text \<open>Failures of the cache's own statements are ignored, so one draw decides whether it stores.\<close>

definition cache_refresh :: "'w srv_api \<Rightarrow> ('w, string + unit) task" where
  "cache_refresh S =
     sbind (on_world (sa_gamma S)) (\<lambda>r.
       case r of
         Inl e \<Rightarrow> sret (Inl e)
       | Inr ms \<Rightarrow>
           sbind (on_world (sa_pg S)) (\<lambda>P s.
             (Ok (Inr ()), s\<lparr>sv_tokens := tc_refresh (pg_ok P 0) ms (sv_tokens s)\<rparr>)))"

definition cache_hydrate :: "'w srv_api \<Rightarrow> string \<Rightarrow> ('w, (string \<times> string) option) task" where
  "cache_hydrate S m =
     sbranch (\<lambda>s. case tc_get (sv_tokens s) m of
         Some ids \<Rightarrow> sret (Some ids)
       | None \<Rightarrow>
           sbind (on_world (sa_market S m)) (\<lambda>r.
             case r of
               Inl _ \<Rightarrow> sret None
             | Inr mk \<Rightarrow>
                 sbind (on_world (sa_pg S)) (\<lambda>P s'.
                   case tc_apply_market_update (pg_ok P 0) mk (sv_tokens s') of
                     (ids, tc) \<Rightarrow> (Ok ids, s'\<lparr>sv_tokens := tc\<rparr>))))"

text \<open>A loop over positions whose body's error ends it, and one that only logs the error.\<close>

fun for_each :: "('a \<Rightarrow> ('w, unit) task) \<Rightarrow> 'a list \<Rightarrow> ('w, unit) task" where
  "for_each f [] = sret ()"
| "for_each f (x # xs) = sbind (f x) (\<lambda>_. for_each f xs)"

definition log_error :: "('w, unit) task \<Rightarrow> ('w, unit) task" where
  "log_error m = (\<lambda>s. case m s of (Err _, s') \<Rightarrow> (Ok (), s') | r \<Rightarrow> r)"

subsection \<open>A sample server\<close>

text \<open>
  Services on which the properties are exercised: a database that never fails, market services
  that fail, the tokens of the market \<open>m\<close> in the cache, a paper executor on the sample exchange,
  and one exit-ready position.
\<close>

definition demo_services :: "nat srv_api" where
  "demo_services = \<lparr>sa_market = (\<lambda>_ w. (Inl ''offline'', w)), sa_gamma = (\<lambda>w. (Inl ''offline'', w)),
     sa_book = (\<lambda>_ w. (Inl ''offline'', w)), sa_uuid = (\<lambda>w. (1, w)), sa_latency = (\<lambda>_. 10),
     sa_pg = (\<lambda>w. (pg_exact, w)), sa_flow = (\<lambda>_ _ _. None),
     sa_error_text = (\<lambda>_. []), sa_svc_text = (\<lambda>_. []),
     sa_rollouts = (\<lambda>w. (None, w)), sa_arb_score = (\<lambda>_ _. None),
     sa_quant_rollouts = (\<lambda>w. (None, w)), sa_quant_score = (\<lambda>_ _. None)\<rparr>"

definition demo_exit_position :: Position where
  "demo_exit_position = (new_position exact_env 7 0 ''m'' (48 / 100) (49 / 100) 100 ExitOnCorrection)
     \<lparr>pos_state := ExitReady, held_yes_qty := 100, held_no_qty := 100\<rparr>"

definition demo_server :: "nat server" where
  "demo_server = \<lparr>sv_exec = new_executor default_executor_config 0,
     sv_cb = cb_new 0 default_config,
     sv_db = \<lparr>db_positions =
         [(7, row_of_insert pg_exact demo_codec SOURCE_ARBITRAGE None demo_exit_position)], db_events = []\<rparr>,
     sv_quant = [], sv_tokens = \<lparr>tc_tokens = [(''m'', (''yes'', ''no''))], tc_active = {''m''}, tc_conditions = []\<rparr>,
     sv_dedup = {''m''}, sv_signals = [], sv_arb_status = default_status, sv_opportunities = [],
     sv_quant_tokens = [(''m'', (''yes'', ''no''))], sv_strategies = [], sv_risk_rows = [], sv_processed = {},
     sv_processed_date = 0\<rparr>"

end
