(* ===== verification/Task_Logic.thy ===== *)
theory Task_Logic
  imports Server
begin

section \<open>Reasoning about tasks\<close>

text \<open>
  Two ways to reason about the tasks of the server. \<open>stays R m\<close> says that the task \<open>m\<close>, however it
  ends, relates its first state to its last one by \<open>R\<close>; the locales \<open>task_order\<close> and \<open>task_relation\<close> have the rules for
  composed tasks. \<open>wp m Q s\<close> says that \<open>m\<close> returns from \<open>s\<close> (it does not fail and does not get stuck)
  with a result and a state that satisfy \<open>Q\<close>; its equations follow the combinators.
\<close>

named_theorems stays_rules \<open>tasks that stay within a relation\<close>
named_theorems wp_simps \<open>weakest preconditions of the combinators\<close>

subsection \<open>Relations that every step keeps\<close>

definition stays :: "('w server \<Rightarrow> 'w server \<Rightarrow> bool) \<Rightarrow> ('w, 'a) task \<Rightarrow> bool" where
  "stays R m \<longleftrightarrow> (\<forall>s. R s (snd (m s)))"

lemma staysI: "(\<And>s. R s (snd (m s))) \<Longrightarrow> stays R m"
  by (simp add: stays_def)

lemma stays_cases:
  "(\<And>a. x = Inl a \<Longrightarrow> stays R (f a)) \<Longrightarrow> (\<And>b. x = Inr b \<Longrightarrow> stays R (g b)) \<Longrightarrow> stays R (case x of Inl a \<Rightarrow> f a | Inr b \<Rightarrow> g b)"
  "(y = None \<Longrightarrow> stays R m) \<Longrightarrow> (\<And>b. y = Some b \<Longrightarrow> stays R (h b)) \<Longrightarrow> stays R (case y of None \<Rightarrow> m | Some b \<Rightarrow> h b)"
  "(\<And>a b. z = (a, b) \<Longrightarrow> stays R (k a b)) \<Longrightarrow> stays R (case z of (a, b) \<Rightarrow> k a b)"
  "(c \<Longrightarrow> stays R m) \<Longrightarrow> (\<not> c \<Longrightarrow> stays R m') \<Longrightarrow> stays R (if c then m else m')"
  by (auto split: sum.split option.split prod.split)

lemma stays_mono: "stays R m \<Longrightarrow> (\<And>s s'. R s s' \<Longrightarrow> R' s s') \<Longrightarrow> stays R' m"
  by (simp add: stays_def)

locale task_order =
  fixes R :: "'w server \<Rightarrow> 'w server \<Rightarrow> bool"
  assumes refl: "R s s"
    and trans: "R s s' \<Longrightarrow> R s' s'' \<Longrightarrow> R s s''"
begin

lemma sret: "stays R (sret a)"
  by (simp add: stays_def sret_def refl)

lemma sbind_value: "stays R m \<Longrightarrow> (\<And>s a s'. m s = (Ok a, s') \<Longrightarrow> stays R (f a)) \<Longrightarrow> stays R (sbind m f)"
  by (auto simp: stays_def sbind_def split: prod.splits flow.splits) (metis snd_conv trans)+

lemma sbind: "stays R m \<Longrightarrow> (\<And>a. stays R (f a)) \<Longrightarrow> stays R (sbind m f)"
  by (rule sbind_value)

lemma sbranch: "(\<And>s. stays R (f s)) \<Longrightarrow> stays R (sbranch f)"
  by (simp add: stays_def sbranch_def)

lemma smod: "(\<And>s. R s (f s)) \<Longrightarrow> stays R (smod f)"
  by (simp add: stays_def smod_def)

lemma log_error: "stays R m \<Longrightarrow> stays R (log_error m)"
  by (simp add: stays_def log_error_def split: prod.splits flow.splits) (metis snd_conv)

lemma for_each: "(\<And>x. stays R (f x)) \<Longrightarrow> stays R (for_each f xs)"
  by (induction xs) (simp_all add: sret sbind)

lemma fails: "stays R (\<lambda>s. (Err e, s))"
  by (simp add: stays_def refl)

lemma updates: "(\<And>s. R s (g s)) \<Longrightarrow> stays R (\<lambda>s. (f s, g s))"
  by (simp add: stays_def)

lemmas basic = sret sbind sbranch log_error for_each fails

end

locale task_relation = task_order +
  assumes world: "R s (set_world w s)"
begin

lemma on_world: "stays R (on_world f)"
  by (auto simp: stays_def on_world_def world split: prod.splits)

lemma with_query: "stays R (with_query S q)"
  unfolding with_query_def
  by (intro sbind on_world) (auto simp: stays_def refl split: option.split)

lemmas rules = basic on_world with_query

end

lemma sbind_on_world:
  "sbind (on_world f) g s = g (fst (f (srv_world s))) (set_world (snd (f (srv_world s))) s)"
  by (simp add: sbind_def on_world_def split: prod.split)

subsection \<open>Weakest preconditions\<close>

definition wp :: "('w, 'a) task \<Rightarrow> ('a \<Rightarrow> 'w server \<Rightarrow> bool) \<Rightarrow> 'w server \<Rightarrow> bool" where
  "wp m Q s = (case m s of (Ok a, s') \<Rightarrow> Q a s' | (Err _, _) \<Rightarrow> False | (Stuck, _) \<Rightarrow> False)"

lemma wp_sret [wp_simps]: "wp (sret a) Q s = Q a s"
  by (simp add: wp_def sret_def)

lemma wp_sbind [wp_simps]: "wp (sbind m f) Q s = wp m (\<lambda>a. wp (f a) Q) s"
  by (simp add: wp_def sbind_def split: prod.splits flow.splits)

lemma wp_sbranch [wp_simps]: "wp (sbranch f) Q s = wp (f s) Q s"
  by (simp add: wp_def sbranch_def)

lemma wp_smod [wp_simps]: "wp (smod f) Q s = Q () (f s)"
  by (simp add: wp_def smod_def)

lemma wp_publish [wp_simps]: "wp (publish m a) Q s = Q () (s\<lparr>sv_signals := sv_signals s @ [(m, a)]\<rparr>)"
  by (simp add: publish_def wp_simps)

lemma wp_on_world [wp_simps]:
  "wp (on_world f) Q s = Q (fst (f (srv_world s))) (set_world (snd (f (srv_world s))) s)"
  by (simp add: wp_def on_world_def split: prod.splits)

lemma wp_if [wp_simps]: "wp (if b then m else m') Q s = (if b then wp m Q s else wp m' Q s)"
  by simp

lemma wp_mono: "wp m Q s \<Longrightarrow> (\<And>a s'. Q a s' \<Longrightarrow> Q' a s') \<Longrightarrow> wp m Q' s"
  by (auto simp: wp_def split: prod.splits flow.splits)

lemma wp_run: "wp m Q s \<longleftrightarrow> (\<exists>a s'. m s = (Ok a, s') \<and> Q a s')"
  by (auto simp: wp_def split: prod.splits flow.splits)

text \<open>A state that differs from another one by the outside world, the cache and the signals only.\<close>

definition quiet :: "'w server \<Rightarrow> 'w server \<Rightarrow> bool" where
  "quiet s s' \<longleftrightarrow> sv_db s' = sv_db s \<and> sv_cb s' = sv_cb s \<and> sv_dedup s' = sv_dedup s
     \<and> sv_quant s' = sv_quant s \<and> (\<exists>w. sv_exec s' = (sv_exec s)\<lparr>world := w\<rparr>)"

lemma quiet_refl [simp]: "quiet s s"
  unfolding quiet_def by (intro conjI refl exI [of _ "world (sv_exec s)"]) simp

lemma quiet_trans: "quiet s s' \<Longrightarrow> quiet s' s'' \<Longrightarrow> quiet s s''"
  by (auto simp: quiet_def)

lemma quiet_world [simp]: "quiet s (set_world w s)"
  by (auto simp: quiet_def set_world_def)

interpretation quiet_rel: task_relation quiet
  by unfold_locales (auto intro: quiet_trans)

lemma quiet_tokens [simp]: "quiet s (s\<lparr>sv_tokens := t\<rparr>)"
  unfolding quiet_def by (intro conjI exI [of _ "world (sv_exec s)"]) simp_all

lemma quiet_cache_refresh: "stays quiet (cache_refresh S)"
  unfolding cache_refresh_def
  by (intro quiet_rel.rules stays_cases quiet_rel.updates) simp

lemma quiet_cache_hydrate: "stays quiet (cache_hydrate S m)"
  unfolding cache_hydrate_def
  by (intro quiet_rel.rules stays_cases) (simp add: stays_def split: prod.split)

subsection \<open>The columns of an entry\<close>

definition entries_kept :: "'w server \<Rightarrow> 'w server \<Rightarrow> bool" where
  "entries_kept s s' \<longleftrightarrow> table_kept (db_positions (sv_db s)) (db_positions (sv_db s'))"

interpretation entries: task_relation entries_kept
  by unfold_locales (auto simp: entries_kept_def set_world_def intro: table_kept_trans)

lemma entries_quiet: "stays quiet m \<Longrightarrow> stays entries_kept m"
  by (erule stays_mono) (simp add: quiet_def entries_kept_def)

lemma entries_service:
  assumes "\<And>P now db. table_kept (db_positions db) (db_positions (snd (snd (f P now db))))"
  shows "stays entries_kept (with_service A S f)"
  unfolding with_service_def
proof (intro entries.rules)
  fix P
  show "stays entries_kept (\<lambda>s. case f P (srv_now A s) (sv_db s) of (r, p, db) \<Rightarrow> (Ok (r, p), s\<lparr>sv_db := db\<rparr>))"
    using assms by (auto simp: stays_def entries_kept_def split: prod.split) (metis snd_conv)
qed

lemma entries_order: "stays entries_kept (run_market_order E A S ord)"
  by (auto simp: stays_def run_market_order_def entries_kept_def split: prod.split ended.split)

lemma entries_breaker: "stays entries_kept (breaker_record E A S pnl w)"
  unfolding breaker_record_def
  by (intro entries.rules) (auto simp: stays_def entries_kept_def split: prod.split outcome.split)

lemma entries_mods [intro]:
  "stays entries_kept (smod (\<lambda>s. s\<lparr>sv_tokens := f s\<rparr>))"
  "stays entries_kept (smod (\<lambda>s. s\<lparr>sv_dedup := g s\<rparr>))"
  "stays entries_kept (publish m a)"
  "stays entries_kept (smod (\<lambda>s. s\<lparr>sv_arb_status := h s\<rparr>))"
  by (auto simp: publish_def entries_kept_def intro!: entries.smod)

lemmas entries_intros = entries.rules stays_cases entries_service [OF svc_kept(1)]
  entries_service [OF svc_kept(2)] entries_service [OF svc_kept(3)] entries_service [OF svc_kept(4)]
  entries_service [OF svc_kept(5)] entries_service [OF svc_kept(6)] entries_service [OF svc_kept(7)]
  entries_service [OF svc_kept(8)] entries_service [OF svc_kept(9)] entries_service [OF svc_kept(10)]
  entries_order entries_breaker entries_mods entries_quiet [OF quiet_cache_refresh]
  entries_quiet [OF quiet_cache_hydrate]

subsection \<open>A database that answers\<close>

definition reliable :: "'w srv_api \<Rightarrow> bool" where
  "reliable S \<longleftrightarrow> (\<forall>w i. pg_ok (fst (sa_pg S w)) i)"

lemma wp_with_service:
  assumes "reliable S"
    and "\<And>P now s1 r p db. (\<And>i. pg_ok P i) \<Longrightarrow> quiet s s1 \<Longrightarrow> f P now (sv_db s) = (r, p, db) \<Longrightarrow>
       Q (r, p) (s1\<lparr>sv_db := db\<rparr>)"
  shows "wp (with_service A S f) Q s"
proof -
  let ?P = "fst (sa_pg S (srv_world s))" and ?s = "set_world (snd (sa_pg S (srv_world s))) s"
  obtain r p db where f: "f ?P (srv_now A ?s) (sv_db s) = (r, p, db)" by (metis prod_cases3)
  have "Q (r, p) (?s\<lparr>sv_db := db\<rparr>)"
    by (rule assms(2) [OF _ _ f]) (use assms(1) in \<open>simp_all add: reliable_def\<close>)
  with f show ?thesis
    by (simp only: with_service_def wp_sbind wp_on_world) (simp add: wp_def set_world_def)
qed

lemma save_and_record_ok:
  assumes "\<And>i. pg_ok P i" "store_get (db_positions db) (pos_id p) = Some r"
  shows "save_and_record P J ev a p db =
    (Inr a, p, db\<lparr>db_positions := store_insert (pos_id p) (row_of_update P J p r) (db_positions db),
                   db_events := db_events db @ [ev]\<rparr>)"
  using assms by (simp add: save_and_record_def position_update_def record_warn_def)

text \<open>The executor can run \<open>n\<close> more orders and the breaker can take a trade.\<close>

definition executor_room :: "nat \<Rightarrow> 'w server \<Rightarrow> bool" where
  "executor_room n s \<longleftrightarrow> max_retries (ex_config (sv_exec s)) \<noteq> - 1 \<and> report_rx (sv_exec s) \<noteq> Dropped
     \<and> length (report_queue (sv_exec s)) + n \<le> REPORT_CAPACITY"

definition breaker_sane :: "circuit_breaker \<Rightarrow> bool" where
  "breaker_sane cb \<longleftrightarrow>
     (case recovery_state (cb_state cb) of None \<Rightarrow> True | Some r \<Rightarrow> total_stages r \<noteq> 0)"

lemma executor_room_quiet: "quiet s s' \<Longrightarrow> executor_room n s' = executor_room n s"
  by (auto simp: quiet_def executor_room_def)

lemma wp_run_market_order:
  assumes "executor_room (Suc n) s"
    and "\<And>rep ex. execute_market_order E A (sa_latency S (srv_world s)) ord (sv_exec s) = (Returns rep, ex)
       \<Longrightarrow> executor_room n (s\<lparr>sv_exec := ex\<rparr>) \<Longrightarrow> Q rep (s\<lparr>sv_exec := ex\<rparr>)"
  shows "wp (run_market_order E A S ord) Q s"
proof -
  have retries: "max_retries (ex_config (sv_exec s)) \<noteq> - 1" using assms(1) by (simp add: executor_room_def)
  obtain rep ex1 where run: "execute_market_order E A (sa_latency S (srv_world s)) ord (sv_exec s) =
      finish_with rep ex1" and same: "ex_config ex1 = ex_config (sv_exec s)"
    "report_rx ex1 = report_rx (sv_exec s)" "report_queue ex1 = report_queue (sv_exec s)"
    by (rule execute_market_order_sends [OF retries])
  with assms(1) have fin: "finish_with rep ex1 = (Returns rep, ex1\<lparr>report_queue := report_queue ex1 @ [rep]\<rparr>)"
    by (intro finish_with_cases) (simp_all add: executor_room_def)
  then have "executor_room n (s\<lparr>sv_exec := ex1\<lparr>report_queue := report_queue ex1 @ [rep]\<rparr>\<rparr>)"
    using assms(1) same by (simp add: executor_room_def)
  with assms(2) run fin have "Q rep (s\<lparr>sv_exec := ex1\<lparr>report_queue := report_queue ex1 @ [rep]\<rparr>\<rparr>)"
    by simp
  with run fin show ?thesis by (simp add: wp_def run_market_order_def)
qed

lemma record_trade_recovery_done:
  "total_stages r \<noteq> 0 \<Longrightarrow> \<exists>t. snd (record_trade_recovery E P now pnl w r cb) = Done t"
  by (simp add: record_trade_recovery_def capacity_pct_def Let_def)

lemma record_trade_done:
  assumes "breaker_sane cb"
  shows "\<exists>t. snd (record_trade E P now now' pnl w cb) = Done t"
proof -
  let ?s = "apply_trade E pnl w (roll_over now (cb_state cb))"
  have "recovery_state ?s = recovery_state (cb_state cb)"
    by (simp add: apply_trade_def roll_over_def Let_def)
  with assms have "total_stages r \<noteq> 0" if "recovery_state ?s = Some r" for r
    using that by (simp add: breaker_sane_def)
  then show ?thesis
    by (simp add: record_trade_def Let_def record_trade_recovery_done split: option.split)
qed

lemma wp_breaker_record:
  assumes "breaker_sane (sv_cb s)"
    and "\<And>P now s1. quiet s s1 \<Longrightarrow>
       Q () (s1\<lparr>sv_cb := fst (record_trade E P now now pnl w (sv_cb s))\<rparr>)"
  shows "wp (breaker_record E A S pnl w) Q s"
proof -
  let ?P = "fst (sa_pg S (srv_world s))" and ?s = "set_world (snd (sa_pg S (srv_world s))) s"
  obtain cb t where r: "record_trade E ?P (srv_now A ?s) (srv_now A ?s) pnl w (sv_cb s) = (cb, Done t)"
    by (metis record_trade_done [OF assms(1)] prod.collapse)
  have "Q () (?s\<lparr>sv_cb := cb\<rparr>)"
    using assms(2) [of ?s ?P "srv_now A ?s"] r by simp
  with r show ?thesis
    by (simp only: breaker_record_def wp_sbind wp_on_world) (simp add: wp_def set_world_def)
qed

subsection \<open>Following one position\<close>

text \<open>
  Since the state \<open>s0\<close> only the row \<open>i\<close> was written; the executor has room for \<open>n\<close> more orders.
\<close>

definition tracked :: "nat \<Rightarrow> uuid \<Rightarrow> 'w server \<Rightarrow> 'w server \<Rightarrow> bool" where
  "tracked n i s0 s \<longleftrightarrow> executor_room n s \<and> sv_cb s = sv_cb s0 \<and> sv_dedup s = sv_dedup s0
     \<and> sv_quant s = sv_quant s0 \<and> store_get (db_positions (sv_db s)) i \<noteq> None
     \<and> (store_wf (db_positions (sv_db s0)) \<longrightarrow> store_wf (db_positions (sv_db s)))
     \<and> (\<forall>j. j \<noteq> i \<longrightarrow> store_get (db_positions (sv_db s)) j = store_get (db_positions (sv_db s0)) j)"

definition stored_as :: "reason_codec \<Rightarrow> Position \<Rightarrow> 'w server \<Rightarrow> bool" where
  "stored_as J p s \<longleftrightarrow> (\<exists>P r. store_get (db_positions (sv_db s)) (pos_id p) = Some (row_of_update P J p r))"

lemma tracked_quiet: "tracked n i s0 s \<Longrightarrow> quiet s s' \<Longrightarrow> tracked n i s0 s'"
  using executor_room_quiet [of s s' n] by (simp add: tracked_def quiet_def)

lemma tracked_signals [simp]: "tracked n i s0 (s\<lparr>sv_signals := x\<rparr>) = tracked n i s0 s"
  by (simp add: tracked_def executor_room_def)

lemma stored_as_signals [simp]: "stored_as J p (s\<lparr>sv_signals := x\<rparr>) = stored_as J p s"
  by (simp add: stored_as_def)

text \<open>Every method of the service refuses, or saves the position it leads to.\<close>

lemma wp_saved:
  assumes "reliable S" "tracked n i s0 s"
    and f: "\<And>P now. f P now (sv_db s) = (case h now of
        Inl e \<Rightarrow> (Inl e, q, sv_db s)
      | Inr p \<Rightarrow> save_and_record P J (ev now p) a p (sv_db s))"
    and "\<And>now p. h now = Inr p \<Longrightarrow> pos_id p = i"
    and "\<And>now p s'. h now = Inr p \<Longrightarrow> tracked n i s0 s' \<Longrightarrow> stored_as J p s' \<Longrightarrow> Q (Inr a, p) s'"
    and "\<And>now e s'. h now = Inl e \<Longrightarrow> quiet s s' \<Longrightarrow> tracked n i s0 s' \<Longrightarrow> Q (Inl e, q) s'"
  shows "wp (with_service A S f) Q s"
proof (rule wp_with_service [OF assms(1)])
  fix P now s1 r p db
  assume ok: "\<And>i. pg_ok P i" and q: "quiet s s1" and run: "f P now (sv_db s) = (r, p, db)"
  show "Q (r, p) (s1\<lparr>sv_db := db\<rparr>)"
  proof (cases "h now")
    case (Inl e)
    with run f q have "r = Inl e" "p = q" "s1\<lparr>sv_db := db\<rparr> = s1" by (auto simp: quiet_def)
    with assms(6) Inl q tracked_quiet [OF assms(2) q] show ?thesis by simp
  next
    case (Inr p')
    obtain row where row: "store_get (db_positions (sv_db s)) (pos_id p') = Some row"
      using assms(2) assms(4) [OF Inr] by (auto simp: tracked_def)
    have res: "r = Inr a" "p = p'"
      "db_positions db = store_insert i (row_of_update P J p' row) (db_positions (sv_db s))"
      using run assms(4) [OF Inr] by (auto simp: f Inr save_and_record_ok [OF ok row])
    have "tracked n i s0 (s1\<lparr>sv_db := db\<rparr>)"
      using assms(2) q tracked_quiet [OF assms(2) q]
      by (simp add: res(3) tracked_def executor_room_def store_simps quiet_def st.wf_insert)
    moreover have "stored_as J p' (s1\<lparr>sv_db := db\<rparr>)"
      using assms(4) [OF Inr] by (auto simp: stored_as_def res(3) store_simps)
    ultimately show ?thesis using assms(5) [OF Inr] res by simp
  qed
qed

lemma tracked_less: "tracked n i s0 s \<Longrightarrow> m \<le> n \<Longrightarrow> tracked m i s0 s"
  by (auto simp: tracked_def executor_room_def)

lemma wp_tracked_order:
  assumes "tracked (Suc n) i s0 s"
    and "\<And>rep s'. tracked n i s0 s' \<Longrightarrow> (is_success rep \<longrightarrow> filled_quantity rep = mo_quantity ord) \<Longrightarrow> Q rep s'"
  shows "wp (run_market_order E A S ord) Q s"
proof (rule wp_run_market_order [where n = n])
  show "executor_room (Suc n) s" using assms(1) by (simp add: tracked_def)
  fix rep ex
  assume run: "execute_market_order E A (sa_latency S (srv_world s)) ord (sv_exec s) = (Returns rep, ex)"
    and "executor_room n (s\<lparr>sv_exec := ex\<rparr>)"
  with assms(1) have "tracked n i s0 (s\<lparr>sv_exec := ex\<rparr>)" by (simp add: tracked_def)
  moreover have "is_success rep \<longrightarrow> filled_quantity rep = mo_quantity ord"
    using market_order_fills [OF run] by (auto simp: fill_market_order_def)
  ultimately show "Q rep (s\<lparr>sv_exec := ex\<rparr>)" by (rule assms(2))
qed

end
