(* ===== verification/Exit_Handler.thy ===== *)
theory Exit_Handler
  imports Task_Logic
begin

section \<open>The exit handler\<close>

text \<open>
  Model of \<open>crates/api-server/src/exit_handler.rs\<close>: the task that closes positions. One turn of its
  exit ticker promotes open positions to \<open>ExitReady\<close>, requeues failed exits, sells the legs of
  exit-ready positions and flattens one-legged entries; one turn of its resolution ticker closes
  positions of resolved markets. It drives the position service, the executor, the token cache
  and the circuit breaker of the shared state.

  The recovery of orphan wallet inventory (\<open>wallet_inventory.rs\<close>) is an argument of the tick.
\<close>

subsection \<open>Data\<close>

datatype ExitBidStatus = Available decimal decimal | ResolvedMarket | Unavailable

record ExitHandlerConfig =
  eh_enabled :: bool
  exit_poll_interval_secs :: u64
  resolution_check_secs :: u64
  quant_take_profit_pct :: decimal
  quant_stop_loss_pct :: decimal
  quant_max_hold_hours :: int
  failed_exit_retry_backoff_secs :: u64

definition default_exit_config :: ExitHandlerConfig where
  "default_exit_config = \<lparr>eh_enabled = False, exit_poll_interval_secs = 30,
     resolution_check_secs = 300, quant_take_profit_pct = dec_new 15 2,
     quant_stop_loss_pct = dec_new 10 2, quant_max_hold_hours = 24,
     failed_exit_retry_backoff_secs = 300\<rparr>"

record QuantExitContext =
  qc_signal_id :: uuid
  qc_kind :: QuantSignalKind
  qc_direction :: SignalDirection
  qc_metadata :: metadata

subsection \<open>Pure helpers\<close>

definition parse_quant_kind :: "string \<Rightarrow> QuantSignalKind option" where
  "parse_quant_kind k =
     (if k = ''flow'' then Some Flow else if k = ''mean_reversion'' then Some MeanReversion
      else if k = ''cross_market'' then Some CrossMarket
      else if k = ''resolution_proximity'' then Some ResolutionProximity else None)"

definition parse_signal_direction :: "string \<Rightarrow> SignalDirection option" where
  "parse_signal_direction d =
     (if d = ''buy_yes'' then Some BuyYes else if d = ''buy_no'' then Some BuyNo else None)"

definition infer_yes_price :: "num_env \<Rightarrow> decimal \<Rightarrow> decimal \<Rightarrow> decimal" where
  "infer_yes_price E yes_bid no_bid =
     (if 0 < yes_bid then yes_bid else if 0 < no_bid then max (dsub E 1 no_bid) 0 else 0)"

definition infer_no_price :: "num_env \<Rightarrow> decimal \<Rightarrow> decimal \<Rightarrow> decimal" where
  "infer_no_price E yes_bid no_bid =
     (if 0 < no_bid then no_bid else if 0 < yes_bid then max (dsub E 1 yes_bid) 0 else 0)"

fun direction_sign :: "SignalDirection \<Rightarrow> int" where
  "direction_sign BuyYes = 1"
| "direction_sign BuyNo = - 1"

definition json_decimal ::
  "num_env \<Rightarrow> ('w, 'o) clob_api \<Rightarrow> 'w srv_api \<Rightarrow> metadata \<Rightarrow> string \<Rightarrow> decimal option" where
  "json_decimal E A S m k =
     (case store_get m k of
        Some (MStr raw) \<Rightarrow> dec_parse A raw
      | _ \<Rightarrow> Option.bind (meta_f64 E m k) (f64_short E))"

definition json_decimal_abs ::
  "num_env \<Rightarrow> ('w, 'o) clob_api \<Rightarrow> 'w srv_api \<Rightarrow> metadata \<Rightarrow> string \<Rightarrow> decimal option" where
  "json_decimal_abs E A S m k = map_option abs (json_decimal E A S m k)"

definition mean_reversion_target_hit ::
  "num_env \<Rightarrow> ('w, 'o) clob_api \<Rightarrow> 'w srv_api \<Rightarrow> QuantExitContext \<Rightarrow> decimal \<Rightarrow> decimal \<Rightarrow> bool" where
  "mean_reversion_target_hit E A S q current_yes current_no =
     (case json_decimal E A S (qc_metadata q) ''current_price'' of
        None \<Rightarrow> False
      | Some cur \<Rightarrow> (case json_decimal E A S (qc_metadata q) ''previous_price'' of
          None \<Rightarrow> False
        | Some prev \<Rightarrow>
            let target_yes = ddiv E (dadd E cur prev) 2
            in case qc_direction q of
                 BuyYes \<Rightarrow> target_yes \<le> current_yes
               | BuyNo \<Rightarrow> max (dsub E 1 target_yes) 0 \<le> current_no))"

definition cross_market_target_hit ::
  "num_env \<Rightarrow> ('w, 'o) clob_api \<Rightarrow> 'w srv_api \<Rightarrow> QuantExitContext \<Rightarrow> decimal \<Rightarrow> bool" where
  "cross_market_target_hit E A S q current_yes =
     (case json_decimal E A S (qc_metadata q) ''lag_current_price'' of
        None \<Rightarrow> False
      | Some lag_price \<Rightarrow>
          let lead = \<bar>opt_or 0 (meta_f64 E (qc_metadata q) ''lead_change'')\<bar>;
              lag = \<bar>opt_or 0 (meta_f64 E (qc_metadata q) ''lag_change'')\<bar>
          in case f64_short E (max (fdiv E (fsub E lead lag) 2) 0) of
               None \<Rightarrow> False
             | Some gap \<Rightarrow>
                 (case qc_direction q of
                    BuyYes \<Rightarrow> dadd E lag_price gap \<le> current_yes
                  | BuyNo \<Rightarrow> current_yes \<le> max (dsub E lag_price gap) 0))"

definition resolution_lean_decay ::
  "num_env \<Rightarrow> ('w, 'o) clob_api \<Rightarrow> 'w srv_api \<Rightarrow> QuantExitContext \<Rightarrow> decimal \<Rightarrow> bool" where
  "resolution_lean_decay E A S q current_yes =
     (case json_decimal_abs E A S (qc_metadata q) ''deviation'' of
        None \<Rightarrow> False
      | Some dev \<Rightarrow> \<bar>dsub E current_yes (dec_new 50 2)\<bar> \<le> ddiv E dev 2)"

fun find_map :: "('a \<Rightarrow> 'b option) \<Rightarrow> 'a list \<Rightarrow> 'b option" where
  "find_map f [] = None"
| "find_map f (x # xs) = (case f x of Some y \<Rightarrow> Some y | None \<Rightarrow> find_map f xs)"

definition resolved_yes_winner :: "Market \<Rightarrow> bool option" where
  "resolved_yes_winner m =
     find_map (\<lambda>oc. case oc_winner oc of
         None \<Rightarrow> None
       | Some w \<Rightarrow>
           if eq_ignore_ascii_case (oc_name oc) ''yes'' then Some w
           else if eq_ignore_ascii_case (oc_name oc) ''no'' then Some (\<not> w) else None)
       (mkt_outcomes m)"

definition event_context :: "string \<Rightarrow> i16 \<Rightarrow> QuantExitContext option \<Rightarrow> EventContext" where
  "event_context mode src q =
     (case q of
        Some c \<Rightarrow> \<lparr>execution_mode = mode, strategy = quant_kind_str (qc_kind c), source_label = ''quant''\<rparr>
      | None \<Rightarrow>
          if src = SOURCE_RECOMMENDATION
          then \<lparr>execution_mode = mode, strategy = ''quant'', source_label = ''quant''\<rparr>
          else \<lparr>execution_mode = mode, strategy = ''arb'', source_label = ''arb''\<rparr>)"

subsection \<open>Exit conditions\<close>

definition generic_quant_exit ::
  "num_env \<Rightarrow> datetime \<Rightarrow> ExitHandlerConfig \<Rightarrow> Position \<Rightarrow> bool" where
  "generic_quant_exit E now cfg p =
     (let cost = entry_cost E p;
          pnl_pct = (if 0 < cost then dmul E (ddiv E (unrealized_pnl p) cost) (dec_new 100 0) else 0);
          held_hours = num_hours (now - entry_timestamp p)
      in quant_take_profit_pct cfg \<le> pnl_pct \<or> pnl_pct \<le> - quant_stop_loss_pct cfg
         \<or> quant_max_hold_hours cfg \<le> held_hours)"

text \<open>\<open>as i32\<close> keeps the low 32 bits of the window.\<close>

definition flow_strategy_exit ::
  "num_env \<Rightarrow> ('w, 'o) clob_api \<Rightarrow> 'w srv_api \<Rightarrow> 'w \<Rightarrow> Position \<Rightarrow> QuantExitContext \<Rightarrow> bool" where
  "flow_strategy_exit E A S w p q =
     (let window = (case store_get (qc_metadata q) ''window_minutes'' of Some (MInt i) \<Rightarrow> i | _ \<Rightarrow> 60);
          entry_imbalance = opt_or 0 (json_decimal_abs E A S (qc_metadata q) ''imbalance_ratio'')
      in case sa_flow S (pos_market_id p) (sint (word_of_int window :: i32)) w of
           None \<Rightarrow> False
         | Some ratio \<Rightarrow>
             let current = (if 0 < ratio then 1 else if ratio < 0 then - 1 else 0);
                 least = max (ddiv E entry_imbalance 2) (dec_new 15 2)
             in current \<noteq> 0 \<and> current \<noteq> direction_sign (qc_direction q) \<or> \<bar>ratio\<bar> < least)"

definition should_mark_exit_ready ::
  "num_env \<Rightarrow> ('w, 'o) clob_api \<Rightarrow> 'w srv_api \<Rightarrow> ExitHandlerConfig \<Rightarrow> Position \<Rightarrow> i16
     \<Rightarrow> QuantExitContext option \<Rightarrow> decimal \<Rightarrow> decimal \<Rightarrow> 'w server \<Rightarrow> bool" where
  "should_mark_exit_ready E A S cfg p src q yes_bid no_bid s =
     (if src \<noteq> SOURCE_RECOMMENDATION then 0 < unrealized_pnl p
      else if generic_quant_exit E (srv_now A s) cfg p then True
      else case q of
             None \<Rightarrow> False
           | Some c \<Rightarrow>
               let yes = infer_yes_price E yes_bid no_bid; no = infer_no_price E yes_bid no_bid
               in case qc_kind c of
                    Flow \<Rightarrow> flow_strategy_exit E A S (srv_world s) p c
                  | MeanReversion \<Rightarrow> mean_reversion_target_hit E A S c yes no
                  | CrossMarket \<Rightarrow> cross_market_target_hit E A S c yes
                  | ResolutionProximity \<Rightarrow> resolution_lean_decay E A S c yes)"

subsection \<open>Tokens, bids and contexts\<close>

text \<open>The cache, a refresh, a hydration, and the same for the market a token belongs to.\<close>

definition resolve_market_tokens :: "'w srv_api \<Rightarrow> string \<Rightarrow> ('w, (string \<times> string) option) task" where
  "resolve_market_tokens S m =
     sbranch (\<lambda>s. case tc_get (sv_tokens s) m of
         Some ids \<Rightarrow> sret (Some ids)
       | None \<Rightarrow>
           sbind (cache_refresh S) (\<lambda>_. sbranch (\<lambda>s1. case tc_get (sv_tokens s1) m of
               Some ids \<Rightarrow> sret (Some ids)
             | None \<Rightarrow>
                 sbind (cache_hydrate S m) (\<lambda>h. case h of
                     Some ids \<Rightarrow> sret (Some ids)
                   | None \<Rightarrow>
                       sbind (on_world (sa_pg S)) (\<lambda>P. sbranch (\<lambda>s2.
                         if \<not> pg_ok P 0 then (\<lambda>s3. (Err ''database error'', s3))
                         else case store_get (tc_conditions (sv_tokens s2)) m of
                           None \<Rightarrow> sret None
                         | Some cond \<Rightarrow>
                             (case tc_get (sv_tokens s2) cond of
                                Some ids \<Rightarrow>
                                  sbind (smod (\<lambda>s. s\<lparr>sv_tokens := tc_alias m ids (sv_tokens s)\<rparr>))
                                    (\<lambda>_. sret (Some ids))
                              | None \<Rightarrow>
                                  sbind (cache_hydrate S cond) (\<lambda>h2. case h2 of
                                      Some ids \<Rightarrow>
                                        sbind (smod (\<lambda>s. s\<lparr>sv_tokens := tc_alias m ids (sv_tokens s)\<rparr>))
                                          (\<lambda>_. sret (Some ids))
                                    | None \<Rightarrow> sret None))))))))"

definition load_exit_best_bid :: "'w srv_api \<Rightarrow> string \<Rightarrow> ('w, decimal option) task" where
  "load_exit_best_bid S token =
     sbind (on_world (sa_book S token)) (\<lambda>r. sret (case r of
         Inl _ \<Rightarrow> None
       | Inr book \<Rightarrow> Some (opt_or 0 (best_bid book))))"

definition exit_bid_fallback_status :: "'w srv_api \<Rightarrow> string \<Rightarrow> ('w, ExitBidStatus) task" where
  "exit_bid_fallback_status S m =
     sbind (on_world (sa_market S m)) (\<lambda>r. sret (case r of
         Inl _ \<Rightarrow> Unavailable
       | Inr mk \<Rightarrow> if mkt_resolved mk then ResolvedMarket else Unavailable))"

definition current_exit_bids :: "'w srv_api \<Rightarrow> Position \<Rightarrow> ('w, ExitBidStatus) task" where
  "current_exit_bids S p =
     sbind (resolve_market_tokens S (pos_market_id p)) (\<lambda>r. case r of
         None \<Rightarrow> sret Unavailable
       | Some (yes_token, no_token) \<Rightarrow>
           let (has_yes, has_no) = held_outcomes p
           in sbind (if has_yes then load_exit_best_bid S yes_token else sret (Some 0)) (\<lambda>y. case y of
                  None \<Rightarrow> exit_bid_fallback_status S (pos_market_id p)
                | Some yes_bid \<Rightarrow>
                    sbind (if has_no then load_exit_best_bid S no_token else sret (Some 0)) (\<lambda>n. case n of
                        None \<Rightarrow> exit_bid_fallback_status S (pos_market_id p)
                      | Some no_bid \<Rightarrow> sret (Available yes_bid no_bid))))"

definition quant_context :: "'w server \<Rightarrow> uuid \<Rightarrow> QuantExitContext option" where
  "quant_context s pid =
     Option.bind (store_get (db_positions (sv_db s)) pid) (\<lambda>row.
     Option.bind (r_source_signal_id row) (\<lambda>sid.
     Option.bind (store_get (sv_quant s) sid) (\<lambda>q.
     Option.bind (parse_quant_kind (qr_kind q)) (\<lambda>k.
     Option.bind (parse_signal_direction (qr_direction q)) (\<lambda>d.
       Some \<lparr>qc_signal_id = sid, qc_kind = k, qc_direction = d, qc_metadata = qr_metadata q\<rparr>)))))"

text \<open>\<open>load_quant_exit_context(..).await.ok().flatten()\<close>: a failed query counts as no context.\<close>

definition load_quant_exit_context :: "'w srv_api \<Rightarrow> uuid \<Rightarrow> ('w, QuantExitContext option) task" where
  "load_quant_exit_context S pid =
     sbind (on_world (sa_pg S)) (\<lambda>P s. (Ok (if pg_ok P 0 then quant_context s pid else None), s))"

text \<open>No query is made when no candidate comes from a recommendation.\<close>

definition load_quant_exit_contexts ::
  "'w srv_api \<Rightarrow> ExitCandidate list \<Rightarrow> ('w, (uuid, QuantExitContext) store) task" where
  "load_quant_exit_contexts S cands =
     (let ids = map (\<lambda>c. pos_id (xc_position c))
                  (filter (\<lambda>c. xc_source c = SOURCE_RECOMMENDATION) cands)
      in if ids = [] then sret []
         else sbind (on_world (sa_pg S)) (\<lambda>P s.
                if \<not> pg_ok P 0 then (Err ''database error'', s)
                else (Ok (List.map_filter (\<lambda>i. map_option (\<lambda>c. (i, c)) (quant_context s i)) ids), s)))"

subsection \<open>Closing by resolution\<close>

definition exit_fee :: decimal where
  "exit_fee = dec_new 2 2"

text \<open>What follows a successful close: the breaker, the dedup set, the signal.\<close>

definition after_close ::
  "num_env \<Rightarrow> ('w, 'o) clob_api \<Rightarrow> 'w srv_api \<Rightarrow> string \<Rightarrow> Position \<Rightarrow> ('w, unit) task" where
  "after_close E A S action p =
     (let pnl = opt_or 0 (realized_pnl p)
      in sbind (breaker_record E A S pnl (0 < pnl)) (\<lambda>_.
         sbind (smod (\<lambda>s. s\<lparr>sv_dedup := sv_dedup s - {pos_market_id p}\<rparr>)) (\<lambda>_.
           publish (pos_market_id p) action)))"

definition finalize_resolution_close ::
  "num_env \<Rightarrow> ('w, 'o) clob_api \<Rightarrow> 'w srv_api \<Rightarrow> reason_codec \<Rightarrow> Position \<Rightarrow> i16 \<Rightarrow> QuantExitContext option
     \<Rightarrow> bool option \<Rightarrow> ('w, bool) task" where
  "finalize_resolution_close E A S J p src q winner =
     (case (case winner of
              Some yes_wins \<Rightarrow> Some (ResolutionWithWinner yes_wins exit_fee)
            | None \<Rightarrow> if has_full_pair_exposure p then Some (ResolutionConservative exit_fee) else None) of
        None \<Rightarrow> sret False
      | Some how \<Rightarrow> sbranch (\<lambda>s.
          sbind (with_service A S (\<lambda>P now. svc_close_position E P J now how
                   (event_context (execution_mode_of s) src q) p))
            (\<lambda>(r, p'). case r of
                Inl _ \<Rightarrow> sret False
              | Inr _ \<Rightarrow> sbind (after_close E A S ''closed_via_resolution'' p') (\<lambda>_. sret True))))"

definition close_open_position_via_resolution ::
  "num_env \<Rightarrow> ('w, 'o) clob_api \<Rightarrow> 'w srv_api \<Rightarrow> reason_codec \<Rightarrow> Position \<Rightarrow> i16 \<Rightarrow> QuantExitContext option
     \<Rightarrow> ('w, bool) task" where
  "close_open_position_via_resolution E A S J p src q =
     sbind (on_world (sa_market S (pos_market_id p))) (\<lambda>r. case r of
         Inl _ \<Rightarrow> sret False
       | Inr mk \<Rightarrow>
           if \<not> mkt_resolved mk then sret False
           else finalize_resolution_close E A S J p src q (resolved_yes_winner mk))"

subsection \<open>Selling the legs\<close>

text \<open>
  \<open>execute_sell_order_with_refresh\<close>: a market order for the whole quantity. Its refresh on "404"
  sits behind an error of the executor, which never comes.
\<close>

definition execute_sell_order ::
  "num_env \<Rightarrow> ('w, 'o) clob_api \<Rightarrow> 'w srv_api \<Rightarrow> string \<Rightarrow> string \<Rightarrow> decimal \<Rightarrow> ('w, ExecutionReport) task" where
  "execute_sell_order E A S m token qty =
     sbind (on_world (sa_uuid S)) (\<lambda>oid. sbranch (\<lambda>s.
       run_market_order E A S (new_market_order oid (srv_now A s) m token Sell qty)))"

text \<open>A failed leg: the position is marked, whatever the outcome of saving it, and an alert goes out.\<close>

definition fail_exit ::
  "('w, 'o) clob_api \<Rightarrow> 'w srv_api \<Rightarrow> reason_codec \<Rightarrow> EventContext \<Rightarrow> FailureReason \<Rightarrow> Position \<Rightarrow> ('w, unit) task" where
  "fail_exit A S J ctx reason p =
     sbind (with_service A S (\<lambda>P now. svc_mark_exit_failed P J now reason ctx p))
       (\<lambda>_. publish (pos_market_id p) ''exit_failed'')"

definition leg_name :: "Leg \<Rightarrow> string" where
  "leg_name leg = (case leg of Yes \<Rightarrow> ''YES'' | No \<Rightarrow> ''NO'')"

definition sell_failure :: "'w srv_api \<Rightarrow> Leg \<Rightarrow> ExecutionReport \<Rightarrow> FailureReason" where
  "sell_failure S leg rep =
     OrderRejected (leg_name leg @ '' sell failed: '' @
       (case error_message rep of
          Some e \<Rightarrow> sa_error_text S e | None \<Rightarrow> leg_name leg @ '' sell not filled''))"

text \<open>
  What follows the report on a leg: \<open>None\<close> when it failed and was dealt with, otherwise the
  position after the recorded fill.
\<close>

definition settle_leg ::
  "num_env \<Rightarrow> ('w, 'o) clob_api \<Rightarrow> 'w srv_api \<Rightarrow> reason_codec \<Rightarrow> EventContext \<Rightarrow> Leg \<Rightarrow> Position
     \<Rightarrow> ExecutionReport \<Rightarrow> ('w, Position option) task" where
  "settle_leg E A S J ctx leg p rep =
     (if \<not> is_success rep
      then sbind (fail_exit A S J ctx (sell_failure S leg rep) p) (\<lambda>_. sret None)
      else
        sbind (with_service A S (\<lambda>P now. svc_record_exit_fill E P J now leg (average_price rep)
                 (filled_quantity rep) ctx p)) (\<lambda>(r, p'). case r of
            Inl e \<Rightarrow> sbind (fail_exit A S J ctx
                (UnknownFailure (''failed to record '' @ leg_name leg @ '' exit fill: '' @ sa_svc_text S e)) p')
                (\<lambda>_. sret None)
          | Inr _ \<Rightarrow> sret (Some p')))"

definition exit_leg ::
  "num_env \<Rightarrow> ('w, 'o) clob_api \<Rightarrow> 'w srv_api \<Rightarrow> reason_codec \<Rightarrow> EventContext \<Rightarrow> Leg \<Rightarrow> string \<Rightarrow> Position
     \<Rightarrow> ('w, Position option) task" where
  "exit_leg E A S J ctx leg token p =
     sbind (execute_sell_order E A S (pos_market_id p) token (quantity p)) (settle_leg E A S J ctx leg p)"

definition NO_TOKENS :: FailureReason where
  "NO_TOKENS = ConnectivityError ''No token IDs for market''"

text \<open>The legs that are still held, YES first, and the close when both are done.\<close>

definition sell_legs ::
  "num_env \<Rightarrow> ('w, 'o) clob_api \<Rightarrow> 'w srv_api \<Rightarrow> reason_codec \<Rightarrow> EventContext \<Rightarrow> string \<times> string \<Rightarrow> Position
     \<Rightarrow> ('w, Position option) task" where
  "sell_legs E A S J ctx tokens p =
     (let (has_yes, has_no) = held_outcomes p
      in sbind (if has_yes then exit_leg E A S J ctx Yes (fst tokens) p else sret (Some p)) (\<lambda>r. case r of
           None \<Rightarrow> sret None
         | Some p1 \<Rightarrow> if has_no then exit_leg E A S J ctx No (snd tokens) p1 else sret (Some p1)))"

definition finish_exit ::
  "num_env \<Rightarrow> ('w, 'o) clob_api \<Rightarrow> 'w srv_api \<Rightarrow> reason_codec \<Rightarrow> EventContext \<Rightarrow> string \<times> string \<Rightarrow> Position
     \<Rightarrow> ('w, unit) task" where
  "finish_exit E A S J ctx tokens p1 =
     sbind (sell_legs E A S J ctx tokens p1) (\<lambda>o2. case o2 of
         None \<Rightarrow> sret ()
       | Some p2 \<Rightarrow>
           sbind (with_service A S (\<lambda>P now. svc_close_position E P J now (MarketExit exit_fee) ctx p2))
             (\<lambda>(r2, p3). case r2 of
                 Inl _ \<Rightarrow> sret ()
               | Inr _ \<Rightarrow> after_close E A S ''closed_via_exit'' p3))"

definition exit_closing ::
  "num_env \<Rightarrow> ('w, 'o) clob_api \<Rightarrow> 'w srv_api \<Rightarrow> reason_codec \<Rightarrow> EventContext \<Rightarrow> Position \<Rightarrow> ('w, unit) task" where
  "exit_closing E A S J ctx p1 =
     sbind (resolve_market_tokens S (pos_market_id p1)) (\<lambda>t. case t of
         None \<Rightarrow> fail_exit A S J ctx NO_TOKENS p1
       | Some tokens \<Rightarrow> finish_exit E A S J ctx tokens p1)"

definition execute_exit ::
  "num_env \<Rightarrow> ('w, 'o) clob_api \<Rightarrow> 'w srv_api \<Rightarrow> reason_codec \<Rightarrow> Position \<Rightarrow> ('w, unit) task" where
  "execute_exit E A S J p =
     sbranch (\<lambda>s0. sbind (load_quant_exit_context S (pos_id p)) (\<lambda>q.
       let src = (if q = None then SOURCE_ARBITRAGE else SOURCE_RECOMMENDATION);
           ctx = event_context (execution_mode_of s0) src q
       in sbind (with_service A S (\<lambda>P now. svc_mark_closing P J now ctx p)) (\<lambda>(r, p1). case r of
            Inl _ \<Rightarrow> sret ()
          | Inr _ \<Rightarrow> exit_closing E A S J ctx p1)))"

subsection \<open>The ticks\<close>

definition evaluate_candidate ::
  "num_env \<Rightarrow> ('w, 'o) clob_api \<Rightarrow> 'w srv_api \<Rightarrow> reason_codec \<Rightarrow> ExitHandlerConfig
     \<Rightarrow> (uuid, QuantExitContext) store \<Rightarrow> ExitCandidate \<Rightarrow> ('w, unit) task" where
  "evaluate_candidate E A S J cfg ctxs c =
     (let p = xc_position c; q = store_get ctxs (pos_id p)
      in sbind (current_exit_bids S p) (\<lambda>b. case b of
           Unavailable \<Rightarrow> sret ()
         | ResolvedMarket \<Rightarrow>
             sbind (close_open_position_via_resolution E A S J p (xc_source c) q) (\<lambda>_. sret ())
         | Available yes_bid no_bid \<Rightarrow> sbranch (\<lambda>s0.
             let p1 = update_pnl E (srv_now A s0) yes_bid no_bid exit_fee p
             in sbind (save_position S J p1) (\<lambda>_. sbranch (\<lambda>s1.
                  if should_mark_exit_ready E A S cfg p1 (xc_source c) q yes_bid no_bid s1
                  then sbind (with_service A S (\<lambda>P now. svc_mark_exit_ready P J now
                         ''spread_normalized''
                         (event_context (execution_mode_of s1) (xc_source c) q) p1)) (\<lambda>_. sret ())
                  else sret ())))))"

definition evaluate_open_positions ::
  "num_env \<Rightarrow> ('w, 'o) clob_api \<Rightarrow> 'w srv_api \<Rightarrow> reason_codec \<Rightarrow> ExitHandlerConfig \<Rightarrow> ('w, unit) task" where
  "evaluate_open_positions E A S J cfg =
     sbind (with_query S (\<lambda>P. get_open_exit_candidates E P 0 J)) (\<lambda>cands.
       if cands = [] then sret ()
       else sbind (load_quant_exit_contexts S cands) (\<lambda>ctxs.
              for_each (evaluate_candidate E A S J cfg ctxs) cands))"

definition process_exit_ready ::
  "num_env \<Rightarrow> ('w, 'o) clob_api \<Rightarrow> 'w srv_api \<Rightarrow> reason_codec \<Rightarrow> ('w, unit) task" where
  "process_exit_ready E A S J =
     sbind (with_query S (\<lambda>P. get_exit_ready E P 0 J))
       (for_each (\<lambda>p. log_error (execute_exit E A S J p)))"

definition retry_failed_exit ::
  "('w, 'o) clob_api \<Rightarrow> 'w srv_api \<Rightarrow> reason_codec \<Rightarrow> ExitHandlerConfig \<Rightarrow> Position \<Rightarrow> ('w, unit) task" where
  "retry_failed_exit A S J cfg p =
     sbranch (\<lambda>s.
       if age_secs (srv_now A s) p < failed_exit_retry_backoff_secs cfg then sret ()
       else sbind (load_quant_exit_context S (pos_id p)) (\<lambda>q.
         let src = (if q = None then SOURCE_ARBITRAGE else SOURCE_RECOMMENDATION)
         in sbind (with_service A S (\<lambda>P now. svc_attempt_exit_recovery P J now
                     (event_context (execution_mode_of s) src q) p)) (\<lambda>_. sret ())))"

definition process_failed_exits ::
  "num_env \<Rightarrow> ('w, 'o) clob_api \<Rightarrow> 'w srv_api \<Rightarrow> reason_codec \<Rightarrow> ExitHandlerConfig \<Rightarrow> ('w, unit) task" where
  "process_failed_exits E A S J cfg =
     sbind (with_query S (\<lambda>P. get_failed_exits E P 0 J)) (for_each (retry_failed_exit A S J cfg))"

definition recover_one_legged ::
  "num_env \<Rightarrow> ('w, 'o) clob_api \<Rightarrow> 'w srv_api \<Rightarrow> reason_codec \<Rightarrow> Position \<Rightarrow> ('w, unit) task" where
  "recover_one_legged E A S J p =
     (if yes_entry_price p \<le> 0 then sret ()
      else sbranch (\<lambda>s.
        sbind (with_service A S (\<lambda>P now. svc_transition_one_legged_to_exit_ready P J now ''yes''
                 ''one-legged recovery: flattening held YES leg''
                 (event_context (execution_mode_of s) SOURCE_ARBITRAGE None) p)) (\<lambda>(r, p'). case r of
            Inl _ \<Rightarrow> sret ()
          | Inr _ \<Rightarrow>
              sbind (smod (\<lambda>s. s\<lparr>sv_dedup := sv_dedup s \<union> {pos_market_id p}\<rparr>)) (\<lambda>_.
                log_error (execute_exit E A S J p')))))"

definition process_one_legged_recovery ::
  "num_env \<Rightarrow> ('w, 'o) clob_api \<Rightarrow> 'w srv_api \<Rightarrow> reason_codec \<Rightarrow> ('w, unit) task" where
  "process_one_legged_recovery E A S J =
     sbind (with_query S (\<lambda>P. get_one_legged_entry_failed E P 0 J))
       (for_each (recover_one_legged E A S J))"

text \<open>The markets are asked once each, in the order of a hash set; here in the order of the list.\<close>

fun resolve_markets :: "'w srv_api \<Rightarrow> string list \<Rightarrow> ('w, (string, bool option) store) task" where
  "resolve_markets S [] = sret []"
| "resolve_markets S (m # ms) =
     sbind (on_world (sa_market S m)) (\<lambda>r.
       sbind (resolve_markets S ms) (\<lambda>rest. sret (case r of
           Inl _ \<Rightarrow> rest
         | Inr mk \<Rightarrow> if mkt_resolved mk then (m, resolved_yes_winner mk) # rest else rest)))"

definition check_market_resolutions ::
  "num_env \<Rightarrow> ('w, 'o) clob_api \<Rightarrow> 'w srv_api \<Rightarrow> reason_codec \<Rightarrow> ('w, unit) task" where
  "check_market_resolutions E A S J =
     sbind (with_query S (\<lambda>P. get_hold_to_resolution E P 0 J)) (\<lambda>ps.
       sbind (resolve_markets S (remdups (map pos_market_id ps))) (\<lambda>resolved.
         for_each (\<lambda>p. case store_get resolved (pos_market_id p) of
             None \<Rightarrow> sret ()
           | Some winner \<Rightarrow>
               sbind (finalize_resolution_close E A S J p SOURCE_ARBITRAGE None winner) (\<lambda>_. sret ())) ps))"

definition exit_tick ::
  "num_env \<Rightarrow> ('w, 'o) clob_api \<Rightarrow> 'w srv_api \<Rightarrow> reason_codec \<Rightarrow> ('w, unit) task \<Rightarrow> ExitHandlerConfig \<Rightarrow> ('w, unit) task" where
  "exit_tick E A S J orphans cfg =
     (if \<not> eh_enabled cfg then sret ()
      else
        sbind (log_error (evaluate_open_positions E A S J cfg)) (\<lambda>_.
        sbind (log_error (process_failed_exits E A S J cfg)) (\<lambda>_.
        sbind (log_error (process_exit_ready E A S J)) (\<lambda>_.
        sbind (log_error (process_one_legged_recovery E A S J)) (\<lambda>_.
          log_error orphans)))))"

definition resolution_tick ::
  "num_env \<Rightarrow> ('w, 'o) clob_api \<Rightarrow> 'w srv_api \<Rightarrow> reason_codec \<Rightarrow> ExitHandlerConfig \<Rightarrow> ('w, unit) task" where
  "resolution_tick E A S J cfg =
     (if \<not> eh_enabled cfg then sret () else log_error (check_market_resolutions E A S J))"

subsection \<open>The exit handler never touches an entry\<close>

lemma entries_resolve: "stays entries_kept (resolve_market_tokens S m)"
  unfolding resolve_market_tokens_def by (intro entries_intros)

lemma entries_bids: "stays entries_kept (current_exit_bids S p)"
  unfolding current_exit_bids_def load_exit_best_bid_def exit_bid_fallback_status_def Let_def
  by (intro entries_intros entries_resolve)

lemma entries_after_close: "stays entries_kept (after_close E A S action p)"
  unfolding after_close_def Let_def by (intro entries_intros)

lemma entries_finalize: "stays entries_kept (finalize_resolution_close E A S J p src q winner)"
  unfolding finalize_resolution_close_def by (intro entries_intros entries_after_close)

lemma entries_resolution: "stays entries_kept (close_open_position_via_resolution E A S J p src q)"
  unfolding close_open_position_via_resolution_def by (intro entries_intros entries_finalize)

lemma entries_context: "stays entries_kept (load_quant_exit_context S i)"
  unfolding load_quant_exit_context_def
  by (intro entries_intros entries.updates) (simp add: entries_kept_def)

lemma entries_leg: "stays entries_kept (exit_leg E A S J ctx leg token p)"
  unfolding exit_leg_def settle_leg_def execute_sell_order_def fail_exit_def by (intro entries_intros)

lemma entries_exit: "stays entries_kept (execute_exit E A S J p)"
  unfolding execute_exit_def exit_closing_def finish_exit_def sell_legs_def fail_exit_def Let_def
  by (intro entries_intros entries_context entries_resolve entries_leg entries_after_close)

lemma entries_save: "stays entries_kept (save_position S J p)"
  unfolding save_position_def
  by (intro entries.rules) (auto simp: stays_def entries_kept_def split: option.split intro: table_kept_update)

lemma stays_bids:
  "(\<And>y n. stays R (f y n)) \<Longrightarrow> stays R g \<Longrightarrow> stays R h
     \<Longrightarrow> stays R (case b of Available y n \<Rightarrow> f y n | ResolvedMarket \<Rightarrow> g | Unavailable \<Rightarrow> h)"
  by (cases b) simp_all

lemma entries_candidate: "stays entries_kept (evaluate_candidate E A S J cfg ctxs c)"
  unfolding evaluate_candidate_def Let_def
  by (intro entries_intros stays_bids entries_bids entries_resolution entries_save)

lemma entries_contexts: "stays entries_kept (load_quant_exit_contexts S cands)"
  unfolding load_quant_exit_contexts_def Let_def
  by (intro entries_intros) (simp add: stays_def entries_kept_def)

lemma entries_markets: "stays entries_kept (resolve_markets S ms)"
  by (induction ms) (auto intro!: entries.sret entries.sbind entries.on_world)

lemma entries_failed: "stays entries_kept (retry_failed_exit A S J cfg p)"
  unfolding retry_failed_exit_def Let_def by (intro entries_intros entries_context)

lemma entries_one_legged: "stays entries_kept (recover_one_legged E A S J p)"
  unfolding recover_one_legged_def by (intro entries_intros entries_exit)

lemmas entries_passes = entries_candidate entries_contexts entries_markets entries_failed
  entries_one_legged entries_exit entries_finalize

lemma entries_ticks:
  "stays entries_kept (evaluate_open_positions E A S J cfg)"
  "stays entries_kept (process_failed_exits E A S J cfg)"
  "stays entries_kept (process_exit_ready E A S J)"
  "stays entries_kept (process_one_legged_recovery E A S J)"
  "stays entries_kept (check_market_resolutions E A S J)"
  unfolding evaluate_open_positions_def process_failed_exits_def process_exit_ready_def
    process_one_legged_recovery_def check_market_resolutions_def
  by (intro entries_intros entries_passes)+

text \<open>
  C11: The exit handler never touches an entry. Whatever the exchange, the services and the
  database do, one turn of either ticker leaves the set of stored positions as it was, and every
  stored position keeps its market, its entry prices and time, its quantity, its strategy and its
  source: the handler changes life-cycle columns only. (The recovery of orphan inventory, which
  is not part of this model, is assumed to do the same.)
\<close>

theorem exit_handler_keeps_entries:
  assumes "stays entries_kept orphans"
    and "s' = snd (exit_tick E A S J orphans cfg s) \<or> s' = snd (resolution_tick E A S J cfg s)"
  shows "rel_option same_entry (store_get (db_positions (sv_db s)) i) (store_get (db_positions (sv_db s')) i)"
proof -
  have "stays entries_kept (exit_tick E A S J orphans cfg)"
    unfolding exit_tick_def by (intro entries_intros entries_ticks assms(1))
  moreover have "stays entries_kept (resolution_tick E A S J cfg)"
    unfolding resolution_tick_def by (intro entries_intros entries_ticks)
  ultimately have "entries_kept s s'"
    using assms(2) by (auto simp: stays_def)
  then show ?thesis by (simp add: entries_kept_def table_kept_def)
qed

theorem exit_handler_keeps_entries_witness:
  "rel_option same_entry (store_get (db_positions (sv_db demo_server)) 7)
     (store_get (db_positions (sv_db (snd (exit_tick exact_env (sample_api 0) demo_services demo_codec
        (sret ()) (default_exit_config\<lparr>eh_enabled := True\<rparr>) demo_server)))) 7)"
  by (rule exit_handler_keeps_entries [OF entries.sret disjI1]) (rule refl)

end
