(* ===== verification/Exit_Outcomes.thy ===== *)
theory Exit_Outcomes
  imports Exit_Handler
begin

section \<open>What an exit leads to\<close>

text \<open>
  The outcome of \<open>execute_exit\<close> when the database answers: the position is closed and accounted
  for once, or its exit is marked as failed, and nothing else is changed. Then what a one-legged
  position and an entry fill become when they are read back from their row.
\<close>

subsection \<open>Tokens\<close>

lemma quiet_resolve: "stays quiet (resolve_market_tokens S m)"
  unfolding resolve_market_tokens_def
  by (intro quiet_rel.rules stays_cases quiet_cache_refresh quiet_cache_hydrate quiet_rel.smod) simp_all

lemma cache_refresh_returns: "\<exists>r s'. cache_refresh S s = (Ok r, s')"
  by (simp add: cache_refresh_def sbind_def on_world_def sret_def split: prod.split sum.split)

lemma cache_hydrate_returns: "\<exists>r s'. cache_hydrate S m s = (Ok r, s')"
  by (simp add: cache_hydrate_def sbranch_def sbind_def on_world_def sret_def
      split: prod.split sum.split option.split)

lemma wp_total: "\<exists>a s'. m s = (Ok a, s') \<Longrightarrow> (\<And>a s'. Q a s') \<Longrightarrow> wp m Q s"
  by (auto simp: wp_def)

lemma wp_resolve:
  assumes "reliable S" "\<And>t s'. quiet s s' \<Longrightarrow> Q t s'"
  shows "wp (resolve_market_tokens S m) Q s"
proof -
  have "wp (resolve_market_tokens S m) (\<lambda>_ _. True) s"
    using assms(1) unfolding resolve_market_tokens_def
    by (auto simp: wp_simps reliable_def intro!: wp_total [OF cache_refresh_returns] wp_total [OF cache_hydrate_returns] split: option.split)
  then obtain t s' where run: "resolve_market_tokens S m s = (Ok t, s')" by (auto simp: wp_run)
  have "quiet s s'" using quiet_resolve run by (metis stays_def snd_conv)
  with run assms(2) show ?thesis by (auto simp: wp_run)
qed

subsection \<open>One leg\<close>

text \<open>The facts of a position that stay the same while its legs are sold.\<close>

definition selling :: "Position \<Rightarrow> Position \<Rightarrow> bool" where
  "selling p q \<longleftrightarrow> pos_id q = pos_id p \<and> pos_market_id q = pos_market_id p \<and> pos_state q = Closing
     \<and> retry_count q = retry_count p \<and> yes_entry_price q = yes_entry_price p
     \<and> no_entry_price q = no_entry_price p \<and> quantity q = quantity p"

definition exit_failed :: "reason_codec \<Rightarrow> Position \<Rightarrow> 'w server \<Rightarrow> 'w server \<Rightarrow> bool" where
  "exit_failed J p s0 s \<longleftrightarrow> tracked 0 (pos_id p) s0 s
     \<and> (\<exists>q. stored_as J q s \<and> pos_id q = pos_id p \<and> pos_state q = ExitFailed
           \<and> retry_count q = retry_count p + 1)"

lemma wp_fail_exit:
  assumes "reliable S" "tracked n (pos_id p) s0 s" "selling p q"
    and "\<And>s'. exit_failed J p s0 s' \<Longrightarrow> Q () s'"
  shows "wp (fail_exit A S J ctx reason q) Q s"
  unfolding fail_exit_def wp_simps
proof (rule wp_saved [OF assms(1,2), where h = "\<lambda>now. Inr (mark_exit_failed now reason q)"])
  fix now q' s'
  assume "Inr (mark_exit_failed now reason q) = Inr q'" "tracked n (pos_id p) s0 s'" "stored_as J q' s'"
  then have "exit_failed J p s0 (s'\<lparr>sv_signals := sv_signals s' @ [(pos_market_id q, ''exit_failed'')]\<rparr>)"
    using assms(3) tracked_less [of n "pos_id p" s0 s' 0] unfolding exit_failed_def
    by (auto simp: mark_exit_failed_def selling_def)
  then show "Q () (s'\<lparr>sv_signals := sv_signals s' @ [(pos_market_id q, ''exit_failed'')]\<rparr>)"
    by (rule assms(4))
qed (use assms(3) in \<open>auto simp: svc_mark_exit_failed_def mark_exit_failed_def selling_def Let_def\<close>)

text \<open>The fill of a leg, recorded: its exit price is set and the rest of the sale can go on.\<close>

definition leg_done :: "Leg \<Rightarrow> Position \<Rightarrow> Position \<Rightarrow> bool" where
  "leg_done leg q q' \<longleftrightarrow>
     (case leg of
        Yes \<Rightarrow> yes_exit_price q' \<noteq> None \<and> no_exit_price q' = no_exit_price q \<and> held_no_qty q' = held_no_qty q
      | No \<Rightarrow> no_exit_price q' \<noteq> None \<and> yes_exit_price q' = yes_exit_price q \<and> held_yes_qty q' = held_yes_qty q)"

lemma exit_fill_selling:
  assumes "exit_fill E now leg price qty q = Inr q'" "selling p q"
  shows "selling p q' \<and> leg_done leg q q'"
  using assms
  by (cases leg) (auto simp: exit_fill_def record_yes_exit_fill_def record_no_exit_fill_def ignore_error_def
      apply_yes_exit_fill_def apply_no_exit_fill_def selling_def leg_done_def split: if_splits)

lemma wp_record_exit_fill:
  assumes "reliable S" "tracked n (pos_id p) s0 s" "selling p q"
    and "\<And>q' s'. tracked n (pos_id p) s0 s' \<Longrightarrow> selling p q' \<Longrightarrow> leg_done leg q q' \<Longrightarrow> Q (Inr (), q') s'"
    and "\<And>e s'. tracked n (pos_id p) s0 s' \<Longrightarrow> Q (Inl e, q) s'"
  shows "wp (with_service A S (\<lambda>P now. svc_record_exit_fill E P J now leg price qty ctx q)) Q s"
proof (rule wp_saved [OF assms(1,2), where h = "\<lambda>now. exit_fill E now leg price qty q"])
  fix P now
  show "svc_record_exit_fill E P J now leg price qty ctx q (sv_db s) =
      (case exit_fill E now leg price qty q of Inl e \<Rightarrow> (Inl e, q, sv_db s)
       | Inr p \<Rightarrow> save_and_record P J ((ctx_event ctx p ''exit_fill'')\<lparr>te_fill_price := Some price,
           te_filled_size_usd := Some (dmul E qty price)\<rparr>) () p (sv_db s))"
    by (simp add: svc_record_exit_fill_def)
qed (use exit_fill_selling [OF _ assms(3)] assms(4,5) in \<open>auto simp: selling_def\<close>)

text \<open>A sell order returns a report; a fill is one of the whole quantity.\<close>

lemma wp_sell_order:
  assumes "tracked (Suc n) i s0 s"
    and "\<And>rep s'. tracked n i s0 s' \<Longrightarrow> (is_success rep \<longrightarrow> filled_quantity rep = qty) \<Longrightarrow> Q rep s'"
  shows "wp (execute_sell_order E A S m token qty) Q s"
  unfolding execute_sell_order_def wp_simps
  by (rule wp_tracked_order [OF tracked_quiet [OF assms(1) quiet_world]])
    (simp add: assms(2) new_market_order_def)

lemma wp_exit_leg:
  assumes "reliable S" "tracked (Suc n) (pos_id p) s0 s" "selling p q"
    and "\<And>q' s'. tracked n (pos_id p) s0 s' \<Longrightarrow> selling p q' \<Longrightarrow> leg_done leg q q' \<Longrightarrow> Q (Some q') s'"
    and "\<And>s'. exit_failed J p s0 s' \<Longrightarrow> Q None s'"
  shows "wp (exit_leg E A S J ctx leg token q) Q s"
  unfolding exit_leg_def wp_sbind
proof (rule wp_sell_order [OF assms(2)])
  fix rep and t :: "'a server"
  assume t: "tracked n (pos_id p) s0 t"
  note fail = wp_fail_exit [OF assms(1) _ assms(3)]
  show "wp (settle_leg E A S J ctx leg q rep) Q t"
    unfolding settle_leg_def
    by (auto simp: wp_simps intro!: fail [OF t] fail wp_record_exit_fill [OF assms(1) t assms(3)] assms(4,5))
qed

lemma held_legs_done:
  assumes "selling p q" "snd (held_outcomes q) \<longrightarrow> no_exit_price q' \<noteq> None"
    "fst (held_outcomes q) \<longrightarrow> yes_exit_price q' \<noteq> None" "selling p q'"
    "yes_exit_price q \<noteq> None \<longrightarrow> yes_exit_price q' \<noteq> None"
    "no_exit_price q \<noteq> None \<longrightarrow> no_exit_price q' \<noteq> None"
  shows "\<exists>y n. resolved_exit_prices q' = Inr (y, n)"
  using assms by (auto simp: held_outcomes_def resolved_exit_prices_def selling_def)

lemma wp_sell_legs:
  assumes "reliable S" "tracked 2 (pos_id p) s0 s" "selling p q"
    and "\<And>q' s' y n. tracked 0 (pos_id p) s0 s' \<Longrightarrow> selling p q' \<Longrightarrow>
       resolved_exit_prices q' = Inr (y, n) \<Longrightarrow> Q (Some q') s'"
    and "\<And>s'. exit_failed J p s0 s' \<Longrightarrow> Q None s'"
  shows "wp (sell_legs E A S J ctx tokens q) Q s"
proof -
  obtain hy hn where held: "held_outcomes q = (hy, hn)" by fastforce
  have finish: "Q (Some q') s'"
    if "tracked 0 (pos_id p) s0 s'" "selling p q'" "hy \<longrightarrow> yes_exit_price q' \<noteq> None" "hn \<longrightarrow> no_exit_price q' \<noteq> None"
      "yes_exit_price q \<noteq> None \<longrightarrow> yes_exit_price q' \<noteq> None"
      "no_exit_price q \<noteq> None \<longrightarrow> no_exit_price q' \<noteq> None" for q' s'
    using held_legs_done [OF assms(3), of q'] that held assms(4) by fastforce
  have second: "wp (if hn then exit_leg E A S J ctx No (snd tokens) q1 else sret (Some q1)) Q s1"
    if "tracked 1 (pos_id p) s0 s1" "selling p q1" "hy \<longrightarrow> yes_exit_price q1 \<noteq> None"
      "yes_exit_price q \<noteq> None \<longrightarrow> yes_exit_price q1 \<noteq> None" "no_exit_price q1 = no_exit_price q" for q1 s1
  proof (cases hn)
    case True
    have "wp (exit_leg E A S J ctx No (snd tokens) q1) Q s1"
      by (rule wp_exit_leg [OF assms(1) that(1) [unfolded One_nat_def] that(2)])
        (use that(3-5) in \<open>auto simp: leg_done_def intro!: finish assms(5)\<close>)
    with True show ?thesis by simp
  next
    case False
    with that tracked_less [OF that(1), of 0] show ?thesis by (auto simp: wp_simps intro!: finish)
  qed
  let ?second = "\<lambda>r. wp (case r of None \<Rightarrow> sret None
     | Some q1 \<Rightarrow> if hn then exit_leg E A S J ctx No (snd tokens) q1 else sret (Some q1)) Q"
  have "wp (exit_leg E A S J ctx Yes (fst tokens) q) ?second s" if hy
    by (rule wp_exit_leg [OF assms(1) assms(2) [unfolded numeral_2_eq_2] assms(3)])
      (use that in \<open>simp_all add: second leg_done_def wp_sret assms(5)\<close>)
  moreover have "?second (Some q) s" if "\<not> hy"
    using that second [OF tracked_less [OF assms(2)] assms(3)] by simp
  ultimately show ?thesis
    unfolding sell_legs_def held Let_def prod.case by (simp add: wp_sbind wp_sret)
qed

subsection \<open>The close\<close>

definition closed_once :: "num_env \<Rightarrow> reason_codec \<Rightarrow> Position \<Rightarrow> 'w server \<Rightarrow> 'w server \<Rightarrow> bool" where
  "closed_once E J p s0 s \<longleftrightarrow>
     (\<exists>q pnl P now. stored_as J q s \<and> pos_id q = pos_id p \<and> pos_state q = Closed \<and> realized_pnl q = Some pnl
        \<and> sv_cb s = fst (record_trade E P now now pnl (0 < pnl) (sv_cb s0)))
     \<and> sv_dedup s = sv_dedup s0 - {pos_market_id p}
     \<and> (\<forall>j. j \<noteq> pos_id p \<longrightarrow> store_get (db_positions (sv_db s)) j = store_get (db_positions (sv_db s0)) j)"

lemma closed_onceI:
  assumes "tracked n (pos_id p) s0 s" "stored_as J q s" "pos_id q = pos_id p" "pos_state q = Closed"
    and "realized_pnl q = Some pnl" "sv_db t = sv_db s"
    and "sv_cb t = fst (record_trade E P now now pnl (0 < pnl) (sv_cb s))"
    and "sv_dedup t = sv_dedup s - {pos_market_id p}"
  shows "closed_once E J p s0 t"
  unfolding closed_once_def
proof (intro conjI exI)
  show "stored_as J q t" using assms(2,6) by (simp add: stored_as_def)
  show "sv_cb t = fst (record_trade E P now now pnl (0 < pnl) (sv_cb s0))"
    using assms(1,7) by (simp add: tracked_def)
qed (use assms in \<open>simp_all add: tracked_def\<close>)

lemma wp_after_close:
  assumes "tracked n (pos_id p) s0 s" "breaker_sane (sv_cb s0)"
    and "stored_as J q s" "pos_id q = pos_id p" "pos_market_id q = pos_market_id p"
    and "pos_state q = Closed" "realized_pnl q = Some pnl"
    and "\<And>s'. closed_once E J p s0 s' \<Longrightarrow> Q () s'"
  shows "wp (after_close E A S action q) Q s"
  unfolding after_close_def Let_def wp_simps assms(5,7) opt_or_simps
  by (rule wp_breaker_record)
    (use assms(1,2) in \<open>auto simp: tracked_def quiet_def
       intro!: assms(8) closed_onceI [OF assms(1,3,4,6,7)]\<close>)

lemma closed_by_exit:
  assumes "selling p q" "resolved_exit_prices q = Inr (y, n)"
  obtains q' pnl where "closed_by E now (MarketExit fee) q = Inr q'" "pos_id q' = pos_id p"
    "pos_market_id q' = pos_market_id p" "pos_state q' = Closed" "realized_pnl q' = Some pnl"
  using assms by (simp add: closed_by_def close_via_recorded_exit_def selling_def move_held_to_exited_def
      close_guard_def)

lemma wp_close:
  assumes "reliable S" "tracked 0 (pos_id p) s0 s" "breaker_sane (sv_cb s0)" "selling p q"
    and "resolved_exit_prices q = Inr (y, n)"
    and "\<And>s'. closed_once E J p s0 s' \<Longrightarrow> Q () s'"
  shows "wp (with_service A S (\<lambda>P now. svc_close_position E P J now (MarketExit fee) ctx q))
     (\<lambda>a. wp (case a of (r, q') \<Rightarrow> (case r of Inl _ \<Rightarrow> sret () | Inr _ \<Rightarrow> after_close E A S action q')) Q) s"
proof (rule wp_saved [OF assms(1,2), where h = "\<lambda>now. map_sum Invalid id (closed_by E now (MarketExit fee) q)"
      and ev = "\<lambda>now q'. (state_change (state_text (pos_state q)) ''closed''
         (ctx_event ctx q' (close_event_type (MarketExit fee))))\<lparr>te_realized_pnl := realized_pnl q'\<rparr>"
      and q = q])
  fix now q' s'
  assume "map_sum Invalid id (closed_by E now (MarketExit fee) q) = Inr q'"
    and "tracked 0 (pos_id p) s0 s'" "stored_as J q' s'"
  moreover from closed_by_exit [OF assms(4,5)] obtain q2 pnl
    where "closed_by E now (MarketExit fee) q = Inr q2" "pos_id q2 = pos_id p"
      "pos_market_id q2 = pos_market_id p" "pos_state q2 = Closed" "realized_pnl q2 = Some pnl" .
  ultimately show "wp (case (Inr (), q') of (r, q') \<Rightarrow>
      (case r of Inl _ \<Rightarrow> sret () | Inr _ \<Rightarrow> after_close E A S action q')) Q s'"
    by (auto intro: wp_after_close assms(3,6))
next
  fix now and e :: svc_error and s'
  assume "map_sum Invalid id (closed_by E now (MarketExit fee) q) = Inl e"
  then show "wp (case (Inl e, q) of (r, q') \<Rightarrow>
      (case r of Inl _ \<Rightarrow> sret () | Inr _ \<Rightarrow> after_close E A S action q')) Q s'"
    by (cases rule: closed_by_exit [OF assms(4,5), of E now fee]) simp
next
  fix now q'
  assume "map_sum Invalid id (closed_by E now (MarketExit fee) q) = Inr q'"
  then show "pos_id q' = pos_id p" by (cases rule: closed_by_exit [OF assms(4,5), of E now fee]) simp
qed (simp add: svc_close_position_def split: sum.split)

subsection \<open>The exit\<close>

lemma wp_mark_closing:
  assumes "reliable S" "tracked n (pos_id p) s0 s" "pos_state p = ExitReady"
    and "\<And>now q s'. tracked n (pos_id p) s0 s' \<Longrightarrow> mark_closing now p = Inr q \<Longrightarrow> Q (Inr (), q) s'"
  shows "wp (with_service A S (\<lambda>P now. svc_mark_closing P J now ctx p)) Q s"
  by (rule wp_saved [OF assms(1,2), where h = "\<lambda>now. map_sum Invalid id (mark_closing now p)"
        and q = p and ev = "\<lambda>now p'. state_change (state_text (pos_state p)) ''closing''
          (ctx_event ctx p' ''exit_requested'')"])
    (use assms(3,4) in \<open>auto simp: svc_mark_closing_def mark_closing_def\<close>)

lemma wp_context:
  "(\<And>q s'. quiet s s' \<Longrightarrow> Q q s') \<Longrightarrow> wp (load_quant_exit_context S i) Q s"
  by (simp only: load_quant_exit_context_def wp_sbind wp_on_world) (simp add: wp_def)

lemma wp_finish_exit:
  assumes "reliable S" "breaker_sane (sv_cb s0)" "tracked 2 (pos_id p) s0 s" "selling p q"
  shows "wp (finish_exit E A S J ctx tokens q) (\<lambda>_ s'. closed_once E J p s0 s' \<or> exit_failed J p s0 s') s"
  unfolding finish_exit_def wp_sbind
  by (rule wp_sell_legs [OF assms(1,3,4)])
    (auto simp: wp_sret wp_sbind intro: wp_close [OF assms(1) _ assms(2)])

lemma wp_exit_closing:
  assumes "reliable S" "tracked 2 (pos_id p) s0 s" "selling p q"
    and "\<And>tokens s'. tracked 2 (pos_id p) s0 s' \<Longrightarrow> wp (finish_exit E A S J ctx tokens q) Q s'"
    and "\<And>s'. exit_failed J p s0 s' \<Longrightarrow> Q () s'"
  shows "wp (exit_closing E A S J ctx q) Q s"
  unfolding exit_closing_def wp_sbind
proof (rule wp_resolve [OF assms(1)])
  fix t s'
  assume "quiet s s'"
  with assms(2) have "tracked 2 (pos_id p) s0 s'" by (rule tracked_quiet)
  then show "wp (case t of None \<Rightarrow> fail_exit A S J ctx NO_TOKENS q
      | Some tokens \<Rightarrow> finish_exit E A S J ctx tokens q) Q s'"
    using assms by (cases t) (auto intro: wp_fail_exit)
qed

lemma wp_execute_exit:
  assumes "reliable S" "executor_room 2 s" "pos_state p = ExitReady"
    and "store_get (db_positions (sv_db s)) (pos_id p) \<noteq> None"
    and "\<And>ctx tokens now q s'. tracked 2 (pos_id p) s s' \<Longrightarrow> mark_closing now p = Inr q \<Longrightarrow>
       wp (finish_exit E A S J ctx tokens q) Q s'"
    and "\<And>s'. exit_failed J p s s' \<Longrightarrow> Q () s'"
  shows "wp (execute_exit E A S J p) Q s"
proof -
  have tr: "tracked 2 (pos_id p) s s" using assms(2,4) by (simp add: tracked_def)
  show ?thesis
    unfolding execute_exit_def Let_def wp_sbind wp_sbranch
  proof (rule wp_context, rule wp_mark_closing [OF assms(1) tracked_quiet [OF tr] assms(3)])
    fix ctx now q and t :: "'a server"
    assume "tracked 2 (pos_id p) s t" and q: "mark_closing now p = Inr q"
    then have "wp (exit_closing E A S J ctx q) Q t"
      using assms(3) by (intro wp_exit_closing [OF assms(1)])
        (auto simp: mark_closing_def selling_def intro: assms(5,6))
    then show "wp (case (Inr (), q) of (r, p1) \<Rightarrow>
        (case r of Inl _ \<Rightarrow> sret () | Inr _ \<Rightarrow> exit_closing E A S J ctx p1)) Q t" by simp
  qed
qed

text \<open>
  C8: An exit is decided when the database answers. For a stored position that is \<open>ExitReady\<close>, with
  room for two reports in the channel, \<open>execute_exit\<close> returns, and then either the position is
  stored as \<open>Closed\<close> with a realized P\&L, the circuit breaker has recorded that P\&L exactly once and
  the market is free again, or it is stored as \<open>ExitFailed\<close> with one more retry and the breaker and
  the set of markets are as before. It is never left in \<open>Closing\<close>, and no other position changes.
\<close>

theorem exit_is_decided:
  assumes "reliable S" "executor_room 2 s" "breaker_sane (sv_cb s)"
    and "pos_state p = ExitReady" "store_get (db_positions (sv_db s)) (pos_id p) \<noteq> None"
  shows "\<exists>s'. execute_exit E A S J p s = (Ok (), s') \<and> (closed_once E J p s s' \<or> exit_failed J p s s')"
proof -
  have "wp (execute_exit E A S J p) (\<lambda>_ s'. closed_once E J p s s' \<or> exit_failed J p s s') s"
    by (rule wp_execute_exit [OF assms(1,2,4,5)])
      (auto intro!: wp_finish_exit [OF assms(1,3)] simp: mark_closing_def selling_def split: if_splits)
  then show ?thesis by (auto simp: wp_run)
qed

theorem exit_is_decided_witness:
  "\<exists>s'. execute_exit exact_env (sample_api 0) demo_services demo_codec demo_exit_position demo_server = (Ok (), s')
    \<and> (closed_once exact_env demo_codec demo_exit_position demo_server s'
       \<or> exit_failed demo_codec demo_exit_position demo_server s')"
  by (rule exit_is_decided)
    (simp_all add: reliable_def demo_services_def executor_room_def demo_server_def new_executor_def
      default_executor_config_def REPORT_CAPACITY_def breaker_sane_def cb_new_def default_state_def
      demo_exit_position_def new_position_def Let_def)

subsection \<open>Positions that hold less than their quantity\<close>

lemma wp_short_leg:
  assumes "reliable S" "tracked (Suc n) (pos_id p) s0 s" "selling p q" "held_no_qty q < quantity q"
    and "\<And>s'. exit_failed J p s0 s' \<Longrightarrow> Q None s'"
  shows "wp (exit_leg E A S J ctx No token q) Q s"
  unfolding exit_leg_def wp_sbind
proof (rule wp_sell_order [OF assms(2)])
  fix rep and t :: "'a server"
  assume t: "tracked n (pos_id p) s0 t" and rep: "is_success rep \<longrightarrow> filled_quantity rep = quantity q"
  note fail = wp_fail_exit [OF assms(1) _ assms(3)]
  show "wp (settle_leg E A S J ctx No q rep) Q t"
  proof (cases "is_success rep")
    case True
    have refused: "wp (with_service A S (\<lambda>P now. svc_record_exit_fill E P J now No (average_price rep)
        (filled_quantity rep) ctx q)) R t" if R: "\<And>e t'. quiet t t' \<Longrightarrow> R (Inl e, q) t'" for R
      by (rule wp_with_service [OF assms(1)])
        (use True rep assms(4) R in \<open>auto simp: svc_record_exit_fill_def exit_fill_def quiet_def\<close>)
    from True show ?thesis
      by (auto simp: settle_leg_def wp_simps intro!: refused fail tracked_quiet [OF t] assms(5))
  qed (auto simp: settle_leg_def wp_simps intro!: fail [OF t] assms(5))
qed

lemma wp_exit_short:
  assumes "reliable S" "tracked 2 (pos_id p) s0 s" "selling p q"
    and "0 < no_entry_price q" "no_exit_price q = None" "held_no_qty q < quantity q"
  shows "wp (finish_exit E A S J ctx tokens q) (\<lambda>_ s'. exit_failed J p s0 s') s"
proof -
  let ?Q = "\<lambda>r s'. r = None \<and> exit_failed J p s0 s'"
  have no: "wp (exit_leg E A S J ctx No (snd tokens) q1) ?Q s1"
    if "tracked (Suc 0) (pos_id p) s0 s1" "selling p q1" "held_no_qty q1 = held_no_qty q" for q1 s1
    by (rule wp_short_leg [OF assms(1) that(1,2)]) (use that assms(3,6) in \<open>simp_all add: selling_def\<close>)
  have held: "held_outcomes q = (0 < yes_entry_price q \<and> yes_exit_price q = None, True)"
    using assms(3-5) by (simp add: held_outcomes_def selling_def)
  have "wp (exit_leg E A S J ctx Yes (fst tokens) q) (\<lambda>r. wp (case r of None \<Rightarrow> sret None
     | Some q1 \<Rightarrow> exit_leg E A S J ctx No (snd tokens) q1) ?Q) s"
    by (rule wp_exit_leg [OF assms(1) assms(2) [unfolded numeral_2_eq_2] assms(3)])
      (simp_all add: no leg_done_def wp_sret)
  moreover have "wp (exit_leg E A S J ctx No (snd tokens) q) ?Q s"
    using no [OF tracked_less [OF assms(2)] assms(3)] by simp
  ultimately have "wp (sell_legs E A S J ctx tokens q) ?Q s"
    by (simp add: sell_legs_def held wp_sbind wp_sret)
  then show ?thesis
    unfolding finish_exit_def wp_sbind by (rule wp_mono) (simp add: wp_sret)
qed

text \<open>
  C12: A one-legged exit that is read back from its row never closes. When the NO order of an
  arbitrage fails, \<open>transition_one_legged_to_exit_ready\<close> zeroes the NO entry price in memory, but its
  \<open>UPDATE\<close> does not write entry prices: the row keeps the NO price of the insert. The position
  loaded from that row claims a NO leg of which nothing is held, so every exit of it ends as
  \<open>ExitFailed\<close>, also when the YES leg was sold, whatever the exchange does.
\<close>

theorem one_legged_exit_never_closes:
  assumes "reliable S" "executor_room 2 s" "breaker_sane (sv_cb s)"
    and "store_get (db_positions (sv_db s)) (pos_id p) = Some r" "r_id r = pos_id p"
    and "0 < r_no_entry_price r" "0 < r_quantity r" "no_exit_price p = None"
    and "pg_ok P 0" "pg_dec P 0 = 0"
    and "svc_transition_one_legged_to_exit_ready P J now ''yes'' msg ctx p (sv_db s) = (Inr (), p1, db)"
    and "svc_load E P J (pos_id p) db = Inr p2"
  shows "pos_state p1 = ExitReady \<and> no_entry_price p1 = 0 \<and> held_no_qty p1 = 0
    \<and> pos_state p2 = ExitReady \<and> 0 < no_entry_price p2
    \<and> (\<exists>s'. execute_exit E A S J p2 (s\<lparr>sv_db := db\<rparr>) = (Ok (), s')
          \<and> exit_failed J p2 (s\<lparr>sv_db := db\<rparr>) s')"
proof -
  let ?s = "s\<lparr>sv_db := db\<rparr>"
  have p1: "p1 = p\<lparr>no_entry_price := 0, held_no_qty := 0, pos_state := ExitReady, last_updated := now,
      failure_reason := Some (OneLeggedEntry ''yes'' msg)\<rparr>"
    and db: "db_positions db = store_insert (pos_id p) (row_of_update P J p1 r) (db_positions (sv_db s))"
    using assms(4,9,11)
    by (auto simp: svc_transition_one_legged_to_exit_ready_def one_legged_exit_ready_def mark_open_def
        mark_exit_ready_def save_and_record_def position_update_def record_warn_def split: if_splits)
  have row: "store_get (db_positions (sv_db ?s)) (pos_id p) = Some (row_of_update P J p1 r)"
    by (simp add: db store_simps)
  have p2: "p2 = row_to_position E J (row_of_update P J p1 r)"
    using assms(9,12) row by (simp add: svc_load_def position_get_def)
  have f: "pos_id p2 = pos_id p" "pos_state p2 = ExitReady" "no_entry_price p2 = r_no_entry_price r"
    "no_exit_price p2 = None" "held_no_qty p2 = 0" "quantity p2 = r_quantity r"
    using assms(5,8,10) by (simp_all add: p2 p1 row_to_position_def row_of_update_def Let_def state_of_code_def)
  have "wp (execute_exit E A S J p2) (\<lambda>_ s'. exit_failed J p2 ?s s') ?s"
  proof (rule wp_execute_exit [OF assms(1)])
    show "executor_room 2 ?s" using assms(2) by (simp add: executor_room_def)
    show "store_get (db_positions (sv_db ?s)) (pos_id p2) \<noteq> None" by (simp only: f(1) row) simp
    fix ctx' tokens now' q t
    assume "tracked 2 (pos_id p2) ?s t" and "mark_closing now' p2 = Inr q"
    with f assms(6,7) show "wp (finish_exit E A S J ctx' tokens q) (\<lambda>_. exit_failed J p2 ?s) t"
      by (intro wp_exit_short [OF assms(1)]) (auto simp: mark_closing_def selling_def split: if_splits)
  qed (simp_all add: f)
  with f assms(6) show ?thesis by (auto simp: wp_run p1)
qed

definition demo_one_legged :: Position where
  "demo_one_legged = demo_exit_position\<lparr>pos_state := Pending, held_no_qty := 0\<rparr>"

definition demo_one_legged_server :: "nat server" where
  "demo_one_legged_server = demo_server\<lparr>sv_db := \<lparr>db_positions =
     [(7, row_of_insert pg_exact demo_codec SOURCE_ARBITRAGE None demo_one_legged)], db_events = []\<rparr>\<rparr>"

theorem one_legged_exit_never_closes_witness:
  "\<exists>p1 db p2. svc_transition_one_legged_to_exit_ready pg_exact demo_codec 5 ''yes'' ''no leg failed''
       (event_context ''paper'' SOURCE_ARBITRAGE None) demo_one_legged (sv_db demo_one_legged_server) = (Inr (), p1, db)
     \<and> svc_load exact_env pg_exact demo_codec (pos_id demo_one_legged) db = Inr p2
     \<and> pos_state p1 = ExitReady \<and> no_entry_price p1 = 0 \<and> pos_state p2 = ExitReady \<and> 0 < no_entry_price p2
     \<and> (\<exists>s'. execute_exit exact_env (sample_api 0) demo_services demo_codec p2
              (demo_one_legged_server\<lparr>sv_db := db\<rparr>) = (Ok (), s')
            \<and> exit_failed demo_codec p2 (demo_one_legged_server\<lparr>sv_db := db\<rparr>) s')"
proof -
  let ?row = "row_of_insert pg_exact demo_codec SOURCE_ARBITRAGE None demo_one_legged"
  let ?ctx = "event_context ''paper'' SOURCE_ARBITRAGE None"
  let ?s = demo_one_legged_server
  obtain r p1 db where t: "svc_transition_one_legged_to_exit_ready pg_exact demo_codec 5 ''yes''
      ''no leg failed'' ?ctx demo_one_legged (sv_db ?s) = (r, p1, db)" by (metis prod_cases3)
  have pos: "pos_state demo_one_legged = Pending" "pos_id demo_one_legged = 7"
    "no_exit_price demo_one_legged = None" "0 < no_entry_price demo_one_legged" "0 < quantity demo_one_legged"
    by (simp_all add: demo_one_legged_def demo_exit_position_def new_position_def Let_def)
  have row: "store_get (db_positions (sv_db ?s)) (pos_id demo_one_legged) = Some ?row"
    by (simp add: demo_one_legged_server_def pos)
  have r: "r = Inr ()" and stored: "store_get (db_positions db) 7 \<noteq> None"
    using t row pos
    by (auto simp: svc_transition_one_legged_to_exit_ready_def one_legged_exit_ready_def mark_open_def
        mark_exit_ready_def save_and_record_def position_update_def record_warn_def store_simps)
  then obtain p2 where load: "svc_load exact_env pg_exact demo_codec (pos_id demo_one_legged) db = Inr p2"
    by (auto simp: svc_load_def position_get_def pos)
  have "executor_room 2 ?s" "breaker_sane (sv_cb ?s)" "reliable demo_services"
    by (simp_all add: reliable_def demo_services_def executor_room_def demo_one_legged_server_def
        demo_server_def new_executor_def default_executor_config_def REPORT_CAPACITY_def
        breaker_sane_def cb_new_def default_state_def)
  from one_legged_exit_never_closes [OF this(3,1,2) row _ _ _ pos(3) _ _ t [unfolded r] load, of "sample_api 0"]
  show ?thesis using t r load pos by (auto simp: row_of_insert_def)
qed

end
