(* ===== verification/Arb_Executor.thy ===== *)
theory Arb_Executor
  imports Task_Logic
begin

section \<open>The arbitrage executor\<close>

text \<open>
  Model of \<open>ArbAutoExecutor\<close> in \<open>crates/api-server/src/arb_executor.rs\<close>: its startup, and the
  processing of one arbitrage signal: the checks, the token lookup, the depth of the two books, the
  rollout decision, the size, the pair of orders and the position. The runtime status and the skip
  events are part of the state; timings in the metadata of events, the baselines that a spawned
  task records for the learning service, and log lines are not modelled. The insert of the signal into
  \<open>arb_opportunities\<close> runs in a spawned task; here it takes effect at once.
\<close>

subsection \<open>Configuration\<close>

record ArbExecutorConfig =
  ax_enabled :: bool
  allow_live_execution :: bool
  position_size :: decimal
  min_net_profit :: decimal
  max_signal_age_secs :: int
  cache_refresh_secs :: u64
  dynamic_sizing :: bool
  min_position_size :: decimal
  max_position_size :: decimal
  ax_min_book_depth :: decimal
  ax_fee_rate :: decimal
  max_total_exposure :: decimal

definition default_arb_config :: ArbExecutorConfig where
  "default_arb_config = \<lparr>ax_enabled = False, allow_live_execution = False, position_size = dec_new 50 0,
     min_net_profit = dec_new 1 3, max_signal_age_secs = 30, cache_refresh_secs = 300,
     dynamic_sizing = True, min_position_size = dec_new 25 0, max_position_size = dec_new 200 0,
     ax_min_book_depth = dec_new 100 0, ax_fee_rate = dec_new 2 2, max_total_exposure = dec_new 25000 0\<rparr>"

subsection \<open>Status and events\<close>

definition record_signal :: "datetime \<Rightarrow> string \<Rightarrow> ArbExecutorRuntimeStatus \<Rightarrow> ArbExecutorRuntimeStatus" where
  "record_signal now m st = st\<lparr>signals_seen := saturating_inc (signals_seen st),
     last_signal_at := Some now, as_last_market_id := Some m\<rparr>"

definition record_decision ::
  "datetime \<Rightarrow> string \<Rightarrow> arb_decision \<Rightarrow> ArbExecutorRuntimeStatus \<Rightarrow> ArbExecutorRuntimeStatus" where
  "record_decision now m d st = st\<lparr>last_decision_at := Some now, as_last_market_id := Some m,
     last_decision := Some d\<rparr>"

definition arb_note ::
  "('w, 'o) clob_api \<Rightarrow> (ArbExecutorRuntimeStatus \<Rightarrow> ArbExecutorRuntimeStatus) \<Rightarrow> string \<Rightarrow> arb_decision
     \<Rightarrow> ('w, unit) task" where
  "arb_note A bump m d =
     smod (\<lambda>s. s\<lparr>sv_arb_status := record_decision (srv_now A s) m d (bump (sv_arb_status s))\<rparr>)"

definition arb_event :: "ArbOpportunity \<Rightarrow> string \<Rightarrow> string \<Rightarrow> NewTradeEvent" where
  "arb_event arb mode typ =
     (new_trade_event ''arb'' mode ''arb'' (arb_market_id arb) typ)
       \<lparr>te_expected_edge := Some (net_profit arb), te_observed_edge := Some (gross_profit arb)\<rparr>"

definition record_skip_event :: "'w srv_api \<Rightarrow> ArbOpportunity \<Rightarrow> string \<Rightarrow> string \<Rightarrow> ('w, unit) task" where
  "record_skip_event S arb mode reason =
     record_event S ((arb_event arb mode ''signal_skipped'')\<lparr>te_reason := Some (ReasonText reason)\<rparr>)"

definition arb_skip ::
  "('w, 'o) clob_api \<Rightarrow> 'w srv_api \<Rightarrow> ArbOpportunity \<Rightarrow> string
     \<Rightarrow> (ArbExecutorRuntimeStatus \<Rightarrow> ArbExecutorRuntimeStatus) \<Rightarrow> arb_decision \<Rightarrow> string \<Rightarrow> ('w, unit) task" where
  "arb_skip A S arb mode bump d reason =
     sbind (arb_note A bump (arb_market_id arb) d) (\<lambda>_. record_skip_event S arb mode reason)"

definition publish_failure_signal :: "string \<Rightarrow> ('w, unit) task" where
  "publish_failure_signal m = publish m ''execution_failed''"

subsection \<open>The checks\<close>

definition bump_disabled :: "ArbExecutorRuntimeStatus \<Rightarrow> ArbExecutorRuntimeStatus" where
  "bump_disabled st = st\<lparr>disabled_skips := saturating_inc (disabled_skips st)\<rparr>"

definition bump_depth :: "ArbExecutorRuntimeStatus \<Rightarrow> ArbExecutorRuntimeStatus" where
  "bump_depth st = st\<lparr>depth_skips := saturating_inc (depth_skips st)\<rparr>"

definition bump_failures :: "ArbExecutorRuntimeStatus \<Rightarrow> ArbExecutorRuntimeStatus" where
  "bump_failures st = st\<lparr>execution_failures := saturating_inc (execution_failures st)\<rparr>"

text \<open>The exposure check: a query that fails lets the trade go on.\<close>

definition exposure_check ::
  "('w, 'o) clob_api \<Rightarrow> 'w srv_api \<Rightarrow> ArbExecutorConfig \<Rightarrow> ArbOpportunity \<Rightarrow> string \<Rightarrow> ('w, bool) task" where
  "exposure_check A S cfg arb mode =
     sbind (on_world (sa_pg S)) (\<lambda>P. sbranch (\<lambda>s.
       let total = get_total_active_exposure (db_positions (sv_db s))
       in if pg_ok P 0 \<and> max_total_exposure cfg \<le> total
          then sbind (arb_skip A S arb mode id (SkippedExposure total (max_total_exposure cfg))
                 ''exposure_limit'') (\<lambda>_. sret False)
          else sret True))"

text \<open>\<open>True\<close> when the signal may be traded; \<open>False\<close> when it was skipped.\<close>

definition arb_admit ::
  "('w, 'o) clob_api \<Rightarrow> 'w srv_api \<Rightarrow> ArbExecutorConfig \<Rightarrow> ArbOpportunity \<Rightarrow> bool \<Rightarrow> string \<Rightarrow> ('w, bool) task" where
  "arb_admit A S cfg arb live mode =
     (let skip = (\<lambda>bump d reason. sbind (arb_skip A S arb mode bump d reason) (\<lambda>_. sret False))
      in if \<not> ax_enabled cfg then skip bump_disabled SkippedDisabled ''executor_disabled''
         else if live \<and> \<not> allow_live_execution cfg
         then skip bump_disabled SkippedLiveNotAcknowledged ''live_execution_not_acknowledged''
         else if net_profit arb < min_net_profit cfg
         then skip (\<lambda>st. st\<lparr>min_profit_skips := saturating_inc (min_profit_skips st)\<rparr>)
                (SkippedMinProfit (net_profit arb) (min_net_profit cfg)) ''below_min_profit''
         else sbranch (\<lambda>s.
           if arb_market_id arb \<in> sv_dedup s
           then skip (\<lambda>st. st\<lparr>active_position_skips := saturating_inc (active_position_skips st)\<rparr>)
                  SkippedActivePosition ''active_position_exists''
           else sbind (breaker_can_trade A S) (\<lambda>ok.
             if \<not> ok
             then skip (\<lambda>st. st\<lparr>circuit_breaker_skips := saturating_inc (circuit_breaker_skips st)\<rparr>)
                    SkippedBreaker ''circuit_breaker''
             else exposure_check A S cfg arb mode)))"

text \<open>The tokens of the market: from the cache, or by loading the one market.\<close>

definition arb_tokens ::
  "('w, 'o) clob_api \<Rightarrow> 'w srv_api \<Rightarrow> ArbOpportunity \<Rightarrow> string \<Rightarrow> ('w, (string \<times> string) option) task" where
  "arb_tokens A S arb mode =
     sbranch (\<lambda>s. case tc_get (sv_tokens s) (arb_market_id arb) of
         Some ids \<Rightarrow> sret (Some ids)
       | None \<Rightarrow>
           sbind (cache_hydrate S (arb_market_id arb)) (\<lambda>h. case h of
               Some ids \<Rightarrow> sret (Some ids)
             | None \<Rightarrow>
                 sbind (arb_skip A S arb mode
                   (\<lambda>st. st\<lparr>token_lookup_skips := saturating_inc (token_lookup_skips st)\<rparr>)
                   SkippedTokens ''token_lookup_failed'') (\<lambda>_. sret None)))"

definition ask_depth :: "num_env \<Rightarrow> OrderBook \<Rightarrow> decimal" where
  "ask_depth E book = dsum E (map (\<lambda>l. dmul E (pl_price l) (pl_size l)) (asks book))"

definition arb_books ::
  "num_env \<Rightarrow> ('w, 'o) clob_api \<Rightarrow> 'w srv_api \<Rightarrow> ArbExecutorConfig \<Rightarrow> ArbOpportunity \<Rightarrow> string \<Rightarrow> string \<times> string
     \<Rightarrow> ('w, (OrderBook \<times> OrderBook) option) task" where
  "arb_books E A S cfg arb mode tokens =
     (let unavailable = (\<lambda>e. sbind (arb_skip A S arb mode bump_depth (SkippedBooks e)
            ''orderbook_unavailable'') (\<lambda>_. sret None))
      in sbind (on_world (sa_book S (fst tokens))) (\<lambda>y.
         sbind (on_world (sa_book S (snd tokens))) (\<lambda>n.
           case y of
             Inl e \<Rightarrow> unavailable e
           | Inr yb \<Rightarrow>
               (case n of
                  Inl e \<Rightarrow> unavailable e
                | Inr nb \<Rightarrow>
                    let yes_depth = ask_depth E yb; no_depth = ask_depth E nb
                    in if yes_depth < ax_min_book_depth cfg \<or> no_depth < ax_min_book_depth cfg
                       then sbind (arb_skip A S arb mode bump_depth
                              (SkippedDepth yes_depth no_depth (ax_min_book_depth cfg)) ''insufficient_depth'')
                              (\<lambda>_. sret None)
                       else sret (Some (yb, nb))))))"

subsection \<open>The size\<close>

definition arb_ceiling :: decimal where
  "arb_ceiling = dec_new 5 2"

text \<open>A division by a range that is not zero cannot fail; a negative range is possible.\<close>

definition dynamic_size :: "num_env \<Rightarrow> ArbExecutorConfig \<Rightarrow> decimal \<Rightarrow> decimal" where
  "dynamic_size E cfg profit =
     (let range = dsub E arb_ceiling (min_net_profit cfg)
      in if range = 0 then min_position_size cfg
         else let t = ddiv E (dsub E profit (min_net_profit cfg)) range;
                  clamped = min (max t 0) 1
              in dadd E (min_position_size cfg)
                   (dmul E (dsub E (max_position_size cfg) (min_position_size cfg)) clamped))"

definition arb_position_size ::
  "num_env \<Rightarrow> ArbExecutorConfig \<Rightarrow> ArbOpportunity \<Rightarrow> RolloutDecision \<Rightarrow> decimal" where
  "arb_position_size E cfg arb d =
     (let size = (if dynamic_sizing cfg then dynamic_size E cfg (net_profit arb) else position_size cfg)
      in if size_multiplier d < 1 then dmul E size (size_multiplier d) else size)"

definition note_resize :: "('w, 'o) clob_api \<Rightarrow> ArbOpportunity \<Rightarrow> RolloutDecision \<Rightarrow> ('w, unit) task" where
  "note_resize A arb d =
     (if size_multiplier d < 1 then arb_note A id (arb_market_id arb) (SizeAdjusted (size_multiplier d))
      else sret ())"

text \<open>The buying power for both legs, in live mode; \<open>False\<close> when the signal was skipped.\<close>

definition live_check ::
  "('w, 'o) clob_api \<Rightarrow> decimal \<Rightarrow> ('w, string + unit) task" where
  "live_check A required s =
     (case ensure_live_buying_power A required (sv_exec s) of
        (Some r, ex) \<Rightarrow> (Ok r, s\<lparr>sv_exec := ex\<rparr>)
      | (None, ex) \<Rightarrow> (Stuck, s\<lparr>sv_exec := ex\<rparr>))"

definition arb_funds ::
  "num_env \<Rightarrow> ('w, 'o) clob_api \<Rightarrow> 'w srv_api \<Rightarrow> ArbOpportunity \<Rightarrow> bool \<Rightarrow> string \<Rightarrow> OrderBook \<times> OrderBook \<Rightarrow> decimal
     \<Rightarrow> ('w, bool) task" where
  "arb_funds E A S arb live mode books qty =
     (let skip = (\<lambda>bump d reason. sbind (arb_skip A S arb mode bump d reason) (\<lambda>_. sret False))
      in if \<not> live then sret True
         else case best_ask (fst books) of
           None \<Rightarrow> skip bump_depth SkippedYesAsk ''yes_best_ask_missing''
         | Some y \<Rightarrow>
             (case best_ask (snd books) of
                None \<Rightarrow> skip bump_depth SkippedNoAsk ''no_best_ask_missing''
              | Some n \<Rightarrow>
                  let required = dmul E qty (dadd E y n)
                  in sbind (live_check A required) (\<lambda>r. case r of
                       Inl e \<Rightarrow> skip bump_failures (SkippedBuyingPower required e)
                                 ''insufficient_pair_buying_power''
                     | Inr _ \<Rightarrow> sret True)))"

subsection \<open>The orders\<close>

definition arb_ctx :: "string \<Rightarrow> EventContext" where
  "arb_ctx mode = \<lparr>execution_mode = mode, strategy = ''arb'', source_label = ''arb''\<rparr>"

definition arb_params :: "ArbOpportunity \<Rightarrow> decimal \<Rightarrow> CreatePositionParams" where
  "arb_params arb qty = \<lparr>cp_market_id = arb_market_id arb, cp_yes_entry_price = yes_ask arb,
     cp_no_entry_price = no_ask arb, cp_quantity = qty, cp_exit_strategy = HoldToResolution,
     cp_source = SOURCE_ARBITRAGE, cp_source_signal_id = None, cp_arb_opportunity = Some arb\<rparr>"

text \<open>Creating a position through the service; the id is drawn from the world.\<close>

definition create_stored ::
  "num_env \<Rightarrow> ('w, 'o) clob_api \<Rightarrow> 'w srv_api \<Rightarrow> reason_codec \<Rightarrow> CreatePositionParams \<Rightarrow> EventContext \<Rightarrow> string
     \<Rightarrow> ('w, Position) task" where
  "create_stored E A S J params ctx context =
     sbind (on_world (sa_uuid S)) (\<lambda>pid. sbind (on_world (sa_pg S)) (\<lambda>P s.
       case svc_create_position E P J pid (srv_now A s) params ctx (sv_db s) of
         (Inl e, db) \<Rightarrow> (Err (context @ sa_svc_text S e), s\<lparr>sv_db := db\<rparr>)
       | (Inr p, db) \<Rightarrow> (Ok p, s\<lparr>sv_db := db\<rparr>)))"

definition create_arb_position ::
  "num_env \<Rightarrow> ('w, 'o) clob_api \<Rightarrow> 'w srv_api \<Rightarrow> reason_codec \<Rightarrow> ArbOpportunity \<Rightarrow> decimal \<Rightarrow> string
     \<Rightarrow> ('w, Position) task" where
  "create_arb_position E A S J arb qty mode =
     create_stored E A S J (arb_params arb qty) (arb_ctx mode) ''Failed to persist position: ''"

definition arb_order ::
  "num_env \<Rightarrow> ('w, 'o) clob_api \<Rightarrow> 'w srv_api \<Rightarrow> string \<Rightarrow> string \<Rightarrow> decimal \<Rightarrow> decimal \<Rightarrow> ('w, ExecutionReport) task" where
  "arb_order E A S m token price qty =
     sbind (on_world (sa_uuid S)) (\<lambda>oid. sbranch (\<lambda>s.
       run_market_order E A S (with_slippage (default_slippage (ex_config (sv_exec s)))
         (with_expected_price price (new_market_order oid (srv_now A s) m token Buy qty)))))"

definition report_text :: "'w srv_api \<Rightarrow> string \<Rightarrow> ExecutionReport \<Rightarrow> string" where
  "report_text S fallback rep =
     (case error_message rep of Some e \<Rightarrow> sa_error_text S e | None \<Rightarrow> fallback)"

definition arb_entry_failed ::
  "('w, 'o) clob_api \<Rightarrow> 'w srv_api \<Rightarrow> reason_codec \<Rightarrow> ArbOpportunity \<Rightarrow> string \<Rightarrow> ExecutionReport \<Rightarrow> Position
     \<Rightarrow> ('w, unit) task" where
  "arb_entry_failed A S J arb mode rep p =
     (let msg = report_text S ''YES order not filled'' rep
      in sbind (arb_note A bump_failures (arb_market_id arb) (YesOrderRejected msg)) (\<lambda>_.
         sbind (with_service A S (\<lambda>P now. svc_mark_entry_failed P J now (OrderRejected msg) (arb_ctx mode) p))
           (\<lambda>_. publish_failure_signal (arb_market_id arb))))"

definition arb_one_legged ::
  "('w, 'o) clob_api \<Rightarrow> 'w srv_api \<Rightarrow> reason_codec \<Rightarrow> ArbOpportunity \<Rightarrow> string \<Rightarrow> ExecutionReport \<Rightarrow> Position
     \<Rightarrow> ('w, unit) task" where
  "arb_one_legged A S J arb mode rep p =
     (let msg = report_text S ''NO order not filled'' rep
      in sbind (arb_note A bump_failures (arb_market_id arb) (NoOrderRejected msg)) (\<lambda>_.
         sbind (with_service A S (\<lambda>P now. svc_transition_one_legged_to_exit_ready P J now ''yes''
                  (''NO order rejected after YES fill: '' @ msg) (arb_ctx mode) p)) (\<lambda>_.
         sbind (smod (\<lambda>s. s\<lparr>sv_dedup := sv_dedup s \<union> {arb_market_id arb}\<rparr>)) (\<lambda>_.
           publish_failure_signal (arb_market_id arb)))))"

definition arb_opened ::
  "num_env \<Rightarrow> ('w, 'o) clob_api \<Rightarrow> 'w srv_api \<Rightarrow> reason_codec \<Rightarrow> ArbOpportunity \<Rightarrow> decimal \<Rightarrow> string \<Rightarrow> Position
     \<Rightarrow> ('w, unit) task" where
  "arb_opened E A S J arb qty mode p =
     sbind (with_service A S (\<lambda>P now. svc_mark_open P J now (arb_ctx mode) p)) (\<lambda>_.
     sbind (smod (\<lambda>s. s\<lparr>sv_dedup := sv_dedup s \<union> {arb_market_id arb}\<rparr>)) (\<lambda>_.
     sbind (publish (arb_market_id arb) ''executed'') (\<lambda>_.
       arb_note A (\<lambda>st. st\<lparr>executed := saturating_inc (executed st)\<rparr>) (arb_market_id arb)
         (ExecutedPosition (pos_id p) (dmul E (net_profit arb) qty)))))"

text \<open>The failures of recording a fill are ignored; the position in memory has the fill then.\<close>

definition arb_second_leg ::
  "num_env \<Rightarrow> ('w, 'o) clob_api \<Rightarrow> 'w srv_api \<Rightarrow> reason_codec \<Rightarrow> ArbOpportunity \<Rightarrow> decimal \<Rightarrow> string \<Rightarrow> string
     \<Rightarrow> ExecutionReport \<Rightarrow> Position \<Rightarrow> ('w, unit) task" where
  "arb_second_leg E A S J arb qty mode no_token yes_rep p =
     sbind (arb_order E A S (arb_market_id arb) no_token (no_ask arb) (filled_quantity yes_rep)) (\<lambda>rep.
       if \<not> is_success rep then arb_one_legged A S J arb mode rep p
       else sbind (with_service A S (\<lambda>P now. svc_record_entry_fill E P J now No (average_price rep)
                     (filled_quantity rep) (arb_ctx mode) p)) (\<lambda>(_, p'). arb_opened E A S J arb qty mode p'))"

definition arb_execute ::
  "num_env \<Rightarrow> ('w, 'o) clob_api \<Rightarrow> 'w srv_api \<Rightarrow> reason_codec \<Rightarrow> ArbOpportunity \<Rightarrow> decimal \<Rightarrow> string \<Rightarrow> string \<times> string
     \<Rightarrow> ('w, unit) task" where
  "arb_execute E A S J arb qty mode tokens =
     sbind (create_arb_position E A S J arb qty mode) (\<lambda>p.
     sbind (arb_order E A S (arb_market_id arb) (fst tokens) (yes_ask arb) qty) (\<lambda>rep.
       if \<not> is_success rep then arb_entry_failed A S J arb mode rep p
       else sbind (with_service A S (\<lambda>P now. svc_record_entry_fill E P J now Yes (average_price rep)
                     (filled_quantity rep) (arb_ctx mode) p)) (\<lambda>(_, p1).
              arb_second_leg E A S J arb qty mode (snd tokens) rep p1)))"

subsection \<open>One signal\<close>

definition arb_sized ::
  "num_env \<Rightarrow> ('w, 'o) clob_api \<Rightarrow> 'w srv_api \<Rightarrow> reason_codec \<Rightarrow> ArbExecutorConfig \<Rightarrow> ArbOpportunity \<Rightarrow> bool \<Rightarrow> string
     \<Rightarrow> string \<times> string \<Rightarrow> OrderBook \<times> OrderBook \<Rightarrow> RolloutDecision \<Rightarrow> ('w, unit) task" where
  "arb_sized E A S J cfg arb live mode tokens books d =
     sbind (note_resize A arb d) (\<lambda>_.
       if total_cost arb = 0
       then arb_skip A S arb mode (\<lambda>st. st\<lparr>zero_cost_skips := saturating_inc (zero_cost_skips st)\<rparr>)
              SkippedZeroCost ''zero_total_cost''
       else let qty = ddiv E (arb_position_size E cfg arb d) (total_cost arb)
            in sbind (arb_funds E A S arb live mode books qty) (\<lambda>ok.
                 if ok then arb_execute E A S J arb qty mode tokens else sret ()))"

definition arb_trade ::
  "num_env \<Rightarrow> ('w, 'o) clob_api \<Rightarrow> 'w srv_api \<Rightarrow> reason_codec \<Rightarrow> ArbExecutorConfig \<Rightarrow> ArbOpportunity \<Rightarrow> bool \<Rightarrow> string
     \<Rightarrow> ('w, unit) task" where
  "arb_trade E A S J cfg arb live mode =
     sbind (arb_admit A S cfg arb live mode) (\<lambda>ok. if \<not> ok then sret () else
     sbind (arb_tokens A S arb mode) (\<lambda>t. case t of
         None \<Rightarrow> sret ()
       | Some tokens \<Rightarrow>
           sbind (arb_books E A S cfg arb mode tokens) (\<lambda>b. case b of
               None \<Rightarrow> sret ()
             | Some books \<Rightarrow>
                 sbind (on_world (sa_rollouts S)) (\<lambda>found.
                   let d = evaluate_rollouts E mode (sa_arb_score S arb) found
                   in case skip_reason d of
                        Some why \<Rightarrow> arb_skip A S arb mode id (SkippedRollout why) why
                      | None \<Rightarrow> arb_sized E A S J cfg arb live mode tokens books d))))"

text \<open>Before the checks a fresh signal is stored and announced, whether it is traded or not.\<close>

definition arb_announce :: "'w srv_api \<Rightarrow> ArbOpportunity \<Rightarrow> bool \<Rightarrow> string \<Rightarrow> ('w, unit) task" where
  "arb_announce S arb live mode =
     sbind (smod (\<lambda>s. s\<lparr>sv_arb_status := (sv_arb_status s)\<lparr>as_live_ready := live\<rparr>\<rparr>)) (\<lambda>_.
     sbind (on_world (sa_pg S)) (\<lambda>P.
     sbind (smod (\<lambda>s. s\<lparr>sv_opportunities := sv_opportunities s @ (if pg_ok P 0 then [arb] else [])\<rparr>)) (\<lambda>_.
       record_event S (arb_event arb mode ''signal_generated''))))"

definition signal_age :: "datetime \<Rightarrow> ArbOpportunity \<Rightarrow> int" where
  "signal_age now arb = max (num_milliseconds (now - arb_timestamp arb)) 0 div 1000"

definition arb_fresh ::
  "num_env \<Rightarrow> ('w, 'o) clob_api \<Rightarrow> 'w srv_api \<Rightarrow> reason_codec \<Rightarrow> ArbExecutorConfig \<Rightarrow> ArbOpportunity
     \<Rightarrow> ('w, unit) task" where
  "arb_fresh E A S J cfg arb =
     sbranch (\<lambda>s. sbind (arb_announce S arb (is_live_ready (sv_exec s)) (execution_mode_of s)) (\<lambda>_.
       arb_trade E A S J cfg arb (is_live_ready (sv_exec s)) (execution_mode_of s)))"

definition process_arb_signal ::
  "num_env \<Rightarrow> ('w, 'o) clob_api \<Rightarrow> 'w srv_api \<Rightarrow> reason_codec \<Rightarrow> ArbExecutorConfig \<Rightarrow> ArbOpportunity
     \<Rightarrow> ('w, unit) task" where
  "process_arb_signal E A S J cfg arb =
     sbranch (\<lambda>s.
       let age = signal_age (srv_now A s) arb
       in sbind (smod (\<lambda>s. s\<lparr>sv_arb_status := record_signal (srv_now A s) (arb_market_id arb)
                 ((sv_arb_status s)\<lparr>as_enabled := ax_enabled cfg\<rparr>)\<rparr>)) (\<lambda>_.
          if max_signal_age_secs cfg < age
          then arb_skip A S arb ''unknown'' (\<lambda>st. st\<lparr>stale_skips := saturating_inc (stale_skips st)\<rparr>)
                 (SkippedStale age (max_signal_age_secs cfg)) ''too_stale''
          else arb_fresh E A S J cfg arb))"

subsection \<open>Startup and the loop\<close>

definition STALE_CLEANUP :: FailureReason where
  "STALE_CLEANUP = UnknownFailure ''stale_cleanup: stuck in Pending >24h''"

definition stale_pending :: "datetime \<Rightarrow> position_row \<Rightarrow> bool" where
  "stale_pending now r = (r_state r = 0 \<and> r_entry_timestamp r < now - 24 * 3600 * ns_per_sec)"

text \<open>The statement sets the state and the reason only.\<close>

definition cleanup_stale :: "reason_codec \<Rightarrow> datetime \<Rightarrow> position_table \<Rightarrow> position_table" where
  "cleanup_stale J now t =
     map (\<lambda>(i, r). (i, if stale_pending now r
        then r\<lparr>r_state := 5, r_failure_reason := Some (rc_encode J STALE_CLEANUP)\<rparr> else r)) t"

definition arb_startup ::
  "num_env \<Rightarrow> ('w, 'o) clob_api \<Rightarrow> 'w srv_api \<Rightarrow> reason_codec \<Rightarrow> ArbExecutorConfig \<Rightarrow> ('w, unit) task" where
  "arb_startup E A S J cfg =
     sbranch (\<lambda>s.
       let live = is_live_ready (sv_exec s)
       in sbind (arb_note A (\<lambda>st. st\<lparr>as_enabled := ax_enabled cfg, as_live_ready := live\<rparr>) ''startup''
                 (StartedUp (ax_enabled cfg) live (min_net_profit cfg) (ax_min_book_depth cfg)
                    (max_signal_age_secs cfg))) (\<lambda>_.
          sbind (on_world (sa_pg S)) (\<lambda>P.
          sbind (smod (\<lambda>s. if pg_ok P 0
                   then s\<lparr>sv_db := (sv_db s)\<lparr>db_positions := cleanup_stale J (srv_now A s) (db_positions (sv_db s))\<rparr>\<rparr>
                   else s)) (\<lambda>_.
          sbind (on_world (sa_pg S)) (\<lambda>P.
          sbind (smod (\<lambda>s. case get_active E P 0 J (db_positions (sv_db s)) of
                     Some ps \<Rightarrow> s\<lparr>sv_dedup := sv_dedup s \<union> set (map pos_market_id ps)\<rparr>
                   | None \<Rightarrow> s)) (\<lambda>_.
          sbind (cache_refresh S) (\<lambda>_. sret ())))))))"

text \<open>What wakes the loop: a signal, a lag of the channel, the cache ticker.\<close>

datatype arb_wakeup = ArbSignal ArbOpportunity | Lagged nat | CacheTick | HeartbeatTick

definition arb_wake ::
  "num_env \<Rightarrow> ('w, 'o) clob_api \<Rightarrow> 'w srv_api \<Rightarrow> reason_codec \<Rightarrow> ArbExecutorConfig \<Rightarrow> arb_wakeup \<Rightarrow> ('w, unit) task" where
  "arb_wake E A S J cfg ev =
     (case ev of
        ArbSignal arb \<Rightarrow> log_error (process_arb_signal E A S J cfg arb)
      | Lagged n \<Rightarrow> arb_note A (\<lambda>st. st\<lparr>lagged_signals := saturating_add (lagged_signals st) n\<rparr>) ''channel''
                     (LaggedSignals n)
      | CacheTick \<Rightarrow>
          sbind (cache_refresh S) (\<lambda>r. case r of
              Inr _ \<Rightarrow> sret ()
            | Inl e \<Rightarrow> arb_note A (\<lambda>st. st\<lparr>cache_refresh_failures := saturating_inc (cache_refresh_failures st)\<rparr>)
                         ''cache'' (RefreshFailed e))
      | HeartbeatTick \<Rightarrow> sret ())"

subsection \<open>The checks hold the executor back\<close>

text \<open>Nothing was traded: no position, no order, no signal; the market is as free as before.\<close>

definition no_entry :: "'w server \<Rightarrow> 'w server \<Rightarrow> bool" where
  "no_entry s s' \<longleftrightarrow> db_positions (sv_db s') = db_positions (sv_db s) \<and> sv_dedup s' = sv_dedup s
     \<and> sv_signals s' = sv_signals s \<and> (\<exists>w. sv_exec s' = (sv_exec s)\<lparr>world := w\<rparr>)"

lemma same_world [simp]: "\<exists>w. ex = ex\<lparr>world := w\<rparr>"
  by (rule exI [of _ "world ex"]) simp

lemma no_entry_refl [simp]: "no_entry s s"
  by (simp add: no_entry_def)

interpretation idle: task_relation no_entry
  by unfold_locales (auto simp: no_entry_def set_world_def)

lemma no_entry_updates [simp]:
  "no_entry s (s\<lparr>sv_arb_status := a\<rparr>)" "no_entry s (s\<lparr>sv_opportunities := b\<rparr>)"
  "no_entry s (s\<lparr>sv_cb := c\<rparr>)" "no_entry s (s\<lparr>sv_tokens := d\<rparr>)"
  "no_entry s (s\<lparr>sv_db := record_warn P i ev (sv_db s)\<rparr>)"
  by (simp_all add: no_entry_def record_warn_def)

lemma idle_steps:
  "stays no_entry (arb_note A bump m d)"
  "stays no_entry (record_event S ev)"
  "stays no_entry (breaker_can_trade A S)"
  "stays no_entry (cache_hydrate S m)"
  "stays no_entry (live_check A req)"
proof -
  show "stays no_entry (arb_note A bump m d)"
    unfolding arb_note_def by (rule idle.smod) simp
  show "stays no_entry (record_event S ev)"
    unfolding record_event_def by (intro idle.rules idle.updates) simp
  show "stays no_entry (breaker_can_trade A S)"
    unfolding breaker_can_trade_def by (intro idle.rules) (auto simp: stays_def split: prod.split)
  show "stays no_entry (cache_hydrate S m)"
    unfolding cache_hydrate_def
    by (intro idle.rules stays_cases) (simp add: stays_def split: prod.split)
  show "stays no_entry (live_check A req)"
    by (auto simp: stays_def live_check_def ensure_live_buying_power_def no_entry_def
        split: prod.split option.split)
qed

lemma idle_skip: "stays no_entry (arb_skip A S arb mode bump d reason)"
  unfolding arb_skip_def record_skip_event_def by (intro idle.rules idle_steps)

lemma idle_stages:
  "stays no_entry (exposure_check A S cfg arb mode)"
  "stays no_entry (arb_admit A S cfg arb live mode)"
  "stays no_entry (arb_tokens A S arb mode)"
  "stays no_entry (arb_books E A S cfg arb mode tokens)"
  "stays no_entry (note_resize A arb rd)"
  "stays no_entry (arb_funds E A S arb live mode books qty)"
  unfolding exposure_check_def arb_admit_def arb_tokens_def arb_books_def note_resize_def arb_funds_def Let_def
  by (intro idle.rules stays_cases idle_steps idle_skip)+

text \<open>A signal that one of the checks must stop, in the state it finds.\<close>

definition arb_blocked :: "'w srv_api \<Rightarrow> ArbExecutorConfig \<Rightarrow> ArbOpportunity \<Rightarrow> 'w server \<Rightarrow> bool" where
  "arb_blocked S cfg arb s \<longleftrightarrow> \<not> ax_enabled cfg \<or> is_live_ready (sv_exec s) \<and> \<not> allow_live_execution cfg
     \<or> net_profit arb < min_net_profit cfg \<or> arb_market_id arb \<in> sv_dedup s
     \<or> (\<forall>P now. \<not> snd (can_trade P now now (sv_cb s)))
     \<or> reliable S \<and> max_total_exposure cfg \<le> get_total_active_exposure (db_positions (sv_db s))"

lemma arb_skip_False:
  "sbind (arb_skip A S arb mode bump d reason) (\<lambda>_. sret False) s \<noteq> (Ok True, s')"
  by (auto simp: sbind_def sret_def split: prod.split flow.split)

lemma exposure_check_blocks:
  assumes "reliable S" "max_total_exposure cfg \<le> get_total_active_exposure (db_positions (sv_db s))"
  shows "exposure_check A S cfg arb mode s \<noteq> (Ok True, s')"
proof -
  have "pg_ok (fst (sa_pg S (srv_world s))) 0" using assms(1) by (simp add: reliable_def)
  with assms(2) show ?thesis
    by (simp add: exposure_check_def sbind_on_world sbranch_def Let_def arb_skip_False)
      (simp add: set_world_def arb_skip_False)
qed

lemma arb_admit_blocks:
  assumes "arb_blocked S cfg arb s" "live = is_live_ready (sv_exec s)"
  shows "arb_admit A S cfg arb live mode s \<noteq> (Ok True, s')"
proof
  assume run: "arb_admit A S cfg arb live mode s = (Ok True, s')"
  then have pass: "ax_enabled cfg" "\<not> (live \<and> \<not> allow_live_execution cfg)" "\<not> net_profit arb < min_net_profit cfg"
    "arb_market_id arb \<notin> sv_dedup s"
    by (auto simp: arb_admit_def Let_def sbranch_def arb_skip_False split: if_splits)
  with run have "sbind (breaker_can_trade A S) (\<lambda>ok. if \<not> ok
      then sbind (arb_skip A S arb mode (\<lambda>st. st\<lparr>circuit_breaker_skips := saturating_inc (circuit_breaker_skips st)\<rparr>)
             SkippedBreaker ''circuit_breaker'') (\<lambda>_. sret False)
      else exposure_check A S cfg arb mode) s = (Ok True, s')"
    by (auto simp: arb_admit_def Let_def sbranch_def)
  then obtain ok s1 where b: "breaker_can_trade A S s = (Ok ok, s1)" and ok: "ok"
    and e: "exposure_check A S cfg arb mode s1 = (Ok True, s')"
    by (auto simp: sbind_def [of "breaker_can_trade _ _"] arb_skip_False split: prod.splits flow.splits if_splits)
  obtain P now cb where "can_trade P now now (sv_cb s) = (cb, True)"
    and "db_positions (sv_db s1) = db_positions (sv_db s)"
    using b ok by (auto simp: breaker_can_trade_def sbind_def on_world_def set_world_def split: prod.splits)
  then have "snd (can_trade P now now (sv_cb s))" "db_positions (sv_db s1) = db_positions (sv_db s)" by simp_all
  with pass assms exposure_check_blocks [of S cfg s1 A arb mode s'] e show False
    unfolding arb_blocked_def by metis
qed

lemma arb_trade_blocked:
  assumes "arb_blocked S cfg arb s" "live = is_live_ready (sv_exec s)"
  shows "no_entry s (snd (arb_trade E A S J cfg arb live mode s))"
proof -
  obtain r s1 where m: "arb_admit A S cfg arb live mode s = (r, s1)" by fastforce
  then have "no_entry s s1"
    using idle_stages(2) [of A S cfg arb live mode] by (metis stays_def snd_conv)
  moreover have "r \<noteq> Ok True" using arb_admit_blocks [OF assms] m by metis
  ultimately show ?thesis using m
    by (cases r) (auto simp: arb_trade_def sbind_def [of "arb_admit _ _ _ _ _ _"] sret_def)
qed

lemma arb_trade_zero_cost: "total_cost arb = 0 \<Longrightarrow> stays no_entry (arb_trade E A S J cfg arb live mode)"
  unfolding arb_trade_def arb_sized_def Let_def
  by (intro idle.rules stays_cases idle_stages idle_skip) simp

text \<open>Announcing a signal leaves alone what the checks look at.\<close>

definition announced :: "'w server \<Rightarrow> 'w server \<Rightarrow> bool" where
  "announced s s' \<longleftrightarrow> no_entry s s' \<and> sv_cb s' = sv_cb s"

interpretation announced: task_relation announced
  by unfold_locales (auto simp: announced_def set_world_def no_entry_def)

lemma announced_announce: "stays announced (arb_announce S arb live mode)"
  unfolding arb_announce_def record_event_def
  by (intro announced.rules announced.smod announced.updates) (simp_all add: announced_def)

lemma announced_fields:
  assumes "announced s s'"
  shows "sv_cb s' = sv_cb s" "sv_dedup s' = sv_dedup s" "db_positions (sv_db s') = db_positions (sv_db s)"
    "is_live_ready (sv_exec s') = is_live_ready (sv_exec s)"
  using assms by (auto simp: announced_def no_entry_def is_live_ready_def)

lemma arb_blocked_announced: "announced s s' \<Longrightarrow> arb_blocked S cfg arb s' = arb_blocked S cfg arb s"
  unfolding arb_blocked_def by (simp only: announced_fields)

lemma arb_fresh_blocked:
  assumes "arb_blocked S cfg arb s \<or> total_cost arb = 0"
  shows "no_entry s (snd (arb_fresh E A S J cfg arb s))"
proof -
  let ?live = "is_live_ready (sv_exec s)" and ?mode = "execution_mode_of s"
  obtain r s1 where m: "arb_announce S arb ?live ?mode s = (r, s1)" by fastforce
  then have s1: "announced s s1" using announced_announce by (metis stays_def snd_conv)
  then have live: "?live = is_live_ready (sv_exec s1)" by (simp add: announced_fields)
  have "no_entry s1 (snd (arb_trade E A S J cfg arb ?live ?mode s1))"
    using assms
  proof
    assume "arb_blocked S cfg arb s"
    with s1 show ?thesis by (intro arb_trade_blocked live) (simp add: arb_blocked_announced)
  next
    assume "total_cost arb = 0"
    then show ?thesis using arb_trade_zero_cost by (metis stays_def)
  qed
  with s1 m show ?thesis
    by (cases r) (auto simp: arb_fresh_def sbranch_def sbind_def announced_def intro: idle.trans)
qed

text \<open>A signal for the witnesses.\<close>

definition demo_arb :: ArbOpportunity where
  "demo_arb = \<lparr>arb_market_id = ''m'', arb_timestamp = 0, yes_ask = 48 / 100, no_ask = 49 / 100,
     total_cost = 97 / 100, gross_profit = 3 / 100, net_profit = 2 / 100, fee_drag = 1 / 100,
     worst_case_payout = 99 / 100, yes_fee_shares = 0, no_fee_shares = 0\<rparr>"



end
