(* ===== verification/Sizing.thy ===== *)
theory Sizing
  imports Numeric
begin

section \<open>Position sizing\<close>

text \<open>
  Model of \<open>crates/polymarket-core/src/sizing.rs\<close>: the Kelly fraction of a binary bet, the size it leads
  to, and the linear size between two edges. \<open>bankroll.to_string().parse::<f64>()\<close> is the conversion
  \<open>dec_to_f64\<close>. The lemmas bound both sizes by the configured limits, and a larger probability never
  gives a smaller fraction.
\<close>

record KellyConfig =
  kelly_fraction_multiplier :: f64
  bankroll :: decimal
  max_position :: decimal
  min_position :: decimal

definition default_kelly_config :: KellyConfig where
  "default_kelly_config = \<lparr>kelly_fraction_multiplier = 1 / 4, bankroll = dec_new 1000 0,
     max_position = dec_new 200 0, min_position = dec_new 5 0\<rparr>"

definition kelly_fraction :: "num_env \<Rightarrow> f64 \<Rightarrow> f64 \<Rightarrow> f64" where
  "kelly_fraction E p_win price =
     (if price \<le> 0 \<or> 1 \<le> price \<or> p_win \<le> 0 \<or> 1 \<le> p_win then 0
      else let b = fdiv E (fsub E 1 price) price;
               q = fsub E 1 p_win;
               f = fdiv E (fsub E (fmul E p_win b) q) b
           in min (max f 0) 1)"

definition kelly_position_size :: "num_env \<Rightarrow> f64 \<Rightarrow> f64 \<Rightarrow> KellyConfig \<Rightarrow> decimal option" where
  "kelly_position_size E p_win price cfg =
     (let f = kelly_fraction E p_win price
      in if f \<le> 0 then None
         else let raw = fmul E (fmul E (kelly_fraction_multiplier cfg) f) (dec_to_f64 E (bankroll cfg))
              in case f64_to_dec E raw of
                   None \<Rightarrow> None
                 | Some amount \<Rightarrow>
                     let clamped = min amount (max_position cfg)
                     in if clamped < min_position cfg then None else Some clamped)"

text \<open>A division by a range that is not zero cannot fail.\<close>

definition linear_position_size ::
  "num_env \<Rightarrow> decimal \<Rightarrow> decimal \<Rightarrow> decimal \<Rightarrow> decimal \<Rightarrow> decimal \<Rightarrow> decimal" where
  "linear_position_size E edge min_edge max_edge min_pos max_pos =
     (let range = dsub E max_edge min_edge
      in if range = 0 then min_pos
         else let t = min (max (ddiv E (dsub E edge min_edge) range) 0) 1
              in dadd E min_pos (dmul E (dsub E max_pos min_pos) t))"

lemma kelly_fraction_bounds: "0 \<le> kelly_fraction E p price \<and> kelly_fraction E p price \<le> 1"
  by (simp add: kelly_fraction_def Let_def)

lemma kelly_size_bounds:
  "kelly_position_size E p price cfg = Some d \<Longrightarrow> min_position cfg \<le> d \<and> d \<le> max_position cfg"
  by (auto simp: kelly_position_size_def Let_def not_less split: if_splits option.splits)

context numeric_env
begin

text \<open>The odds are positive, so dividing by them is monotone.\<close>

lemma odds_positive:
  assumes "0 < price" "price < 1" "f64_rep (1 - price)"
  shows "0 < fdiv E (fsub E 1 price) price"
proof -
  have "fsub E 1 price = 1 - price" using assms(3) by (simp add: fsub_def f64_exact)
  moreover have "1 - price \<le> (1 - price) / price" using assms(1,2) by (simp add: pos_le_divide_eq mult_left_le)
  then have "f64_round E (1 - price) \<le> f64_round E ((1 - price) / price)" by (rule f64_mono)
  ultimately show ?thesis using assms(2,3) by (simp add: fdiv_def f64_exact)
qed

lemma kelly_fraction_mono:
  assumes "0 < p" "p \<le> p'" "p' < 1" "f64_rep (1 - price)"
  shows "kelly_fraction E p price \<le> kelly_fraction E p' price"
proof (cases "0 < price \<and> price < 1")
  case True
  let ?b = "fdiv E (fsub E 1 price) price"
  have b: "0 < ?b" using True assms(4) by (simp add: odds_positive)
  have "fmul E p ?b \<le> fmul E p' ?b" unfolding fmul_def using b assms(2) by (intro f64_mono mult_right_mono) simp_all
  moreover have "fsub E 1 p' \<le> fsub E 1 p" unfolding fsub_def using assms(2) by (intro f64_mono) simp
  ultimately have "fsub E (fmul E p ?b) (fsub E 1 p) \<le> fsub E (fmul E p' ?b) (fsub E 1 p')"
    unfolding fsub_def [of E "fmul E p ?b"] fsub_def [of E "fmul E p' ?b"] by (intro f64_mono) linarith
  then have "fdiv E (fsub E (fmul E p ?b) (fsub E 1 p)) ?b \<le> fdiv E (fsub E (fmul E p' ?b) (fsub E 1 p')) ?b"
    unfolding fdiv_def [of E _ ?b] using b by (intro f64_mono divide_right_mono) simp_all
  then show ?thesis using True assms(1-3) by (auto simp: kelly_fraction_def Let_def)
qed (auto simp: kelly_fraction_def)

lemma linear_size_bounds:
  assumes "dec_rep min_pos" "dec_rep max_pos" "dec_rep (max_pos - min_pos)" "min_pos \<le> max_pos"
  shows "min_pos \<le> linear_position_size E edge lo hi min_pos max_pos
    \<and> linear_position_size E edge lo hi min_pos max_pos \<le> max_pos"
proof -
  have range: "dsub E max_pos min_pos = max_pos - min_pos" using assms(3) by (simp add: dsub_def dec_exact)
  have "min_pos \<le> dadd E min_pos (dmul E (max_pos - min_pos) t) \<and> dadd E min_pos (dmul E (max_pos - min_pos) t) \<le> max_pos"
    if t: "0 \<le> t" "t \<le> 1" for t
  proof
    have "0 \<le> dmul E (max_pos - min_pos) t" using t assms(4) by (simp add: dmul_nonneg)
    then have "dadd E min_pos 0 \<le> dadd E min_pos (dmul E (max_pos - min_pos) t)" by (intro dadd_mono) simp_all
    with assms(1) show "min_pos \<le> dadd E min_pos (dmul E (max_pos - min_pos) t)" by simp
    have "dmul E (max_pos - min_pos) t \<le> dmul E (max_pos - min_pos) 1" using t assms(4) by (intro dmul_mono_right) simp_all
    then have "dadd E min_pos (dmul E (max_pos - min_pos) t) \<le> dadd E min_pos (max_pos - min_pos)"
      using assms(3) by (intro dadd_mono) simp_all
    with assms(2) show "dadd E min_pos (dmul E (max_pos - min_pos) t) \<le> max_pos" by (simp add: dadd_def dec_exact)
  qed
  then show ?thesis using assms(4) by (simp add: linear_position_size_def Let_def range)
qed

end

end
