(* ===== verification/Arb_Outcomes.thy ===== *)
theory Arb_Outcomes
  imports Arb_Executor Sizing
begin

section \<open>What an arbitrage entry leads to\<close>

text \<open>
  The outcome of the two orders of an arbitrage when the database answers, the bounds on the size of
  a position, and the bound on the stored exposure.
\<close>

subsection \<open>The entry is decided\<close>

lemma tracked_status [simp]: "tracked n i s0 (s\<lparr>sv_arb_status := x\<rparr>) = tracked n i s0 s"
  by (simp add: tracked_def executor_room_def)

lemma stored_as_updates [simp]:
  "stored_as J p (s\<lparr>sv_arb_status := x\<rparr>) = stored_as J p s"
  "stored_as J p (s\<lparr>sv_dedup := d\<rparr>) = stored_as J p s"
  by (simp_all add: stored_as_def)

lemma wp_arb_note [wp_simps]:
  "wp (arb_note A bump m d) Q s =
     Q () (s\<lparr>sv_arb_status := record_decision (srv_now A s) m d (bump (sv_arb_status s))\<rparr>)"
  by (simp add: arb_note_def wp_simps)

text \<open>The position of an attempt on its way: what is fixed, and the shares held so far.\<close>

definition entering :: "uuid \<Rightarrow> string \<Rightarrow> decimal \<Rightarrow> decimal \<Rightarrow> Position \<Rightarrow> bool" where
  "entering i m yes no q \<longleftrightarrow> pos_id q = i \<and> pos_market_id q = m \<and> pos_state q = Pending
     \<and> held_yes_qty q = yes \<and> held_no_qty q = no"

lemma wp_create:
  assumes "reliable S" "executor_room n s" "i = fst (sa_uuid S (srv_world s))"
    and "store_get (db_positions (sv_db s)) i = None"
    and "\<And>p s'. tracked n i s s' \<Longrightarrow> entering i (cp_market_id params) 0 0 p \<Longrightarrow> Q p s'"
  shows "wp (create_stored E A S J params ctx txt) Q s"
proof -
  let ?s = "set_world (snd (sa_uuid S (srv_world s))) s"
  let ?P = "fst (sa_pg S (srv_world ?s))" and ?s2 = "set_world (snd (sa_pg S (srv_world ?s))) ?s"
  have ok: "pg_ok ?P k" for k using assms(1) by (simp add: reliable_def)
  have q: "quiet s ?s2" by (rule quiet_trans [OF quiet_world quiet_world])
  let ?p0 = "new_position E i (srv_now A ?s2) (cp_market_id params) (cp_yes_entry_price params)
      (cp_no_entry_price params) (cp_quantity params) (cp_exit_strategy params)"
  let ?p = "case cp_arb_opportunity params of Some arb \<Rightarrow> apply_arb_fee_model arb ?p0 | None \<Rightarrow> ?p0"
  have "entering i (cp_market_id params) 0 0 ?p"
    by (simp add: entering_def apply_arb_fee_model_def new_position_def Let_def split: option.split)
  moreover from this have "pos_id ?p = i" by (simp add: entering_def)
  ultimately obtain p r ev where run: "svc_create_position E ?P J i (srv_now A ?s2) params ctx (sv_db s) =
      (Inr p, (sv_db s)\<lparr>db_positions := store_insert i r (db_positions (sv_db s)),
         db_events := db_events (sv_db s) @ [ev]\<rparr>)" and p: "entering i (cp_market_id params) 0 0 p"
    using assms(4) ok
    by (auto simp: svc_create_position_def insert_with_source_def record_warn_def Let_def simp del: option.case_eq_if)
  let ?s3 = "?s2\<lparr>sv_db := (sv_db s)\<lparr>db_positions := store_insert i r (db_positions (sv_db s)),
      db_events := db_events (sv_db s) @ [ev]\<rparr>\<rparr>"
  have "tracked n i s ?s3"
    using q assms(2) executor_room_quiet [OF q, of n]
    by (simp add: tracked_def executor_room_def quiet_def store_simps st.wf_insert)
  moreover have "create_stored E A S J params ctx txt s = (Ok p, ?s3)"
    using run q by (simp add: create_stored_def sbind_on_world quiet_def flip: assms(3))
  ultimately show ?thesis using assms(5) p by (simp add: wp_run)
qed

lemma wp_entry_fill:
  assumes "reliable S" "tracked n i s0 s" "entering i m y z q"
    and "\<And>q' s'. tracked n i s0 s' \<Longrightarrow> entering i m (if leg = Yes then dadd E y qty else y)
        (if leg = No then dadd E z qty else z) q' \<Longrightarrow> quantity q' = qty \<Longrightarrow> Q (Inr (), q') s'"
  shows "wp (with_service A S (\<lambda>P now. svc_record_entry_fill E P J now leg price qty ctx q)) Q s"
proof (rule wp_saved [OF assms(1,2), where
      h = "\<lambda>now. Inr (case leg of
         Yes \<Rightarrow> apply_yes_entry_fill E now qty (q\<lparr>quantity := qty, yes_entry_price := price\<rparr>)
       | No \<Rightarrow> apply_no_entry_fill E now qty (q\<lparr>quantity := qty, no_entry_price := price\<rparr>))"
      and ev = "\<lambda>now p. (ctx_event ctx p ''entry_filled'')\<lparr>te_fill_price := Some price,
            te_filled_size_usd := Some (dmul E qty price)\<rparr>"])
qed (use assms(3,4) in \<open>cases leg; auto simp: svc_record_entry_fill_def Let_def entering_def
      apply_yes_entry_fill_def apply_no_entry_fill_def\<close>)+

text \<open>
  The three ways an entry ends. In the second the YES leg alone is held and waits to be sold, in
  the third both legs are.
\<close>

definition entry_decided ::
  "num_env \<Rightarrow> reason_codec \<Rightarrow> ArbOpportunity \<Rightarrow> decimal \<Rightarrow> uuid \<Rightarrow> 'w server \<Rightarrow> 'w server \<Rightarrow> bool" where
  "entry_decided E J arb qty i s0 s \<longleftrightarrow>
     (\<exists>q. stored_as J q s \<and> pos_id q = i \<and> pos_market_id q = arb_market_id arb
        \<and> (pos_state q = EntryFailed \<and> held_yes_qty q = 0 \<and> held_no_qty q = 0 \<and> sv_dedup s = sv_dedup s0
           \<or> pos_state q = ExitReady \<and> held_yes_qty q = dadd E 0 qty \<and> held_no_qty q = 0
               \<and> sv_dedup s = sv_dedup s0 \<union> {arb_market_id arb}
           \<or> pos_state q = Open \<and> held_yes_qty q = dadd E 0 qty \<and> held_no_qty q = dadd E 0 qty
               \<and> quantity q = qty \<and> sv_dedup s = sv_dedup s0 \<union> {arb_market_id arb}))
     \<and> sv_cb s = sv_cb s0
     \<and> (store_wf (db_positions (sv_db s0)) \<longrightarrow> store_wf (db_positions (sv_db s)))
     \<and> (\<forall>j. j \<noteq> i \<longrightarrow> store_get (db_positions (sv_db s)) j = store_get (db_positions (sv_db s0)) j)"

lemma wp_arb_order:
  assumes "tracked (Suc n) i s0 s"
    and "\<And>rep s'. tracked n i s0 s' \<Longrightarrow> (is_success rep \<longrightarrow> filled_quantity rep = qty) \<Longrightarrow> Q rep s'"
  shows "wp (arb_order E A S m token price qty) Q s"
  unfolding arb_order_def wp_simps
  by (rule wp_tracked_order [OF tracked_quiet [OF assms(1) quiet_world]])
    (simp add: assms(2) new_market_order_def with_slippage_def with_expected_price_def)

lemma wp_arb_entry_failed:
  assumes "reliable S" "tracked n i s0 s" "entering i (arb_market_id arb) 0 0 q"
    and "\<And>s'. entry_decided E J arb qty i s0 s' \<Longrightarrow> Q () s'"
  shows "wp (arb_entry_failed A S J arb mode rep q) Q s"
  unfolding arb_entry_failed_def Let_def publish_failure_signal_def wp_simps
proof (rule wp_saved [OF assms(1), where i = i and n = n and q = q
      and h = "\<lambda>now. Inr (mark_entry_failed now (OrderRejected (report_text S ''YES order not filled'' rep)) q)"])
  fix now q' s'
  assume "Inr (mark_entry_failed now (OrderRejected (report_text S ''YES order not filled'' rep)) q) = Inr q'"
    and "tracked n i s0 s'" and "stored_as J q' s'"
  then show "Q () (s'\<lparr>sv_signals := sv_signals s' @ [(arb_market_id arb, ''execution_failed'')]\<rparr>)"
    using assms(3) by (intro assms(4))
      (auto simp: entry_decided_def tracked_def mark_entry_failed_def entering_def)
qed (use assms(2,3) in \<open>auto simp: svc_mark_entry_failed_def mark_entry_failed_def entering_def Let_def\<close>)

lemma wp_arb_one_legged:
  assumes "reliable S" "tracked n i s0 s" "entering i (arb_market_id arb) (dadd E 0 qty) 0 q"
    and "\<And>s'. entry_decided E J arb qty i s0 s' \<Longrightarrow> Q () s'"
  shows "wp (arb_one_legged A S J arb mode rep q) Q s"
  unfolding arb_one_legged_def Let_def publish_failure_signal_def wp_simps
proof (rule wp_saved [OF assms(1), where i = i and n = n and q = q and
      h = "\<lambda>now. map_sum Invalid id (one_legged_exit_ready now ''yes''
         (''NO order rejected after YES fill: '' @ report_text S ''NO order not filled'' rep) q)"
      and ev = "\<lambda>now p'. (state_change ''pending'' ''exit_ready'' (ctx_event (arb_ctx mode) p' ''one_legged_exit_ready''))
         \<lparr>te_reason := Some (ReasonText
            (''NO order rejected after YES fill: '' @ report_text S ''NO order not filled'' rep))\<rparr>"])
  let ?msg = "''NO order rejected after YES fill: '' @ report_text S ''NO order not filled'' rep"
  fix now q' s'
  assume "map_sum Invalid id (one_legged_exit_ready now ''yes'' ?msg q) = Inr q'"
    and "tracked n i s0 s'" and "stored_as J q' s'"
  then show "Q () (s'\<lparr>sv_dedup := sv_dedup s' \<union> {arb_market_id arb}, sv_signals :=
      sv_signals (s'\<lparr>sv_dedup := sv_dedup s' \<union> {arb_market_id arb}\<rparr>) @ [(arb_market_id arb, ''execution_failed'')]\<rparr>)"
    using assms(3) by (intro assms(4))
      (auto simp: entry_decided_def tracked_def one_legged_exit_ready_def mark_open_def mark_exit_ready_def
        entering_def)
qed (use assms(2,3) in \<open>auto simp: svc_transition_one_legged_to_exit_ready_def one_legged_exit_ready_def
      mark_open_def mark_exit_ready_def entering_def\<close>)

lemma wp_arb_opened:
  assumes "reliable S" "tracked n i s0 s" "entering i (arb_market_id arb) (dadd E 0 qty) (dadd E 0 qty) q" "quantity q = qty"
    and "\<And>s'. entry_decided E J arb qty i s0 s' \<Longrightarrow> Q () s'"
  shows "wp (arb_opened E A S J arb qty' mode q) Q s"
  unfolding arb_opened_def wp_simps
proof (rule wp_saved [OF assms(1,2), where q = q and h = "\<lambda>now. map_sum Invalid id (mark_open now q)"
      and ev = "\<lambda>now p'. state_change (state_text (pos_state q)) ''open'' (ctx_event (arb_ctx mode) p' ''position_open'')"])
  fix now q' s'
  assume q': "map_sum Invalid id (mark_open now q) = Inr q'" and tr: "tracked n i s0 s'" and st: "stored_as J q' s'"
  have "entry_decided E J arb qty i s0 t"
    if "sv_db t = sv_db s'" "sv_cb t = sv_cb s'" "sv_dedup t = sv_dedup s' \<union> {arb_market_id arb}" for t
  proof -
    have "stored_as J q' t" using st that(1) by (simp add: stored_as_def)
    with that q' tr assms(3,4) show ?thesis
      by (auto simp: entry_decided_def tracked_def mark_open_def entering_def)
  qed
  note decided = assms(5) [OF this]
  show "Q () (s'\<lparr>sv_dedup := sv_dedup s' \<union> {arb_market_id arb}, sv_signals :=
      sv_signals (s'\<lparr>sv_dedup := sv_dedup s' \<union> {arb_market_id arb}\<rparr>) @ [(arb_market_id arb, ''executed'')]\<rparr>
    \<lparr>sv_arb_status := x\<rparr>)" for x
    by (rule decided) simp_all
qed (use assms(3) in \<open>auto simp: svc_mark_open_def mark_open_def entering_def\<close>)

lemma wp_arb_execute:
  assumes "reliable S" "executor_room 2 s" "i = fst (sa_uuid S (srv_world s))"
    and "store_get (db_positions (sv_db s)) i = None"
  shows "wp (arb_execute E A S J arb qty mode tokens) (\<lambda>_ s'. entry_decided E J arb qty i s s') s"
  unfolding arb_execute_def create_arb_position_def wp_sbind
proof (rule wp_create [OF assms])
  fix p s1
  assume s1: "tracked 2 i s s1" and "entering i (cp_market_id (arb_params arb qty)) 0 0 p"
  then have p: "entering i (arb_market_id arb) 0 0 p" by (simp add: arb_params_def)
  let ?Q = "\<lambda>_ s'. entry_decided E J arb qty i s s'"
  have second: "wp (arb_second_leg E A S J arb qty mode (snd tokens) rep q) ?Q s2"
    if "tracked (Suc 0) i s s2" "entering i (arb_market_id arb) (dadd E 0 qty) 0 q" "filled_quantity rep = qty" for rep q s2
    unfolding arb_second_leg_def wp_sbind that(3)
  proof (rule wp_arb_order [OF that(1)])
    fix no_rep s3
    assume s3: "tracked 0 i s s3" and fill: "is_success no_rep \<longrightarrow> filled_quantity no_rep = qty"
    show "wp (if \<not> is_success no_rep then arb_one_legged A S J arb mode no_rep q
        else sbind (with_service A S (\<lambda>P now. svc_record_entry_fill E P J now No (average_price no_rep)
               (filled_quantity no_rep) (arb_ctx mode) q)) (\<lambda>(_, p'). arb_opened E A S J arb qty mode p')) ?Q s3"
      using fill
      by (auto simp: wp_sbind intro!: wp_arb_one_legged [OF assms(1) s3 that(2)]
          wp_entry_fill [OF assms(1) s3 that(2)] wp_arb_opened [OF assms(1)])
  qed
  show "wp (arb_order E A S (arb_market_id arb) (fst tokens) (yes_ask arb) qty)
     (\<lambda>rep. wp (if \<not> is_success rep then arb_entry_failed A S J arb mode rep p
        else sbind (with_service A S (\<lambda>P now. svc_record_entry_fill E P J now Yes (average_price rep)
               (filled_quantity rep) (arb_ctx mode) p)) (\<lambda>(_, p1).
             arb_second_leg E A S J arb qty mode (snd tokens) rep p1)) ?Q) s1"
  proof (rule wp_arb_order [OF s1 [unfolded numeral_2_eq_2]])
    fix rep s2
    assume s2: "tracked (Suc 0) i s s2" and fill: "is_success rep \<longrightarrow> filled_quantity rep = qty"
    show "wp (if \<not> is_success rep then arb_entry_failed A S J arb mode rep p
        else sbind (with_service A S (\<lambda>P now. svc_record_entry_fill E P J now Yes (average_price rep)
               (filled_quantity rep) (arb_ctx mode) p)) (\<lambda>(_, p1).
             arb_second_leg E A S J arb qty mode (snd tokens) rep p1)) ?Q s2"
    proof (cases "is_success rep")
      case True
      with fill have f: "filled_quantity rep = qty" by simp
      from True show ?thesis
        by (simp add: wp_sbind f, intro wp_entry_fill [OF assms(1) s2 p]) (simp add: second f)
    qed (auto intro!: wp_arb_entry_failed [OF assms(1) s2 p])
  qed
qed

text \<open>
  C9: An arbitrage entry is decided when the database answers. With room for two reports in the channel
  and a fresh id, placing the pair of orders returns, and the new position is stored in one of
  three states: \<open>EntryFailed\<close> with nothing held and the market free; \<open>ExitReady\<close> with the YES leg
  alone held for the whole quantity and the market taken; \<open>Open\<close> with both legs held for the same
  quantity and the market taken. It is never left \<open>Pending\<close>, no other position changes, and the
  circuit breaker is not told of a trade.
\<close>

theorem arb_entry_decided:
  assumes "reliable S" "executor_room 2 s" "i = fst (sa_uuid S (srv_world s))"
    and "store_get (db_positions (sv_db s)) i = None"
  shows "\<exists>s'. arb_execute E A S J arb qty mode tokens s = (Ok (), s') \<and> entry_decided E J arb qty i s s'"
  using wp_arb_execute [OF assms, of E A J arb qty mode tokens] by (auto simp: wp_run)

theorem arb_entry_decided_witness:
  "\<exists>s'. arb_execute exact_env (sample_api 0) demo_services demo_codec demo_arb 100 ''paper'' (''yes'', ''no'') demo_server
       = (Ok (), s') \<and> entry_decided exact_env demo_codec demo_arb 100 1 demo_server s'"
  by (rule arb_entry_decided)
    (simp_all add: reliable_def demo_services_def executor_room_def demo_server_def new_executor_def
      default_executor_config_def REPORT_CAPACITY_def)

subsection \<open>The size of a position\<close>

text \<open>The dynamic size is the linear size of the core crate.\<close>

lemma dynamic_size_linear:
  "dynamic_size E cfg profit = linear_position_size E profit (min_net_profit cfg) arb_ceiling
     (min_position_size cfg) (max_position_size cfg)"
  by (simp add: dynamic_size_def linear_position_size_def Let_def)

context numeric_env
begin

lemma rollout_multiplier_bounds: "0 \<le> rollout_multiplier E r \<and> rollout_multiplier E r \<le> 1"
proof -
  let ?top = "f64_round E (95 / 100)"
  have top: "0 \<le> ?top \<and> ?top \<le> 1" by (rule f64_round_unit) simp_all
  obtain pct where eq: "rollout_multiplier E r =
      (case f64_short E (fsub E 1 (min (max pct 0) ?top)) of Some d \<Rightarrow> d | None \<Rightarrow> 1)"
    unfolding rollout_multiplier_def Let_def by blast
  have "0 \<le> min (max pct 0) ?top" "min (max pct 0) ?top \<le> 1" using top by auto
  then have "0 \<le> fsub E 1 (min (max pct 0) ?top) \<and> fsub E 1 (min (max pct 0) ?top) \<le> 1"
    unfolding fsub_def by (intro f64_round_unit) simp_all
  then obtain x where "rollout_multiplier E r = (case f64_short E x of Some d \<Rightarrow> d | None \<Rightarrow> 1)" "0 \<le> x" "x \<le> 1"
    using eq by blast
  then show ?thesis using short_bounds [of x] by (cases "f64_short E x") simp_all
qed

lemma rollout_decision_bounds:
  "0 \<le> size_multiplier (evaluate_rollouts E mode score found)
   \<and> size_multiplier (evaluate_rollouts E mode score found) \<le> 1"
  using apply_rollouts_le [of E score _ default_decision]
    apply_rollouts_nonneg [of E default_decision score] rollout_multiplier_bounds
  by (simp add: evaluate_rollouts_def default_decision_def split: option.split)

lemma shrunk_bounds:
  assumes "0 \<le> x" "x \<le> cap" "dec_rep cap" "0 \<le> k" "k < 1"
  shows "0 \<le> dmul E x k \<and> dmul E x k \<le> cap"
proof -
  have "dmul E x k \<le> dmul E cap k" using assms by (intro dmul_mono) simp_all
  also have "\<dots> \<le> dmul E cap 1" using assms by (intro dmul_mono_right) simp_all
  finally show ?thesis using assms by (simp add: dmul_nonneg)
qed

end

text \<open>
  The size of an arbitrage position stays within the configuration. With dynamic sizing it is at
  most the maximal size, and at least the minimal size unless a rollout shrinks it; with fixed
  sizing it is at most the fixed size. Rollouts only shrink a size, never below zero, whatever
  models score and whatever their bounds say.
\<close>

theorem arb_size_bounds:
  fixes mode :: string and score :: "uuid \<Rightarrow> string option" and found :: "ActiveRollout list option"
  assumes "numeric_env E" "dec_rep (min_position_size cfg)" "dec_rep (max_position_size cfg)"
    and "dec_rep (max_position_size cfg - min_position_size cfg)" "dec_rep (position_size cfg)"
    and "0 \<le> min_position_size cfg" "min_position_size cfg \<le> max_position_size cfg" "0 \<le> position_size cfg"
  defines "d \<equiv> evaluate_rollouts E mode score found"
    and "cap \<equiv> if dynamic_sizing cfg then max_position_size cfg else position_size cfg"
  shows "0 \<le> arb_position_size E cfg arb d \<and> arb_position_size E cfg arb d \<le> cap
    \<and> (dynamic_sizing cfg \<and> size_multiplier d = 1 \<longrightarrow> min_position_size cfg \<le> arb_position_size E cfg arb d)"
proof -
  let ?x = "if dynamic_sizing cfg then dynamic_size E cfg (net_profit arb) else position_size cfg"
  note lin = numeric_env.linear_size_bounds [OF assms(1-4,7)]
  have x: "0 \<le> ?x" "?x \<le> cap" "dynamic_sizing cfg \<Longrightarrow> min_position_size cfg \<le> ?x"
    using lin [of "net_profit arb" "min_net_profit cfg" arb_ceiling] assms(6,8)
    by (auto simp: dynamic_size_linear cap_def)
  have k: "0 \<le> size_multiplier d" "size_multiplier d \<le> 1"
    using numeric_env.rollout_decision_bounds [OF assms(1)] by (simp_all add: d_def)
  have "dec_rep cap" using assms(3,5) by (simp add: cap_def)
  then have "size_multiplier d < 1 \<Longrightarrow> 0 \<le> dmul E ?x (size_multiplier d) \<and> dmul E ?x (size_multiplier d) \<le> cap"
    using numeric_env.shrunk_bounds [OF assms(1) x(1,2)] k(1) by blast
  with x show ?thesis by (auto simp: arb_position_size_def Let_def)
qed

theorem arb_size_bounds_witness:
  "0 \<le> arb_position_size exact_env default_arb_config demo_arb (evaluate_rollouts exact_env ''live'' (\<lambda>_. None) None)"
proof -
  have rep: "dec_rep (dec_new m 0)" if "\<bar>m\<bar> < 2 ^ 96" for m using dec_rep_int [OF that] by (simp add: dec_new_def)
  have "dec_rep (175 :: rat)" using rep [of 175] by (simp add: dec_new_def)
  then show ?thesis
    by (intro conjunct1 [OF arb_size_bounds [OF exact.numeric_env_axioms]])
      (auto simp: default_arb_config_def intro!: rep, simp_all add: dec_new_def)
qed

end
