(* ===== verification/Advanced_Stops.thy ===== *)
theory Advanced_Stops
  imports Numeric
begin

section \<open>Advanced stops\<close>

text \<open>
  Model of \<open>crates/risk-manager/src/advanced_stops.rs\<close>: compound conditions, the volatility stop with
  its window of price bars, the step trailing stop, the break-even stop, the time-decay stop and
  the session stop. \<open>Utc::now()\<close> and fresh ids are arguments. An operation whose Decimal division
  may have a zero divisor returns an option, \<open>None\<close> for the panic. The lemmas give each stop a
  closed form over the whole sequence of prices it has seen.
\<close>

subsection \<open>Configuration\<close>

record AdvancedStopConfig =
  break_even_enabled :: bool
  break_even_trigger_pct :: decimal
  break_even_buffer_pct :: decimal
  step_trailing_enabled :: bool
  cfg_step_size :: decimal
  step_offset_pct :: decimal
  volatility_adjusted :: bool
  atr_multiplier :: decimal
  atr_period :: nat
  time_decay_enabled :: bool
  time_decay_start_hours :: int
  time_decay_final_multiplier :: decimal

definition default_stop_config :: AdvancedStopConfig where
  "default_stop_config = \<lparr>break_even_enabled = True, break_even_trigger_pct = dec_new 8 2,
     break_even_buffer_pct = dec_new 5 3, step_trailing_enabled = False, cfg_step_size = dec_new 5 2,
     step_offset_pct = dec_new 3 2, volatility_adjusted = True, atr_multiplier = dec_new 25 1,
     atr_period = 14, time_decay_enabled = True, time_decay_start_hours = 12,
     time_decay_final_multiplier = dec_new 65 2\<rparr>"

subsection \<open>Compound stops\<close>

datatype CompoundLogic = And | Or | AtLeast nat

datatype StopCondition =
    PriceBelow decimal
  | PercentageFromPeak decimal decimal
  | LossExceeds decimal
  | TimeReached datetime
  | VolatilityExceeds decimal
  | VolumeBelowAvg decimal decimal
  | OutsideMarketHours "(u8 \<times> u8) list"
  | ConsecutiveDownCandles nat nat
  | SupportBroken decimal

record StopContext =
  sc_current_price :: decimal
  sc_entry_price :: decimal
  sc_unrealized_pnl :: decimal
  sc_current_volatility :: "decimal option"
  sc_current_volume :: "decimal option"
  sc_position_age_hours :: int

record CompoundStop =
  cs_id :: uuid
  cs_position_id :: uuid
  cs_conditions :: "StopCondition list"
  cs_logic :: CompoundLogic
  cs_activated :: bool
  cs_triggered :: bool
  cs_created_at :: datetime

definition new_compound_stop ::
  "uuid \<Rightarrow> datetime \<Rightarrow> uuid \<Rightarrow> StopCondition list \<Rightarrow> CompoundLogic \<Rightarrow> CompoundStop" where
  "new_compound_stop i now pid cs l = \<lparr>cs_id = i, cs_position_id = pid, cs_conditions = cs, cs_logic = l,
     cs_activated = False, cs_triggered = False, cs_created_at = now\<rparr>"

definition compound_activate :: "CompoundStop \<Rightarrow> CompoundStop" where
  "compound_activate c = c\<lparr>cs_activated := True\<rparr>"

fun condition_evaluate :: "num_env \<Rightarrow> datetime \<Rightarrow> StopContext \<Rightarrow> StopCondition \<Rightarrow> bool" where
  "condition_evaluate E now ctx (PriceBelow price) = (sc_current_price ctx \<le> price)"
| "condition_evaluate E now ctx (PercentageFromPeak peak pct) =
     (sc_current_price ctx \<le> dmul E peak (dsub E 1 pct))"
| "condition_evaluate E now ctx (LossExceeds amount) = (sc_unrealized_pnl ctx \<le> - amount)"
| "condition_evaluate E now ctx (TimeReached deadline) = (deadline \<le> now)"
| "condition_evaluate E now ctx (VolatilityExceeds threshold) =
     (case sc_current_volatility ctx of Some v \<Rightarrow> threshold \<le> v | None \<Rightarrow> False)"
| "condition_evaluate E now ctx (VolumeBelowAvg threshold_pct avg_volume) =
     (case sc_current_volume ctx of Some v \<Rightarrow> v < dmul E avg_volume threshold_pct | None \<Rightarrow> False)"
| "condition_evaluate E now ctx (OutsideMarketHours allowed) =
     (let hour = (word_of_int (hour_of now) :: u8)
      in \<not> list_ex (\<lambda>(start, stop). start \<le> hour \<and> hour < stop) allowed)"
| "condition_evaluate E now ctx (ConsecutiveDownCandles count current) = (count \<le> current)"
| "condition_evaluate E now ctx (SupportBroken level) = (sc_current_price ctx < level)"

definition compound_check :: "num_env \<Rightarrow> datetime \<Rightarrow> CompoundStop \<Rightarrow> StopContext \<Rightarrow> bool" where
  "compound_check E now c ctx =
     (if \<not> cs_activated c \<or> cs_triggered c then False
      else let results = map (condition_evaluate E now ctx) (cs_conditions c)
           in case cs_logic c of
                And \<Rightarrow> list_all id results
              | Or \<Rightarrow> list_ex id results
              | AtLeast n \<Rightarrow> n \<le> length (filter id results))"

subsection \<open>Volatility stop\<close>

record PriceBar =
  high :: decimal
  low :: decimal
  close_price :: decimal
  bar_timestamp :: datetime

record VolatilityStop =
  price_history :: "PriceBar list"
  vs_period :: nat
  vs_multiplier :: decimal
  vs_current_atr :: "decimal option"

definition new_volatility_stop :: "nat \<Rightarrow> decimal \<Rightarrow> VolatilityStop" where
  "new_volatility_stop period mult = \<lparr>price_history = [], vs_period = period, vs_multiplier = mult,
     vs_current_atr = None\<rparr>"

definition true_range :: "num_env \<Rightarrow> PriceBar \<Rightarrow> PriceBar \<Rightarrow> decimal" where
  "true_range E prev current =
     max (max (dsub E (high current) (low current)) \<bar>dsub E (high current) (close_price prev)\<bar>)
       \<bar>dsub E (low current) (close_price prev)\<bar>"

text \<open>The loop over \<open>1..bars.len()\<close>.\<close>

definition true_ranges :: "num_env \<Rightarrow> PriceBar list \<Rightarrow> decimal list" where
  "true_ranges E bars = map (\<lambda>i. true_range E (bars ! (i - 1)) (bars ! i)) [1..<length bars]"

definition calculate_atr :: "num_env \<Rightarrow> VolatilityStop \<Rightarrow> VolatilityStop" where
  "calculate_atr E v =
     (if length (price_history v) < 2 then v
      else let trs = true_ranges E (price_history v)
           in if vs_period v \<le> length trs
              then v\<lparr>vs_current_atr := Some (ddiv E (dsum E (take (vs_period v) (rev trs))) (of_nat (vs_period v)))\<rparr>
              else v)"

definition add_bar :: "num_env \<Rightarrow> PriceBar \<Rightarrow> VolatilityStop \<Rightarrow> VolatilityStop" where
  "add_bar E bar v =
     (let h = price_history v @ [bar];
          h' = (if vs_period v + 1 < length h then tl h else h)
      in calculate_atr E (v\<lparr>price_history := h'\<rparr>))"

definition get_stop_level :: "num_env \<Rightarrow> VolatilityStop \<Rightarrow> decimal \<Rightarrow> decimal option" where
  "get_stop_level E v entry =
     map_option (\<lambda>atr. dsub E entry (dmul E atr (vs_multiplier v))) (vs_current_atr v)"

subsection \<open>Step trailing stop\<close>

record StepTrailingStop =
  st_id :: uuid
  st_position_id :: uuid
  st_entry_price :: decimal
  st_step_size :: decimal
  st_offset_pct :: decimal
  current_step :: u32
  highest_step :: u32
  st_stop_price :: decimal
  st_activated :: bool

definition new_step_stop :: "num_env \<Rightarrow> uuid \<Rightarrow> uuid \<Rightarrow> decimal \<Rightarrow> decimal \<Rightarrow> decimal \<Rightarrow> StepTrailingStop" where
  "new_step_stop E i pid entry step offset = \<lparr>st_id = i, st_position_id = pid, st_entry_price = entry,
     st_step_size = step, st_offset_pct = offset, current_step = 0, highest_step = 0,
     st_stop_price = dmul E entry (dsub E 1 offset), st_activated = False\<rparr>"

definition step_activate :: "StepTrailingStop \<Rightarrow> StepTrailingStop" where
  "step_activate st = st\<lparr>st_activated := True\<rparr>"

text \<open>\<open>floor().to_string().parse::<u32>().unwrap_or(0)\<close>.\<close>

definition parse_steps :: "decimal \<Rightarrow> u32" where
  "parse_steps x = (if 0 \<le> \<lfloor>x\<rfloor> \<and> \<lfloor>x\<rfloor> < 2 ^ 32 then word_of_int \<lfloor>x\<rfloor> else 0)"

definition step_level :: "num_env \<Rightarrow> decimal \<Rightarrow> decimal \<Rightarrow> u32 \<Rightarrow> decimal" where
  "step_level E entry step n = dadd E entry (dmul E step (dec_of_u32 (n - 1)))"

definition raise_step :: "num_env \<Rightarrow> u32 \<Rightarrow> StepTrailingStop \<Rightarrow> StepTrailingStop" where
  "raise_step E n st =
     (if highest_step st < n
      then st\<lparr>highest_step := n,
             st_stop_price := max (step_level E (st_entry_price st) (st_step_size st) n) (st_stop_price st)\<rparr>
      else st)"

definition step_update :: "num_env \<Rightarrow> decimal \<Rightarrow> StepTrailingStop \<Rightarrow> (bool \<times> StepTrailingStop) option" where
  "step_update E price st =
     (if \<not> st_activated st then Some (False, st)
      else let move = dsub E price (st_entry_price st)
           in if 0 < move \<and> st_step_size st = 0 then None
              else let st1 = (if 0 < move
                              then raise_step E (parse_steps (ddiv E move (st_step_size st))) st else st);
                       st2 = st1\<lparr>current_step := highest_step st1\<rparr>
                   in Some (price \<le> st_stop_price st2, st2))"

subsection \<open>Break-even stop\<close>

record BreakEvenStop =
  be_id :: uuid
  be_position_id :: uuid
  be_entry_price :: decimal
  trigger_profit_pct :: decimal
  buffer_pct :: decimal
  triggered_to_break_even :: bool
  be_stop_price :: "decimal option"
  be_activated :: bool

definition new_break_even_stop :: "uuid \<Rightarrow> uuid \<Rightarrow> decimal \<Rightarrow> decimal \<Rightarrow> decimal \<Rightarrow> BreakEvenStop" where
  "new_break_even_stop i pid entry trigger buf = \<lparr>be_id = i, be_position_id = pid, be_entry_price = entry,
     trigger_profit_pct = trigger, buffer_pct = buf, triggered_to_break_even = False,
     be_stop_price = None, be_activated = False\<rparr>"

definition break_even_activate :: "BreakEvenStop \<Rightarrow> BreakEvenStop" where
  "break_even_activate b = b\<lparr>be_activated := True\<rparr>"

definition break_even_update :: "num_env \<Rightarrow> decimal \<Rightarrow> BreakEvenStop \<Rightarrow> (bool \<times> BreakEvenStop) option" where
  "break_even_update E price b =
     (if \<not> be_activated b then Some (False, b)
      else if \<not> triggered_to_break_even b \<and> be_entry_price b = 0 then None
      else let profit = ddiv E (dsub E price (be_entry_price b)) (be_entry_price b);
               b1 = (if \<not> triggered_to_break_even b \<and> trigger_profit_pct b \<le> profit
                     then b\<lparr>be_stop_price := Some (dmul E (be_entry_price b) (dadd E 1 (buffer_pct b))),
                            triggered_to_break_even := True\<rparr>
                     else b)
           in Some (case be_stop_price b1 of Some stop \<Rightarrow> price \<le> stop | None \<Rightarrow> False, b1))"

subsection \<open>Time-decay stop\<close>

record TimeDecayStop =
  td_id :: uuid
  td_position_id :: uuid
  base_stop_pct :: decimal
  td_deadline :: datetime
  decay_start_hours :: int
  final_multiplier :: decimal
  td_entry_price :: decimal
  td_activated :: bool

definition new_time_decay_stop ::
  "uuid \<Rightarrow> uuid \<Rightarrow> decimal \<Rightarrow> decimal \<Rightarrow> datetime \<Rightarrow> int \<Rightarrow> decimal \<Rightarrow> TimeDecayStop" where
  "new_time_decay_stop i pid entry base deadline start fm = \<lparr>td_id = i, td_position_id = pid,
     base_stop_pct = base, td_deadline = deadline, decay_start_hours = start, final_multiplier = fm,
     td_entry_price = entry, td_activated = False\<rparr>"

definition time_decay_activate :: "TimeDecayStop \<Rightarrow> TimeDecayStop" where
  "time_decay_activate d = d\<lparr>td_activated := True\<rparr>"

text \<open>In the third branch the hours lie strictly between 0 and the start, so the divisor is positive.\<close>

definition decay_factor :: "num_env \<Rightarrow> TimeDecayStop \<Rightarrow> int \<Rightarrow> decimal" where
  "decay_factor E d hours =
     (if decay_start_hours d \<le> hours then 1
      else if hours \<le> 0 then final_multiplier d
      else let progress = ddiv E (of_int (decay_start_hours d - hours)) (of_int (decay_start_hours d))
           in dsub E 1 (dmul E progress (dsub E 1 (final_multiplier d))))"

definition current_stop_level :: "num_env \<Rightarrow> datetime \<Rightarrow> TimeDecayStop \<Rightarrow> decimal" where
  "current_stop_level E now d =
     (let hours = num_hours (td_deadline d - now);
          adjusted = dmul E (base_stop_pct d) (decay_factor E d hours)
      in dmul E (td_entry_price d) (dsub E 1 adjusted))"

definition decay_is_triggered :: "num_env \<Rightarrow> datetime \<Rightarrow> decimal \<Rightarrow> TimeDecayStop \<Rightarrow> bool" where
  "decay_is_triggered E now price d = (td_activated d \<and> price \<le> current_stop_level E now d)"

subsection \<open>Session stop\<close>

datatype Weekday = Mon | Tue | Wed | Thu | Fri | Sat | Sun

definition weekday_of :: "datetime \<Rightarrow> Weekday" where
  "weekday_of t = [Sun, Mon, Tue, Wed, Thu, Fri, Sat] ! nat (days_from_sunday t)"

record SessionStop =
  ss_id :: uuid
  ss_position_id :: uuid
  close_at_session_end :: bool
  session_end_hour :: u8
  trading_days :: "Weekday list"
  tighten_outside_prime :: bool
  prime_hours :: "u8 \<times> u8"
  outside_prime_multiplier :: decimal
  ss_activated :: bool

definition new_session_stop :: "uuid \<Rightarrow> uuid \<Rightarrow> SessionStop" where
  "new_session_stop i pid = \<lparr>ss_id = i, ss_position_id = pid, close_at_session_end = False,
     session_end_hour = 21, trading_days = [Mon, Tue, Wed, Thu, Fri], tighten_outside_prime = True,
     prime_hours = (13, 21), outside_prime_multiplier = dec_new 5 1, ss_activated = False\<rparr>"

definition should_close_session_end :: "datetime \<Rightarrow> SessionStop \<Rightarrow> bool" where
  "should_close_session_end now ss =
     (if \<not> ss_activated ss \<or> \<not> close_at_session_end ss then False
      else if trading_days ss \<noteq> [] \<and> weekday_of now \<notin> set (trading_days ss) then True
      else session_end_hour ss \<le> word_of_int (hour_of now))"

definition get_stop_multiplier :: "datetime \<Rightarrow> SessionStop \<Rightarrow> decimal" where
  "get_stop_multiplier now ss =
     (if \<not> ss_activated ss \<or> \<not> tighten_outside_prime ss then 1
      else let hour = (word_of_int (hour_of now) :: u8)
           in if fst (prime_hours ss) \<le> hour \<and> hour < snd (prime_hours ss) then 1
              else outside_prime_multiplier ss)"

definition session_activate :: "SessionStop \<Rightarrow> SessionStop" where
  "session_activate ss = ss\<lparr>ss_activated := True\<rparr>"

subsection \<open>Stops with a price level\<close>

text \<open>
  What a client of a price-driven stop relies on: an update of a stop in order always returns, it
  fires exactly when the price is at or below the level, and the level never falls.
\<close>

fun stop_run :: "(decimal \<Rightarrow> 's \<Rightarrow> (bool \<times> 's) option) \<Rightarrow> decimal list \<Rightarrow> 's \<Rightarrow> 's option" where
  "stop_run upd [] st = Some st"
| "stop_run upd (p # ps) st =
     (case upd p st of None \<Rightarrow> None | Some (_, st') \<Rightarrow> stop_run upd ps st')"

definition fires_at :: "decimal option \<Rightarrow> decimal \<Rightarrow> bool" where
  "fires_at level p = (case level of Some l \<Rightarrow> p \<le> l | None \<Rightarrow> False)"

locale price_stop =
  fixes upd :: "decimal \<Rightarrow> 's \<Rightarrow> (bool \<times> 's) option"
    and level :: "'s \<Rightarrow> decimal option"
    and ok :: "'s \<Rightarrow> bool"
  assumes update_total: "ok st \<Longrightarrow> \<exists>st'. upd p st = Some (fires_at (level st') p, st') \<and> ok st'"
    and level_rises: "ok st \<Longrightarrow> upd p st = Some (b, st') \<Longrightarrow> fires_at (level st) q \<Longrightarrow> fires_at (level st') q"
begin

lemma run_total: "ok st \<Longrightarrow> \<exists>st'. stop_run upd ps st = Some st' \<and> ok st'"
proof (induction ps arbitrary: st)
  case (Cons p ps)
  then show ?case using update_total [OF Cons.prems, of p] by auto
qed simp

lemma run_level_rises: "ok st \<Longrightarrow> stop_run upd ps st = Some st' \<Longrightarrow> fires_at (level st) q \<Longrightarrow> fires_at (level st') q"
proof (induction ps arbitrary: st)
  case (Cons p ps)
  from update_total [OF Cons.prems(1), of p] obtain st1 where
    st1: "upd p st = Some (fires_at (level st1) p, st1)" "ok st1" by blast
  with Cons level_rises [OF Cons.prems(1) st1(1)] show ?case by simp
qed simp

text \<open>A stop that has fired fires again at every price that is not higher.\<close>

lemma fires_again:
  assumes "ok st" "upd p st = Some (True, st1)" "stop_run upd ps st1 = Some st2" "q \<le> p"
  shows "\<exists>st3. upd q st2 = Some (True, st3)"
proof -
  from update_total [OF assms(1), of p] assms(2) have 1: "fires_at (level st1) p" "ok st1" by auto
  from 1(1) assms(4) have "fires_at (level st1) q" by (auto simp: fires_at_def split: option.splits)
  with 1 assms(3) have "fires_at (level st2) q" "ok st2"
    using run_level_rises run_total [OF 1(2), of ps] by auto
  with update_total [of st2 q] level_rises show ?thesis by fastforce
qed

end

lemma step_update_ok:
  fixes st :: StepTrailingStop
  assumes "st_activated st" "st_step_size st \<noteq> 0"
  shows "\<exists>st'. step_update E p st = Some (p \<le> st_stop_price st', st') \<and> st_activated st' \<and> st_step_size st' \<noteq> 0
    \<and> st_stop_price st \<le> st_stop_price st'"
  using assms by (auto simp: step_update_def Let_def raise_step_def)

interpretation step_stop: price_stop "step_update E" "\<lambda>st. Some (st_stop_price st)"
    "\<lambda>st. st_activated st \<and> st_step_size st \<noteq> 0"
proof
  fix st :: StepTrailingStop and p
  assume "st_activated st \<and> st_step_size st \<noteq> 0"
  then show "\<exists>st'. step_update E p st = Some (fires_at (Some (st_stop_price st')) p, st')
      \<and> st_activated st' \<and> st_step_size st' \<noteq> 0"
    using step_update_ok [of st E p] by (auto simp: fires_at_def)
next
  fix st st' :: StepTrailingStop and p b q
  assume "st_activated st \<and> st_step_size st \<noteq> 0" "step_update E p st = Some (b, st')"
    "fires_at (Some (st_stop_price st)) q"
  then show "fires_at (Some (st_stop_price st')) q"
    using step_update_ok [of st E p] by (auto simp: fires_at_def)
qed

definition break_even_ok :: "BreakEvenStop \<Rightarrow> bool" where
  "break_even_ok b \<longleftrightarrow> be_activated b \<and> be_entry_price b \<noteq> 0
     \<and> (be_stop_price b \<noteq> None \<longrightarrow> triggered_to_break_even b)"

interpretation break_even: price_stop "break_even_update E" be_stop_price break_even_ok
  by unfold_locales
    (auto simp: break_even_ok_def break_even_update_def fires_at_def Let_def split: option.splits if_splits)

subsection \<open>The step trailing stop in closed form\<close>

text \<open>The number of whole steps a price is above the entry, and the level a set of prices leads to.\<close>

definition reached_steps :: "num_env \<Rightarrow> decimal \<Rightarrow> decimal \<Rightarrow> decimal \<Rightarrow> u32" where
  "reached_steps E entry step price =
     (let move = dsub E price entry in if 0 < move then parse_steps (ddiv E move step) else 0)"

definition trail :: "num_env \<Rightarrow> decimal \<Rightarrow> decimal \<Rightarrow> decimal \<Rightarrow> u32 \<Rightarrow> decimal" where
  "trail E entry step base h = (if h = 0 then base else max base (step_level E entry step h))"

definition most_steps :: "num_env \<Rightarrow> decimal \<Rightarrow> decimal \<Rightarrow> decimal list \<Rightarrow> u32" where
  "most_steps E entry step ps = Max (insert 0 (reached_steps E entry step ` set ps))"

lemma most_steps_snoc:
  "most_steps E entry step (ps @ [p]) = max (most_steps E entry step ps) (reached_steps E entry step p)"
  unfolding most_steps_def by (simp add: insert_commute max.commute flip: Max_insert)

lemma stop_run_snoc:
  "stop_run upd (ps @ [p]) st = (case stop_run upd ps st of None \<Rightarrow> None
     | Some st1 \<Rightarrow> (case upd p st1 of None \<Rightarrow> None | Some (_, st2) \<Rightarrow> Some st2))"
  by (induction ps arbitrary: st) (auto split: option.split)

definition trailed :: "num_env \<Rightarrow> decimal \<Rightarrow> decimal \<Rightarrow> decimal \<Rightarrow> decimal list \<Rightarrow> StepTrailingStop \<Rightarrow> bool" where
  "trailed E entry step base ps st \<longleftrightarrow> st_activated st \<and> st_entry_price st = entry \<and> st_step_size st = step
     \<and> highest_step st = most_steps E entry step ps
     \<and> st_stop_price st = trail E entry step base (highest_step st)"

context numeric_env
begin

lemma step_level_mono:
  assumes "0 \<le> step" "h \<noteq> 0" "h \<le> n"
  shows "step_level E entry step h \<le> step_level E entry step n"
proof -
  from assms have "n \<noteq> 0" by auto
  with assms have "unat (h - 1) \<le> unat (n - 1)"
    by (simp add: unat_minus_one word_le_nat_alt)
  then show ?thesis
    unfolding step_level_def using assms(1)
    by (intro dadd_mono dmul_mono_right) (simp_all add: dec_of_u32_def del: of_nat_unat)
qed

lemma trail_raise:
  assumes "0 \<le> step" "h < n"
  shows "max (step_level E entry step n) (trail E entry step base h) = trail E entry step base n"
proof -
  from assms(2) have "n \<noteq> 0" "h \<le> n" by auto
  with assms(1) step_level_mono [of step h n entry] show ?thesis by (cases "h = 0") (auto simp: trail_def max_def)
qed

lemma trailed_update:
  assumes "0 < step" "trailed E entry step base ps st"
  shows "\<exists>st'. step_update E p st = Some (p \<le> st_stop_price st', st') \<and> trailed E entry step base (ps @ [p]) st'"
proof -
  let ?n = "reached_steps E entry step p"
  let ?st = "(raise_step E ?n st)\<lparr>current_step := highest_step (raise_step E ?n st)\<rparr>"
  have "step_update E p st = Some (p \<le> st_stop_price ?st, ?st)"
    using assms by (auto simp: trailed_def step_update_def reached_steps_def raise_step_def Let_def)
  moreover have "trailed E entry step base (ps @ [p]) ?st"
    using assms trail_raise [of step "highest_step st" ?n entry base]
    by (auto simp: trailed_def raise_step_def most_steps_snoc max_def)
  ultimately show ?thesis by blast
qed

lemma trailed_run:
  assumes "0 < step" "trailed E entry step base [] st"
  shows "\<exists>st'. stop_run (step_update E) ps st = Some st' \<and> trailed E entry step base ps st'"
proof (induction ps rule: rev_induct)
  case (snoc p ps)
  then obtain st1 where st1: "stop_run (step_update E) ps st = Some st1" "trailed E entry step base ps st1" by blast
  from trailed_update [OF assms(1) this(2), of p] st1(1) show ?case by (auto simp: stop_run_snoc)
qed (use assms in simp)

end

text \<open>
  C27: The step trailing stop has a closed form. Whatever prices it has seen, an activated stop with a
  positive step does not panic, and it fires at a price exactly when the price is at or below the
  trail: the initial stop while no price was a whole step above the entry, afterwards one step
  below the most steps any price has reached, and never less than the initial stop. The order of
  the prices does not matter.
\<close>

theorem step_trailing_exact:
  assumes "numeric_env E" "0 < step"
  shows "\<exists>st st'. stop_run (step_update E) ps (step_activate (new_step_stop E i pid entry step offset)) = Some st
    \<and> step_update E p st = Some (p \<le> st_stop_price st', st')
    \<and> st_stop_price st' = trail E entry step (dmul E entry (dsub E 1 offset)) (most_steps E entry step (ps @ [p]))"
proof -
  let ?base = "dmul E entry (dsub E 1 offset)" and ?st = "step_activate (new_step_stop E i pid entry step offset)"
  have "trailed E entry step ?base [] ?st"
    by (simp add: trailed_def step_activate_def new_step_stop_def most_steps_def trail_def)
  from numeric_env.trailed_run [OF assms this, of ps] obtain st where
    st: "stop_run (step_update E) ps ?st = Some st" "trailed E entry step ?base ps st" by blast
  from numeric_env.trailed_update [OF assms st(2), of p] st(1) show ?thesis by (auto simp: trailed_def)
qed

theorem step_trailing_exact_witness:
  "\<exists>st st'. stop_run (step_update exact_env) [70 / 100, 55 / 100]
      (step_activate (new_step_stop exact_env 1 2 (1 / 2) (5 / 100) (3 / 100))) = Some st
    \<and> step_update exact_env (60 / 100) st = Some (60 / 100 \<le> st_stop_price st', st')
    \<and> st_stop_price st' = trail exact_env (1 / 2) (5 / 100) (dmul exact_env (1 / 2) (dsub exact_env 1 (3 / 100)))
        (most_steps exact_env (1 / 2) (5 / 100) ([70 / 100, 55 / 100] @ [60 / 100]))"
  by (rule step_trailing_exact [OF exact.numeric_env_axioms]) simp

subsection \<open>The break-even stop in closed form\<close>

definition reached_break_even :: "num_env \<Rightarrow> decimal \<Rightarrow> decimal \<Rightarrow> decimal \<Rightarrow> bool" where
  "reached_break_even E entry trigger price = (trigger \<le> ddiv E (dsub E price entry) entry)"

definition break_even_after :: "num_env \<Rightarrow> decimal \<Rightarrow> decimal \<Rightarrow> decimal \<Rightarrow> decimal list \<Rightarrow> BreakEvenStop \<Rightarrow> bool" where
  "break_even_after E entry trigger buf ps b \<longleftrightarrow> be_activated b \<and> be_entry_price b = entry
     \<and> trigger_profit_pct b = trigger \<and> buffer_pct b = buf
     \<and> (triggered_to_break_even b \<longleftrightarrow> list_ex (reached_break_even E entry trigger) ps)
     \<and> be_stop_price b = (if triggered_to_break_even b then Some (dmul E entry (dadd E 1 buf)) else None)"

lemma break_even_after_update:
  assumes "entry \<noteq> 0" "break_even_after E entry trigger buf ps b"
  shows "\<exists>b'. break_even_update E p b = Some (fires_at (be_stop_price b') p, b')
    \<and> break_even_after E entry trigger buf (ps @ [p]) b'"
  using assms
  by (auto simp: break_even_after_def break_even_update_def reached_break_even_def fires_at_def Let_def
      list_ex_iff)

lemma break_even_after_run:
  assumes "entry \<noteq> 0" "break_even_after E entry trigger buf [] b"
  shows "\<exists>b'. stop_run (break_even_update E) ps b = Some b' \<and> break_even_after E entry trigger buf ps b'"
proof (induction ps rule: rev_induct)
  case (snoc p ps)
  then obtain b1 where b1: "stop_run (break_even_update E) ps b = Some b1"
    "break_even_after E entry trigger buf ps b1" by blast
  from break_even_after_update [OF assms(1) this(2), of p] b1(1) show ?case by (auto simp: stop_run_snoc)
qed (use assms in simp)

text \<open>
  The break-even stop fires at a price exactly when some price so far has reached the trigger
  profit and the price is at or below the entry with its buffer.
\<close>

lemma break_even_exact:
  assumes "entry \<noteq> 0"
  shows "\<exists>b b'. stop_run (break_even_update E) ps
      (break_even_activate (new_break_even_stop i pid entry trigger buf)) = Some b
    \<and> break_even_update E p b = Some (list_ex (reached_break_even E entry trigger) (ps @ [p])
        \<and> p \<le> dmul E entry (dadd E 1 buf), b')"
proof -
  let ?b = "break_even_activate (new_break_even_stop i pid entry trigger buf)"
  have "break_even_after E entry trigger buf [] ?b"
    by (simp add: break_even_after_def break_even_activate_def new_break_even_stop_def)
  from break_even_after_run [OF assms this, of ps] obtain b where
    b: "stop_run (break_even_update E) ps ?b = Some b" "break_even_after E entry trigger buf ps b" by blast
  from break_even_after_update [OF assms b(2), of p] b(1) show ?thesis
    by (fastforce simp: break_even_after_def fires_at_def split: if_splits)
qed

subsection \<open>The average true range over a window\<close>

definition atr_of :: "num_env \<Rightarrow> nat \<Rightarrow> PriceBar list \<Rightarrow> decimal option" where
  "atr_of E period bars =
     (if period = 0 \<or> length bars \<le> period then None
      else Some (ddiv E (dsum E (rev (true_ranges E (drop (length bars - (period + 1)) bars)))) (of_nat period)))"

lemma length_true_ranges [simp]: "length (true_ranges E bars) = length bars - 1"
  by (simp add: true_ranges_def)

lemma add_bar_history:
  "price_history (add_bar E bar v) =
     (if vs_period v + 1 < length (price_history v) + 1 then tl (price_history v @ [bar]) else price_history v @ [bar])"
  by (simp add: add_bar_def calculate_atr_def Let_def)

lemma add_bar_fixed: "vs_period (add_bar E bar v) = vs_period v" "vs_multiplier (add_bar E bar v) = vs_multiplier v"
  by (simp_all add: add_bar_def calculate_atr_def Let_def)

lemma window_snoc:
  "(if n + 1 < length w + 1 then tl (w @ [b]) else w @ [b]) = drop (length bars + 1 - (n + 1)) (bars @ [b])"
  if "w = drop (length bars - (n + 1)) bars"
proof (cases "length bars \<le> n")
  case True
  then show ?thesis using that by simp
next
  case False
  then have "length bars - n = Suc (length bars - (n + 1))" by simp
  then have "drop (length bars - n) bars = tl w" using that by (metis drop_Suc tl_drop)
  with False that show ?thesis by (auto simp: tl_append split: list.split)
qed

lemma calculate_atr_window:
  assumes "length (price_history v) \<le> vs_period v + 1"
  shows "vs_current_atr (calculate_atr E v) =
    (if vs_period v = 0 \<or> length (price_history v) \<le> vs_period v then vs_current_atr v
     else Some (ddiv E (dsum E (rev (true_ranges E (price_history v)))) (of_nat (vs_period v))))"
  using assms by (auto simp: calculate_atr_def Let_def)

text \<open>
  The volatility stop keeps the last bars only; its average is that of the last \<open>period\<close> true ranges
  of all the bars it was given, from the bar after the first \<open>period\<close> on.
\<close>

lemma atr_exact:
  "let v = fold (add_bar E) bars (new_volatility_stop period mult)
   in price_history v = drop (length bars - (period + 1)) bars \<and> vs_period v = period \<and> vs_multiplier v = mult
      \<and> vs_current_atr v = atr_of E period bars"
proof (induction bars rule: rev_induct)
  case (snoc b bars)
  let ?v = "fold (add_bar E) bars (new_volatility_stop period mult)"
  let ?w = "price_history ?v" and ?h = "drop (length bars + 1 - (period + 1)) (bars @ [b])"
  from snoc have IH: "?w = drop (length bars - (period + 1)) bars" "vs_period ?v = period" "vs_multiplier ?v = mult"
    "vs_current_atr ?v = atr_of E period bars" by (simp_all add: Let_def)
  have h: "(if period + 1 < length ?w + 1 then tl (?w @ [b]) else ?w @ [b]) = ?h"
    by (rule window_snoc [OF IH(1)])
  have "vs_current_atr (add_bar E b ?v) = vs_current_atr (calculate_atr E (?v\<lparr>price_history := ?h\<rparr>))"
    by (simp only: add_bar_def [of E b ?v] Let_def length_append list.size IH(2) h add_0 Suc_eq_plus1)
  also have "\<dots> = atr_of E period (bars @ [b])"
    by (subst calculate_atr_window) (use IH in \<open>auto simp: atr_of_def\<close>)
  finally show ?case using h IH by (simp add: Let_def add_bar_history add_bar_fixed)
qed (simp add: new_volatility_stop_def atr_of_def)

subsection \<open>The time-decay stop\<close>

context numeric_env
begin

lemma progress_bounds:
  assumes "0 \<le> a" "a \<le> b" "0 < (b :: int)"
  shows "0 \<le> ddiv E (of_int a) (of_int b) \<and> ddiv E (of_int a) (of_int b) \<le> 1"
  using assms unfolding ddiv_def by (auto intro!: round_nonneg round_le_1)

lemma decay_factor_bounds:
  assumes "dec_rep (final_multiplier d)" "0 \<le> final_multiplier d" "final_multiplier d \<le> 1"
  shows "final_multiplier d \<le> decay_factor E d h \<and> decay_factor E d h \<le> 1"
proof -
  let ?fm = "final_multiplier d" and ?s = "decay_start_hours d"
  have one: "dsub E 1 ?fm = 1 - ?fm" using dec_rep_one_minus [OF assms] by (simp add: dsub_def dec_exact)
  have "?fm \<le> dsub E 1 (dmul E q (1 - ?fm)) \<and> dsub E 1 (dmul E q (1 - ?fm)) \<le> 1" if q: "0 \<le> q" "q \<le> 1" for q
  proof
    have "dmul E q (1 - ?fm) \<le> 1 - ?fm"
      using q assms dmul_mono [of "1 - ?fm" q 1] dec_rep_one_minus [OF assms] by simp
    then have "dsub E 1 (1 - ?fm) \<le> dsub E 1 (dmul E q (1 - ?fm))" by (intro dsub_mono) simp_all
    then show "?fm \<le> dsub E 1 (dmul E q (1 - ?fm))" using assms(1) by (simp add: dsub_def dec_exact)
    have "0 \<le> dmul E q (1 - ?fm)" using q assms by (simp add: dmul_nonneg)
    then have "dsub E 1 (dmul E q (1 - ?fm)) \<le> dsub E 1 0" by (intro dsub_mono) simp_all
    then show "dsub E 1 (dmul E q (1 - ?fm)) \<le> 1" by (simp add: dsub_def)
  qed
  moreover have "0 \<le> ddiv E (of_int (?s - h)) (of_int ?s) \<and> ddiv E (of_int (?s - h)) (of_int ?s) \<le> 1"
    if "h < ?s" "0 < h" using that by (intro progress_bounds) simp_all
  ultimately show ?thesis using assms by (auto simp: decay_factor_def one Let_def)
qed

lemma decay_factor_mono:
  assumes fm: "dec_rep (final_multiplier d)" "0 \<le> final_multiplier d" "final_multiplier d \<le> 1"
    and "h' \<le> h"
  shows "decay_factor E d h' \<le> decay_factor E d h"
proof (cases "h' \<le> 0 \<or> decay_start_hours d \<le> h")
  case True
  then show ?thesis
    using decay_factor_bounds [OF fm, of h] decay_factor_bounds [OF fm, of h'] assms(4)
    by (auto simp: decay_factor_def)
next
  case False
  let ?s = "decay_start_hours d"
  have "ddiv E (of_int (?s - h)) (of_int ?s) \<le> ddiv E (of_int (?s - h')) (of_int ?s)"
    unfolding ddiv_def using assms(4) False by (intro dec_mono divide_right_mono) simp_all
  then have "dsub E 1 (dmul E (ddiv E (of_int (?s - h')) (of_int ?s)) (dsub E 1 (final_multiplier d)))
     \<le> dsub E 1 (dmul E (ddiv E (of_int (?s - h)) (of_int ?s)) (dsub E 1 (final_multiplier d)))"
    using fm(3) by (intro dsub_mono dmul_mono dsub_nonneg) simp_all
  with False assms(4) show ?thesis by (simp add: decay_factor_def Let_def)
qed

lemma stop_level_mono:
  assumes "0 \<le> td_entry_price d" "0 \<le> base_stop_pct d" "f \<le> g"
  shows "dmul E (td_entry_price d) (dsub E 1 (dmul E (base_stop_pct d) g))
    \<le> dmul E (td_entry_price d) (dsub E 1 (dmul E (base_stop_pct d) f))"
  using assms by (intro dmul_mono_right dsub_mono) simp_all

end

lemma trunc_div_mono: "0 < b \<Longrightarrow> x \<le> y \<Longrightarrow> trunc_div x b \<le> trunc_div y b"
proof -
  assume b: "0 < b" and "x \<le> y"
  have neg: "trunc_div z b = - ((- z) div b)" if "z < 0" for z using that b by (simp add: trunc_div_def)
  have pos: "trunc_div z b = z div b" if "0 \<le> z" for z using that b by (cases "z = 0") (simp_all add: trunc_div_def)
  consider "0 \<le> x" | "x < 0" "0 \<le> y" | "y < 0" by linarith
  then show ?thesis
  proof cases
    case 2
    have "0 \<le> (- x) div b" "0 \<le> y div b" using 2 b by (simp_all add: pos_imp_zdiv_nonneg_iff)
    then show ?thesis using 2 by (simp add: neg pos)
  qed (use b \<open>x \<le> y\<close> in \<open>simp_all add: neg pos zdiv_mono1\<close>)
qed

text \<open>
  The time-decay stop only tightens, within bounds. For a non-negative entry price and stop
  distance and a final multiplier between 0 and 1, the level never falls as time passes, and it
  always lies between the level of the full distance and that of the distance reduced by the
  final multiplier; the second is reached from the last full hour before the deadline on.
\<close>

theorem time_decay_tightens:
  assumes "numeric_env E" "0 \<le> td_entry_price d" "0 \<le> base_stop_pct d"
    and fm: "dec_rep (final_multiplier d)" "0 \<le> final_multiplier d" "final_multiplier d \<le> 1"
    and "now \<le> later"
  defines "level \<equiv> \<lambda>f. dmul E (td_entry_price d) (dsub E 1 (dmul E (base_stop_pct d) f))"
  shows "current_stop_level E now d \<le> current_stop_level E later d
    \<and> level 1 \<le> current_stop_level E now d \<and> current_stop_level E later d \<le> level (final_multiplier d)
    \<and> (0 < decay_start_hours d \<longrightarrow> td_deadline d - later < 3600 * ns_per_sec
         \<longrightarrow> current_stop_level E later d = level (final_multiplier d))"
proof -
  note mono = numeric_env.stop_level_mono [OF assms(1-3)]
  note bounds = numeric_env.decay_factor_bounds [OF assms(1) fm]
  have level: "current_stop_level E t d = level (decay_factor E d (num_hours (td_deadline d - t)))" for t
    by (simp add: current_stop_level_def level_def Let_def)
  have "num_hours (td_deadline d - later) \<le> num_hours (td_deadline d - now)"
    using assms(7) unfolding num_hours_def by (intro trunc_div_mono) simp_all
  then have "current_stop_level E now d \<le> current_stop_level E later d"
    unfolding level level_def by (intro mono numeric_env.decay_factor_mono [OF assms(1) fm])
  moreover have "level 1 \<le> current_stop_level E now d" "current_stop_level E later d \<le> level (final_multiplier d)"
    unfolding level level_def using bounds by (auto intro!: mono)
  moreover have "num_hours (td_deadline d - later) \<le> 0" if "td_deadline d - later < 3600 * ns_per_sec"
    using trunc_div_mono [of "3600 * ns_per_sec" "td_deadline d - later" "3600 * ns_per_sec - 1"] that
    by (simp add: num_hours_def trunc_div_def [of 3599999999999] ns_per_sec_def)
  ultimately show ?thesis unfolding level by (auto simp: decay_factor_def)
qed

definition demo_decay :: TimeDecayStop where
  "demo_decay = time_decay_activate (new_time_decay_stop 1 2 (1 / 2) (dec_new 1 1) (12 * 3600 * ns_per_sec) 12 (dec_new 65 2))"

theorem time_decay_tightens_witness:
  "current_stop_level exact_env 0 demo_decay \<le> current_stop_level exact_env (6 * 3600 * ns_per_sec) demo_decay"
  using time_decay_tightens [OF exact.numeric_env_axioms, of demo_decay 0 "6 * 3600 * ns_per_sec"]
    dec_repI [of 2 "dec_new 65 2" 65]
  by (simp add: demo_decay_def time_decay_activate_def new_time_decay_stop_def dec_new_def ns_per_sec_def)

subsection \<open>Compound stops\<close>

text \<open>The three ways to combine conditions agree at the ends of \<open>AtLeast\<close>.\<close>

lemma at_least_all:
  "compound_check E now (c\<lparr>cs_logic := AtLeast (length (cs_conditions c))\<rparr>) ctx
     = compound_check E now (c\<lparr>cs_logic := And\<rparr>) ctx"
proof -
  have "length xs \<le> length (filter id xs) \<longleftrightarrow> list_all id xs" for xs :: "bool list"
    by (metis filter_id_conv le_antisym length_filter_le length_filter_less linorder_not_less list_all_iff)
  from this [of "map (condition_evaluate E now ctx) (cs_conditions c)"] show ?thesis
    by (simp add: compound_check_def Let_def)
qed

lemma at_least_one:
  "compound_check E now (c\<lparr>cs_logic := AtLeast 1\<rparr>) ctx = compound_check E now (c\<lparr>cs_logic := Or\<rparr>) ctx"
proof -
  have "Suc 0 \<le> length (filter id xs) \<longleftrightarrow> list_ex id xs" for xs :: "bool list"
    by (induction xs) auto
  from this [of "map (condition_evaluate E now ctx) (cs_conditions c)"] show ?thesis
    by (simp add: compound_check_def Let_def)
qed

end
