(* ===== verification/Position_Tracker.thy ===== *)
theory Position_Tracker
  imports Position_Repo "HOL-Library.Multiset"
begin

section \<open>The position tracker of the arbitrage monitor\<close>

text \<open>
  Model of \<open>crates/arb-monitor/src/position_tracker.rs\<close>: the cache of active positions by market, kept
  beside the table of positions. The tracker is a record of the cache, the table and the exit
  threshold. A \<open>HashMap\<close> is an association list, and its iteration order is the order of the list.
  An operation reads the clock once. \<open>pg_ok P i\<close> is the fate of the \<open>i\<close>-th statement of a call.

  Three passes of the tracker visit the cached positions, change some of them and write each
  change with an \<open>UPDATE\<close>. They share one function, \<open>pass\<close>: a strict pass (the code's question mark)
  ends at the first failed statement, the others log it and go on. In both the change stays in
  memory.
\<close>

record tracker =
  tk_positions :: "(string, Position list) store"
  tk_exit_threshold :: decimal
  tk_table :: position_table

definition new_tracker :: "decimal option \<Rightarrow> position_table \<Rightarrow> tracker" where
  "new_tracker threshold t = \<lparr>tk_positions = [], tk_exit_threshold = opt_or (dec_new 5 3) threshold, tk_table = t\<rparr>"

definition tracked_list :: "(string, Position list) store \<Rightarrow> Position list" where
  "tracked_list m = concat (store_values m)"

subsection \<open>Loading and creating\<close>

definition push_position :: "Position \<Rightarrow> (string, Position list) store \<Rightarrow> (string, Position list) store" where
  "push_position p m = store_insert (pos_market_id p) (opt_or [] (store_get m (pos_market_id p)) @ [p]) m"

definition group_by_market :: "Position list \<Rightarrow> (string, Position list) store" where
  "group_by_market ps = fold push_position ps []"

definition load_active_positions ::
  "num_env \<Rightarrow> pg_env \<Rightarrow> reason_codec \<Rightarrow> tracker \<Rightarrow> unit option \<times> tracker" where
  "load_active_positions E P J t =
     (case get_active_for_arb_monitor E P 0 J (tk_table t) of
        None \<Rightarrow> (None, t)
      | Some ps \<Rightarrow> (Some (), t\<lparr>tk_positions := group_by_market ps\<rparr>))"

definition tracker_create ::
  "num_env \<Rightarrow> pg_env \<Rightarrow> reason_codec \<Rightarrow> uuid \<Rightarrow> datetime \<Rightarrow> ArbOpportunity \<Rightarrow> decimal \<Rightarrow> ExitStrategy \<Rightarrow> tracker
     \<Rightarrow> Position option \<times> tracker" where
  "tracker_create E P J pid now arb qty strategy t =
     (let p = apply_arb_fee_model arb
                (new_position E pid now (arb_market_id arb) (yes_ask arb) (no_ask arb) qty strategy)
      in case position_insert P 0 J p (tk_table t) of
           None \<Rightarrow> (None, t)
         | Some tbl \<Rightarrow> (Some p, t\<lparr>tk_table := tbl, tk_positions := push_position p (tk_positions t)\<rparr>))"

subsection \<open>Passes over the cache\<close>

fun pass ::
  "pg_env \<Rightarrow> reason_codec \<Rightarrow> bool \<Rightarrow> (Position \<Rightarrow> Position option) \<Rightarrow> Position list \<Rightarrow> nat \<times> position_table
     \<Rightarrow> Position list \<times> (nat \<times> position_table) \<times> (uuid \<times> bool) list \<times> bool" where
  "pass P J strict act [] st = ([], st, [], True)"
| "pass P J strict act (p # ps) (i, tbl) =
     (case act p of
        None \<Rightarrow> let (qs, st', ws, ok) = pass P J strict act ps (i, tbl) in (p # qs, st', ws, ok)
      | Some q \<Rightarrow>
          (case position_update P i J q tbl of
             None \<Rightarrow>
               if strict then (q # ps, (i + 1, tbl), [(pos_id q, False)], False)
               else let (qs, st', ws, ok) = pass P J strict act ps (i + 1, tbl)
                    in (q # qs, st', (pos_id q, False) # ws, ok)
           | Some tbl' \<Rightarrow>
               let (qs, st', ws, ok) = pass P J strict act ps (i + 1, tbl')
               in (q # qs, st', (pos_id q, True) # ws, ok)))"

fun pass_markets ::
  "pg_env \<Rightarrow> reason_codec \<Rightarrow> bool \<Rightarrow> (Position \<Rightarrow> Position option) \<Rightarrow> (string, Position list) store
     \<Rightarrow> nat \<times> position_table
     \<Rightarrow> (string, Position list) store \<times> (nat \<times> position_table) \<times> (uuid \<times> bool) list \<times> bool" where
  "pass_markets P J strict act [] st = ([], st, [], True)"
| "pass_markets P J strict act ((m, ps) # ms) st =
     (let (qs, st1, ws, ok) = pass P J strict act ps st
      in if \<not> ok then ((m, qs) # ms, st1, ws, False)
         else let (ms', st2, ws', ok') = pass_markets P J strict act ms st1
              in ((m, qs) # ms', st2, ws @ ws', ok'))"

subsection \<open>Prices\<close>

definition update_market_positions :: "num_env \<Rightarrow> datetime \<Rightarrow> string \<Rightarrow> BinaryMarketBook \<Rightarrow> tracker \<Rightarrow> tracker" where
  "update_market_positions E now m book t =
     (case (store_get (tk_positions t) m, exit_value E book) of
        (Some ps, Some (y, n, _)) \<Rightarrow>
          t\<lparr>tk_positions := store_insert m
               (map (\<lambda>p. if is_active p then touch now (update_pnl E now y n DEFAULT_FEE p) else p) ps)
               (tk_positions t)\<rparr>
      | _ \<Rightarrow> t)"

definition exit_action :: "num_env \<Rightarrow> datetime \<Rightarrow> decimal \<Rightarrow> decimal \<Rightarrow> decimal \<Rightarrow> Position \<Rightarrow> Position option" where
  "exit_action E now threshold y n p =
     (if pos_state p \<noteq> Open \<or> exit_strategy p \<noteq> ExitOnCorrection then None
      else let value = dmul E (dadd E y n) (quantity p);
               fees = dmul E (dmul E DEFAULT_FEE 2) (quantity p);
               potential = dsub E (dsub E value (entry_cost E p)) fees
           in if dmul E threshold (quantity p) \<le> potential
              then (case mark_exit_ready now p of Inl _ \<Rightarrow> None | Inr q \<Rightarrow> Some q)
              else None)"

definition check_exit_opportunities ::
  "num_env \<Rightarrow> pg_env \<Rightarrow> reason_codec \<Rightarrow> datetime \<Rightarrow> string \<Rightarrow> BinaryMarketBook \<Rightarrow> tracker
     \<Rightarrow> uuid list option \<times> tracker" where
  "check_exit_opportunities E P J now m book t =
     (case (store_get (tk_positions t) m, exit_value E book) of
        (Some ps, Some (y, n, _)) \<Rightarrow>
          let (qs, (_, tbl), ws, ok) =
                pass P J True (exit_action E now (tk_exit_threshold t) y n) ps (0, tk_table t)
          in (if ok then Some (map fst ws) else None,
              t\<lparr>tk_positions := store_insert m qs (tk_positions t), tk_table := tbl\<rparr>)
      | _ \<Rightarrow> (Some [], t))"

subsection \<open>Operations on one position\<close>

text \<open>The first cached position with the id, in the order of the markets.\<close>

definition find_tracked :: "uuid \<Rightarrow> tracker \<Rightarrow> Position option" where
  "find_tracked i t = find (\<lambda>p. pos_id p = i) (tracked_list (tk_positions t))"

fun replace_first :: "uuid \<Rightarrow> Position \<Rightarrow> Position list \<Rightarrow> Position list" where
  "replace_first i q [] = []"
| "replace_first i q (p # ps) = (if pos_id p = i then q # ps else p # replace_first i q ps)"

fun replace_tracked :: "uuid \<Rightarrow> Position \<Rightarrow> (string, Position list) store \<Rightarrow> (string, Position list) store" where
  "replace_tracked i q [] = []"
| "replace_tracked i q ((m, ps) # ms) =
     (if list_ex (\<lambda>p. pos_id p = i) ps then (m, replace_first i q ps) # ms
      else (m, ps) # replace_tracked i q ms)"

text \<open>The changed position is written; when the statement fails, it stays changed in the cache.\<close>

definition save_tracked :: "pg_env \<Rightarrow> reason_codec \<Rightarrow> Position \<Rightarrow> tracker \<Rightarrow> bool \<times> tracker" where
  "save_tracked P J q t =
     (let t1 = t\<lparr>tk_positions := replace_tracked (pos_id q) q (tk_positions t)\<rparr>
      in case position_update P 0 J q (tk_table t) of
           None \<Rightarrow> (False, t1)
         | Some tbl \<Rightarrow> (True, t1\<lparr>tk_table := tbl\<rparr>))"

text \<open>An operation that may refuse: \<open>Some None\<close> when it was refused or the position is not cached.\<close>

definition with_tracked ::
  "pg_env \<Rightarrow> reason_codec \<Rightarrow> uuid \<Rightarrow> (Position \<Rightarrow> position_error + Position) \<Rightarrow> tracker
     \<Rightarrow> Position option option \<times> tracker" where
  "with_tracked P J i f t =
     (case find_tracked i t of
        None \<Rightarrow> (Some None, t)
      | Some p \<Rightarrow>
          (case f p of
             Inl _ \<Rightarrow> (Some None, t)
           | Inr q \<Rightarrow> (let (ok, t') = save_tracked P J q t in (if ok then Some (Some q) else None, t'))))"

definition mark_position_open :: "pg_env \<Rightarrow> reason_codec \<Rightarrow> datetime \<Rightarrow> uuid \<Rightarrow> tracker \<Rightarrow> unit option \<times> tracker" where
  "mark_position_open P J now i t =
     (let (r, t') = with_tracked P J i (mark_open now) t in (map_option (\<lambda>_. ()) r, t'))"

definition closed_pnl :: "Position option \<Rightarrow> decimal option" where
  "closed_pnl r = Option.bind r realized_pnl"

definition close_position_exit ::
  "num_env \<Rightarrow> pg_env \<Rightarrow> reason_codec \<Rightarrow> datetime \<Rightarrow> uuid \<Rightarrow> decimal \<Rightarrow> decimal \<Rightarrow> tracker
     \<Rightarrow> decimal option option \<times> tracker" where
  "close_position_exit E P J now i y n t =
     (let (r, t') = with_tracked P J i (close_via_exit E now y n DEFAULT_FEE) t in (map_option closed_pnl r, t'))"

definition close_position_resolution ::
  "num_env \<Rightarrow> pg_env \<Rightarrow> reason_codec \<Rightarrow> datetime \<Rightarrow> uuid \<Rightarrow> tracker \<Rightarrow> decimal option option \<times> tracker" where
  "close_position_resolution E P J now i t =
     (let (r, t') = with_tracked P J i (close_via_resolution E now DEFAULT_FEE) t in (map_option closed_pnl r, t'))"

definition tracker_entry_failed ::
  "pg_env \<Rightarrow> reason_codec \<Rightarrow> datetime \<Rightarrow> uuid \<Rightarrow> FailureReason \<Rightarrow> tracker \<Rightarrow> unit option \<times> tracker" where
  "tracker_entry_failed P J now i reason t =
     (let (r, t') = with_tracked P J i (\<lambda>p. Inr (mark_entry_failed now reason p)) t
      in (map_option (\<lambda>_. ()) r, t'))"

definition tracker_exit_failed ::
  "pg_env \<Rightarrow> reason_codec \<Rightarrow> datetime \<Rightarrow> uuid \<Rightarrow> FailureReason \<Rightarrow> tracker \<Rightarrow> bool option \<times> tracker" where
  "tracker_exit_failed P J now i reason t =
     (let (r, t') = with_tracked P J i (\<lambda>p. Inr (mark_exit_failed now reason p)) t
      in (map_option (\<lambda>q. case q of Some p \<Rightarrow> can_retry p | None \<Rightarrow> False) r, t'))"

subsection \<open>Reading the cache\<close>

definition get_active_positions :: "tracker \<Rightarrow> Position list" where
  "get_active_positions t = filter is_active (tracked_list (tk_positions t))"

definition get_market_positions :: "string \<Rightarrow> tracker \<Rightarrow> Position list" where
  "get_market_positions m t = opt_or [] (store_get (tk_positions t) m)"

definition get_positions_needing_recovery :: "tracker \<Rightarrow> Position list" where
  "get_positions_needing_recovery t = filter needs_recovery (tracked_list (tk_positions t))"

definition get_state_counts :: "tracker \<Rightarrow> (PositionState, nat) store" where
  "get_state_counts t =
     fold (\<lambda>p c. store_insert (pos_state p) (opt_or 0 (store_get c (pos_state p)) + 1) c)
       (tracked_list (tk_positions t)) []"

record PositionSummary =
  sm_total :: nat
  sm_by_state :: "PositionState \<Rightarrow> nat"
  sm_realized :: decimal
  sm_unrealized :: decimal

text \<open>The eight counters of the summary are one function of the state.\<close>

definition add_to_summary :: "num_env \<Rightarrow> Position \<Rightarrow> PositionSummary \<Rightarrow> PositionSummary" where
  "add_to_summary E p sm =
     sm\<lparr>sm_total := sm_total sm + 1,
        sm_by_state := (sm_by_state sm)(pos_state p := sm_by_state sm (pos_state p) + 1),
        sm_realized := (case realized_pnl p of Some x \<Rightarrow> dadd E (sm_realized sm) x | None \<Rightarrow> sm_realized sm),
        sm_unrealized := dadd E (sm_unrealized sm) (unrealized_pnl p)\<rparr>"

definition get_position_summary :: "num_env \<Rightarrow> tracker \<Rightarrow> PositionSummary" where
  "get_position_summary E t = fold (add_to_summary E) (tracked_list (tk_positions t))
     \<lparr>sm_total = 0, sm_by_state = (\<lambda>_. 0), sm_realized = 0, sm_unrealized = 0\<rparr>"

definition touch_active_positions :: "datetime \<Rightarrow> tracker \<Rightarrow> tracker" where
  "touch_active_positions now t =
     t\<lparr>tk_positions := map (\<lambda>(m, ps). (m, map (\<lambda>p. if is_active p \<and> \<not> needs_recovery p then touch now p else p) ps))
        (tk_positions t)\<rparr>"

subsection \<open>Stale positions and recovery\<close>

definition stale_action :: "datetime \<Rightarrow> Position \<Rightarrow> Position option" where
  "stale_action now p = (if is_stale now p then Some (mark_stalled now now p) else None)"

definition run_pass ::
  "pg_env \<Rightarrow> reason_codec \<Rightarrow> bool \<Rightarrow> (Position \<Rightarrow> Position option) \<Rightarrow> nat \<Rightarrow> tracker
     \<Rightarrow> nat \<times> (uuid \<times> bool) list \<times> bool \<times> tracker" where
  "run_pass P J strict act i t =
     (let (ms, (i', tbl), ws, ok) = pass_markets P J strict act (tk_positions t) (i, tk_table t)
      in (i', ws, ok, t\<lparr>tk_positions := ms, tk_table := tbl\<rparr>))"

definition check_stale_positions :: "pg_env \<Rightarrow> reason_codec \<Rightarrow> datetime \<Rightarrow> tracker \<Rightarrow> uuid list \<times> tracker" where
  "check_stale_positions P J now t =
     (let (_, ws, _, t') = run_pass P J False (stale_action now) 0 t in (map fst ws, t'))"

definition recover_action :: "datetime \<Rightarrow> Position \<Rightarrow> Position option" where
  "recover_action now p =
     (if \<not> needs_recovery p then None
      else case pos_state p of
             ExitFailed \<Rightarrow> (let (q, ok) = attempt_exit_recovery now p in if ok then Some q else None)
           | Stalled \<Rightarrow> (let (q, r) = attempt_stalled_recovery now p in case r of Some _ \<Rightarrow> Some q | None \<Rightarrow> None)
           | _ \<Rightarrow> None)"

definition recover_from :: "pg_env \<Rightarrow> reason_codec \<Rightarrow> datetime \<Rightarrow> nat \<Rightarrow> tracker \<Rightarrow> uuid list \<times> tracker" where
  "recover_from P J now i t =
     (let (_, ws, _, t') = run_pass P J False (recover_action now) i t in (map fst (filter snd ws), t'))"

definition recover_failed_positions :: "pg_env \<Rightarrow> reason_codec \<Rightarrow> datetime \<Rightarrow> tracker \<Rightarrow> uuid list \<times> tracker" where
  "recover_failed_positions P J now t = recover_from P J now 0 t"

subsection \<open>Reconciliation at startup\<close>

record ReconciliationResult =
  rr_total_positions :: nat
  rr_healthy :: nat
  rr_pending_active :: nat
  rr_stale_pending :: nat
  rr_interrupted_closing :: nat
  rr_already_failed :: nat
  rr_stalled :: nat
  rr_already_closed :: nat
  rr_needing_recovery :: nat
  rr_auto_recovered :: nat

definition default_reconciliation :: ReconciliationResult where
  "default_reconciliation = \<lparr>rr_total_positions = 0, rr_healthy = 0, rr_pending_active = 0, rr_stale_pending = 0,
     rr_interrupted_closing = 0, rr_already_failed = 0, rr_stalled = 0, rr_already_closed = 0,
     rr_needing_recovery = 0, rr_auto_recovered = 0\<rparr>"

definition has_issues :: "ReconciliationResult \<Rightarrow> bool" where
  "has_issues r = (0 < rr_stale_pending r \<or> 0 < rr_interrupted_closing r \<or> 0 < rr_stalled r \<or> 0 < rr_already_failed r)"

definition needs_manual_intervention :: "ReconciliationResult \<Rightarrow> nat" where
  "needs_manual_intervention r = rr_stalled r"

definition INTERRUPTED :: FailureReason where
  "INTERRUPTED = UnknownFailure ''Interrupted during closing - detected on startup''"

text \<open>What the loop does to a position, and the counter it raises.\<close>

definition reconcile_action :: "datetime \<Rightarrow> Position \<Rightarrow> Position option" where
  "reconcile_action now p =
     (case pos_state p of
        Pending \<Rightarrow> if is_stale now p then Some (mark_entry_failed now (StalePosition (age_secs now p)) p) else None
      | Closing \<Rightarrow> Some (mark_exit_failed now INTERRUPTED p)
      | _ \<Rightarrow> None)"

definition reconcile_count :: "datetime \<Rightarrow> Position \<Rightarrow> ReconciliationResult \<Rightarrow> ReconciliationResult" where
  "reconcile_count now p r =
     (case pos_state p of
        Pending \<Rightarrow> if is_stale now p then r\<lparr>rr_stale_pending := rr_stale_pending r + 1\<rparr>
                   else r\<lparr>rr_pending_active := rr_pending_active r + 1\<rparr>
      | Closing \<Rightarrow> r\<lparr>rr_interrupted_closing := rr_interrupted_closing r + 1\<rparr>
      | EntryFailed \<Rightarrow> r\<lparr>rr_already_failed := rr_already_failed r + 1\<rparr>
      | ExitFailed \<Rightarrow> r\<lparr>rr_already_failed := rr_already_failed r + 1\<rparr>
      | Stalled \<Rightarrow> r\<lparr>rr_stalled := rr_stalled r + 1\<rparr>
      | Open \<Rightarrow> r\<lparr>rr_healthy := rr_healthy r + 1\<rparr>
      | ExitReady \<Rightarrow> r\<lparr>rr_healthy := rr_healthy r + 1\<rparr>
      | Closed \<Rightarrow> r\<lparr>rr_already_closed := rr_already_closed r + 1\<rparr>)"

definition reconcile_on_startup ::
  "num_env \<Rightarrow> pg_env \<Rightarrow> reason_codec \<Rightarrow> datetime \<Rightarrow> tracker \<Rightarrow> ReconciliationResult option \<times> tracker" where
  "reconcile_on_startup E P J now t =
     (case (get_active_for_arb_monitor E P 0 J (tk_table t),
            get_needing_recovery_for_arb_monitor E P 1 J (tk_table t)) of
        (Some ps, Some rs) \<Rightarrow>
          let t1 = t\<lparr>tk_positions := group_by_market ps\<rparr>;
              (i, _, ok, t2) = run_pass P J True (reconcile_action now) 2 t1
          in if \<not> ok then (None, t2)
             else let (recovered, t3) = recover_from P J now i t2;
                      r = fold (reconcile_count now) (tracked_list (tk_positions t1))
                            (default_reconciliation\<lparr>rr_total_positions := length ps, rr_needing_recovery := length rs\<rparr>)
                  in (Some (r\<lparr>rr_auto_recovered := length recovered\<rparr>), t3)
      | _ \<Rightarrow> (None, t))"

subsection \<open>The identity of cached positions\<close>

text \<open>Every operation but loading and creating keeps which position stands where.\<close>

definition ident :: "Position \<Rightarrow> uuid \<times> string" where
  "ident p = (pos_id p, pos_market_id p)"

definition skeleton :: "(string, Position list) store \<Rightarrow> (string, (uuid \<times> string) list) store" where
  "skeleton ms = map (\<lambda>(m, ps). (m, map ident ps)) ms"

definition keeps_ident :: "(Position \<Rightarrow> Position option) \<Rightarrow> bool" where
  "keeps_ident act \<longleftrightarrow> (\<forall>p q. act p = Some q \<longrightarrow> ident q = ident p)"

lemma keeps_identD: "keeps_ident act \<Longrightarrow> act p = Some q \<Longrightarrow> ident q = ident p"
  by (simp add: keeps_ident_def)

lemma keeps_ident_actions:
  "keeps_ident (exit_action E now th y n)" "keeps_ident (stale_action now)"
  "keeps_ident (recover_action now)" "keeps_ident (reconcile_action now)"
  by (auto simp: keeps_ident_def ident_def exit_action_def stale_action_def recover_action_def reconcile_action_def
      mark_exit_ready_def mark_stalled_def attempt_exit_recovery_def attempt_stalled_recovery_def
      mark_entry_failed_def mark_exit_failed_def Let_def
      split: if_splits PositionState.splits)

lemma pass_ident: "keeps_ident act \<Longrightarrow> map ident (fst (pass P J strict act ps st)) = map ident ps"
proof (induction ps arbitrary: st)
  case (Cons p ps)
  obtain i tbl where "st = (i, tbl)" by fastforce
  with Cons show ?case by (auto simp: Let_def case_prod_unfold keeps_identD split: option.split)
qed simp

lemma pass_markets_skeleton:
  "keeps_ident act \<Longrightarrow> skeleton (fst (pass_markets P J strict act ms st)) = skeleton ms"
proof (induction P J strict act ms st rule: pass_markets.induct)
  case (2 P J strict act m ps ms st)
  then show ?case
    using pass_ident [of act P J strict ps st] by (auto simp: skeleton_def Let_def split: prod.splits)
qed simp

lemma replace_first_ident: "ident q = (i, m) \<Longrightarrow> \<forall>p \<in> set ps. pos_market_id p = m \<Longrightarrow>
    map ident (replace_first i q ps) = map ident ps"
  by (induction ps) (auto simp: ident_def)

subsection \<open>The invariant of the tracker\<close>

text \<open>
  The cache files every position under its own market and holds no id twice; each cached position
  has a row. In the table a row carries its key and a state code the repository writes.
\<close>

definition cache_ok :: "(string, Position list) store \<Rightarrow> bool" where
  "cache_ok ms \<longleftrightarrow> store_wf ms \<and> (\<forall>(m, ps) \<in> set ms. \<forall>p \<in> set ps. pos_market_id p = m)
     \<and> distinct (map pos_id (tracked_list ms))"

definition table_ok :: "position_table \<Rightarrow> bool" where
  "table_ok t \<longleftrightarrow> store_wf t \<and> (\<forall>i r. store_get t i = Some r \<longrightarrow> r_id r = i \<and> r_state r \<in> range state_code)"

definition tracker_inv :: "tracker \<Rightarrow> bool" where
  "tracker_inv t \<longleftrightarrow> cache_ok (tk_positions t) \<and> table_ok (tk_table t)
     \<and> pos_id ` set (tracked_list (tk_positions t)) \<subseteq> dom (store_get (tk_table t))"

lemma tracked_list_simps [simp]:
  "tracked_list [] = []" "tracked_list ((m, ps) # ms) = ps @ tracked_list ms"
  by (simp_all add: tracked_list_def store_values_def)

lemma skeleton_ids:
  assumes "skeleton ms = skeleton ms'"
  shows "map ident (tracked_list ms) = map ident (tracked_list ms')"
proof -
  have "map ident (tracked_list ms) = concat (map snd (skeleton ms))" for ms
    by (induction ms) (auto simp: skeleton_def)
  then show ?thesis by (simp only: assms)
qed

lemma cache_ok_skeleton:
  "cache_ok ms \<longleftrightarrow> store_wf (skeleton ms) \<and> (\<forall>(m, is) \<in> set (skeleton ms). \<forall>i \<in> set is. snd i = m)
     \<and> distinct (concat (map (map fst \<circ> snd) (skeleton ms)))"
proof -
  have "map pos_id (tracked_list ms) = concat (map (map fst \<circ> snd) (skeleton ms))"
    by (induction ms) (auto simp: skeleton_def ident_def)
  moreover have "store_wf (skeleton ms) = store_wf ms" unfolding skeleton_def by (rule store_wf_map)
  moreover have "(\<forall>(m, is) \<in> set (skeleton ms). \<forall>i \<in> set is. snd i = m)
      = (\<forall>(m, ps) \<in> set ms. \<forall>p \<in> set ps. pos_market_id p = m)"
    by (auto simp: skeleton_def ident_def)
  ultimately show ?thesis by (simp only: cache_ok_def)
qed

lemma cache_ok_cong: "skeleton ms = skeleton ms' \<Longrightarrow> cache_ok ms = cache_ok ms'"
  by (simp only: cache_ok_skeleton)

lemma skeleton_pos_ids: "skeleton ms = skeleton ms' \<Longrightarrow> map pos_id (tracked_list ms) = map pos_id (tracked_list ms')"
proof -
  assume "skeleton ms = skeleton ms'"
  from arg_cong [where f = "map fst", OF skeleton_ids [OF this]] show ?thesis by (simp add: ident_def comp_def)
qed

text \<open>What an \<open>UPDATE\<close> does to the table.\<close>

definition persist :: "pg_env \<Rightarrow> reason_codec \<Rightarrow> Position \<Rightarrow> position_table \<Rightarrow> position_table" where
  "persist P J q t = (case store_get t (pos_id q) of None \<Rightarrow> t | Some r \<Rightarrow> store_insert (pos_id q) (row_of_update P J q r) t)"

lemma position_update_persist: "position_update P i J q t = (if pg_ok P i then Some (persist P J q t) else None)"
  by (simp add: position_update_def persist_def)

lemma persist_get: "store_get (persist P J q t) i =
    (if i = pos_id q then map_option (row_of_update P J q) (store_get t i) else store_get t i)"
  by (auto simp: persist_def store_simps split: option.split)

lemma table_ok_persist: "table_ok t \<Longrightarrow> table_ok (persist P J q t)"
proof -
  assume t: "table_ok t"
  have "store_wf (persist P J q t)" using t by (auto simp: table_ok_def persist_def st.wf_insert split: option.split)
  moreover have "r_id (row_of_update P J q r) = r_id r" "r_state (row_of_update P J q r) \<in> range state_code" for r
    by (simp_all add: row_of_update_def)
  ultimately show ?thesis using t by (auto simp: table_ok_def persist_get split: if_splits)
qed

lemma dom_persist: "dom (store_get (persist P J q t)) = dom (store_get t)"
  by (auto simp: dom_def persist_get split: if_splits)

lemma pass_table:
  "table_ok (snd st) \<Longrightarrow> table_ok (snd (fst (snd (pass P J strict act ps st))))
     \<and> dom (store_get (snd (fst (snd (pass P J strict act ps st))))) = dom (store_get (snd st))"
proof (induction ps arbitrary: st)
  case (Cons p ps)
  obtain i tbl where st: "st = (i, tbl)" by fastforce
  note IH = Cons.IH [where st = "(j, tb)" for j tb, simplified]
  from Cons.prems show ?case
    using IH [of tbl i] IH [of tbl "Suc i"] IH [of "persist P J q tbl" "Suc i" for q]
    by (cases "act p"; cases strict)
      (simp_all add: st Let_def case_prod_unfold position_update_persist table_ok_persist dom_persist)
qed simp

lemma pass_markets_table:
  "table_ok (snd st) \<Longrightarrow> table_ok (snd (fst (snd (pass_markets P J strict act ms st))))
     \<and> dom (store_get (snd (fst (snd (pass_markets P J strict act ms st))))) = dom (store_get (snd st))"
proof (induction ms arbitrary: st)
  case (Cons x ms)
  obtain m ps where x: "x = (m, ps)" by fastforce
  note one = pass_table [OF Cons.prems, of P J strict act ps]
  from Cons.IH [of "fst (snd (pass P J strict act ps st))"] one show ?case
    by (simp add: x Let_def case_prod_unfold)
qed simp

text \<open>Adding positions to the cache.\<close>

lemma mset_tracked_insert:
  "store_get m k = Some ps \<Longrightarrow> store_wf m \<Longrightarrow>
     mset (tracked_list (store_insert k (ps @ [p]) m)) = add_mset p (mset (tracked_list m))"
proof (induction m)
  case (Cons x m)
  obtain k' qs where x: "x = (k', qs)" by fastforce
  with Cons show ?case by (auto simp: store_insert_def store_wf_def split: if_splits)
qed simp

lemma tracked_list_append: "tracked_list (a @ b) = tracked_list a @ tracked_list b"
  by (simp add: tracked_list_def store_values_def)

lemma mset_tracked_push: "store_wf m \<Longrightarrow> mset (tracked_list (push_position p m)) = add_mset p (mset (tracked_list m))"
  by (cases "store_get m (pos_market_id p)")
    (simp_all add: push_position_def mset_tracked_insert store_insert_new tracked_list_append)

lemma cache_ok_push:
  assumes "cache_ok m" "pos_id p \<notin> pos_id ` set (tracked_list m)"
  shows "cache_ok (push_position p m)"
proof -
  let ?m = "push_position p m"
  have wf: "store_wf m" "store_wf ?m" using assms(1) by (simp_all add: cache_ok_def push_position_def st.wf_insert)
  have ms: "mset (tracked_list ?m) = add_mset p (mset (tracked_list m))" by (rule mset_tracked_push [OF wf(1)])
  then have "mset (map pos_id (tracked_list ?m)) = mset (pos_id p # map pos_id (tracked_list m))"
    by (simp add: mset_map)
  then have "distinct (map pos_id (tracked_list ?m)) = distinct (pos_id p # map pos_id (tracked_list m))"
    by (rule mset_eq_imp_distinct_iff)
  moreover have "pos_market_id q = k" if "(k, qs) \<in> set ?m" "q \<in> set qs" for k qs q
  proof -
    from that(1) wf(2) have "store_get ?m k = Some qs" by (simp add: store_get_def store_wf_def)
    then have qs: "qs = (if k = pos_market_id p then opt_or [] (store_get m k) @ [p] else the (store_get m k))"
      "k \<noteq> pos_market_id p \<longrightarrow> store_get m k \<noteq> None"
      by (simp_all add: push_position_def store_simps split: if_splits)
    have "pos_market_id u = k" if "store_get m k = Some us" "u \<in> set us" for u us
      using that assms(1) by (auto simp: cache_ok_def store_get_def dest!: map_of_SomeD)
    with qs that(2) show ?thesis by (cases "store_get m k") (auto split: if_splits)
  qed
  ultimately show ?thesis using assms wf by (auto simp: cache_ok_def)
qed

lemma group_by_market_ok:
  assumes "distinct (map pos_id ps)"
  shows "cache_ok (group_by_market ps) \<and> mset (tracked_list (group_by_market ps)) = mset ps"
  using assms
proof (induction ps rule: rev_induct)
  case (snoc p ps)
  then have IH: "cache_ok (group_by_market ps)" "mset (tracked_list (group_by_market ps)) = mset ps" by auto
  then have set: "set (tracked_list (group_by_market ps)) = set ps" by (metis set_mset_mset)
  have push: "group_by_market (ps @ [p]) = push_position p (group_by_market ps)" by (simp add: group_by_market_def)
  have "store_wf (group_by_market ps)" using IH(1) by (simp add: cache_ok_def)
  with snoc.prems IH set show ?case unfolding push by (simp add: cache_ok_push mset_tracked_push)
qed (simp add: group_by_market_def cache_ok_def)

lemma map_r_id_values:
  assumes "table_ok t"
  shows "map r_id (store_values t) = map fst t"
proof -
  have "r_id (snd x) = fst x" if "x \<in> set t" for x
  proof -
    obtain i r where x: "x = (i, r)" by fastforce
    with that assms have "store_get t i = Some r" by (simp add: table_ok_def store_wf_def store_get_def)
    with assms show ?thesis by (simp add: table_ok_def x)
  qed
  then show ?thesis by (simp add: store_values_def)
qed

text \<open>What the query for the monitor returns.\<close>

lemma active_for_monitor:
  assumes "table_ok t" "get_active_for_arb_monitor E P i J t = Some ps"
  shows "distinct (map pos_id ps)"
    and "p \<in> set ps \<Longrightarrow> \<exists>r. store_get t (pos_id p) = Some r \<and> p = row_to_position E J r \<and> active_row r"
proof -
  let ?rs = "select_rows (\<lambda>r. active_row r \<and> monitor_source r) (\<lambda>r. - r_entry_timestamp r) t"
  have ps: "ps = map (row_to_position E J) ?rs"
    using assms(2) by (auto simp: get_active_for_arb_monitor_def split: if_splits)
  have id: "pos_id (row_to_position E J r) = r_id r" for r by (simp add: row_to_position_def Let_def)
  have "distinct (map r_id (filter c (store_values t)))" for c
    using assms(1) map_r_id_values [OF assms(1)] distinct_map_filter [of r_id "store_values t" c]
    by (simp add: table_ok_def store_wf_def)
  then have "distinct (map r_id ?rs)"
    unfolding select_rows_def by (simp add: distinct_map)
  then show "distinct (map pos_id ps)" by (simp add: ps comp_def id)
  show "\<exists>r. store_get t (pos_id p) = Some r \<and> p = row_to_position E J r \<and> active_row r" if "p \<in> set ps"
  proof -
    from that obtain r where r: "r \<in> set (store_values t)" "active_row r" "p = row_to_position E J r"
      by (auto simp: ps select_rows_def)
    from r(1) assms(1) obtain i where "store_get t i = Some r"
      by (auto simp: st.vals_get table_ok_def ran_def)
    with assms(1) r show ?thesis by (auto simp: table_ok_def id)
  qed
qed

subsection \<open>Reachable trackers\<close>

inductive tracker_step :: "num_env \<Rightarrow> reason_codec \<Rightarrow> tracker \<Rightarrow> tracker \<Rightarrow> bool" for E J where
  load: "tracker_step E J t (snd (load_active_positions E P J t))"
| create: "tracker_step E J t (snd (tracker_create E P J pid now arb qty strategy t))"
| prices: "tracker_step E J t (update_market_positions E now m book t)"
| exits: "tracker_step E J t (snd (check_exit_opportunities E P J now m book t))"
| opened: "tracker_step E J t (snd (mark_position_open P J now i t))"
| exited: "tracker_step E J t (snd (close_position_exit E P J now i y n t))"
| resolved: "tracker_step E J t (snd (close_position_resolution E P J now i t))"
| entry_failed: "tracker_step E J t (snd (tracker_entry_failed P J now i reason t))"
| exit_failed: "tracker_step E J t (snd (tracker_exit_failed P J now i reason t))"
| stale: "tracker_step E J t (snd (check_stale_positions P J now t))"
| recover: "tracker_step E J t (snd (recover_failed_positions P J now t))"
| touched: "tracker_step E J t (touch_active_positions now t)"
| reconcile: "tracker_step E J t (snd (reconcile_on_startup E P J now t))"

definition tracker_start :: "tracker \<Rightarrow> bool" where
  "tracker_start t \<longleftrightarrow> tk_positions t = [] \<and> table_ok (tk_table t)"

text \<open>An operation that keeps the skeleton and the keys of the table keeps the invariant.\<close>

lemma tracker_inv_same:
  assumes "tracker_inv t" "skeleton (tk_positions t') = skeleton (tk_positions t)" "table_ok (tk_table t')"
    and "dom (store_get (tk_table t')) = dom (store_get (tk_table t))"
  shows "tracker_inv t'"
  using assms skeleton_pos_ids [OF assms(2)] cache_ok_cong [OF assms(2)]
  unfolding tracker_inv_def by (metis (no_types, lifting) list.set_map)

lemma tracker_inv_pass:
  assumes "tracker_inv t" "keeps_ident act"
  shows "tracker_inv (snd (snd (snd (run_pass P J strict act i t))))"
  by (rule tracker_inv_same [OF assms(1)])
    (use assms pass_markets_skeleton [OF assms(2)] pass_markets_table [of "(i, tk_table t)"]
      in \<open>simp_all add: run_pass_def Let_def case_prod_unfold tracker_inv_def\<close>)

lemma skeleton_insert:
  assumes "store_get ms m = Some ps" "map ident qs = map ident ps"
  shows "skeleton (store_insert m qs ms) = skeleton ms"
  using assms(1)
proof (induction ms)
  case (Cons x ms)
  then show ?case by (cases x) (auto simp: store_insert_def skeleton_def assms(2) split: if_splits)
qed simp

lemma replace_tracked_skeleton:
  assumes "cache_ok ms" "p \<in> set (tracked_list ms)" "ident q = ident p"
  shows "skeleton (replace_tracked (pos_id q) q ms) = skeleton ms"
  using assms(1,2)
proof (induction ms)
  case (Cons x ms)
  obtain m ps where x: "x = (m, ps)" by fastforce
  have id: "pos_id q = pos_id p" "pos_market_id q = pos_market_id p" using assms(3) by (simp_all add: ident_def)
  have ok: "cache_ok ms" "\<forall>u \<in> set ps. pos_market_id u = m"
    using Cons.prems(1) by (auto simp: x cache_ok_def store_wf_def)
  show ?case
  proof (cases "list_ex (\<lambda>u. pos_id u = pos_id q) ps")
    case True
    then obtain u where u: "u \<in> set ps" "pos_id u = pos_id p" by (auto simp: list_ex_iff id)
    have "p \<in> set ps"
      using Cons.prems u by (auto simp: x cache_ok_def image_iff)
    with ok(2) id have "map ident (replace_first (pos_id q) q ps) = map ident ps"
      by (intro replace_first_ident [of _ _ m]) (simp_all add: ident_def)
    with True show ?thesis by (simp add: x skeleton_def)
  next
    case False
    with Cons.prems(2) have "p \<in> set (tracked_list ms)" by (auto simp: x list_ex_iff id)
    from Cons.IH [OF ok(1) this] False show ?thesis by (simp add: x skeleton_def)
  qed
qed simp

lemma find_tracked_Some: "find_tracked i t = Some p \<Longrightarrow> p \<in> set (tracked_list (tk_positions t)) \<and> pos_id p = i"
  by (auto simp: find_tracked_def find_Some_iff)

lemma tracker_inv_with:
  assumes "tracker_inv t" "\<And>p q. f p = Inr q \<Longrightarrow> ident q = ident p"
  shows "tracker_inv (snd (with_tracked P J i f t))"
proof (cases "\<exists>p q. find_tracked i t = Some p \<and> f p = Inr q")
  case True
  then obtain p q where p: "find_tracked i t = Some p" and q: "f p = Inr q" by blast
  let ?t = "t\<lparr>tk_positions := replace_tracked (pos_id q) q (tk_positions t)\<rparr>"
  have "skeleton (tk_positions ?t) = skeleton (tk_positions t)"
    using assms(1) find_tracked_Some [OF p] assms(2) [OF q]
    by (simp add: tracker_inv_def replace_tracked_skeleton [of _ p])
  moreover have "table_ok (tk_table t)" using assms(1) by (simp add: tracker_inv_def)
  ultimately have "tracker_inv ?t" "tracker_inv (?t\<lparr>tk_table := persist P J q (tk_table t)\<rparr>)"
    by (intro tracker_inv_same [OF assms(1)]; simp add: table_ok_persist dom_persist)+
  then show ?thesis
    by (simp add: with_tracked_def p q save_tracked_def position_update_persist Let_def)
qed (use assms(1) in \<open>auto simp: with_tracked_def split: option.split sum.split\<close>)

lemma ident_ops:
  "mark_open now p = Inr q \<Longrightarrow> ident q = ident p"
  "close_via_exit E now y n fee p = Inr q \<Longrightarrow> ident q = ident p"
  "close_via_resolution E now fee p = Inr q \<Longrightarrow> ident q = ident p"
  "ident (mark_entry_failed now reason p) = ident p" "ident (mark_exit_failed now reason p) = ident p"
  "ident (touch now p) = ident p" "ident (update_pnl E now y n fee p) = ident p"
  by (auto simp: ident_def mark_open_def close_via_exit_def close_via_recorded_exit_def close_via_resolution_def
      mark_entry_failed_def mark_exit_failed_def touch_def update_pnl_def Let_def
      split: if_splits option.splits sum.splits prod.splits)

lemma tracker_inv_load:
  assumes "tracker_inv t" "get_active_for_arb_monitor E P i J (tk_table t) = Some ps"
  shows "tracker_inv (t\<lparr>tk_positions := group_by_market ps\<rparr>)"
proof -
  have tbl: "table_ok (tk_table t)" using assms(1) by (simp add: tracker_inv_def)
  note active = active_for_monitor [OF tbl assms(2)]
  have "set (tracked_list (group_by_market ps)) = set ps"
    using group_by_market_ok [OF active(1)] by (metis set_mset_mset)
  with group_by_market_ok [OF active(1)] active(2) tbl show ?thesis by (auto simp: tracker_inv_def)
qed

lemma tracker_inv_create:
  assumes "tracker_inv t"
  shows "tracker_inv (snd (tracker_create E P J pid now arb qty strategy t))"
proof (cases "pg_ok P 0 \<and> store_get (tk_table t) pid = None")
  case True
  let ?p = "apply_arb_fee_model arb (new_position E pid now (arb_market_id arb) (yes_ask arb) (no_ask arb) qty strategy)"
  let ?r = "row_of_insert P J SOURCE_MANUAL None ?p"
  let ?m = "push_position ?p (tk_positions t)" and ?tbl = "store_insert pid ?r (tk_table t)"
  have id: "pos_id ?p = pid" by (simp add: apply_arb_fee_model_def new_position_def Let_def)
  have new: "pid \<notin> pos_id ` set (tracked_list (tk_positions t))"
    using assms True by (auto simp: tracker_inv_def)
  have wf: "store_wf (tk_positions t)" using assms by (simp add: tracker_inv_def cache_ok_def)
  have "set (tracked_list ?m) = insert ?p (set (tracked_list (tk_positions t)))"
    using arg_cong [OF mset_tracked_push [OF wf, of ?p], of set_mset] by simp
  moreover have "cache_ok ?m" using assms new by (simp add: tracker_inv_def cache_ok_push id)
  moreover have "table_ok ?tbl"
    using assms by (auto simp: tracker_inv_def table_ok_def st.wf_insert store_simps row_of_insert_def id split: if_splits)
  ultimately have "tracker_inv (t\<lparr>tk_table := ?tbl, tk_positions := ?m\<rparr>)"
    using assms by (auto simp: tracker_inv_def store_simps id)
  with True show ?thesis
    by (simp add: tracker_create_def position_insert_def insert_with_source_def id Let_def)
qed (use assms in \<open>auto simp: tracker_create_def position_insert_def insert_with_source_def Let_def
      apply_arb_fee_model_def new_position_def split: option.split\<close>)

lemma tracker_inv_prices:
  assumes "tracker_inv t"
  shows "tracker_inv (update_market_positions E now m book t)"
proof -
  have "tracker_inv (t\<lparr>tk_positions := store_insert m (map (\<lambda>p. if is_active p
      then touch now (update_pnl E now y n DEFAULT_FEE p) else p) ps) (tk_positions t)\<rparr>)"
    if "store_get (tk_positions t) m = Some ps" for ps y n
    by (rule tracker_inv_same [OF assms])
      (use that assms in \<open>auto simp: tracker_inv_def ident_ops intro!: skeleton_insert\<close>)
  with assms show ?thesis by (auto simp: update_market_positions_def split: option.split prod.split)
qed

lemma tracker_inv_exits:
  assumes "tracker_inv t"
  shows "tracker_inv (snd (check_exit_opportunities E P J now m book t))"
proof -
  have "tracker_inv (t\<lparr>tk_positions := store_insert m (fst (pass P J True act ps (0, tk_table t))) (tk_positions t),
      tk_table := snd (fst (snd (pass P J True act ps (0, tk_table t))))\<rparr>)"
    if "store_get (tk_positions t) m = Some ps" "keeps_ident act" for ps act
    by (rule tracker_inv_same [OF assms])
      (use that assms pass_table [of "(0, tk_table t)" P J True act ps] in
        \<open>simp_all add: tracker_inv_def skeleton_insert pass_ident\<close>)
  with assms keeps_ident_actions(1) show ?thesis
    by (auto simp: check_exit_opportunities_def Let_def case_prod_unfold split: option.split)
qed

lemma tracker_inv_touch:
  assumes "tracker_inv t"
  shows "tracker_inv (touch_active_positions now t)"
proof (rule tracker_inv_same [OF assms])
  show "skeleton (tk_positions (touch_active_positions now t)) = skeleton (tk_positions t)"
    by (simp add: skeleton_def touch_active_positions_def case_prod_unfold comp_def ident_ops if_distrib cong: if_cong)
qed (use assms in \<open>simp_all add: tracker_inv_def touch_active_positions_def\<close>)

lemma tracker_inv_recover: "tracker_inv t \<Longrightarrow> tracker_inv (snd (recover_from P J now i t))"
  using tracker_inv_pass [OF _ keeps_ident_actions(3)] by (simp add: recover_from_def Let_def case_prod_unfold)

lemma tracker_inv_reconcile:
  assumes "tracker_inv t"
  shows "tracker_inv (snd (reconcile_on_startup E P J now t))"
proof -
  have "tracker_inv (snd (snd (snd (run_pass P J True (reconcile_action now) 2 (t\<lparr>tk_positions := group_by_market ps\<rparr>)))))"
    if "get_active_for_arb_monitor E P 0 J (tk_table t) = Some ps" for ps
    by (intro tracker_inv_pass tracker_inv_load [OF assms that] keeps_ident_actions)
  then show ?thesis
    using assms tracker_inv_recover
    by (auto simp: reconcile_on_startup_def Let_def case_prod_unfold split: option.split)
qed

lemma tracker_inv_step: "tracker_inv t \<Longrightarrow> tracker_step E J t t' \<Longrightarrow> tracker_inv t'"
  by (erule tracker_step.cases)
    (auto simp: load_active_positions_def mark_position_open_def close_position_exit_def close_position_resolution_def
      tracker_entry_failed_def tracker_exit_failed_def check_stale_positions_def recover_failed_positions_def
      Let_def case_prod_unfold ident_ops keeps_ident_actions
      split: option.split
      intro!: tracker_inv_load tracker_inv_create tracker_inv_prices tracker_inv_exits tracker_inv_with
        tracker_inv_pass tracker_inv_recover tracker_inv_touch tracker_inv_reconcile)

interpretation tk: machine tracker_start "tracker_step E J" tracker_inv
  by unfold_locales (simp add: tracker_start_def tracker_inv_def cache_ok_def, rule tracker_inv_step)

text \<open>
  C25: The cache of the position tracker is sound. In every state the tracker can reach from an empty
  cache, by any operations with any outcome of the database, each cached position is filed under
  its own market, no position is cached twice, and each has a row in the table under its id.
\<close>

theorem tracker_cache_sound:
  assumes "reach tracker_start (tracker_step E J) t"
  shows "distinct (map pos_id (tracked_list (tk_positions t)))
    \<and> (\<forall>p \<in> set (tracked_list (tk_positions t)). p \<in> set (get_market_positions (pos_market_id p) t)
         \<and> (\<exists>r. store_get (tk_table t) (pos_id p) = Some r \<and> r_id r = pos_id p))"
proof -
  have inv: "tracker_inv t" using assms by (rule tk.inv_reach)
  have "p \<in> set (get_market_positions (pos_market_id p) t)" if p: "p \<in> set (tracked_list (tk_positions t))" for p
  proof -
    from p obtain m ps where m: "(m, ps) \<in> set (tk_positions t)" "p \<in> set ps"
      by (auto simp: tracked_list_def store_values_def)
    with inv have "pos_market_id p = m" "store_get (tk_positions t) m = Some ps"
      by (auto simp: tracker_inv_def cache_ok_def store_get_def store_wf_def)
    with m(2) show ?thesis by (simp add: get_market_positions_def)
  qed
  moreover have "\<exists>r. store_get (tk_table t) (pos_id p) = Some r \<and> r_id r = pos_id p"
    if "p \<in> set (tracked_list (tk_positions t))" for p
  proof -
    from inv that obtain r where "store_get (tk_table t) (pos_id p) = Some r" by (auto simp: tracker_inv_def)
    with inv show ?thesis by (simp add: tracker_inv_def table_ok_def)
  qed
  ultimately show ?thesis using inv by (simp add: tracker_inv_def cache_ok_def)
qed

definition demo_tracker :: tracker where
  "demo_tracker = new_tracker None []"

theorem tracker_cache_sound_witness:
  "distinct (map pos_id (tracked_list (tk_positions
     (snd (tracker_create exact_env pg_exact demo_codec 7 0 sample_arb 100 HoldToResolution demo_tracker)))))"
proof -
  have "reach tracker_start (tracker_step exact_env demo_codec)
      (snd (tracker_create exact_env pg_exact demo_codec 7 0 sample_arb 100 HoldToResolution demo_tracker))"
    by (rule reach_step [where s = demo_tracker], rule reach_start)
      (simp_all add: tracker_start_def demo_tracker_def new_tracker_def table_ok_def tracker_step.create)
  from tracker_cache_sound [OF this] show ?thesis by (rule conjunct1)
qed

subsection \<open>Reconciliation with a database that answers\<close>

definition acted :: "(Position \<Rightarrow> Position option) \<Rightarrow> Position \<Rightarrow> Position" where
  "acted act p = (case act p of Some q \<Rightarrow> q | None \<Rightarrow> p)"

definition write_acted ::
  "pg_env \<Rightarrow> reason_codec \<Rightarrow> (Position \<Rightarrow> Position option) \<Rightarrow> Position \<Rightarrow> position_table \<Rightarrow> position_table" where
  "write_acted P J act p tbl = (case act p of Some q \<Rightarrow> persist P J q tbl | None \<Rightarrow> tbl)"

definition writes :: "(Position \<Rightarrow> Position option) \<Rightarrow> Position list \<Rightarrow> (uuid \<times> bool) list" where
  "writes act ps = map (\<lambda>q. (pos_id q, True)) (List.map_filter act ps)"

lemma writes_simps [simp]:
  "writes act [] = []" "writes act (ps @ qs) = writes act ps @ writes act qs"
  "writes act (p # ps) = (case act p of None \<Rightarrow> writes act ps | Some q \<Rightarrow> (pos_id q, True) # writes act ps)"
  by (simp_all add: writes_def List.map_filter_def split: option.split)

lemma pass_reliable:
  assumes "\<forall>j. pg_ok P j"
  shows "\<exists>i'. pass P J strict act ps (i, tbl) =
    (map (acted act) ps, (i', fold (write_acted P J act) ps tbl), writes act ps, True)"
proof (induction ps arbitrary: i tbl)
  case (Cons p ps)
  note IH = Cons.IH [of "if act p = None then i else Suc i" "write_acted P J act p tbl"]
  with assms show ?case
    by (auto simp: acted_def write_acted_def position_update_persist Let_def split: option.splits)
qed simp

lemma pass_markets_reliable:
  assumes "\<forall>j. pg_ok P j"
  shows "\<exists>i'. pass_markets P J strict act ms (i, tbl) =
    (map (\<lambda>(m, ps). (m, map (acted act) ps)) ms,
     (i', fold (write_acted P J act) (tracked_list ms) tbl), writes act (tracked_list ms), True)"
proof (induction ms arbitrary: i tbl)
  case (Cons x ms)
  obtain m ps where x: "x = (m, ps)" by fastforce
  from pass_reliable [OF assms, of J strict act ps i tbl] obtain j where
    "pass P J strict act ps (i, tbl) = (map (acted act) ps, (j, fold (write_acted P J act) ps tbl), writes act ps, True)"
    by blast
  with Cons.IH [of j "fold (write_acted P J act) ps tbl"] show ?case by (auto simp: x)
qed simp

lemma tracked_list_map: "tracked_list (map (\<lambda>(m, ps). (m, map f ps)) ms) = map f (tracked_list ms)"
  by (induction ms) auto

lemma run_pass_reliable:
  assumes "\<forall>j. pg_ok P j"
  obtains i' t' where "run_pass P J strict act i t = (i', writes act (tracked_list (tk_positions t)), True, t')"
    "tracked_list (tk_positions t') = map (acted act) (tracked_list (tk_positions t))"
    "tk_table t' = fold (write_acted P J act) (tracked_list (tk_positions t)) (tk_table t)"
proof -
  from pass_markets_reliable [OF assms, of J strict act "tk_positions t" i "tk_table t"] obtain i' where
    "pass_markets P J strict act (tk_positions t) (i, tk_table t) =
      (map (\<lambda>(m, ps). (m, map (acted act) ps)) (tk_positions t),
       (i', fold (write_acted P J act) (tracked_list (tk_positions t)) (tk_table t)),
       writes act (tracked_list (tk_positions t)), True)" by blast
  then show ?thesis by (intro that) (auto simp: run_pass_def tracked_list_map)
qed

text \<open>The state columns agree with the cache.\<close>

definition state_synced :: "Position list \<Rightarrow> position_table \<Rightarrow> bool" where
  "state_synced ps tbl \<longleftrightarrow> (\<forall>p \<in> set ps. map_option r_state (store_get tbl (pos_id p)) = Some (state_code (pos_state p)))"

lemma keeps_id: "keeps_ident act \<Longrightarrow> act p = Some q \<Longrightarrow> pos_id q = pos_id p"
  using keeps_identD [of act p q] by (simp add: ident_def)

lemma write_get_other:
  "keeps_ident act \<Longrightarrow> i \<notin> pos_id ` set ps \<Longrightarrow> store_get (fold (write_acted P J act) ps tbl) i = store_get tbl i"
  by (induction ps arbitrary: tbl)
    (auto simp: write_acted_def persist_get keeps_id split: option.split)

lemma state_synced_write:
  assumes "keeps_ident act" "distinct (map pos_id ps)" "state_synced ps tbl"
  shows "state_synced (map (acted act) ps) (fold (write_acted P J act) ps tbl)"
  using assms(2,3)
proof (induction ps arbitrary: tbl)
  case (Cons p ps)
  let ?tbl = "write_acted P J act p tbl"
  have rest: "store_get ?tbl (pos_id q) = store_get tbl (pos_id q)" if "q \<in> set ps" for q
  proof -
    have "pos_id q \<in> pos_id ` set ps" using that by simp
    with Cons.prems(1) have "pos_id q \<noteq> pos_id p" by auto
    then show ?thesis using keeps_id [OF assms(1)] by (auto simp: write_acted_def persist_get split: option.split)
  qed
  have "state_synced (map (acted act) ps) (fold (write_acted P J act) ps ?tbl)"
    using Cons.prems rest by (intro Cons.IH) (auto simp: state_synced_def)
  moreover have "store_get (fold (write_acted P J act) ps ?tbl) (pos_id p) = store_get ?tbl (pos_id p)"
    using Cons.prems(1) by (intro write_get_other [OF assms(1)]) auto
  moreover have "pos_id (acted act p) = pos_id p" using keeps_id [OF assms(1)] by (simp add: acted_def split: option.split)
  moreover have "map_option r_state (store_get ?tbl (pos_id p)) = Some (state_code (pos_state (acted act p)))"
    using Cons.prems(2) keeps_id [OF assms(1)]
    by (auto simp: state_synced_def write_acted_def acted_def persist_get row_of_update_def split: option.split)
  ultimately show ?case by (simp add: state_synced_def)
qed (simp add: state_synced_def)

lemma acted_ident: "keeps_ident act \<Longrightarrow> ident (acted act p) = ident p"
  by (auto simp: acted_def keeps_identD split: option.split)

text \<open>One pass keeps the agreement; only the rows of the visited positions change.\<close>

lemma run_pass_synced:
  assumes "\<forall>j. pg_ok P j" "keeps_ident act" "tracked_list (tk_positions t) = l"
    and "distinct (map pos_id l)" "state_synced l (tk_table t)"
  obtains i' ws t' where "run_pass P J strict act i t = (i', ws, True, t')"
    "tracked_list (tk_positions t') = map (acted act) l" "map ident (map (acted act) l) = map ident l"
    "distinct (map pos_id (map (acted act) l))" "state_synced (map (acted act) l) (tk_table t')"
    "\<And>k. k \<notin> pos_id ` set l \<Longrightarrow> store_get (tk_table t') k = store_get (tk_table t) k"
proof -
  obtain i' t' where t': "run_pass P J strict act i t = (i', writes act l, True, t')"
    "tracked_list (tk_positions t') = map (acted act) l"
    "tk_table t' = fold (write_acted P J act) l (tk_table t)"
    by (rule run_pass_reliable [OF assms(1), of J strict act i t]) (simp add: assms(3))
  have ids: "map ident (map (acted act) l) = map ident l" by (simp add: acted_ident assms(2))
  have "map pos_id (map (acted act) l) = map pos_id l"
    using arg_cong [OF ids, of "map fst"] by (simp add: ident_def comp_def)
  with assms(4) have dist: "distinct (map pos_id (map (acted act) l))" by (simp only:)
  have synced: "state_synced (map (acted act) l) (tk_table t')"
    unfolding t'(3) by (rule state_synced_write [OF assms(2,4,5)])
  show ?thesis
    by (rule that [OF t'(1,2) ids dist synced]) (simp add: t'(3) write_get_other [OF assms(2)])
qed

text \<open>The state a position is brought to at startup.\<close>

definition reconciled_state :: "datetime \<Rightarrow> Position \<Rightarrow> PositionState" where
  "reconciled_state now p =
     (case pos_state p of
        Pending \<Rightarrow> if is_stale now p then EntryFailed else Pending
      | Closing \<Rightarrow> if MAX_RETRY_ATTEMPTS \<le> retry_count p + 1 then ExitFailed else ExitReady
      | ExitFailed \<Rightarrow> if MAX_RETRY_ATTEMPTS \<le> retry_count p then ExitFailed else ExitReady
      | Stalled \<Rightarrow> recovery_target p
      | st \<Rightarrow> st)"

definition reconciled :: "datetime \<Rightarrow> Position \<Rightarrow> Position" where
  "reconciled now p = acted (recover_action now) (acted (reconcile_action now) p)"

lemma reconciled_state: "pos_state (reconciled now p) = reconciled_state now p"
  by (auto simp: reconciled_def reconciled_state_def acted_def recover_action_def reconcile_action_def needs_recovery_def
      attempt_exit_recovery_def attempt_stalled_recovery_def mark_entry_failed_def mark_exit_failed_def Let_def
      split: PositionState.split)

lemma reconciled_id: "pos_id (reconciled now p) = pos_id p"
proof -
  have "ident (reconciled now p) = ident p"
    unfolding reconciled_def by (simp add: acted_ident keeps_ident_actions)
  then show ?thesis by (simp add: ident_def)
qed

definition rr_sum :: "ReconciliationResult \<Rightarrow> nat" where
  "rr_sum r = rr_healthy r + rr_pending_active r + rr_stale_pending r + rr_interrupted_closing r
     + rr_already_failed r + rr_stalled r + rr_already_closed r"

lemma rr_sum_count: "rr_sum (reconcile_count now p r) = rr_sum r + 1"
  "rr_total_positions (reconcile_count now p r) = rr_total_positions r"
  by (auto simp: rr_sum_def reconcile_count_def split: PositionState.split)

lemma rr_sum_fold:
  "rr_sum (fold (reconcile_count now) ps r) = rr_sum r + length ps"
  "rr_total_positions (fold (reconcile_count now) ps r) = rr_total_positions r"
  by (induction ps arbitrary: r) (simp_all add: rr_sum_count)

lemma active_synced:
  assumes "table_ok t" "get_active_for_arb_monitor E P i J t = Some ps"
  shows "state_synced ps t"
  unfolding state_synced_def
proof
  fix p
  assume "p \<in> set ps"
  from active_for_monitor(2) [OF assms this] obtain r where
    r: "store_get t (pos_id p) = Some r" "p = row_to_position E J r" by blast
  from r(1) assms(1) obtain st where "r_state r = state_code st" by (auto simp: table_ok_def)
  with r show "map_option r_state (store_get t (pos_id p)) = Some (state_code (pos_state p))"
    by (simp add: row_to_position_def Let_def)
qed

text \<open>
  C26: Startup reconciliation is exact. With a database that answers, it returns, and every active
  position of the monitor ends, in its row, in the state its stored state leads to: a stale
  \<open>Pending\<close> is \<open>EntryFailed\<close>, an interrupted \<open>Closing\<close> and an \<open>ExitFailed\<close> are \<open>ExitReady\<close> again while retries
  are left, a \<open>Stalled\<close> one is back where its prices put it, and all others stay. The cache holds
  exactly these positions in these states, no other row changes, and the seven counters of the
  result add up to the number of positions.
\<close>

theorem reconciliation_exact:
  assumes "table_ok (tk_table t)" "\<forall>j. pg_ok P j"
    and "get_active_for_arb_monitor E P 0 J (tk_table t) = Some ps"
  shows "\<exists>r t'. reconcile_on_startup E P J now t = (Some r, t')
    \<and> (\<forall>p \<in> set ps. map_option r_state (store_get (tk_table t') (pos_id p)) = Some (state_code (reconciled_state now p)))
    \<and> (\<forall>i. i \<notin> pos_id ` set ps \<longrightarrow> store_get (tk_table t') i = store_get (tk_table t) i)
    \<and> mset (map ident (tracked_list (tk_positions t'))) = mset (map ident ps)
    \<and> mset (map pos_state (tracked_list (tk_positions t'))) = mset (map (reconciled_state now) ps)
    \<and> rr_total_positions r = length ps \<and> rr_sum r = length ps"
proof -
  let ?t1 = "t\<lparr>tk_positions := group_by_market ps\<rparr>" and ?a = "reconcile_action now" and ?b = "recover_action now"
  let ?l = "tracked_list (group_by_market ps)"
  note active = active_for_monitor [OF assms(1,3)]
  from group_by_market_ok [OF active(1)] have ok: "cache_ok (group_by_market ps)" and ms: "mset ?l = mset ps" by auto
  have set: "set ?l = set ps" using ms by (metis set_mset_mset)
  have l: "tracked_list (tk_positions ?t1) = ?l" "distinct (map pos_id ?l)" "state_synced ?l (tk_table ?t1)"
    using ok active_synced [OF assms(1,3)] by (simp_all add: cache_ok_def state_synced_def set)
  obtain i2 w2 t2 where 2: "run_pass P J True ?a 2 ?t1 = (i2, w2, True, t2)"
    "tracked_list (tk_positions t2) = map (acted ?a) ?l" "map ident (map (acted ?a) ?l) = map ident ?l"
    "distinct (map pos_id (map (acted ?a) ?l))" "state_synced (map (acted ?a) ?l) (tk_table t2)"
    "\<And>k. k \<notin> pos_id ` set ?l \<Longrightarrow> store_get (tk_table t2) k = store_get (tk_table ?t1) k"
    by (rule run_pass_synced [where J = J and strict = True and i = 2, OF assms(2) keeps_ident_actions(4) [of now] l]) (rule that)
  obtain i3 w3 t3 where 3: "run_pass P J False ?b i2 t2 = (i3, w3, True, t3)"
    "tracked_list (tk_positions t3) = map (acted ?b) (map (acted ?a) ?l)"
    "map ident (map (acted ?b) (map (acted ?a) ?l)) = map ident (map (acted ?a) ?l)"
    "state_synced (map (acted ?b) (map (acted ?a) ?l)) (tk_table t3)"
    "\<And>k. k \<notin> pos_id ` set (map (acted ?a) ?l) \<Longrightarrow> store_get (tk_table t3) k = store_get (tk_table t2) k"
    by (rule run_pass_synced [where J = J and strict = False and i = i2, OF assms(2) keeps_ident_actions(3) [of now] 2(2,4,5)]) (rule that)
  have l3: "map (acted ?b) (map (acted ?a) ?l) = map (reconciled now) ?l" by (simp add: reconciled_def)
  have rows: "\<forall>p \<in> set ps. map_option r_state (store_get (tk_table t3) (pos_id p)) = Some (state_code (reconciled_state now p))"
    using 3(4) unfolding l3 by (simp add: state_synced_def set reconciled_id reconciled_state)
  have "pos_id ` set (map (acted ?a) ?l) = pos_id ` set ps"
    using arg_cong [OF 2(3), of "set \<circ> map fst"] by (simp add: ident_def comp_def set image_image)
  then have other: "\<forall>i. i \<notin> pos_id ` set ps \<longrightarrow> store_get (tk_table t3) i = store_get (tk_table t) i"
    using 2(6) 3(5) by (simp only: set) simp
  have id: "mset (map ident (tracked_list (tk_positions t3))) = mset (map ident ps)"
    unfolding 3(2,3) 2(3) using ms by simp
  have states: "mset (map pos_state (tracked_list (tk_positions t3))) = mset (map (reconciled_state now) ps)"
    unfolding 3(2) l3 using ms by (simp add: reconciled_state comp_def)
  obtain rs where "get_needing_recovery_for_arb_monitor E P 1 J (tk_table t) = Some rs"
    using assms(2) by (simp add: get_needing_recovery_for_arb_monitor_def)
  then have "\<exists>r. reconcile_on_startup E P J now t = (Some r, t3) \<and> rr_total_positions r = length ps \<and> rr_sum r = length ps"
    using mset_eq_length [OF ms] rr_sum_fold [of now ?l]
    by (simp add: reconcile_on_startup_def assms(3) 2(1) 3(1) recover_from_def rr_sum_def default_reconciliation_def)
  with rows other id states show ?thesis by blast
qed

definition demo_closing :: tracker where
  "demo_closing = new_tracker None [(7, row_of_insert pg_exact demo_codec SOURCE_ARBITRAGE None
     (demo_position\<lparr>pos_state := Closing\<rparr>))]"

theorem reconciliation_exact_witness:
  "\<exists>t'. snd (reconcile_on_startup exact_env pg_exact demo_codec 0 demo_closing) = t'
    \<and> map_option r_state (store_get (tk_table t') 7) = Some (state_code ExitReady)"
proof -
  let ?r = "row_of_insert pg_exact demo_codec SOURCE_ARBITRAGE None (demo_position\<lparr>pos_state := Closing\<rparr>)"
  let ?p = "row_to_position exact_env demo_codec ?r"
  have tbl: "tk_table demo_closing = [(7, ?r)]" by (simp add: demo_closing_def new_tracker_def)
  have "r_id ?r = 7" "r_state ?r = state_code Closing"
    by (simp_all add: row_of_insert_def demo_position_def new_position_def Let_def)
  then have ok: "table_ok (tk_table demo_closing)"
    by (auto simp: tbl table_ok_def store_wf_def simp del: state_code.simps split: if_splits)
  have ps: "get_active_for_arb_monitor exact_env pg_exact 0 demo_codec (tk_table demo_closing) = Some [?p]"
    by (simp add: tbl get_active_for_arb_monitor_def select_rows_def store_values_def row_of_insert_def active_row_def
        monitor_source_def SOURCE_ARBITRAGE_def SOURCE_COPY_TRADE_def SOURCE_RECOMMENDATION_def)
  have "pos_id ?p = 7" "reconciled_state 0 ?p = ExitReady"
    by (simp_all add: row_to_position_def row_of_insert_def demo_position_def new_position_def Let_def
        reconciled_state_def state_of_code_def MAX_RETRY_ATTEMPTS_def word_le_nat_alt)
  with reconciliation_exact [OF ok _ ps, of 0] show ?thesis by auto
qed

end
