(* ===== verification/Order_Signing.thy ===== *)
theory Order_Signing
  imports Numeric Orders
begin

section \<open>Order amounts, encoding and signing\<close>

text \<open>
  Model of \<open>crates/polymarket-core/src/signing\<close> (\<open>order_types.rs\<close>, \<open>domain.rs\<close>, \<open>signer.rs\<close>) and of the amounts
  of a market order in \<open>api/clob.rs\<close>: how a price and a size become the two integer amounts of an
  order, how an order becomes the digest that is signed, and the signed order that is sent.
  A \<open>U256\<close> is a 256-bit word, an address a 160-bit word, bytes are 8-bit words. The hash function,
  the private key, the text of an address and the parser of a \<open>U256\<close> are the parameter \<open>C\<close>.

  \<open>trunc_with_scale(s)\<close> truncates towards zero and pads: its result has exactly \<open>s\<close> decimal places, so
  the mantissa at scale 6 is the value times \<open>10 ^ 6\<close>.
\<close>

unbundle bit_operations_syntax

type_synonym u256 = "256 word"
type_synonym address = "160 word"
type_synonym bytes = "u8 list"

subsection \<open>Decimal places\<close>

definition trunc_rat :: "rat \<Rightarrow> int" where
  "trunc_rat x = (if 0 \<le> x then \<lfloor>x\<rfloor> else \<lceil>x\<rceil>)"

definition round_down :: "decimal \<Rightarrow> nat \<Rightarrow> decimal" where
  "round_down x s = of_int (trunc_rat (x * 10 ^ s)) / 10 ^ s"

definition round_up :: "decimal \<Rightarrow> nat \<Rightarrow> decimal" where
  "round_up x s = of_int \<lceil>x * 10 ^ s\<rceil> / 10 ^ s"

text \<open>\<open>normalize().scale()\<close>: the least number of decimal places that represents the value.\<close>

definition decimal_places :: "decimal \<Rightarrow> nat" where
  "decimal_places x = (case filter (\<lambda>s. of_int \<lfloor>x * 10 ^ s\<rfloor> = x * 10 ^ s) [0..<29] of s # _ \<Rightarrow> s | [] \<Rightarrow> 28)"

definition COLLATERAL_DECIMALS :: nat where "COLLATERAL_DECIMALS = 6"
definition MARKET_ORDER_SIZE_SCALE :: nat where "MARKET_ORDER_SIZE_SCALE = 2"
definition LOT_SIZE_SCALE :: nat where "LOT_SIZE_SCALE = 2"

definition to_fixed :: "decimal \<Rightarrow> nat \<Rightarrow> nat" where
  "to_fixed x s = nat \<bar>trunc_rat (round_down x s * 10 ^ COLLATERAL_DECIMALS)\<bar>"

subsection \<open>The amounts of an order\<close>

text \<open>A limit order: the tokens are truncated to lots, the cost is computed from the untruncated size.\<close>

definition calculate_amounts :: "num_env \<Rightarrow> OrderSide \<Rightarrow> decimal \<Rightarrow> decimal \<Rightarrow> u256 \<times> u256" where
  "calculate_amounts E side price qty =
     (let raw_cost = dmul E qty price;
          cost = of_nat (to_fixed raw_cost (LOT_SIZE_SCALE + LOT_SIZE_SCALE));
          tokens = of_nat (to_fixed qty LOT_SIZE_SCALE)
      in case side of Buy \<Rightarrow> (cost, tokens) | Sell \<Rightarrow> (tokens, cost))"

datatype amount_error = AmountNotPositive | AmountRoundsToZero OrderSide

definition market_price_scale :: "decimal \<Rightarrow> nat" where
  "market_price_scale price = min (max (decimal_places price) 1) 4"

definition market_amount_scale :: "nat \<Rightarrow> nat" where
  "market_amount_scale s = s + 2"

definition fit_scale :: "decimal \<Rightarrow> nat \<Rightarrow> decimal" where
  "fit_scale x s =
     (if decimal_places x \<le> s then x
      else let u = round_up x (s + 4)
           in if decimal_places u \<le> s then u else round_down u s)"

text \<open>A market order; \<open>None\<close> is the panic of a division by a price that truncates to zero.\<close>

definition calculate_market_order_amounts ::
  "num_env \<Rightarrow> OrderSide \<Rightarrow> decimal \<Rightarrow> decimal \<Rightarrow> (amount_error + u256 \<times> u256) option" where
  "calculate_market_order_amounts E side amount price =
     (if amount \<le> 0 \<or> price \<le> 0 then Some (Inl AmountNotPositive)
      else let price_scale = market_price_scale price;
               amount_scale = market_amount_scale price_scale;
               raw_price = round_down price price_scale;
               maker = round_down amount MARKET_ORDER_SIZE_SCALE
           in if maker \<le> 0 then Some (Inl (AmountRoundsToZero side))
              else if side = Buy \<and> raw_price = 0 then None
              else let taker = fit_scale (case side of Buy \<Rightarrow> ddiv E maker raw_price | Sell \<Rightarrow> dmul E maker raw_price)
                                 amount_scale
                   in Some (Inr (of_nat (to_fixed maker MARKET_ORDER_SIZE_SCALE), of_nat (to_fixed taker amount_scale))))"

subsection \<open>Order data\<close>

datatype SignatureType = Eoa | Poly | PolyProxy

fun signature_type_u8 :: "SignatureType \<Rightarrow> u8" where
  "signature_type_u8 Eoa = 0"
| "signature_type_u8 Poly = 1"
| "signature_type_u8 PolyProxy = 2"

fun side_u8 :: "OrderSide \<Rightarrow> u8" where
  "side_u8 Buy = 0"
| "side_u8 Sell = 1"

record OrderData =
  od_salt :: u256
  od_maker :: address
  od_signer :: address
  od_taker :: address
  od_token_id :: u256
  od_maker_amount :: u256
  od_taker_amount :: u256
  od_expiration :: u256
  od_nonce :: u256
  od_fee_rate_bps :: u256
  od_side :: u8
  od_signature_type :: u8

text \<open>Nanoseconds and process id are arguments; the \<open>as u64\<close> cast of a \<open>u128\<close> keeps the low bits.\<close>

definition rand_salt :: "128 word \<Rightarrow> u32 \<Rightarrow> u64" where
  "rand_salt nanos pid = (ucast (nanos XOR push_bit 32 (ucast pid)) :: u64) AND mask 53"

definition new_order_data :: "u64 \<Rightarrow> address \<Rightarrow> u256 \<Rightarrow> OrderSide \<Rightarrow> u256 \<Rightarrow> u256 \<Rightarrow> u64 \<Rightarrow> OrderData" where
  "new_order_data salt maker token side maker_amount taker_amount expiration =
     \<lparr>od_salt = ucast salt, od_maker = maker, od_signer = maker, od_taker = 0, od_token_id = token,
      od_maker_amount = maker_amount, od_taker_amount = taker_amount, od_expiration = ucast expiration,
      od_nonce = 0, od_fee_rate_bps = 0, od_side = side_u8 side, od_signature_type = signature_type_u8 Eoa\<rparr>"

record OrderBuilder =
  ob_maker :: "address option"
  ob_token_id :: "u256 option"
  ob_side :: OrderSide
  ob_price :: "decimal option"
  ob_size :: "decimal option"
  ob_expiration_secs :: "u64 option"
  ob_nonce :: u256
  ob_fee_rate_bps :: u256

definition new_order_builder :: OrderBuilder where
  "new_order_builder = \<lparr>ob_maker = None, ob_token_id = None, ob_side = Buy, ob_price = None, ob_size = None,
     ob_expiration_secs = None, ob_nonce = 0, ob_fee_rate_bps = 0\<rparr>"

definition build_order :: "num_env \<Rightarrow> u64 \<Rightarrow> OrderBuilder \<Rightarrow> OrderData option" where
  "build_order E salt b =
     (case (ob_maker b, ob_token_id b, ob_price b, ob_size b, ob_expiration_secs b) of
        (Some maker, Some token, Some price, Some qty, Some expiration) \<Rightarrow>
          let (ma, ta) = calculate_amounts E (ob_side b) price qty
          in Some ((new_order_data salt maker token (ob_side b) ma ta expiration)
               \<lparr>od_nonce := ob_nonce b, od_fee_rate_bps := ob_fee_rate_bps b\<rparr>)
      | _ \<Rightarrow> None)"

subsection \<open>Encoding\<close>

text \<open>\<open>abi_encode_packed\<close> of a \<open>U256\<close> or \<open>B256\<close>: 32 bytes, the most significant first.\<close>

definition be32 :: "u256 \<Rightarrow> bytes" where
  "be32 w = map (\<lambda>i. ucast (drop_bit (8 * (31 - i)) w)) [0..<32]"

definition ascii_bytes :: "string \<Rightarrow> bytes" where
  "ascii_bytes s = map (\<lambda>c. of_nat (of_char c)) s"

record crypto =
  keccak256 :: "bytes \<Rightarrow> u256"
  signer_address :: address
  sign_hash :: "u256 \<Rightarrow> string + bytes"
  sign_message :: "bytes \<Rightarrow> string + bytes"
  address_text :: "address \<Rightarrow> string"
  u256_parse :: "string \<Rightarrow> u256 option"

definition ORDER_TYPE :: string where
  "ORDER_TYPE = ''Order(uint256 salt,address maker,address signer,address taker,uint256 tokenId,'' @
     ''uint256 makerAmount,uint256 takerAmount,uint256 expiration,uint256 nonce,uint256 feeRateBps,'' @
     ''uint8 side,uint8 signatureType)''"

definition order_fields :: "OrderData \<Rightarrow> u256 list" where
  "order_fields d = [od_salt d, ucast (od_maker d), ucast (od_signer d), ucast (od_taker d), od_token_id d,
     od_maker_amount d, od_taker_amount d, od_expiration d, od_nonce d, od_fee_rate_bps d,
     ucast (od_side d), ucast (od_signature_type d)]"

definition order_message :: "crypto \<Rightarrow> OrderData \<Rightarrow> bytes" where
  "order_message C d = concat (map be32 (keccak256 C (ascii_bytes ORDER_TYPE) # order_fields d))"

definition struct_hash :: "crypto \<Rightarrow> OrderData \<Rightarrow> u256" where
  "struct_hash C d = keccak256 C (order_message C d)"

record Eip712Domain =
  dm_name :: string
  dm_version :: string
  dm_chain_id :: u256
  dm_verifying_contract :: address

definition POLYGON_CHAIN_ID :: u256 where "POLYGON_CHAIN_ID = 137"

definition CTF_EXCHANGE_ADDRESS :: address where
  "CTF_EXCHANGE_ADDRESS = 0x4bFb41d5B3570DeFd03C39a9A4D8dE6Bd8B8982E"

definition NEG_RISK_CTF_EXCHANGE_ADDRESS :: address where
  "NEG_RISK_CTF_EXCHANGE_ADDRESS = 0xC5d563A36AE78145C45a50134d48A1215220f80a"

definition ctf_exchange :: Eip712Domain where
  "ctf_exchange = \<lparr>dm_name = ''Polymarket CTF Exchange'', dm_version = ''1'', dm_chain_id = POLYGON_CHAIN_ID,
     dm_verifying_contract = CTF_EXCHANGE_ADDRESS\<rparr>"

definition neg_risk_ctf_exchange :: Eip712Domain where
  "neg_risk_ctf_exchange = \<lparr>dm_name = ''Polymarket CTF Exchange'', dm_version = ''1'', dm_chain_id = POLYGON_CHAIN_ID,
     dm_verifying_contract = NEG_RISK_CTF_EXCHANGE_ADDRESS\<rparr>"

definition custom_domain :: "string \<Rightarrow> string \<Rightarrow> u64 \<Rightarrow> address \<Rightarrow> Eip712Domain" where
  "custom_domain name version chain contract = \<lparr>dm_name = name, dm_version = version, dm_chain_id = ucast chain,
     dm_verifying_contract = contract\<rparr>"

definition DOMAIN_TYPE :: string where
  "DOMAIN_TYPE = ''EIP712Domain(string name,string version,uint256 chainId,address verifyingContract)''"

definition domain_message :: "crypto \<Rightarrow> Eip712Domain \<Rightarrow> bytes" where
  "domain_message C d = concat (map be32 [keccak256 C (ascii_bytes DOMAIN_TYPE), keccak256 C (ascii_bytes (dm_name d)),
     keccak256 C (ascii_bytes (dm_version d)), dm_chain_id d, ucast (dm_verifying_contract d)])"

definition domain_separator :: "crypto \<Rightarrow> Eip712Domain \<Rightarrow> u256" where
  "domain_separator C d = keccak256 C (domain_message C d)"

record ClobAuthDomain =
  ad_name :: string
  ad_version :: string
  ad_chain_id :: u256

definition polygon_auth :: ClobAuthDomain where
  "polygon_auth = \<lparr>ad_name = ''ClobAuthDomain'', ad_version = ''1'', ad_chain_id = POLYGON_CHAIN_ID\<rparr>"

definition auth_separator :: "crypto \<Rightarrow> ClobAuthDomain \<Rightarrow> u256" where
  "auth_separator C d = keccak256 C (concat (map be32
     [keccak256 C (ascii_bytes ''EIP712Domain(string name,string version,uint256 chainId)''),
      keccak256 C (ascii_bytes (ad_name d)), keccak256 C (ascii_bytes (ad_version d)), ad_chain_id d]))"

definition typed_data_message :: "u256 \<Rightarrow> u256 \<Rightarrow> bytes" where
  "typed_data_message separator hash = [0x19, 0x01] @ be32 separator @ be32 hash"

definition compute_typed_data_hash :: "crypto \<Rightarrow> u256 \<Rightarrow> u256 \<Rightarrow> u256" where
  "compute_typed_data_hash C separator hash = keccak256 C (typed_data_message separator hash)"

text \<open>The decimal digits of a number.\<close>

fun dec_string :: "nat \<Rightarrow> string" where
  "dec_string n = (if n < 10 then [char_of (48 + n)] else dec_string (n div 10) @ [char_of (48 + n mod 10)])"

definition clob_auth_struct_hash :: "crypto \<Rightarrow> address \<Rightarrow> u64 \<Rightarrow> u64 \<Rightarrow> u256" where
  "clob_auth_struct_hash C addr timestamp nonce = keccak256 C (concat (map be32
     [keccak256 C (ascii_bytes ''ClobAuth(address address,string timestamp,uint256 nonce,string message)''),
      ucast addr, keccak256 C (ascii_bytes (dec_string (unat timestamp))), ucast nonce,
      keccak256 C (ascii_bytes ''This message attests that I control the given wallet'')]))"

subsection \<open>Signing\<close>

definition hex_digit :: "nat \<Rightarrow> char" where
  "hex_digit n = char_of (if n < 10 then 48 + n else 87 + n)"

definition hex_encode :: "bytes \<Rightarrow> string" where
  "hex_encode bs = concat (map (\<lambda>b. [hex_digit (unat b div 16), hex_digit (unat b mod 16)]) bs)"

definition signature_to_hex :: "bytes \<Rightarrow> string" where
  "signature_to_hex sig = ''0x'' @ hex_encode sig"

record SignedOrder =
  so_salt :: u64
  so_maker :: string
  so_signer :: string
  so_taker :: string
  so_token_id :: string
  so_maker_amount :: string
  so_taker_amount :: string
  so_expiration :: string
  so_nonce :: string
  so_fee_rate_bps :: string
  so_side :: string
  so_signature_type :: u8
  so_signature :: string

text \<open>\<open>salt.to::<u64>()\<close> panics on a salt that does not fit: \<open>None\<close>.\<close>

definition from_order_data :: "crypto \<Rightarrow> OrderData \<Rightarrow> string \<Rightarrow> SignedOrder option" where
  "from_order_data C d sig =
     (if 2 ^ 64 \<le> unat (od_salt d) then None
      else Some \<lparr>so_salt = ucast (od_salt d), so_maker = address_text C (od_maker d),
        so_signer = address_text C (od_signer d), so_taker = address_text C (od_taker d),
        so_token_id = dec_string (unat (od_token_id d)), so_maker_amount = dec_string (unat (od_maker_amount d)),
        so_taker_amount = dec_string (unat (od_taker_amount d)), so_expiration = dec_string (unat (od_expiration d)),
        so_nonce = dec_string (unat (od_nonce d)), so_fee_rate_bps = dec_string (unat (od_fee_rate_bps d)),
        so_side = (if od_side d = 0 then ''BUY'' else ''SELL''), so_signature_type = od_signature_type d,
        so_signature = sig\<rparr>)"

definition order_digest :: "crypto \<Rightarrow> Eip712Domain \<Rightarrow> OrderData \<Rightarrow> u256" where
  "order_digest C dm d = compute_typed_data_hash C (domain_separator C dm) (struct_hash C d)"

definition sign_typed_data :: "crypto \<Rightarrow> Eip712Domain \<Rightarrow> OrderData \<Rightarrow> string + string" where
  "sign_typed_data C dm d =
     (case sign_hash C (order_digest C dm d) of Inl e \<Rightarrow> Inl e | Inr sig \<Rightarrow> Inr (signature_to_hex sig))"

definition sign_order :: "crypto \<Rightarrow> Eip712Domain \<Rightarrow> OrderData \<Rightarrow> (string + SignedOrder) option" where
  "sign_order C dm d =
     (case sign_typed_data C dm d of
        Inl e \<Rightarrow> Some (Inl e)
      | Inr sig \<Rightarrow> map_option Inr (from_order_data C d sig))"

definition sign_clob_auth_message :: "crypto \<Rightarrow> u64 \<Rightarrow> u64 \<Rightarrow> string + string" where
  "sign_clob_auth_message C timestamp nonce =
     (case sign_hash C (compute_typed_data_hash C (auth_separator C polygon_auth)
             (clob_auth_struct_hash C (signer_address C) timestamp nonce)) of
        Inl e \<Rightarrow> Inl e | Inr sig \<Rightarrow> Inr (signature_to_hex sig))"

definition sign_personal_message :: "crypto \<Rightarrow> bytes \<Rightarrow> string + string" where
  "sign_personal_message C msg =
     (case sign_message C msg of Inl e \<Rightarrow> Inl e | Inr sig \<Rightarrow> Inr (signature_to_hex sig))"

definition AUTH_MESSAGE :: string where
  "AUTH_MESSAGE = ''I am signing this message to authenticate with Polymarket''"

definition sign_auth_message :: "crypto \<Rightarrow> string + string" where
  "sign_auth_message C = sign_personal_message C (ascii_bytes AUTH_MESSAGE)"

definition sign_auth_message_with_timestamp :: "crypto \<Rightarrow> u64 \<Rightarrow> string + string" where
  "sign_auth_message_with_timestamp C timestamp =
     sign_personal_message C (ascii_bytes (AUTH_MESSAGE @ [char_of (10 :: nat)] @ ''Timestamp: '' @ dec_string (unat timestamp)))"

subsection \<open>Orders of the CLOB client\<close>

text \<open>
  \<open>create_order\<close> and \<open>create_market_order\<close> from the answers of the two lookups (whether the market is a
  negative-risk one, its fee rate), which may fail. The refresh of the collateral allowance
  before them has no influence on the order. The outer option is the panic of the steps above.
\<close>

datatype ClobOrderType = Gtc | Fok | Gtd

datatype create_error = OrderError amount_error | MissingFields | InvalidToken string | SigningError string

definition order_domain :: "bool option \<Rightarrow> Eip712Domain" where
  "order_domain neg_risk = (if (case neg_risk of Some b \<Rightarrow> b | None \<Rightarrow> True) then neg_risk_ctf_exchange else ctf_exchange)"

definition fee_or_zero :: "u64 option \<Rightarrow> u256" where
  "fee_or_zero fee = (case fee of Some f \<Rightarrow> ucast f | None \<Rightarrow> 0)"

definition order_expiry :: "u64 \<Rightarrow> ClobOrderType \<Rightarrow> u64" where
  "order_expiry now typ = (if typ = Gtd then now + 3600 else 0)"

definition finish_order :: "crypto \<Rightarrow> bool option \<Rightarrow> OrderData \<Rightarrow> (create_error + SignedOrder) option" where
  "finish_order C neg_risk d =
     map_option (\<lambda>r. case r of Inl e \<Rightarrow> Inl (SigningError e) | Inr so \<Rightarrow> Inr so) (sign_order C (order_domain neg_risk) d)"

definition create_order ::
  "num_env \<Rightarrow> crypto \<Rightarrow> u64 \<Rightarrow> u64 \<Rightarrow> bool option \<Rightarrow> u64 option \<Rightarrow> string \<Rightarrow> OrderSide \<Rightarrow> decimal \<Rightarrow> decimal \<Rightarrow> ClobOrderType
     \<Rightarrow> (create_error + SignedOrder) option" where
  "create_order E C now salt neg_risk fee token side price qty typ =
     (let b = new_order_builder\<lparr>ob_maker := Some (signer_address C),
                ob_token_id := Some (case u256_parse C token of Some t \<Rightarrow> t | None \<Rightarrow> 0), ob_side := side,
                ob_price := Some price, ob_size := Some qty, ob_fee_rate_bps := fee_or_zero fee,
                ob_expiration_secs := Some (order_expiry now typ)\<rparr>
      in case build_order E salt b of
           None \<Rightarrow> Some (Inl MissingFields)
         | Some d \<Rightarrow> finish_order C neg_risk d)"

definition create_market_order ::
  "num_env \<Rightarrow> crypto \<Rightarrow> u64 \<Rightarrow> u64 \<Rightarrow> bool option \<Rightarrow> u64 option \<Rightarrow> string \<Rightarrow> OrderSide \<Rightarrow> decimal \<Rightarrow> decimal \<Rightarrow> ClobOrderType
     \<Rightarrow> (create_error + SignedOrder) option" where
  "create_market_order E C now salt neg_risk fee token side price amount typ =
     (case calculate_market_order_amounts E side amount price of
        None \<Rightarrow> None
      | Some (Inl e) \<Rightarrow> Some (Inl (OrderError e))
      | Some (Inr (ma, ta)) \<Rightarrow>
          (case u256_parse C token of
             None \<Rightarrow> Some (Inl (InvalidToken token))
           | Some t \<Rightarrow>
               finish_order C neg_risk ((new_order_data salt (signer_address C) t side ma ta 0)
                 \<lparr>od_fee_rate_bps := fee_or_zero fee, od_expiration := ucast (order_expiry now typ)\<rparr>)))"

subsection \<open>The encoding is injective\<close>

lemma length_be32 [simp]: "length (be32 w) = 32"
  by (simp add: be32_def)

lemma be32_inj:
  assumes "be32 v = be32 w"
  shows "v = w"
proof (rule bit_word_eqI)
  fix n
  assume n: "n < LENGTH(256)"
  let ?i = "31 - n div 8"
  have i: "?i < 32" "n div 8 \<le> 31" using n by simp_all
  have "[0..<32] ! ?i = ?i" by (metis i(1) add_0 nth_upt)
  then have "be32 x ! ?i = ucast (drop_bit (8 * (n div 8)) x)" for x using i by (simp add: be32_def)
  then have "bit (be32 x ! ?i) (n mod 8) = bit x n" for x by (simp add: bit_unsigned_iff bit_drop_bit_eq)
  with assms show "bit v n = bit w n" by metis
qed

lemma be32_list_inj:
  assumes "concat (map be32 xs) = concat (map be32 ys)" "length xs = length ys"
  shows "xs = ys"
proof -
  have "map be32 xs = map be32 ys"
    using assms by (intro concat_injective) (auto simp: set_zip)
  then show ?thesis using be32_inj by (metis injI inj_map_eq_map)
qed

lemma ucast_u256_inj:
  assumes "(ucast a :: u256) = ucast b" "LENGTH('a) \<le> 256"
  shows "a = (b :: 'a :: len word)"
proof (rule bit_word_eqI)
  fix n
  assume "n < LENGTH('a)"
  with assms(2) have "bit (ucast x :: u256) n = bit x n" for x :: "'a word" by (simp add: bit_unsigned_iff)
  with assms(1) show "bit a n = bit b n" by metis
qed

lemma order_fields_inj:
  assumes "order_fields d = order_fields d'"
  shows "d = (d' :: OrderData)"
proof -
  from assms show ?thesis
    by (intro OrderData.equality) (auto simp: order_fields_def dest!: ucast_u256_inj)
qed

lemma ascii_bytes_inj:
  assumes "ascii_bytes s = ascii_bytes t"
  shows "s = t"
proof -
  have "unat (of_nat (of_char c) :: u8) = of_char c" for c
    by (simp add: unat_of_nat of_char_mod_256)
  then have "inj (\<lambda>c. of_nat (of_char c) :: u8)" by (intro injI) (metis of_char_eq_iff)
  with assms show ?thesis by (simp add: ascii_bytes_def inj_map_eq_map)
qed

text \<open>The messages hashed for one order.\<close>

definition hashed :: "crypto \<Rightarrow> Eip712Domain \<Rightarrow> OrderData \<Rightarrow> bytes set" where
  "hashed C dm d = {typed_data_message (domain_separator C dm) (struct_hash C d), domain_message C dm,
     order_message C d, ascii_bytes (dm_name dm), ascii_bytes (dm_version dm)}"

definition collides :: "crypto \<Rightarrow> bytes set \<Rightarrow> bytes set \<Rightarrow> bool" where
  "collides C A B \<longleftrightarrow> (\<exists>x \<in> A. \<exists>y \<in> B. x \<noteq> y \<and> keccak256 C x = keccak256 C y)"

lemma typed_data_message_inj:
  assumes "typed_data_message a b = typed_data_message a' b'"
  shows "a = a' \<and> b = b'"
  using assms by (auto simp: typed_data_message_def dest: be32_inj)

lemma order_message_inj: "order_message C d = order_message C d' \<Longrightarrow> d = d'"
  using be32_list_inj [of "keccak256 C (ascii_bytes ORDER_TYPE) # order_fields d"
      "keccak256 C (ascii_bytes ORDER_TYPE) # order_fields d'"] order_fields_inj
  unfolding order_message_def by (simp add: order_fields_def)

lemma domain_message_inj:
  assumes "domain_message C dm = domain_message C dm'"
  shows "keccak256 C (ascii_bytes (dm_name dm)) = keccak256 C (ascii_bytes (dm_name dm'))
    \<and> keccak256 C (ascii_bytes (dm_version dm)) = keccak256 C (ascii_bytes (dm_version dm'))
    \<and> dm_chain_id dm = dm_chain_id dm' \<and> dm_verifying_contract dm = dm_verifying_contract dm'"
  using be32_list_inj [OF assms [unfolded domain_message_def]] by (auto dest!: ucast_u256_inj)

text \<open>
  C24: The digest an order is signed under determines the order and the exchange. If two orders, each
  with its domain, have the same digest, then they agree in every field and their domains agree
  in name, version, chain and contract, unless two different messages among those hashed for them
  have the same Keccak hash.
\<close>

theorem digest_determines_order:
  assumes "order_digest C dm d = order_digest C dm' d'"
  shows "d = d' \<and> dm = dm' \<or> collides C (hashed C dm d) (hashed C dm' d')"
proof (cases "collides C (hashed C dm d) (hashed C dm' d')")
  case False
  then have same: "x = y" if "keccak256 C x = keccak256 C y" "x \<in> hashed C dm d" "y \<in> hashed C dm' d'" for x y
    using that by (auto simp: collides_def)
  have "typed_data_message (domain_separator C dm) (struct_hash C d)
      = typed_data_message (domain_separator C dm') (struct_hash C d')"
    using assms by (intro same) (simp_all add: order_digest_def compute_typed_data_hash_def hashed_def)
  then have sep: "domain_separator C dm = domain_separator C dm'" "struct_hash C d = struct_hash C d'"
    using typed_data_message_inj by blast+
  have "order_message C d = order_message C d'"
    using sep(2) by (intro same) (simp_all add: struct_hash_def hashed_def)
  moreover have "domain_message C dm = domain_message C dm'"
    using sep(1) by (intro same) (simp_all add: domain_separator_def hashed_def)
  note dm = domain_message_inj [OF this]
  then have "ascii_bytes (dm_name dm) = ascii_bytes (dm_name dm')" "ascii_bytes (dm_version dm) = ascii_bytes (dm_version dm')"
    by (auto intro!: same simp: hashed_def)
  with dm have "dm = dm'" by (intro Eip712Domain.equality) (auto dest: ascii_bytes_inj)
  ultimately show ?thesis using order_message_inj by blast
qed simp

definition demo_crypto :: crypto where
  "demo_crypto = \<lparr>keccak256 = (\<lambda>bs. of_nat (length bs)), signer_address = 7, sign_hash = (\<lambda>h. Inr (be32 h)),
     sign_message = (\<lambda>m. Inr m), address_text = (\<lambda>a. dec_string (unat a)), u256_parse = (\<lambda>s. Some 5)\<rparr>"

definition demo_order :: OrderData where
  "demo_order = new_order_data 3 7 5 Buy 25000000 52083300 0"

theorem digest_determines_order_witness:
  "collides demo_crypto (hashed demo_crypto ctf_exchange demo_order)
     (hashed demo_crypto ctf_exchange (demo_order\<lparr>od_side := 1\<rparr>))"
proof -
  have "order_digest demo_crypto ctf_exchange demo_order
      = order_digest demo_crypto ctf_exchange (demo_order\<lparr>od_side := 1\<rparr>)"
    by (simp add: order_digest_def compute_typed_data_hash_def typed_data_message_def demo_crypto_def)
  from digest_determines_order [OF this] show ?thesis by (simp add: demo_order_def new_order_data_def)
qed

subsection \<open>The signed order on the wire\<close>

definition digit_of :: "char \<Rightarrow> nat" where
  "digit_of c = of_char c - 48"

definition read_dec :: "string \<Rightarrow> nat" where
  "read_dec s = foldl (\<lambda>a c. 10 * a + digit_of c) 0 s"

declare dec_string.simps [simp del]

lemma digit_of_char: "n < 10 \<Longrightarrow> digit_of (char_of (48 + n)) = n"
  by (simp add: digit_of_def of_char_of)

lemma read_dec_string: "read_dec (dec_string n) = n"
proof (induction n rule: dec_string.induct)
  case (1 n)
  show ?case
  proof (cases "n < 10")
    case True
    then show ?thesis by (subst dec_string.simps) (simp add: read_dec_def digit_of_char)
  next
    case False
    with 1 have "read_dec (dec_string (n div 10)) = n div 10" by simp
    with False show ?thesis by (subst dec_string.simps) (simp add: read_dec_def digit_of_char)
  qed
qed

text \<open>What a reader of the fields gets back; \<open>parse\<close> reads an address.\<close>

definition read_signed :: "(string \<Rightarrow> address) \<Rightarrow> SignedOrder \<Rightarrow> OrderData" where
  "read_signed parse so = \<lparr>od_salt = ucast (so_salt so), od_maker = parse (so_maker so), od_signer = parse (so_signer so),
     od_taker = parse (so_taker so), od_token_id = of_nat (read_dec (so_token_id so)),
     od_maker_amount = of_nat (read_dec (so_maker_amount so)), od_taker_amount = of_nat (read_dec (so_taker_amount so)),
     od_expiration = of_nat (read_dec (so_expiration so)), od_nonce = of_nat (read_dec (so_nonce so)),
     od_fee_rate_bps = of_nat (read_dec (so_fee_rate_bps so)), od_side = (if so_side so = ''BUY'' then 0 else 1),
     od_signature_type = so_signature_type so\<rparr>"

lemma ucast_u64_roundtrip: "unat (w :: u256) < 2 ^ 64 \<Longrightarrow> ucast (ucast w :: u64) = w"
  by (rule word_unat_eq_iff [THEN iffD2]) (simp add: unsigned_ucast_eq unsigned_take_bit_eq take_bit_nat_eq_self)

lemma mask_less: "unat (w AND mask 53 :: u64) < 2 ^ 53"
  using take_bit_nat_less_exp [of 53 "unat w"] by (simp add: unsigned_take_bit_eq flip: take_bit_eq_mask)

text \<open>
  Nothing of an order is lost on the wire. For an order with a salt from \<open>rand_salt\<close> and a side of
  the enum, the signed order is always produced, it carries the hex text of the signature over the
  digest, and reading its fields gives back the order that was hashed.
\<close>

theorem signed_order_roundtrip:
  assumes "\<And>a. parse (address_text C a) = a"
    and "od_salt d = ucast (rand_salt nanos pid)" "od_side d = side_u8 side"
    and "sign_hash C (order_digest C dm d) = Inr sig"
  shows "\<exists>so. sign_order C dm d = Some (Inr so) \<and> so_signature so = signature_to_hex sig \<and> read_signed parse so = d"
proof -
  have "unat (rand_salt nanos pid) < 2 ^ 53" unfolding rand_salt_def by (rule mask_less)
  then have salt: "unat (od_salt d) < 2 ^ 64" by (simp add: assms(2) unsigned_ucast_eq take_bit_eq_mod)
  have side: "(if od_side d = 0 then ''BUY'' else ''SELL'') = ''BUY'' \<longleftrightarrow> od_side d = 0" "od_side d \<noteq> 0 \<Longrightarrow> od_side d = 1"
    using assms(3) by (cases side; simp)+
  let ?so = "the (from_order_data C d (signature_to_hex sig))"
  have so: "from_order_data C d (signature_to_hex sig) = Some ?so"
    using salt by (simp add: from_order_data_def)
  have "read_signed parse ?so = d"
    using salt side by (intro OrderData.equality)
      (auto simp: from_order_data_def read_signed_def assms(1) read_dec_string ucast_u64_roundtrip)
  moreover have "so_signature ?so = signature_to_hex sig" using salt by (simp add: from_order_data_def)
  ultimately show ?thesis using so by (auto simp: sign_order_def sign_typed_data_def assms(4))
qed

theorem signed_order_roundtrip_witness:
  "\<exists>so. sign_order demo_crypto ctf_exchange (demo_order\<lparr>od_salt := ucast (rand_salt 12345 9)\<rparr>) = Some (Inr so)
     \<and> read_signed (\<lambda>s. of_nat (read_dec s)) so = demo_order\<lparr>od_salt := ucast (rand_salt 12345 9)\<rparr>"
proof -
  let ?d = "demo_order\<lparr>od_salt := ucast (rand_salt 12345 9)\<rparr>"
  have "of_nat (read_dec (address_text demo_crypto a)) = a" for a by (simp add: demo_crypto_def read_dec_string)
  moreover have "od_side ?d = side_u8 Buy" by (simp add: demo_order_def new_order_data_def)
  moreover have "sign_hash demo_crypto (order_digest demo_crypto ctf_exchange ?d)
      = Inr (be32 (order_digest demo_crypto ctf_exchange ?d))" by (simp add: demo_crypto_def)
  ultimately have "\<exists>so. sign_order demo_crypto ctf_exchange ?d = Some (Inr so)
      \<and> so_signature so = signature_to_hex (be32 (order_digest demo_crypto ctf_exchange ?d))
      \<and> read_signed (\<lambda>s. of_nat (read_dec s)) so = ?d"
    by (intro signed_order_roundtrip [where nanos = 12345 and pid = 9 and side = Buy]) simp_all
  then show ?thesis by blast
qed

lemma signature_hex_length: "length (signature_to_hex sig) = 2 + 2 * length sig"
  by (simp add: signature_to_hex_def hex_encode_def length_concat comp_def sum_list_triv)

subsection \<open>The amounts\<close>

lemma round_down_bounds:
  assumes "0 \<le> x"
  shows "0 \<le> round_down x s" "round_down x s \<le> x" "x < round_down x s + 1 / 10 ^ s"
proof -
  have p: "(0 :: rat) < 10 ^ s" by simp
  have "0 \<le> x * 10 ^ s" using assms by simp
  then have r: "round_down x s = of_int \<lfloor>x * 10 ^ s\<rfloor> / 10 ^ s" by (simp add: round_down_def trunc_rat_def)
  have fl: "of_int \<lfloor>x * 10 ^ s\<rfloor> \<le> x * 10 ^ s" "x * 10 ^ s < of_int \<lfloor>x * 10 ^ s\<rfloor> + 1" by linarith+
  show "0 \<le> round_down x s" using assms by (simp add: r)
  show "round_down x s \<le> x" using fl(1) p by (simp add: r pos_divide_le_eq)
  show "x < round_down x s + 1 / 10 ^ s" using fl(2) p by (simp add: r pos_less_divide_eq flip: add_divide_distrib)
qed

lemma round_up_bounds: "x \<le> round_up x s" "round_up x s < x + 1 / 10 ^ s"
proof -
  have p: "(0 :: rat) < 10 ^ s" by simp
  have c: "x * 10 ^ s \<le> of_int \<lceil>x * 10 ^ s\<rceil>" "of_int \<lceil>x * 10 ^ s\<rceil> < x * 10 ^ s + 1" by linarith+
  show "x \<le> round_up x s" using c(1) p by (simp add: round_up_def pos_le_divide_eq)
  show "round_up x s < x + 1 / 10 ^ s" using c(2) p by (simp add: round_up_def pos_divide_less_eq distrib_right)
qed

text \<open>A value with few places is not changed by truncation.\<close>

lemma round_down_exact:
  assumes "x * 10 ^ s = of_int m"
  shows "round_down x s = x"
proof -
  have "round_down x s = of_int m / 10 ^ s" by (simp add: round_down_def trunc_rat_def assms)
  also have "\<dots> = x" by (simp flip: assms)
  finally show ?thesis .
qed

lemma decimal_places_le:
  assumes "decimal_places x \<le> s" "s < 28"
  shows "\<exists>m. x * 10 ^ s = of_int m"
proof -
  let ?ok = "\<lambda>k. of_int \<lfloor>x * 10 ^ k\<rfloor> = x * 10 ^ k"
  obtain k ks where f: "filter ?ok [0..<29] = k # ks" "k \<le> s"
    using assms by (cases "filter ?ok [0..<29]") (auto simp: decimal_places_def)
  then have "k \<in> set (filter ?ok [0..<29])" by (metis list.set_intros(1))
  then have "?ok k" by simp
  have "x * 10 ^ s = x * 10 ^ k * 10 ^ (s - k)" using f(2) by (simp add: mult.assoc flip: power_add)
  also have "\<dots> = of_int (\<lfloor>x * 10 ^ k\<rfloor> * 10 ^ (s - k))" using \<open>?ok k\<close> by (simp only: of_int_mult of_int_power of_int_numeral)
  finally show ?thesis by blast
qed

lemma round_down_int: "0 \<le> x \<Longrightarrow> \<exists>m. round_down x s * 10 ^ s = of_int m"
  by (auto simp: round_down_def)

lemma fit_scale_bounds:
  assumes "0 \<le> x" "s < 24"
  shows "0 \<le> fit_scale x s" "x - 1 / 10 ^ s < fit_scale x s" "fit_scale x s < x + 1 / 10 ^ (s + 4)"
    "\<exists>m. fit_scale x s * 10 ^ s = of_int m"
proof -
  let ?u = "round_up x (s + 4)"
  note up = round_up_bounds [of x "s + 4"]
  have u: "0 \<le> ?u" using up(1) assms(1) by linarith
  note down = round_down_bounds [OF u, of s]
  have pos: "(0 :: rat) < 1 / 10 ^ s" "(0 :: rat) < 1 / 10 ^ (s + 4)" by simp_all
  show "0 \<le> fit_scale x s" using assms(1) u down(1) by (simp add: fit_scale_def Let_def)
  show "x - 1 / 10 ^ s < fit_scale x s" using up down pos unfolding fit_scale_def Let_def by (auto split: if_splits)
  show "fit_scale x s < x + 1 / 10 ^ (s + 4)" using up down pos unfolding fit_scale_def Let_def by (auto split: if_splits)
  show "\<exists>m. fit_scale x s * 10 ^ s = of_int m"
    using assms decimal_places_le round_down_int [OF u] by (auto simp: fit_scale_def Let_def)
qed

lemma to_fixed_value:
  assumes "0 \<le> x" "s \<le> 6"
  shows "of_nat (to_fixed x s) = round_down x s * 10 ^ 6"
proof -
  have nonneg: "0 \<le> round_down x s * 10 ^ 6" using round_down_bounds(1) [OF assms(1), of s] by simp
  obtain m where m: "round_down x s * 10 ^ s = of_int m" using round_down_int [OF assms(1)] by blast
  have "round_down x s * 10 ^ 6 = round_down x s * 10 ^ s * 10 ^ (6 - s)"
    using assms(2) by (simp add: mult.assoc flip: power_add)
  also have "\<dots> = of_int (m * 10 ^ (6 - s))" by (simp add: m)
  finally obtain k where k: "round_down x s * 10 ^ 6 = of_int k" by blast
  with nonneg have "0 \<le> k" by simp
  then have "of_nat (nat \<bar>trunc_rat (of_int k)\<bar>) = (of_int k :: rat)" by (simp add: trunc_rat_def)
  then show ?thesis unfolding to_fixed_def COLLATERAL_DECIMALS_def k .
qed

text \<open>The number of base units fits the word.\<close>

lemma to_fixed_u256:
  assumes "0 \<le> x" "s \<le> 6" "x < 2 ^ 100"
  shows "of_nat (unat (of_nat (to_fixed x s) :: u256)) / 10 ^ 6 = round_down x s"
proof -
  have "(of_nat (to_fixed x s) :: rat) \<le> x * 10 ^ 6"
    using to_fixed_value [OF assms(1,2)] round_down_bounds(2) [OF assms(1), of s] by simp
  also have "\<dots> < 2 ^ 100 * 10 ^ 6" using assms(3) by (intro mult_strict_right_mono) simp_all
  also have "\<dots> < of_nat (2 ^ 256)" by simp
  finally have "to_fixed x s < 2 ^ 256" by (simp only: of_nat_less_iff)
  then have "unat (of_nat (to_fixed x s) :: u256) = to_fixed x s" by (simp add: unat_of_nat)
  then show ?thesis using to_fixed_value [OF assms(1,2)] by simp
qed

lemma scale_bounds: "3 \<le> market_amount_scale (market_price_scale price)" "market_amount_scale (market_price_scale price) \<le> 6"
  by (auto simp: market_amount_scale_def market_price_scale_def)

text \<open>
  The amounts of a market order are the requested ones up to rounding. When the computation
  succeeds (no Decimal overflows), the maker amount is the requested amount truncated to two
  decimals, and the taker amount is off the quotient (BUY) or product (SELL) with the truncated
  price by less than one unit in the last allowed place downwards, and by less than a ten
  thousandth of such a unit upwards.
\<close>

theorem market_amounts_bounds:
  assumes "numeric_env E" "calculate_market_order_amounts E side amount price = Some (Inr (ma, ta))"
    and "amount < 2 ^ 96"
  defines "rp \<equiv> round_down price (market_price_scale price)" and "m \<equiv> round_down amount 2"
    and "a \<equiv> market_amount_scale (market_price_scale price)"
  assumes "q = (case side of Buy \<Rightarrow> ddiv E m rp | Sell \<Rightarrow> dmul E m rp)" "q < 2 ^ 96"
  shows "of_nat (unat ma) / 10 ^ 6 \<le> amount \<and> amount < of_nat (unat ma) / 10 ^ 6 + 1 / 100
    \<and> q - 1 / 10 ^ a < of_nat (unat ta) / 10 ^ 6 \<and> of_nat (unat ta) / 10 ^ 6 < q + 1 / 10 ^ (a + 4)"
proof -
  have pos: "0 < amount" "0 < price" "0 < m"
    and ma: "ma = of_nat (to_fixed m 2)" and ta: "ta = of_nat (to_fixed (fit_scale q a) a)"
    using assms(2) unfolding assms(4-7)
    by (auto simp: calculate_market_order_amounts_def Let_def MARKET_ORDER_SIZE_SCALE_def not_le
        split: if_splits OrderSide.splits)
  have rp: "0 \<le> rp" using round_down_bounds(1) [of price] pos(2) by (simp add: assms(4))
  have q: "0 \<le> q"
    using rp pos(3) numeric_env.dmul_nonneg [OF assms(1)] numeric_env.round_nonneg [OF assms(1)]
    by (cases side) (auto simp: assms(7) ddiv_def)
  note am = round_down_bounds [of amount 2]
  obtain k where "m * 10 ^ 2 = of_int k" using round_down_int [of amount 2] pos(1) by (auto simp: assms(5))
  then have m2: "round_down m 2 = m" by (rule round_down_exact)
  have "m < 2 ^ 100" using am pos(1) assms(3) by (simp add: assms(5))
  with m2 pos(3) have mv: "of_nat (unat ma) / 10 ^ 6 = m" using to_fixed_u256 [of m 2] by (simp add: ma)
  have a: "a \<le> 6" "a < 24" using scale_bounds(2) [of price] by (simp_all add: assms(6))
  note fit = fit_scale_bounds [OF q a(2)]
  have "round_down (fit_scale q a) a = fit_scale q a" using fit(4) round_down_exact by blast
  moreover have "(1 :: rat) / 10 ^ (a + 4) \<le> 1" by simp
  then have "fit_scale q a < 2 ^ 96 + 1" using fit(3) assms(8) by linarith
  then have "fit_scale q a < 2 ^ 100" by simp
  ultimately have "of_nat (unat ta) / 10 ^ 6 = fit_scale q a"
    using to_fixed_u256 [OF fit(1) a(1)] by (simp add: ta)
  with mv fit am pos(1) show ?thesis by (simp add: assms(5))
qed

theorem market_amounts_bounds_witness:
  "\<exists>ma ta. calculate_market_order_amounts exact_env Sell 25 (1 / 2) = Some (Inr (ma, ta))
     \<and> of_nat (unat ma) / 10 ^ 6 \<le> (25 :: rat) \<and> 25 < of_nat (unat ma) / 10 ^ 6 + (1 :: rat) / 100"
proof -
  let ?rp = "round_down (1 / 2) (market_price_scale (1 / 2))"
  have m: "round_down 25 2 = 25" by (rule round_down_exact [of _ _ 2500]) simp
  then obtain ma ta where r: "calculate_market_order_amounts exact_env Sell 25 (1 / 2) = Some (Inr (ma, ta))"
    by (auto simp: calculate_market_order_amounts_def Let_def MARKET_ORDER_SIZE_SCALE_def)
  have "25 * ?rp < 2 ^ 96" using round_down_bounds(2) [of "1 / 2" "market_price_scale (1 / 2)"] by simp
  then show ?thesis
    using market_amounts_bounds [OF exact.numeric_env_axioms r _ refl] m r by simp
qed

text \<open>A limit order respects its price when its size is a whole number of lots.\<close>

lemma limit_amounts_respect_price:
  assumes "0 \<le> price" "0 \<le> qty" "qty < 2 ^ 96" "qty * price < 2 ^ 96" "qty * 100 = of_int k"
    and "calculate_amounts exact_env Buy price qty = (ma, ta)"
  shows "of_nat (unat ta) / 10 ^ 6 = qty
    \<and> of_nat (unat ma) \<le> price * of_nat (unat ta) \<and> price * of_nat (unat ta) < of_nat (unat ma) + 100"
proof -
  have ta: "ta = of_nat (to_fixed qty 2)" and ma: "ma = of_nat (to_fixed (qty * price) 4)"
    using assms(6) by (auto simp: calculate_amounts_def Let_def LOT_SIZE_SCALE_def)
  have cost: "0 \<le> qty * price" using assms(1,2) by simp
  have "round_down qty 2 = qty" using assms(5) by (intro round_down_exact [of _ _ k]) simp
  then have t: "of_nat (unat ta) / 10 ^ 6 = qty" using to_fixed_u256 [of qty 2] assms(2,3) by (simp add: ta)
  have "of_nat (unat ma) / 10 ^ 6 = round_down (qty * price) 4"
    using to_fixed_u256 [OF cost, of 4] assms(4) by (simp add: ma)
  with t round_down_bounds [OF cost, of 4] show ?thesis by (simp add: field_simps)
qed

text \<open>
  A limit buy can cost more than its price. The cost is computed from the size as given, the
  tokens from the size truncated to lots: for 1.999 tokens at 0.5 the order offers 0.9995 for 1.99
  tokens, a price above 0.502.
\<close>

theorem limit_buy_can_overpay:
  "\<exists>price qty ma ta. calculate_amounts exact_env Buy price qty = (ma, ta) \<and> 0 < price \<and> price < 1 \<and> 1 < qty
     \<and> price * of_nat (unat ta) < of_nat (unat ma)"
proof -
  have r: "round_down (1999 / 1000) 2 = 199 / 100" "round_down (1999 / 2000) 4 = 9995 / 10000"
    by (simp_all add: round_down_def trunc_rat_def floor_eq_iff)
  have "to_fixed (1999 / 1000) 2 = 1990000" "to_fixed (1999 / 2000) 4 = 999500"
    unfolding to_fixed_def COLLATERAL_DECIMALS_def r by (simp_all add: trunc_rat_def)
  then have "calculate_amounts exact_env Buy (1 / 2) (1999 / 1000) = (999500, 1990000)"
    by (simp add: calculate_amounts_def LOT_SIZE_SCALE_def)
  moreover have "(1 / 2 :: rat) * of_nat (unat (1990000 :: u256)) < of_nat (unat (999500 :: u256))" by simp
  ultimately show ?thesis by (intro exI [of _ "1 / 2"] exI [of _ "1999 / 1000"]) auto
qed

end
