(* ===== verification/Quant_Executor.thy ===== *)
theory Quant_Executor
  imports Arb_Executor
begin

section \<open>The quant signal executor\<close>

text \<open>
  Model of \<open>QuantSignalExecutor\<close> in \<open>crates/api-server/src/quant_signal_executor.rs\<close>: the checks of a
  signal, its size, the order, the position, and the outcomes of closed positions that feed the
  breaker of each strategy. As in the arbitrage executor the spawned insert of a signal takes effect at
  once, and log lines, event metadata, heartbeats and the shadow predictions are not modelled. A
  configuration is an argument of each turn, since the code takes a snapshot of it.

  The error branch of the token lookup never runs: \<open>hydrate_market\<close> turns its failures into
  \<open>Ok(None)\<close>. The error branch after the order never runs either (\<open>execute_market_order\<close> returns
  a report).
\<close>

subsection \<open>Configuration\<close>

record QuantSignalExecutorConfig =
  qe_enabled :: bool
  base_position_size_usd :: decimal
  min_confidence :: f64
  qe_max_signal_age_secs :: int
  qe_cache_refresh_secs :: u64
  max_quant_positions :: nat
  flow_allocation_pct :: f64
  cross_market_allocation_pct :: f64
  mean_reversion_allocation_pct :: f64
  resolution_allocation_pct :: f64
  qe_min_book_depth :: decimal
  qe_max_total_exposure :: decimal
  strategy_max_daily_loss_usd :: decimal
  strategy_max_consecutive_losses :: u32
  strategy_halt_cooldown_secs :: u64

definition default_quant_config :: "num_env \<Rightarrow> QuantSignalExecutorConfig" where
  "default_quant_config E = \<lparr>qe_enabled = False, base_position_size_usd = dec_new 30 0,
     min_confidence = f64_round E (65 / 100), qe_max_signal_age_secs = 120, qe_cache_refresh_secs = 300,
     max_quant_positions = 20, flow_allocation_pct = f64_round E (40 / 100),
     cross_market_allocation_pct = f64_round E (30 / 100),
     mean_reversion_allocation_pct = f64_round E (20 / 100),
     resolution_allocation_pct = f64_round E (10 / 100), qe_min_book_depth = dec_new 50 0,
     qe_max_total_exposure = dec_new 25000 0, strategy_max_daily_loss_usd = dec_new 200 0,
     strategy_max_consecutive_losses = 5, strategy_halt_cooldown_secs = 3600\<rparr>"

fun allocation_for :: "QuantSignalExecutorConfig \<Rightarrow> QuantSignalKind \<Rightarrow> f64" where
  "allocation_for cfg Flow = flow_allocation_pct cfg"
| "allocation_for cfg CrossMarket = cross_market_allocation_pct cfg"
| "allocation_for cfg MeanReversion = mean_reversion_allocation_pct cfg"
| "allocation_for cfg ResolutionProximity = resolution_allocation_pct cfg"

definition parse_quant_signal_kind :: "string \<Rightarrow> QuantSignalKind option" where
  "parse_quant_signal_kind k =
     (if k = ''flow'' then Some Flow else if k = ''cross_market'' then Some CrossMarket
      else if k = ''mean_reversion'' then Some MeanReversion
      else if k = ''resolution_proximity'' then Some ResolutionProximity else None)"

definition quant_mode :: "QuantSignalExecutorConfig \<Rightarrow> 'w server \<Rightarrow> string" where
  "quant_mode cfg s = (if qe_enabled cfg \<and> is_live_ready (sv_exec s) then ''live'' else ''paper'')"

subsection \<open>Events and the table of signals\<close>

definition expected_edge_from_signal :: "num_env \<Rightarrow> QuantSignal \<Rightarrow> decimal option" where
  "expected_edge_from_signal E sig = Option.bind (meta_f64 E (qs_metadata sig) ''expected_edge_bps'') (f64_to_dec E)"

definition quant_event :: "num_env \<Rightarrow> QuantSignal \<Rightarrow> string \<Rightarrow> string \<Rightarrow> NewTradeEvent" where
  "quant_event E sig mode typ =
     (new_trade_event (quant_kind_str (qs_kind sig)) mode ''quant'' (qs_condition_id sig) typ)
       \<lparr>te_signal_id := Some (qs_id sig), te_direction := Some (direction_str (qs_direction sig)),
        te_confidence := Some (qs_confidence sig), te_expected_edge := expected_edge_from_signal E sig\<rparr>"

definition record_signal_outcome_event ::
  "num_env \<Rightarrow> 'w srv_api \<Rightarrow> QuantSignal \<Rightarrow> string \<Rightarrow> string \<Rightarrow> string \<Rightarrow> ('w, unit) task" where
  "record_signal_outcome_event E S sig mode typ reason =
     record_event S ((quant_event E sig mode typ)\<lparr>te_reason := Some (ReasonText reason),
       te_requested_size_usd := Some (qs_suggested_size_usd sig)\<rparr>)"

definition record_position_failure_event ::
  "num_env \<Rightarrow> 'w srv_api \<Rightarrow> QuantSignal \<Rightarrow> string \<Rightarrow> Position \<Rightarrow> string \<Rightarrow> ('w, unit) task" where
  "record_position_failure_event E S sig mode p reason =
     record_event S ((state_change ''pending'' ''entry_failed'' (quant_event E sig mode ''position_failed''))
       \<lparr>te_position_id := Some (pos_id p), te_reason := Some (ReasonText reason),
        te_unrealized_pnl := Some (unrealized_pnl p)\<rparr>)"

definition signal_row :: "pg_env \<Rightarrow> QuantSignal \<Rightarrow> quant_signal_row" where
  "signal_row P sig = \<lparr>qr_kind = quant_kind_str (qs_kind sig), qr_condition_id = qs_condition_id sig,
     qr_direction = direction_str (qs_direction sig), qr_confidence = qs_confidence sig,
     qr_size_usd = pg_dec P (qs_suggested_size_usd sig), qr_metadata = qs_metadata sig,
     qr_generated_at = pg_ts P (qs_generated_at sig), qr_execution_status = ''pending'',
     qr_skip_reason = None, qr_position_id = None\<rparr>"

definition with_quant_table ::
  "'w srv_api \<Rightarrow> (pg_env \<Rightarrow> (uuid, quant_signal_row) store \<Rightarrow> (uuid, quant_signal_row) store) \<Rightarrow> ('w, unit) task" where
  "with_quant_table S f =
     sbind (on_world (sa_pg S)) (\<lambda>P. smod (\<lambda>s. if pg_ok P 0 then s\<lparr>sv_quant := f P (sv_quant s)\<rparr> else s))"

definition persist_signal :: "'w srv_api \<Rightarrow> QuantSignal \<Rightarrow> ('w, unit) task" where
  "persist_signal S sig = with_quant_table S (\<lambda>P t.
     if store_get t (qs_id sig) = None then store_insert (qs_id sig) (signal_row P sig) t else t)"

definition update_row :: "uuid \<Rightarrow> ('r \<Rightarrow> 'r) \<Rightarrow> (uuid, 'r) store \<Rightarrow> (uuid, 'r) store" where
  "update_row i f t = (case store_get t i of None \<Rightarrow> t | Some r \<Rightarrow> store_insert i (f r) t)"

definition update_signal_status :: "'w srv_api \<Rightarrow> uuid \<Rightarrow> string \<Rightarrow> string option \<Rightarrow> ('w, unit) task" where
  "update_signal_status S i status reason =
     with_quant_table S (\<lambda>_. update_row i (\<lambda>r. r\<lparr>qr_execution_status := status, qr_skip_reason := reason\<rparr>))"

definition link_signal_to_position :: "'w srv_api \<Rightarrow> uuid \<Rightarrow> uuid \<Rightarrow> ('w, unit) task" where
  "link_signal_to_position S i pid =
     with_quant_table S (\<lambda>_. update_row i (\<lambda>r. r\<lparr>qr_execution_status := ''executed'', qr_position_id := Some pid\<rparr>))"

definition quant_announce :: "num_env \<Rightarrow> 'w srv_api \<Rightarrow> QuantSignal \<Rightarrow> string \<Rightarrow> ('w, unit) task" where
  "quant_announce E S sig mode =
     sbind (persist_signal S sig) (\<lambda>_. record_event S ((quant_event E sig mode ''signal_generated'')
       \<lparr>te_requested_size_usd := Some (qs_suggested_size_usd sig)\<rparr>))"

text \<open>A skipped signal: its status and an event.\<close>

definition quant_skip_as :: "num_env \<Rightarrow> 'w srv_api \<Rightarrow> QuantSignal \<Rightarrow> string \<Rightarrow> string \<Rightarrow> string \<Rightarrow> ('w, unit) task" where
  "quant_skip_as E S sig mode typ reason =
     sbind (update_signal_status S (qs_id sig) ''skipped'' (Some reason)) (\<lambda>_.
       record_signal_outcome_event E S sig mode typ reason)"

definition quant_skip :: "num_env \<Rightarrow> 'w srv_api \<Rightarrow> QuantSignal \<Rightarrow> string \<Rightarrow> string \<Rightarrow> ('w, unit) task" where
  "quant_skip E S sig mode reason = quant_skip_as E S sig mode ''signal_skipped'' reason"

subsection \<open>The checks\<close>

text \<open>A check returns \<open>True\<close> when the signal passes; otherwise the signal is skipped with a reason.\<close>

definition require :: "num_env \<Rightarrow> 'w srv_api \<Rightarrow> QuantSignal \<Rightarrow> string \<Rightarrow> string \<Rightarrow> bool \<Rightarrow> ('w, bool) task" where
  "require E S sig mode reason ok =
     (if ok then sret True else sbind (quant_skip E S sig mode reason) (\<lambda>_. sret False))"

definition check_enabled ::
  "num_env \<Rightarrow> 'w srv_api \<Rightarrow> QuantSignalExecutorConfig \<Rightarrow> QuantSignal \<Rightarrow> string \<Rightarrow> ('w, bool) task" where
  "check_enabled E S cfg sig mode =
     (if qe_enabled cfg then sret True
      else sbind (record_signal_outcome_event E S sig mode ''signal_skipped'' ''executor_disabled'') (\<lambda>_. sret False))"

definition check_fresh ::
  "num_env \<Rightarrow> ('w, 'o) clob_api \<Rightarrow> 'w srv_api \<Rightarrow> QuantSignalExecutorConfig \<Rightarrow> QuantSignal \<Rightarrow> string \<Rightarrow> ('w, bool) task" where
  "check_fresh E A S cfg sig mode =
     sbranch (\<lambda>s. require E S sig mode ''too_stale''
       (num_seconds (srv_now A s - qs_generated_at sig) \<le> qe_max_signal_age_secs cfg))"

definition check_expiry ::
  "num_env \<Rightarrow> ('w, 'o) clob_api \<Rightarrow> 'w srv_api \<Rightarrow> QuantSignal \<Rightarrow> string \<Rightarrow> ('w, bool) task" where
  "check_expiry E A S sig mode =
     sbranch (\<lambda>s. if is_expired (srv_now A s) sig
       then sbind (quant_skip_as E S sig mode ''signal_expired'' ''expired'') (\<lambda>_. sret False)
       else sret True)"

definition check_strategy ::
  "num_env \<Rightarrow> ('w, 'o) clob_api \<Rightarrow> 'w srv_api \<Rightarrow> QuantSignalExecutorConfig \<Rightarrow> QuantSignal \<Rightarrow> string \<Rightarrow> ('w, bool) task" where
  "check_strategy E A S cfg sig mode =
     sbranch (\<lambda>s. case store_get (sv_strategies s) (qs_kind sig) of
         None \<Rightarrow> sret True
       | Some st \<Rightarrow>
           let st' = strategy_refresh (srv_now A s) (strategy_halt_cooldown_secs cfg) st
           in sbind (smod (\<lambda>s. s\<lparr>sv_strategies := store_insert (qs_kind sig) st' (sv_strategies s)\<rparr>)) (\<lambda>_.
                require E S sig mode ''strategy_halted'' (\<not> ss_halted st')))"

definition check_confidence ::
  "num_env \<Rightarrow> 'w srv_api \<Rightarrow> QuantSignalExecutorConfig \<Rightarrow> QuantSignal \<Rightarrow> string \<Rightarrow> ('w, bool) task" where
  "check_confidence E S cfg sig mode =
     require E S sig mode ''below_confidence'' (meets_confidence (min_confidence cfg) sig)"

text \<open>A query on the positions that must succeed and give \<open>False\<close>: it fails closed.\<close>

definition check_query ::
  "num_env \<Rightarrow> 'w srv_api \<Rightarrow> QuantSignal \<Rightarrow> string \<Rightarrow> string \<Rightarrow> string \<Rightarrow> (position_table \<Rightarrow> bool) \<Rightarrow> ('w, bool) task" where
  "check_query E S sig mode failed reason q =
     sbind (on_world (sa_pg S)) (\<lambda>P. sbranch (\<lambda>s.
       if \<not> pg_ok P 0 then require E S sig mode failed False
       else require E S sig mode reason (\<not> q (db_positions (sv_db s)))))"

definition check_duplicate :: "num_env \<Rightarrow> 'w srv_api \<Rightarrow> QuantSignal \<Rightarrow> string \<Rightarrow> ('w, bool) task" where
  "check_duplicate E S sig mode =
     check_query E S sig mode ''dedup_check_failed'' ''duplicate''
       (active_quant_executor_position_exists_for_market (qs_condition_id sig))"

definition check_breaker ::
  "num_env \<Rightarrow> ('w, 'o) clob_api \<Rightarrow> 'w srv_api \<Rightarrow> QuantSignal \<Rightarrow> string \<Rightarrow> ('w, bool) task" where
  "check_breaker E A S sig mode = sbind (breaker_can_trade A S) (require E S sig mode ''circuit_breaker'')"

definition check_positions ::
  "num_env \<Rightarrow> 'w srv_api \<Rightarrow> QuantSignalExecutorConfig \<Rightarrow> QuantSignal \<Rightarrow> string \<Rightarrow> ('w, bool) task" where
  "check_positions E S cfg sig mode =
     check_query E S sig mode ''position_count_failed'' ''max_positions_reached''
       (\<lambda>t. max_quant_positions cfg \<le> count_active_quant_executor_positions t)"

definition check_exposure ::
  "num_env \<Rightarrow> 'w srv_api \<Rightarrow> QuantSignalExecutorConfig \<Rightarrow> QuantSignal \<Rightarrow> string \<Rightarrow> ('w, bool) task" where
  "check_exposure E S cfg sig mode =
     check_query E S sig mode ''exposure_check_failed'' ''exposure_limit''
       (\<lambda>t. qe_max_total_exposure cfg \<le> get_total_active_exposure t)"

definition also_check :: "('w, bool) task \<Rightarrow> ('w, bool) task \<Rightarrow> ('w, bool) task" where
  "also_check m n = sbind m (\<lambda>ok. if ok then n else sret False)"

definition quant_admit ::
  "num_env \<Rightarrow> ('w, 'o) clob_api \<Rightarrow> 'w srv_api \<Rightarrow> QuantSignalExecutorConfig \<Rightarrow> QuantSignal \<Rightarrow> string \<Rightarrow> ('w, bool) task" where
  "quant_admit E A S cfg sig mode =
     foldr also_check [check_enabled E S cfg sig mode, check_fresh E A S cfg sig mode, check_expiry E A S sig mode,
       check_strategy E A S cfg sig mode, check_confidence E S cfg sig mode, check_duplicate E S sig mode,
       check_breaker E A S sig mode] (sret True)"

subsection \<open>Tokens, book and size\<close>

text \<open>
  An operation of the token cache on the executor's own map of tokens; the set of active markets
  and the table of tokens are shared.
\<close>

definition on_own_cache :: "('w, 'a) task \<Rightarrow> ('w, 'a) task" where
  "on_own_cache m s =
     (case m (s\<lparr>sv_tokens := (sv_tokens s)\<lparr>tc_tokens := sv_quant_tokens s\<rparr>\<rparr>) of
        (r, s') \<Rightarrow> (r, s'\<lparr>sv_tokens := (sv_tokens s')\<lparr>tc_tokens := tc_tokens (sv_tokens s)\<rparr>,
                        sv_quant_tokens := tc_tokens (sv_tokens s')\<rparr>))"

definition quant_tokens ::
  "num_env \<Rightarrow> 'w srv_api \<Rightarrow> QuantSignal \<Rightarrow> string \<Rightarrow> ('w, (string \<times> string) option) task" where
  "quant_tokens E S sig mode =
     sbranch (\<lambda>s. case store_get (sv_quant_tokens s) (qs_condition_id sig) of
         Some ids \<Rightarrow> sret (Some ids)
       | None \<Rightarrow>
           sbind (on_own_cache (cache_hydrate S (qs_condition_id sig))) (\<lambda>h. case h of
               Some ids \<Rightarrow> sret (Some ids)
             | None \<Rightarrow> sbind (quant_skip E S sig mode ''market_cache_empty'') (\<lambda>_. sret None)))"

fun target_token :: "SignalDirection \<Rightarrow> string \<times> string \<Rightarrow> string" where
  "target_token BuyYes (yes, no) = yes"
| "target_token BuyNo (yes, no) = no"

text \<open>The best ask of the target side, when the book is deep enough.\<close>

definition quant_book ::
  "num_env \<Rightarrow> 'w srv_api \<Rightarrow> QuantSignalExecutorConfig \<Rightarrow> QuantSignal \<Rightarrow> string \<Rightarrow> string \<Rightarrow> ('w, decimal option) task" where
  "quant_book E S cfg sig mode token =
     (let skip = (\<lambda>reason. sbind (quant_skip E S sig mode reason) (\<lambda>_. sret None))
      in sbind (on_world (sa_book S token)) (\<lambda>b. case b of
           Inl _ \<Rightarrow> skip ''orderbook_error''
         | Inr book \<Rightarrow>
             (case best_ask book of
                None \<Rightarrow> skip ''no_liquidity''
              | Some price \<Rightarrow>
                  if ask_depth E book < qe_min_book_depth cfg then skip ''insufficient_depth''
                  else sret (Some price))))"

definition weighted_size :: "num_env \<Rightarrow> QuantSignalExecutorConfig \<Rightarrow> QuantSignal \<Rightarrow> decimal" where
  "weighted_size E cfg sig =
     (let confidence = (case f64_short E (qs_confidence sig) of Some d \<Rightarrow> d | None \<Rightarrow> dec_new 65 2);
          allocation = (case f64_short E (allocation_for cfg (qs_kind sig)) of Some d \<Rightarrow> d | None \<Rightarrow> dec_new 40 2)
      in dmul E (dmul E (base_position_size_usd cfg) confidence) allocation)"

definition quant_position_size ::
  "num_env \<Rightarrow> QuantSignalExecutorConfig \<Rightarrow> QuantSignal \<Rightarrow> RolloutDecision \<Rightarrow> decimal" where
  "quant_position_size E cfg sig d =
     (let size = weighted_size E cfg sig
      in if size_multiplier d < 1 then dmul E size (size_multiplier d) else size)"

text \<open>The quantity to buy, or nothing when the signal was skipped.\<close>

definition quant_quantity ::
  "num_env \<Rightarrow> 'w srv_api \<Rightarrow> QuantSignalExecutorConfig \<Rightarrow> QuantSignal \<Rightarrow> string \<Rightarrow> decimal \<Rightarrow> ('w, decimal option) task" where
  "quant_quantity E S cfg sig mode price =
     (let skip = (\<lambda>reason. sbind (quant_skip E S sig mode reason) (\<lambda>_. sret None))
      in sbind (on_world (sa_quant_rollouts S)) (\<lambda>found.
         let d = evaluate_rollouts E mode (sa_quant_score S sig) found
         in case skip_reason d of
              Some why \<Rightarrow> skip why
            | None \<Rightarrow>
                let size = quant_position_size E cfg sig d
                in if size < dec_new 1 0 then skip ''size_too_small''
                   else if 0 < price then sret (Some (ddiv E size price))
                   else skip ''zero_price''))"

subsection \<open>The position\<close>

definition quant_ctx :: "QuantSignal \<Rightarrow> string \<Rightarrow> EventContext" where
  "quant_ctx sig mode = \<lparr>execution_mode = mode, strategy = quant_kind_str (qs_kind sig), source_label = ''quant''\<rparr>"

text \<open>The price of the side that is not bought is zero.\<close>

definition quant_params :: "QuantSignal \<Rightarrow> decimal \<Rightarrow> decimal \<Rightarrow> CreatePositionParams" where
  "quant_params sig price qty = \<lparr>cp_market_id = qs_condition_id sig,
     cp_yes_entry_price = (case qs_direction sig of BuyYes \<Rightarrow> price | BuyNo \<Rightarrow> 0),
     cp_no_entry_price = (case qs_direction sig of BuyYes \<Rightarrow> 0 | BuyNo \<Rightarrow> price),
     cp_quantity = qty, cp_exit_strategy = ExitOnCorrection, cp_source = SOURCE_RECOMMENDATION,
     cp_source_signal_id = Some (qs_id sig), cp_arb_opportunity = None\<rparr>"

definition create_quant_position ::
  "num_env \<Rightarrow> ('w, 'o) clob_api \<Rightarrow> 'w srv_api \<Rightarrow> reason_codec \<Rightarrow> QuantSignal \<Rightarrow> decimal \<Rightarrow> decimal \<Rightarrow> string
     \<Rightarrow> ('w, Position) task" where
  "create_quant_position E A S J sig price qty mode =
     create_stored E A S J (quant_params sig price qty) (quant_ctx sig mode) []"

definition REJECTED :: string where
  "REJECTED = ''Quant order rejected by exchange''"

definition quant_entry_failed ::
  "num_env \<Rightarrow> ('w, 'o) clob_api \<Rightarrow> 'w srv_api \<Rightarrow> reason_codec \<Rightarrow> QuantSignal \<Rightarrow> string \<Rightarrow> Position \<Rightarrow> ('w, unit) task" where
  "quant_entry_failed E A S J sig mode p =
     sbind (with_service A S (\<lambda>P now. svc_mark_entry_failed P J now (OrderRejected REJECTED) (quant_ctx sig mode) p)) (\<lambda>(_, q).
     sbind (update_signal_status S (qs_id sig) ''failed'' (Some ''order_rejected'')) (\<lambda>_.
     sbind (record_position_failure_event E S sig mode q ''order_rejected'') (\<lambda>_.
       publish (qs_condition_id sig) ''quant_execution_failed'')))"

fun fill_leg :: "SignalDirection \<Rightarrow> Leg" where
  "fill_leg BuyYes = Yes"
| "fill_leg BuyNo = No"

text \<open>Failures of recording the fill and of opening the position are only logged.\<close>

definition quant_opened ::
  "num_env \<Rightarrow> ('w, 'o) clob_api \<Rightarrow> 'w srv_api \<Rightarrow> reason_codec \<Rightarrow> QuantSignal \<Rightarrow> string \<Rightarrow> ExecutionReport \<Rightarrow> Position
     \<Rightarrow> ('w, unit) task" where
  "quant_opened E A S J sig mode rep p =
     sbind (with_service A S (\<lambda>P now. svc_record_entry_fill E P J now (fill_leg (qs_direction sig))
              (average_price rep) (filled_quantity rep) (quant_ctx sig mode) p)) (\<lambda>(_, p1).
     sbind (with_service A S (\<lambda>P now. svc_mark_open P J now (quant_ctx sig mode) p1)) (\<lambda>(_, p2).
     sbind (link_signal_to_position S (qs_id sig) (pos_id p2)) (\<lambda>_.
       publish (qs_condition_id sig) ''quant_executed'')))"

text \<open>The order is built as in the arbitrage executor: the expected price is the best ask.\<close>

definition quant_execute ::
  "num_env \<Rightarrow> ('w, 'o) clob_api \<Rightarrow> 'w srv_api \<Rightarrow> reason_codec \<Rightarrow> QuantSignal \<Rightarrow> string \<Rightarrow> string \<Rightarrow> decimal \<Rightarrow> decimal
     \<Rightarrow> ('w, unit) task" where
  "quant_execute E A S J sig mode token price qty =
     sbind (create_quant_position E A S J sig price qty mode) (\<lambda>p.
     sbind (arb_order E A S (qs_condition_id sig) token price qty) (\<lambda>rep.
       if \<not> is_success rep then quant_entry_failed E A S J sig mode p
       else quant_opened E A S J sig mode rep p))"

definition quant_limits ::
  "num_env \<Rightarrow> 'w srv_api \<Rightarrow> QuantSignalExecutorConfig \<Rightarrow> QuantSignal \<Rightarrow> string \<Rightarrow> ('w, bool) task" where
  "quant_limits E S cfg sig mode = also_check (check_positions E S cfg sig mode) (check_exposure E S cfg sig mode)"

subsection \<open>One signal\<close>

text \<open>What is left of a signal that passed the checks: token, price and quantity.\<close>

definition quant_plan ::
  "num_env \<Rightarrow> 'w srv_api \<Rightarrow> QuantSignalExecutorConfig \<Rightarrow> QuantSignal \<Rightarrow> string
     \<Rightarrow> ('w, (string \<times> decimal \<times> decimal) option) task" where
  "quant_plan E S cfg sig mode =
     sbind (quant_tokens E S sig mode) (\<lambda>t. case t of
         None \<Rightarrow> sret None
       | Some tokens \<Rightarrow>
           let token = target_token (qs_direction sig) tokens
           in sbind (quant_book E S cfg sig mode token) (\<lambda>b. case b of
                None \<Rightarrow> sret None
              | Some price \<Rightarrow>
                  sbind (quant_quantity E S cfg sig mode price) (\<lambda>q. case q of
                      None \<Rightarrow> sret None
                    | Some qty \<Rightarrow> sret (Some (token, price, qty)))))"

definition quant_trade ::
  "num_env \<Rightarrow> ('w, 'o) clob_api \<Rightarrow> 'w srv_api \<Rightarrow> reason_codec \<Rightarrow> QuantSignalExecutorConfig \<Rightarrow> QuantSignal \<Rightarrow> string
     \<Rightarrow> ('w, unit) task" where
  "quant_trade E A S J cfg sig mode =
     sbind (quant_admit E A S cfg sig mode) (\<lambda>ok. if \<not> ok then sret () else
     sbind (quant_plan E S cfg sig mode) (\<lambda>plan. case plan of
         None \<Rightarrow> sret ()
       | Some (token, price, qty) \<Rightarrow>
           sbind (quant_limits E S cfg sig mode) (\<lambda>ok.
             if \<not> ok then sret () else quant_execute E A S J sig mode token price qty)))"

definition process_quant_signal ::
  "num_env \<Rightarrow> ('w, 'o) clob_api \<Rightarrow> 'w srv_api \<Rightarrow> reason_codec \<Rightarrow> QuantSignalExecutorConfig \<Rightarrow> QuantSignal
     \<Rightarrow> ('w, unit) task" where
  "process_quant_signal E A S J cfg sig =
     sbranch (\<lambda>s. sbind (quant_announce E S sig (quant_mode cfg s)) (\<lambda>_.
       quant_trade E A S J cfg sig (quant_mode cfg s)))"

subsection \<open>The outcomes of a strategy\<close>

definition record_strategy_outcome ::
  "num_env \<Rightarrow> ('w, 'o) clob_api \<Rightarrow> 'w srv_api \<Rightarrow> QuantSignalExecutorConfig \<Rightarrow> QuantSignalKind \<Rightarrow> decimal
     \<Rightarrow> ('w, unit) task" where
  "record_strategy_outcome E A S cfg kind pnl =
     (if pnl = 0 then sret ()
      else sbranch (\<lambda>s. case store_get (sv_strategies s) kind of
          None \<Rightarrow> sret ()
        | Some st \<Rightarrow>
            let st' = snd (record_outcome E (srv_now A s) pnl (strategy_max_daily_loss_usd cfg)
                        (strategy_max_consecutive_losses cfg) st)
            in sbind (smod (\<lambda>s. s\<lparr>sv_strategies := store_insert kind st' (sv_strategies s)\<rparr>)) (\<lambda>_.
               sbind (on_world (sa_pg S)) (\<lambda>P.
                 smod (\<lambda>s. s\<lparr>sv_risk_rows := strategy_persist P (quant_kind_str kind) st' (sv_risk_rows s)\<rparr>)))))"

text \<open>
  The join of the positions closed since midnight with their signals, by exit time; a closed
  position has an exit time.
\<close>

definition closed_since :: "datetime \<Rightarrow> position_row \<Rightarrow> bool" where
  "closed_since t r \<longleftrightarrow> r_source r = SOURCE_RECOMMENDATION \<and> r_state r = 4 \<and> r_realized_pnl r \<noteq> None
     \<and> (case r_exit_timestamp r of None \<Rightarrow> False | Some e \<Rightarrow> t \<le> e)"

definition day_start :: "datetime \<Rightarrow> datetime" where
  "day_start now = date_naive now * (86400 * ns_per_sec)"

definition quant_outcomes ::
  "datetime \<Rightarrow> position_table \<Rightarrow> (uuid, quant_signal_row) store \<Rightarrow> (uuid \<times> string \<times> decimal) list" where
  "quant_outcomes since t qs =
     concat (map (\<lambda>r. map (\<lambda>q. (r_id r, qr_kind q, the (r_realized_pnl r)))
         (filter (\<lambda>q. qr_position_id q = Some (r_id r)) (store_values qs)))
       (select_rows (closed_since since) (\<lambda>r. the (r_exit_timestamp r)) t))"

definition fold_outcome ::
  "num_env \<Rightarrow> ('w, 'o) clob_api \<Rightarrow> 'w srv_api \<Rightarrow> QuantSignalExecutorConfig \<Rightarrow> uuid \<times> string \<times> decimal
     \<Rightarrow> ('w, unit) task" where
  "fold_outcome E A S cfg = (\<lambda>(i, kind, pnl).
     sbranch (\<lambda>s. if i \<in> sv_processed s then sret ()
       else sbind (smod (\<lambda>s. s\<lparr>sv_processed := insert i (sv_processed s)\<rparr>)) (\<lambda>_.
         case parse_quant_signal_kind kind of
           None \<Rightarrow> sret ()
         | Some k \<Rightarrow> record_strategy_outcome E A S cfg k pnl)))"

definition roll_processed :: "('w, 'o) clob_api \<Rightarrow> 'w server \<Rightarrow> 'w server" where
  "roll_processed A s =
     (if date_naive (srv_now A s) = sv_processed_date s then s
      else s\<lparr>sv_processed := {}, sv_processed_date := date_naive (srv_now A s)\<rparr>)"

definition sync_strategy_outcomes ::
  "num_env \<Rightarrow> ('w, 'o) clob_api \<Rightarrow> 'w srv_api \<Rightarrow> QuantSignalExecutorConfig \<Rightarrow> ('w, unit) task" where
  "sync_strategy_outcomes E A S cfg =
     sbind (smod (roll_processed A)) (\<lambda>_. sbranch (\<lambda>s0.
     sbind (on_world (sa_pg S)) (\<lambda>P. sbranch (\<lambda>s.
       if \<not> pg_ok P 0 then sret ()
       else for_each (fold_outcome E A S cfg)
              (quant_outcomes (day_start (srv_now A s0)) (db_positions (sv_db s)) (sv_quant s))))))"

subsection \<open>Startup and the loop\<close>

definition strategy_kinds :: "QuantSignalKind list" where
  "strategy_kinds = [Flow, CrossMarket, MeanReversion, ResolutionProximity]"

definition new_quant_executor :: "('w, 'o) clob_api \<Rightarrow> 'w server \<Rightarrow> 'w server" where
  "new_quant_executor A s = s\<lparr>sv_quant_tokens := [],
     sv_strategies := map (\<lambda>k. (k, new_strategy (srv_now A s))) strategy_kinds,
     sv_processed := {}, sv_processed_date := date_naive (srv_now A s)\<rparr>"

definition load_strategy :: "('w, 'o) clob_api \<Rightarrow> 'w srv_api \<Rightarrow> QuantSignalKind \<Rightarrow> ('w, unit) task" where
  "load_strategy A S k =
     sbind (on_world (sa_pg S)) (\<lambda>P. smod (\<lambda>s. s\<lparr>sv_strategies := store_insert k
       (strategy_load P (srv_now A s) (quant_kind_str k) (sv_risk_rows s)) (sv_strategies s)\<rparr>))"

definition quant_startup ::
  "num_env \<Rightarrow> ('w, 'o) clob_api \<Rightarrow> 'w srv_api \<Rightarrow> QuantSignalExecutorConfig \<Rightarrow> ('w, unit) task" where
  "quant_startup E A S cfg =
     sbind (smod (new_quant_executor A)) (\<lambda>_.
     sbind (sync_strategy_outcomes E A S cfg) (\<lambda>_. for_each (load_strategy A S) strategy_kinds))"

text \<open>
  What wakes the loop. A refresh of the token cache runs in a task of its own, at most one at a
  time; its effect is one step.
\<close>

datatype quant_wakeup = QuantWake QuantSignal | QuantLagged nat | QuantCacheRefresh | OutcomeTick | QuantHeartbeat

definition quant_wake ::
  "num_env \<Rightarrow> ('w, 'o) clob_api \<Rightarrow> 'w srv_api \<Rightarrow> reason_codec \<Rightarrow> QuantSignalExecutorConfig \<Rightarrow> quant_wakeup \<Rightarrow> ('w, unit) task" where
  "quant_wake E A S J cfg ev =
     (case ev of
        QuantWake sig \<Rightarrow> log_error (process_quant_signal E A S J cfg sig)
      | QuantLagged _ \<Rightarrow> sret ()
      | QuantCacheRefresh \<Rightarrow> sbind (on_own_cache (cache_refresh S)) (\<lambda>_. sret ())
      | OutcomeTick \<Rightarrow> sync_strategy_outcomes E A S cfg
      | QuantHeartbeat \<Rightarrow> sret ())"

end
