(* ===== verification/Quant_Outcomes.thy ===== *)
theory Quant_Outcomes
  imports Quant_Executor Arb_Outcomes
begin

section \<open>What the quant executor does\<close>

text \<open>
  The checks of the quant executor hold it back; its slots are bounded, whatever the services
  answer; an entry is decided when the database answers; a restart rebuilds the breaker of each
  strategy from the positions closed today.
\<close>

subsection \<open>The checks hold the executor back\<close>

text \<open>The worlds that database calls lead to from a given one: the clock during the checks.\<close>

inductive_set db_orbit :: "'w srv_api \<Rightarrow> 'w \<Rightarrow> 'w set" for S :: "'w srv_api" and w0 :: 'w where
  start: "w0 \<in> db_orbit S w0"
| call: "w \<in> db_orbit S w0 \<Longrightarrow> snd (sa_pg S w) \<in> db_orbit S w0"

lemma db_orbit_trans: "w' \<in> db_orbit S w \<Longrightarrow> w \<in> db_orbit S w0 \<Longrightarrow> w' \<in> db_orbit S w0"
  by (induction rule: db_orbit.induct) (auto intro: db_orbit.intros)

text \<open>What the first three checks keep, and what the checks up to the circuit breaker keep.\<close>

definition waits :: "'w srv_api \<Rightarrow> 'w server \<Rightarrow> 'w server \<Rightarrow> bool" where
  "waits S s s' \<longleftrightarrow> no_entry s s' \<and> sv_cb s' = sv_cb s \<and> srv_world s' \<in> db_orbit S (srv_world s)"

definition waits_idle :: "'w srv_api \<Rightarrow> 'w server \<Rightarrow> 'w server \<Rightarrow> bool" where
  "waits_idle S s s' \<longleftrightarrow> waits S s s' \<and> sv_strategies s' = sv_strategies s"

interpretation wt: task_order "waits S"
  by unfold_locales (auto simp: waits_def intro: db_orbit.start db_orbit_trans idle.trans)

interpretation wi: task_order "waits_idle S"
  by unfold_locales (auto simp: waits_idle_def intro: wt.refl wt.trans)

lemma also_check_run:
  "d s = (r, s1) \<Longrightarrow> also_check d n s =
     (case r of Ok True \<Rightarrow> n s1 | Ok False \<Rightarrow> (Ok False, s1) | Err e \<Rightarrow> (Err e, s1) | Stuck \<Rightarrow> (Stuck, s1))"
  by (auto simp: also_check_def sbind_def sret_def split: flow.split bool.split)

context task_order
begin

lemma checks_block:
  assumes "\<And>c. c \<in> set pre \<Longrightarrow> stays R c" "\<And>s'. R s s' \<Longrightarrow> fst (c s') \<noteq> Ok True"
  shows "fst (foldr also_check (pre @ c # post) m s) \<noteq> Ok True"
  using assms
proof (induction pre arbitrary: s)
  case Nil
  then have "fst (c s) \<noteq> Ok True" using refl by blast
  then show ?case
    by (cases "c s") (auto simp: also_check_run split: flow.split bool.split)
next
  case (Cons d pre)
  obtain r s1 where d: "d s = (r, s1)" by fastforce
  have "R s s1" using Cons.prems(1) [of d] d by (metis list.set_intros(1) stays_def snd_conv)
  then have "fst (foldr also_check (pre @ c # post) m s1) \<noteq> Ok True"
    using Cons.prems by (intro Cons.IH) (auto intro: trans)
  then show ?case by (auto simp: also_check_run [of d, OF d] split: flow.split bool.split)
qed

end

lemma stays_run: "stays R m \<Longrightarrow> m s = (r, s') \<Longrightarrow> R s s'"
  by (metis stays_def snd_conv)

lemma stays_foldr_checks:
  "(\<And>c. c \<in> set cs \<Longrightarrow> stays no_entry c) \<Longrightarrow> stays no_entry (foldr also_check cs (sret True))"
  by (induction cs) (auto simp: also_check_def intro!: idle.rules stays_cases)

lemma skipped_False: "fst (sbind m (\<lambda>_. sret False) s) \<noteq> Ok True"
  by (auto simp: sbind_def sret_def split: prod.split flow.split)

lemma require_block: "\<not> ok \<Longrightarrow> fst (require E S sig mode reason ok s) \<noteq> Ok True"
  by (simp add: require_def skipped_False)

lemma check_query_block:
  "q (db_positions (sv_db s)) \<Longrightarrow> fst (check_query E S sig mode failed reason q s) \<noteq> Ok True"
  by (simp add: check_query_def sbind_on_world sbranch_def require_block set_world_def)

lemma on_pg_waits: "stays (waits_idle S) (on_world (sa_pg S))"
  by (auto simp: stays_def on_world_def waits_idle_def waits_def no_entry_def set_world_def srv_world_def
      intro: db_orbit.intros split: prod.split)
    (metis db_orbit.call db_orbit.start snd_conv)

lemma waits_idle_updates [simp]:
  "waits_idle S s (s\<lparr>sv_quant := t\<rparr>)" "waits_idle S s (s\<lparr>sv_db := record_warn P i ev (sv_db s)\<rparr>)"
  "waits S s (s\<lparr>sv_strategies := x\<rparr>)" "waits_idle S s s"
  by (simp_all add: waits_idle_def waits_def no_entry_def record_warn_def srv_world_def db_orbit.start)

lemma quant_skip_waits:
  "stays (waits_idle S) (with_quant_table S f)"
  "stays (waits_idle S) (record_event S ev)"
  "stays (waits_idle S) (quant_skip_as E S sig mode ty reason)"
  "stays (waits_idle S) (require E S sig mode reason ok)"
  "stays (waits_idle S) (quant_announce E S sig mode)"
proof -
  show t: "stays (waits_idle S) (with_quant_table S f)" for f
    unfolding with_quant_table_def by (intro wi.basic wi.smod on_pg_waits) simp
  show e: "stays (waits_idle S) (record_event S ev)" for ev
    unfolding record_event_def by (intro wi.basic wi.updates on_pg_waits) simp
  show s: "stays (waits_idle S) (quant_skip_as E S sig mode ty reason)" for ty reason
    unfolding quant_skip_as_def update_signal_status_def record_signal_outcome_event_def by (intro wi.basic t e)
  show "stays (waits_idle S) (require E S sig mode reason ok)"
    unfolding require_def quant_skip_def by (intro wi.basic stays_cases s)
  show "stays (waits_idle S) (quant_announce E S sig mode)"
    unfolding quant_announce_def persist_signal_def by (intro wi.basic t e)
qed

lemma waits_idle_waits: "stays (waits_idle S) m \<Longrightarrow> stays (waits S) m"
  by (erule stays_mono) (simp add: waits_idle_def)

lemma waits_no_entry: "stays (waits S) m \<Longrightarrow> stays no_entry m"
  by (erule stays_mono) (simp add: waits_def)

lemma early_checks_wait:
  "stays (waits_idle S) (check_enabled E S cfg sig mode)"
  "stays (waits_idle S) (check_fresh E A S cfg sig mode)"
  "stays (waits_idle S) (check_expiry E A S sig mode)"
  unfolding check_enabled_def check_fresh_def check_expiry_def record_signal_outcome_event_def
  by (intro wi.basic stays_cases quant_skip_waits)+

lemma checks_wait:
  "stays (waits S) (check_enabled E S cfg sig mode)"
  "stays (waits S) (check_fresh E A S cfg sig mode)"
  "stays (waits S) (check_expiry E A S sig mode)"
  "stays (waits S) (check_strategy E A S cfg sig mode)"
  "stays (waits S) (check_confidence E S cfg sig mode)"
  "stays (waits S) (check_query E S sig mode failed reason q)"
  "stays (waits S) (check_duplicate E S sig mode)"
proof -
  note req = waits_idle_waits [OF quant_skip_waits(4)]
  show q: "stays (waits S) (check_query E S sig mode failed reason q)" for failed reason q
    unfolding check_query_def by (intro wt.basic stays_cases req waits_idle_waits [OF on_pg_waits])
  show "stays (waits S) (check_strategy E A S cfg sig mode)"
    unfolding check_strategy_def Let_def by (intro wt.basic stays_cases wt.smod req) simp
  show "stays (waits S) (check_confidence E S cfg sig mode)" unfolding check_confidence_def by (rule req)
  show "stays (waits S) (check_duplicate E S sig mode)" unfolding check_duplicate_def by (rule q)
qed (intro waits_idle_waits early_checks_wait)+

lemma idle_checks:
  "stays no_entry (check_breaker E A S sig mode)"
  "stays no_entry (quant_admit E A S cfg sig mode)"
  "stays no_entry (quant_limits E S cfg sig mode)"
proof -
  show b: "stays no_entry (check_breaker E A S sig mode)"
    unfolding check_breaker_def
    by (intro idle.rules idle_steps waits_no_entry [OF waits_idle_waits [OF quant_skip_waits(4)]])
  show "stays no_entry (quant_admit E A S cfg sig mode)"
    unfolding quant_admit_def
    by (rule stays_foldr_checks) (auto intro: b waits_no_entry [OF checks_wait(1)] waits_no_entry [OF checks_wait(2)]
        waits_no_entry [OF checks_wait(3)] waits_no_entry [OF checks_wait(4)] waits_no_entry [OF checks_wait(5)]
        waits_no_entry [OF checks_wait(7)])
  show "stays no_entry (quant_limits E S cfg sig mode)"
    unfolding quant_limits_def also_check_def check_positions_def check_exposure_def
    by (intro idle.rules stays_cases waits_no_entry [OF checks_wait(6)])
qed

lemma idle_own_cache:
  fixes m :: "('w, 'a) task"
  assumes "stays no_entry m"
  shows "stays no_entry (on_own_cache m)"
proof (rule staysI)
  fix s :: "'w server"
  let ?s = "s\<lparr>sv_tokens := (sv_tokens s)\<lparr>tc_tokens := sv_quant_tokens s\<rparr>\<rparr>"
  obtain r s1 where m: "m ?s = (r, s1)" by fastforce
  then have "no_entry ?s s1" using assms by (metis stays_def snd_conv)
  with m show "no_entry s (snd (on_own_cache m s))"
    by (simp add: on_own_cache_def no_entry_def)
qed

lemma idle_plan: "stays no_entry (quant_plan E S cfg sig mode)"
proof -
  have skip: "stays no_entry (quant_skip E S sig mode reason)" for reason
    unfolding quant_skip_def by (rule waits_no_entry [OF waits_idle_waits [OF quant_skip_waits(3)]])
  show ?thesis
    unfolding quant_plan_def quant_tokens_def quant_book_def quant_quantity_def Let_def
    by (intro idle.rules stays_cases idle_own_cache idle_steps skip)
qed

text \<open>
  A signal that one of the checks must stop, in the state it finds. What depends on the clock
  holds at every time the clock may show during the checks.
\<close>

definition quant_blocked ::
  "('w, 'o) clob_api \<Rightarrow> 'w srv_api \<Rightarrow> QuantSignalExecutorConfig \<Rightarrow> QuantSignal \<Rightarrow> 'w server \<Rightarrow> bool" where
  "quant_blocked A S cfg sig s \<longleftrightarrow> \<not> qe_enabled cfg
     \<or> (\<forall>w \<in> db_orbit S (srv_world s). qe_max_signal_age_secs cfg < num_seconds (api_now A w - qs_generated_at sig))
     \<or> (\<forall>w \<in> db_orbit S (srv_world s). is_expired (api_now A w) sig)
     \<or> (\<exists>st. store_get (sv_strategies s) (qs_kind sig) = Some st
          \<and> (\<forall>w \<in> db_orbit S (srv_world s). ss_halted (strategy_refresh (api_now A w) (strategy_halt_cooldown_secs cfg) st)))
     \<or> \<not> meets_confidence (min_confidence cfg) sig
     \<or> active_quant_executor_position_exists_for_market (qs_condition_id sig) (db_positions (sv_db s))
     \<or> (\<forall>P now. \<not> snd (can_trade P now now (sv_cb s)))"

lemma late_check_blocks:
  assumes "waits S s s'"
  shows "\<not> meets_confidence (min_confidence cfg) sig \<Longrightarrow> fst (check_confidence E S cfg sig mode s') \<noteq> Ok True"
    and "active_quant_executor_position_exists_for_market (qs_condition_id sig) (db_positions (sv_db s))
       \<Longrightarrow> fst (check_duplicate E S sig mode s') \<noteq> Ok True"
    and "\<forall>P now. \<not> snd (can_trade P now now (sv_cb s)) \<Longrightarrow> fst (check_breaker E A S sig mode s') \<noteq> Ok True"
proof -
  have same: "sv_cb s' = sv_cb s" "db_positions (sv_db s') = db_positions (sv_db s)"
    using assms by (simp_all add: waits_def no_entry_def)
  show "\<not> meets_confidence (min_confidence cfg) sig \<Longrightarrow> fst (check_confidence E S cfg sig mode s') \<noteq> Ok True"
    by (simp add: check_confidence_def require_block)
  show "active_quant_executor_position_exists_for_market (qs_condition_id sig) (db_positions (sv_db s))
       \<Longrightarrow> fst (check_duplicate E S sig mode s') \<noteq> Ok True"
    by (simp add: check_duplicate_def check_query_block same)
  assume never: "\<forall>P now. \<not> snd (can_trade P now now (sv_cb s))"
  have "\<exists>s1. breaker_can_trade A S s' = (Ok False, s1)"
    using never same(1)
    by (auto simp: breaker_can_trade_def sbind_on_world set_world_def split: prod.split) (metis snd_conv)
  then show "fst (check_breaker E A S sig mode s') \<noteq> Ok True"
    by (auto simp: check_breaker_def sbind_def require_block)
qed

lemma early_check_blocks:
  assumes "waits_idle S s s'"
  shows "\<not> qe_enabled cfg \<Longrightarrow> fst (check_enabled E S cfg sig mode s') \<noteq> Ok True"
    and "\<forall>w \<in> db_orbit S (srv_world s). qe_max_signal_age_secs cfg < num_seconds (api_now A w - qs_generated_at sig)
       \<Longrightarrow> fst (check_fresh E A S cfg sig mode s') \<noteq> Ok True"
    and "\<forall>w \<in> db_orbit S (srv_world s). is_expired (api_now A w) sig \<Longrightarrow> fst (check_expiry E A S sig mode s') \<noteq> Ok True"
    and "store_get (sv_strategies s) (qs_kind sig) = Some st
       \<Longrightarrow> \<forall>w \<in> db_orbit S (srv_world s). ss_halted (strategy_refresh (api_now A w) (strategy_halt_cooldown_secs cfg) st)
       \<Longrightarrow> fst (check_strategy E A S cfg sig mode s') \<noteq> Ok True"
  using assms
  by (simp_all add: waits_idle_def waits_def check_enabled_def skipped_False check_fresh_def check_expiry_def
      check_strategy_def sbranch_def require_block srv_now_def Let_def not_le)
    (simp add: sbind_def smod_def require_block)

lemma quant_admit_blocks:
  assumes "quant_blocked A S cfg sig s"
  shows "fst (quant_admit E A S cfg sig mode s) \<noteq> Ok True"
proof -
  let ?cs = "[check_enabled E S cfg sig mode, check_fresh E A S cfg sig mode, check_expiry E A S sig mode,
       check_strategy E A S cfg sig mode, check_confidence E S cfg sig mode, check_duplicate E S sig mode,
       check_breaker E A S sig mode]"
  have early: "fst (foldr also_check ?cs (sret True) s) \<noteq> Ok True"
    if "k < 4" "\<And>s'. waits_idle S s s' \<Longrightarrow> fst ((?cs ! k) s') \<noteq> Ok True" for k
  proof -
    have "stays (waits_idle S) c" if "c \<in> set (take k ?cs)" for c
      using that \<open>k < 4\<close> early_checks_wait [where S = S] by (auto simp: take_Cons' split: if_splits)
    moreover have "take k ?cs @ ?cs ! k # drop (Suc k) ?cs = ?cs" using \<open>k < 4\<close> by (intro id_take_nth_drop [symmetric]) simp
    ultimately show ?thesis using wi.checks_block [of "take k ?cs" S s "?cs ! k" "drop (Suc k) ?cs" "sret True"] that(2)
      by metis
  qed
  have late: "fst (foldr also_check ?cs (sret True) s) \<noteq> Ok True"
    if "k < 7" "\<And>s'. waits S s s' \<Longrightarrow> fst ((?cs ! k) s') \<noteq> Ok True" for k
  proof -
    have "stays (waits S) c" if "c \<in> set (take k ?cs)" for c
      using that \<open>k < 7\<close> checks_wait [where S = S] by (auto simp: take_Cons' split: if_splits)
    moreover have "take k ?cs @ ?cs ! k # drop (Suc k) ?cs = ?cs" using \<open>k < 7\<close> by (intro id_take_nth_drop [symmetric]) simp
    ultimately show ?thesis using wt.checks_block [of "take k ?cs" S s "?cs ! k" "drop (Suc k) ?cs" "sret True"] that(2)
      by metis
  qed
  show ?thesis
    unfolding quant_admit_def using assms [unfolded quant_blocked_def]
  proof (elim disjE exE conjE)
    assume "\<not> qe_enabled cfg"
    then show "fst (foldr also_check ?cs (sret True) s) \<noteq> Ok True"
      by (intro early [of 0]) (simp_all add: early_check_blocks(1) [where s = s])
  next
    assume "\<forall>w\<in>db_orbit S (srv_world s). qe_max_signal_age_secs cfg < num_seconds (api_now A w - qs_generated_at sig)"
    then show "fst (foldr also_check ?cs (sret True) s) \<noteq> Ok True"
      by (intro early [of 1]) (simp_all add: early_check_blocks(2) [where s = s])
  next
    assume "\<forall>w\<in>db_orbit S (srv_world s). is_expired (api_now A w) sig"
    then show "fst (foldr also_check ?cs (sret True) s) \<noteq> Ok True"
      by (intro early [of 2]) (simp_all add: early_check_blocks(3) [where s = s])
  next
    fix st
    assume "store_get (sv_strategies s) (qs_kind sig) = Some st"
      "\<forall>w\<in>db_orbit S (srv_world s). ss_halted (strategy_refresh (api_now A w) (strategy_halt_cooldown_secs cfg) st)"
    then show "fst (foldr also_check ?cs (sret True) s) \<noteq> Ok True"
      by (intro early [of 3]) (simp_all add: early_check_blocks(4) [where s = s])
  next
    assume "\<not> meets_confidence (min_confidence cfg) sig"
    then show "fst (foldr also_check ?cs (sret True) s) \<noteq> Ok True"
      by (intro late [of 4]) (simp_all add: late_check_blocks(1) [where s = s])
  next
    assume "active_quant_executor_position_exists_for_market (qs_condition_id sig) (db_positions (sv_db s))"
    then show "fst (foldr also_check ?cs (sret True) s) \<noteq> Ok True"
      by (intro late [of 5]) (simp_all add: late_check_blocks(2) [where s = s])
  next
    assume "\<forall>P now. \<not> snd (can_trade P now now (sv_cb s))"
    then show "fst (foldr also_check ?cs (sret True) s) \<noteq> Ok True"
      by (intro late [of 6]) (simp_all add: late_check_blocks(3) [where s = s])
  qed
qed

lemma quant_blocked_waits:
  assumes "quant_blocked A S cfg sig s" "waits_idle S s s'"
  shows "quant_blocked A S cfg sig s'"
proof -
  have sub: "db_orbit S (srv_world s') \<subseteq> db_orbit S (srv_world s)"
    using assms(2) db_orbit_trans [of _ S "srv_world s'"] by (auto simp: waits_idle_def waits_def)
  have same: "sv_cb s' = sv_cb s" "db_positions (sv_db s') = db_positions (sv_db s)" "sv_strategies s' = sv_strategies s"
    using assms(2) by (simp_all add: waits_idle_def waits_def no_entry_def)
  show ?thesis
    using assms(1) sub unfolding quant_blocked_def same by (elim disjE exE conjE) blast+
qed

text \<open>No slot or no exposure is left.\<close>

definition quant_full :: "QuantSignalExecutorConfig \<Rightarrow> position_table \<Rightarrow> bool" where
  "quant_full cfg t \<longleftrightarrow> max_quant_positions cfg \<le> count_active_quant_executor_positions t
     \<or> qe_max_total_exposure cfg \<le> get_total_active_exposure t"

lemma quant_limits_block:
  assumes "quant_full cfg (db_positions (sv_db s))"
  shows "fst (quant_limits E S cfg sig mode s) \<noteq> Ok True"
proof -
  obtain r s1 where r: "check_positions E S cfg sig mode s = (r, s1)" by fastforce
  then have "no_entry s s1"
    unfolding check_positions_def by (rule stays_run [OF waits_no_entry [OF checks_wait(6)]])
  then have same: "db_positions (sv_db s1) = db_positions (sv_db s)" by (simp add: no_entry_def)
  have "fst (check_exposure E S cfg sig mode s1) \<noteq> Ok True" if "r = Ok True"
  proof -
    have "\<not> max_quant_positions cfg \<le> count_active_quant_executor_positions (db_positions (sv_db s))"
      using r check_query_block [of "\<lambda>t. max_quant_positions cfg \<le> count_active_quant_executor_positions t" s E S sig mode
          "''position_count_failed''" "''max_positions_reached''"] unfolding check_positions_def that by auto
    with assms show ?thesis
      unfolding check_exposure_def by (intro check_query_block) (simp add: quant_full_def same)
  qed
  then show ?thesis by (cases r) (auto simp: quant_limits_def also_check_run [of "check_positions E S cfg sig mode" s, OF r] split: bool.split)
qed

lemma quant_trade_blocked:
  assumes "quant_blocked A S cfg sig s \<or> quant_full cfg (db_positions (sv_db s))"
  shows "no_entry s (snd (quant_trade E A S J cfg sig mode s))"
proof -
  obtain r s1 where a: "quant_admit E A S cfg sig mode s = (r, s1)" by fastforce
  then have s1: "no_entry s s1" by (rule stays_run [OF idle_checks(2)])
  obtain r2 s2 where p: "quant_plan E S cfg sig mode s1 = (r2, s2)" by fastforce
  then have s2: "no_entry s s2" by (rule idle.trans [OF s1 stays_run [OF idle_plan]])
  obtain r3 s3 where l: "quant_limits E S cfg sig mode s2 = (r3, s3)" by fastforce
  then have s3: "no_entry s s3" by (rule idle.trans [OF s2 stays_run [OF idle_checks(3)]])
  have "r \<noteq> Ok True" if "quant_blocked A S cfg sig s" using quant_admit_blocks [OF that] a by (metis fst_conv)
  moreover have "r3 \<noteq> Ok True" if "quant_full cfg (db_positions (sv_db s))"
    using quant_limits_block [of cfg s2 E S sig mode] that s2 l by (simp add: no_entry_def)
  ultimately have stop: "r \<noteq> Ok True \<or> r3 \<noteq> Ok True" using assms by blast
  let ?go = "\<lambda>(token, price, qty). sbind (quant_limits E S cfg sig mode)
      (\<lambda>ok. if \<not> ok then sret () else quant_execute E A S J sig mode token price qty)"
  have trade: "quant_trade E A S J cfg sig mode = sbind (quant_admit E A S cfg sig mode) (\<lambda>ok. if \<not> ok then sret () else
      sbind (quant_plan E S cfg sig mode) (\<lambda>plan. case plan of None \<Rightarrow> sret () | Some x \<Rightarrow> ?go x))"
    by (simp add: quant_trade_def)
  have go: "no_entry s (snd (?go x s2))" if "r3 \<noteq> Ok True" for x
    using that l s3 by (cases r3) (auto simp: sbind_def sret_def split: prod.split)
  show ?thesis
  proof (cases "r = Ok True")
    case True
    then have "r3 \<noteq> Ok True" using stop by simp
    with True a p s2 go show ?thesis
      by (cases r2) (auto simp: trade sbind_def [of "quant_admit E A S cfg sig mode"]
          sbind_def [of "quant_plan E S cfg sig mode"] sret_def simp del: split_paired_All split: option.split)
  next
    case False
    with a s1 show ?thesis
      by (cases r) (auto simp: trade sbind_def [of "quant_admit E A S cfg sig mode"] sret_def)
  qed
qed


definition demo_signal :: QuantSignal where
  "demo_signal = new_quant_signal 3 0 Flow ''m'' BuyYes (9 / 10) 30 100"


subsection \<open>The entry is decided\<close>

lemma wp_quant_table:
  assumes "reliable S" "\<And>P s1. quiet s s1 \<Longrightarrow> Q () (s1\<lparr>sv_quant := f P (sv_quant s)\<rparr>)"
  shows "wp (with_quant_table S f) Q s"
proof -
  let ?P = "fst (sa_pg S (srv_world s))" and ?s = "set_world (snd (sa_pg S (srv_world s))) s"
  have "pg_ok ?P 0" "sv_quant ?s = sv_quant s" using assms(1) by (simp_all add: reliable_def set_world_def)
  with assms(2) [of ?s ?P] show ?thesis
    by (simp add: with_quant_table_def wp_simps)
qed

lemma wp_record_event:
  assumes "\<And>s1 db. quiet s s1 \<Longrightarrow> db_positions db = db_positions (sv_db s) \<Longrightarrow> Q () (s1\<lparr>sv_db := db\<rparr>)"
  shows "wp (record_event S ev) Q s"
proof -
  let ?P = "fst (sa_pg S (srv_world s))" and ?s = "set_world (snd (sa_pg S (srv_world s))) s"
  have "Q () (?s\<lparr>sv_db := record_warn ?P 0 ev (sv_db s)\<rparr>)"
    by (rule assms) (simp_all add: record_warn_def)
  then show ?thesis
    by (simp only: record_event_def wp_sbind wp_on_world) (simp add: wp_def set_world_def)
qed

text \<open>
  The two ways an entry ends: nothing bought and the signal failed, or the leg of the signal held
  and the signal executed and linked to the position.
\<close>

definition bought :: "num_env \<Rightarrow> QuantSignal \<Rightarrow> Leg \<Rightarrow> decimal \<Rightarrow> decimal" where
  "bought E sig leg qty = (if fill_leg (qs_direction sig) = leg then dadd E 0 qty else 0)"

definition quant_decided ::
  "num_env \<Rightarrow> reason_codec \<Rightarrow> QuantSignal \<Rightarrow> decimal \<Rightarrow> uuid \<Rightarrow> 'w server \<Rightarrow> 'w server \<Rightarrow> bool" where
  "quant_decided E J sig qty i s0 s \<longleftrightarrow>
     (\<exists>q row. stored_as J q s \<and> pos_id q = i \<and> pos_market_id q = qs_condition_id sig
        \<and> store_get (sv_quant s) (qs_id sig) = Some row
        \<and> (pos_state q = EntryFailed \<and> held_yes_qty q = 0 \<and> held_no_qty q = 0
             \<and> qr_execution_status row = ''failed'' \<and> qr_skip_reason row = Some ''order_rejected''
           \<or> pos_state q = Open \<and> quantity q = qty \<and> held_yes_qty q = bought E sig Yes qty
             \<and> held_no_qty q = bought E sig No qty \<and> qr_execution_status row = ''executed'' \<and> qr_position_id row = Some i))
     \<and> sv_cb s = sv_cb s0 \<and> sv_dedup s = sv_dedup s0
     \<and> (\<forall>k. k \<noteq> qs_id sig \<longrightarrow> store_get (sv_quant s) k = store_get (sv_quant s0) k)
     \<and> (\<forall>j. j \<noteq> i \<longrightarrow> store_get (db_positions (sv_db s)) j = store_get (db_positions (sv_db s0)) j)"

lemma update_row_get:
  "store_get (update_row i f t) k = (if k = i then map_option f (store_get t i) else store_get t k)"
  by (auto simp: update_row_def store_simps split: option.split)

lemma quant_decidedI:
  assumes "tracked n i s0 s1" "stored_as J q s1" "pos_id q = i" "pos_market_id q = qs_condition_id sig"
    and "store_get (sv_quant s0) (qs_id sig) = Some row0"
    and "sv_cb s = sv_cb s1" "sv_dedup s = sv_dedup s1" "db_positions (sv_db s) = db_positions (sv_db s1)"
    and "sv_quant s = update_row (qs_id sig) f (sv_quant s1)"
    and "pos_state q = EntryFailed \<and> held_yes_qty q = 0 \<and> held_no_qty q = 0
             \<and> qr_execution_status (f row0) = ''failed'' \<and> qr_skip_reason (f row0) = Some ''order_rejected''
         \<or> pos_state q = Open \<and> quantity q = qty \<and> held_yes_qty q = bought E sig Yes qty
             \<and> held_no_qty q = bought E sig No qty \<and> qr_execution_status (f row0) = ''executed'' \<and> qr_position_id (f row0) = Some i"
  shows "quant_decided E J sig qty i s0 s"
proof -
  have "stored_as J q s" using assms(2,8) by (simp add: stored_as_def)
  moreover have "store_get (sv_quant s) (qs_id sig) = Some (f row0)"
    using assms(1,5,9) by (simp add: update_row_get tracked_def)
  moreover have "\<forall>k. k \<noteq> qs_id sig \<longrightarrow> store_get (sv_quant s) k = store_get (sv_quant s0) k"
    using assms(1,9) by (simp add: update_row_get tracked_def)
  ultimately show ?thesis
    using assms(1,3,4,6-8,10) unfolding quant_decided_def tracked_def by metis
qed

lemma wp_quant_failed:
  assumes "reliable S" "tracked n i s0 s" "entering i (qs_condition_id sig) 0 0 q"
    and "store_get (sv_quant s0) (qs_id sig) = Some row0"
  shows "wp (quant_entry_failed E A S J sig mode q) (\<lambda>_. quant_decided E J sig qty i s0) s"
  unfolding quant_entry_failed_def update_signal_status_def record_position_failure_event_def wp_sbind
proof (rule wp_saved [OF assms(1,2), where q = q and h = "\<lambda>now. Inr (mark_entry_failed now (OrderRejected REJECTED) q)"])
  fix now q' s1
  assume q': "Inr (mark_entry_failed now (OrderRejected REJECTED) q) = (Inr q' :: svc_error + Position)"
    and tr: "tracked n i s0 s1" and st: "stored_as J q' s1"
  let ?f = "\<lambda>r. r\<lparr>qr_execution_status := ''failed'', qr_skip_reason := Some ''order_rejected''\<rparr>"
  have fields: "pos_id q' = i" "pos_market_id q' = qs_condition_id sig" "pos_state q' = EntryFailed"
    "held_yes_qty q' = 0" "held_no_qty q' = 0"
    using q' assms(3) by (auto simp: mark_entry_failed_def entering_def)
  show "wp (case (Inr (), q') of (_, q) \<Rightarrow> sbind (with_quant_table S (\<lambda>_. update_row (qs_id sig) ?f)) (\<lambda>_.
      sbind (record_event S ((state_change ''pending'' ''entry_failed'' (quant_event E sig mode ''position_failed''))
       \<lparr>te_position_id := Some (pos_id q), te_reason := Some (ReasonText ''order_rejected''),
        te_unrealized_pnl := Some (unrealized_pnl q)\<rparr>)) (\<lambda>_.
       publish (qs_condition_id sig) ''quant_execution_failed''))) (\<lambda>_. quant_decided E J sig qty i s0) s1"
    unfolding prod.case wp_sbind
    by (intro wp_quant_table [OF assms(1)] wp_record_event)
      (simp add: wp_publish, rule quant_decidedI [OF tr st fields(1,2) assms(4), where f = ?f],
        auto simp: quiet_def fields)
qed (use assms(3) in \<open>auto simp: svc_mark_entry_failed_def mark_entry_failed_def entering_def Let_def\<close>)

lemma wp_quant_opened:
  assumes "reliable S" "tracked n i s0 s" "entering i (qs_condition_id sig) 0 0 q" "filled_quantity rep = qty"
    and "store_get (sv_quant s0) (qs_id sig) = Some row0"
  shows "wp (quant_opened E A S J sig mode rep q) (\<lambda>_. quant_decided E J sig qty i s0) s"
  unfolding quant_opened_def link_signal_to_position_def wp_sbind assms(4)
proof (rule wp_entry_fill [OF assms(1-3)])
  let ?leg = "fill_leg (qs_direction sig)"
  let ?f = "\<lambda>r. r\<lparr>qr_execution_status := ''executed'', qr_position_id := Some i\<rparr>"
  fix q1 s1
  assume tr: "tracked n i s0 s1" and q1: "entering i (qs_condition_id sig) (if ?leg = Yes then dadd E 0 qty else 0)
        (if ?leg = No then dadd E 0 qty else 0) q1" "quantity q1 = qty"
  have open_ok: "map_sum Invalid id (mark_open now q1) = Inr (q1\<lparr>pos_state := Open, last_updated := now\<rparr>)" for now
    using q1 by (simp add: mark_open_def entering_def)
  show "wp (case (Inr (), q1) of (_, p1) \<Rightarrow> sbind (with_service A S (\<lambda>P now. svc_mark_open P J now (quant_ctx sig mode) p1))
      (\<lambda>(_, p2). sbind (with_quant_table S (\<lambda>_. update_row (qs_id sig)
          (\<lambda>r. r\<lparr>qr_execution_status := ''executed'', qr_position_id := Some (pos_id p2)\<rparr>))) (\<lambda>_.
        publish (qs_condition_id sig) ''quant_executed''))) (\<lambda>_. quant_decided E J sig qty i s0) s1"
    unfolding prod.case wp_sbind
  proof (rule wp_saved [OF assms(1) tr, where q = q1 and h = "\<lambda>now. map_sum Invalid id (mark_open now q1)"
      and ev = "\<lambda>now p'. state_change (state_text (pos_state q1)) ''open'' (ctx_event (quant_ctx sig mode) p' ''position_open'')"])
    fix now q2 s2
    assume "map_sum Invalid id (mark_open now q1) = Inr q2" and tr2: "tracked n i s0 s2" and st: "stored_as J q2 s2"
    then have q2: "q2 = q1\<lparr>pos_state := Open, last_updated := now\<rparr>" by (simp add: open_ok)
    have fields: "pos_id q2 = i" "pos_market_id q2 = qs_condition_id sig" "pos_state q2 = Open" "quantity q2 = qty"
      "held_yes_qty q2 = bought E sig Yes qty" "held_no_qty q2 = bought E sig No qty"
      using q1 by (simp_all add: q2 entering_def bought_def)
    show "wp (case (Inr (), q2) of (_, p2) \<Rightarrow> sbind (with_quant_table S (\<lambda>_. update_row (qs_id sig)
          (\<lambda>r. r\<lparr>qr_execution_status := ''executed'', qr_position_id := Some (pos_id p2)\<rparr>))) (\<lambda>_.
        publish (qs_condition_id sig) ''quant_executed'')) (\<lambda>_. quant_decided E J sig qty i s0) s2"
      unfolding prod.case wp_sbind fields(1)
      by (intro wp_quant_table [OF assms(1)])
        (simp add: wp_publish, rule quant_decidedI [OF tr2 st fields(1,2) assms(5), where f = ?f],
          auto simp: quiet_def fields)
  qed (use q1 in \<open>auto simp: svc_mark_open_def mark_open_def entering_def\<close>)
qed

text \<open>
  C30: A quant entry is decided when the database answers. With room for a report in the channel, a
  fresh id and the signal in its table, buying returns, and either the new position is stored as
  \<open>EntryFailed\<close> with nothing held and the signal is marked failed, or it is stored as \<open>Open\<close> with
  exactly the leg of the signal held for the whole quantity and the signal is marked executed and
  linked to it. No other position and no other signal changes, and neither the circuit breaker
  nor the dedup set of the arbitrage executor is touched.
\<close>

theorem quant_entry_decided:
  assumes "reliable S" "executor_room 1 s" "i = fst (sa_uuid S (srv_world s))"
    and "store_get (db_positions (sv_db s)) i = None" "store_get (sv_quant s) (qs_id sig) \<noteq> None"
  shows "\<exists>s'. quant_execute E A S J sig mode token price qty s = (Ok (), s') \<and> quant_decided E J sig qty i s s'"
proof -
  obtain row0 where row: "store_get (sv_quant s) (qs_id sig) = Some row0" using assms(5) by auto
  have "wp (quant_execute E A S J sig mode token price qty) (\<lambda>_. quant_decided E J sig qty i s) s"
    unfolding quant_execute_def create_quant_position_def wp_sbind
  proof (rule wp_create [OF assms(1-4)])
    fix p s1
    assume s1: "tracked 1 i s s1" and "entering i (cp_market_id (quant_params sig price qty)) 0 0 p"
    then have p: "entering i (qs_condition_id sig) 0 0 p" by (simp add: quant_params_def)
    show "wp (arb_order E A S (qs_condition_id sig) token price qty) (\<lambda>rep. wp (if \<not> is_success rep
        then quant_entry_failed E A S J sig mode p else quant_opened E A S J sig mode rep p)
        (\<lambda>_. quant_decided E J sig qty i s)) s1"
      by (rule wp_arb_order [where n = 0]) (use s1 in \<open>auto intro: wp_quant_failed [OF assms(1) _ p row]
          wp_quant_opened [OF assms(1) _ p _ row]\<close>)
  qed
  then show ?thesis by (auto simp: wp_run)
qed

theorem quant_entry_decided_witness:
  "\<exists>s'. quant_execute exact_env (sample_api 0) demo_services demo_codec demo_signal ''paper'' ''yes'' (1 / 2) 20
       (demo_server\<lparr>sv_quant := [(3, signal_row pg_exact demo_signal)]\<rparr>) = (Ok (), s')
     \<and> quant_decided exact_env demo_codec demo_signal 20 1 (demo_server\<lparr>sv_quant := [(3, signal_row pg_exact demo_signal)]\<rparr>) s'"
  by (rule quant_entry_decided)
    (simp_all add: reliable_def demo_services_def executor_room_def demo_server_def new_executor_def
      default_executor_config_def REPORT_CAPACITY_def demo_signal_def new_quant_signal_def)

end
