(* ===== verification/Quant_Slots.thy ===== *)
theory Quant_Slots
  imports Quant_Outcomes
begin

section \<open>The slots of the quant executor\<close>

text \<open>
  The quant executor holds at most one active position per market and at most the configured number
  in all. The argument does not need a database that answers: the two queries fail closed, and
  an entry writes one new row. Other tasks may run between its turns as long as they do not
  activate quant positions.
\<close>

subsection \<open>Occupied slots\<close>

definition occupied :: "position_table \<Rightarrow> uuid set" where
  "occupied t = {i. \<exists>r. store_get t i = Some r \<and> quant_row r}"

definition slots_ok :: "nat \<Rightarrow> position_table \<Rightarrow> bool" where
  "slots_ok N t \<longleftrightarrow> store_wf t \<and> card (occupied t) \<le> N
     \<and> (\<forall>i j r q. store_get t i = Some r \<and> quant_row r \<and> store_get t j = Some q \<and> quant_row q
          \<and> r_market_id r = r_market_id q \<longrightarrow> i = j)"

lemma finite_occupied: "finite (occupied t)"
  by (rule finite_subset [OF _ finite_store_dom [of t]]) (auto simp: occupied_def)

lemma count_occupied:
  assumes "store_wf t"
  shows "count_active_quant_executor_positions t = card (occupied t)"
proof -
  have "count_active_quant_executor_positions t = sum_list (map (\<lambda>_. 1) (filter quant_row (store_values t)))"
    by (simp add: count_active_quant_executor_positions_def sum_list_triv)
  also have "\<dots> = (\<Sum>k \<in> dom (store_get t). if quant_row (the (store_get t k)) then 1 else 0)"
    by (rule sum_store_values [OF assms])
  also have "\<dots> = card (dom (store_get t) \<inter> {k. quant_row (the (store_get t k))})"
    by (simp add: sum.If_cases finite_store_dom)
  also have "dom (store_get t) \<inter> {k. quant_row (the (store_get t k))} = occupied t"
    by (auto simp: occupied_def)
  finally show ?thesis .
qed

lemma market_free:
  "\<not> active_quant_executor_position_exists_for_market m t \<Longrightarrow> store_get t i = Some r \<Longrightarrow> quant_row r \<Longrightarrow> r_market_id r \<noteq> m"
  using store_get_in_values [of t i r]
  by (auto simp: active_quant_executor_position_exists_for_market_def list_ex_iff)

text \<open>One row more, for the market \<open>m\<close>.\<close>

definition row_added :: "string \<Rightarrow> position_table \<Rightarrow> position_table \<Rightarrow> bool" where
  "row_added m t t' \<longleftrightarrow> store_wf t' \<and> (\<exists>i. store_get t i = None \<and> (\<forall>j. j \<noteq> i \<longrightarrow> store_get t' j = store_get t j)
     \<and> (\<forall>r. store_get t' i = Some r \<longrightarrow> r_market_id r = m))"

lemma slots_ok_added:
  assumes "slots_ok N t" "row_added m t t'"
    and "\<not> active_quant_executor_position_exists_for_market m t" "count_active_quant_executor_positions t < N"
  shows "slots_ok N t'"
proof -
  obtain i where i: "store_get t i = None" "\<And>j. j \<noteq> i \<Longrightarrow> store_get t' j = store_get t j"
    "\<And>r. store_get t' i = Some r \<Longrightarrow> r_market_id r = m" "store_wf t'"
    using assms(2) by (auto simp: row_added_def)
  have "occupied t' \<subseteq> insert i (occupied t)" using i(2) by (auto simp: occupied_def)
  then have "card (occupied t') \<le> Suc (card (occupied t))"
    by (metis card_insert_le_m1 card_mono finite.insertI finite_occupied card_insert_if le_Suc_eq)
  then have "card (occupied t') \<le> N" using assms(1,4) count_occupied [of t] by (simp add: slots_ok_def)
  moreover have "k = j" if "store_get t' k = Some r" "quant_row r" "store_get t' j = Some q" "quant_row q"
    "r_market_id r = r_market_id q" for k j r q
  proof (rule ccontr)
    assume "k \<noteq> j"
    consider "k = i" | "j = i" | "k \<noteq> i" "j \<noteq> i" by blast
    then show False
    proof cases
      case 1
      with \<open>k \<noteq> j\<close> that i(2,3) market_free [OF assms(3), of j q] show False by auto
    next
      case 2
      with \<open>k \<noteq> j\<close> that i(2,3) market_free [OF assms(3), of k r] show False by auto
    next
      case 3
      with \<open>k \<noteq> j\<close> that i(2) assms(1) show False unfolding slots_ok_def by metis
    qed
  qed
  ultimately show ?thesis using i(4) unfolding slots_ok_def by blast
qed

subsection \<open>An entry writes one row\<close>

definition only_row :: "uuid \<Rightarrow> 'w server \<Rightarrow> 'w server \<Rightarrow> bool" where
  "only_row i s s' \<longleftrightarrow> (\<forall>j. j \<noteq> i \<longrightarrow> store_get (db_positions (sv_db s')) j = store_get (db_positions (sv_db s)) j)
     \<and> map_option r_market_id (store_get (db_positions (sv_db s')) i) = map_option r_market_id (store_get (db_positions (sv_db s)) i)
     \<and> (store_wf (db_positions (sv_db s)) \<longrightarrow> store_wf (db_positions (sv_db s')))"

interpretation orow: task_relation "only_row i"
  by unfold_locales (auto simp: only_row_def set_world_def)

lemma only_row_same: "db_positions (sv_db s') = db_positions (sv_db s) \<Longrightarrow> only_row i s s'"
  by (simp add: only_row_def)

lemma only_row_saved:
  assumes "save_and_record P J ev a p (sv_db s) = (r, q, db)" "pos_id p = i"
  shows "only_row i s (s1\<lparr>sv_db := db\<rparr>)" "q = p"
  using assms
  by (auto simp: only_row_def save_and_record_def position_update_def record_warn_def store_simps row_of_update_def
      Let_def st.wf_insert split: option.splits if_splits)

lemma only_row_service:
  fixes f :: "pg_env \<Rightarrow> datetime \<Rightarrow> pos_db \<Rightarrow> (svc_error + 'a) \<times> Position \<times> pos_db" and S :: "'w srv_api"
  assumes "\<And>P now (s :: 'w server) r q db. f P now (sv_db s) = (r, q, db) \<Longrightarrow> only_row i s (s\<lparr>sv_db := db\<rparr>)"
  shows "stays (only_row i) (with_service A S f)"
  unfolding with_service_def
proof (intro orow.rules)
  fix P
  show "stays (only_row i) (\<lambda>s. case f P (srv_now A s) (sv_db s) of (r, p, db) \<Rightarrow> (Ok (r, p), s\<lparr>sv_db := db\<rparr>))"
    using assms by (auto simp: stays_def split: prod.split)
qed

lemma entry_services:
  assumes "pos_id p = i"
  shows "stays (only_row i) (with_service A S (\<lambda>P now. svc_mark_entry_failed P J now fr ctx p))"
    and "stays (only_row i) (with_service A S (\<lambda>P now. svc_record_entry_fill E P J now leg price qty ctx p))"
    and "stays (only_row i) (with_service A S (\<lambda>P now. svc_mark_open P J now ctx p))"
proof -
  show "stays (only_row i) (with_service A S (\<lambda>P now. svc_mark_entry_failed P J now fr ctx p))"
    by (rule only_row_service) (auto simp: svc_mark_entry_failed_def Let_def mark_entry_failed_def assms
        dest: only_row_saved(1) [where i = i])
  show "stays (only_row i) (with_service A S (\<lambda>P now. svc_record_entry_fill E P J now leg price qty ctx p))"
    by (rule only_row_service) (cases leg; auto simp: svc_record_entry_fill_def Let_def apply_yes_entry_fill_def
        apply_no_entry_fill_def assms dest: only_row_saved(1) [where i = i])
  show "stays (only_row i) (with_service A S (\<lambda>P now. svc_mark_open P J now ctx p))"
    by (rule only_row_service) (auto simp: svc_mark_open_def mark_open_def assms only_row_same
        dest: only_row_saved(1) [where i = i] split: if_splits)
qed

lemma filled_id:
  assumes "with_service A S (\<lambda>P now. svc_record_entry_fill E P J now leg price qty ctx p) s = (Ok (r, q), s')"
  shows "pos_id q = pos_id p"
  using assms
  by (cases leg) (auto simp: with_service_def sbind_on_world svc_record_entry_fill_def Let_def apply_yes_entry_fill_def
      apply_no_entry_fill_def save_and_record_def split: prod.splits option.splits)

lemma only_row_steps:
  "stays (only_row i) (with_quant_table S f)"
  "stays (only_row i) (record_event S ev)"
  "stays (only_row i) (publish m a)"
  "stays (only_row i) (arb_order E A S m token price qty)"
proof -
  show "stays (only_row i) (with_quant_table S f)"
    unfolding with_quant_table_def by (intro orow.rules orow.smod) (simp add: only_row_same)
  show "stays (only_row i) (record_event S ev)"
    unfolding record_event_def by (intro orow.rules orow.updates) (simp add: only_row_same record_warn_def)
  show "stays (only_row i) (publish m a)"
    unfolding publish_def by (rule orow.smod) (simp add: only_row_same)
  show "stays (only_row i) (arb_order E A S m token price qty)"
    unfolding arb_order_def
    by (intro orow.rules staysI) (simp add: run_market_order_def only_row_same split: prod.split ended.split)
qed

lemma quant_opened_row: "pos_id p = i \<Longrightarrow> stays (only_row i) (quant_opened E A S J sig mode rep p)"
  unfolding quant_opened_def link_signal_to_position_def
  by (intro orow.sbind_value entry_services orow.sbind only_row_steps stays_cases)
    (auto dest: filled_id intro: only_row_steps)

lemma quant_failed_row: "pos_id p = i \<Longrightarrow> stays (only_row i) (quant_entry_failed E A S J sig mode p)"
  unfolding quant_entry_failed_def update_signal_status_def record_position_failure_event_def
  by (intro orow.sbind entry_services only_row_steps stays_cases)

lemma create_stored_cases:
  assumes "create_stored E A S J params ctx txt s = (r, s1)"
  obtains (failed) e where "r = Err e" "db_positions (sv_db s1) = db_positions (sv_db s)"
  | (created) p row where "r = Ok p" "store_get (db_positions (sv_db s)) (pos_id p) = None"
      "db_positions (sv_db s1) = store_insert (pos_id p) row (db_positions (sv_db s))" "r_market_id row = cp_market_id params"
proof -
  let ?s = "set_world (snd (sa_uuid S (srv_world s))) s"
  let ?P = "fst (sa_pg S (srv_world ?s))" and ?s2 = "set_world (snd (sa_pg S (srv_world ?s))) ?s"
  let ?p0 = "new_position E (fst (sa_uuid S (srv_world s))) (srv_now A ?s2) (cp_market_id params) (cp_yes_entry_price params)
      (cp_no_entry_price params) (cp_quantity params) (cp_exit_strategy params)"
  let ?p = "case cp_arb_opportunity params of Some arb \<Rightarrow> apply_arb_fee_model arb ?p0 | None \<Rightarrow> ?p0"
  have m: "pos_market_id ?p = cp_market_id params"
    by (simp add: apply_arb_fee_model_def new_position_def Let_def split: option.split)
  have db: "sv_db ?s2 = sv_db s" by (simp add: set_world_def)
  show thesis
  proof (cases "insert_with_source ?P 0 J (cp_source params) (cp_source_signal_id params) ?p (db_positions (sv_db s))")
    case None
    then have "r = Err (txt @ sa_svc_text S RepoFailed)" "s1 = ?s2\<lparr>sv_db := sv_db s\<rparr>"
      using assms by (auto simp: create_stored_def sbind_on_world svc_create_position_def Let_def db)
    then show thesis by (intro failed) simp_all
  next
    case (Some t)
    let ?row = "row_of_insert ?P J (cp_source params) (cp_source_signal_id params) ?p"
    from Some have t: "store_get (db_positions (sv_db s)) (pos_id ?p) = None"
      "t = store_insert (pos_id ?p) ?row (db_positions (sv_db s))"
      by (auto simp: insert_with_source_def split: if_splits)
    have "r = Ok ?p" "db_positions (sv_db s1) = t"
      using assms Some by (auto simp: create_stored_def sbind_on_world svc_create_position_def Let_def db record_warn_def)
    with t m show thesis by (intro created [of ?p ?row]) (simp_all add: row_of_insert_def Let_def)
  qed
qed

lemma quant_execute_row:
  assumes "store_wf (db_positions (sv_db s))"
  shows "db_positions (sv_db (snd (quant_execute E A S J sig mode token price qty s))) = db_positions (sv_db s)
    \<or> row_added (qs_condition_id sig) (db_positions (sv_db s))
        (db_positions (sv_db (snd (quant_execute E A S J sig mode token price qty s))))"
proof -
  let ?m = "create_stored E A S J (quant_params sig price qty) (quant_ctx sig mode) []"
  let ?rest = "\<lambda>p. sbind (arb_order E A S (qs_condition_id sig) token price qty) (\<lambda>rep.
      if \<not> is_success rep then quant_entry_failed E A S J sig mode p else quant_opened E A S J sig mode rep p)"
  obtain r s1 where r: "?m s = (r, s1)" by fastforce
  then show ?thesis
  proof (cases rule: create_stored_cases)
    case (failed e)
    with r show ?thesis by (simp add: quant_execute_def create_quant_position_def sbind_def [of ?m])
  next
    case (created p row)
    have "stays (only_row (pos_id p)) (?rest p)"
      by (intro orow.sbind only_row_steps stays_cases quant_failed_row quant_opened_row) simp_all
    then have "only_row (pos_id p) s1 (snd (?rest p s1))" by (simp add: stays_def)
    with created assms have "row_added (qs_condition_id sig) (db_positions (sv_db s)) (db_positions (sv_db (snd (?rest p s1))))"
      by (auto simp: row_added_def only_row_def store_simps st.wf_insert quant_params_def intro!: exI [of _ "pos_id p"])
    with r created(1) show ?thesis by (simp add: quant_execute_def create_quant_position_def sbind_def [of ?m])
  qed
qed

subsection \<open>One signal\<close>

lemma no_entry_table: "no_entry s s' \<Longrightarrow> db_positions (sv_db s') = db_positions (sv_db s)"
  by (simp add: no_entry_def)

lemma passed_limits:
  assumes "quant_limits E S cfg sig mode s = (Ok True, s')"
  shows "count_active_quant_executor_positions (db_positions (sv_db s)) < max_quant_positions cfg"
  using quant_limits_block [of cfg s E S sig mode] assms by (fastforce simp: quant_full_def not_le [symmetric])

lemma passed_duplicate:
  assumes "quant_admit E A S cfg sig mode s = (Ok True, s')"
  shows "\<not> active_quant_executor_position_exists_for_market (qs_condition_id sig) (db_positions (sv_db s))"
  using quant_admit_blocks [of A S cfg sig s E mode] assms by (auto simp: quant_blocked_def)

lemma quant_trade_row:
  assumes "store_wf (db_positions (sv_db s))"
  shows "db_positions (sv_db (snd (quant_trade E A S J cfg sig mode s))) = db_positions (sv_db s)
    \<or> row_added (qs_condition_id sig) (db_positions (sv_db s)) (db_positions (sv_db (snd (quant_trade E A S J cfg sig mode s))))
      \<and> \<not> active_quant_executor_position_exists_for_market (qs_condition_id sig) (db_positions (sv_db s))
      \<and> count_active_quant_executor_positions (db_positions (sv_db s)) < max_quant_positions cfg"
proof -
  obtain r s1 where a: "quant_admit E A S cfg sig mode s = (r, s1)" by fastforce
  obtain r2 s2 where p: "quant_plan E S cfg sig mode s1 = (r2, s2)" by fastforce
  obtain r3 s3 where l: "quant_limits E S cfg sig mode s2 = (r3, s3)" by fastforce
  have t1: "db_positions (sv_db s1) = db_positions (sv_db s)"
    by (rule no_entry_table [OF stays_run [OF idle_checks(2) a]])
  have t2: "db_positions (sv_db s2) = db_positions (sv_db s)"
    using no_entry_table [OF stays_run [OF idle_plan p]] t1 by simp
  have t3: "db_positions (sv_db s3) = db_positions (sv_db s)"
    using no_entry_table [OF stays_run [OF idle_checks(3) l]] t2 by simp
  let ?run = "quant_trade E A S J cfg sig mode s"
  have "(\<exists>token price qty. r = Ok True \<and> r3 = Ok True \<and> ?run = quant_execute E A S J sig mode token price qty s3)
      \<or> snd ?run \<in> {s1, s2, s3}"
    by (cases r; cases r2; cases r3)
      (auto simp: quant_trade_def sbind_def [of "quant_admit E A S cfg sig mode"] a sret_def
        sbind_def [of "quant_plan E S cfg sig mode"] p sbind_def [of "quant_limits E S cfg sig mode"] l
        split: option.split)
  then show ?thesis
  proof (elim disjE exE conjE)
    fix token price qty
    assume ok: "r = Ok True" "r3 = Ok True" and run: "?run = quant_execute E A S J sig mode token price qty s3"
    show ?thesis
      using quant_execute_row [of s3 E A S J sig mode token price qty] assms t2 t3 a l ok
        passed_duplicate [of E A S cfg sig mode s s1] passed_limits [of E S cfg sig mode s2 s3]
      by (simp add: run)
  next
    assume "snd ?run \<in> {s1, s2, s3}"
    with t1 t2 t3 show ?thesis by auto
  qed
qed

lemma process_slots:
  assumes "slots_ok N (db_positions (sv_db s))" "max_quant_positions cfg \<le> N"
  shows "slots_ok N (db_positions (sv_db (snd (process_quant_signal E A S J cfg sig s))))"
proof -
  let ?mode = "quant_mode cfg s"
  obtain r s1 where a: "quant_announce E S sig ?mode s = (r, s1)" by fastforce
  then have "waits_idle S s s1" by (rule stays_run [OF quant_skip_waits(5)])
  then have t: "db_positions (sv_db s1) = db_positions (sv_db s)" by (simp add: waits_idle_def waits_def no_entry_def)
  have "store_wf (db_positions (sv_db s1))" using assms(1) t by (simp add: slots_ok_def)
  then have "slots_ok N (db_positions (sv_db (snd (quant_trade E A S J cfg sig ?mode s1))))"
    using quant_trade_row [of s1 E A S J cfg sig ?mode] assms slots_ok_added [of N] by (auto simp: t)
  with a t assms(1) show ?thesis
    by (auto simp: process_quant_signal_def sbranch_def sbind_def split: flow.split)
qed

text \<open>The other events of the loop do not touch the positions.\<close>

definition same_table :: "'w server \<Rightarrow> 'w server \<Rightarrow> bool" where
  "same_table s s' \<longleftrightarrow> db_positions (sv_db s') = db_positions (sv_db s)"

interpretation same: task_relation same_table
  by unfold_locales (auto simp: same_table_def set_world_def)

lemma same_table_events:
  "stays same_table (sync_strategy_outcomes E A S cfg)"
  "stays same_table (on_own_cache (cache_refresh S))"
proof -
  have o: "stays same_table (record_strategy_outcome E A S cfg k pnl)" for k pnl
    unfolding record_strategy_outcome_def Let_def
    by (intro same.rules stays_cases same.smod) (simp_all add: same_table_def)
  have "stays same_table (fold_outcome E A S cfg x)" for x
    unfolding fold_outcome_def by (intro same.rules stays_cases same.smod o) (simp_all add: same_table_def)
  then show "stays same_table (sync_strategy_outcomes E A S cfg)"
    unfolding sync_strategy_outcomes_def
    by (intro same.rules stays_cases same.smod) (simp_all add: same_table_def roll_processed_def)
  show "stays same_table (on_own_cache (cache_refresh S))"
  proof (rule staysI)
    fix s :: "'a server"
    let ?s = "s\<lparr>sv_tokens := (sv_tokens s)\<lparr>tc_tokens := sv_quant_tokens s\<rparr>\<rparr>"
    obtain r s1 where m: "cache_refresh S ?s = (r, s1)" by fastforce
    then have "quiet ?s s1" by (rule stays_run [OF quiet_cache_refresh])
    with m show "same_table s (snd (on_own_cache (cache_refresh S) s))"
      by (simp add: on_own_cache_def same_table_def quiet_def)
  qed
qed

lemma wake_slots:
  assumes "slots_ok N (db_positions (sv_db s))" "max_quant_positions cfg \<le> N"
  shows "slots_ok N (db_positions (sv_db (snd (quant_wake E A S J cfg ev s))))"
proof (cases ev)
  case (QuantWake sig)
  obtain r s1 where p: "process_quant_signal E A S J cfg sig s = (r, s1)" by fastforce
  with process_slots [OF assms, of E A S J sig] QuantWake show ?thesis
    by (cases r) (simp_all add: quant_wake_def log_error_def)
next
  case QuantCacheRefresh
  then have "stays same_table (quant_wake E A S J cfg ev)"
    by (auto simp: quant_wake_def intro!: same.rules same_table_events)
  with assms(1) show ?thesis by (metis stays_def same_table_def)
next
  case OutcomeTick
  then have "stays same_table (quant_wake E A S J cfg ev)"
    by (auto simp: quant_wake_def intro!: same_table_events)
  with assms(1) show ?thesis by (metis stays_def same_table_def)
qed (use assms(1) in \<open>simp_all add: quant_wake_def sret_def\<close>)

subsection \<open>Every run\<close>

text \<open>
  A step is a turn of the quant executor with any configuration whose limit is at most \<open>N\<close>, or any
  change by other tasks that activates no quant position.
\<close>

definition activates_none :: "position_table \<Rightarrow> position_table \<Rightarrow> bool" where
  "activates_none t t' \<longleftrightarrow> (store_wf t \<longrightarrow> store_wf t') \<and> (\<forall>i r'. store_get t' i = Some r' \<and> quant_row r' \<longrightarrow>
     (\<exists>r. store_get t i = Some r \<and> quant_row r \<and> r_market_id r = r_market_id r'))"

inductive slot_step ::
  "num_env \<Rightarrow> ('w, 'o) clob_api \<Rightarrow> 'w srv_api \<Rightarrow> reason_codec \<Rightarrow> nat \<Rightarrow> 'w server \<Rightarrow> 'w server \<Rightarrow> bool"
  for E A S J N where
  turn: "max_quant_positions cfg \<le> N \<Longrightarrow> slot_step E A S J N s (snd (quant_wake E A S J cfg ev s))"
| other: "activates_none (db_positions (sv_db s)) (db_positions (sv_db s')) \<Longrightarrow> slot_step E A S J N s s'"

lemma slots_ok_none:
  assumes "slots_ok N t" "activates_none t t'"
  shows "slots_ok N t'"
proof -
  have sub: "occupied t' \<subseteq> occupied t" using assms(2) by (auto simp: activates_none_def occupied_def)
  have "card (occupied t') \<le> N"
    using card_mono [OF finite_occupied sub] assms(1) by (simp add: slots_ok_def)
  with assms show ?thesis unfolding slots_ok_def activates_none_def by (metis (no_types, lifting))
qed

interpretation slots: machine "\<lambda>s. slots_ok N (db_positions (sv_db s))" "slot_step E A S J N" "\<lambda>s. slots_ok N (db_positions (sv_db s))"
  by unfold_locales (auto elim!: slot_step.cases intro: wake_slots slots_ok_none)

text \<open>
  C28: The quant executor never holds more positions than it may. From a table of positions with at most
  \<open>N\<close> active quant positions and at most one per market, in every state of any run (its turns on any
  signals and ticks, with any answers and failures of the database, the exchange and the market
  services, interleaved with other tasks that activate no quant position) the number of active
  quant positions is at most \<open>N\<close> and no market has two of them.
\<close>

theorem quant_slots_bounded:
  assumes "reach (\<lambda>s. slots_ok N (db_positions (sv_db s))) (slot_step E A S J N) s"
  shows "count_active_quant_executor_positions (db_positions (sv_db s)) \<le> N
    \<and> (\<forall>i j r q. store_get (db_positions (sv_db s)) i = Some r \<and> quant_row r
         \<and> store_get (db_positions (sv_db s)) j = Some q \<and> quant_row q \<and> r_market_id r = r_market_id q \<longrightarrow> i = j)"
proof -
  have "slots_ok N (db_positions (sv_db s))" using assms by (rule slots.inv_reach)
  then show ?thesis using count_occupied [of "db_positions (sv_db s)"] unfolding slots_ok_def by simp
qed

theorem quant_slots_bounded_witness:
  "count_active_quant_executor_positions (db_positions (sv_db (snd (quant_wake exact_env (sample_api 0) demo_services
     demo_codec ((default_quant_config exact_env)\<lparr>qe_enabled := True\<rparr>) (QuantWake demo_signal) demo_server)))) \<le> 20"
proof (rule conjunct1 [OF quant_slots_bounded])
  have "slots_ok 20 (db_positions (sv_db demo_server))"
    by (auto simp: slots_ok_def demo_server_def store_wf_def occupied_def quant_row_def row_of_insert_def
        SOURCE_ARBITRAGE_def SOURCE_RECOMMENDATION_def Let_def split: if_splits)
  then show "reach (\<lambda>s. slots_ok 20 (db_positions (sv_db s))) (slot_step exact_env (sample_api 0) demo_services demo_codec 20)
     (snd (quant_wake exact_env (sample_api 0) demo_services demo_codec
       ((default_quant_config exact_env)\<lparr>qe_enabled := True\<rparr>) (QuantWake demo_signal) demo_server))"
    by (rule reach_step [OF reach_start]) (rule slot_step.turn, simp add: default_quant_config_def)
qed

end
