(* ===== verification/Quant_Restart.thy ===== *)
theory Quant_Restart
  imports Quant_Executor
begin

section \<open>Restarting the quant executor\<close>

text \<open>
  At startup the executor first folds the positions closed today into fresh strategy states, and
  stores each of them; only then it loads the stored states. So what is loaded is what was just
  rebuilt.
\<close>

text \<open>The outcomes of one kind, as the breaker of the strategy counts them.\<close>

definition pnls_of :: "QuantSignalKind \<Rightarrow> (uuid \<times> string \<times> decimal) list \<Rightarrow> decimal list" where
  "pnls_of k outs = map (snd \<circ> snd) (filter (\<lambda>(i, kind, pnl). parse_quant_signal_kind kind = Some k \<and> pnl \<noteq> 0) outs)"

lemma pnls_of_snoc:
  "pnls_of k (outs @ [(i, kind, pnl)]) =
     pnls_of k outs @ (if parse_quant_signal_kind kind = Some k \<and> pnl \<noteq> 0 then [pnl] else [])"
  by (simp add: pnls_of_def)

lemma pnls_of_Nil [simp]: "pnls_of k [] = []"
  by (simp add: pnls_of_def)

lemma length_pnls_of: "length (pnls_of k outs) \<le> length outs"
  by (simp add: pnls_of_def)

lemma wp_for_each:
  assumes "I [] s"
    and "\<And>ys x zs s. xs = ys @ x # zs \<Longrightarrow> I ys s \<Longrightarrow> wp (f x) (\<lambda>_. I (ys @ [x])) s"
  shows "wp (for_each f xs) (\<lambda>_. I xs) s"
proof -
  have "wp (for_each f zs) (\<lambda>_. I xs) s" if "xs = ys @ zs" "I ys s" for ys zs s
    using that
  proof (induction zs arbitrary: ys s)
    case Nil
    then show ?case by (simp add: wp_sret)
  next
    case (Cons x zs)
    show ?case unfolding for_each.simps wp_sbind
    proof (rule wp_mono [OF assms(2) [OF Cons.prems]])
      fix a s'
      assume "I (ys @ [x]) s'"
      with Cons.prems(1) show "wp (for_each f zs) (\<lambda>_. I xs) s'" by (intro Cons.IH) simp_all
    qed
  qed
  from this [of "[]" xs] assms(1) show ?thesis by simp
qed

text \<open>
  After the outcomes \<open>ys\<close>: each strategy has counted its own, at times of the day \<open>d\<close>, and its row is
  that of its state once it has counted one.
\<close>

definition rebuilt ::
  "num_env \<Rightarrow> QuantSignalExecutorConfig \<Rightarrow> datetime \<Rightarrow> int \<Rightarrow> (uuid \<times> string \<times> decimal) list \<Rightarrow> 'w server \<Rightarrow> bool" where
  "rebuilt E cfg t0 d ys s \<longleftrightarrow> sv_processed s = fst ` set ys
     \<and> (\<forall>k. \<exists>evs. store_get (sv_strategies s) k = Some (run_outcomes E (strategy_max_daily_loss_usd cfg)
            (strategy_max_consecutive_losses cfg) evs (new_strategy t0))
          \<and> map snd evs = pnls_of k ys \<and> (\<forall>t x. (t, x) \<in> set evs \<longrightarrow> date_naive t = d)
          \<and> (evs \<noteq> [] \<longrightarrow> (\<exists>P. store_get (sv_risk_rows s) (quant_kind_str k) = Some (row_of_strategy P
              (run_outcomes E (strategy_max_daily_loss_usd cfg) (strategy_max_consecutive_losses cfg) evs (new_strategy t0))))))"

lemma rebuiltD:
  assumes "rebuilt E cfg t0 d ys s"
  obtains evs where "store_get (sv_strategies s) k = Some (run_outcomes E (strategy_max_daily_loss_usd cfg)
            (strategy_max_consecutive_losses cfg) evs (new_strategy t0))"
    "map snd evs = pnls_of k ys" "\<And>t x. (t, x) \<in> set evs \<Longrightarrow> date_naive t = d"
    "evs \<noteq> [] \<Longrightarrow> \<exists>P. store_get (sv_risk_rows s) (quant_kind_str k) = Some (row_of_strategy P
              (run_outcomes E (strategy_max_daily_loss_usd cfg) (strategy_max_consecutive_losses cfg) evs (new_strategy t0)))"
  using assms unfolding rebuilt_def by blast

lemma run_outcomes_snoc:
  "run_outcomes E maxd maxn (evs @ [(t, x)]) st = snd (record_outcome E t x maxd maxn (run_outcomes E maxd maxn evs st))"
  by (simp add: run_outcomes_def)

lemma wp_record_strategy_outcome:
  assumes "reliable S" "rebuilt E cfg t0 d ys s0" "\<And>w. date_naive (api_now A w) = d"
    and "parse_quant_signal_kind kind = Some k" "i \<notin> fst ` set ys"
    and "s = s0\<lparr>sv_processed := insert i (sv_processed s0)\<rparr>"
  shows "wp (record_strategy_outcome E A S cfg k pnl) (\<lambda>_. rebuilt E cfg t0 d (ys @ [(i, kind, pnl)])) s"
proof (cases "pnl = 0")
  case True
  have "pnls_of j (ys @ [(i, kind, pnl)]) = pnls_of j ys" for j using True by (simp add: pnls_of_snoc)
  with assms(2,6) True show ?thesis
    by (simp add: record_strategy_outcome_def wp_sret rebuilt_def)
next
  case False
  let ?maxd = "strategy_max_daily_loss_usd cfg" and ?maxn = "strategy_max_consecutive_losses cfg"
  let ?run = "\<lambda>evs. run_outcomes E ?maxd ?maxn evs (new_strategy t0)"
  obtain evs where evs: "store_get (sv_strategies s0) k = Some (?run evs)" "map snd evs = pnls_of k ys"
    "\<And>t x. (t, x) \<in> set evs \<Longrightarrow> date_naive t = d"
    by (rule rebuiltD [OF assms(2), of k]) (rule that)
  let ?t = "srv_now A s" and ?evs = "evs @ [(srv_now A s, pnl)]"
  have day: "date_naive ?t = d" by (simp add: srv_now_def assms(3))
  let ?P = "fst (sa_pg S (srv_world s))" and ?s1 = "s\<lparr>sv_strategies := store_insert k (?run ?evs) (sv_strategies s)\<rparr>"
  let ?w = "snd (sa_pg S (srv_world s))"
  let ?s2 = "(set_world ?w ?s1)\<lparr>sv_risk_rows := store_insert (quant_kind_str k) (row_of_strategy ?P (?run ?evs)) (sv_risk_rows s)\<rparr>"
  have "rebuilt E cfg t0 d (ys @ [(i, kind, pnl)]) ?s2"
    unfolding rebuilt_def
  proof (intro conjI allI)
    show "sv_processed ?s2 = fst ` set (ys @ [(i, kind, pnl)])"
      using assms(2,6) by (simp add: rebuilt_def set_world_def)
    fix j
    show "\<exists>evs. store_get (sv_strategies ?s2) j = Some (?run evs) \<and> map snd evs = pnls_of j (ys @ [(i, kind, pnl)])
        \<and> (\<forall>t x. (t, x) \<in> set evs \<longrightarrow> date_naive t = d)
        \<and> (evs \<noteq> [] \<longrightarrow> (\<exists>P. store_get (sv_risk_rows ?s2) (quant_kind_str j) = Some (row_of_strategy P (?run evs))))"
    proof (cases "j = k")
      case True
      have "map snd ?evs = pnls_of j (ys @ [(i, kind, pnl)])" using True False assms(4) evs(2) by (simp add: pnls_of_snoc)
      moreover have "\<forall>t x. (t, x) \<in> set ?evs \<longrightarrow> date_naive t = d" using evs(3) day by auto
      ultimately show ?thesis
        using True by (intro exI [of _ ?evs]) (auto simp: set_world_def store_simps)
    next
      case other: False
      obtain evs' where e: "store_get (sv_strategies s0) j = Some (?run evs')" "map snd evs' = pnls_of j ys"
        "\<And>t x. (t, x) \<in> set evs' \<Longrightarrow> date_naive t = d"
        "evs' \<noteq> [] \<Longrightarrow> \<exists>P. store_get (sv_risk_rows s0) (quant_kind_str j) = Some (row_of_strategy P (?run evs'))"
        by (rule rebuiltD [OF assms(2), of j]) (rule that)
      have "quant_kind_str j \<noteq> quant_kind_str k" using other quant_kind_str_inj by blast
      with e other assms(4,6) show ?thesis
        by (intro exI [of _ evs']) (auto simp: set_world_def store_simps pnls_of_snoc)
    qed
  qed
  moreover have "pg_ok ?P 0" using assms(1) by (simp add: reliable_def)
  moreover have "srv_world ?s1 = srv_world s" by (simp add: srv_world_def)
  moreover have "sv_strategies s = sv_strategies s0" using assms(6) by simp
  ultimately show ?thesis
    using False evs(1)
    by (simp add: record_strategy_outcome_def wp_simps Let_def run_outcomes_snoc strategy_persist_def set_world_def)
qed

lemma wp_fold_outcome:
  assumes "reliable S" "rebuilt E cfg t0 d ys s" "\<And>w. date_naive (api_now A w) = d" "fst x \<notin> fst ` set ys"
  shows "wp (fold_outcome E A S cfg x) (\<lambda>_. rebuilt E cfg t0 d (ys @ [x])) s"
proof -
  obtain i kind pnl where x: "x = (i, kind, pnl)" by (metis prod_cases3)
  have new: "i \<notin> sv_processed s" using assms(2,4) x by (simp add: rebuilt_def)
  show ?thesis
  proof (cases "parse_quant_signal_kind kind")
    case None
    then have "pnls_of k (ys @ [x]) = pnls_of k ys" for k by (simp add: x pnls_of_snoc)
    with None new assms(2) show ?thesis
      by (simp add: x fold_outcome_def wp_simps rebuilt_def)
  next
    case (Some k)
    with new wp_record_strategy_outcome [OF assms(1-3) Some _ refl, of i pnl] assms(4) show ?thesis
      by (simp add: x fold_outcome_def wp_simps)
  qed
qed

lemma rebuilt_start:
  assumes "date_naive (srv_now A s) = d"
  shows "rebuilt E cfg (srv_now A s) d [] (new_quant_executor A s)"
proof -
  have "store_get (sv_strategies (new_quant_executor A s)) k = Some (new_strategy (srv_now A s))" for k
    by (cases k) (simp_all add: new_quant_executor_def strategy_kinds_def)
  then show ?thesis
    unfolding rebuilt_def by (auto simp: new_quant_executor_def run_outcomes_def intro!: exI [of _ "[]"])
qed

text \<open>Loading a strategy whose row is there gives what the row says.\<close>

definition loaded :: "(string, strategy_row) store \<Rightarrow> QuantSignalKind set \<Rightarrow> 'w server \<Rightarrow> bool" where
  "loaded rows ks s \<longleftrightarrow> sv_risk_rows s = rows
     \<and> (\<forall>k \<in> ks. \<forall>r. store_get rows (quant_kind_str k) = Some r \<longrightarrow> store_get (sv_strategies s) k = Some (strategy_of_row r))"

lemma wp_load_strategy:
  assumes "reliable S" "loaded rows ks s"
  shows "wp (load_strategy A S k) (\<lambda>_. loaded rows (insert k ks)) s"
proof -
  have "pg_ok (fst (sa_pg S (srv_world s))) 0" using assms(1) by (simp add: reliable_def)
  with assms(2) show ?thesis
    by (auto simp: load_strategy_def wp_simps loaded_def strategy_load_def set_world_def store_simps)
qed

lemma wp_load_all:
  assumes "reliable S"
  shows "wp (for_each (load_strategy A S) strategy_kinds) (\<lambda>_. loaded (sv_risk_rows s) UNIV) s"
proof -
  have "wp (for_each (load_strategy A S) strategy_kinds) (\<lambda>_. loaded (sv_risk_rows s) (set strategy_kinds)) s"
    by (rule wp_for_each [where I = "\<lambda>ys. loaded (sv_risk_rows s) (set ys)"])
      (auto simp: loaded_def intro: wp_mono [OF wp_load_strategy [OF assms]])
  moreover have "set strategy_kinds = UNIV"
    by (auto simp: strategy_kinds_def intro: QuantSignalKind.exhaust)
  ultimately show ?thesis by simp
qed

lemma rebuilt_state:
  assumes "rebuilt E cfg t0 d outs s" "date_naive t0 = d" "length outs < 2 ^ 32" "pnls_of k outs \<noteq> []"
  obtains r where "store_get (sv_risk_rows s) (quant_kind_str k) = Some r"
    "unat (ss_losses (strategy_of_row r)) = streak (pnls_of k outs)"
    "ss_halted (strategy_of_row r) \<longleftrightarrow> (\<exists>j \<in> {1..length (pnls_of k outs)}. breach E (strategy_max_daily_loss_usd cfg)
       (strategy_max_consecutive_losses cfg) (take j (pnls_of k outs)))"
proof -
  let ?maxd = "strategy_max_daily_loss_usd cfg" and ?maxn = "strategy_max_consecutive_losses cfg"
  let ?run = "\<lambda>evs. run_outcomes E ?maxd ?maxn evs (new_strategy t0)"
  obtain evs where evs: "map snd evs = pnls_of k outs" "\<And>t x. (t, x) \<in> set evs \<Longrightarrow> date_naive t = d"
    "evs \<noteq> [] \<Longrightarrow> \<exists>P. store_get (sv_risk_rows s) (quant_kind_str k) = Some (row_of_strategy P (?run evs))"
    by (rule rebuiltD [OF assms(1), of k]) (rule that)
  have len: "length evs = length (pnls_of k outs)" using arg_cong [OF evs(1), of length] by simp
  then have small: "length evs < 2 ^ 32" using assms(3) length_pnls_of [of k outs] by simp
  have "evs \<noteq> []" using len assms(4) by auto
  with evs(3) obtain P where row: "store_get (sv_risk_rows s) (quant_kind_str k) = Some (row_of_strategy P (?run evs))" by blast
  have t: "tallies E ?maxd ?maxn evs (?run evs)"
    using evs(2) assms(2) small by (intro conjunct1 [OF run_outcomes_tallies]) simp_all
  have take: "map snd (take j evs) = take j (pnls_of k outs)" for j
    by (metis take_map evs(1))
  show thesis
    using t unfolding tallies_def evs(1) len take
    by (intro that [OF row]) (simp_all add: strategy_of_row_def row_of_strategy_def)
qed

text \<open>
  C32: A restart rebuilds the breakers from the positions closed today and forgets what was stored. With
  a database that answers, on one day, and one signal per position, after startup a strategy with
  outcomes today is halted exactly when some prefix of all its outcomes of the day breached a
  limit, and its losing streak is that of the whole day. So a halt that a cooldown had lifted
  before the restart, which also resets the streak, is imposed again by the restart.
\<close>

theorem restart_rebuilds_breakers:
  fixes A :: "('w, 'o) clob_api" and s :: "'w server"
  defines "outs \<equiv> quant_outcomes (day_start (srv_now A s)) (db_positions (sv_db s)) (sv_quant s)"
  assumes "reliable S" "\<And>w. date_naive (api_now A w) = date_naive (srv_now A s)"
    and "distinct (map fst outs)" "length outs < 2 ^ 32" "pnls_of k outs \<noteq> []"
  shows "\<exists>s' st. quant_startup E A S cfg s = (Ok (), s') \<and> store_get (sv_strategies s') k = Some st
    \<and> unat (ss_losses st) = streak (pnls_of k outs)
    \<and> (ss_halted st \<longleftrightarrow> (\<exists>j \<in> {1..length (pnls_of k outs)}. breach E (strategy_max_daily_loss_usd cfg)
         (strategy_max_consecutive_losses cfg) (take j (pnls_of k outs))))"
proof -
  let ?d = "date_naive (srv_now A s)" and ?t0 = "srv_now A s"
  let ?Q = "\<lambda>s'. \<exists>st. store_get (sv_strategies s') k = Some st \<and> unat (ss_losses st) = streak (pnls_of k outs)
    \<and> (ss_halted st \<longleftrightarrow> (\<exists>j \<in> {1..length (pnls_of k outs)}. breach E (strategy_max_daily_loss_usd cfg)
         (strategy_max_consecutive_losses cfg) (take j (pnls_of k outs))))"
  have load: "wp (for_each (load_strategy A S) strategy_kinds) (\<lambda>_. ?Q) s1" if re: "rebuilt E cfg ?t0 ?d outs s1" for s1
  proof -
    obtain r where r: "store_get (sv_risk_rows s1) (quant_kind_str k) = Some r"
      "unat (ss_losses (strategy_of_row r)) = streak (pnls_of k outs)"
      "ss_halted (strategy_of_row r) \<longleftrightarrow> (\<exists>j \<in> {1..length (pnls_of k outs)}. breach E (strategy_max_daily_loss_usd cfg)
       (strategy_max_consecutive_losses cfg) (take j (pnls_of k outs)))"
      by (rule rebuilt_state [OF re refl assms(5,6)]) (rule that)
    show ?thesis
      by (rule wp_mono [OF wp_load_all [OF assms(2)]]) (use r in \<open>auto simp: loaded_def\<close>)
  qed
  have fold: "wp (for_each (fold_outcome E A S cfg) outs) (\<lambda>_. rebuilt E cfg ?t0 ?d outs) s1"
    if "rebuilt E cfg ?t0 ?d [] s1" for s1
  proof (rule wp_for_each [where I = "rebuilt E cfg ?t0 ?d"])
    show "rebuilt E cfg ?t0 ?d [] s1" by (rule that)
    fix ys x zs and s2 :: "'w server"
    assume "outs = ys @ x # zs" "rebuilt E cfg ?t0 ?d ys s2"
    with assms(4) show "wp (fold_outcome E A S cfg x) (\<lambda>_. rebuilt E cfg ?t0 ?d (ys @ [x])) s2"
      by (intro wp_fold_outcome assms(2,3)) auto
  qed
  let ?s0 = "new_quant_executor A s"
  have roll: "roll_processed A ?s0 = ?s0"
    using assms(3) [of "srv_world s"] by (simp add: roll_processed_def new_quant_executor_def srv_now_def srv_world_def)
  have start: "rebuilt E cfg ?t0 ?d [] (set_world w ?s0)" for w
    using rebuilt_start [of A s ?d E cfg] by (simp add: rebuilt_def set_world_def)
  have rest: "wp (for_each (fold_outcome E A S cfg) outs) (\<lambda>_. wp (for_each (load_strategy A S) strategy_kinds) (\<lambda>_. ?Q))
      (set_world w ?s0)" for w
    by (rule wp_mono [OF fold [OF start]]) (rule load)
  have outs: "quant_outcomes (day_start (srv_now A ?s0)) (db_positions (sv_db (set_world w ?s0))) (sv_quant (set_world w ?s0)) = outs" for w
    by (simp add: outs_def new_quant_executor_def srv_now_def srv_world_def set_world_def)
  have ok: "pg_ok (fst (sa_pg S w)) 0" for w using assms(2) by (simp add: reliable_def)
  have "wp (quant_startup E A S cfg) (\<lambda>_. ?Q) s"
    unfolding quant_startup_def sync_strategy_outcomes_def wp_sbind wp_smod wp_sbranch wp_on_world roll outs
    using rest ok by simp
  then show ?thesis by (auto simp: wp_run)
qed

text \<open>A server with one losing quant position closed today.\<close>

definition demo_restart :: "nat server" where
  "demo_restart = demo_server\<lparr>sv_db := \<lparr>db_positions = [(7, (row_of_insert pg_exact demo_codec SOURCE_RECOMMENDATION (Some 3)
       demo_exit_position)\<lparr>r_state := 4, r_realized_pnl := Some (- 5), r_exit_timestamp := Some 0\<rparr>)], db_events = []\<rparr>,
     sv_quant := [(3, (signal_row pg_exact (new_quant_signal 3 0 Flow ''m'' BuyYes 1 30 100))\<lparr>qr_position_id := Some 7\<rparr>)]\<rparr>"

lemma demo_restart_outcomes:
  "quant_outcomes (day_start (srv_now (sample_api 0) demo_restart)) (db_positions (sv_db demo_restart)) (sv_quant demo_restart)
     = [(7, ''flow'', - 5)]"
  by (simp add: quant_outcomes_def demo_restart_def select_rows_def closed_since_def store_values_def row_of_insert_def
      signal_row_def new_quant_signal_def srv_now_def sample_api_def day_start_def date_naive_def demo_exit_position_def
      new_position_def Let_def)

theorem restart_rebuilds_breakers_witness:
  "\<exists>s' st. quant_startup exact_env (sample_api 0) demo_services (default_quant_config exact_env) demo_restart = (Ok (), s')
     \<and> store_get (sv_strategies s') Flow = Some st \<and> unat (ss_losses st) = 1"
proof -
  have pnls: "pnls_of Flow [(7, ''flow'', - 5)] = [- 5]" by (simp add: pnls_of_def parse_quant_signal_kind_def)
  show ?thesis
    using restart_rebuilds_breakers [of demo_services "sample_api 0" demo_restart Flow exact_env "default_quant_config exact_env"]
    unfolding demo_restart_outcomes pnls
    by (auto simp: reliable_def demo_services_def sample_api_def srv_now_def streak_def)
qed

end
