(* ===== verification/Backtest_Data.thy ===== *)
theory Backtest_Data
  imports Numeric
begin

section \<open>Backtester: snapshots, signals, positions and the strategy interface\<close>

text \<open>
  Model of the data of \<open>crates/backtester/src\<close>: the market snapshot of \<open>data_store.rs\<close>, and from
  \<open>strategy.rs\<close> the signals, the positions of a backtest, the context given to a strategy and the
  \<open>Strategy\<close> trait. A strategy is a record of its four callbacks over a state of any type; the text
  of the metadata of a signal is read by no code and left out. Signals take the id and the time
  they are created with as arguments.

  \<open>f64::sqrt\<close> and \<open>f64::powf\<close> are correctly rounded or platform functions on \<open>f64\<close>: the record
  \<open>f64_lib\<close> carries them beside the numeric environment. \<open>d.to_string().parse::<f64>()\<close> on a Decimal
  \<open>d\<close> prints every digit and reads the nearest \<open>f64\<close>, which is \<open>f64_round\<close>.
\<close>

record f64_lib =
  fsqrt :: "f64 \<Rightarrow> f64"
  fpowf :: "f64 \<Rightarrow> f64 \<Rightarrow> f64"

definition fsum :: "num_env \<Rightarrow> f64 list \<Rightarrow> f64" where
  "fsum E xs = foldl (fadd E) 0 xs"

definition fmean :: "num_env \<Rightarrow> f64 list \<Rightarrow> f64" where
  "fmean E xs = fdiv E (fsum E xs) (of_nat (length xs))"

definition parse_f64 :: "num_env \<Rightarrow> decimal \<Rightarrow> f64" where
  "parse_f64 E d = f64_round E d"

subsection \<open>Market snapshots\<close>

record MarketSnapshot =
  ms_market_id :: string
  ms_timestamp :: datetime
  yes_bid :: decimal
  yes_ask :: decimal
  no_bid :: decimal
  no_ask :: decimal
  yes_bid_depth :: decimal
  yes_ask_depth :: decimal
  no_bid_depth :: decimal
  no_ask_depth :: decimal
  yes_mid :: decimal
  no_mid :: decimal
  yes_spread :: decimal
  no_spread :: decimal
  volume_24h :: decimal

definition snapshot_new ::
  "num_env \<Rightarrow> string \<Rightarrow> datetime \<Rightarrow> decimal \<Rightarrow> decimal \<Rightarrow> decimal \<Rightarrow> decimal \<Rightarrow> MarketSnapshot" where
  "snapshot_new E m t yb ya nb na =
     \<lparr>ms_market_id = m, ms_timestamp = t, yes_bid = yb, yes_ask = ya, no_bid = nb, no_ask = na,
      yes_bid_depth = 0, yes_ask_depth = 0, no_bid_depth = 0, no_ask_depth = 0,
      yes_mid = ddiv E (dadd E yb ya) 2, no_mid = ddiv E (dadd E nb na) 2,
      yes_spread = dsub E ya yb, no_spread = dsub E na nb, volume_24h = 0\<rparr>"

subsection \<open>Signals\<close>

datatype SignalType = Buy_sig | Sell_sig | Close_sig | Hold_sig

record Signal =
  sg_id :: uuid
  sg_timestamp :: datetime
  sg_market_id :: string
  sg_outcome_id :: string
  signal_type :: SignalType
  position_size :: decimal
  sg_entry_price :: "decimal option"
  sg_stop_loss :: "decimal option"
  sg_take_profit :: "decimal option"
  sg_confidence :: f64

definition sig_buy :: "uuid \<Rightarrow> datetime \<Rightarrow> string \<Rightarrow> string \<Rightarrow> decimal \<Rightarrow> Signal" where
  "sig_buy i now m out sz = \<lparr>sg_id = i, sg_timestamp = now, sg_market_id = m, sg_outcome_id = out,
     signal_type = Buy_sig, position_size = sz, sg_entry_price = None, sg_stop_loss = None,
     sg_take_profit = None, sg_confidence = 1\<rparr>"

definition sig_sell :: "uuid \<Rightarrow> datetime \<Rightarrow> string \<Rightarrow> string \<Rightarrow> decimal \<Rightarrow> Signal" where
  "sig_sell i now m out sz = \<lparr>sg_id = i, sg_timestamp = now, sg_market_id = m, sg_outcome_id = out,
     signal_type = Sell_sig, position_size = sz, sg_entry_price = None, sg_stop_loss = None,
     sg_take_profit = None, sg_confidence = 1\<rparr>"

definition sig_close :: "uuid \<Rightarrow> datetime \<Rightarrow> string \<Rightarrow> string \<Rightarrow> Signal" where
  "sig_close i now m out = \<lparr>sg_id = i, sg_timestamp = now, sg_market_id = m, sg_outcome_id = out,
     signal_type = Close_sig, position_size = 0, sg_entry_price = None, sg_stop_loss = None,
     sg_take_profit = None, sg_confidence = 1\<rparr>"

definition with_entry_price :: "decimal \<Rightarrow> Signal \<Rightarrow> Signal" where
  "with_entry_price p s = s\<lparr>sg_entry_price := Some p\<rparr>"

definition with_stop_loss :: "decimal \<Rightarrow> Signal \<Rightarrow> Signal" where
  "with_stop_loss p s = s\<lparr>sg_stop_loss := Some p\<rparr>"

definition with_take_profit :: "decimal \<Rightarrow> Signal \<Rightarrow> Signal" where
  "with_take_profit p s = s\<lparr>sg_take_profit := Some p\<rparr>"

definition with_confidence :: "f64 \<Rightarrow> Signal \<Rightarrow> Signal" where
  "with_confidence c s = s\<lparr>sg_confidence := clamp 0 1 c\<rparr>"

definition round_trip_fee :: "num_env \<Rightarrow> decimal \<Rightarrow> decimal" where
  "round_trip_fee E fee_pct = dmul E fee_pct 2"

subsection \<open>Positions and the context of a strategy\<close>

record BtPosition =
  bp_market_id :: string
  bp_outcome_id :: string
  bp_quantity :: decimal
  bp_entry_price :: decimal
  bp_opened_at :: datetime
  bp_unrealized_pnl :: decimal
  bp_current_price :: decimal

definition bp_value :: "num_env \<Rightarrow> BtPosition \<Rightarrow> decimal" where
  "bp_value E p = dmul E (bp_quantity p) (bp_current_price p)"

definition bp_return_pct :: "num_env \<Rightarrow> BtPosition \<Rightarrow> decimal" where
  "bp_return_pct E p =
     (if bp_entry_price p = 0 then 0
      else ddiv E (dsub E (bp_current_price p) (bp_entry_price p)) (bp_entry_price p))"

record StrategyContext =
  cx_timestamp :: datetime
  cx_portfolio_value :: decimal
  cx_available_cash :: decimal
  cx_positions :: "(string, BtPosition) store"
  cx_market_data :: "(string, MarketSnapshot list) store"
  cx_state :: "(string, string) store"

definition context_new :: "datetime \<Rightarrow> decimal \<Rightarrow> StrategyContext" where
  "context_new now pv = \<lparr>cx_timestamp = now, cx_portfolio_value = pv, cx_available_cash = pv,
     cx_positions = [], cx_market_data = [], cx_state = []\<rparr>"

definition get_position :: "StrategyContext \<Rightarrow> string \<Rightarrow> BtPosition option" where
  "get_position c m = find (\<lambda>p. bp_market_id p = m) (store_values (cx_positions c))"

definition has_position :: "StrategyContext \<Rightarrow> string \<Rightarrow> bool" where
  "has_position c m = list_ex (\<lambda>p. bp_market_id p = m) (store_values (cx_positions c))"

definition last_opt :: "'a list \<Rightarrow> 'a option" where
  "last_opt xs = (if xs = [] then None else Some (last xs))"

definition latest_snapshot :: "StrategyContext \<Rightarrow> string \<Rightarrow> MarketSnapshot option" where
  "latest_snapshot c m = Option.bind (store_get (cx_market_data c) m) last_opt"

definition recent_snapshots :: "StrategyContext \<Rightarrow> string \<Rightarrow> nat \<Rightarrow> MarketSnapshot list" where
  "recent_snapshots c m n =
     (case store_get (cx_market_data c) m of
        None \<Rightarrow> []
      | Some snaps \<Rightarrow> drop (length snaps - n) snaps)"

definition set_state :: "string \<Rightarrow> string \<Rightarrow> StrategyContext \<Rightarrow> StrategyContext" where
  "set_state k v c = c\<lparr>cx_state := store_insert k v (cx_state c)\<rparr>"

definition get_state :: "StrategyContext \<Rightarrow> string \<Rightarrow> string option" where
  "get_state c k = store_get (cx_state c) k"

subsection \<open>The strategy trait\<close>

text \<open>Each callback returns an error, or its value with the new state of the strategy.\<close>

record 'x Strategy =
  sy_name :: string
  sy_initialize :: "StrategyContext \<Rightarrow> 'x \<Rightarrow> string + 'x"
  sy_on_data :: "StrategyContext \<Rightarrow> 'x \<Rightarrow> string + (Signal list \<times> 'x)"
  sy_on_fill :: "Signal \<Rightarrow> decimal \<Rightarrow> decimal \<Rightarrow> 'x \<Rightarrow> string + 'x"
  sy_finalize :: "StrategyContext \<Rightarrow> 'x \<Rightarrow> string + 'x"

text \<open>The default bodies of the trait: \<open>initialize\<close>, \<open>on_fill\<close> and \<open>finalize\<close> do nothing.\<close>

definition default_strategy ::
  "string \<Rightarrow> (StrategyContext \<Rightarrow> 'x \<Rightarrow> string + (Signal list \<times> 'x)) \<Rightarrow> 'x Strategy" where
  "default_strategy n f = \<lparr>sy_name = n, sy_initialize = (\<lambda>_. Inr), sy_on_data = f,
     sy_on_fill = (\<lambda>_ _ _. Inr), sy_finalize = (\<lambda>_. Inr)\<rparr>"

lemma recent_snapshots_length: "length (recent_snapshots c m n) \<le> n"
  unfolding recent_snapshots_def by (auto split: option.split)

lemma recent_snapshots_last:
  assumes "store_get (cx_market_data c) m = Some snaps" "snaps \<noteq> []" "0 < n"
  shows "last_opt (recent_snapshots c m n) = last_opt snaps"
proof -
  have "length snaps - n < length snaps" using assms(2,3) by (cases snaps) auto
  then show ?thesis using assms(1,2) by (simp add: recent_snapshots_def last_opt_def)
qed

lemma has_position_iff: "has_position c m \<longleftrightarrow> get_position c m \<noteq> None"
  by (auto simp: has_position_def get_position_def list_ex_iff find_None_iff)

end
