(* ===== verification/Simulator.thy ===== *)
theory Simulator
  imports Backtest_Data
begin

section \<open>Backtest simulator\<close>

text \<open>
  Model of \<open>crates/backtester/src/simulator.rs\<close>: the slippage, fee and fill models, buying and closing
  with the accounts they keep, the run over the timeline of snapshots, and the metrics of the
  result. The snapshots a query returns and the strategy are arguments of the run; so are the ids
  (\<open>ids n\<close> is the \<open>n\<close>-th \<open>Uuid::new_v4()\<close>) and the clock readings.

  A Decimal division by zero panics: a buy at an ask of zero, a probabilistic fill with a zero
  threshold, a drawdown from a peak of zero and a result on no capital are \<open>Panic\<close>. The metrics
  that the code sets to \<open>f64::INFINITY\<close> have the type \<open>f64_inf\<close>.
\<close>

subsection \<open>Configuration and models\<close>

datatype SlippageModel =
    SlipNone
  | SlipFixed decimal
  | SlipVolume decimal decimal
  | SlipSpread decimal
  | SlipDepth decimal decimal
  | SlipTime decimal decimal decimal

datatype FeeModel =
    FeeFixed decimal
  | MakerTaker decimal decimal
  | VolumeTiered "(decimal \<times> decimal) list" decimal

datatype PartialFillModel =
    FullFill
  | FillDepth decimal
  | Probabilistic decimal decimal decimal
  | FillFixed decimal

record SimulatorConfig =
  initial_capital :: decimal
  slippage_model :: SlippageModel
  fee_model :: FeeModel
  partial_fill_model :: PartialFillModel
  allow_margin :: bool
  max_leverage :: decimal
  reinvest_profits :: bool
  min_position_size :: decimal
  max_position_pct :: decimal
  max_spread_for_fill :: decimal

definition fee_default :: FeeModel where
  "fee_default = FeeFixed (dec_new 2 2)"

definition simulator_default :: SimulatorConfig where
  "simulator_default = \<lparr>initial_capital = dec_new 10000 0, slippage_model = SlipFixed (dec_new 1 3),
     fee_model = FeeFixed (dec_new 2 2), partial_fill_model = FullFill, allow_margin = False,
     max_leverage = 1, reinvest_profits = True, min_position_size = dec_new 10 0,
     max_position_pct = dec_new 20 2, max_spread_for_fill = dec_new 10 2\<rparr>"

fun calculate_with_depth ::
  "num_env \<Rightarrow> SlippageModel \<Rightarrow> decimal \<Rightarrow> decimal \<Rightarrow> decimal \<Rightarrow> decimal \<Rightarrow> int \<Rightarrow> decimal" where
  "calculate_with_depth E SlipNone price qty spread depth hour = 0"
| "calculate_with_depth E (SlipFixed pct) price qty spread depth hour = dmul E price pct"
| "calculate_with_depth E (SlipVolume base_pct size_impact) price qty spread depth hour =
     dmul E price (dadd E base_pct (dmul E qty size_impact))"
| "calculate_with_depth E (SlipSpread mult) price qty spread depth hour =
     ddiv E (dmul E spread mult) 2"
| "calculate_with_depth E (SlipDepth base_pct mult) price qty spread depth hour =
     (let ratio = (if 0 < depth then ddiv E qty depth else 1)
      in dmul E price (dadd E base_pct (dmul E ratio mult)))"
| "calculate_with_depth E (SlipTime base_pct prime off) price qty spread depth hour =
     dmul E (dmul E price base_pct) (if 9 \<le> hour \<and> hour \<le> 17 then prime else off)"

definition slippage_calculate :: "num_env \<Rightarrow> SlippageModel \<Rightarrow> decimal \<Rightarrow> decimal \<Rightarrow> decimal \<Rightarrow> decimal" where
  "slippage_calculate E m price qty spread = calculate_with_depth E m price qty spread 0 12"

text \<open>The rate of a tiered model is the one of the last tier whose threshold is reached.\<close>

fun fee_rate :: "FeeModel \<Rightarrow> bool \<Rightarrow> decimal \<Rightarrow> decimal" where
  "fee_rate (FeeFixed pct) is_maker vol = pct"
| "fee_rate (MakerTaker maker taker) is_maker vol = (if is_maker then maker else taker)"
| "fee_rate (VolumeTiered tiers dflt) is_maker vol =
     (case last_opt (map snd (filter (\<lambda>(threshold, _). threshold \<le> vol) tiers)) of
        Some fee \<Rightarrow> fee | None \<Rightarrow> dflt)"

definition fee_calculate :: "num_env \<Rightarrow> FeeModel \<Rightarrow> decimal \<Rightarrow> bool \<Rightarrow> decimal \<Rightarrow> decimal" where
  "fee_calculate E m value is_maker vol = dmul E value (fee_rate m is_maker vol)"

fun calculate_fill :: "num_env \<Rightarrow> PartialFillModel \<Rightarrow> decimal \<Rightarrow> decimal \<Rightarrow> decimal \<Rightarrow> decimal outcome" where
  "calculate_fill E FullFill requested depth spread = Done requested"
| "calculate_fill E (FillDepth max_depth_pct) requested depth spread =
     Done (min requested (dmul E depth max_depth_pct))"
| "calculate_fill E (Probabilistic base_fill_pct threshold decay) requested depth spread =
     (if requested \<le> threshold then Done (dmul E requested base_fill_pct)
      else if threshold = 0 then Panic
      else (let ratio = ddiv E requested threshold;
                divisor = dadd E 1 (dmul E ratio decay)
            in if divisor = 0 then Panic
               else Done (dmul E requested (ddiv E base_fill_pct divisor))))"
| "calculate_fill E (FillFixed pct) requested depth spread = Done (dmul E requested pct)"

definition can_fill :: "PartialFillModel \<Rightarrow> decimal \<Rightarrow> decimal \<Rightarrow> bool" where
  "can_fill m spread max_spread = (spread \<le> max_spread)"

subsection \<open>Trades and the state of a simulation\<close>

datatype TradeType = TBuy | TSell | TClose

record TradeRecord =
  tr_id :: uuid
  tr_signal_id :: uuid
  tr_market_id :: string
  tr_outcome_id :: string
  trade_type :: TradeType
  tr_entry_time :: datetime
  tr_exit_time :: "datetime option"
  tr_entry_price :: decimal
  tr_exit_price :: "decimal option"
  tr_quantity :: decimal
  tr_fees :: decimal
  tr_slippage :: decimal
  tr_pnl :: "decimal option"
  tr_return_pct :: "f64 option"

record SimulationState =
  ss_cash :: decimal
  ss_positions :: "(string, BtPosition) store"
  ss_trades :: "TradeRecord list"
  ss_equity_curve :: "(datetime \<times> decimal) list"
  ss_total_fees :: decimal
  ss_total_slippage :: decimal
  ss_realized_pnl :: decimal
  ss_winning_trades :: nat
  ss_losing_trades :: nat
  ss_total_wins :: decimal
  ss_total_losses :: decimal

definition simulation_new :: "decimal \<Rightarrow> SimulationState" where
  "simulation_new capital = \<lparr>ss_cash = capital, ss_positions = [], ss_trades = [],
     ss_equity_curve = [], ss_total_fees = 0, ss_total_slippage = 0, ss_realized_pnl = 0,
     ss_winning_trades = 0, ss_losing_trades = 0, ss_total_wins = 0, ss_total_losses = 0\<rparr>"

definition position_key :: "string \<Rightarrow> string \<Rightarrow> string" where
  "position_key m out = m @ '':'' @ out"

definition portfolio_value :: "num_env \<Rightarrow> SimulationState \<Rightarrow> decimal" where
  "portfolio_value E s = dadd E (ss_cash s)
     (dsum E (map (\<lambda>p. dmul E (bp_quantity p) (bp_current_price p)) (store_values (ss_positions s))))"

subsection \<open>Price updates\<close>

text \<open>The side of the snapshot that an outcome trades on: every outcome but \<open>yes\<close> is the NO side.\<close>

definition leg_ask :: "MarketSnapshot \<Rightarrow> string \<Rightarrow> decimal" where
  "leg_ask snap out = (if out = ''yes'' then yes_ask snap else no_ask snap)"

definition leg_bid :: "MarketSnapshot \<Rightarrow> string \<Rightarrow> decimal" where
  "leg_bid snap out = (if out = ''yes'' then yes_bid snap else no_bid snap)"

definition leg_spread :: "MarketSnapshot \<Rightarrow> string \<Rightarrow> decimal" where
  "leg_spread snap out = (if out = ''yes'' then yes_spread snap else no_spread snap)"

definition leg_ask_depth :: "MarketSnapshot \<Rightarrow> string \<Rightarrow> decimal" where
  "leg_ask_depth snap out = (if out = ''yes'' then yes_ask_depth snap else no_ask_depth snap)"

definition leg_bid_depth :: "MarketSnapshot \<Rightarrow> string \<Rightarrow> decimal" where
  "leg_bid_depth snap out = (if out = ''yes'' then yes_bid_depth snap else no_bid_depth snap)"

definition mark_position :: "num_env \<Rightarrow> MarketSnapshot \<Rightarrow> BtPosition \<Rightarrow> BtPosition" where
  "mark_position E snap p =
     (if bp_market_id p = ms_market_id snap
      then (let price = leg_bid snap (bp_outcome_id p)
            in p\<lparr>bp_current_price := price,
                 bp_unrealized_pnl := dmul E (dsub E price (bp_entry_price p)) (bp_quantity p)\<rparr>)
      else p)"

definition mark_positions :: "num_env \<Rightarrow> MarketSnapshot list \<Rightarrow> SimulationState \<Rightarrow> SimulationState" where
  "mark_positions E snaps s =
     s\<lparr>ss_positions := fold (\<lambda>snap. map (\<lambda>(k, p). (k, mark_position E snap p))) snaps (ss_positions s)\<rparr>"

definition update_positions ::
  "num_env \<Rightarrow> StrategyContext \<Rightarrow> SimulationState \<Rightarrow> MarketSnapshot list \<Rightarrow> StrategyContext \<times> SimulationState" where
  "update_positions E ctx s snaps =
     (let s' = mark_positions E snaps s in (ctx\<lparr>cx_positions := ss_positions s'\<rparr>, s'))"

subsection \<open>Buying and closing\<close>

definition execute_buy ::
  "num_env \<Rightarrow> SimulatorConfig \<Rightarrow> uuid \<Rightarrow> Signal \<Rightarrow> StrategyContext \<Rightarrow> SimulationState \<Rightarrow> MarketSnapshot
   \<Rightarrow> (SimulationState \<times> TradeRecord option) outcome" where
  "execute_buy E cfg i sig ctx s snap =
     (let max_position_value = dmul E (cx_portfolio_value ctx) (max_position_pct cfg);
          target_value = dmul E (cx_portfolio_value ctx) (position_size sig);
          position_value = min (min target_value max_position_value) (ss_cash s);
          base_price = leg_ask snap (sg_outcome_id sig);
          spread = leg_spread snap (sg_outcome_id sig);
          depth = leg_ask_depth snap (sg_outcome_id sig)
      in if position_value < min_position_size cfg then Done (s, None)
         else if \<not> can_fill (partial_fill_model cfg) spread (max_spread_for_fill cfg) then Done (s, None)
         else if base_price = 0 then Panic
         else
           (case calculate_fill E (partial_fill_model cfg) (ddiv E position_value base_price) depth spread of
              Panic \<Rightarrow> Panic
            | Done fill_quantity \<Rightarrow>
                if fill_quantity < ddiv E (min_position_size cfg) base_price then Done (s, None)
                else
                  (let slippage = calculate_with_depth E (slippage_model cfg) base_price fill_quantity
                                    spread depth (hour_of (ms_timestamp snap));
                       execution_price = dadd E base_price slippage;
                       trade_value = dmul E fill_quantity execution_price;
                       fees = fee_calculate E (fee_model cfg) trade_value False (ss_total_fees s);
                       total_cost = dadd E trade_value fees
                   in if ss_cash s < total_cost then Done (s, None)
                      else
                        (let slippage_cost = dmul E slippage fill_quantity;
                             position = \<lparr>bp_market_id = sg_market_id sig, bp_outcome_id = sg_outcome_id sig,
                               bp_quantity = fill_quantity, bp_entry_price = execution_price,
                               bp_opened_at = cx_timestamp ctx, bp_unrealized_pnl = 0,
                               bp_current_price = execution_price\<rparr>;
                             trade = \<lparr>tr_id = i, tr_signal_id = sg_id sig, tr_market_id = sg_market_id sig,
                               tr_outcome_id = sg_outcome_id sig, trade_type = TBuy,
                               tr_entry_time = cx_timestamp ctx, tr_exit_time = None,
                               tr_entry_price = execution_price, tr_exit_price = None,
                               tr_quantity = fill_quantity, tr_fees = fees, tr_slippage = slippage_cost,
                               tr_pnl = None, tr_return_pct = None\<rparr>
                         in Done (s\<lparr>ss_cash := dsub E (ss_cash s) total_cost,
                                    ss_total_fees := dadd E (ss_total_fees s) fees,
                                    ss_total_slippage := dadd E (ss_total_slippage s) slippage_cost,
                                    ss_positions := store_insert
                                      (position_key (sg_market_id sig) (sg_outcome_id sig)) position (ss_positions s),
                                    ss_trades := ss_trades s @ [trade]\<rparr>, Some trade)))))"

text \<open>The first open trade of the market and outcome is marked as exited.\<close>

fun exit_first_trade ::
  "string \<Rightarrow> string \<Rightarrow> (TradeRecord \<Rightarrow> TradeRecord) \<Rightarrow> TradeRecord list \<Rightarrow> TradeRecord list" where
  "exit_first_trade m out f [] = []"
| "exit_first_trade m out f (t # ts) =
     (if tr_market_id t = m \<and> tr_outcome_id t = out \<and> tr_exit_time t = None then f t # ts
      else t # exit_first_trade m out f ts)"

definition execute_close ::
  "num_env \<Rightarrow> SimulatorConfig \<Rightarrow> uuid \<Rightarrow> Signal \<Rightarrow> SimulationState \<Rightarrow> MarketSnapshot
   \<Rightarrow> SimulationState \<times> TradeRecord option" where
  "execute_close E cfg i sig s snap =
     (let key = position_key (sg_market_id sig) (sg_outcome_id sig)
      in case store_get (ss_positions s) key of
           None \<Rightarrow> (s, None)
         | Some p \<Rightarrow>
             (let base_price = leg_bid snap (bp_outcome_id p);
                  spread = leg_spread snap (bp_outcome_id p);
                  depth = leg_bid_depth snap (bp_outcome_id p);
                  slippage = calculate_with_depth E (slippage_model cfg) base_price (bp_quantity p)
                               spread depth (hour_of (ms_timestamp snap));
                  execution_price = dsub E base_price slippage;
                  trade_value = dmul E (bp_quantity p) execution_price;
                  fees = fee_calculate E (fee_model cfg) trade_value False (ss_total_fees s);
                  proceeds = dsub E trade_value fees;
                  cost_basis = dmul E (bp_quantity p) (bp_entry_price p);
                  pnl = dsub E proceeds cost_basis;
                  return_pct = (if 0 < cost_basis
                                then dec_to_f64 E (dsub E (ddiv E proceeds cost_basis) 1) else 0);
                  slippage_cost = dmul E slippage (bp_quantity p)
              in (s\<lparr>ss_positions := store_remove key (ss_positions s),
                    ss_cash := dadd E (ss_cash s) proceeds,
                    ss_total_fees := dadd E (ss_total_fees s) fees,
                    ss_total_slippage := dadd E (ss_total_slippage s) slippage_cost,
                    ss_realized_pnl := dadd E (ss_realized_pnl s) pnl,
                    ss_winning_trades := (if 0 < pnl then ss_winning_trades s + 1 else ss_winning_trades s),
                    ss_total_wins := (if 0 < pnl then dadd E (ss_total_wins s) pnl else ss_total_wins s),
                    ss_losing_trades := (if 0 < pnl then ss_losing_trades s else ss_losing_trades s + 1),
                    ss_total_losses := (if 0 < pnl then ss_total_losses s
                                        else dadd E (ss_total_losses s) \<bar>pnl\<bar>),
                    ss_trades := exit_first_trade (sg_market_id sig) (sg_outcome_id sig)
                      (\<lambda>t. t\<lparr>tr_exit_time := Some (ms_timestamp snap), tr_exit_price := Some execution_price,
                             tr_pnl := Some pnl, tr_return_pct := Some return_pct\<rparr>) (ss_trades s)\<rparr>,
                  Some \<lparr>tr_id = i, tr_signal_id = sg_id sig, tr_market_id = sg_market_id sig,
                    tr_outcome_id = bp_outcome_id p, trade_type = TClose, tr_entry_time = bp_opened_at p,
                    tr_exit_time = Some (ms_timestamp snap), tr_entry_price = bp_entry_price p,
                    tr_exit_price = Some execution_price, tr_quantity = bp_quantity p, tr_fees = fees,
                    tr_slippage = slippage_cost, tr_pnl = Some pnl, tr_return_pct = Some return_pct\<rparr>)))"

definition execute_sell ::
  "num_env \<Rightarrow> SimulatorConfig \<Rightarrow> uuid \<Rightarrow> Signal \<Rightarrow> SimulationState \<Rightarrow> MarketSnapshot
   \<Rightarrow> SimulationState \<times> TradeRecord option" where
  "execute_sell E cfg i sig s snap = execute_close E cfg i sig s snap"

definition execute_signal ::
  "num_env \<Rightarrow> SimulatorConfig \<Rightarrow> uuid \<Rightarrow> Signal \<Rightarrow> StrategyContext \<Rightarrow> SimulationState \<Rightarrow> MarketSnapshot list
   \<Rightarrow> (SimulationState \<times> TradeRecord option) outcome" where
  "execute_signal E cfg i sig ctx s snaps =
     (case find (\<lambda>x. ms_market_id x = sg_market_id sig) snaps of
        None \<Rightarrow> Done (s, None)
      | Some snap \<Rightarrow>
          (case signal_type sig of
             Buy_sig \<Rightarrow> execute_buy E cfg i sig ctx s snap
           | Sell_sig \<Rightarrow> Done (execute_sell E cfg i sig s snap)
           | Close_sig \<Rightarrow> Done (execute_close E cfg i sig s snap)
           | Hold_sig \<Rightarrow> Done (s, None)))"

subsection \<open>The run\<close>

definition store_push :: "'k \<Rightarrow> 'v \<Rightarrow> ('k, 'v list) store \<Rightarrow> ('k, 'v list) store" where
  "store_push k v m = store_insert k (case store_get m k of None \<Rightarrow> [v] | Some vs \<Rightarrow> vs @ [v]) m"

definition build_timeline :: "MarketSnapshot list \<Rightarrow> (datetime \<times> MarketSnapshot list) list" where
  "build_timeline snaps = sort_key fst (fold (\<lambda>x. store_push (ms_timestamp x) x) snaps [])"

text \<open>A history of more than 100 snapshots loses its oldest 50.\<close>

definition limit_history :: "'a list \<Rightarrow> 'a list" where
  "limit_history xs = (if 100 < length xs then drop 50 xs else xs)"

definition observe_snapshot :: "MarketSnapshot \<Rightarrow> StrategyContext \<Rightarrow> StrategyContext" where
  "observe_snapshot x ctx =
     (let data = store_push (ms_market_id x) x (cx_market_data ctx)
      in ctx\<lparr>cx_market_data := (case store_get data (ms_market_id x) of
                None \<Rightarrow> data
              | Some h \<Rightarrow> store_insert (ms_market_id x) (limit_history h) data)\<rparr>)"

fun run_signals ::
  "num_env \<Rightarrow> SimulatorConfig \<Rightarrow> 'x Strategy \<Rightarrow> (nat \<Rightarrow> uuid) \<Rightarrow> StrategyContext \<Rightarrow> MarketSnapshot list
   \<Rightarrow> Signal list \<Rightarrow> nat \<Rightarrow> SimulationState \<Rightarrow> 'x \<Rightarrow> (string + (nat \<times> SimulationState \<times> 'x)) outcome" where
  "run_signals E cfg strat ids ctx snaps [] n s x = Done (Inr (n, s, x))"
| "run_signals E cfg strat ids ctx snaps (sig # sigs) n s x =
     (case execute_signal E cfg (ids n) sig ctx s snaps of
        Panic \<Rightarrow> Panic
      | Done (s', None) \<Rightarrow> run_signals E cfg strat ids ctx snaps sigs (n + 1) s' x
      | Done (s', Some trade) \<Rightarrow>
          (case sy_on_fill strat sig (tr_entry_price trade) (tr_quantity trade) x of
             Inl e \<Rightarrow> Done (Inl e)
           | Inr x' \<Rightarrow> run_signals E cfg strat ids ctx snaps sigs (n + 1) s' x'))"

definition record_equity :: "num_env \<Rightarrow> datetime \<Rightarrow> SimulationState \<Rightarrow> SimulationState" where
  "record_equity E t s = s\<lparr>ss_equity_curve := ss_equity_curve s @ [(t, portfolio_value E s)]\<rparr>"

fun run_steps ::
  "num_env \<Rightarrow> SimulatorConfig \<Rightarrow> 'x Strategy \<Rightarrow> (nat \<Rightarrow> uuid) \<Rightarrow> (datetime \<times> MarketSnapshot list) list
   \<Rightarrow> nat \<Rightarrow> StrategyContext \<Rightarrow> SimulationState \<Rightarrow> 'x
   \<Rightarrow> (string + (nat \<times> StrategyContext \<times> SimulationState \<times> 'x)) outcome" where
  "run_steps E cfg strat ids [] n ctx s x = Done (Inr (n, ctx, s, x))"
| "run_steps E cfg strat ids ((t, snaps) # rest) n ctx s x =
     (let ctx1 = fold observe_snapshot snaps (ctx\<lparr>cx_timestamp := t\<rparr>);
          (ctx2, s1) = update_positions E ctx1 s snaps
      in case sy_on_data strat ctx2 x of
           Inl e \<Rightarrow> Done (Inl e)
         | Inr (sigs, x1) \<Rightarrow>
             (case run_signals E cfg strat ids ctx2 snaps sigs n s1 x1 of
                Panic \<Rightarrow> Panic
              | Done (Inl e) \<Rightarrow> Done (Inl e)
              | Done (Inr (n', s2, x2)) \<Rightarrow>
                  (let s3 = record_equity E t s2
                   in run_steps E cfg strat ids rest n'
                        (ctx2\<lparr>cx_portfolio_value := portfolio_value E s3, cx_available_cash := ss_cash s3\<rparr>)
                        s3 x2)))"

definition close_position ::
  "num_env \<Rightarrow> SimulatorConfig \<Rightarrow> uuid \<Rightarrow> datetime \<Rightarrow> StrategyContext \<Rightarrow> BtPosition \<Rightarrow> SimulationState \<Rightarrow> SimulationState" where
  "close_position E cfg i now ctx p s =
     (case store_get (cx_market_data ctx) (bp_market_id p) of
        None \<Rightarrow> s
      | Some snaps \<Rightarrow>
          (case last_opt snaps of
             None \<Rightarrow> s
           | Some snap \<Rightarrow>
               fst (execute_close E cfg i (sig_close i now (bp_market_id p) (bp_outcome_id p)) s snap)))"

definition close_all_positions ::
  "num_env \<Rightarrow> SimulatorConfig \<Rightarrow> uuid \<Rightarrow> datetime \<Rightarrow> StrategyContext \<Rightarrow> SimulationState \<Rightarrow> SimulationState" where
  "close_all_positions E cfg i now ctx s =
     fold (close_position E cfg i now ctx) (store_values (ss_positions s)) s"

text \<open>The simulation proper: \<open>run\<close> up to the calculation of the result.\<close>

definition simulate ::
  "num_env \<Rightarrow> SimulatorConfig \<Rightarrow> 'x Strategy \<Rightarrow> (nat \<Rightarrow> uuid) \<Rightarrow> datetime \<Rightarrow> (string + MarketSnapshot list) \<Rightarrow> 'x
   \<Rightarrow> (string + SimulationState) outcome" where
  "simulate E cfg strat ids now query x =
     (case query of
        Inl e \<Rightarrow> Done (Inl e)
      | Inr [] \<Rightarrow> Done (Inl ''No data available for the specified query'')
      | Inr snaps \<Rightarrow>
          (let ctx = context_new now (initial_capital cfg)
           in case sy_initialize strat ctx x of
                Inl e \<Rightarrow> Done (Inl e)
              | Inr x0 \<Rightarrow>
                  (case run_steps E cfg strat ids (build_timeline snaps) 0 ctx
                          (simulation_new (initial_capital cfg)) x0 of
                     Panic \<Rightarrow> Panic
                   | Done (Inl e) \<Rightarrow> Done (Inl e)
                   | Done (Inr (n, ctx', s, x')) \<Rightarrow>
                       (case sy_finalize strat ctx' x' of
                          Inl e \<Rightarrow> Done (Inl e)
                        | Inr _ \<Rightarrow> Done (Inr (close_all_positions E cfg (ids n) now ctx' s))))))"

subsection \<open>What a buy and a close do\<close>

text \<open>A buy is skipped and changes nothing, or pays for one position that it puts under its key.\<close>

definition bought ::
  "num_env \<Rightarrow> SimulatorConfig \<Rightarrow> Signal \<Rightarrow> StrategyContext \<Rightarrow> SimulationState \<Rightarrow> MarketSnapshot
   \<Rightarrow> decimal \<Rightarrow> BtPosition \<Rightarrow> TradeRecord \<Rightarrow> SimulationState \<Rightarrow> bool" where
  "bought E cfg sig ctx s snap slip p trade s' \<longleftrightarrow>
     leg_ask snap (sg_outcome_id sig) \<noteq> 0
   \<and> ddiv E (min_position_size cfg) (leg_ask snap (sg_outcome_id sig)) \<le> bp_quantity p
   \<and> slip = calculate_with_depth E (slippage_model cfg) (leg_ask snap (sg_outcome_id sig)) (bp_quantity p)
       (leg_spread snap (sg_outcome_id sig)) (leg_ask_depth snap (sg_outcome_id sig)) (hour_of (ms_timestamp snap))
   \<and> bp_market_id p = sg_market_id sig \<and> bp_outcome_id p = sg_outcome_id sig
   \<and> bp_entry_price p = dadd E (leg_ask snap (sg_outcome_id sig)) slip \<and> bp_current_price p = bp_entry_price p
   \<and> tr_fees trade = fee_calculate E (fee_model cfg) (dmul E (bp_quantity p) (bp_entry_price p)) False (ss_total_fees s)
   \<and> dadd E (dmul E (bp_quantity p) (bp_entry_price p)) (tr_fees trade) \<le> ss_cash s
   \<and> s' = s\<lparr>ss_cash := dsub E (ss_cash s) (dadd E (dmul E (bp_quantity p) (bp_entry_price p)) (tr_fees trade)),
            ss_total_fees := dadd E (ss_total_fees s) (tr_fees trade),
            ss_total_slippage := dadd E (ss_total_slippage s) (tr_slippage trade),
            ss_positions := store_insert (position_key (sg_market_id sig) (sg_outcome_id sig)) p (ss_positions s),
            ss_trades := ss_trades s @ [trade]\<rparr>"

lemma execute_buy_cases:
  assumes "execute_buy E cfg i sig ctx s snap = Done (s', r)"
  obtains (skipped) "s' = s" "r = None"
  | (bought) slip p trade where "r = Some trade" "bought E cfg sig ctx s snap slip p trade s'"
proof (cases r)
  case None
  then show ?thesis using assms skipped
    by (simp add: execute_buy_def Let_def split: if_split_asm outcome.split_asm)
next
  case (Some trade)
  define q where "q = tr_quantity trade"
  define p where "p = \<lparr>bp_market_id = sg_market_id sig, bp_outcome_id = sg_outcome_id sig,
    bp_quantity = q, bp_entry_price = tr_entry_price trade, bp_opened_at = cx_timestamp ctx,
    bp_unrealized_pnl = 0, bp_current_price = tr_entry_price trade\<rparr>"
  have "bought E cfg sig ctx s snap (calculate_with_depth E (slippage_model cfg)
      (leg_ask snap (sg_outcome_id sig)) q (leg_spread snap (sg_outcome_id sig))
      (leg_ask_depth snap (sg_outcome_id sig)) (hour_of (ms_timestamp snap))) p trade s'"
    using assms Some unfolding p_def q_def bought_def
    by (simp add: execute_buy_def Let_def not_less split: if_split_asm outcome.split_asm) auto
  with Some show ?thesis by (rule bought)
qed

text \<open>A close without a position changes nothing; else the position is sold for its proceeds.\<close>

definition close_value ::
  "num_env \<Rightarrow> SimulatorConfig \<Rightarrow> BtPosition \<Rightarrow> MarketSnapshot \<Rightarrow> decimal" where
  "close_value E cfg p snap = dmul E (bp_quantity p) (dsub E (leg_bid snap (bp_outcome_id p))
     (calculate_with_depth E (slippage_model cfg) (leg_bid snap (bp_outcome_id p)) (bp_quantity p)
        (leg_spread snap (bp_outcome_id p)) (leg_bid_depth snap (bp_outcome_id p)) (hour_of (ms_timestamp snap))))"

definition close_proceeds ::
  "num_env \<Rightarrow> SimulatorConfig \<Rightarrow> SimulationState \<Rightarrow> BtPosition \<Rightarrow> MarketSnapshot \<Rightarrow> decimal" where
  "close_proceeds E cfg s p snap = dsub E (close_value E cfg p snap)
     (fee_calculate E (fee_model cfg) (close_value E cfg p snap) False (ss_total_fees s))"

lemma execute_close_absent:
  "store_get (ss_positions s) (position_key (sg_market_id sig) (sg_outcome_id sig)) = None
   \<Longrightarrow> execute_close E cfg i sig s snap = (s, None)"
  by (simp add: execute_close_def)

lemma execute_close_fields:
  fixes sig :: Signal
  defines "key \<equiv> position_key (sg_market_id sig) (sg_outcome_id sig)"
  assumes "store_get (ss_positions s) key = Some p"
    and "s' = fst (execute_close E cfg i sig s snap)"
    and "pnl = dsub E (close_proceeds E cfg s p snap) (dmul E (bp_quantity p) (bp_entry_price p))"
  shows "ss_positions s' = store_remove key (ss_positions s)"
    and "ss_cash s' = dadd E (ss_cash s) (close_proceeds E cfg s p snap)"
    and "ss_realized_pnl s' = dadd E (ss_realized_pnl s) pnl"
    and "ss_winning_trades s' + ss_losing_trades s' = ss_winning_trades s + ss_losing_trades s + 1"
    and "ss_total_wins s' = (if 0 < pnl then dadd E (ss_total_wins s) pnl else ss_total_wins s)"
    and "ss_total_losses s' = (if 0 < pnl then ss_total_losses s else dadd E (ss_total_losses s) \<bar>pnl\<bar>)"
    and "ss_equity_curve s' = ss_equity_curve s"
    and "map tr_fees (ss_trades s') = map tr_fees (ss_trades s)"
proof -
  have fees: "map tr_fees (exit_first_trade m out f ts) = map tr_fees ts"
    if "\<And>t. tr_fees (f t) = tr_fees t" for m out f ts
    using that by (induction ts) auto
  show "ss_positions s' = store_remove key (ss_positions s)"
    "ss_cash s' = dadd E (ss_cash s) (close_proceeds E cfg s p snap)"
    "ss_realized_pnl s' = dadd E (ss_realized_pnl s) pnl"
    "ss_winning_trades s' + ss_losing_trades s' = ss_winning_trades s + ss_losing_trades s + 1"
    "ss_total_wins s' = (if 0 < pnl then dadd E (ss_total_wins s) pnl else ss_total_wins s)"
    "ss_total_losses s' = (if 0 < pnl then ss_total_losses s else dadd E (ss_total_losses s) \<bar>pnl\<bar>)"
    "ss_equity_curve s' = ss_equity_curve s"
    "map tr_fees (ss_trades s') = map tr_fees (ss_trades s)"
    using assms(2)
    by (simp_all add: assms(3,4) execute_close_def Let_def key_def close_proceeds_def close_value_def fees)
qed

end
