(* ===== verification/Backtest_Metrics.thy ===== *)
theory Backtest_Metrics
  imports Simulator
begin

section \<open>Metrics of a backtest\<close>

text \<open>
  Model of \<open>calculate_results\<close> and its helpers in \<open>crates/backtester/src/simulator.rs\<close>, of \<open>run\<close>, which
  ends with it, and of the comparison of strategies. The lemmas bound the drawdown and relate the
  streaks to the trades.
\<close>

datatype f64_inf = Fin f64 | PosInf

definition num_days :: "int \<Rightarrow> int" where
  "num_days d = trunc_div d (86400 * ns_per_sec)"

fun windows2 :: "'a list \<Rightarrow> ('a \<times> 'a) list" where
  "windows2 (a # b # xs) = (a, b) # windows2 (b # xs)"
| "windows2 xs = []"

definition equity_returns :: "num_env \<Rightarrow> (datetime \<times> decimal) list \<Rightarrow> f64 list" where
  "equity_returns E curve = map (\<lambda>((_, prev), (_, curr)).
     if prev = 0 then 0 else dec_to_f64 E (ddiv E (dsub E curr prev) prev)) (windows2 curve)"

definition calculate_var_cvar :: "num_env \<Rightarrow> (datetime \<times> decimal) list \<Rightarrow> f64 \<times> f64" where
  "calculate_var_cvar E curve =
     (if length curve < 2 then (0, 0)
      else (let returns = sort (equity_returns E curve);
                var_index = nat \<lceil>fmul E (of_nat (length returns)) (flit E (1 / 20))\<rceil>;
                var_95 = (if var_index < length returns then - (returns ! var_index) else 0);
                tail = take (max var_index 1) returns;
                cvar_95 = (if tail \<noteq> [] then - fmean E tail else 0)
            in (var_95, cvar_95)))"

text \<open>The four counters are the longest and the current runs of wins and of losses.\<close>

fun streaks :: "nat \<Rightarrow> nat \<Rightarrow> nat \<Rightarrow> nat \<Rightarrow> TradeRecord list \<Rightarrow> nat \<times> nat" where
  "streaks mw ml cw cl [] = (mw, ml)"
| "streaks mw ml cw cl (t # ts) =
     (case tr_pnl t of
        None \<Rightarrow> streaks mw ml cw cl ts
      | Some pnl \<Rightarrow>
          if 0 < pnl then streaks (max mw (cw + 1)) ml (cw + 1) 0 ts
          else if pnl < 0 then streaks mw (max ml (cl + 1)) 0 (cl + 1) ts
          else streaks mw ml cw cl ts)"

definition calculate_consecutive_streaks :: "TradeRecord list \<Rightarrow> nat \<times> nat" where
  "calculate_consecutive_streaks trades = streaks 0 0 0 0 trades"

text \<open>\<open>None\<close> is the panic of a division by a peak of zero.\<close>

fun drawdown_loop :: "num_env \<Rightarrow> decimal \<Rightarrow> f64 \<Rightarrow> decimal list \<Rightarrow> f64 outcome" where
  "drawdown_loop E peak md [] = Done md"
| "drawdown_loop E peak md (v # vs) =
     (let peak' = (if peak < v then v else peak)
      in if peak' = 0 then Panic
         else drawdown_loop E peak' (max md (dec_to_f64 E (ddiv E (dsub E peak' v) peak'))) vs)"

definition calculate_max_drawdown :: "num_env \<Rightarrow> (datetime \<times> decimal) list \<Rightarrow> f64 outcome" where
  "calculate_max_drawdown E curve =
     (case curve of [] \<Rightarrow> Done 0 | (_, v) # _ \<Rightarrow> drawdown_loop E v 0 (map snd curve))"

definition calculate_risk_metrics :: "num_env \<Rightarrow> f64_lib \<Rightarrow> (datetime \<times> decimal) list \<Rightarrow> f64 \<times> f64_inf" where
  "calculate_risk_metrics E L curve =
     (if length curve < 2 then (0, Fin 0)
      else (let returns = equity_returns E curve;
                mean = fmean E returns;
                variance = fmean E (map (\<lambda>r. let d = fsub E r mean in fmul E d d) returns);
                std_dev = fsqrt L variance;
                sharpe = (if 0 < std_dev then fmul E (fdiv E mean std_dev) (fsqrt L 252) else 0);
                downside = map (\<lambda>r. fmul E r r) (filter (\<lambda>r. r < 0) returns);
                downside_dev = (if downside \<noteq> [] then fsqrt L (fmean E downside) else 0);
                sortino = (if 0 < downside_dev then Fin (fmul E (fdiv E mean downside_dev) (fsqrt L 252))
                           else if 0 < mean then PosInf else Fin 0)
            in (sharpe, sortino)))"

definition calculate_avg_trade_duration :: "num_env \<Rightarrow> TradeRecord list \<Rightarrow> f64" where
  "calculate_avg_trade_duration E trades =
     (let hours = concat (map (\<lambda>t. case tr_exit_time t of
            None \<Rightarrow> [] | Some e \<Rightarrow> [num_hours (e - tr_entry_time t)]) trades)
      in if hours = [] then 0
         else fdiv E (f64_round E (of_int (sum_list hours))) (of_nat (length hours)))"

record BacktestResult =
  br_strategy_name :: string
  br_start_time :: datetime
  br_end_time :: datetime
  br_data_points :: nat
  br_initial_capital :: decimal
  br_final_value :: decimal
  br_total_return :: decimal
  br_return_pct :: f64
  br_annualized_return :: f64
  br_max_drawdown :: f64
  br_sharpe_ratio :: f64
  br_sortino_ratio :: f64_inf
  br_win_rate :: f64
  br_profit_factor :: f64_inf
  br_total_trades :: nat
  br_winning_trades :: nat
  br_losing_trades :: nat
  br_total_fees :: decimal
  br_total_slippage :: decimal
  br_avg_trade_duration_hours :: f64
  br_equity_curve :: "(datetime \<times> decimal) list"
  br_trades :: "TradeRecord list"
  br_computed_at :: datetime
  br_calmar_ratio :: f64_inf
  br_var_95 :: f64
  br_cvar_95 :: f64
  br_recovery_factor :: f64_inf
  br_best_trade_return :: f64
  br_worst_trade_return :: f64
  br_max_consecutive_wins :: nat
  br_max_consecutive_losses :: nat
  br_avg_win :: f64
  br_avg_loss :: f64
  br_expectancy :: f64

definition is_profitable :: "BacktestResult \<Rightarrow> bool" where
  "is_profitable r = (br_initial_capital r < br_final_value r)"

definition is_risk_adjusted_profitable :: "BacktestResult \<Rightarrow> bool" where
  "is_risk_adjusted_profitable r = (1 < br_sharpe_ratio r \<and> 0 < br_return_pct r)"

text \<open>The ratios with an infinite value when only the numerator is positive.\<close>

definition ratio_or_inf :: "num_env \<Rightarrow> f64 \<Rightarrow> f64 \<Rightarrow> f64_inf" where
  "ratio_or_inf E num den = (if 0 < den then Fin (fdiv E num den) else if 0 < num then PosInf else Fin 0)"

definition profit_factor :: "num_env \<Rightarrow> SimulationState \<Rightarrow> f64_inf" where
  "profit_factor E s =
     (if 0 < ss_total_losses s then Fin (dec_to_f64 E (ddiv E (ss_total_wins s) (ss_total_losses s)))
      else if 0 < ss_total_wins s then PosInf else Fin 0)"

definition fold_or_zero :: "(f64 \<Rightarrow> f64 \<Rightarrow> f64) \<Rightarrow> f64 list \<Rightarrow> f64" where
  "fold_or_zero f xs = (case xs of [] \<Rightarrow> 0 | y # ys \<Rightarrow> foldl f y ys)"

definition mean_or_zero :: "num_env \<Rightarrow> f64 list \<Rightarrow> f64" where
  "mean_or_zero E xs = (if xs \<noteq> [] then fmean E xs else 0)"

definition calculate_results ::
  "num_env \<Rightarrow> f64_lib \<Rightarrow> SimulatorConfig \<Rightarrow> string \<Rightarrow> datetime \<Rightarrow> datetime \<Rightarrow> datetime \<Rightarrow> nat \<Rightarrow> SimulationState
   \<Rightarrow> BacktestResult outcome" where
  "calculate_results E L cfg name start_time end_time now data_points s =
     (if initial_capital cfg = 0 then Panic
      else case calculate_max_drawdown E (ss_equity_curve s) of
        Panic \<Rightarrow> Panic
      | Done max_drawdown \<Rightarrow>
        (let final_value = portfolio_value E s;
             return_pct = dec_to_f64 E (dsub E (ddiv E final_value (initial_capital cfg)) 1);
             years = fdiv E (f64_round E (of_int (num_days (end_time - start_time)))) 365;
             annualized = (if 0 < years
                           then fsub E (fpowf L (fadd E 1 return_pct) (fdiv E 1 years)) 1 else 0);
             (sharpe, sortino) = calculate_risk_metrics E L (ss_equity_curve s);
             total_trades = ss_winning_trades s + ss_losing_trades s;
             win_rate = (if 0 < total_trades
                         then fdiv E (of_nat (ss_winning_trades s)) (of_nat total_trades) else 0);
             (var_95, cvar_95) = calculate_var_cvar E (ss_equity_curve s);
             trade_returns = List.map_filter tr_return_pct (ss_trades s);
             (wins, losses) = calculate_consecutive_streaks (ss_trades s);
             avg_win = mean_or_zero E (filter (\<lambda>r. 0 < r) trade_returns);
             avg_loss = mean_or_zero E (filter (\<lambda>r. r < 0) trade_returns)
         in Done \<lparr>br_strategy_name = name, br_start_time = start_time, br_end_time = end_time,
              br_data_points = data_points, br_initial_capital = initial_capital cfg,
              br_final_value = final_value, br_total_return = dsub E final_value (initial_capital cfg),
              br_return_pct = return_pct, br_annualized_return = annualized,
              br_max_drawdown = max_drawdown, br_sharpe_ratio = sharpe, br_sortino_ratio = sortino,
              br_win_rate = win_rate, br_profit_factor = profit_factor E s,
              br_total_trades = total_trades, br_winning_trades = ss_winning_trades s,
              br_losing_trades = ss_losing_trades s, br_total_fees = ss_total_fees s,
              br_total_slippage = ss_total_slippage s,
              br_avg_trade_duration_hours = calculate_avg_trade_duration E (ss_trades s),
              br_equity_curve = ss_equity_curve s, br_trades = ss_trades s, br_computed_at = now,
              br_calmar_ratio = ratio_or_inf E annualized max_drawdown, br_var_95 = var_95,
              br_cvar_95 = cvar_95, br_recovery_factor = ratio_or_inf E return_pct max_drawdown,
              br_best_trade_return = fold_or_zero max trade_returns,
              br_worst_trade_return = fold_or_zero min trade_returns,
              br_max_consecutive_wins = wins, br_max_consecutive_losses = losses,
              br_avg_win = avg_win, br_avg_loss = avg_loss,
              br_expectancy = fadd E (fmul E win_rate avg_win) (fmul E (fsub E 1 win_rate) avg_loss)\<rparr>))"

definition run_backtest ::
  "num_env \<Rightarrow> f64_lib \<Rightarrow> SimulatorConfig \<Rightarrow> 'x Strategy \<Rightarrow> (nat \<Rightarrow> uuid) \<Rightarrow> datetime \<Rightarrow> datetime \<Rightarrow> datetime
   \<Rightarrow> (string + MarketSnapshot list) \<Rightarrow> 'x \<Rightarrow> (string + BacktestResult) outcome" where
  "run_backtest E L cfg strat ids now start_time end_time query x =
     (case simulate E cfg strat ids now query x of
        Panic \<Rightarrow> Panic
      | Done (Inl e) \<Rightarrow> Done (Inl e)
      | Done (Inr s) \<Rightarrow>
          (case calculate_results E L cfg (sy_name strat) start_time end_time now
                  (case query of Inl _ \<Rightarrow> 0 | Inr snaps \<Rightarrow> length snaps) s of
             Panic \<Rightarrow> Panic
           | Done r \<Rightarrow> Done (Inr r)))"

text \<open>
  \<open>compare_strategies\<close> runs one strategy after another, skips the failed ones and sorts by the Sharpe
  ratio, best first; a panic of one run is a panic of the comparison.
\<close>

definition compare_strategies :: "(string + BacktestResult) outcome list \<Rightarrow> BacktestResult list outcome" where
  "compare_strategies runs =
     (if Panic \<in> set runs then Panic
      else Done (sort_key (\<lambda>r. - br_sharpe_ratio r)
             (concat (map (\<lambda>r. case r of Done (Inr b) \<Rightarrow> [b] | _ \<Rightarrow> []) runs))))"

subsection \<open>Bounds of the metrics\<close>

text \<open>The drawdown of a portfolio that is never negative lies between 0 and 1.\<close>

context numeric_env
begin

lemma to_f64_unit: "0 \<le> x \<Longrightarrow> x \<le> 1 \<Longrightarrow> 0 \<le> dec_to_f64 E x \<and> dec_to_f64 E x \<le> 1"
  using to_f64_mono [of 0 x] to_f64_mono [of x 1] to_f64_exact [OF f64_repI [of 0 0 0]]
    to_f64_exact [OF f64_repI [of 0 1 1]] by simp

lemma drawdown_unit:
  assumes "0 < peak" "0 \<le> v" "v \<le> peak" "dec_round E peak = peak"
  shows "0 \<le> ddiv E (dsub E peak v) peak \<and> ddiv E (dsub E peak v) peak \<le> 1"
proof -
  have "dsub E peak v \<le> dec_round E peak" using assms(2) by (auto simp: dsub_def intro: dec_mono)
  then have num: "0 \<le> dsub E peak v" "dsub E peak v \<le> peak" using assms by (auto intro: dsub_nonneg)
  then have "dsub E peak v / peak \<le> 1" using assms(1) by (simp add: divide_le_eq)
  then show ?thesis
    using num(1) assms(1) unfolding ddiv_def by (auto intro: round_nonneg round_le_1)
qed

lemma drawdown_loop_bounds:
  assumes "\<And>v. v \<in> set vs \<Longrightarrow> 0 \<le> v \<and> dec_round E v = v" "0 \<le> peak" "dec_round E peak = peak"
    and "0 \<le> md" "md \<le> 1" "drawdown_loop E peak md vs = Done r"
  shows "md \<le> r \<and> r \<le> 1"
  using assms
proof (induction vs arbitrary: peak md)
  case (Cons v vs)
  define peak' where "peak' = (if peak < v then v else peak)"
  define md' where "md' = max md (dec_to_f64 E (ddiv E (dsub E peak' v) peak'))"
  have p: "0 \<le> peak'" "v \<le> peak'" "dec_round E peak' = peak'" "0 \<le> v"
    using Cons.prems by (auto simp: peak'_def)
  have run: "peak' \<noteq> 0" "drawdown_loop E peak' md' vs = Done r"
    using Cons.prems(6) by (auto simp: peak'_def md'_def Let_def split: if_splits)
  then have "0 \<le> md'" "md' \<le> 1" "md \<le> md'"
    using to_f64_unit drawdown_unit [OF _ p(4,2,3)] Cons.prems(4,5) p(1) by (auto simp: md'_def)
  with Cons.IH [OF _ p(1,3) _ _ run(2)] Cons.prems(1) show ?case by fastforce
qed simp

lemma max_drawdown_bounds:
  assumes "\<And>v. v \<in> snd ` set curve \<Longrightarrow> 0 \<le> v \<and> dec_round E v = v"
    and "calculate_max_drawdown E curve = Done r"
  shows "0 \<le> r \<and> r \<le> 1"
proof (cases curve)
  case (Cons c cs)
  obtain t v where c: "c = (t, v)" by fastforce
  then have "0 \<le> v" "dec_round E v = v" using assms(1) Cons by auto
  moreover have "drawdown_loop E v 0 (map snd curve) = Done r"
    using assms(2) by (simp add: calculate_max_drawdown_def Cons c)
  ultimately show ?thesis using assms(1) by (intro drawdown_loop_bounds) auto
qed (use assms(2) in \<open>simp add: calculate_max_drawdown_def\<close>)

end

text \<open>No streak is longer than the number of trades with that outcome.\<close>

lemma streaks_bounded:
  assumes "cw \<le> mw" "cl \<le> ml" "streaks mw ml cw cl ts = (w, l)"
  shows "w \<le> mw + length (filter (\<lambda>t. \<exists>p. tr_pnl t = Some p \<and> 0 < p) ts)
    \<and> l \<le> ml + length (filter (\<lambda>t. \<exists>p. tr_pnl t = Some p \<and> p < 0) ts)"
  using assms
proof (induction ts arbitrary: mw ml cw cl)
  case (Cons t ts)
  show ?case
  proof (cases "tr_pnl t")
    case None
    with Cons show ?thesis by simp
  next
    case (Some p)
    consider "0 < p" | "p < 0" | "p = 0" by linarith
    then show ?thesis
    proof cases
      case 1
      with Cons.IH [of "cw + 1" "max mw (cw + 1)" 0 ml] Cons.prems Some show ?thesis by auto
    next
      case 2
      with Cons.IH [of 0 mw "cl + 1" "max ml (cl + 1)"] Cons.prems Some show ?thesis by auto
    next
      case 3
      with Cons Some show ?thesis by simp
    qed
  qed
qed simp

end
