(* ===== verification/Backtest_Runs.thy ===== *)
theory Backtest_Runs
  imports Backtest_Metrics
begin

section \<open>Invariants of a backtest\<close>

text \<open>
  The locale \<open>sim_invariant\<close> is the contract of an invariant of the simulator: what the prices, the
  signals of the strategy, the equity curve and the final closes have to keep. It is proved once
  that such an invariant holds at the end of every run. Here it is interpreted for the solvency of
  a backtest under any strategy; theory \<open>Backtest_Accounts\<close> interprets it for the accounts of the
  arbitrage strategy.

  The invariant may refer to the market data collected so far (\<open>cx_market_data\<close>), and \<open>pending\<close> is what
  holds of the signals of one time step that are still to be executed.
\<close>

subsection \<open>Collected market data\<close>

definition data_ok :: "(MarketSnapshot \<Rightarrow> bool) \<Rightarrow> (string, MarketSnapshot list) store \<Rightarrow> bool" where
  "data_ok good d \<longleftrightarrow> store_wf d \<and> (\<forall>(k, h) \<in> set d. h \<noteq> [] \<and> list_all good h)"

definition covered :: "(string, MarketSnapshot list) store \<Rightarrow> string \<Rightarrow> bool" where
  "covered d m \<longleftrightarrow> store_get d m \<noteq> None"

definition grows :: "(string, MarketSnapshot list) store \<Rightarrow> (string, MarketSnapshot list) store \<Rightarrow> bool" where
  "grows d d' \<longleftrightarrow> (\<forall>m. covered d m \<longrightarrow> covered d' m)"

lemma data_ok_get:
  "data_ok good d \<Longrightarrow> store_get d m = Some h \<Longrightarrow> h \<noteq> [] \<and> list_all good h"
  unfolding data_ok_def store_get_def by (blast dest: map_of_SomeD)

lemma data_ok_iff:
  "data_ok good d \<longleftrightarrow> store_wf d \<and> (\<forall>m h. store_get d m = Some h \<longrightarrow> h \<noteq> [] \<and> list_all good h)"
  unfolding data_ok_def store_get_def store_wf_def
  by (fastforce simp: map_of_eq_Some_iff)

lemma grows_refl [simp]: "grows d d"
  by (simp add: grows_def)

lemma grows_trans: "grows a b \<Longrightarrow> grows b c \<Longrightarrow> grows a c"
  by (simp add: grows_def)

lemma limit_history_ok: "h \<noteq> [] \<Longrightarrow> limit_history h \<noteq> []" "list_all good h \<Longrightarrow> list_all good (limit_history h)"
  by (auto simp: limit_history_def list_all_iff dest: in_set_dropD)

text \<open>Observing a snapshot: its market is covered, and nothing that was covered is lost.\<close>

lemma observe_snapshot_data:
  obtains h where "store_get (cx_market_data (observe_snapshot x ctx)) =
      (store_get (cx_market_data ctx))(ms_market_id x \<mapsto> h)"
    and "h \<noteq> []" "data_ok good (cx_market_data ctx) \<Longrightarrow> good x \<Longrightarrow> list_all good h"
    and "store_wf (cx_market_data ctx) \<Longrightarrow> store_wf (cx_market_data (observe_snapshot x ctx))"
proof -
  define old where "old = (case store_get (cx_market_data ctx) (ms_market_id x) of None \<Rightarrow> [] | Some vs \<Rightarrow> vs)"
  have push: "store_push (ms_market_id x) x (cx_market_data ctx) =
      store_insert (ms_market_id x) (old @ [x]) (cx_market_data ctx)"
    by (simp add: store_push_def old_def split: option.split)
  have eq: "cx_market_data (observe_snapshot x ctx) = store_insert (ms_market_id x)
      (limit_history (old @ [x])) (store_insert (ms_market_id x) (old @ [x]) (cx_market_data ctx))"
    by (simp add: observe_snapshot_def push Let_def store_simps)
  show ?thesis
  proof (rule that [of "limit_history (old @ [x])"])
    show "store_get (cx_market_data (observe_snapshot x ctx)) =
      (store_get (cx_market_data ctx))(ms_market_id x \<mapsto> limit_history (old @ [x]))"
      by (simp add: eq store_simps)
    show "limit_history (old @ [x]) \<noteq> []" by (rule limit_history_ok) simp
    show "list_all good (limit_history (old @ [x]))"
      if "data_ok good (cx_market_data ctx)" "good x"
      using that by (intro limit_history_ok) (auto simp: old_def split: option.split dest: data_ok_get)
    show "store_wf (cx_market_data (observe_snapshot x ctx))" if "store_wf (cx_market_data ctx)"
      using that by (simp add: eq st.wf_insert)
  qed
qed

lemma observe_ok:
  assumes "data_ok good (cx_market_data ctx)" "good x"
  shows "data_ok good (cx_market_data (observe_snapshot x ctx))"
proof -
  obtain h where "store_get (cx_market_data (observe_snapshot x ctx)) =
      (store_get (cx_market_data ctx))(ms_market_id x \<mapsto> h)" "h \<noteq> []" "list_all good h"
    "store_wf (cx_market_data (observe_snapshot x ctx))"
    using assms by (rule_tac observe_snapshot_data [of x ctx good]) (auto simp: data_ok_def)
  with assms(1) show ?thesis by (auto simp: data_ok_iff split: if_splits)
qed

lemma observe_grows:
  "grows (cx_market_data ctx) (cx_market_data (observe_snapshot x ctx))"
  "covered (cx_market_data (observe_snapshot x ctx)) (ms_market_id x)"
  by (rule observe_snapshot_data [of x ctx "\<lambda>_. True"], auto simp: grows_def covered_def)+

lemma observe_all:
  assumes "data_ok good (cx_market_data ctx)" "list_all good snaps"
  shows "data_ok good (cx_market_data (fold observe_snapshot snaps ctx))
    \<and> grows (cx_market_data ctx) (cx_market_data (fold observe_snapshot snaps ctx))
    \<and> (\<forall>y \<in> set snaps. covered (cx_market_data (fold observe_snapshot snaps ctx)) (ms_market_id y))"
  using assms
proof (induction snaps arbitrary: ctx)
  case (Cons y ys)
  let ?c = "observe_snapshot y ctx"
  have "data_ok good (cx_market_data ?c)" using Cons.prems by (auto intro: observe_ok)
  with Cons.IH [of ?c] Cons.prems(2) observe_grows(1) [of ctx y] observe_grows(2) [of y ctx] show ?case
    by (auto simp: grows_def)
qed simp

lemma build_timeline_sub:
  assumes "(t, ys) \<in> set (build_timeline snaps)" "y \<in> set ys"
  shows "y \<in> set snaps"
proof -
  have "\<forall>(t, ys) \<in> set (fold (\<lambda>x. store_push (ms_timestamp x) x) xs m). set ys \<subseteq> A"
    if "\<forall>(t, ys) \<in> set m. set ys \<subseteq> A" "set xs \<subseteq> A" "store_wf m" for xs m and A :: "MarketSnapshot set"
    using that
  proof (induction xs arbitrary: m)
    case (Cons x xs)
    let ?m = "store_push (ms_timestamp x) x m"
    have wf: "store_wf ?m" using Cons.prems(3) by (simp add: store_push_def st.wf_insert)
    have "set vs \<subseteq> A" if vs: "store_get ?m k = Some vs" for k vs
    proof -
      have old: "store_get m k = Some us \<Longrightarrow> set us \<subseteq> A" for us
        using Cons.prems(1) unfolding store_get_def by (blast dest: map_of_SomeD)
      from vs old Cons.prems(2) show ?thesis
        by (auto simp: store_push_def store_simps split: if_splits option.splits)
    qed
    then have "\<forall>(t, ys) \<in> set ?m. set ys \<subseteq> A"
      using wf unfolding store_get_def store_wf_def by (auto simp: map_of_eq_Some_iff)
    with Cons.IH [OF this _ wf] Cons.prems(2) show ?case by simp
  qed simp
  from this [of "[]" "set snaps" snaps] assms show ?thesis
    by (auto simp: build_timeline_def)
qed

subsection \<open>The contract of an invariant\<close>

locale sim_invariant =
  fixes E :: num_env
    and cfg :: SimulatorConfig
    and strat :: "'x Strategy"
    and good :: "MarketSnapshot \<Rightarrow> bool"
    and I :: "(string, MarketSnapshot list) store \<Rightarrow> SimulationState \<Rightarrow> bool"
    and pending :: "Signal list \<Rightarrow> SimulationState \<Rightarrow> bool"
  assumes keeps_grows: "I d s \<Longrightarrow> grows d d' \<Longrightarrow> I d' s"
    and keeps_mark: "I d s \<Longrightarrow> list_all good snaps \<Longrightarrow> I d (mark_positions E snaps s)"
    and keeps_equity: "I d s \<Longrightarrow> I d (record_equity E t s)"
    and signals_ok: "I (cx_market_data ctx) s \<Longrightarrow> cx_positions ctx = ss_positions s
      \<Longrightarrow> data_ok good (cx_market_data ctx) \<Longrightarrow> sy_on_data strat ctx x = Inr (sigs, x') \<Longrightarrow> pending sigs s"
    and keeps_signal: "I d s \<Longrightarrow> pending (sig # sigs) s
      \<Longrightarrow> list_all (\<lambda>y. good y \<and> covered d (ms_market_id y)) snaps
      \<Longrightarrow> execute_signal E cfg i sig ctx s snaps = Done (s', r) \<Longrightarrow> I d s' \<and> pending sigs s'"
    and keeps_close: "I d s \<Longrightarrow> good snap \<Longrightarrow> I d (fst (execute_close E cfg i sig s snap))"
begin

lemma run_signals_inv:
  assumes "I d s" "pending sigs s" "list_all (\<lambda>y. good y \<and> covered d (ms_market_id y)) snaps"
    and "run_signals E cfg strat ids ctx snaps sigs n s x = Done (Inr (n', s', x'))"
  shows "I d s'"
  using assms
proof (induction sigs arbitrary: n s x)
  case (Cons sig sigs)
  obtain s1 r where ex: "execute_signal E cfg (ids n) sig ctx s snaps = Done (s1, r)"
    using Cons.prems(4) by (auto split: outcome.splits)
  have I1: "I d s1" "pending sigs s1" using keeps_signal [OF Cons.prems(1-3) ex] by auto
  obtain x1 where "run_signals E cfg strat ids ctx snaps sigs (n + 1) s1 x1 = Done (Inr (n', s', x'))"
    using Cons.prems(4) ex by (auto split: option.splits sum.splits)
  with I1 Cons.prems(3) show ?case by (intro Cons.IH)
qed simp

lemma run_steps_inv:
  assumes "I (cx_market_data ctx) s" "data_ok good (cx_market_data ctx)"
    and "\<forall>(t, ys) \<in> set steps. list_all good ys"
    and "run_steps E cfg strat ids steps n ctx s x = Done (Inr (n', ctx', s', x'))"
  shows "I (cx_market_data ctx') s' \<and> data_ok good (cx_market_data ctx')"
  using assms
proof (induction steps arbitrary: n ctx s x)
  case (Cons step steps)
  obtain t snaps where step: "step = (t, snaps)" by fastforce
  define ctx1 where "ctx1 = fold observe_snapshot snaps (ctx\<lparr>cx_timestamp := t\<rparr>)"
  define s1 where "s1 = mark_positions E snaps s"
  define ctx2 where "ctx2 = ctx1\<lparr>cx_positions := ss_positions s1\<rparr>"
  have good: "list_all good snaps" using Cons.prems(3) by (simp add: step)
  have data: "data_ok good (cx_market_data ctx1)" "grows (cx_market_data ctx) (cx_market_data ctx1)"
    "\<forall>y \<in> set snaps. covered (cx_market_data ctx1) (ms_market_id y)"
    using observe_all [of good "ctx\<lparr>cx_timestamp := t\<rparr>" snaps] Cons.prems(2) good by (auto simp: ctx1_def)
  have I1: "I (cx_market_data ctx2) s1"
    using keeps_mark [OF Cons.prems(1) good] data(2) keeps_grows by (simp add: s1_def ctx2_def)
  obtain sigs x1 n2 s2 x2 where run: "sy_on_data strat ctx2 x = Inr (sigs, x1)"
    "run_signals E cfg strat ids ctx2 snaps sigs n s1 x1 = Done (Inr (n2, s2, x2))"
    "run_steps E cfg strat ids steps n2 (ctx2\<lparr>cx_portfolio_value := portfolio_value E (record_equity E t s2),
       cx_available_cash := ss_cash (record_equity E t s2)\<rparr>) (record_equity E t s2) x2
     = Done (Inr (n', ctx', s', x'))"
    using Cons.prems(4)
    by (auto simp: step update_positions_def Let_def s1_def ctx2_def ctx1_def
        split: sum.splits outcome.splits prod.splits)
  have "pending sigs s1"
    using signals_ok [OF I1 _ _ run(1)] data(1) by (simp add: ctx2_def)
  with run_signals_inv [OF I1 _ _ run(2)] data(3) good
  have "I (cx_market_data ctx2) s2" by (simp add: list_all_iff ctx2_def)
  then have "I (cx_market_data ctx2) (record_equity E t s2)" by (rule keeps_equity)
  then show ?case
    using Cons.IH [OF _ _ _ run(3)] data(1) Cons.prems(3) by (simp add: ctx2_def)
qed simp

lemma close_position_inv:
  assumes "I (cx_market_data ctx) s" "data_ok good (cx_market_data ctx)"
  shows "I (cx_market_data ctx) (close_position E cfg i now ctx p s)"
proof (cases "store_get (cx_market_data ctx) (bp_market_id p)")
  case (Some h)
  with assms(2) have "h \<noteq> []" "good (last h)" using data_ok_get by (fastforce simp: list_all_iff)+
  with Some assms(1) show ?thesis by (simp add: close_position_def last_opt_def keeps_close)
qed (simp add: close_position_def assms(1))

lemma close_positions_inv:
  assumes "I (cx_market_data ctx) s" "data_ok good (cx_market_data ctx)"
  shows "I (cx_market_data ctx) (fold (close_position E cfg i now ctx) ps s)"
  using assms(1) by (induction ps arbitrary: s) (auto intro: close_position_inv assms(2))

text \<open>Every run that ends normally ends by closing the positions of a state with the invariant.\<close>

lemma simulate_inv:
  assumes "simulate E cfg strat ids now (Inr snaps) x = Done (Inr s)"
    and "I [] (simulation_new (initial_capital cfg))" "list_all good snaps"
  obtains ctx s0 i where "s = close_all_positions E cfg i now ctx s0" "I (cx_market_data ctx) s0"
    "data_ok good (cx_market_data ctx)" "I (cx_market_data ctx) s"
proof -
  from assms(1) obtain x0 n ctx s0 x1 where run: "run_steps E cfg strat ids (build_timeline snaps) 0
      (context_new now (initial_capital cfg)) (simulation_new (initial_capital cfg)) x0 =
      Done (Inr (n, ctx, s0, x1))" "s = close_all_positions E cfg (ids n) now ctx s0"
    by (auto simp: simulate_def Let_def split: list.splits sum.splits outcome.splits)
  have steps: "\<forall>(t, ys) \<in> set (build_timeline snaps). list_all good ys"
    using assms(3) build_timeline_sub by (fastforce simp: list_all_iff)
  have "I (cx_market_data ctx) s0 \<and> data_ok good (cx_market_data ctx)"
    by (rule run_steps_inv [OF _ _ steps run(1)]) (simp_all add: context_new_def assms(2) data_ok_def)
  with that [OF run(2)] close_positions_inv show thesis
    by (simp add: run(2) close_all_positions_def)
qed

end

end
