(* ===== verification/Backtest_Strategies.thy ===== *)
theory Backtest_Strategies
  imports Simulator
begin

section \<open>The strategies of the backtester\<close>

text \<open>
  Model of the four strategies of \<open>crates/backtester/src/strategy.rs\<close>: arbitrage, momentum, mean
  reversion and grid. Each \<open>on_data\<close> goes through the markets of the context in the order of the
  store. The \<open>k\<close>-th signal of a call has the id \<open>ids ctx k\<close> and the time \<open>clock ctx k\<close>; the strings
  put into the metadata are left out, and with them \<open>parameters\<close>.

  A level of the grid is an \<open>i32\<close>, kept as an integer in its range. Where an \<open>f64\<close> division by zero
  gives an infinity or a NaN, the comparisons that follow are written out.
\<close>

subsection \<open>Arbitrage\<close>

record ArbitrageStrategy =
  base_min_spread :: decimal
  trading_fee_pct :: decimal
  ab_position_size :: decimal
  ab_max_positions :: nat
  min_depth :: decimal
  ab_use_dynamic_threshold :: bool
  volatility_lookback :: nat
  volatility_multiplier :: f64
  effective_min_spread :: decimal

definition arb_default :: "num_env \<Rightarrow> ArbitrageStrategy" where
  "arb_default E = \<lparr>base_min_spread = dec_new 2 2, trading_fee_pct = dec_new 2 2,
     ab_position_size = dec_new 10 2, ab_max_positions = 5, min_depth = dec_new 100 0,
     ab_use_dynamic_threshold = False, volatility_lookback = 20, volatility_multiplier = 3 / 2,
     effective_min_spread = dadd E (dec_new 2 2) (round_trip_fee E (dec_new 2 2))\<rparr>"

definition arb_new :: "num_env \<Rightarrow> decimal \<Rightarrow> decimal \<Rightarrow> nat \<Rightarrow> ArbitrageStrategy" where
  "arb_new E min_spread sz max_pos = (arb_default E)\<lparr>base_min_spread := min_spread,
     trading_fee_pct := dec_new 2 2, ab_position_size := sz, ab_max_positions := max_pos,
     effective_min_spread := dadd E min_spread (round_trip_fee E (dec_new 2 2))\<rparr>"

definition arb_with_fee :: "num_env \<Rightarrow> decimal \<Rightarrow> ArbitrageStrategy \<Rightarrow> ArbitrageStrategy" where
  "arb_with_fee E fee st = st\<lparr>trading_fee_pct := fee,
     effective_min_spread := dadd E (base_min_spread st) (round_trip_fee E fee)\<rparr>"

definition with_min_depth :: "decimal \<Rightarrow> ArbitrageStrategy \<Rightarrow> ArbitrageStrategy" where
  "with_min_depth d st = st\<lparr>min_depth := d\<rparr>"

definition arb_with_dynamic_threshold :: "nat \<Rightarrow> f64 \<Rightarrow> ArbitrageStrategy \<Rightarrow> ArbitrageStrategy" where
  "arb_with_dynamic_threshold lookback mult st = st\<lparr>ab_use_dynamic_threshold := True,
     volatility_lookback := lookback, volatility_multiplier := mult\<rparr>"

definition arb_dynamic_threshold ::
  "num_env \<Rightarrow> f64_lib \<Rightarrow> ArbitrageStrategy \<Rightarrow> MarketSnapshot list \<Rightarrow> decimal" where
  "arb_dynamic_threshold E L st snaps =
     (if length snaps < 2 then effective_min_spread st
      else (let spreads = map (\<lambda>s. parse_f64 E (dsub E (dsub E 1 (yes_ask s)) (no_ask s))) snaps;
                mean = fmean E spreads;
                variance = fmean E (map (\<lambda>s. let d = fsub E s mean in fmul E d d) spreads);
                volatility = fsqrt L variance;
                adjustment = (case f64_short E (fmul E volatility (volatility_multiplier st)) of
                                Some a \<Rightarrow> a | None \<Rightarrow> 0)
            in dadd E (effective_min_spread st) adjustment))"

definition has_sufficient_depth :: "ArbitrageStrategy \<Rightarrow> MarketSnapshot \<Rightarrow> bool" where
  "has_sufficient_depth st snap =
     (min_depth st \<le> yes_ask_depth snap \<and> min_depth st \<le> no_ask_depth snap)"

definition arb_min_spread ::
  "num_env \<Rightarrow> f64_lib \<Rightarrow> ArbitrageStrategy \<Rightarrow> StrategyContext \<Rightarrow> string \<Rightarrow> decimal" where
  "arb_min_spread E L st ctx m =
     (if ab_use_dynamic_threshold st
      then arb_dynamic_threshold E L st (recent_snapshots ctx m (volatility_lookback st))
      else effective_min_spread st)"

definition arb_spread :: "num_env \<Rightarrow> MarketSnapshot \<Rightarrow> decimal" where
  "arb_spread E snap = dsub E 1 (dadd E (yes_ask snap) (no_ask snap))"

text \<open>The signals for one market: none, or one for each leg.\<close>

definition arb_market ::
  "num_env \<Rightarrow> f64_lib \<Rightarrow> ArbitrageStrategy \<Rightarrow> StrategyContext \<Rightarrow> (nat \<Rightarrow> uuid) \<Rightarrow> (nat \<Rightarrow> datetime) \<Rightarrow> nat
   \<Rightarrow> string \<Rightarrow> MarketSnapshot list \<Rightarrow> Signal list" where
  "arb_market E L st ctx ids clock k m snaps =
     (case last_opt snaps of
        None \<Rightarrow> []
      | Some snap \<Rightarrow>
          if \<not> has_sufficient_depth st snap then []
          else (let spread = arb_spread E snap
                in if arb_min_spread E L st ctx m \<le> spread \<and> \<not> has_position ctx m
                   then (let expected_profit = dsub E spread (round_trip_fee E (trading_fee_pct st));
                             confidence = clamp 0 1 (parse_f64 E expected_profit);
                             per_leg_size = ddiv E (ab_position_size st) 2
                         in [with_confidence confidence (with_entry_price (yes_ask snap)
                               (sig_buy (ids k) (clock k) m ''yes'' per_leg_size)),
                             with_confidence confidence (with_entry_price (no_ask snap)
                               (sig_buy (ids (k + 1)) (clock (k + 1)) m ''no'' per_leg_size))])
                   else []))"

fun arb_markets ::
  "num_env \<Rightarrow> f64_lib \<Rightarrow> ArbitrageStrategy \<Rightarrow> StrategyContext \<Rightarrow> (nat \<Rightarrow> uuid) \<Rightarrow> (nat \<Rightarrow> datetime) \<Rightarrow> Signal list
   \<Rightarrow> (string, MarketSnapshot list) store \<Rightarrow> Signal list" where
  "arb_markets E L st ctx ids clock acc [] = acc"
| "arb_markets E L st ctx ids clock acc ((m, snaps) # rest) =
     arb_markets E L st ctx ids clock
       (acc @ arb_market E L st ctx ids clock (length acc) m snaps) rest"

definition arb_on_data ::
  "num_env \<Rightarrow> f64_lib \<Rightarrow> (StrategyContext \<Rightarrow> nat \<Rightarrow> uuid) \<Rightarrow> (StrategyContext \<Rightarrow> nat \<Rightarrow> datetime)
   \<Rightarrow> StrategyContext \<Rightarrow> ArbitrageStrategy \<Rightarrow> string + (Signal list \<times> ArbitrageStrategy)" where
  "arb_on_data E L ids clock ctx st =
     (if ab_max_positions st \<le> card (bp_market_id ` set (store_values (cx_positions ctx))) then Inr ([], st)
      else Inr (arb_markets E L st ctx (ids ctx) (clock ctx) [] (cx_market_data ctx), st))"

definition arbitrage_strategy ::
  "num_env \<Rightarrow> f64_lib \<Rightarrow> (StrategyContext \<Rightarrow> nat \<Rightarrow> uuid) \<Rightarrow> (StrategyContext \<Rightarrow> nat \<Rightarrow> datetime)
   \<Rightarrow> ArbitrageStrategy Strategy" where
  "arbitrage_strategy E L ids clock = default_strategy ''Arbitrage'' (arb_on_data E L ids clock)"

subsection \<open>Momentum\<close>

record MomentumStrategy =
  mo_lookback_periods :: nat
  momentum_threshold :: decimal
  mo_position_size :: decimal
  require_volume_confirmation :: bool
  volume_multiplier :: decimal
  min_trend_strength :: f64
  use_multi_timeframe :: bool
  long_term_lookback :: nat
  trailing_stop_pct :: "decimal option"
  peak_prices :: "(string, decimal) store"

definition momentum_default :: MomentumStrategy where
  "momentum_default = \<lparr>mo_lookback_periods = 10, momentum_threshold = dec_new 5 2,
     mo_position_size = dec_new 10 2, require_volume_confirmation = False,
     volume_multiplier = dec_new 15 1, min_trend_strength = 0, use_multi_timeframe = False,
     long_term_lookback = 50, trailing_stop_pct = None, peak_prices = []\<rparr>"

definition momentum_new :: "nat \<Rightarrow> decimal \<Rightarrow> decimal \<Rightarrow> MomentumStrategy" where
  "momentum_new lookback threshold sz = momentum_default\<lparr>mo_lookback_periods := lookback,
     momentum_threshold := threshold, mo_position_size := sz\<rparr>"

definition with_volume_confirmation :: "decimal \<Rightarrow> MomentumStrategy \<Rightarrow> MomentumStrategy" where
  "with_volume_confirmation mult st = st\<lparr>require_volume_confirmation := True, volume_multiplier := mult\<rparr>"

definition with_trend_strength :: "f64 \<Rightarrow> MomentumStrategy \<Rightarrow> MomentumStrategy" where
  "with_trend_strength x st = st\<lparr>min_trend_strength := clamp 0 1 x\<rparr>"

definition with_multi_timeframe :: "nat \<Rightarrow> MomentumStrategy \<Rightarrow> MomentumStrategy" where
  "with_multi_timeframe n st = st\<lparr>use_multi_timeframe := True, long_term_lookback := n\<rparr>"

definition with_trailing_stop :: "decimal \<Rightarrow> MomentumStrategy \<Rightarrow> MomentumStrategy" where
  "with_trailing_stop pct st = st\<lparr>trailing_stop_pct := Some pct\<rparr>"

text \<open>The three sums of the loop: upward and downward movement, and the true range.\<close>

fun directional_movement :: "num_env \<Rightarrow> f64 \<times> f64 \<times> f64 \<Rightarrow> MarketSnapshot list \<Rightarrow> f64 \<times> f64 \<times> f64" where
  "directional_movement E (up, down, range_sum) (prev # cur # rest) =
     (let high_diff = parse_f64 E (dsub E (yes_ask cur) (yes_ask prev));
          low_diff = parse_f64 E (dsub E (yes_bid prev) (yes_bid cur));
          range = parse_f64 E (dsub E (yes_ask cur) (yes_bid cur));
          range_sum' = fadd E range_sum (max range (flit E (1 / 100)))
      in directional_movement E
           (if low_diff < high_diff \<and> 0 < high_diff then (fadd E up high_diff, down, range_sum')
            else if high_diff < low_diff \<and> 0 < low_diff then (up, fadd E down low_diff, range_sum')
            else (up, down, range_sum')) (cur # rest))"
| "directional_movement E acc _ = acc"

definition calculate_trend_strength :: "num_env \<Rightarrow> MarketSnapshot list \<Rightarrow> f64" where
  "calculate_trend_strength E snaps =
     (if length snaps < 3 then 0
      else (case directional_movement E (0, 0, 0) snaps of (up, down, range_sum) \<Rightarrow>
        if range_sum = 0 then 0
        else (let up_di = fdiv E up range_sum;
                  down_di = fdiv E down range_sum;
                  di_diff = \<bar>fsub E up_di down_di\<bar>;
                  di_sum = fadd E up_di down_di
              in if 0 < di_sum then clamp 0 1 (fdiv E di_diff di_sum) else 0)))"

definition volume_confirmed :: "num_env \<Rightarrow> MomentumStrategy \<Rightarrow> MarketSnapshot list \<Rightarrow> bool" where
  "volume_confirmed E st snaps =
     (if \<not> require_volume_confirmation st \<or> length snaps < 2 then True
      else (let current = (case last_opt snaps of Some s \<Rightarrow> volume_24h s | None \<Rightarrow> 0);
                avg = ddiv E (dsum E (map volume_24h snaps)) (of_nat (max (length snaps) 1))
            in dmul E avg (volume_multiplier st) \<le> current))"

definition first_bid :: "MarketSnapshot list \<Rightarrow> decimal" where
  "first_bid snaps = (case snaps of [] \<Rightarrow> 0 | s # _ \<Rightarrow> yes_bid s)"

definition last_bid :: "MarketSnapshot list \<Rightarrow> decimal" where
  "last_bid snaps = (case last_opt snaps of None \<Rightarrow> 0 | Some s \<Rightarrow> yes_bid s)"

definition multi_timeframe_aligned ::
  "num_env \<Rightarrow> MomentumStrategy \<Rightarrow> decimal \<Rightarrow> MarketSnapshot list \<Rightarrow> bool" where
  "multi_timeframe_aligned E st short_momentum snaps =
     (if \<not> use_multi_timeframe st \<or> length snaps < long_term_lookback st then True
      else if first_bid snaps = 0 then True
      else (let long_momentum = ddiv E (dsub E (last_bid snaps) (first_bid snaps)) (first_bid snaps)
            in (0 < short_momentum \<and> 0 < long_momentum) \<or> (short_momentum < 0 \<and> long_momentum < 0)))"

definition check_trailing_stop ::
  "num_env \<Rightarrow> string \<Rightarrow> decimal \<Rightarrow> MomentumStrategy \<Rightarrow> bool \<times> MomentumStrategy" where
  "check_trailing_stop E m price st =
     (case (trailing_stop_pct st, store_get (peak_prices st) m) of
        (Some stop_pct, Some peak) \<Rightarrow>
          (let peak' = (if peak < price then price else peak)
           in (price < dmul E peak' (dsub E 1 stop_pct),
               st\<lparr>peak_prices := store_insert m peak' (peak_prices st)\<rparr>))
      | _ \<Rightarrow> (False, st))"

definition momentum_market ::
  "num_env \<Rightarrow> StrategyContext \<Rightarrow> (nat \<Rightarrow> uuid) \<Rightarrow> (nat \<Rightarrow> datetime) \<Rightarrow> string \<times> MarketSnapshot list
   \<Rightarrow> Signal list \<times> MomentumStrategy \<Rightarrow> Signal list \<times> MomentumStrategy" where
  "momentum_market E ctx ids clock entry acc_st =
     (case (entry, acc_st) of ((m, snaps), (acc, st)) \<Rightarrow>
        (let recent = recent_snapshots ctx m (mo_lookback_periods st);
             first_price = first_bid recent;
             last_price = last_bid recent;
             momentum = ddiv E (dsub E last_price first_price) first_price;
             trend_strength = calculate_trend_strength E recent;
             k = length acc
         in if length snaps < mo_lookback_periods st \<or> length recent < 2 \<or> first_price = 0
              \<or> trend_strength < min_trend_strength st
            then (acc, st)
            else if has_position ctx m
            then (case check_trailing_stop E m last_price st of (stopped, st1) \<Rightarrow>
                    if stopped \<or> momentum < - momentum_threshold st
                    then (acc @ [sig_close (ids k) (clock k) m ''yes''],
                          st1\<lparr>peak_prices := store_remove m (peak_prices st1)\<rparr>)
                    else (acc, st1))
            else if momentum_threshold st < momentum
              \<and> volume_confirmed E st recent
              \<and> multi_timeframe_aligned E st momentum (recent_snapshots ctx m (long_term_lookback st))
            then (acc @ [with_confidence
                    (clamp (flit E (1 / 10)) 1 (fmul E (parse_f64 E momentum) trend_strength))
                    (sig_buy (ids k) (clock k) m ''yes'' (mo_position_size st))],
                  st\<lparr>peak_prices := store_insert m last_price (peak_prices st)\<rparr>)
            else (acc, st)))"

definition momentum_on_data ::
  "num_env \<Rightarrow> (StrategyContext \<Rightarrow> nat \<Rightarrow> uuid) \<Rightarrow> (StrategyContext \<Rightarrow> nat \<Rightarrow> datetime)
   \<Rightarrow> StrategyContext \<Rightarrow> MomentumStrategy \<Rightarrow> string + (Signal list \<times> MomentumStrategy)" where
  "momentum_on_data E ids clock ctx st =
     Inr (fold (momentum_market E ctx (ids ctx) (clock ctx)) (cx_market_data ctx) ([], st))"

definition momentum_strategy ::
  "num_env \<Rightarrow> (StrategyContext \<Rightarrow> nat \<Rightarrow> uuid) \<Rightarrow> (StrategyContext \<Rightarrow> nat \<Rightarrow> datetime)
   \<Rightarrow> MomentumStrategy Strategy" where
  "momentum_strategy E ids clock = default_strategy ''Momentum'' (momentum_on_data E ids clock)"

subsection \<open>Mean reversion\<close>

datatype MarketRegime = Trending | RangeBound | HighVolatility | LowVolatility

record MeanReversionStrategy =
  mr_lookback_periods :: nat
  entry_std_devs :: f64
  mr_position_size :: decimal
  use_regime_detection :: bool
  trend_threshold :: f64
  mr_use_dynamic_threshold :: bool
  min_bb_width :: f64
  max_bb_width :: f64
  max_hold_periods :: "nat option"
  exit_z_score :: f64
  entry_periods :: "(string, nat) store"
  current_period :: nat

definition mean_reversion_default :: "num_env \<Rightarrow> MeanReversionStrategy" where
  "mean_reversion_default E = \<lparr>mr_lookback_periods = 20, entry_std_devs = 2,
     mr_position_size = dec_new 10 2, use_regime_detection = False,
     trend_threshold = flit E (6 / 10), mr_use_dynamic_threshold = False,
     min_bb_width = flit E (2 / 100), max_bb_width = flit E (20 / 100), max_hold_periods = None,
     exit_z_score = 0, entry_periods = [], current_period = 0\<rparr>"

definition mean_reversion_new :: "num_env \<Rightarrow> nat \<Rightarrow> f64 \<Rightarrow> decimal \<Rightarrow> MeanReversionStrategy" where
  "mean_reversion_new E lookback devs sz = (mean_reversion_default E)\<lparr>mr_lookback_periods := lookback,
     entry_std_devs := devs, mr_position_size := sz\<rparr>"

definition with_regime_detection :: "f64 \<Rightarrow> MeanReversionStrategy \<Rightarrow> MeanReversionStrategy" where
  "with_regime_detection x st = st\<lparr>use_regime_detection := True, trend_threshold := clamp 0 1 x\<rparr>"

definition mr_with_dynamic_threshold :: "MeanReversionStrategy \<Rightarrow> MeanReversionStrategy" where
  "mr_with_dynamic_threshold st = st\<lparr>mr_use_dynamic_threshold := True\<rparr>"

definition with_bb_width_filter :: "f64 \<Rightarrow> f64 \<Rightarrow> MeanReversionStrategy \<Rightarrow> MeanReversionStrategy" where
  "with_bb_width_filter lo hi st = st\<lparr>min_bb_width := lo, max_bb_width := hi\<rparr>"

definition with_max_hold_periods :: "nat \<Rightarrow> MeanReversionStrategy \<Rightarrow> MeanReversionStrategy" where
  "with_max_hold_periods n st = st\<lparr>max_hold_periods := Some n\<rparr>"

definition with_exit_z_score :: "f64 \<Rightarrow> MeanReversionStrategy \<Rightarrow> MeanReversionStrategy" where
  "with_exit_z_score z st = st\<lparr>exit_z_score := z\<rparr>"

definition fvariance :: "num_env \<Rightarrow> f64 \<Rightarrow> f64 list \<Rightarrow> f64" where
  "fvariance E mean xs = fmean E (map (\<lambda>p. let d = fsub E p mean in fmul E d d) xs)"

text \<open>The sums of the linear regression over the indexed prices.\<close>

fun regression_sums :: "num_env \<Rightarrow> f64 \<Rightarrow> f64 \<Rightarrow> nat \<Rightarrow> f64 \<times> f64 \<Rightarrow> f64 list \<Rightarrow> f64 \<times> f64" where
  "regression_sums E x_mean y_mean i (num, den) [] = (num, den)"
| "regression_sums E x_mean y_mean i (num, den) (p # ps) =
     (let x_diff = fsub E (of_nat i) x_mean
      in regression_sums E x_mean y_mean (i + 1)
           (fadd E num (fmul E x_diff (fsub E p y_mean)), fadd E den (fmul E x_diff x_diff)) ps)"

text \<open>With a mean price of zero the quotients are infinite, or NaN for a numerator of zero.\<close>

definition detect_regime :: "num_env \<Rightarrow> f64_lib \<Rightarrow> MeanReversionStrategy \<Rightarrow> f64 list \<Rightarrow> MarketRegime" where
  "detect_regime E L st prices =
     (if length prices < 3 then RangeBound
      else (let n = of_nat (length prices);
                x_mean = fdiv E (fsub E n 1) 2;
                y_mean = fmean E prices;
                (num, den) = regression_sums E x_mean y_mean 0 (0, 0) prices;
                slope = (if den \<noteq> 0 then fdiv E num den else 0);
                std_dev = fsqrt L (fvariance E y_mean prices)
            in if y_mean = 0
               then (if slope \<noteq> 0 then Trending else if 0 < std_dev then HighVolatility else RangeBound)
               else if trend_threshold st < \<bar>fdiv E slope y_mean\<bar> then Trending
               else if flit E (1 / 10) < fdiv E std_dev y_mean then HighVolatility
               else if fdiv E std_dev y_mean < flit E (2 / 100) then LowVolatility
               else RangeBound))"

definition mr_dynamic_threshold :: "num_env \<Rightarrow> MeanReversionStrategy \<Rightarrow> f64 \<Rightarrow> f64 \<Rightarrow> f64" where
  "mr_dynamic_threshold E st std_dev mean =
     (if \<not> mr_use_dynamic_threshold st \<or> mean = 0 then entry_std_devs st
      else (let cv = fdiv E std_dev mean
            in if flit E (1 / 10) < cv then fmul E (entry_std_devs st) (3 / 2)
               else if cv < flit E (3 / 100) then fmul E (entry_std_devs st) (flit E (8 / 10))
               else entry_std_devs st))"

definition bollinger_band_width :: "num_env \<Rightarrow> MeanReversionStrategy \<Rightarrow> f64 \<Rightarrow> f64 \<Rightarrow> f64" where
  "bollinger_band_width E st std_dev mean =
     (if mean = 0 then 0 else fdiv E (fmul E (fmul E 2 std_dev) (entry_std_devs st)) mean)"

text \<open>
  One market. With a lookback of zero there are no prices and the mean is NaN: the z-score is 0, no
  comparison with the band holds and the threshold is the configured one.
\<close>

definition mean_reversion_market ::
  "num_env \<Rightarrow> f64_lib \<Rightarrow> StrategyContext \<Rightarrow> (nat \<Rightarrow> uuid) \<Rightarrow> (nat \<Rightarrow> datetime) \<Rightarrow> string \<times> MarketSnapshot list
   \<Rightarrow> Signal list \<times> MeanReversionStrategy \<Rightarrow> Signal list \<times> MeanReversionStrategy" where
  "mean_reversion_market E L ctx ids clock entry acc_st =
     (case (entry, acc_st) of ((m, snaps), (acc, st)) \<Rightarrow>
        (let prices = map (\<lambda>s. parse_f64 E (yes_bid s)) (recent_snapshots ctx m (mr_lookback_periods st));
             nan = (prices = []);
             mean = fmean E prices;
             std_dev = fsqrt L (fvariance E mean prices);
             price = (case last_opt prices of None \<Rightarrow> 0 | Some p \<Rightarrow> p);
             z_score = (if \<not> nan \<and> 0 < std_dev then fdiv E (fsub E price mean) std_dev else 0);
             bb_width = bollinger_band_width E st std_dev mean;
             threshold = (if nan then entry_std_devs st else mr_dynamic_threshold E st std_dev mean);
             k = length acc
         in if length snaps < mr_lookback_periods st \<or> length prices < mr_lookback_periods st then (acc, st)
            else if has_position ctx m
            then (let held_out = (case (max_hold_periods st, store_get (entry_periods st) m) of
                        (Some n, Some p) \<Rightarrow> n \<le> current_period st - p
                      | _ \<Rightarrow> False)
                  in if held_out \<or> exit_z_score st \<le> z_score
                     then (acc @ [sig_close (ids k) (clock k) m ''yes''],
                           st\<lparr>entry_periods := store_remove m (entry_periods st)\<rparr>)
                     else (acc, st))
            else if use_regime_detection st \<and> detect_regime E L st prices = Trending then (acc, st)
            else if \<not> nan \<and> (bb_width < min_bb_width st \<or> max_bb_width st < bb_width) then (acc, st)
            else if z_score < - threshold
            then (let confidence = (if threshold = 0 then 1
                        else clamp (flit E (1 / 10)) 1 (fsub E (fdiv E \<bar>z_score\<bar> threshold) 1))
                  in (acc @ [with_confidence confidence
                        (sig_buy (ids k) (clock k) m ''yes'' (mr_position_size st))],
                      st\<lparr>entry_periods := store_insert m (current_period st) (entry_periods st)\<rparr>))
            else (acc, st)))"

definition mean_reversion_on_data ::
  "num_env \<Rightarrow> f64_lib \<Rightarrow> (StrategyContext \<Rightarrow> nat \<Rightarrow> uuid) \<Rightarrow> (StrategyContext \<Rightarrow> nat \<Rightarrow> datetime)
   \<Rightarrow> StrategyContext \<Rightarrow> MeanReversionStrategy \<Rightarrow> string + (Signal list \<times> MeanReversionStrategy)" where
  "mean_reversion_on_data E L ids clock ctx st =
     Inr (fold (mean_reversion_market E L ctx (ids ctx) (clock ctx)) (cx_market_data ctx)
            ([], st\<lparr>current_period := current_period st + 1\<rparr>))"

definition mean_reversion_strategy ::
  "num_env \<Rightarrow> f64_lib \<Rightarrow> (StrategyContext \<Rightarrow> nat \<Rightarrow> uuid) \<Rightarrow> (StrategyContext \<Rightarrow> nat \<Rightarrow> datetime)
   \<Rightarrow> MeanReversionStrategy Strategy" where
  "mean_reversion_strategy E L ids clock =
     default_strategy ''MeanReversion'' (mean_reversion_on_data E L ids clock)"

subsection \<open>Grid\<close>

record GridStrategy =
  center_price :: "decimal option"
  grid_levels :: nat
  grid_spacing_pct :: decimal
  order_size :: decimal
  max_position_size :: decimal
  use_dynamic_center :: bool
  center_lookback :: nat
  filled_levels :: "(string, int list) store"
  level_quantities :: "(string, (int, decimal) store) store"

definition grid_default :: GridStrategy where
  "grid_default = \<lparr>center_price = None, grid_levels = 5, grid_spacing_pct = dec_new 2 2,
     order_size = dec_new 5 2, max_position_size = dec_new 50 2, use_dynamic_center = True,
     center_lookback = 20, filled_levels = [], level_quantities = []\<rparr>"

definition grid_new :: "nat \<Rightarrow> decimal \<Rightarrow> decimal \<Rightarrow> GridStrategy" where
  "grid_new levels spacing sz = grid_default\<lparr>grid_levels := levels, grid_spacing_pct := spacing,
     order_size := sz\<rparr>"

definition with_center :: "decimal \<Rightarrow> GridStrategy \<Rightarrow> GridStrategy" where
  "with_center p st = st\<lparr>center_price := Some p, use_dynamic_center := False\<rparr>"

definition with_dynamic_center :: "nat \<Rightarrow> GridStrategy \<Rightarrow> GridStrategy" where
  "with_dynamic_center n st = st\<lparr>use_dynamic_center := True, center_lookback := n, center_price := None\<rparr>"

definition with_max_position :: "decimal \<Rightarrow> GridStrategy \<Rightarrow> GridStrategy" where
  "with_max_position x st = st\<lparr>max_position_size := x\<rparr>"

text \<open>\<open>as i32\<close> saturates.\<close>

definition as_i32 :: "int \<Rightarrow> int" where
  "as_i32 n = (if n < - 2147483648 then - 2147483648 else if 2147483647 < n then 2147483647 else n)"

definition price_to_level :: "num_env \<Rightarrow> GridStrategy \<Rightarrow> decimal \<Rightarrow> decimal \<Rightarrow> int" where
  "price_to_level E st price center =
     (if center = 0 \<or> grid_spacing_pct st = 0 then 0
      else (let deviation = ddiv E (dsub E price center) center;
                level = ddiv E deviation (grid_spacing_pct st)
            in as_i32 (round_half_away (parse_f64 E level))))"

definition level_to_price :: "num_env \<Rightarrow> GridStrategy \<Rightarrow> int \<Rightarrow> decimal \<Rightarrow> decimal" where
  "level_to_price E st level center =
     dmul E center (dadd E 1 (dmul E (grid_spacing_pct st) (of_int level)))"

definition calculate_dynamic_center :: "num_env \<Rightarrow> MarketSnapshot list \<Rightarrow> decimal option" where
  "calculate_dynamic_center E snaps =
     (if snaps = [] then None
      else Some (ddiv E (dsum E (map yes_mid snaps)) (of_nat (length snaps))))"

definition total_position :: "num_env \<Rightarrow> GridStrategy \<Rightarrow> string \<Rightarrow> decimal" where
  "total_position E st m =
     (case store_get (level_quantities st) m of None \<Rightarrow> 0 | Some levels \<Rightarrow> dsum E (store_values levels))"

definition filled :: "GridStrategy \<Rightarrow> string \<Rightarrow> int list" where
  "filled st m = (case store_get (filled_levels st) m of None \<Rightarrow> [] | Some ls \<Rightarrow> ls)"

definition quantities :: "GridStrategy \<Rightarrow> string \<Rightarrow> (int, decimal) store" where
  "quantities st m = (case store_get (level_quantities st) m of None \<Rightarrow> [] | Some q \<Rightarrow> q)"

text \<open>\<open>contains_key\<close> and \<open>insert\<close>: a market that is new to the strategy gets empty entries.\<close>

definition grid_init :: "string \<Rightarrow> GridStrategy \<Rightarrow> GridStrategy" where
  "grid_init m st = st\<lparr>
     filled_levels := (if store_get (filled_levels st) m = None
                       then store_insert m [] (filled_levels st) else filled_levels st),
     level_quantities := (if store_get (level_quantities st) m = None
                          then store_insert m [] (level_quantities st) else level_quantities st)\<rparr>"

definition grid_fill :: "string \<Rightarrow> int \<Rightarrow> GridStrategy \<Rightarrow> GridStrategy" where
  "grid_fill m level st = st\<lparr>filled_levels := store_insert m (filled st m @ [level]) (filled_levels st),
     level_quantities := store_insert m (store_insert level (order_size st) (quantities st m)) (level_quantities st)\<rparr>"

definition grid_release :: "string \<Rightarrow> int \<Rightarrow> GridStrategy \<Rightarrow> GridStrategy" where
  "grid_release m level st = st\<lparr>
     filled_levels := store_insert m (filter (\<lambda>l. l \<noteq> level) (filled st m)) (filled_levels st),
     level_quantities := store_insert m (store_remove level (quantities st m)) (level_quantities st)\<rparr>"

definition grid_buy_at ::
  "decimal \<Rightarrow> (nat \<Rightarrow> uuid) \<Rightarrow> (nat \<Rightarrow> datetime) \<Rightarrow> string \<Rightarrow> int \<Rightarrow> decimal
   \<Rightarrow> Signal list \<times> GridStrategy \<Rightarrow> Signal list \<times> GridStrategy" where
  "grid_buy_at price ids clock m level total_pos acc_st =
     (case acc_st of (acc, st) \<Rightarrow>
        (if level < 0 \<and> sint (- (of_nat (grid_levels st) :: i32)) \<le> level
            \<and> level \<notin> set (filled st m) \<and> total_pos < max_position_size st
         then (acc @ [with_entry_price price
                 (sig_buy (ids (length acc)) (clock (length acc)) m ''yes'' (order_size st))],
               grid_fill m level st)
         else (acc, st)))"

definition levels_to_close :: "GridStrategy \<Rightarrow> string \<Rightarrow> int \<Rightarrow> (int \<times> decimal) list" where
  "levels_to_close st m level =
     List.map_filter (\<lambda>l. map_option (Pair l) (store_get (quantities st m) l))
       (filter (\<lambda>l. l < level \<and> l < 0) (filled st m))"

definition grid_sell_level ::
  "decimal \<Rightarrow> (nat \<Rightarrow> uuid) \<Rightarrow> (nat \<Rightarrow> datetime) \<Rightarrow> string \<Rightarrow> int \<times> decimal
   \<Rightarrow> Signal list \<times> GridStrategy \<Rightarrow> Signal list \<times> GridStrategy" where
  "grid_sell_level price ids clock m level_qty acc_st =
     (case (level_qty, acc_st) of ((level, qty), (acc, st)) \<Rightarrow>
        (acc @ [with_entry_price price (sig_sell (ids (length acc)) (clock (length acc)) m ''yes'' qty)],
         grid_release m level st))"

definition grid_center :: "num_env \<Rightarrow> StrategyContext \<Rightarrow> GridStrategy \<Rightarrow> string \<Rightarrow> decimal \<Rightarrow> decimal" where
  "grid_center E ctx st m price =
     (if use_dynamic_center st
      then (case calculate_dynamic_center E (recent_snapshots ctx m (center_lookback st)) of
              Some c \<Rightarrow> c | None \<Rightarrow> price)
      else (case center_price st of Some c \<Rightarrow> c | None \<Rightarrow> price))"

definition grid_market ::
  "num_env \<Rightarrow> StrategyContext \<Rightarrow> (nat \<Rightarrow> uuid) \<Rightarrow> (nat \<Rightarrow> datetime) \<Rightarrow> string \<times> MarketSnapshot list
   \<Rightarrow> Signal list \<times> GridStrategy \<Rightarrow> Signal list \<times> GridStrategy" where
  "grid_market E ctx ids clock entry acc_st =
     (case (entry, acc_st) of ((m, snaps), (acc, st)) \<Rightarrow>
        (case last_opt snaps of
           None \<Rightarrow> (acc, st)
         | Some snap \<Rightarrow>
             (let price = yes_mid snap;
                  level = price_to_level E st price (grid_center E ctx st m price);
                  total_pos = total_position E st m;
                  (acc1, st1) = grid_buy_at price ids clock m level total_pos (acc, grid_init m st)
              in if 0 < level
                 then fold (grid_sell_level price ids clock m) (levels_to_close st1 m level) (acc1, st1)
                 else (acc1, st1))))"

definition grid_on_data ::
  "num_env \<Rightarrow> (StrategyContext \<Rightarrow> nat \<Rightarrow> uuid) \<Rightarrow> (StrategyContext \<Rightarrow> nat \<Rightarrow> datetime)
   \<Rightarrow> StrategyContext \<Rightarrow> GridStrategy \<Rightarrow> string + (Signal list \<times> GridStrategy)" where
  "grid_on_data E ids clock ctx st =
     Inr (fold (grid_market E ctx (ids ctx) (clock ctx)) (cx_market_data ctx) ([], st))"

definition grid_strategy ::
  "num_env \<Rightarrow> (StrategyContext \<Rightarrow> nat \<Rightarrow> uuid) \<Rightarrow> (StrategyContext \<Rightarrow> nat \<Rightarrow> datetime) \<Rightarrow> GridStrategy Strategy" where
  "grid_strategy E ids clock = default_strategy ''Grid'' (grid_on_data E ids clock)"

subsection \<open>Lemmas\<close>

text \<open>A level and its price correspond.\<close>

lemma round_half_away_int: "round_half_away (of_int n) = n"
  by (auto simp: round_half_away_def) linarith+

lemma price_to_level_to_price:
  assumes "center \<noteq> 0" "grid_spacing_pct st \<noteq> 0" "- 2147483648 \<le> n" "n \<le> 2147483647"
  shows "price_to_level exact_env st (level_to_price exact_env st n center) center = n"
  using assms
  by (simp add: price_to_level_def level_to_price_def exact_env_def dmul_def dadd_def dsub_def
      ddiv_def parse_f64_def algebra_simps round_half_away_int as_i32_def)

subsection \<open>An example run\<close>

text \<open>One snapshot on which both legs cost 45 cents and sell for 40, and the default arbitrage strategy.\<close>

definition ex_lib :: f64_lib where
  "ex_lib = \<lparr>fsqrt = (\<lambda>x. x), fpowf = (\<lambda>x _. x)\<rparr>"

definition ex_snap :: MarketSnapshot where
  "ex_snap = (snapshot_new exact_env ''m'' 0 (2 / 5) (9 / 20) (2 / 5) (9 / 20))
     \<lparr>yes_ask_depth := 1000, no_ask_depth := 1000, yes_bid_depth := 1000, no_bid_depth := 1000\<rparr>"

definition ex_strategy :: "ArbitrageStrategy Strategy" where
  "ex_strategy = arbitrage_strategy exact_env ex_lib (\<lambda>_ _. 0) (\<lambda>_ _. 0)"

lemmas simulate_defs = simulate_def build_timeline_def store_push_def context_new_def
  simulation_new_def observe_snapshot_def limit_history_def update_positions_def mark_positions_def
  mark_position_def execute_signal_def execute_buy_def execute_sell_def execute_close_def
  close_all_positions_def close_position_def record_equity_def portfolio_value_def position_key_def
  can_fill_def fee_calculate_def leg_ask_def leg_bid_def leg_spread_def leg_ask_depth_def
  leg_bid_depth_def store_insert_def store_remove_def store_values_def last_opt_def
  simulator_default_def hour_of_def dsum_def dec_new_def Let_def

lemmas arb_defs = arbitrage_strategy_def default_strategy_def arb_on_data_def arb_market_def
  has_sufficient_depth_def arb_min_spread_def arb_spread_def has_position_def round_trip_fee_def
  clamp_def with_confidence_def with_entry_price_def sig_buy_def sig_close_def arb_default_def
  parse_f64_def

lemmas ex_defs = ex_strategy_def ex_snap_def snapshot_new_def

lemma ex_simulation:
  "\<exists>s. simulate exact_env simulator_default ex_strategy (\<lambda>_. 0) 0 (Inr [ex_snap]) (arb_default exact_env)
       = Done (Inr s) \<and> ss_total_losses s = 13076 / 100 \<and> length (ss_trades s) = 2
     \<and> map snd (ss_equity_curve s) = [997998 / 100]"
  by (simp add: simulate_defs arb_defs ex_defs)

end
