(* ===== verification/Backtest_Solvency.thy ===== *)
theory Backtest_Solvency
  imports Backtest_Runs Backtest_Strategies
begin

section \<open>A backtest stays solvent\<close>

text \<open>
  The interpretation of \<open>sim_invariant\<close> for cash, positions and equity that are never negative, under
  any strategy. It needs rates of slippage and fees between 0 and 1: a slippage that grows with the
  spread, the size or a missing depth can exceed the bid, and the sale then pays a negative price.
\<close>

fun bounded_slippage :: "SlippageModel \<Rightarrow> bool" where
  "bounded_slippage SlipNone = True"
| "bounded_slippage (SlipFixed pct) = (0 \<le> pct \<and> pct \<le> 1)"
| "bounded_slippage (SlipTime base_pct prime off) =
     (0 \<le> base_pct \<and> base_pct \<le> 1 \<and> 0 \<le> prime \<and> prime \<le> 1 \<and> 0 \<le> off \<and> off \<le> 1)"
| "bounded_slippage _ = False"

fun bounded_fee :: "FeeModel \<Rightarrow> bool" where
  "bounded_fee (FeeFixed pct) = (0 \<le> pct \<and> pct \<le> 1)"
| "bounded_fee (MakerTaker maker taker) = (0 \<le> maker \<and> maker \<le> 1 \<and> 0 \<le> taker \<and> taker \<le> 1)"
| "bounded_fee (VolumeTiered tiers dflt) =
     (0 \<le> dflt \<and> dflt \<le> 1 \<and> list_all (\<lambda>(_, fee). 0 \<le> fee \<and> fee \<le> 1) tiers)"

definition bounded_config :: "SimulatorConfig \<Rightarrow> bool" where
  "bounded_config cfg = (bounded_slippage (slippage_model cfg) \<and> bounded_fee (fee_model cfg)
     \<and> 0 \<le> min_position_size cfg \<and> 0 \<le> initial_capital cfg)"

definition priced :: "MarketSnapshot \<Rightarrow> bool" where
  "priced snap \<longleftrightarrow> 0 \<le> yes_bid snap \<and> 0 \<le> no_bid snap \<and> 0 \<le> yes_ask snap \<and> 0 \<le> no_ask snap
     \<and> dec_rep (yes_bid snap) \<and> dec_rep (no_bid snap)"

definition solvent :: "num_env \<Rightarrow> SimulationState \<Rightarrow> bool" where
  "solvent E s \<longleftrightarrow> 0 \<le> ss_cash s
     \<and> (\<forall>p \<in> set (store_values (ss_positions s)). 0 \<le> bp_quantity p \<and> 0 \<le> bp_current_price p)
     \<and> (\<forall>v \<in> snd ` set (ss_equity_curve s). 0 \<le> v \<and> dec_round E v = v)"

lemma store_values_insert: "set (store_values (store_insert k v m)) \<subseteq> {v} \<union> (set (store_values m))"
  unfolding store_values_def store_insert_def by (induction m) auto

lemma store_values_remove: "set (store_values (store_remove k m)) \<subseteq> set (store_values m)"
  unfolding store_values_def store_remove_def by (induction m) (auto split: if_splits)

lemma fee_rate_bounds: "bounded_fee m \<Longrightarrow> 0 \<le> fee_rate m is_maker vol \<and> fee_rate m is_maker vol \<le> 1"
proof (cases m)
  case (VolumeTiered tiers dflt)
  let ?xs = "map snd (filter (\<lambda>(threshold, _). threshold \<le> vol) tiers)"
  assume "bounded_fee m"
  then have "0 \<le> dflt \<and> dflt \<le> 1" "x \<in> set ?xs \<Longrightarrow> 0 \<le> x \<and> x \<le> 1" for x
    by (auto simp: VolumeTiered list_all_iff)
  moreover have "?xs \<noteq> [] \<Longrightarrow> last ?xs \<in> set ?xs" by (rule last_in_set)
  ultimately show ?thesis unfolding VolumeTiered fee_rate.simps last_opt_def by (cases "?xs = []") auto
qed auto

context numeric_env
begin

lemma dmul_le: "0 \<le> a \<Longrightarrow> 0 \<le> r \<Longrightarrow> r \<le> 1 \<Longrightarrow> dec_round E a = a \<Longrightarrow> dmul E a r \<le> a"
  using dmul_mono_right [of a r 1] by (simp add: dmul_def)

lemma slippage_nonneg:
  assumes "bounded_slippage m" "0 \<le> price"
  shows "0 \<le> calculate_with_depth E m price qty spread depth hour"
  using assms by (cases m) (auto intro!: dmul_nonneg)

lemma slippage_le:
  assumes "bounded_slippage m" "0 \<le> price" "dec_rep price"
  shows "calculate_with_depth E m price qty spread depth hour \<le> price"
proof (cases m)
  case (SlipTime base_pct prime off)
  have "dmul E price base_pct \<le> price" "0 \<le> dmul E price base_pct"
    using assms SlipTime by (auto intro!: dmul_le dmul_nonneg simp: dec_exact)
  moreover have "dmul E (dmul E price base_pct) r \<le> dmul E price base_pct" if "0 \<le> r" "r \<le> 1" for r
    using that calculation by (intro dmul_le) auto
  ultimately show ?thesis using assms(1) SlipTime by (auto intro: order_trans)
qed (use assms in \<open>auto intro!: dmul_le simp: dec_exact\<close>)

lemma dsum_nonneg: "(\<And>x. x \<in> set xs \<Longrightarrow> 0 \<le> x) \<Longrightarrow> 0 \<le> dsum E xs"
proof -
  have "0 \<le> a \<Longrightarrow> (\<And>x. x \<in> set xs \<Longrightarrow> 0 \<le> x) \<Longrightarrow> 0 \<le> foldl (dadd E) a xs" for a
    by (induction xs arbitrary: a) (auto intro: dadd_nonneg)
  then show "(\<And>x. x \<in> set xs \<Longrightarrow> 0 \<le> x) \<Longrightarrow> 0 \<le> dsum E xs" unfolding dsum_def by blast
qed

lemma portfolio_nonneg: "solvent E s \<Longrightarrow> 0 \<le> portfolio_value E s \<and> dec_round E (portfolio_value E s) = portfolio_value E s"
  unfolding portfolio_value_def
  by (auto simp: solvent_def intro!: dadd_nonneg dsum_nonneg dmul_nonneg)

lemma solvent_mark:
  assumes "solvent E s" "list_all priced snaps"
  shows "solvent E (mark_positions E snaps s)"
proof -
  define ok where "ok = (\<lambda>p :: BtPosition. 0 \<le> bp_quantity p \<and> 0 \<le> bp_current_price p)"
  have mark: "ok (mark_position E snap p)" if "ok p" "priced snap" for p snap
    using that by (auto simp: ok_def mark_position_def priced_def leg_bid_def Let_def)
  have "\<forall>p \<in> set (store_values (fold (\<lambda>snap. map (\<lambda>(k, p). (k, mark_position E snap p))) snaps ps)). ok p"
    if "\<forall>p \<in> set (store_values ps). ok p" for ps
    using assms(2) that
  proof (induction snaps arbitrary: ps)
    case (Cons snap snaps)
    have "\<forall>p \<in> set (store_values (map (\<lambda>(k, p). (k, mark_position E snap p)) ps)). ok p"
      using Cons.prems mark by (fastforce simp: store_values_def)
    with Cons.IH Cons.prems(1) show ?case by simp
  qed simp
  from this [of "ss_positions s"] assms(1) show ?thesis
    by (simp add: solvent_def mark_positions_def ok_def)
qed

lemma solvent_equity: "solvent E s \<Longrightarrow> solvent E (record_equity E t s)"
  using portfolio_nonneg [of s] by (auto simp: solvent_def record_equity_def)

lemma solvent_buy:
  assumes "solvent E s" "bounded_config cfg" "priced snap"
    and "execute_buy E cfg i sig ctx s snap = Done (s', r)"
  shows "solvent E s'"
  using assms(4)
proof (cases rule: execute_buy_cases)
  case skipped
  then show ?thesis using assms(1) by simp
next
  case (bought slip p trade)
  note b = bought(2) [unfolded bought_def]
  have base: "0 \<le> leg_ask snap (sg_outcome_id sig)" using assms(3) by (simp add: leg_ask_def priced_def)
  then have "0 \<le> ddiv E (min_position_size cfg) (leg_ask snap (sg_outcome_id sig))"
    using assms(2) by (simp add: bounded_config_def ddiv_def round_nonneg)
  moreover have "0 \<le> dadd E (leg_ask snap (sg_outcome_id sig)) slip"
    using b base assms(2) by (auto simp: bounded_config_def intro!: dadd_nonneg slippage_nonneg)
  ultimately have "0 \<le> bp_quantity p \<and> 0 \<le> bp_current_price p" using b by simp
  moreover have "0 \<le> ss_cash s'" using b by (auto intro: dsub_nonneg)
  ultimately show ?thesis
    using assms(1) b store_values_insert [of "position_key (sg_market_id sig) (sg_outcome_id sig)" p "ss_positions s"]
    by (auto simp: solvent_def)
qed

lemma close_proceeds_nonneg:
  assumes "0 \<le> bp_quantity p" "bounded_config cfg" "priced snap"
  shows "0 \<le> close_proceeds E cfg s p snap"
proof -
  have tv: "0 \<le> close_value E cfg p snap"
    unfolding close_value_def using assms
    by (intro dmul_nonneg dsub_nonneg slippage_le) (auto simp: bounded_config_def priced_def leg_bid_def)
  have "dec_round E (close_value E cfg p snap) = close_value E cfg p snap" by (simp add: close_value_def)
  then have "fee_calculate E (fee_model cfg) (close_value E cfg p snap) False (ss_total_fees s) \<le> close_value E cfg p snap"
    unfolding fee_calculate_def
    using fee_rate_bounds assms(2) tv by (intro dmul_le) (auto simp: bounded_config_def)
  then show ?thesis unfolding close_proceeds_def by (rule dsub_nonneg)
qed

lemma solvent_close:
  assumes "solvent E s" "bounded_config cfg" "priced snap"
  shows "solvent E (fst (execute_close E cfg i sig s snap))"
proof (cases "store_get (ss_positions s) (position_key (sg_market_id sig) (sg_outcome_id sig))")
  case None
  then show ?thesis using assms(1) by (simp add: execute_close_absent)
next
  case (Some p)
  then have "0 \<le> bp_quantity p" using assms(1) by (auto simp: solvent_def dest: store_get_in_values)
  with assms have "0 \<le> dadd E (ss_cash s) (close_proceeds E cfg s p snap)"
    by (auto simp: solvent_def intro!: dadd_nonneg close_proceeds_nonneg)
  then show ?thesis
    using assms(1) store_values_remove by (fastforce simp: solvent_def execute_close_fields [OF Some refl refl])
qed

lemma solvent_signal:
  assumes "solvent E s" "bounded_config cfg" "list_all priced snaps"
    and "execute_signal E cfg i sig ctx s snaps = Done (s', r)"
  shows "solvent E s'"
proof (cases "find (\<lambda>x. ms_market_id x = sg_market_id sig) snaps")
  case (Some snap)
  then have "priced snap" using assms(3) by (auto simp: find_Some_iff list_all_iff)
  note keeps = solvent_buy [OF assms(1,2) this] solvent_close [OF assms(1,2) this]
  show ?thesis
  proof (cases "signal_type sig")
    case Buy_sig
    with assms(4) Some keeps(1) show ?thesis by (simp add: execute_signal_def)
  next
    case Sell_sig
    with assms(4) Some keeps(2) [of i sig] show ?thesis by (simp add: execute_signal_def execute_sell_def)
  next
    case Close_sig
    with assms(4) Some keeps(2) [of i sig] show ?thesis by (simp add: execute_signal_def)
  qed (use assms(1,4) Some in \<open>simp add: execute_signal_def\<close>)
qed (use assms(1,4) in \<open>simp add: execute_signal_def\<close>)

lemma solvent_invariant:
  assumes "bounded_config cfg"
  shows "sim_invariant E cfg strat priced (\<lambda>_. solvent E) (\<lambda>_ _. True)"
proof unfold_locales
  fix d s sig sigs snaps i ctx s' r
  assume "solvent E s" "list_all (\<lambda>y. priced y \<and> covered d (ms_market_id y)) snaps"
    and ex: "execute_signal E cfg i sig ctx s snaps = Done (s', r)"
  then show "solvent E s' \<and> True" using solvent_signal [OF _ assms _ ex] by (simp add: list_all_iff)
qed (auto intro: solvent_mark solvent_equity solvent_close assms)

end

interpretation default_run: sim_invariant exact_env simulator_default strat priced
  "\<lambda>_. solvent exact_env" "\<lambda>_ _. True" for strat :: "'x Strategy"
  by (rule numeric_env.solvent_invariant [OF exact.numeric_env_axioms])
    (simp add: bounded_config_def simulator_default_def dec_new_def)



end
