(* ===== verification/Backtest_Accounts.thy ===== *)
theory Backtest_Accounts
  imports Backtest_Runs Backtest_Strategies
begin

section \<open>The accounts of a backtest\<close>

text \<open>
  What a buy does to the value of the portfolio, which signals the arbitrage strategy gives, and the
  interpretation of \<open>sim_invariant\<close> for the accounts of a run with that strategy, when no Decimal
  operation has to round: the money that left the cash is in the positions, in the losses or in
  the fees of the entries.
\<close>

subsection \<open>Sums over the positions\<close>

lemma sum_store_insert:
  fixes f :: "'v \<Rightarrow> rat"
  shows "sum_list (map f (store_values (store_insert k v m))) =
    f v + sum_list (map f (store_values m)) - (case store_get m k of None \<Rightarrow> 0 | Some u \<Rightarrow> f u)"
  by (induction m) (auto simp: store_values_def store_insert_def)

lemma sum_store_remove:
  fixes f :: "'v \<Rightarrow> rat"
  assumes "store_wf m" "store_get m k = Some u"
  shows "sum_list (map f (store_values (store_remove k m))) = sum_list (map f (store_values m)) - f u"
    and "Suc (length (store_remove k m)) = length m"
  using assms
  by (induction m) (auto simp: store_values_def store_wf_def store_remove_def store_get_def
      delete_idem split: if_splits)

subsection \<open>A buy and the portfolio\<close>

text \<open>
  A buy forfeits the position it replaces. In a simulation without rounding, a buy that goes
  through lowers the value of the portfolio by its fees and by the whole value of the position
  that was held under the same market and outcome: the new position replaces the old one, whose
  shares are neither added to it nor sold.
\<close>

theorem repeated_buy_forfeits:
  assumes "execute_buy exact_env cfg i sig ctx s snap = Done (s', Some trade)"
  shows "portfolio_value exact_env s' = portfolio_value exact_env s - tr_fees trade
    - (case store_get (ss_positions s) (position_key (sg_market_id sig) (sg_outcome_id sig)) of
         None \<Rightarrow> 0 | Some p \<Rightarrow> bp_value exact_env p)"
  using assms
proof (cases rule: execute_buy_cases)
  case (bought slip p trade')
  have sum: "foldl (dadd exact_env) a xs = a + sum_list xs" for a xs
    by (induction xs arbitrary: a) auto
  have trade: "trade' = trade" using bought(1) by simp
  show ?thesis
    using bought(2) unfolding bought_def trade
    by (auto simp: portfolio_value_def dsum_def sum sum_store_insert bp_value_def split: option.split)
qed simp

definition ex_held :: SimulationState where
  "ex_held = (simulation_new 10000)\<lparr>ss_positions := [(position_key ''m'' ''yes'',
     \<lparr>bp_market_id = ''m'', bp_outcome_id = ''yes'', bp_quantity = 100, bp_entry_price = 1 / 2,
      bp_opened_at = 0, bp_unrealized_pnl = - 10, bp_current_price = 2 / 5\<rparr>)]\<rparr>"

theorem repeated_buy_forfeits_witness:
  "\<exists>s' trade. execute_buy exact_env simulator_default 0 (sig_buy 0 0 ''m'' ''yes'' (1 / 10)) (context_new 0 10000)
       ex_held ex_snap = Done (s', Some trade)
     \<and> portfolio_value exact_env s' = portfolio_value exact_env ex_held - tr_fees trade - 40"
proof -
  have "\<exists>s' trade. execute_buy exact_env simulator_default 0 (sig_buy 0 0 ''m'' ''yes'' (1 / 10)) (context_new 0 10000)
      ex_held ex_snap = Done (s', Some trade)"
    by (simp add: ex_held_def simulate_defs ex_defs sig_buy_def)
  then obtain s' trade where buy: "execute_buy exact_env simulator_default 0 (sig_buy 0 0 ''m'' ''yes'' (1 / 10))
      (context_new 0 10000) ex_held ex_snap = Done (s', Some trade)" by blast
  have "store_get (ss_positions ex_held) (position_key ''m'' ''yes'') \<noteq> None
    \<and> bp_value exact_env (the (store_get (ss_positions ex_held) (position_key ''m'' ''yes''))) = 40"
    by (simp add: ex_held_def bp_value_def)
  with repeated_buy_forfeits [OF buy] buy show ?thesis by (auto simp: sig_buy_def)
qed

subsection \<open>The signals of the arbitrage strategy\<close>

definition arb_wanted :: "num_env \<Rightarrow> f64_lib \<Rightarrow> ArbitrageStrategy \<Rightarrow> StrategyContext \<Rightarrow> string \<times> MarketSnapshot list \<Rightarrow> bool" where
  "arb_wanted E L st ctx = (\<lambda>(m, snaps). snaps \<noteq> [] \<and> has_sufficient_depth st (last snaps)
     \<and> arb_min_spread E L st ctx m \<le> arb_spread E (last snaps) \<and> \<not> has_position ctx m)"

abbreviation leg :: "Signal \<Rightarrow> string \<times> string" where
  "leg sig \<equiv> (sg_market_id sig, sg_outcome_id sig)"

lemma arb_market_legs:
  "map leg (arb_market E L st ctx ids clock k m snaps) =
     (if arb_wanted E L st ctx (m, snaps) then [(m, ''yes''), (m, ''no'')] else [])"
  "sig \<in> set (arb_market E L st ctx ids clock k m snaps) \<Longrightarrow>
     signal_type sig = Buy_sig \<and> position_size sig = ddiv E (ab_position_size st) 2"
  by (auto simp: arb_market_def arb_wanted_def last_opt_def Let_def with_confidence_def
      with_entry_price_def sig_buy_def split: if_splits)

lemma arb_markets_legs:
  "map leg (arb_markets E L st ctx ids clock acc d) = map leg acc @
     concat (map (\<lambda>(m, _). [(m, ''yes''), (m, ''no'')]) (filter (arb_wanted E L st ctx) d))"
  "sig \<in> set (arb_markets E L st ctx ids clock acc d) \<Longrightarrow>
     sig \<in> set acc \<or> signal_type sig = Buy_sig \<and> position_size sig = ddiv E (ab_position_size st) 2"
  by (induction E L st ctx ids clock acc d rule: arb_markets.induct)
    (auto simp: arb_market_legs(1) dest: arb_market_legs(2))

text \<open>
  The arbitrage strategy signals exactly the opportunities it sees. While fewer markets than
  \<open>max_positions\<close> are held, one call of \<open>on_data\<close> buys both legs, YES then NO, with half of the
  position size each, of every market without a position whose last snapshot is deep enough and
  whose asks leave the required spread, and of no other market; else it signals nothing. The limit
  is not applied to the markets of the call itself, so it can be exceeded.
\<close>

lemma arb_signals_exact:
  assumes "arb_on_data E L ids clock ctx st = Inr (sigs, st')"
  shows "st' = st
    \<and> map leg sigs = (if card (bp_market_id ` set (store_values (cx_positions ctx))) < ab_max_positions st
       then concat (map (\<lambda>(m, _). [(m, ''yes''), (m, ''no'')]) (filter (arb_wanted E L st ctx) (cx_market_data ctx)))
       else [])
    \<and> (\<forall>sig \<in> set sigs. signal_type sig = Buy_sig \<and> position_size sig = ddiv E (ab_position_size st) 2)"
  using assms
  by (auto simp: arb_on_data_def arb_markets_legs(1) split: if_splits dest: arb_markets_legs(2))

definition ex_context :: StrategyContext where
  "ex_context = (context_new 0 10000)\<lparr>cx_market_data := [(''m'', [ex_snap]), (''n'', [ex_snap])]\<rparr>"

lemma arb_signals_exceed_limit:
  "\<exists>sigs. arb_on_data exact_env ex_lib (\<lambda>_ _. 0) (\<lambda>_ _. 0) ex_context (arb_new exact_env (2 / 100) (1 / 10) 1)
       = Inr (sigs, arb_new exact_env (2 / 100) (1 / 10) 1)
     \<and> map leg sigs = [(''m'', ''yes''), (''m'', ''no''), (''n'', ''yes''), (''n'', ''no'')]"
proof -
  let ?st = "arb_new exact_env (2 / 100) (1 / 10) 1"
  obtain sigs where run: "arb_on_data exact_env ex_lib (\<lambda>_ _. 0) (\<lambda>_ _. 0) ex_context ?st = Inr (sigs, ?st)"
    by (simp add: arb_on_data_def ex_context_def context_new_def store_values_def arb_new_def)
  have "filter (arb_wanted exact_env ex_lib ?st ex_context) (cx_market_data ex_context)
      = [(''m'', [ex_snap]), (''n'', [ex_snap])]"
    "card (bp_market_id ` set (store_values (cx_positions ex_context))) < ab_max_positions ?st"
    by (simp_all add: arb_wanted_def ex_context_def context_new_def store_values_def arb_new_def
        arb_defs ex_defs dec_new_def)
  with arb_signals_exact [OF run] run show ?thesis by simp
qed

subsection \<open>The accounts of a run with the arbitrage strategy\<close>

definition cost_basis :: "SimulationState \<Rightarrow> rat" where
  "cost_basis s = sum_list (map (\<lambda>p. bp_quantity p * bp_entry_price p) (store_values (ss_positions s)))"

definition entry_fees :: "SimulationState \<Rightarrow> rat" where
  "entry_fees s = sum_list (map tr_fees (ss_trades s))"

definition keyed :: "(string, MarketSnapshot list) store \<Rightarrow> (string, BtPosition) store \<Rightarrow> bool" where
  "keyed d ps \<longleftrightarrow> store_wf ps \<and> (\<forall>k p. store_get ps k = Some p \<longrightarrow>
     k = position_key (bp_market_id p) (bp_outcome_id p) \<and> bp_outcome_id p \<in> {''yes'', ''no''}
     \<and> covered d (bp_market_id p))"

definition balanced :: "rat \<Rightarrow> (string, MarketSnapshot list) store \<Rightarrow> SimulationState \<Rightarrow> bool" where
  "balanced c d s \<longleftrightarrow> keyed d (ss_positions s)
     \<and> ss_cash s + cost_basis s = c + ss_total_wins s - ss_total_losses s - entry_fees s
     \<and> ss_realized_pnl s = ss_total_wins s - ss_total_losses s
     \<and> ss_winning_trades s + ss_losing_trades s + length (ss_positions s) = length (ss_trades s)"

text \<open>The signals still to be executed buy legs that are not held, each once.\<close>

definition sig_key :: "Signal \<Rightarrow> string" where
  "sig_key sig = position_key (sg_market_id sig) (sg_outcome_id sig)"

definition fresh_buys :: "Signal list \<Rightarrow> SimulationState \<Rightarrow> bool" where
  "fresh_buys sigs s \<longleftrightarrow> distinct (map sig_key sigs) \<and> (\<forall>sig \<in> set sigs. signal_type sig = Buy_sig
     \<and> sg_outcome_id sig \<in> {''yes'', ''no''} \<and> store_get (ss_positions s) (sig_key sig) = None)"

lemma position_key_inj:
  assumes "position_key m out = position_key m' out'" "out \<in> {''yes'', ''no''}" "out' \<in> {''yes'', ''no''}"
  shows "m = m' \<and> out = out'"
proof -
  have "last out = last out'"
    using assms unfolding position_key_def by (metis append_is_Nil_conv insertE last_appendR list.distinct(1) singletonD)
  then have "out = out'" using assms(2,3) by auto
  with assms(1) show ?thesis by (simp add: position_key_def)
qed

lemma mark_positions_same:
  "store_wf (ss_positions (mark_positions E snaps s)) = store_wf (ss_positions s)"
  "cost_basis (mark_positions E snaps s) = cost_basis s"
  "length (ss_positions (mark_positions E snaps s)) = length (ss_positions s)"
  "\<And>P. (\<forall>k p. store_get (ss_positions (mark_positions E snaps s)) k = Some p
        \<longrightarrow> P k (bp_market_id p) (bp_outcome_id p)) =
      (\<forall>k p. store_get (ss_positions s) k = Some p \<longrightarrow> P k (bp_market_id p) (bp_outcome_id p))"
proof -
  define f where "f = (\<lambda>snap. map (\<lambda>(k :: string, p). (k, mark_position E snap p)))"
  define cost where "cost = (\<lambda>ps :: (string, BtPosition) store.
    sum_list (map (\<lambda>p. bp_quantity p * bp_entry_price p) (store_values ps)))"
  have same: "bp_market_id (mark_position E x p) = bp_market_id p"
    "bp_outcome_id (mark_position E x p) = bp_outcome_id p" "bp_quantity (mark_position E x p) = bp_quantity p"
    "bp_entry_price (mark_position E x p) = bp_entry_price p" for x p
    by (auto simp: mark_position_def Let_def)
  have cost1: "cost (f x ps) = cost ps" for x ps
    by (induction ps) (auto simp: cost_def f_def store_values_def same)
  have "store_wf (fold f snaps ps) = store_wf ps \<and> cost (fold f snaps ps) = cost ps
    \<and> length (fold f snaps ps) = length ps
    \<and> (\<forall>k. map_option leg' (store_get (fold f snaps ps) k) = map_option leg' (store_get ps k))"
    if leg': "leg' = (\<lambda>p :: BtPosition. (bp_market_id p, bp_outcome_id p))" for ps leg'
    by (induction snaps arbitrary: ps)
      (auto simp: cost1, auto simp: f_def store_wf_map store_get_map same leg' option.map_comp comp_def)
  note all = this [OF refl, of "ss_positions s"]
  then show "store_wf (ss_positions (mark_positions E snaps s)) = store_wf (ss_positions s)"
    "cost_basis (mark_positions E snaps s) = cost_basis s"
    "length (ss_positions (mark_positions E snaps s)) = length (ss_positions s)"
    by (simp_all add: mark_positions_def cost_basis_def cost_def f_def)
  fix P :: "string \<Rightarrow> string \<Rightarrow> string \<Rightarrow> bool"
  have by_legs: "(\<forall>k p. store_get ps k = Some p \<longrightarrow> P k (bp_market_id p) (bp_outcome_id p)) =
      (\<forall>k m out. map_option (\<lambda>p. (bp_market_id p, bp_outcome_id p)) (store_get ps k) = Some (m, out) \<longrightarrow> P k m out)"
    for ps :: "(string, BtPosition) store" by auto
  show "(\<forall>k p. store_get (ss_positions (mark_positions E snaps s)) k = Some p
        \<longrightarrow> P k (bp_market_id p) (bp_outcome_id p)) =
      (\<forall>k p. store_get (ss_positions s) k = Some p \<longrightarrow> P k (bp_market_id p) (bp_outcome_id p))"
    unfolding by_legs using all by (simp add: mark_positions_def f_def)
qed

lemma balanced_mark: "balanced c d s \<Longrightarrow> balanced c d (mark_positions E snaps s)"
proof -
  assume s: "balanced c d s"
  have keyed: "keyed d (ss_positions (mark_positions E snaps s))"
    using s unfolding balanced_def keyed_def mark_positions_same(1)
      mark_positions_same(4) [of E snaps s "\<lambda>k m out. k = position_key m out
        \<and> out \<in> {''yes'', ''no''} \<and> covered d m"] by blast
  have rest: "ss_cash (mark_positions E snaps s) = ss_cash s"
    "ss_total_wins (mark_positions E snaps s) = ss_total_wins s"
    "ss_total_losses (mark_positions E snaps s) = ss_total_losses s"
    "ss_realized_pnl (mark_positions E snaps s) = ss_realized_pnl s"
    "ss_winning_trades (mark_positions E snaps s) = ss_winning_trades s"
    "ss_losing_trades (mark_positions E snaps s) = ss_losing_trades s"
    "ss_trades (mark_positions E snaps s) = ss_trades s"
    by (simp_all add: mark_positions_def)
  from s keyed show ?thesis
    by (simp add: balanced_def mark_positions_same(2,3) rest entry_fees_def)
qed

lemma balanced_buy:
  assumes "balanced c d s" "covered d (sg_market_id sig)" "sg_outcome_id sig \<in> {''yes'', ''no''}"
    and "store_get (ss_positions s) (sig_key sig) = None"
    and "execute_buy exact_env cfg i sig ctx s snap = Done (s', r)"
  shows "balanced c d s' \<and> (\<forall>k. k \<noteq> sig_key sig \<longrightarrow> store_get (ss_positions s') k = store_get (ss_positions s) k)"
  using assms(5)
proof (cases rule: execute_buy_cases)
  case (bought slip p trade)
  note b = bought(2) [unfolded bought_def, folded sig_key_def]
  have pos: "ss_positions s' = store_insert (sig_key sig) p (ss_positions s)" using b by simp
  have "keyed d (ss_positions s')"
    unfolding pos using assms(1-3) b
    by (auto simp: balanced_def keyed_def st.wf_insert store_simps sig_key_def split: if_splits)
  moreover have "length (ss_positions s') = Suc (length (ss_positions s))"
    by (simp add: pos store_insert_new assms(4))
  moreover have "cost_basis s' = cost_basis s + bp_quantity p * bp_entry_price p"
    by (simp add: cost_basis_def pos sum_store_insert assms(4))
  ultimately show ?thesis
    using assms(1) b by (simp add: balanced_def entry_fees_def pos store_simps)
qed (use assms(1) in simp)

lemma balanced_close:
  assumes "balanced c d s"
  shows "balanced c d (fst (execute_close exact_env cfg i sig s snap))"
proof (cases "store_get (ss_positions s) (position_key (sg_market_id sig) (sg_outcome_id sig))")
  case None
  then show ?thesis using assms by (simp add: execute_close_absent)
next
  case (Some p)
  let ?k = "position_key (sg_market_id sig) (sg_outcome_id sig)"
  let ?s = "fst (execute_close exact_env cfg i sig s snap)"
  note f = execute_close_fields [OF Some refl refl, where E = exact_env]
  have wf: "store_wf (ss_positions s)" using assms by (simp add: balanced_def keyed_def)
  have keyed: "keyed d (ss_positions ?s)"
    using assms unfolding f(1) by (auto simp: balanced_def keyed_def st.wf_remove store_simps split: if_splits)
  have cost: "cost_basis ?s = cost_basis s - bp_quantity p * bp_entry_price p"
    "Suc (length (ss_positions ?s)) = length (ss_positions s)"
    unfolding cost_basis_def f(1)
    by (rule sum_store_remove(1) [OF wf Some]) (rule sum_store_remove(2) [OF wf Some])
  have fees: "entry_fees ?s = entry_fees s" "length (ss_trades ?s) = length (ss_trades s)"
    using f(8) [of cfg i snap] by (simp add: entry_fees_def, metis length_map)
  show ?thesis
    using assms keyed cost fees f(2,3,4,5,6) [of cfg i snap] unfolding balanced_def by auto
qed

lemma balanced_grows: "balanced c d s \<Longrightarrow> grows d d' \<Longrightarrow> balanced c d' s"
  by (simp add: balanced_def keyed_def grows_def)

lemma balanced_equity: "balanced c d s \<Longrightarrow> balanced c d (record_equity E t s)"
  by (simp add: balanced_def record_equity_def cost_basis_def entry_fees_def)

lemma distinct_legs:
  "distinct (map fst d) \<Longrightarrow> distinct (concat (map (\<lambda>(m, _). [(m, ''yes''), (m, ''no'')]) d))"
  by (induction d) (auto simp: image_iff)

lemma fresh_buys_signals:
  assumes "keyed d (ss_positions s)" "cx_positions ctx = ss_positions s" "store_wf (cx_market_data ctx)"
    and "arb_on_data E L ids clock ctx st = Inr (sigs, st')"
  shows "fresh_buys sigs s"
proof -
  let ?d = "filter (arb_wanted E L st ctx) (cx_market_data ctx)"
  have sigs: "map leg sigs = concat (map (\<lambda>(m, _). [(m, ''yes''), (m, ''no'')]) ?d) \<or> sigs = []"
    "\<And>sig. sig \<in> set sigs \<Longrightarrow> signal_type sig = Buy_sig"
    using assms(4) by (auto simp: arb_on_data_def arb_markets_legs(1) split: if_splits dest: arb_markets_legs(2))
  have "distinct (map fst ?d)" using assms(3) unfolding store_wf_def by (rule distinct_map_filter)
  then have "distinct (concat (map (\<lambda>(m, _). [(m, ''yes''), (m, ''no'')]) ?d))"
    by (rule distinct_legs)
  then have dist: "distinct (map leg sigs)" using sigs(1) by auto
  have want: "sg_outcome_id sig \<in> {''yes'', ''no''} \<and> \<not> has_position ctx (sg_market_id sig)"
    if "sig \<in> set sigs" for sig
  proof -
    have "sigs \<noteq> []" "leg sig \<in> set (map leg sigs)" using that by auto
    then have "leg sig \<in> set (concat (map (\<lambda>(m, _). [(m, ''yes''), (m, ''no'')]) ?d))"
      using sigs(1) by (simp only: simp_thms)
    then show ?thesis by (auto simp: arb_wanted_def)
  qed
  have "inj_on (\<lambda>(m, out). position_key m out) (set (map leg sigs))"
    using want by (intro inj_onI) (auto dest!: position_key_inj)
  then have "distinct (map (\<lambda>(m, out). position_key m out) (map leg sigs))"
    using dist by (simp only: distinct_map)
  moreover have "map (\<lambda>(m, out). position_key m out) (map leg sigs) = map sig_key sigs"
    by (simp add: sig_key_def)
  ultimately have "distinct (map sig_key sigs)" by (simp only:)
  moreover have "store_get (ss_positions s) (sig_key sig) = None" if "sig \<in> set sigs" for sig
  proof (rule ccontr)
    assume "store_get (ss_positions s) (sig_key sig) \<noteq> None"
    then obtain p where p: "store_get (ss_positions s) (sig_key sig) = Some p" by blast
    with assms(1) have "sig_key sig = position_key (bp_market_id p) (bp_outcome_id p)"
      "bp_outcome_id p \<in> {''yes'', ''no''}" by (simp_all add: keyed_def)
    with want [OF that] position_key_inj [of "sg_market_id sig" "sg_outcome_id sig" "bp_market_id p" "bp_outcome_id p"]
    have "bp_market_id p = sg_market_id sig" by (simp add: sig_key_def)
    moreover have "p \<in> set (store_values (cx_positions ctx))"
      using p assms(2) by (simp add: store_get_in_values)
    ultimately show False using want [OF that] by (auto simp: has_position_def list_ex_iff)
  qed
  ultimately show ?thesis using sigs(2) want by (simp add: fresh_buys_def)
qed

interpretation arb_run: sim_invariant exact_env cfg "arbitrage_strategy exact_env L ids clock"
  "\<lambda>_. True" "balanced c" fresh_buys for cfg L ids clock c
proof unfold_locales
  fix d s sig sigs snaps i ctx s' r
  assume s: "balanced c d s" "fresh_buys (sig # sigs) s"
    and snaps: "list_all (\<lambda>y. True \<and> covered d (ms_market_id y)) snaps"
    and ex: "execute_signal exact_env cfg i sig ctx s snaps = Done (s', r)"
  have sig: "signal_type sig = Buy_sig" "sg_outcome_id sig \<in> {''yes'', ''no''}"
    "store_get (ss_positions s) (sig_key sig) = None" "sig_key sig \<notin> sig_key ` set sigs"
    using s(2) by (simp_all add: fresh_buys_def)
  have "balanced c d s' \<and> (\<forall>k. k \<noteq> sig_key sig \<longrightarrow> store_get (ss_positions s') k = store_get (ss_positions s) k)"
  proof (cases "find (\<lambda>x. ms_market_id x = sg_market_id sig) snaps")
    case None
    then show ?thesis using ex s(1) by (simp add: execute_signal_def)
  next
    case (Some snap)
    then have "snap \<in> set snaps" "ms_market_id snap = sg_market_id sig" by (auto simp: find_Some_iff)
    then have "covered d (sg_market_id sig)" using snaps by (auto simp: list_all_iff)
    moreover have "execute_buy exact_env cfg i sig ctx s snap = Done (s', r)"
      using ex Some sig(1) by (simp add: execute_signal_def)
    ultimately show ?thesis using balanced_buy [OF s(1) _ sig(2,3)] by blast
  qed
  with s(2) sig(4) show "balanced c d s' \<and> fresh_buys sigs s'"
    by (auto simp: fresh_buys_def image_iff)
next
  fix ctx s x sigs x'
  assume "balanced c (cx_market_data ctx) s" "cx_positions ctx = ss_positions s"
    "data_ok (\<lambda>_. True) (cx_market_data ctx)"
    "sy_on_data (arbitrage_strategy exact_env L ids clock) ctx x = Inr (sigs, x')"
  then show "fresh_buys sigs s"
    by (intro fresh_buys_signals [of "cx_market_data ctx" s ctx exact_env L ids clock x sigs x'])
      (simp_all add: balanced_def data_ok_def arbitrage_strategy_def default_strategy_def)
qed (auto intro: balanced_mark balanced_close balanced_equity balanced_grows)

text \<open>Every position of a keyed state is closed at the end.\<close>

lemma close_position_removes:
  assumes "keyed (cx_market_data ctx) (ss_positions s)" "data_ok good (cx_market_data ctx)"
    and "covered (cx_market_data ctx) (bp_market_id p)"
  shows "ss_positions (close_position E cfg i now ctx p s) =
    store_remove (position_key (bp_market_id p) (bp_outcome_id p)) (ss_positions s)"
proof -
  let ?k = "position_key (bp_market_id p) (bp_outcome_id p)"
  obtain h where h: "store_get (cx_market_data ctx) (bp_market_id p) = Some h" "h \<noteq> []"
    using assms(2,3) by (auto simp: covered_def dest: data_ok_get)
  show ?thesis
  proof (cases "store_get (ss_positions s) ?k")
    case None
    then have "store_remove ?k (ss_positions s) = ss_positions s"
      unfolding store_remove_def store_get_def by (simp add: map_of_eq_None_iff)
    with None h show ?thesis
      by (simp add: close_position_def last_opt_def execute_close_absent sig_close_def)
  next
    case (Some q)
    then show ?thesis
      using h execute_close_fields(1) [of s "sig_close i now (bp_market_id p) (bp_outcome_id p)" q, OF _ refl refl]
      by (simp add: close_position_def last_opt_def sig_close_def)
  qed
qed

lemma close_positions_empty:
  assumes "keyed (cx_market_data ctx) (ss_positions s)" "data_ok good (cx_market_data ctx)"
    and "\<forall>p \<in> set ps. covered (cx_market_data ctx) (bp_market_id p)"
    and "set (store_values (ss_positions s)) \<subseteq> set ps"
  shows "ss_positions (fold (close_position E cfg i now ctx) ps s) = []"
  using assms
proof (induction ps arbitrary: s)
  case Nil
  then show ?case by (simp add: store_values_def)
next
  case (Cons p ps)
  let ?s = "close_position E cfg i now ctx p s" and ?k = "position_key (bp_market_id p) (bp_outcome_id p)"
  have pos: "ss_positions ?s = store_remove ?k (ss_positions s)"
    using Cons.prems(1-3) by (intro close_position_removes) auto
  have keyed: "keyed (cx_market_data ctx) (ss_positions ?s)"
    using Cons.prems(1) unfolding pos by (auto simp: keyed_def st.wf_remove store_simps split: if_splits)
  have "set (store_values (ss_positions ?s)) \<subseteq> set ps"
  proof
    fix q
    assume q: "q \<in> set (store_values (ss_positions ?s))"
    then obtain k where k: "store_get (ss_positions ?s) k = Some q"
      using keyed by (auto simp: keyed_def st.vals_get ran_def)
    then have "k \<noteq> ?k" "store_get (ss_positions s) k = Some q"
      by (auto simp: pos store_simps split: if_splits)
    moreover have "k = position_key (bp_market_id q) (bp_outcome_id q)"
      using keyed k by (simp add: keyed_def)
    ultimately show "q \<in> set ps" using Cons.prems(4) store_get_in_values by fastforce
  qed
  with Cons.IH [OF keyed] Cons.prems(2,3) show ?case by simp
qed

lemma balanced_start: "balanced c [] (simulation_new c)"
  by (simp add: balanced_def keyed_def simulation_new_def cost_basis_def entry_fees_def store_values_def)

text \<open>
  C33: The accounts of an arbitrage backtest balance. In a run with the arbitrage strategy that ends
  normally and in which no Decimal operation rounds, every position is closed at the end, every
  trade is counted once as won or lost, the realized P\&L is the wins less the losses, and the final
  value is the initial capital plus the wins less the losses less the fees of the entries: no
  money is created and none is lost. The P\&L of a trade leaves out the fee of its entry, so the
  reported wins and losses differ from the return by exactly those fees.
\<close>

theorem arb_backtest_balances:
  assumes "simulate exact_env cfg (arbitrage_strategy exact_env L ids clock) uids now (Inr snaps) st
    = Done (Inr s)"
  shows "ss_positions s = []
    \<and> ss_winning_trades s + ss_losing_trades s = length (ss_trades s)
    \<and> ss_realized_pnl s = ss_total_wins s - ss_total_losses s
    \<and> portfolio_value exact_env s = initial_capital cfg + ss_total_wins s - ss_total_losses s
        - sum_list (map tr_fees (ss_trades s))"
proof -
  obtain ctx s0 i where s: "s = close_all_positions exact_env cfg i now ctx s0"
    "balanced (initial_capital cfg) (cx_market_data ctx) s0" "data_ok (\<lambda>_. True) (cx_market_data ctx)"
    "balanced (initial_capital cfg) (cx_market_data ctx) s"
    by (rule arb_run.simulate_inv [OF assms balanced_start]) (simp add: list_all_iff)
  have keyed: "keyed (cx_market_data ctx) (ss_positions s0)" using s(2) by (simp add: balanced_def)
  then have "\<forall>p \<in> set (store_values (ss_positions s0)). covered (cx_market_data ctx) (bp_market_id p)"
    by (auto simp: keyed_def st.vals_get ran_def)
  then have "ss_positions s = []"
    unfolding s(1) close_all_positions_def by (intro close_positions_empty [OF keyed s(3)]) auto
  with s(4) show ?thesis
    by (simp add: balanced_def cost_basis_def entry_fees_def portfolio_value_def store_values_def dsum_def)
qed

theorem arb_backtest_balances_witness:
  "\<exists>s. simulate exact_env simulator_default ex_strategy (\<lambda>_. 0) 0 (Inr [ex_snap]) (arb_default exact_env)
       = Done (Inr s) \<and> ss_total_losses s = 13076 / 100 \<and> ss_positions s = []
     \<and> portfolio_value exact_env s = 10000 + ss_total_wins s - ss_total_losses s
         - sum_list (map tr_fees (ss_trades s))"
proof -
  obtain s where s: "simulate exact_env simulator_default ex_strategy (\<lambda>_. 0) 0 (Inr [ex_snap]) (arb_default exact_env)
      = Done (Inr s)" "ss_total_losses s = 13076 / 100"
    using ex_simulation by blast
  have "initial_capital simulator_default = 10000" by (simp add: simulator_default_def dec_new_def)
  with arb_backtest_balances [OF s(1) [unfolded ex_strategy_def]] s show ?thesis by auto
qed

end
