(* ===== verification/Dynamic_Tuner.thy ===== *)
theory Dynamic_Tuner
  imports Circuit_Breaker
begin

section \<open>Dynamic tuner\<close>

text \<open>
  Model of the tuner of \<open>crates/api-server/src/dynamic_tuner.rs\<close>: the metrics, the regime with its
  hysteresis, the targets, the step limit, the evaluation of pending changes, the cycle and the
  seeding of the table \<open>dynamic_config\<close>.

  The tuner reads and writes tables and publishes updates to Redis. The record \<open>tuner_world\<close> holds
  the table (in the order of the keys), the history, the updates published and the row of the
  last run; \<open>tuner_env\<close> says which statement succeeds, which publication succeeds (without a
  connection none does) and the clock. The aggregates of the metrics queries are the record
  \<open>metrics_feed\<close>, \<open>None\<close> for a failed query. An action returns the new world with an error or a
  value; \<open>?\<close> is \<open>tseq\<close>. The texts of reasons are left out.
\<close>

subsection \<open>Configuration, metrics and rows\<close>

record DynamicTunerConfig =
  dt_enabled :: bool
  interval_secs :: u64
  apply_changes :: bool
  regime_hysteresis_intervals :: nat
  max_drawdown_freeze :: f64
  evaluation_delay_minutes :: int
  fill_rate_degrade_delta :: f64
  pnl_degrade_delta :: f64
  bootstrap_enabled :: bool
  bootstrap_max_attempts :: int
  no_trade_window_minutes :: int
  no_trade_min_attempts :: int

definition tuner_default :: "num_env \<Rightarrow> DynamicTunerConfig" where
  "tuner_default E = \<lparr>dt_enabled = True, interval_secs = 300, apply_changes = True,
     regime_hysteresis_intervals = 2, max_drawdown_freeze = flit E (20 / 100),
     evaluation_delay_minutes = 10, fill_rate_degrade_delta = flit E (8 / 100),
     pnl_degrade_delta = 75, bootstrap_enabled = True, bootstrap_max_attempts = 100,
     no_trade_window_minutes = 120, no_trade_min_attempts = 20\<rparr>"

datatype MarketRegime = BullVolatile | BullCalm | BearVolatile | BearCalm | Ranging | Uncertain

record ArbRuntimeStats =
  rs_updates_per_minute :: f64
  stalls_last_minute :: f64
  resets_last_minute :: f64
  monitored_markets :: f64

definition stats_default :: ArbRuntimeStats where
  "stats_default = \<lparr>rs_updates_per_minute = 0, stalls_last_minute = 0, resets_last_minute = 0,
     monitored_markets = 0\<rparr>"

record TuningMetrics =
  slippage_skip_rate :: f64
  below_min_skip_rate :: f64
  successful_fill_rate :: f64
  attempts_last_window :: f64
  fills_last_window :: f64
  top_skip_reason :: "string option"
  realized_slippage_p90 :: f64
  depth_proxy :: f64
  volatility_proxy :: f64
  ws_stall_rate :: f64
  ws_reset_rate :: f64
  updates_per_minute :: f64
  recent_pnl :: f64
  recent_drawdown :: f64
  cb_tripped :: bool
  current_regime :: MarketRegime
  quant_pnl_7d :: f64

definition metrics_default :: TuningMetrics where
  "metrics_default = \<lparr>slippage_skip_rate = 0, below_min_skip_rate = 0, successful_fill_rate = 0,
     attempts_last_window = 0, fills_last_window = 0, top_skip_reason = None,
     realized_slippage_p90 = 0, depth_proxy = 0, volatility_proxy = 0, ws_stall_rate = 0,
     ws_reset_rate = 0, updates_per_minute = 0, recent_pnl = 0, recent_drawdown = 0,
     cb_tripped = False, current_regime = Uncertain, quant_pnl_7d = 0\<rparr>"

record DynamicConfigRow =
  dr_key :: string
  dr_current :: decimal
  dr_default :: decimal
  dr_min :: decimal
  dr_max :: decimal
  max_step_pct :: decimal
  dr_enabled :: bool
  last_good_value :: decimal
  pending_eval :: bool
  pending_baseline :: "TuningMetrics option"
  last_applied_at :: "datetime option"
  updated_by :: string

record DynamicConfigUpdate =
  du_key :: string
  du_value :: decimal
  du_source :: string

record tuner_history =
  th_key :: "string option"
  th_old :: "decimal option"
  th_new :: "decimal option"
  th_action :: string

subsection \<open>The world of the tuner\<close>

record regime_state =
  stable_regime :: MarketRegime
  candidate_regime :: "MarketRegime option"
  candidate_count :: nat

record tuner_world =
  tw_rows :: "(string, DynamicConfigRow) store"
  tw_history :: "tuner_history list"
  tw_published :: "DynamicConfigUpdate list"
  tw_status :: "string option"
  tw_regime :: regime_state
  tw_statements :: nat
  tw_publications :: nat

record tuner_env =
  te_ok :: "nat \<Rightarrow> bool"
  te_publish :: "nat \<Rightarrow> bool"
  te_clock :: "nat \<Rightarrow> datetime"

datatype tuner_error = Database_error | Redis_error

type_synonym 'a action = "tuner_world \<Rightarrow> tuner_world \<times> (tuner_error + 'a)"

definition tret :: "'a \<Rightarrow> 'a action" where
  "tret a w = (w, Inr a)"

definition tseq :: "'a action \<Rightarrow> ('a \<Rightarrow> 'b action) \<Rightarrow> 'b action" where
  "tseq a f w = (case a w of (w', Inl e) \<Rightarrow> (w', Inl e) | (w', Inr x) \<Rightarrow> f x w')"

fun teach :: "('a \<Rightarrow> unit action) \<Rightarrow> 'a list \<Rightarrow> unit action" where
  "teach f [] = tret ()"
| "teach f (x # xs) = tseq (f x) (\<lambda>_. teach f xs)"

definition statement :: "tuner_env \<Rightarrow> (tuner_world \<Rightarrow> tuner_world) \<Rightarrow> unit action" where
  "statement T f w = (let w' = w\<lparr>tw_statements := tw_statements w + 1\<rparr>
     in if te_ok T (tw_statements w) then (f w', Inr ()) else (w', Inl Database_error))"

definition on_row :: "string \<Rightarrow> (DynamicConfigRow \<Rightarrow> DynamicConfigRow) \<Rightarrow> tuner_world \<Rightarrow> tuner_world" where
  "on_row k f w = w\<lparr>tw_rows := map (\<lambda>(j, r). (j, if j = k then f r else r)) (tw_rows w)\<rparr>"

definition load_rows :: "tuner_env \<Rightarrow> DynamicConfigRow list action" where
  "load_rows T w = (let w' = w\<lparr>tw_statements := tw_statements w + 1\<rparr>
     in if te_ok T (tw_statements w) then (w', Inr (store_values (tw_rows w))) else (w', Inl Database_error))"

definition record_history ::
  "tuner_env \<Rightarrow> string option \<Rightarrow> decimal option \<Rightarrow> decimal option \<Rightarrow> string \<Rightarrow> unit action" where
  "record_history T k old new act = statement T (\<lambda>w. w\<lparr>tw_history := tw_history w @
     [\<lparr>th_key = k, th_old = old, th_new = new, th_action = act\<rparr>]\<rparr>)"

definition persist_runtime_state :: "tuner_env \<Rightarrow> string \<Rightarrow> unit action" where
  "persist_runtime_state T status w = (fst (statement T (\<lambda>w. w\<lparr>tw_status := Some status\<rparr>) w), Inr ())"

definition publish_update :: "tuner_env \<Rightarrow> DynamicConfigUpdate \<Rightarrow> bool action" where
  "publish_update T u w = (let w' = w\<lparr>tw_publications := tw_publications w + 1\<rparr>
     in if te_publish T (tw_publications w) then (w'\<lparr>tw_published := tw_published w @ [u]\<rparr>, Inr True)
        else (w', Inr False))"

subsection \<open>Metrics\<close>

definition ratio :: "num_env \<Rightarrow> f64 \<Rightarrow> f64 \<Rightarrow> f64" where
  "ratio E num den = (if den \<le> 0 then 0 else clamp 0 1 (fdiv E num den))"

record metrics_feed =
  mf_attempts_fills :: "(f64 \<times> f64) option"
  mf_recent_pnl :: "decimal option"
  mf_volatility :: "f64 option"
  mf_depth_events :: "(f64 \<times> f64) option"
  mf_quant_pnl :: "decimal option"
  mf_top_skip :: "string option"
  mf_runtime :: "ArbRuntimeStats option"

definition or_default :: "'a \<Rightarrow> 'a option \<Rightarrow> 'a" where
  "or_default d x = (case x of Some v \<Rightarrow> v | None \<Rightarrow> d)"

definition fetch_runtime_stats :: "metrics_feed \<Rightarrow> ArbRuntimeStats" where
  "fetch_runtime_stats f = or_default stats_default (mf_runtime f)"

definition saturating_rate :: "num_env \<Rightarrow> f64 \<Rightarrow> f64" where
  "saturating_rate E x = (if 0 < x then fdiv E x (fadd E x 1) else 0)"

definition collect_metrics ::
  "num_env \<Rightarrow> metrics_feed \<Rightarrow> CircuitBreakerState \<Rightarrow> tuner_error + TuningMetrics" where
  "collect_metrics E f st =
     (case mf_recent_pnl f of
        None \<Rightarrow> Inl Database_error
      | Some pnl \<Rightarrow>
          (let (attempts, fills) = or_default (0, 0) (mf_attempts_fills f);
               (depth, events) = or_default (0, 0) (mf_depth_events f);
               drawdown = (if 0 < peak_value st
                           then max (ddiv E (dsub E (peak_value st) (Circuit_Breaker.current_value st)) (peak_value st)) 0
                           else 0);
               stats = fetch_runtime_stats f
           in Inr \<lparr>slippage_skip_rate = 0, below_min_skip_rate = 0,
                successful_fill_rate = ratio E fills attempts, attempts_last_window = attempts,
                fills_last_window = fills, top_skip_reason = mf_top_skip f, realized_slippage_p90 = 0,
                depth_proxy = depth, volatility_proxy = or_default 0 (mf_volatility f),
                ws_stall_rate = saturating_rate E (stalls_last_minute stats),
                ws_reset_rate = saturating_rate E (resets_last_minute stats),
                updates_per_minute = (if 0 < rs_updates_per_minute stats then rs_updates_per_minute stats else events),
                recent_pnl = dec_to_f64 E pnl, recent_drawdown = dec_to_f64 E drawdown,
                cb_tripped = tripped st, current_regime = Uncertain,
                quant_pnl_7d = dec_to_f64 E (or_default 0 (mf_quant_pnl f))\<rparr>))"

subsection \<open>Regime and targets\<close>

definition resolve_regime :: "DynamicTunerConfig \<Rightarrow> MarketRegime \<Rightarrow> regime_state \<Rightarrow> MarketRegime \<times> regime_state" where
  "resolve_regime cfg observed g =
     (if observed = stable_regime g
      then (stable_regime g, g\<lparr>candidate_regime := None, candidate_count := 0\<rparr>)
      else (let g1 = (if candidate_regime g = Some observed then g\<lparr>candidate_count := candidate_count g + 1\<rparr>
                      else g\<lparr>candidate_regime := Some observed, candidate_count := 1\<rparr>);
                g2 = (if regime_hysteresis_intervals cfg \<le> candidate_count g1
                      then \<lparr>stable_regime = observed, candidate_regime = None, candidate_count = 0\<rparr> else g1)
            in (stable_regime g2, g2)))"

fun regime_safety_margin :: "num_env \<Rightarrow> MarketRegime \<Rightarrow> f64" where
  "regime_safety_margin E BullCalm = flit E (10 / 10000)"
| "regime_safety_margin E BullVolatile = flit E (18 / 10000)"
| "regime_safety_margin E BearCalm = flit E (22 / 10000)"
| "regime_safety_margin E BearVolatile = flit E (30 / 10000)"
| "regime_safety_margin E Ranging = flit E (18 / 10000)"
| "regime_safety_margin E Uncertain = flit E (25 / 10000)"

definition EPSILON :: "num_env \<Rightarrow> f64" where
  "EPSILON E = flit E (1 / 1000000)"

definition no_trade_watchdog :: "num_env \<Rightarrow> DynamicTunerConfig \<Rightarrow> TuningMetrics \<Rightarrow> bool" where
  "no_trade_watchdog E cfg m =
     (of_int (no_trade_min_attempts cfg) \<le> attempts_last_window m \<and> fills_last_window m \<le> EPSILON E)"

definition desired_arb_profit :: "num_env \<Rightarrow> DynamicTunerConfig \<Rightarrow> TuningMetrics \<Rightarrow> MarketRegime \<Rightarrow> f64" where
  "desired_arb_profit E cfg m regime =
     (let slippage = max (fmul E (realized_slippage_p90 m) 2) (flit E (15 / 10000));
          depth_penalty = fmul E (max (fsub E (flit E (10 / 10000)) (depth_proxy m)) 0) (flit E (3 / 10));
          vol_penalty = fmul E (volatility_proxy m) (flit E (1 / 100));
          desired = fadd E (fadd E (fadd E slippage (regime_safety_margin E regime)) depth_penalty) vol_penalty;
          top_skip = or_default ''none'' (top_skip_reason m)
      in if no_trade_watchdog E cfg m \<and> top_skip \<noteq> ''slippage'' \<and> top_skip \<noteq> ''insufficient_depth''
         then fmul E desired (flit E (90 / 100)) else desired)"

definition row_f64 :: "num_env \<Rightarrow> (DynamicConfigRow \<Rightarrow> decimal) \<Rightarrow> f64 \<Rightarrow> DynamicConfigRow option \<Rightarrow> f64" where
  "row_f64 E col d r = (case r of None \<Rightarrow> d | Some x \<Rightarrow> dec_to_f64 E (col x))"

definition desired_market_target :: "num_env \<Rightarrow> TuningMetrics \<Rightarrow> f64 \<Rightarrow> f64 \<Rightarrow> f64" where
  "desired_market_target E m current dflt =
     (let health_penalty = min (fadd E (fmul E (ws_stall_rate m) (flit E (9 / 10)))
                                       (fmul E (ws_reset_rate m) (flit E (6 / 10)))) 1;
          bonus = (if 500 < updates_per_minute m then flit E (10 / 100) else 0);
          penalty = (if EPSILON E < updates_per_minute m \<and> updates_per_minute m < 120 then flit E (10 / 100) else 0);
          factor = clamp (flit E (70 / 100)) (flit E (120 / 100))
                     (fadd E (fsub E (fsub E 1 health_penalty) penalty) bonus);
          healthy = (1000 \<le> updates_per_minute m \<and> health_penalty < flit E (10 / 100))
      in if healthy \<and> fadd E current (EPSILON E) < dflt then dflt
         else of_int (round_half_away (fmul E current factor)))"

definition desired_quant_size :: "num_env \<Rightarrow> TuningMetrics \<Rightarrow> f64 \<Rightarrow> f64" where
  "desired_quant_size E m current =
     (if 0 < quant_pnl_7d m then fmul E current (flit E (105 / 100))
      else if quant_pnl_7d m < - 50 then fmul E current (flit E (90 / 100))
      else current)"

definition compute_targets ::
  "num_env \<Rightarrow> DynamicTunerConfig \<Rightarrow> (string, DynamicConfigRow) store \<Rightarrow> TuningMetrics \<Rightarrow> MarketRegime
   \<Rightarrow> (string \<times> f64) list" where
  "compute_targets E cfg rows m regime =
     (if 1 \<le> attempts_last_window m \<or> 1 \<le> fills_last_window m
      then [(''ARB_MIN_PROFIT_THRESHOLD'', desired_arb_profit E cfg m regime)] else [])
   @ (if no_trade_watchdog E cfg m \<and> or_default ''none'' (top_skip_reason m) = ''insufficient_depth''
      then (case store_get rows ''ARB_MIN_BOOK_DEPTH'' of
              Some r \<Rightarrow> [(''ARB_MIN_BOOK_DEPTH'', fmul E (dec_to_f64 E (dr_current r)) (flit E (95 / 100)))]
            | None \<Rightarrow> [])
      else [])
   @ [(''ARB_MONITOR_MAX_MARKETS'', desired_market_target E m
         (row_f64 E dr_current 300 (store_get rows ''ARB_MONITOR_MAX_MARKETS''))
         (row_f64 E dr_default 300 (store_get rows ''ARB_MONITOR_MAX_MARKETS''))),
      (''QUANT_BASE_POSITION_SIZE'', desired_quant_size E m
         (row_f64 E dr_current 30 (store_get rows ''QUANT_BASE_POSITION_SIZE'')))]"

definition apply_step_limit :: "num_env \<Rightarrow> f64 \<Rightarrow> f64 \<Rightarrow> f64 \<Rightarrow> f64 \<Rightarrow> f64" where
  "apply_step_limit E current target step_pct reference =
     (let pct = (if step_pct \<le> 0 then flit E (12 / 100) else step_pct);
          base = (if EPSILON E < \<bar>current\<bar> then \<bar>current\<bar> else max \<bar>reference\<bar> 1);
          max_delta = max (fmul E base pct) (flit E (1 / 10000));
          delta = fsub E target current
      in if \<bar>delta\<bar> \<le> max_delta then target
         else fadd E current (fmul E (sgn delta) max_delta))"

subsection \<open>Evaluation of pending changes\<close>

definition num_minutes :: "int \<Rightarrow> int" where
  "num_minutes d = trunc_div d (60 * ns_per_sec)"

definition degraded :: "num_env \<Rightarrow> DynamicTunerConfig \<Rightarrow> TuningMetrics \<Rightarrow> DynamicConfigRow \<Rightarrow> bool" where
  "degraded E cfg m r =
     (let baseline = or_default metrics_default (pending_baseline r)
      in fadd E (successful_fill_rate m) (fill_rate_degrade_delta cfg) < successful_fill_rate baseline
         \<or> recent_pnl m < fsub E (recent_pnl baseline) (pnl_degrade_delta cfg))"

definition due :: "DynamicTunerConfig \<Rightarrow> datetime \<Rightarrow> DynamicConfigRow \<Rightarrow> bool" where
  "due cfg now r = (case last_applied_at r of
     None \<Rightarrow> False
   | Some t \<Rightarrow> \<not> num_minutes (now - t) < evaluation_delay_minutes cfg)"

definition evaluate_row ::
  "num_env \<Rightarrow> tuner_env \<Rightarrow> DynamicTunerConfig \<Rightarrow> datetime \<Rightarrow> TuningMetrics \<Rightarrow> DynamicConfigRow \<Rightarrow> unit action" where
  "evaluate_row E T cfg now m r =
     (if \<not> due cfg now r then tret ()
      else if degraded E cfg m r
      then tseq (statement T (on_row (dr_key r) (\<lambda>x. x\<lparr>dr_current := last_good_value r, pending_eval := False,
                   pending_baseline := None, updated_by := ''dynamic_tuner''\<rparr>)))
          (\<lambda>_. tseq (record_history T (Some (dr_key r)) (Some (dr_current r)) (Some (last_good_value r)) ''rollback'')
          (\<lambda>_. tseq (publish_update T \<lparr>du_key = dr_key r, du_value = last_good_value r,
                       du_source = ''dynamic_tuner_rollback''\<rparr>)
          (\<lambda>_. tret ())))
      else tseq (statement T (on_row (dr_key r) (\<lambda>x. x\<lparr>pending_eval := False, pending_baseline := None,
                   last_good_value := dr_current x, updated_by := ''dynamic_tuner''\<rparr>)))
          (\<lambda>_. record_history T (Some (dr_key r)) (Some (dr_current r)) (Some (dr_current r)) ''evaluation''))"

definition evaluate_pending ::
  "num_env \<Rightarrow> tuner_env \<Rightarrow> DynamicTunerConfig \<Rightarrow> datetime \<Rightarrow> DynamicConfigRow list \<Rightarrow> TuningMetrics \<Rightarrow> unit action" where
  "evaluate_pending E T cfg now rows m =
     (if \<not> apply_changes cfg then tret ()
      else teach (evaluate_row E T cfg now m) (filter pending_eval rows))"

subsection \<open>Applying a change\<close>

definition apply_change ::
  "tuner_env \<Rightarrow> DynamicConfigRow \<Rightarrow> decimal \<Rightarrow> TuningMetrics \<Rightarrow> unit action" where
  "apply_change T r v m w =
     tseq (statement T (on_row (dr_key r) (\<lambda>x. x\<lparr>dr_current := v, pending_eval := True,
             pending_baseline := Some m, last_applied_at := Some (te_clock T (tw_statements w)),
             updated_by := ''dynamic_tuner''\<rparr>)))
       (\<lambda>_. record_history T (Some (dr_key r)) (Some (dr_current r)) (Some v) ''applied'') w"

definition rollback_unpublished_change :: "tuner_env \<Rightarrow> DynamicConfigRow \<Rightarrow> decimal \<Rightarrow> unit action" where
  "rollback_unpublished_change T r v =
     tseq (statement T (on_row (dr_key r) (\<lambda>x. x\<lparr>dr_current := dr_current r, pending_eval := False,
             pending_baseline := None, last_applied_at := None, updated_by := ''dynamic_tuner''\<rparr>)))
       (\<lambda>_. record_history T (Some (dr_key r)) (Some v) (Some (dr_current r)) ''skipped'')"

definition bounded_value :: "num_env \<Rightarrow> DynamicConfigRow \<Rightarrow> f64 \<Rightarrow> f64" where
  "bounded_value E r target =
     min (max (apply_step_limit E (dec_to_f64 E (dr_current r)) target (dec_to_f64 E (max_step_pct r))
                 (dec_to_f64 E (dr_default r)))
              (dec_to_f64 E (dr_min r)))
         (dec_to_f64 E (dr_max r))"

text \<open>One target; the flag tells whether a change was applied or recommended.\<close>

definition tune_key ::
  "num_env \<Rightarrow> tuner_env \<Rightarrow> DynamicTunerConfig \<Rightarrow> TuningMetrics \<Rightarrow> (string, DynamicConfigRow) store
   \<Rightarrow> string \<times> f64 \<Rightarrow> bool action" where
  "tune_key E T cfg m by_key kt =
     (case store_get by_key (fst kt) of
        None \<Rightarrow> tret False
      | Some r \<Rightarrow>
          if \<not> dr_enabled r \<or> pending_eval r then tret False
          else (let bounded = bounded_value E r (snd kt)
                in if \<bar>fsub E bounded (dec_to_f64 E (dr_current r))\<bar> < EPSILON E then tret False
                   else case f64_to_dec E bounded of
                     None \<Rightarrow> tret False
                   | Some v \<Rightarrow>
                       if apply_changes cfg
                       then tseq (apply_change T r v m)
                           (\<lambda>_. tseq (publish_update T \<lparr>du_key = fst kt, du_value = v, du_source = ''dynamic_tuner''\<rparr>)
                           (\<lambda>sent. if sent then tret True
                                   else tseq (rollback_unpublished_change T r v) (\<lambda>_. tret False)))
                       else tseq (record_history T (Some (fst kt)) (Some (dr_current r)) (Some v) ''recommended'')
                           (\<lambda>_. tret True)))"

fun tune_all ::
  "num_env \<Rightarrow> tuner_env \<Rightarrow> DynamicTunerConfig \<Rightarrow> TuningMetrics \<Rightarrow> (string, DynamicConfigRow) store
   \<Rightarrow> (string \<times> f64) list \<Rightarrow> nat \<Rightarrow> nat action" where
  "tune_all E T cfg m by_key [] n = tret n"
| "tune_all E T cfg m by_key (kt # kts) n =
     tseq (tune_key E T cfg m by_key kt) (\<lambda>b. tune_all E T cfg m by_key kts (if b then n + 1 else n))"

subsection \<open>Seeding\<close>

record ConfigSeed =
  cs_key :: string
  cs_default :: decimal
  cs_min :: decimal
  cs_max :: decimal
  cs_step :: decimal

definition clamp_to_bounds :: "decimal \<Rightarrow> decimal \<Rightarrow> decimal \<Rightarrow> decimal" where
  "clamp_to_bounds v lo hi = min (max v lo) hi"

definition env_aggressiveness_level :: "string option \<Rightarrow> decimal" where
  "env_aggressiveness_level var =
     (let v = to_lowercase (or_default ''balanced'' var)
      in if v = ''stable'' \<or> v = ''conservative'' then 0
         else if v = ''discovery'' \<or> v = ''aggressive'' then dec_new 2 0
         else dec_new 1 0)"

text \<open>\<open>env_decimal\<close> reads the default from the environment: \<open>env key\<close>, if it is set and a number.\<close>

definition config_seeds :: "(string \<Rightarrow> decimal option) \<Rightarrow> decimal \<Rightarrow> ConfigSeed list" where
  "config_seeds env aggressiveness =
     [\<lparr>cs_key = ''ARB_MIN_PROFIT_THRESHOLD'', cs_default = or_default (dec_new 5 3) (env ''ARB_MIN_PROFIT_THRESHOLD''),
       cs_min = dec_new 2 3, cs_max = dec_new 5 3, cs_step = dec_new 12 2\<rparr>,
      \<lparr>cs_key = ''ARB_MONITOR_MAX_MARKETS'', cs_default = or_default (dec_new 300 0) (env ''ARB_MONITOR_MAX_MARKETS''),
       cs_min = dec_new 25 0, cs_max = dec_new 1500 0, cs_step = dec_new 15 2\<rparr>,
      \<lparr>cs_key = ''ARB_MONITOR_EXPLORATION_SLOTS'', cs_default = or_default (dec_new 5 0) (env ''ARB_MONITOR_EXPLORATION_SLOTS''),
       cs_min = dec_new 1 0, cs_max = dec_new 500 0, cs_step = dec_new 25 2\<rparr>,
      \<lparr>cs_key = ''ARB_MONITOR_AGGRESSIVENESS_LEVEL'', cs_default = aggressiveness,
       cs_min = 0, cs_max = dec_new 2 0, cs_step = dec_new 100 2\<rparr>,
      \<lparr>cs_key = ''ARB_POSITION_SIZE'', cs_default = or_default (dec_new 10 0) (env ''ARB_POSITION_SIZE''),
       cs_min = dec_new 5 0, cs_max = dec_new 25 0, cs_step = dec_new 20 2\<rparr>,
      \<lparr>cs_key = ''ARB_MIN_NET_PROFIT'', cs_default = or_default (dec_new 1 3) (env ''ARB_MIN_NET_PROFIT''),
       cs_min = dec_new 5 4, cs_max = dec_new 5 2, cs_step = dec_new 15 2\<rparr>,
      \<lparr>cs_key = ''ARB_MIN_BOOK_DEPTH'', cs_default = or_default (dec_new 25 0) (env ''ARB_MIN_BOOK_DEPTH''),
       cs_min = dec_new 10 0, cs_max = dec_new 200 0, cs_step = dec_new 20 2\<rparr>,
      \<lparr>cs_key = ''ARB_MAX_SIGNAL_AGE_SECS'', cs_default = or_default (dec_new 30 0) (env ''ARB_MAX_SIGNAL_AGE_SECS''),
       cs_min = dec_new 5 0, cs_max = dec_new 300 0, cs_step = dec_new 25 2\<rparr>,
      \<lparr>cs_key = ''QUANT_BASE_POSITION_SIZE'', cs_default = or_default (dec_new 30 0) (env ''QUANT_BASE_POSITION_SIZE''),
       cs_min = dec_new 10 0, cs_max = dec_new 200 0, cs_step = dec_new 15 2\<rparr>]"

text \<open>The upsert: a new row, or the bounds and the default of the seed with the values clamped.\<close>

definition seed_row :: "ConfigSeed \<Rightarrow> DynamicConfigRow option \<Rightarrow> DynamicConfigRow" where
  "seed_row c old =
     (let v = clamp_to_bounds (cs_default c) (cs_min c) (cs_max c)
      in case old of
           None \<Rightarrow> \<lparr>dr_key = cs_key c, dr_current = v, dr_default = v, dr_min = cs_min c, dr_max = cs_max c,
             max_step_pct = cs_step c, dr_enabled = True, last_good_value = v, pending_eval = False,
             pending_baseline = None, last_applied_at = None, updated_by = ''bootstrap''\<rparr>
         | Some r \<Rightarrow> r\<lparr>dr_min := cs_min c, dr_max := cs_max c, max_step_pct := cs_step c, dr_default := v,
             dr_current := (if updated_by r = ''bootstrap'' then v
                            else clamp_to_bounds (dr_current r) (cs_min c) (cs_max c)),
             last_good_value := (if updated_by r = ''bootstrap'' then v
                                 else clamp_to_bounds (last_good_value r) (cs_min c) (cs_max c))\<rparr>)"

definition seed_one :: "tuner_env \<Rightarrow> ConfigSeed \<Rightarrow> unit action" where
  "seed_one T c = statement T (\<lambda>w. w\<lparr>tw_rows :=
     store_insert (cs_key c) (seed_row c (store_get (tw_rows w) (cs_key c))) (tw_rows w)\<rparr>)"

definition seed_defaults :: "tuner_env \<Rightarrow> (string \<Rightarrow> decimal option) \<Rightarrow> decimal \<Rightarrow> unit action" where
  "seed_defaults T env aggressiveness = teach (seed_one T) (config_seeds env aggressiveness)"

subsection \<open>The cycle\<close>

definition frozen :: "DynamicTunerConfig \<Rightarrow> TuningMetrics \<Rightarrow> bool" where
  "frozen cfg m = (cb_tripped m \<or> max_drawdown_freeze cfg \<le> recent_drawdown m)"

definition publish_current_snapshot :: "tuner_env \<Rightarrow> unit action" where
  "publish_current_snapshot T = tseq (load_rows T) (\<lambda>rows. teach (\<lambda>r.
     tseq (publish_update T \<lparr>du_key = dr_key r, du_value = dr_current r, du_source = ''dynamic_tuner_sync''\<rparr>)
       (\<lambda>sent w. if sent then (w, Inr ()) else (w, Inl Redis_error))) (filter dr_enabled rows))"

definition tune_rows ::
  "num_env \<Rightarrow> tuner_env \<Rightarrow> DynamicTunerConfig \<Rightarrow> TuningMetrics \<Rightarrow> MarketRegime \<Rightarrow> DynamicConfigRow list \<Rightarrow> unit action" where
  "tune_rows E T cfg m regime rows =
     (if frozen cfg m
      then tseq (record_history T None None None ''frozen'') (\<lambda>_. persist_runtime_state T ''frozen'')
      else (let by_key = fold (\<lambda>r. store_insert (dr_key r) r) rows []
            in tseq (tune_all E T cfg m by_key (compute_targets E cfg by_key m regime) 0)
                 (\<lambda>n. tseq (if no_trade_watchdog E cfg m \<and> n = 0
                            then record_history T None None None ''watchdog'' else tret ())
                 (\<lambda>_. persist_runtime_state T ''ok''))))"

definition set_regime :: "regime_state \<Rightarrow> unit action" where
  "set_regime g w = (w\<lparr>tw_regime := g\<rparr>, Inr ())"

definition run_cycle ::
  "num_env \<Rightarrow> tuner_env \<Rightarrow> DynamicTunerConfig \<Rightarrow> (string \<Rightarrow> decimal option) \<Rightarrow> decimal \<Rightarrow> metrics_feed
   \<Rightarrow> CircuitBreakerState \<Rightarrow> MarketRegime \<Rightarrow> datetime \<Rightarrow> unit action" where
  "run_cycle E T cfg env aggressiveness feed st observed now =
     tseq (load_rows T) (\<lambda>rows0.
     tseq (if rows0 = [] then tseq (seed_defaults T env aggressiveness) (\<lambda>_. load_rows T) else tret rows0) (\<lambda>rows.
     case collect_metrics E feed st of
       Inl e \<Rightarrow> (\<lambda>w. (w, Inl e))
     | Inr m0 \<Rightarrow> (\<lambda>w.
         (case resolve_regime cfg observed (tw_regime w) of (resolved, g) \<Rightarrow>
            (let m = m0\<lparr>current_regime := resolved\<rparr>
             in tseq (set_regime g) (\<lambda>_.
                tseq (evaluate_pending E T cfg now rows m) (\<lambda>_.
                tseq (load_rows T) (\<lambda>rows'. tune_rows E T cfg m resolved rows')))) w))))"

text \<open>A failed cycle is recorded and the loop goes on.\<close>

definition tuner_tick ::
  "num_env \<Rightarrow> tuner_env \<Rightarrow> DynamicTunerConfig \<Rightarrow> (string \<Rightarrow> decimal option) \<Rightarrow> decimal \<Rightarrow> metrics_feed
   \<Rightarrow> CircuitBreakerState \<Rightarrow> MarketRegime \<Rightarrow> datetime \<Rightarrow> tuner_world \<Rightarrow> tuner_world" where
  "tuner_tick E T cfg env aggressiveness feed st observed now w =
     (case run_cycle E T cfg env aggressiveness feed st observed now w of
        (w', Inr _) \<Rightarrow> w'
      | (w', Inl _) \<Rightarrow> fst (persist_runtime_state T ''error'' w'))"

text \<open>Start-up before the first cycle; a disabled tuner only records that it is disabled.\<close>

definition tuner_start ::
  "tuner_env \<Rightarrow> DynamicTunerConfig \<Rightarrow> (string \<Rightarrow> decimal option) \<Rightarrow> decimal \<Rightarrow> MarketRegime \<Rightarrow> tuner_world \<Rightarrow> tuner_world" where
  "tuner_start T cfg env aggressiveness observed w =
     (if \<not> dt_enabled cfg then fst (persist_runtime_state T ''disabled'' w)
      else (let w1 = fst (seed_defaults T env aggressiveness w);
                w2 = fst (publish_current_snapshot T w1)
            in fst (persist_runtime_state T ''started'' (w2\<lparr>tw_regime :=
                 \<lparr>stable_regime = observed, candidate_regime = None, candidate_count = 0\<rparr>\<rparr>))))"

subsection \<open>What an action does to the rows\<close>

text \<open>
  \<open>only_row k R a\<close>: whatever its outcome, the action \<open>a\<close> leaves every row but that of \<open>k\<close> as it is, and
  relates the row of \<open>k\<close> before and after by \<open>R\<close>.
\<close>

definition only_row :: "string \<Rightarrow> (DynamicConfigRow \<Rightarrow> DynamicConfigRow \<Rightarrow> bool) \<Rightarrow> 'a action \<Rightarrow> bool" where
  "only_row k R a \<longleftrightarrow> (\<forall>w. map fst (tw_rows (fst (a w))) = map fst (tw_rows w)
     \<and> (\<forall>j. j \<noteq> k \<longrightarrow> store_get (tw_rows (fst (a w))) j = store_get (tw_rows w) j)
     \<and> (\<forall>r. store_get (tw_rows w) k = Some r \<longrightarrow> (\<exists>r'. store_get (tw_rows (fst (a w))) k = Some r' \<and> R r r')))"

definition same_rows :: "'a action \<Rightarrow> bool" where
  "same_rows a \<longleftrightarrow> (\<forall>w. tw_rows (fst (a w)) = tw_rows w)"

lemma same_rows_simps [simp]:
  "same_rows (tret x)" "same_rows (record_history T k old new act)" "same_rows (persist_runtime_state T status)"
  "same_rows (publish_update T u)" "same_rows (load_rows T)" "same_rows (set_regime g)"
  "same_rows (\<lambda>w. (w, y))"
  by (simp_all add: same_rows_def tret_def record_history_def persist_runtime_state_def publish_update_def
      load_rows_def statement_def set_regime_def Let_def)

lemma same_rows_tseq [intro]: "same_rows a \<Longrightarrow> (\<And>x. same_rows (f x)) \<Longrightarrow> same_rows (tseq a f)"
  by (auto simp: same_rows_def tseq_def split: prod.splits sum.splits) (metis fst_conv)+

lemma only_row_keeps: "same_rows a \<Longrightarrow> only_row k (=) a"
  by (simp add: same_rows_def only_row_def)

lemma only_row_mono: "only_row k R a \<Longrightarrow> (\<And>r r'. R r r' \<Longrightarrow> S r r') \<Longrightarrow> only_row k S a"
  unfolding only_row_def by meson

lemma only_row_statement:
  "only_row k (\<lambda>r r'. r' = r \<or> r' = f r) (statement T (on_row k f))"
proof -
  have get: "store_get (map (\<lambda>(j, r). (j, if j = k then f r else r)) m) i =
      map_option (\<lambda>r. if i = k then f r else r) (store_get m i)" for m i
    by (induction m) auto
  have keys: "map fst (map (\<lambda>(j, r). (j, if j = k then f r else r)) m) = map fst m"
    for m :: "(string, DynamicConfigRow) store" by (induction m) auto
  show ?thesis
    by (auto simp: only_row_def statement_def on_row_def Let_def get keys option.map_ident)
qed

lemma only_row_tseq:
  assumes "only_row k R a" "\<And>x. only_row k S (f x)"
    and "\<And>r r'. R r r' \<Longrightarrow> Q r r'" "\<And>r r' r''. R r r' \<Longrightarrow> S r' r'' \<Longrightarrow> Q r r''"
  shows "only_row k Q (tseq a f)"
  unfolding only_row_def
proof (intro allI)
  fix w
  obtain w1 y where a: "a w = (w1, y)" by fastforce
  note A = assms(1) [unfolded only_row_def, rule_format, of w, unfolded a fst_conv]
  show "map fst (tw_rows (fst (tseq a f w))) = map fst (tw_rows w)
     \<and> (\<forall>j. j \<noteq> k \<longrightarrow> store_get (tw_rows (fst (tseq a f w))) j = store_get (tw_rows w) j)
     \<and> (\<forall>r. store_get (tw_rows w) k = Some r \<longrightarrow> (\<exists>r'. store_get (tw_rows (fst (tseq a f w))) k = Some r' \<and> Q r r'))"
  proof (cases y)
    case (Inl e)
    then have "fst (tseq a f w) = w1" by (simp add: tseq_def a)
    with A assms(3) show ?thesis by simp blast
  next
    case (Inr x)
    then have eq: "tseq a f w = f x w1" by (simp add: tseq_def a)
    note B = assms(2) [of x, unfolded only_row_def, rule_format, of w1]
    show ?thesis
      unfolding eq
    proof (intro conjI allI impI)
      show "map fst (tw_rows (fst (f x w1))) = map fst (tw_rows w)" using A B by simp
    next
      fix j
      assume "j \<noteq> k"
      then show "store_get (tw_rows (fst (f x w1))) j = store_get (tw_rows w) j" using A B by simp
    next
      fix r
      assume "store_get (tw_rows w) k = Some r"
      with A obtain r1 where "store_get (tw_rows w1) k = Some r1" "R r r1" by blast
      with B assms(4) show "\<exists>r'. store_get (tw_rows (fst (f x w1))) k = Some r' \<and> Q r r'" by meson
    qed
  qed
qed

lemma only_row_then_same:
  "only_row k R a \<Longrightarrow> (\<And>x. same_rows (f x)) \<Longrightarrow> only_row k R (tseq a f)"
  by (rule only_row_tseq [where S = "(=)"]) (auto intro: only_row_keeps)

end
