(* ===== verification/Tuner_Bounds.thy ===== *)
theory Tuner_Bounds
  imports Dynamic_Tuner
begin

section \<open>The tuner stays within its bounds\<close>

text \<open>
  What a cycle of the tuner does to the rows of \<open>dynamic_config\<close>, whatever statements and publications
  fail: \<open>evaluated\<close> is the evaluation of a pending change, \<open>tuned\<close> a new change, and both keep a row
  between its bounds. The arithmetic is exact: the \<open>f64\<close> values are the stored ones.
\<close>

definition in_bounds :: "DynamicConfigRow \<Rightarrow> bool" where
  "in_bounds r \<longleftrightarrow> dr_min r \<le> dr_current r \<and> dr_current r \<le> dr_max r
     \<and> dr_min r \<le> last_good_value r \<and> last_good_value r \<le> dr_max r"

definition table_ok :: "(string, DynamicConfigRow) store \<Rightarrow> bool" where
  "table_ok t \<longleftrightarrow> store_wf t \<and> (\<forall>k r. store_get t k = Some r \<longrightarrow> dr_key r = k \<and> in_bounds r)"

definition same_setup :: "DynamicConfigRow \<Rightarrow> DynamicConfigRow \<Rightarrow> bool" where
  "same_setup r r' \<longleftrightarrow> dr_key r' = dr_key r \<and> dr_min r' = dr_min r \<and> dr_max r' = dr_max r
     \<and> dr_default r' = dr_default r \<and> max_step_pct r' = max_step_pct r \<and> dr_enabled r' = dr_enabled r"

definition evaluated :: "DynamicTunerConfig \<Rightarrow> datetime \<Rightarrow> TuningMetrics \<Rightarrow> DynamicConfigRow \<Rightarrow> DynamicConfigRow \<Rightarrow> bool" where
  "evaluated cfg now m r r' \<longleftrightarrow> r' = r \<or>
     apply_changes cfg \<and> pending_eval r \<and> due cfg now r \<and> same_setup r r' \<and> \<not> pending_eval r'
     \<and> (if degraded exact_env cfg m r
        then dr_current r' = last_good_value r \<and> last_good_value r' = last_good_value r
        else dr_current r' = dr_current r \<and> last_good_value r' = dr_current r)"

definition step_limit :: "DynamicConfigRow \<Rightarrow> rat" where
  "step_limit r = max ((if 1 / 1000000 < \<bar>dr_current r\<bar> then \<bar>dr_current r\<bar> else max \<bar>dr_default r\<bar> 1)
     * (if max_step_pct r \<le> 0 then 12 / 100 else max_step_pct r)) (1 / 10000)"

definition tuned :: "DynamicTunerConfig \<Rightarrow> DynamicConfigRow \<Rightarrow> DynamicConfigRow \<Rightarrow> bool" where
  "tuned cfg r r' \<longleftrightarrow> r' = r \<or>
     apply_changes cfg \<and> dr_enabled r \<and> \<not> pending_eval r \<and> same_setup r r'
     \<and> last_good_value r' = last_good_value r
     \<and> (dr_current r' = dr_current r \<or>
        pending_eval r' \<and> \<bar>dr_current r' - dr_current r\<bar> \<le> step_limit r
        \<and> dr_min r \<le> dr_current r' \<and> dr_current r' \<le> dr_max r)"

lemma same_setup_trans: "same_setup r r' \<Longrightarrow> same_setup r' r'' \<Longrightarrow> same_setup r r''"
  by (simp add: same_setup_def)

lemma evaluated_in_bounds: "evaluated cfg now m r r' \<Longrightarrow> in_bounds r \<Longrightarrow> dr_key r' = dr_key r \<and> in_bounds r'"
  by (auto simp: evaluated_def in_bounds_def same_setup_def split: if_splits)

lemma tuned_in_bounds: "tuned cfg r r' \<Longrightarrow> in_bounds r \<Longrightarrow> dr_key r' = dr_key r \<and> in_bounds r'"
  by (auto simp: tuned_def in_bounds_def same_setup_def)

subsection \<open>The step limit\<close>

lemma apply_step_limit_exact:
  "\<bar>apply_step_limit exact_env (dr_current r) target (max_step_pct r) (dr_default r) - dr_current r\<bar> \<le> step_limit r"
proof -
  have pos: "0 < step_limit r" by (simp add: step_limit_def less_max_iff_disj)
  have "apply_step_limit exact_env (dr_current r) target (max_step_pct r) (dr_default r) =
      (if \<bar>target - dr_current r\<bar> \<le> step_limit r then target
       else dr_current r + sgn (target - dr_current r) * step_limit r)"
    unfolding apply_step_limit_def step_limit_def EPSILON_def Let_def by (simp only: exact_ops)
  then show ?thesis using pos by (simp add: abs_mult abs_sgn_eq)
qed

lemma clamp_near: "lo \<le> c \<Longrightarrow> c \<le> hi \<Longrightarrow> \<bar>min (max x lo) hi - c\<bar> \<le> \<bar>x - c\<bar>" for x :: rat
proof -
  assume b: "lo \<le> c" "c \<le> hi"
  consider "x \<le> lo" | "hi \<le> x" | "lo \<le> x" "x \<le> hi" by linarith
  then show ?thesis
  proof cases
    case 1
    with b have "min (max x lo) hi = lo" by (simp add: max_absorb2 min_absorb1)
    with b 1 show ?thesis by linarith
  next
    case 2
    with b have "min (max x lo) hi = hi" by (simp add: max_absorb1 min_absorb2)
    with b 2 show ?thesis by linarith
  next
    case 3
    then have "min (max x lo) hi = x" by (simp add: max_absorb1 min_absorb1)
    then show ?thesis by simp
  qed
qed

lemma bounded_value_exact:
  assumes "in_bounds r"
  shows "\<bar>bounded_value exact_env r target - dr_current r\<bar> \<le> step_limit r"
    and "dr_min r \<le> bounded_value exact_env r target" "bounded_value exact_env r target \<le> dr_max r"
proof -
  define x where "x = apply_step_limit exact_env (dr_current r) target (max_step_pct r) (dr_default r)"
  have v: "bounded_value exact_env r target = min (max x (dr_min r)) (dr_max r)"
    by (simp add: bounded_value_def x_def)
  have b: "dr_min r \<le> dr_current r" "dr_current r \<le> dr_max r" using assms by (auto simp: in_bounds_def)
  have x: "\<bar>x - dr_current r\<bar> \<le> step_limit r" unfolding x_def by (rule apply_step_limit_exact)
  have "\<bar>min (max x (dr_min r)) (dr_max r) - dr_current r\<bar> \<le> \<bar>x - dr_current r\<bar>"
    by (rule clamp_near [OF b])
  with x show "\<bar>bounded_value exact_env r target - dr_current r\<bar> \<le> step_limit r" unfolding v by linarith
  show "dr_min r \<le> bounded_value exact_env r target" "bounded_value exact_env r target \<le> dr_max r"
    unfolding v using b by auto
qed

subsection \<open>Evaluation and tuning of one row\<close>

lemma evaluate_row_only:
  assumes "apply_changes cfg" "pending_eval r0"
  shows "only_row (dr_key r0) (\<lambda>r r'. r = r0 \<longrightarrow> evaluated cfg now m r r')
    (evaluate_row exact_env T cfg now m r0)"
proof (cases "due cfg now r0")
  case False
  then show ?thesis
    by (auto simp: evaluate_row_def evaluated_def intro: only_row_mono [OF only_row_keeps])
next
  case due: True
  show ?thesis
  proof (cases "degraded exact_env cfg m r0")
    case True
    with due assms show ?thesis
      unfolding evaluate_row_def
      by (auto intro!: only_row_then_same same_rows_tseq only_row_mono [OF only_row_statement]
          simp: evaluated_def same_setup_def)
  next
    case False
    with due assms show ?thesis
      unfolding evaluate_row_def
      by (auto intro!: only_row_then_same same_rows_tseq only_row_mono [OF only_row_statement]
          simp: evaluated_def same_setup_def)
  qed
qed

lemma apply_change_only:
  "only_row (dr_key r0) (\<lambda>r r'. r' = r \<or> same_setup r r' \<and> last_good_value r' = last_good_value r
      \<and> dr_current r' = v \<and> pending_eval r') (apply_change T r0 v m)"
proof -
  have "only_row (dr_key r0) (\<lambda>r r'. r' = r \<or> same_setup r r' \<and> last_good_value r' = last_good_value r
      \<and> dr_current r' = v \<and> pending_eval r')
    (tseq (statement T (on_row (dr_key r0) (\<lambda>x. x\<lparr>dr_current := v, pending_eval := True,
       pending_baseline := Some m, last_applied_at := Some t, updated_by := ''dynamic_tuner''\<rparr>)))
       (\<lambda>_. record_history T (Some (dr_key r0)) (Some (dr_current r0)) (Some v) ''applied''))" for t
    by (auto intro!: only_row_then_same only_row_mono [OF only_row_statement] simp: same_setup_def)
  then show ?thesis unfolding only_row_def apply_change_def by blast
qed

lemma rollback_unpublished_only:
  "only_row (dr_key r0) (\<lambda>r r'. r' = r \<or> same_setup r r' \<and> last_good_value r' = last_good_value r
      \<and> dr_current r' = dr_current r0) (rollback_unpublished_change T r0 v)"
  unfolding rollback_unpublished_change_def
  by (auto intro!: only_row_then_same only_row_mono [OF only_row_statement] simp: same_setup_def)

text \<open>A change, its publication and, when that fails, its removal.\<close>

lemma change_only:
  assumes "in_bounds r0" "apply_changes cfg" "dr_enabled r0" "\<not> pending_eval r0"
    and v: "\<bar>v - dr_current r0\<bar> \<le> step_limit r0" "dr_min r0 \<le> v" "v \<le> dr_max r0"
  shows "only_row (dr_key r0) (\<lambda>r r'. r = r0 \<longrightarrow> tuned cfg r r')
    (tseq (apply_change T r0 v m) (\<lambda>_. tseq (publish_update T u)
       (\<lambda>sent. if sent then tret True else tseq (rollback_unpublished_change T r0 v) (\<lambda>_. tret False))))"
proof (rule only_row_tseq [OF apply_change_only])
  show "only_row (dr_key r0) (\<lambda>r r'. r' = r \<or> same_setup r r' \<and> last_good_value r' = last_good_value r
      \<and> dr_current r' = dr_current r0) (tseq (publish_update T u)
       (\<lambda>sent. if sent then tret True else tseq (rollback_unpublished_change T r0 v) (\<lambda>_. tret False)))"
  proof (rule only_row_tseq [OF only_row_keeps])
    fix sent
    show "only_row (dr_key r0) (\<lambda>r r'. r' = r \<or> same_setup r r' \<and> last_good_value r' = last_good_value r
      \<and> dr_current r' = dr_current r0)
      (if sent then tret True else tseq (rollback_unpublished_change T r0 v) (\<lambda>_. tret False))"
      by (cases sent) (auto intro: only_row_mono [OF only_row_keeps] only_row_then_same rollback_unpublished_only)
  qed auto
next
  fix r r'
  assume "r' = r \<or> same_setup r r' \<and> last_good_value r' = last_good_value r \<and> dr_current r' = v \<and> pending_eval r'"
  then show "r = r0 \<longrightarrow> tuned cfg r r'" using assms by (auto simp: tuned_def)
next
  fix r r' r''
  assume "r' = r \<or> same_setup r r' \<and> last_good_value r' = last_good_value r \<and> dr_current r' = v \<and> pending_eval r'"
    and "r'' = r' \<or> same_setup r' r'' \<and> last_good_value r'' = last_good_value r' \<and> dr_current r'' = dr_current r0"
  then show "r = r0 \<longrightarrow> tuned cfg r r''"
    using assms(2-) same_setup_trans [of r r' r''] by (elim disjE) (auto simp: tuned_def)
qed

lemma tune_key_only:
  assumes "\<And>r. store_get by_key (fst kt) = Some r \<Longrightarrow> dr_key r = fst kt \<and> in_bounds r"
  shows "only_row (fst kt) (\<lambda>r r'. store_get by_key (fst kt) = Some r \<longrightarrow> tuned cfg r r')
    (tune_key exact_env T cfg m by_key kt)"
proof (cases "store_get by_key (fst kt)")
  case None
  then show ?thesis by (auto simp: tune_key_def intro: only_row_mono [OF only_row_keeps])
next
  case (Some r0)
  then have r0: "dr_key r0 = fst kt" "in_bounds r0" using assms by auto
  let ?v = "bounded_value exact_env r0 (snd kt)"
  have idle: "only_row (fst kt) (\<lambda>r r'. r0 = r \<longrightarrow> tuned cfg r r') a" if "same_rows a" for a :: "bool action"
    using that by (auto simp: tuned_def intro: only_row_mono [OF only_row_keeps])
  consider "\<not> dr_enabled r0 \<or> pending_eval r0 \<or> \<bar>?v - dr_current r0\<bar> < 1 / 1000000"
    | (go) "dr_enabled r0" "\<not> pending_eval r0" "\<not> \<bar>?v - dr_current r0\<bar> < 1 / 1000000" by blast
  then show ?thesis
  proof cases
    case 1
    then show ?thesis using Some by (auto simp: tune_key_def Let_def EPSILON_def intro: idle)
  next
    case go
    show ?thesis
    proof (cases "apply_changes cfg")
      case True
      have "only_row (dr_key r0) (\<lambda>r r'. r0 = r \<longrightarrow> tuned cfg r r')
        (tseq (apply_change T r0 ?v m) (\<lambda>_. tseq (publish_update T \<lparr>du_key = fst kt, du_value = ?v, du_source = ''dynamic_tuner''\<rparr>)
           (\<lambda>sent. if sent then tret True else tseq (rollback_unpublished_change T r0 ?v) (\<lambda>_. tret False))))"
        by (rule only_row_mono [OF change_only [OF r0(2) True go(1,2) bounded_value_exact [OF r0(2)]]]) auto
      with go True Some r0(1) show ?thesis by (simp add: tune_key_def EPSILON_def Let_def)
    next
      case False
      with go Some show ?thesis
        by (simp add: tune_key_def EPSILON_def Let_def) (auto intro!: idle same_rows_tseq)
    qed
  qed
qed

subsection \<open>Lists of rows\<close>

lemma only_row_get:
  assumes "only_row k R a"
  shows "store_get (tw_rows w) k = Some r \<Longrightarrow> \<exists>r'. store_get (tw_rows (fst (a w))) k = Some r' \<and> R r r'"
    and "j \<noteq> k \<Longrightarrow> store_get (tw_rows (fst (a w))) j = store_get (tw_rows w) j"
    and "map fst (tw_rows (fst (a w))) = map fst (tw_rows w)"
  using assms unfolding only_row_def by blast+

text \<open>\<open>table_step R t t'\<close>: the tables have the same keys, and \<open>R\<close> relates the rows of each key.\<close>

definition table_step ::
  "(string \<Rightarrow> DynamicConfigRow \<Rightarrow> DynamicConfigRow \<Rightarrow> bool) \<Rightarrow> (string, DynamicConfigRow) store
   \<Rightarrow> (string, DynamicConfigRow) store \<Rightarrow> bool" where
  "table_step R t t' \<longleftrightarrow> map fst t' = map fst t
     \<and> (\<forall>k r. store_get t k = Some r \<longrightarrow> (\<exists>r'. store_get t' k = Some r' \<and> R k r r'))"

definition steps :: "(string \<Rightarrow> DynamicConfigRow \<Rightarrow> DynamicConfigRow \<Rightarrow> bool) \<Rightarrow> 'a action \<Rightarrow> bool" where
  "steps R a \<longleftrightarrow> (\<forall>w. table_step R (tw_rows w) (tw_rows (fst (a w))))"

lemma table_stepD:
  "table_step R t t' \<Longrightarrow> store_get t k = Some r \<Longrightarrow> \<exists>r'. store_get t' k = Some r' \<and> R k r r'"
  by (simp add: table_step_def)

lemma table_step_back:
  assumes "table_step R t t'" "store_get t' k = Some r'"
  obtains r where "store_get t k = Some r" "R k r r'"
proof -
  have "k \<in> set (map fst t')" using assms(2) by (force simp: store_get_def dest: map_of_SomeD)
  then have "k \<in> set (map fst t)" using assms(1) by (simp only: table_step_def)
  then obtain r where "store_get t k = Some r"
    unfolding store_get_def set_map using map_of_eq_None_iff [of t k] by (cases "map_of t k") auto
  with table_stepD [OF assms(1)] assms(2) that show thesis by fastforce
qed

lemma table_step_ok:
  assumes "table_step R t t'" "table_ok t"
    and "\<And>k r r'. R k r r' \<Longrightarrow> in_bounds r \<Longrightarrow> dr_key r' = dr_key r \<and> in_bounds r'"
  shows "table_ok t'"
  unfolding table_ok_def
proof (intro conjI allI impI)
  show "store_wf t'" using assms(1,2) by (simp add: table_ok_def store_wf_def table_step_def)
  fix k r'
  assume "store_get t' k = Some r'"
  then obtain r where "store_get t k = Some r" "R k r r'" using table_step_back [OF assms(1)] by blast
  with assms(2,3) show "dr_key r' = k" "in_bounds r'" by (auto simp: table_ok_def)
qed

lemma table_step_trans:
  assumes "table_step R t t1" "table_step S t1 t2" "\<And>k r r1 r2. R k r r1 \<Longrightarrow> S k r1 r2 \<Longrightarrow> Q k r r2"
  shows "table_step Q t t2"
  using assms unfolding table_step_def by metis

lemma table_step_mono:
  "table_step R t t' \<Longrightarrow> (\<And>k r r'. store_get t k = Some r \<Longrightarrow> R k r r' \<Longrightarrow> S k r r') \<Longrightarrow> table_step S t t'"
  unfolding table_step_def by meson

lemma steps_same: "same_rows a \<Longrightarrow> (\<And>k r. R k r r) \<Longrightarrow> steps R a"
  by (simp add: steps_def same_rows_def table_step_def)

text \<open>Actions on different keys, one after another: each key is changed once at most.\<close>

definition once :: "string set \<Rightarrow> (string \<Rightarrow> DynamicConfigRow \<Rightarrow> DynamicConfigRow \<Rightarrow> bool) \<Rightarrow> 'a action \<Rightarrow> bool" where
  "once K R a \<longleftrightarrow> steps (\<lambda>k r r'. r' = r \<or> k \<in> K \<and> R k r r') a"

lemma once_same: "same_rows a \<Longrightarrow> once K R a"
  by (simp add: once_def steps_same)

lemma only_row_step:
  assumes "only_row k (R k) a" "a w = (w1, y)"
  shows "table_step (\<lambda>j r r'. if j = k then R k r r' else r' = r) (tw_rows w) (tw_rows w1)"
  unfolding table_step_def
proof (intro conjI allI impI)
  note A = only_row_get [OF assms(1), where w = w, unfolded assms(2) fst_conv]
  show "map fst (tw_rows w1) = map fst (tw_rows w)" by (rule A(3))
  fix j r
  assume r: "store_get (tw_rows w) j = Some r"
  show "\<exists>r'. store_get (tw_rows w1) j = Some r' \<and> (if j = k then R k r r' else r' = r)"
  proof (cases "j = k")
    case True
    with r A(1) [of r] show ?thesis by simp
  next
    case False
    with r A(2) [of j] show ?thesis by simp
  qed
qed

lemma once_tseq:
  assumes "only_row k (R k) a" "\<And>x. once K R (f x)" "k \<notin> K"
  shows "once (insert k K) R (tseq a f)"
  unfolding once_def steps_def
proof
  fix w
  obtain w1 y where a: "a w = (w1, y)" by fastforce
  have A: "table_step (\<lambda>j r r'. if j = k then R k r r' else r' = r) (tw_rows w) (tw_rows w1)"
    by (rule only_row_step [where R = R, OF assms(1) a])
  show "table_step (\<lambda>j r r'. r' = r \<or> j \<in> insert k K \<and> R j r r') (tw_rows w) (tw_rows (fst (tseq a f w)))"
  proof (cases y)
    case (Inl e)
    then have "fst (tseq a f w) = w1" by (simp add: tseq_def a)
    with A show ?thesis by (auto simp: table_step_def split: if_splits)
  next
    case (Inr x)
    then have eq: "tseq a f w = f x w1" by (simp add: tseq_def a)
    have B: "table_step (\<lambda>j r r'. r' = r \<or> j \<in> K \<and> R j r r') (tw_rows w1) (tw_rows (fst (f x w1)))"
      using assms(2) [of x] by (simp add: once_def steps_def)
    show ?thesis unfolding eq
      by (rule table_step_trans [OF A B]) (use assms(3) in \<open>auto split: if_splits\<close>)
  qed
qed

lemma once_teach:
  assumes "\<And>x. x \<in> set xs \<Longrightarrow> only_row (key x) (R (key x)) (f x)" "distinct (map key xs)"
  shows "once (key ` set xs) R (teach f xs)"
  using assms
proof (induction xs)
  case (Cons x xs)
  then have "once (insert (key x) (key ` set xs)) R (tseq (f x) (\<lambda>_. teach f xs))"
    by (intro once_tseq) auto
  then show ?case by simp
qed (simp add: once_same)

lemma once_tune_all:
  assumes "\<And>kt. kt \<in> set kts \<Longrightarrow> only_row (fst kt) (R (fst kt)) (tune_key E T cfg m by_key kt)"
    and "distinct (map fst kts)"
  shows "once (fst ` set kts) R (tune_all E T cfg m by_key kts n)"
  using assms
proof (induction kts arbitrary: n)
  case (Cons kt kts)
  then have "once (insert (fst kt) (fst ` set kts)) R (tseq (tune_key E T cfg m by_key kt)
      (\<lambda>b. tune_all E T cfg m by_key kts (if b then n + 1 else n)))"
    by (intro once_tseq) auto
  then show ?case by simp
qed (simp add: once_same)

subsection \<open>The phases of a cycle\<close>

lemma table_keys: "table_ok t \<Longrightarrow> map dr_key (store_values t) = map fst t"
proof -
  assume t: "table_ok t"
  have "dr_key r = k" if "(k, r) \<in> set t" for k r
    using that t by (simp add: table_ok_def store_wf_def store_get_def map_of_eq_Some_iff)
  then show ?thesis by (auto simp: store_values_def intro!: map_cong)
qed

lemma table_get:
  assumes "table_ok t" "r \<in> set (store_values t)"
  shows "store_get t (dr_key r) = Some r"
proof -
  obtain k where "store_get t k = Some r"
    using assms by (auto simp: table_ok_def st.vals_get ran_def)
  with assms(1) show ?thesis by (auto simp: table_ok_def)
qed

lemma by_key_get:
  assumes "table_ok t"
  shows "store_get (fold (\<lambda>r. store_insert (dr_key r) r) (store_values t) []) k = store_get t k"
proof -
  have "store_get (fold (\<lambda>r. store_insert (dr_key r) r) rs acc) k =
      (if k \<in> dr_key ` set rs then store_get t k else store_get acc k)"
    if "\<forall>r \<in> set rs. store_get t (dr_key r) = Some r" for rs acc
    using that by (induction rs arbitrary: acc) (auto simp: store_simps image_iff)
  note fold = this [of "store_values t" "[]"]
  have "store_get t k = None" if "k \<notin> dr_key ` set (store_values t)"
    using that assms store_get_in_values [of t k] by (cases "store_get t k") (auto simp: table_ok_def image_iff)
  with fold assms table_get show ?thesis by auto
qed

lemma evaluate_pending_step:
  assumes "table_ok (tw_rows w)"
  shows "table_step (\<lambda>_. evaluated cfg now m) (tw_rows w)
    (tw_rows (fst (evaluate_pending exact_env T cfg now (store_values (tw_rows w)) m w)))"
proof (cases "apply_changes cfg")
  case False
  then show ?thesis by (simp add: evaluate_pending_def tret_def table_step_def evaluated_def)
next
  case True
  let ?rows = "filter pending_eval (store_values (tw_rows w))"
  define R where "R = (\<lambda>k r r'. store_get (tw_rows w) k = Some r \<longrightarrow> evaluated cfg now m r r')"
  have "once (dr_key ` set ?rows) R (teach (evaluate_row exact_env T cfg now m) ?rows)"
  proof (rule once_teach)
    fix x
    assume x: "x \<in> set ?rows"
    then have "store_get (tw_rows w) (dr_key x) = Some x" using assms table_get by simp
    then show "only_row (dr_key x) (R (dr_key x)) (evaluate_row exact_env T cfg now m x)"
      using x True by (intro only_row_mono [OF evaluate_row_only [where m = m and now = now]]) (auto simp: R_def)
  next
    have "distinct (map dr_key (store_values (tw_rows w)))"
      using assms unfolding table_keys [OF assms] by (simp add: table_ok_def store_wf_def)
    then show "distinct (map dr_key ?rows)" by (rule distinct_map_filter)
  qed
  then have "table_step (\<lambda>k r r'. r' = r \<or> k \<in> dr_key ` set ?rows \<and> R k r r') (tw_rows w)
      (tw_rows (fst (teach (evaluate_row exact_env T cfg now m) ?rows w)))"
    unfolding once_def steps_def by blast
  then have "table_step (\<lambda>_. evaluated cfg now m) (tw_rows w)
      (tw_rows (fst (teach (evaluate_row exact_env T cfg now m) ?rows w)))"
    by (rule table_step_mono) (auto simp: R_def evaluated_def)
  then show ?thesis using True by (simp add: evaluate_pending_def)
qed

lemma target_keys_distinct:
  "distinct (map fst ((if a then [(''ARB_MIN_PROFIT_THRESHOLD'', x)] else [])
     @ (if b then (case c of Some r \<Rightarrow> [(''ARB_MIN_BOOK_DEPTH'', f r)] | None \<Rightarrow> []) else [])
     @ [(''ARB_MONITOR_MAX_MARKETS'', y), (''QUANT_BASE_POSITION_SIZE'', z)]))"
  by (cases a; cases b; cases c) simp_all

lemma targets_distinct: "distinct (map fst (compute_targets E cfg rows m regime))"
  unfolding compute_targets_def by (rule target_keys_distinct)

lemma tune_rows_step:
  assumes "table_ok (tw_rows w)"
  shows "table_step (\<lambda>_ r r'. if frozen cfg m then r' = r else tuned cfg r r') (tw_rows w)
    (tw_rows (fst (tune_rows exact_env T cfg m regime (store_values (tw_rows w)) w)))"
proof (cases "frozen cfg m")
  case True
  have "same_rows (tune_rows exact_env T cfg m regime rows)" for rows
    using True by (simp add: tune_rows_def same_rows_tseq)
  then show ?thesis using True by (simp add: same_rows_def table_step_def)
next
  case False
  let ?by = "fold (\<lambda>r. store_insert (dr_key r) r) (store_values (tw_rows w)) []"
  let ?ts = "compute_targets exact_env cfg ?by m regime"
  let ?rest = "\<lambda>n. tseq (if no_trade_watchdog exact_env cfg m \<and> n = (0 :: nat)
      then record_history T None None None ''watchdog'' else tret ()) (\<lambda>_. persist_runtime_state T ''ok'')"
  define R where "R = (\<lambda>k r r'. store_get (tw_rows w) k = Some r \<longrightarrow> tuned cfg r r')"
  have "once (fst ` set ?ts) R (tune_all exact_env T cfg m ?by ?ts 0)"
  proof (rule once_tune_all [OF _ targets_distinct])
    fix kt
    have "only_row (fst kt) (\<lambda>r r'. store_get ?by (fst kt) = Some r \<longrightarrow> tuned cfg r r') (tune_key exact_env T cfg m ?by kt)"
      by (rule tune_key_only) (use assms in \<open>auto simp: by_key_get [OF assms] table_ok_def\<close>)
    then show "only_row (fst kt) (R (fst kt)) (tune_key exact_env T cfg m ?by kt)"
      by (simp add: R_def by_key_get [OF assms])
  qed
  then have step: "table_step (\<lambda>k r r'. r' = r \<or> k \<in> fst ` set ?ts \<and> R k r r') (tw_rows w)
      (tw_rows (fst (tune_all exact_env T cfg m ?by ?ts 0 w)))"
    unfolding once_def steps_def by blast
  have "same_rows (?rest n)" for n by (simp add: same_rows_tseq)
  then have "tw_rows (fst (tune_rows exact_env T cfg m regime (store_values (tw_rows w)) w)) =
      tw_rows (fst (tune_all exact_env T cfg m ?by ?ts 0 w))"
    using False
    by (simp add: tune_rows_def Let_def tseq_def [of "tune_all exact_env T cfg m ?by ?ts 0"] same_rows_def
        split: prod.split sum.split)
  moreover have "table_step (\<lambda>_. tuned cfg) (tw_rows w) (tw_rows (fst (tune_all exact_env T cfg m ?by ?ts 0 w)))"
    using step by (rule table_step_mono) (auto simp: R_def tuned_def)
  ultimately show ?thesis using False by simp
qed

subsection \<open>Seeding\<close>

lemma seed_row_ok:
  assumes "cs_min c \<le> cs_max c" "\<And>r. old = Some r \<Longrightarrow> dr_key r = cs_key c"
  shows "dr_key (seed_row c old) = cs_key c \<and> in_bounds (seed_row c old)"
  using assms by (cases old) (auto simp: seed_row_def Let_def in_bounds_def clamp_to_bounds_def)

lemma seed_one_ok: "cs_min c \<le> cs_max c \<Longrightarrow> table_ok (tw_rows w) \<Longrightarrow> table_ok (tw_rows (fst (seed_one T c w)))"
  using seed_row_ok [of c "store_get (tw_rows w) (cs_key c)"]
  by (auto simp: seed_one_def statement_def Let_def table_ok_def store_simps st.wf_insert)

lemma teach_keeps:
  assumes "\<And>x w. x \<in> set xs \<Longrightarrow> I w \<Longrightarrow> I (fst (f x w))" "I w"
  shows "I (fst (teach f xs w))"
  using assms
proof (induction xs arbitrary: w)
  case (Cons x xs)
  obtain w1 y where fx: "f x w = (w1, y)" by fastforce
  have "I w1" using Cons.prems(1) [of x w] Cons.prems(2) fx by simp
  with Cons show ?case by (cases y) (simp_all add: tseq_def fx)
qed (simp add: tret_def)

lemma seed_defaults_ok: "table_ok (tw_rows w) \<Longrightarrow> table_ok (tw_rows (fst (seed_defaults T env agg w)))"
  unfolding seed_defaults_def
  by (rule teach_keeps [where I = "\<lambda>w. table_ok (tw_rows w)"], rule seed_one_ok)
    (auto simp: config_seeds_def dec_new_def)

subsection \<open>The cycle\<close>

definition cycled :: "DynamicTunerConfig \<Rightarrow> datetime \<Rightarrow> TuningMetrics \<Rightarrow> DynamicConfigRow \<Rightarrow> DynamicConfigRow \<Rightarrow> bool" where
  "cycled cfg now m r r' \<longleftrightarrow> (\<exists>r1. evaluated cfg now m r r1 \<and> (if frozen cfg m then r' = r1 else tuned cfg r1 r'))"

lemma cycled_in_bounds: "cycled cfg now m r r' \<Longrightarrow> in_bounds r \<Longrightarrow> dr_key r' = dr_key r \<and> in_bounds r'"
proof -
  assume c: "cycled cfg now m r r'" and r: "in_bounds r"
  then obtain r1 where r1: "evaluated cfg now m r r1" "if frozen cfg m then r' = r1 else tuned cfg r1 r'"
    by (auto simp: cycled_def)
  from evaluated_in_bounds [OF r1(1) r] have "dr_key r1 = dr_key r" "in_bounds r1" by auto
  with r1(2) tuned_in_bounds [of cfg r1 r'] show ?thesis by (auto split: if_splits)
qed

lemma regime_irrelevant [simp]:
  "evaluated cfg now (m\<lparr>current_regime := g\<rparr>) = evaluated cfg now m"
  "frozen cfg (m\<lparr>current_regime := g\<rparr>) = frozen cfg m"
  by (simp_all add: evaluated_def degraded_def frozen_def fun_eq_iff)

lemma load_rows_cases:
  obtains (failed) w' where "load_rows T w = (w', Inl Database_error)" "tw_rows w' = tw_rows w"
  | (loaded) w' where "load_rows T w = (w', Inr (store_values (tw_rows w)))" "tw_rows w' = tw_rows w"
  by (cases "te_ok T (tw_statements w)") (auto simp: load_rows_def Let_def)

lemma evaluate_then_tune_step:
  assumes "table_ok (tw_rows w)" "rows = store_values (tw_rows w)"
  shows "table_step (\<lambda>_. cycled cfg now m) (tw_rows w) (tw_rows (fst (
    tseq (evaluate_pending exact_env T cfg now rows m) (\<lambda>_.
    tseq (load_rows T) (\<lambda>rows'. tune_rows exact_env T cfg m regime rows')) w)))"
proof -
  obtain w1 y where ev: "evaluate_pending exact_env T cfg now rows m w = (w1, y)" by fastforce
  have step1: "table_step (\<lambda>_. evaluated cfg now m) (tw_rows w) (tw_rows w1)"
    using evaluate_pending_step [OF assms(1), of cfg now m T] ev by (simp add: assms(2))
  then have stop: "table_step (\<lambda>_. cycled cfg now m) (tw_rows w) (tw_rows w1)"
    by (rule table_step_mono) (auto simp: cycled_def tuned_def)
  have ok: "table_ok (tw_rows w1)"
    using step1 assms(1) evaluated_in_bounds by (rule table_step_ok)
  show ?thesis
  proof (cases y)
    case (Inl e)
    with stop show ?thesis by (simp add: tseq_def ev)
  next
    case (Inr u)
    show ?thesis
    proof (cases rule: load_rows_cases [of T w1])
      case (failed w2)
      with stop Inr show ?thesis by (simp add: tseq_def ev)
    next
      case (loaded w2)
      have "table_step (\<lambda>_ r r'. if frozen cfg m then r' = r else tuned cfg r r') (tw_rows w1)
          (tw_rows (fst (tune_rows exact_env T cfg m regime (store_values (tw_rows w1)) w2)))"
        using tune_rows_step [of w2 cfg m T regime] ok loaded(2) by simp
      with step1 have "table_step (\<lambda>_. cycled cfg now m) (tw_rows w)
          (tw_rows (fst (tune_rows exact_env T cfg m regime (store_values (tw_rows w1)) w2)))"
        by (rule table_step_trans) (auto simp: cycled_def)
      with Inr loaded(1) show ?thesis by (simp add: tseq_def ev)
    qed
  qed
qed

text \<open>The part of a cycle after the table is loaded.\<close>

definition cycle_body ::
  "num_env \<Rightarrow> tuner_env \<Rightarrow> DynamicTunerConfig \<Rightarrow> metrics_feed \<Rightarrow> CircuitBreakerState \<Rightarrow> MarketRegime \<Rightarrow> datetime
   \<Rightarrow> DynamicConfigRow list \<Rightarrow> unit action" where
  "cycle_body E T cfg feed st observed now rows =
     (case collect_metrics E feed st of
       Inl e \<Rightarrow> (\<lambda>w. (w, Inl e))
     | Inr m0 \<Rightarrow> (\<lambda>w.
         (case resolve_regime cfg observed (tw_regime w) of (resolved, g) \<Rightarrow>
            (let m = m0\<lparr>current_regime := resolved\<rparr>
             in tseq (set_regime g) (\<lambda>_.
                tseq (evaluate_pending E T cfg now rows m) (\<lambda>_.
                tseq (load_rows T) (\<lambda>rows'. tune_rows E T cfg m resolved rows')))) w)))"

lemma cycle_body_step:
  assumes "table_ok (tw_rows w)" "rows = store_values (tw_rows w)" "collect_metrics exact_env feed st = Inr m"
  shows "table_step (\<lambda>_. cycled cfg now m) (tw_rows w)
    (tw_rows (fst (cycle_body exact_env T cfg feed st observed now rows w)))"
proof -
  obtain resolved g where g: "resolve_regime cfg observed (tw_regime w) = (resolved, g)" by fastforce
  have "table_step (\<lambda>_. cycled cfg now (m\<lparr>current_regime := resolved\<rparr>)) (tw_rows w)
    (tw_rows (fst (cycle_body exact_env T cfg feed st observed now rows w)))"
    using evaluate_then_tune_step [of "w\<lparr>tw_regime := g\<rparr>" rows cfg now "m\<lparr>current_regime := resolved\<rparr>" T resolved] assms g
    by (simp add: cycle_body_def Let_def tseq_def [of "set_regime g"] set_regime_def)
  then show ?thesis by (rule table_step_mono) (simp add: cycled_def)
qed

lemma cycle_body_ok:
  assumes "table_ok (tw_rows w)" "rows = store_values (tw_rows w)"
  shows "table_ok (tw_rows (fst (cycle_body exact_env T cfg feed st observed now rows w)))"
proof (cases "collect_metrics exact_env feed st")
  case (Inl e)
  then show ?thesis using assms(1) by (simp add: cycle_body_def)
next
  case (Inr m)
  show ?thesis
    using cycle_body_step [OF assms Inr] assms(1) cycled_in_bounds by (rule table_step_ok)
qed


definition demo_row :: DynamicConfigRow where
  "demo_row = \<lparr>dr_key = ''QUANT_BASE_POSITION_SIZE'', dr_current = 30, dr_default = 30, dr_min = 10,
     dr_max = 200, max_step_pct = 15 / 100, dr_enabled = True, last_good_value = 30,
     pending_eval = False, pending_baseline = None, last_applied_at = None, updated_by = ''bootstrap''\<rparr>"

definition demo_tuner :: tuner_world where
  "demo_tuner = \<lparr>tw_rows = [(''QUANT_BASE_POSITION_SIZE'', demo_row)], tw_history = [], tw_published = [],
     tw_status = None, tw_regime = \<lparr>stable_regime = Ranging, candidate_regime = None, candidate_count = 0\<rparr>,
     tw_statements = 0, tw_publications = 0\<rparr>"

definition demo_feed :: metrics_feed where
  "demo_feed = \<lparr>mf_attempts_fills = None, mf_recent_pnl = Some 0, mf_volatility = None,
     mf_depth_events = None, mf_quant_pnl = Some 10, mf_top_skip = None, mf_runtime = None\<rparr>"

definition demo_env :: tuner_env where
  "demo_env = \<lparr>te_ok = (\<lambda>_. True), te_publish = (\<lambda>_. True), te_clock = (\<lambda>_. 0)\<rparr>"


end
