(* ===== verification/Config_Subscriber.thy ===== *)
theory Config_Subscriber
  imports Dynamic_Tuner Arb_Executor Quant_Executor
begin

section \<open>Subscriber of dynamic configuration updates\<close>

text \<open>
  Model of the subscriber of \<open>crates/api-server/src/dynamic_tuner.rs\<close>, which applies the updates of the
  tuner and of the workspace handlers to the running arbitrage and quant executors. The rows of
  \<open>dynamic_config\<close> at its start are an argument (\<open>None\<close> when the query fails), and so are the messages
  of the channel, \<open>None\<close> for one that is not valid. A configuration that the server does not run
  with is \<open>None\<close>.
\<close>

record runtime_config =
  rc_arb :: "ArbExecutorConfig option"
  rc_quant :: "QuantSignalExecutorConfig option"

type_synonym bounds = "(string, decimal \<times> decimal) store"

definition fallback_bounds_for_key :: "string \<Rightarrow> (decimal \<times> decimal) option" where
  "fallback_bounds_for_key key =
     (if key = ''ARB_MIN_PROFIT_THRESHOLD'' then Some (dec_new 2 3, dec_new 5 3)
      else if key = ''ARB_MONITOR_MAX_MARKETS'' then Some (dec_new 25 0, dec_new 1500 0)
      else if key = ''ARB_MONITOR_EXPLORATION_SLOTS'' then Some (dec_new 1 0, dec_new 500 0)
      else if key = ''ARB_MONITOR_AGGRESSIVENESS_LEVEL'' then Some (0, dec_new 2 0)
      else if key = ''ARB_POSITION_SIZE'' then Some (dec_new 5 0, dec_new 25 0)
      else if key = ''ARB_MIN_NET_PROFIT'' then Some (dec_new 5 4, dec_new 5 2)
      else if key = ''ARB_MIN_BOOK_DEPTH'' then Some (dec_new 10 0, dec_new 200 0)
      else if key = ''ARB_MAX_SIGNAL_AGE_SECS'' then Some (dec_new 5 0, dec_new 300 0)
      else if key = ''QUANT_BASE_POSITION_SIZE'' then Some (dec_new 10 0, dec_new 200 0)
      else None)"

definition fallback_dynamic_bounds :: bounds where
  "fallback_dynamic_bounds = List.map_filter (\<lambda>key. map_option (Pair key) (fallback_bounds_for_key key))
     [''ARB_MIN_PROFIT_THRESHOLD'', ''ARB_MONITOR_MAX_MARKETS'', ''ARB_MONITOR_EXPLORATION_SLOTS'',
      ''ARB_MONITOR_AGGRESSIVENESS_LEVEL'', ''ARB_POSITION_SIZE'', ''ARB_MIN_NET_PROFIT'',
      ''ARB_MIN_BOOK_DEPTH'', ''ARB_MAX_SIGNAL_AGE_SECS'', ''QUANT_BASE_POSITION_SIZE'']"

definition load_dynamic_bounds :: "DynamicConfigRow list option \<Rightarrow> bounds" where
  "load_dynamic_bounds rows =
     (case rows of
        None \<Rightarrow> fallback_dynamic_bounds
      | Some rs \<Rightarrow>
          (let on = filter dr_enabled rs
           in if on = [] then fallback_dynamic_bounds
              else fold (\<lambda>r. store_insert (dr_key r) (dr_min r, dr_max r)) on []))"

definition key_bounds :: "bounds \<Rightarrow> string \<Rightarrow> (decimal \<times> decimal) option" where
  "key_bounds b key = (case store_get b key of Some lh \<Rightarrow> Some lh | None \<Rightarrow> fallback_bounds_for_key key)"

definition clamp_dynamic_value :: "string \<Rightarrow> decimal \<Rightarrow> bounds \<Rightarrow> decimal option" where
  "clamp_dynamic_value key v b = map_option (\<lambda>(lo, hi). min (max v lo) hi) (key_bounds b key)"

definition source_allowed :: "string \<Rightarrow> string list \<Rightarrow> bool" where
  "source_allowed source allowed = (source \<noteq> [] \<and> source \<in> set allowed)"

fun split_at :: "char \<Rightarrow> string \<Rightarrow> string list" where
  "split_at c [] = [[]]"
| "split_at c (x # xs) =
     (if x = c then [] # split_at c xs
      else (case split_at c xs of [] \<Rightarrow> [[x]] | y # ys \<Rightarrow> (x # y) # ys))"

definition load_allowed_update_sources :: "string option \<Rightarrow> string list" where
  "load_allowed_update_sources var =
     filter (\<lambda>s. s \<noteq> []) (map trim (split_at CHR '','' (or_default
       ''dynamic_tuner,dynamic_tuner_rollback,dynamic_tuner_sync,workspace_manual'' var)))"

text \<open>\<open>Decimal::to_i64\<close> drops the fraction and fails outside of the range.\<close>

definition dec_to_i64 :: "decimal \<Rightarrow> int option" where
  "dec_to_i64 x = (let n = (if 0 \<le> x then \<lfloor>x\<rfloor> else \<lceil>x\<rceil>)
     in if - (2 ^ 63) \<le> n \<and> n < 2 ^ 63 then Some n else None)"

definition apply_arb_key :: "string \<Rightarrow> decimal \<Rightarrow> ArbExecutorConfig \<Rightarrow> ArbExecutorConfig" where
  "apply_arb_key key v cfg =
     (if key = ''ARB_POSITION_SIZE'' then cfg\<lparr>Arb_Executor.position_size := v\<rparr>
      else if key = ''ARB_MIN_NET_PROFIT'' then cfg\<lparr>min_net_profit := v\<rparr>
      else if key = ''ARB_MIN_BOOK_DEPTH'' then cfg\<lparr>ax_min_book_depth := v\<rparr>
      else if key = ''ARB_MAX_SIGNAL_AGE_SECS''
      then (case dec_to_i64 v of Some secs \<Rightarrow> cfg\<lparr>max_signal_age_secs := secs\<rparr> | None \<Rightarrow> cfg)
      else cfg)"

definition apply_quant_key :: "string \<Rightarrow> decimal \<Rightarrow> QuantSignalExecutorConfig \<Rightarrow> QuantSignalExecutorConfig" where
  "apply_quant_key key v cfg =
     (if key = ''QUANT_BASE_POSITION_SIZE'' then cfg\<lparr>base_position_size_usd := v\<rparr> else cfg)"

text \<open>The startup snapshots: the enabled rows of a second query.\<close>

definition startup_arb :: "bounds \<Rightarrow> DynamicConfigRow list option \<Rightarrow> ArbExecutorConfig \<Rightarrow> ArbExecutorConfig" where
  "startup_arb b rows cfg =
     (case rows of
        None \<Rightarrow> cfg
      | Some rs \<Rightarrow> fold (\<lambda>r c. case clamp_dynamic_value (dr_key r) (dr_current r) b of
            None \<Rightarrow> c | Some v \<Rightarrow> apply_arb_key (dr_key r) v c) (filter dr_enabled rs) cfg)"

definition startup_quant :: "bounds \<Rightarrow> DynamicConfigRow list option \<Rightarrow> QuantSignalExecutorConfig \<Rightarrow> QuantSignalExecutorConfig" where
  "startup_quant b rows cfg =
     (case rows of
        None \<Rightarrow> cfg
      | Some rs \<Rightarrow> fold (\<lambda>r c. case clamp_dynamic_value (dr_key r) (dr_current r) b of
            None \<Rightarrow> c | Some v \<Rightarrow> apply_quant_key (dr_key r) v c) (filter dr_enabled rs) cfg)"

definition on_message ::
  "string list \<Rightarrow> bounds \<Rightarrow> DynamicConfigUpdate option \<Rightarrow> runtime_config \<Rightarrow> runtime_config" where
  "on_message allowed b msg rc =
     (case msg of
        None \<Rightarrow> rc
      | Some u \<Rightarrow>
          if \<not> source_allowed (du_source u) allowed then rc
          else (case clamp_dynamic_value (du_key u) (du_value u) b of
                  None \<Rightarrow> rc
                | Some v \<Rightarrow> \<lparr>rc_arb = map_option (apply_arb_key (du_key u) v) (rc_arb rc),
                             rc_quant = map_option (apply_quant_key (du_key u) v) (rc_quant rc)\<rparr>))"

definition run_dynamic_config_subscriber ::
  "string option \<Rightarrow> DynamicConfigRow list option \<Rightarrow> DynamicConfigRow list option \<Rightarrow> DynamicConfigRow list option
   \<Rightarrow> DynamicConfigUpdate option list \<Rightarrow> runtime_config \<Rightarrow> runtime_config" where
  "run_dynamic_config_subscriber var bound_rows arb_rows quant_rows msgs rc =
     (let allowed = load_allowed_update_sources var;
          b = load_dynamic_bounds bound_rows;
          rc0 = \<lparr>rc_arb = map_option (startup_arb b arb_rows) (rc_arb rc),
                 rc_quant = map_option (startup_quant b quant_rows) (rc_quant rc)\<rparr>
      in fold (on_message allowed b) msgs rc0)"

subsection \<open>The bounds hold at runtime\<close>

definition in_range :: "bounds \<Rightarrow> string \<Rightarrow> decimal \<Rightarrow> bool" where
  "in_range b key v \<longleftrightarrow> (\<exists>lo hi. key_bounds b key = Some (lo, hi) \<and> lo \<le> v \<and> v \<le> hi)"

definition arb_follows :: "bounds \<Rightarrow> ArbExecutorConfig \<Rightarrow> ArbExecutorConfig \<Rightarrow> bool" where
  "arb_follows b c c' \<longleftrightarrow>
     c' = c\<lparr>Arb_Executor.position_size := Arb_Executor.position_size c', min_net_profit := min_net_profit c',
            ax_min_book_depth := ax_min_book_depth c', max_signal_age_secs := max_signal_age_secs c'\<rparr>
   \<and> (Arb_Executor.position_size c' = Arb_Executor.position_size c
      \<or> in_range b ''ARB_POSITION_SIZE'' (Arb_Executor.position_size c'))
   \<and> (min_net_profit c' = min_net_profit c \<or> in_range b ''ARB_MIN_NET_PROFIT'' (min_net_profit c'))
   \<and> (ax_min_book_depth c' = ax_min_book_depth c \<or> in_range b ''ARB_MIN_BOOK_DEPTH'' (ax_min_book_depth c'))
   \<and> (max_signal_age_secs c' = max_signal_age_secs c
      \<or> (\<exists>v. in_range b ''ARB_MAX_SIGNAL_AGE_SECS'' v \<and> dec_to_i64 v = Some (max_signal_age_secs c')))"

definition quant_follows :: "bounds \<Rightarrow> QuantSignalExecutorConfig \<Rightarrow> QuantSignalExecutorConfig \<Rightarrow> bool" where
  "quant_follows b c c' \<longleftrightarrow> c' = c\<lparr>base_position_size_usd := base_position_size_usd c'\<rparr>
   \<and> (base_position_size_usd c' = base_position_size_usd c
      \<or> in_range b ''QUANT_BASE_POSITION_SIZE'' (base_position_size_usd c'))"

lemma arb_follows_refl [simp]: "arb_follows b c c"
  by (simp add: arb_follows_def)

lemma quant_follows_refl [simp]: "quant_follows b c c"
  by (simp add: quant_follows_def)

lemma arb_follows_trans: "arb_follows b c c1 \<Longrightarrow> arb_follows b c1 c2 \<Longrightarrow> arb_follows b c c2"
  by (cases c; cases c1; cases c2) (auto simp: arb_follows_def)

lemma quant_follows_trans: "quant_follows b c c1 \<Longrightarrow> quant_follows b c1 c2 \<Longrightarrow> quant_follows b c c2"
  by (cases c; cases c1; cases c2) (auto simp: quant_follows_def)

definition bounds_ok :: "bounds \<Rightarrow> bool" where
  "bounds_ok b \<longleftrightarrow> (\<forall>key lo hi. key_bounds b key = Some (lo, hi) \<longrightarrow> lo \<le> hi)"

lemma clamp_within:
  assumes "bounds_ok b" "clamp_dynamic_value key v b = Some v'"
  shows "in_range b key v'"
proof -
  obtain lo hi where lh: "key_bounds b key = Some (lo, hi)" "v' = min (max v lo) hi"
    using assms(2) by (auto simp: clamp_dynamic_value_def)
  then have "lo \<le> hi" using assms(1) by (simp add: bounds_ok_def)
  with lh show ?thesis by (auto simp: in_range_def)
qed

lemma apply_arb_key_follows: "in_range b key v \<Longrightarrow> arb_follows b c (apply_arb_key key v c)"
  by (auto simp: arb_follows_def apply_arb_key_def split: option.split)

lemma apply_quant_key_follows: "in_range b key v \<Longrightarrow> quant_follows b c (apply_quant_key key v c)"
  by (auto simp: quant_follows_def apply_quant_key_def)

lemma fold_follows:
  assumes "\<And>x c. F c (f x c)" "\<And>c c1 c2. F c c1 \<Longrightarrow> F c1 c2 \<Longrightarrow> F c c2" "\<And>c. F c c"
  shows "F c (fold f xs c)"
  by (induction xs arbitrary: c) (auto intro: assms)

lemma startup_arb_follows: "bounds_ok b \<Longrightarrow> arb_follows b c (startup_arb b rows c)"
  unfolding startup_arb_def
  by (auto split: option.split intro!: fold_follows [where F = "arb_follows b"]
      apply_arb_key_follows intro: arb_follows_trans clamp_within)

lemma startup_quant_follows: "bounds_ok b \<Longrightarrow> quant_follows b c (startup_quant b rows c)"
  unfolding startup_quant_def
  by (auto split: option.split intro!: fold_follows [where F = "quant_follows b"]
      apply_quant_key_follows intro: quant_follows_trans clamp_within)

definition follows :: "bounds \<Rightarrow> runtime_config \<Rightarrow> runtime_config \<Rightarrow> bool" where
  "follows b rc rc' \<longleftrightarrow> rel_option (arb_follows b) (rc_arb rc) (rc_arb rc')
     \<and> rel_option (quant_follows b) (rc_quant rc) (rc_quant rc')"

lemma follows_trans: "follows b x y \<Longrightarrow> follows b y z \<Longrightarrow> follows b x z"
  unfolding follows_def
  by (auto elim!: option.rel_cases intro: arb_follows_trans quant_follows_trans)

lemma follows_refl: "follows b x x"
  unfolding follows_def by (simp add: option.rel_refl)

lemma on_message_follows: "bounds_ok b \<Longrightarrow> follows b rc (on_message allowed b msg rc)"
  by (auto simp: on_message_def follows_def option.rel_map intro!: option.rel_refl
      intro: apply_arb_key_follows apply_quant_key_follows clamp_within split: option.split)

lemma on_message_unauthorised:
  "\<not> source_allowed (du_source u) allowed \<Longrightarrow> on_message allowed b (Some u) rc = rc"
  by (simp add: on_message_def)

lemma load_dynamic_bounds_ok:
  assumes "\<And>rs r. rows = Some rs \<Longrightarrow> r \<in> set rs \<Longrightarrow> dr_min r \<le> dr_max r"
  shows "bounds_ok (load_dynamic_bounds rows)"
proof -
  have fb: "fallback_bounds_for_key key = Some (lo, hi) \<Longrightarrow> lo \<le> hi" for key lo hi
    by (auto simp: fallback_bounds_for_key_def dec_new_def split: if_splits)
  have "(key, lo, hi) \<in> set (List.map_filter (\<lambda>key. map_option (Pair key) (fallback_bounds_for_key key)) ks)
      \<Longrightarrow> lo \<le> hi" for key lo hi ks
    by (auto simp: in_set_map_filter dest: fb)
  then have fbs: "store_get fallback_dynamic_bounds key = Some (lo, hi) \<Longrightarrow> lo \<le> hi" for key lo hi
    unfolding store_get_def fallback_dynamic_bounds_def by (blast dest: map_of_SomeD)
  have fold_ok: "lo \<le> hi"
    if "store_get (fold (\<lambda>r. store_insert (dr_key r) (dr_min r, dr_max r)) rs acc) key = Some (lo, hi)"
      "\<forall>r \<in> set rs. dr_min r \<le> dr_max r" "\<And>key lo hi. store_get acc key = Some (lo, hi) \<Longrightarrow> lo \<le> hi"
    for rs acc key lo hi
    using that
  proof (induction rs arbitrary: acc)
    case (Cons r rs)
    show ?case
    proof (rule Cons.IH)
      show "store_get (fold (\<lambda>r. store_insert (dr_key r) (dr_min r, dr_max r)) rs
          (store_insert (dr_key r) (dr_min r, dr_max r) acc)) key = Some (lo, hi)"
        using Cons.prems(1) by simp
    qed (use Cons.prems(2,3) in \<open>auto simp: store_simps split: if_splits\<close>)
  qed auto
  have "lo \<le> hi" if rs: "rows = Some rs"
    and get: "store_get (fold (\<lambda>r. store_insert (dr_key r) (dr_min r, dr_max r)) (filter dr_enabled rs) []) key = Some (lo, hi)"
    for rs key lo hi
  proof (rule fold_ok [OF get])
    show "\<forall>r \<in> set (filter dr_enabled rs). dr_min r \<le> dr_max r" using assms [OF rs] by simp
  qed simp
  with fb fbs show ?thesis
    by (auto simp: bounds_ok_def key_bounds_def load_dynamic_bounds_def Let_def split: option.splits if_splits)
qed

text \<open>
  C36: The running executors are configured within the bounds. Whatever messages arrive on the
  channel, from whatever sources and with whatever keys and values, and whatever the snapshot
  queries return, the subscriber changes nothing of the arbitrage and the quant executor but the
  five tunable fields, and a field that it changes has a value between the bounds of its key: those
  of the enabled rows of the table, or the built-in ones for a key that has none. The signal age
  is the whole part of such a value.
\<close>

theorem subscriber_respects_bounds:
  assumes "\<And>rs r. bound_rows = Some rs \<Longrightarrow> r \<in> set rs \<Longrightarrow> dr_min r \<le> dr_max r"
    and "run_dynamic_config_subscriber var bound_rows arb_rows quant_rows msgs rc = rc'"
  shows "rel_option (arb_follows (load_dynamic_bounds bound_rows)) (rc_arb rc) (rc_arb rc')
    \<and> rel_option (quant_follows (load_dynamic_bounds bound_rows)) (rc_quant rc) (rc_quant rc')"
proof -
  let ?b = "load_dynamic_bounds bound_rows"
  have b: "bounds_ok ?b" using assms(1) by (rule load_dynamic_bounds_ok)
  define rc0 where "rc0 = \<lparr>rc_arb = map_option (startup_arb ?b arb_rows) (rc_arb rc),
    rc_quant = map_option (startup_quant ?b quant_rows) (rc_quant rc)\<rparr>"
  have "follows ?b rc rc0"
    by (simp add: follows_def rc0_def option.rel_map option.rel_refl startup_arb_follows startup_quant_follows b)
  moreover have "follows ?b rc0 (fold (on_message (load_allowed_update_sources var) ?b) msgs rc0)"
    by (rule fold_follows [where F = "follows ?b"]) (auto intro: on_message_follows b follows_trans follows_refl)
  ultimately have "follows ?b rc rc'"
    using assms(2) by (auto simp: run_dynamic_config_subscriber_def Let_def rc0_def intro: follows_trans)
  then show ?thesis by (simp add: follows_def)
qed

text \<open>A tuner message asks for a position size of 1000: the ceiling of 25 is applied.\<close>

theorem subscriber_respects_bounds_witness:
  "run_dynamic_config_subscriber None (Some []) None None
      [Some \<lparr>du_key = ''ARB_POSITION_SIZE'', du_value = 1000, du_source = ''dynamic_tuner''\<rparr>,
       Some \<lparr>du_key = ''ARB_MIN_NET_PROFIT'', du_value = 1, du_source = ''stranger''\<rparr>]
      \<lparr>rc_arb = Some default_arb_config, rc_quant = None\<rparr>
     = \<lparr>rc_arb = Some (default_arb_config\<lparr>Arb_Executor.position_size := 25\<rparr>), rc_quant = None\<rparr>
   \<and> arb_follows (load_dynamic_bounds (Some [])) default_arb_config (default_arb_config\<lparr>Arb_Executor.position_size := 25\<rparr>)"
proof -
  have run: "run_dynamic_config_subscriber None (Some []) None None
      [Some \<lparr>du_key = ''ARB_POSITION_SIZE'', du_value = 1000, du_source = ''dynamic_tuner''\<rparr>,
       Some \<lparr>du_key = ''ARB_MIN_NET_PROFIT'', du_value = 1, du_source = ''stranger''\<rparr>]
      \<lparr>rc_arb = Some default_arb_config, rc_quant = None\<rparr>
     = \<lparr>rc_arb = Some (default_arb_config\<lparr>Arb_Executor.position_size := 25\<rparr>), rc_quant = None\<rparr>"
    by (simp add: run_dynamic_config_subscriber_def load_allowed_update_sources_def or_default_def trim_def is_space_def
        load_dynamic_bounds_def fallback_dynamic_bounds_def fallback_bounds_for_key_def on_message_def
        source_allowed_def clamp_dynamic_value_def key_bounds_def dec_new_def apply_arb_key_def startup_arb_def Let_def)
  from subscriber_respects_bounds [OF _ run] run show ?thesis by simp
qed

end
