(* ===== verification/Jwt.thy ===== *)
theory Jwt
  imports Prelude
begin

section \<open>JWT authentication\<close>

text \<open>
  Model of \<open>crates/auth/src/jwt.rs\<close>: the roles, the claims, and the authenticator with its blacklist of
  revoked tokens, which \<open>is_revoked\<close> prunes while it is read. Signing and checking a token is the
  \<open>jsonwebtoken\<close> crate: \<open>encode\<close> and \<open>decode\<close> are parameters, the latter with the time at which it
  validates. The clock and the fresh token id are arguments. The blacklist's lock is never
  poisoned: no code panics while it holds it.
\<close>

datatype UserRole = Viewer | Trader | PlatformAdmin

fun can_trade_role :: "UserRole \<Rightarrow> bool" where
  "can_trade_role Trader = True"
| "can_trade_role PlatformAdmin = True"
| "can_trade_role Viewer = False"

fun can_configure :: "UserRole \<Rightarrow> bool" where
  "can_configure PlatformAdmin = True"
| "can_configure _ = False"

definition can_view :: "UserRole \<Rightarrow> bool" where
  "can_view r = True"

record Claims =
  c_sub :: string
  c_email :: "string option"
  c_wallet_address :: "string option"
  c_role :: UserRole
  c_iat :: int
  c_exp :: int
  c_jti :: string

text \<open>\<open>DateTime::timestamp\<close>: whole seconds, rounded down.\<close>

definition unix_seconds :: "datetime \<Rightarrow> int" where
  "unix_seconds t = t div ns_per_sec"

definition claims_new :: "datetime \<Rightarrow> string \<Rightarrow> string \<Rightarrow> UserRole \<Rightarrow> int \<Rightarrow> Claims" where
  "claims_new now fresh user_id role expiry_hours = \<lparr>c_sub = user_id, c_email = None, c_wallet_address = None,
     c_role = role, c_iat = unix_seconds now, c_exp = unix_seconds (now + expiry_hours * 3600 * ns_per_sec), c_jti = fresh\<rparr>"

definition with_email :: "string \<Rightarrow> Claims \<Rightarrow> Claims" where
  "with_email e c = c\<lparr>c_email := Some e\<rparr>"

definition with_wallet_address :: "string \<Rightarrow> Claims \<Rightarrow> Claims" where
  "with_wallet_address a c = c\<lparr>c_wallet_address := Some a\<rparr>"

definition is_expired_claims :: "datetime \<Rightarrow> Claims \<Rightarrow> bool" where
  "is_expired_claims now c \<longleftrightarrow> c_exp c < unix_seconds now"

text \<open>The remaining validity in seconds.\<close>

definition remaining_validity :: "datetime \<Rightarrow> Claims \<Rightarrow> int option" where
  "remaining_validity now c =
     (let remaining = c_exp c - unix_seconds now in if remaining > 0 then Some remaining else None)"

record JwtConfig =
  jc_secret :: string
  expiry_hours :: int
  jc_issuer :: "string option"
  jc_audience :: "string option"

definition jwt_config_default :: JwtConfig where
  "jwt_config_default = \<lparr>jc_secret = ''change-me-in-production'', expiry_hours = 24, jc_issuer = None, jc_audience = None\<rparr>"

text \<open>The keys and the validation rules are functions of the configuration.\<close>

record JwtAuth =
  jwt_config :: JwtConfig
  blacklist :: "(string, int) store"

definition jwt_new :: "JwtConfig \<Rightarrow> JwtAuth" where
  "jwt_new cfg = \<lparr>jwt_config = cfg, blacklist = []\<rparr>"

type_synonym encoder = "JwtConfig \<Rightarrow> Claims \<Rightarrow> string + string"
type_synonym decoder = "JwtConfig \<Rightarrow> datetime \<Rightarrow> string \<Rightarrow> string + Claims"

datatype jwt_error = Codec_error string | Token_revoked

definition create_token_with_claims :: "encoder \<Rightarrow> Claims \<Rightarrow> JwtAuth \<Rightarrow> jwt_error + string" where
  "create_token_with_claims encode c a =
     (case encode (jwt_config a) c of Inl e \<Rightarrow> Inl (Codec_error e) | Inr t \<Rightarrow> Inr t)"

definition create_token :: "encoder \<Rightarrow> datetime \<Rightarrow> string \<Rightarrow> string \<Rightarrow> UserRole \<Rightarrow> JwtAuth \<Rightarrow> jwt_error + string" where
  "create_token encode now fresh user_id role a =
     create_token_with_claims encode (claims_new now fresh user_id role (expiry_hours (jwt_config a))) a"

definition revoke_token :: "string \<Rightarrow> int \<Rightarrow> JwtAuth \<Rightarrow> JwtAuth" where
  "revoke_token j e a = a\<lparr>blacklist := store_insert j e (blacklist a)\<rparr>"

definition prune_blacklist :: "int \<Rightarrow> (string, int) store \<Rightarrow> (string, int) store" where
  "prune_blacklist now bl = filter (\<lambda>(_, e). e > now) bl"

definition is_revoked :: "datetime \<Rightarrow> string \<Rightarrow> JwtAuth \<Rightarrow> JwtAuth \<times> bool" where
  "is_revoked t j a =
     (let now = unix_seconds t
      in case store_get (blacklist a) j of
           None \<Rightarrow> (a, False)
         | Some e \<Rightarrow>
             if e > now then (a, True)
             else (let bl = prune_blacklist now (blacklist a)
                   in (a\<lparr>blacklist := bl\<rparr>, store_get bl j \<noteq> None)))"

definition validate_token :: "decoder \<Rightarrow> datetime \<Rightarrow> string \<Rightarrow> JwtAuth \<Rightarrow> JwtAuth \<times> (jwt_error + Claims)" where
  "validate_token decode now token a =
     (case decode (jwt_config a) now token of
        Inl e \<Rightarrow> (a, Inl (Codec_error e))
      | Inr c \<Rightarrow>
          (case is_revoked now (c_jti c) a of
             (a', True) \<Rightarrow> (a', Inl Token_revoked)
           | (a', False) \<Rightarrow> (a', Inr c)))"

definition refresh_token ::
  "encoder \<Rightarrow> decoder \<Rightarrow> datetime \<Rightarrow> string \<Rightarrow> string \<Rightarrow> JwtAuth \<Rightarrow> JwtAuth \<times> (jwt_error + string)" where
  "refresh_token encode decode now fresh token a =
     (case validate_token decode now token a of
        (a', Inl e) \<Rightarrow> (a', Inl e)
      | (a', Inr c) \<Rightarrow>
          (a', create_token_with_claims encode
             (with_email (case c_email c of None \<Rightarrow> [] | Some e \<Rightarrow> e)
                (claims_new now fresh (c_sub c) (c_role c) (expiry_hours (jwt_config a')))) a'))"

definition check_permission :: "decoder \<Rightarrow> datetime \<Rightarrow> string \<Rightarrow> UserRole \<Rightarrow> JwtAuth \<Rightarrow> JwtAuth \<times> (jwt_error + bool)" where
  "check_permission decode now token required_role a =
     (case validate_token decode now token a of
        (a', Inl e) \<Rightarrow> (a', Inl e)
      | (a', Inr c) \<Rightarrow>
          (a', Inr (case required_role of
             Viewer \<Rightarrow> True
           | Trader \<Rightarrow> can_trade_role (c_role c)
           | PlatformAdmin \<Rightarrow> can_configure (c_role c))))"

subsection \<open>Pruning loses no revocation\<close>

datatype jwt_op =
    RevokeToken string int
  | ValidateToken datetime string
  | RefreshToken datetime string string
  | CheckPermission datetime string UserRole

fun jwt_step :: "encoder \<Rightarrow> decoder \<Rightarrow> jwt_op \<Rightarrow> JwtAuth \<Rightarrow> JwtAuth" where
  "jwt_step encode decode (RevokeToken j e) a = revoke_token j e a"
| "jwt_step encode decode (ValidateToken now token) a = fst (validate_token decode now token a)"
| "jwt_step encode decode (RefreshToken now fresh token) a = fst (refresh_token encode decode now fresh token a)"
| "jwt_step encode decode (CheckPermission now token r) a = fst (check_permission decode now token r a)"

definition run_jwt :: "encoder \<Rightarrow> decoder \<Rightarrow> jwt_op list \<Rightarrow> JwtAuth \<Rightarrow> JwtAuth" where
  "run_jwt encode decode ops a = fold (jwt_step encode decode) ops a"

text \<open>The time an operation reads.\<close>

fun op_time :: "jwt_op \<Rightarrow> datetime option" where
  "op_time (RevokeToken j e) = None"
| "op_time (ValidateToken now token) = Some now"
| "op_time (RefreshToken now fresh token) = Some now"
| "op_time (CheckPermission now token r) = Some now"

definition clock_by :: "datetime \<Rightarrow> jwt_op list \<Rightarrow> bool" where
  "clock_by now ops \<longleftrightarrow> (\<forall>oper \<in> set ops. \<forall>t. op_time oper = Some t \<longrightarrow> t \<le> now)"

text \<open>The specification remembers every revocation, the last one of a token id winning.\<close>

fun revocation_step :: "jwt_op \<Rightarrow> (string \<rightharpoonup> int) \<Rightarrow> string \<rightharpoonup> int" where
  "revocation_step (RevokeToken j e) R = R(j \<mapsto> e)"
| "revocation_step _ R = R"

definition revocations :: "jwt_op list \<Rightarrow> string \<rightharpoonup> int" where
  "revocations ops = fold revocation_step ops Map.empty"

text \<open>A blacklist that lacks only what has expired by a time.\<close>

definition pruned_by :: "int \<Rightarrow> (string \<rightharpoonup> int) \<Rightarrow> (string, int) store \<Rightarrow> bool" where
  "pruned_by now R bl \<longleftrightarrow> store_wf bl \<and> (\<forall>j e. now < e \<longrightarrow> (store_get bl j = Some e \<longleftrightarrow> R j = Some e))
     \<and> (\<forall>j e. store_get bl j = Some e \<longrightarrow> R j = Some e)"

lemma store_get_prune:
  assumes "store_wf bl"
  shows "store_get (prune_blacklist now bl) j =
    (case store_get bl j of Some e \<Rightarrow> if e > now then Some e else None | None \<Rightarrow> None)"
  using assms
proof (induction bl)
  case (Cons x bl)
  obtain k e where x: "x = (k, e)" by fastforce
  have wf: "store_wf bl" and k: "store_get bl k = None"
    using Cons.prems by (auto simp: x store_wf_def store_get_def map_of_eq_None_iff)
  from Cons.IH [OF wf] k show ?case by (auto simp: x prune_blacklist_def)
qed (simp add: prune_blacklist_def)

lemma store_wf_prune: "store_wf bl \<Longrightarrow> store_wf (prune_blacklist now bl)"
  by (simp add: store_wf_def prune_blacklist_def distinct_map_filter)

lemma pruned_by_prune:
  assumes "pruned_by now R bl" "t \<le> now"
  shows "pruned_by now R (prune_blacklist t bl)"
proof -
  have wf: "store_wf bl" using assms(1) by (simp add: pruned_by_def)
  have get: "store_get (prune_blacklist t bl) j = Some e \<longleftrightarrow> store_get bl j = Some e \<and> t < e" for j e
    by (auto simp: store_get_prune [OF wf] split: option.split)
  show ?thesis
    using assms by (auto simp: pruned_by_def store_wf_prune get)
qed

lemma is_revoked_keeps:
  assumes "pruned_by now R (blacklist a)" "unix_seconds t \<le> now"
  shows "pruned_by now R (blacklist (fst (is_revoked t j a)))"
  using assms pruned_by_prune [OF assms]
  by (auto simp: is_revoked_def Let_def split: option.split)

lemma validate_state:
  "fst (validate_token decode t token a) =
    (case decode (jwt_config a) t token of Inl _ \<Rightarrow> a | Inr c \<Rightarrow> fst (is_revoked t (c_jti c) a))"
  by (simp add: validate_token_def split: sum.split prod.split bool.split)

lemma validate_keeps:
  assumes "pruned_by now R (blacklist a)" "unix_seconds t \<le> now"
  shows "pruned_by now R (blacklist (fst (validate_token decode t token a)))"
  using assms is_revoked_keeps [OF assms] by (simp add: validate_state split: sum.split)

lemma is_revoked_config: "jwt_config (fst (is_revoked t j a)) = jwt_config a"
  by (simp add: is_revoked_def Let_def split: option.split)

lemma validate_config: "jwt_config (fst (validate_token decode t token a)) = jwt_config a"
  by (simp add: validate_state is_revoked_config split: sum.split)

lemma refresh_state: "fst (refresh_token encode decode t fresh token a) = fst (validate_token decode t token a)"
  by (simp add: refresh_token_def split: prod.split sum.split)

lemma check_state: "fst (check_permission decode t token r a) = fst (validate_token decode t token a)"
  by (simp add: check_permission_def split: prod.split sum.split)

lemma run_jwt_snoc: "run_jwt encode decode (ops @ [oper]) a = jwt_step encode decode oper (run_jwt encode decode ops a)"
  by (simp add: run_jwt_def)

lemma revocations_snoc: "revocations (ops @ [oper]) = revocation_step oper (revocations ops)"
  by (simp add: revocations_def)

lemma run_jwt_config: "jwt_config (run_jwt encode decode ops a) = jwt_config a"
proof (induction ops rule: rev_induct)
  case (snoc oper ops)
  then show ?case
    by (cases oper) (simp_all add: run_jwt_snoc revoke_token_def refresh_state check_state validate_config)
qed (simp add: run_jwt_def)

lemma unix_seconds_mono: "t \<le> t' \<Longrightarrow> unix_seconds t \<le> unix_seconds t'"
  by (simp add: unix_seconds_def zdiv_mono1)

lemma run_jwt_pruned:
  "clock_by now ops \<Longrightarrow> pruned_by (unix_seconds now) (revocations ops) (blacklist (run_jwt encode decode ops (jwt_new cfg)))"
proof (induction ops rule: rev_induct)
  case Nil
  show ?case by (simp add: pruned_by_def revocations_def run_jwt_def jwt_new_def)
next
  case (snoc oper ops)
  have IH: "pruned_by (unix_seconds now) (revocations ops) (blacklist (run_jwt encode decode ops (jwt_new cfg)))"
    using snoc by (simp add: clock_by_def)
  have t: "unix_seconds t \<le> unix_seconds now" if "op_time oper = Some t" for t
    using snoc.prems that by (simp add: clock_by_def unix_seconds_mono)
  show ?case
  proof (cases oper)
    case (RevokeToken j e)
    with IH show ?thesis
      by (auto simp: run_jwt_snoc revocations_snoc revoke_token_def pruned_by_def st.wf_insert store_simps)
  qed (use t validate_keeps [OF IH] in
      \<open>simp_all add: run_jwt_snoc revocations_snoc refresh_state check_state\<close>)
qed

text \<open>
  C38: Validating a token gives what the decoder gives, except for a token whose id was revoked with
  an expiry that is still ahead, which is rejected. This holds after any sequence of revocations,
  validations, refreshes and permission checks none of which read a later clock: dropping expired
  entries while the blacklist is read never lets a revoked token through before that expiry, and
  never rejects a token that was not revoked.
\<close>

theorem token_validation_exact:
  assumes "clock_by now ops"
  shows "snd (validate_token decode now token (run_jwt encode decode ops (jwt_new cfg))) =
    (case decode cfg now token of
       Inl e \<Rightarrow> Inl (Codec_error e)
     | Inr c \<Rightarrow> (case revocations ops (c_jti c) of
         Some e \<Rightarrow> if unix_seconds now < e then Inl Token_revoked else Inr c
       | None \<Rightarrow> Inr c))"
proof (cases "decode cfg now token")
  case (Inl e)
  then show ?thesis by (simp add: validate_token_def run_jwt_config jwt_new_def)
next
  case (Inr c)
  let ?a = "run_jwt encode decode ops (jwt_new cfg)"
  have p: "pruned_by (unix_seconds now) (revocations ops) (blacklist ?a)" by (rule run_jwt_pruned [OF assms])
  then have wf: "store_wf (blacklist ?a)" by (simp add: pruned_by_def)
  have "snd (is_revoked now (c_jti c) ?a) \<longleftrightarrow> (\<exists>e. store_get (blacklist ?a) (c_jti c) = Some e \<and> unix_seconds now < e)"
    by (auto simp: is_revoked_def Let_def store_get_prune [OF wf] split: option.split)
  also have "\<dots> \<longleftrightarrow> (\<exists>e. revocations ops (c_jti c) = Some e \<and> unix_seconds now < e)"
    using p by (auto simp: pruned_by_def)
  finally show ?thesis
    using Inr
    by (auto simp: validate_token_def run_jwt_config jwt_new_def split: option.split prod.split bool.split)
qed

definition demo_decode :: decoder where
  "demo_decode cfg now token = (if token = ''bad'' then Inl ''InvalidToken'' else
     Inr \<lparr>c_sub = ''u'', c_email = None, c_wallet_address = None, c_role = Trader, c_iat = 0, c_exp = 100, c_jti = token\<rparr>)"

definition demo_encode :: encoder where
  "demo_encode cfg c = Inr (c_jti c)"

definition demo_jwt_ops :: "jwt_op list" where
  "demo_jwt_ops = [RevokeToken ''a'' 100, ValidateToken (50 * ns_per_sec) ''a'']"

theorem token_validation_exact_witness:
  "clock_by (60 * ns_per_sec) demo_jwt_ops
   \<and> snd (validate_token demo_decode (60 * ns_per_sec) ''a'' (run_jwt demo_encode demo_decode demo_jwt_ops (jwt_new jwt_config_default)))
     = Inl Token_revoked"
proof -
  have c: "clock_by (60 * ns_per_sec) demo_jwt_ops" by (simp add: clock_by_def demo_jwt_ops_def ns_per_sec_def)
  have "revocations demo_jwt_ops ''a'' = Some 100" by (simp add: revocations_def demo_jwt_ops_def)
  then show ?thesis
    using c token_validation_exact [OF c, of demo_decode "''a''" demo_encode jwt_config_default]
    by (simp add: demo_decode_def unix_seconds_def ns_per_sec_def)
qed

text \<open>
  The decoder accepts a token up to its leeway after the expiry, while the blacklist keeps a
  revocation only up to the expiry itself: in between a revoked token is accepted again.
\<close>

lemma revoked_token_accepted_in_leeway:
  assumes "clock_by now ops" "decode cfg now token = Inr c" "c_exp c \<le> unix_seconds now"
    and "revocations ops (c_jti c) = Some (c_exp c)"
  shows "snd (validate_token decode now token (run_jwt encode decode ops (jwt_new cfg))) = Inr c"
proof -
  let ?a = "run_jwt encode decode ops (jwt_new cfg)"
  have p: "pruned_by (unix_seconds now) (revocations ops) (blacklist ?a)" by (rule run_jwt_pruned [OF assms(1)])
  then have wf: "store_wf (blacklist ?a)" by (simp add: pruned_by_def)
  have "\<not> snd (is_revoked now (c_jti c) ?a)"
    using p assms(3,4) by (auto simp: is_revoked_def Let_def store_get_prune [OF wf] pruned_by_def split: option.split)
  then show ?thesis
    using assms(2) by (auto simp: validate_token_def run_jwt_config jwt_new_def split: prod.split bool.split)
qed

end
