(* ===== verification/Api_Keys.thy ===== *)
theory Api_Keys
  imports Jwt
begin

section \<open>API keys\<close>

text \<open>
  Model of \<open>crates/auth/src/api_key.rs\<close>: the keys by hash, the index by user,
  and creation, authentication, revocation and deletion. SHA-256 with its hexadecimal text is the
  parameter \<open>hash\<close>; the random key of 48 characters, the id and the clock are arguments.
\<close>

record ApiKey =
  ak_id :: uuid
  ak_user_id :: string
  ak_name :: string
  key_hash :: string
  key_prefix :: string
  ak_role :: UserRole
  ak_created_at :: datetime
  ak_expires_at :: "datetime option"
  ak_last_used_at :: "datetime option"
  ak_active :: bool

definition api_key_new ::
  "(string \<Rightarrow> string) \<Rightarrow> uuid \<Rightarrow> datetime \<Rightarrow> string \<Rightarrow> string \<Rightarrow> string \<Rightarrow> UserRole \<Rightarrow> ApiKey" where
  "api_key_new hash i now plain user name role = \<lparr>ak_id = i, ak_user_id = user, ak_name = name,
     key_hash = hash plain, key_prefix = take 8 plain, ak_role = role, ak_created_at = now,
     ak_expires_at = None, ak_last_used_at = None, ak_active = True\<rparr>"

definition with_expiry_key :: "datetime \<Rightarrow> ApiKey \<Rightarrow> ApiKey" where
  "with_expiry_key t k = k\<lparr>ak_expires_at := Some t\<rparr>"

definition is_valid_key :: "datetime \<Rightarrow> ApiKey \<Rightarrow> bool" where
  "is_valid_key now k =
     (if \<not> ak_active k then False
      else (case ak_expires_at k of Some t \<Rightarrow> \<not> t < now | None \<Rightarrow> True))"

definition verify_key :: "(string \<Rightarrow> string) \<Rightarrow> string \<Rightarrow> ApiKey \<Rightarrow> bool" where
  "verify_key hash plain k = (key_hash k = hash plain)"

definition touch_key :: "datetime \<Rightarrow> ApiKey \<Rightarrow> ApiKey" where
  "touch_key now k = k\<lparr>ak_last_used_at := Some now\<rparr>"

definition deactivate_key :: "ApiKey \<Rightarrow> ApiKey" where
  "deactivate_key k = k\<lparr>ak_active := False\<rparr>"

record ApiKeyAuth =
  keys_by_hash :: "(string, ApiKey) store"
  keys_by_user :: "(string, uuid list) store"

definition auth_new :: ApiKeyAuth where
  "auth_new = \<lparr>keys_by_hash = [], keys_by_user = []\<rparr>"

definition create_key ::
  "(string \<Rightarrow> string) \<Rightarrow> uuid \<Rightarrow> datetime \<Rightarrow> string \<Rightarrow> string \<Rightarrow> string \<Rightarrow> UserRole \<Rightarrow> ApiKeyAuth
   \<Rightarrow> ApiKeyAuth \<times> ApiKey \<times> string" where
  "create_key hash i now plain user name role a =
     (let k = api_key_new hash i now plain user name role
      in (a\<lparr>keys_by_hash := store_insert (key_hash k) k (keys_by_hash a),
            keys_by_user := store_insert user
              ((case store_get (keys_by_user a) user of None \<Rightarrow> [] | Some ids \<Rightarrow> ids) @ [i]) (keys_by_user a)\<rparr>,
          k, plain))"

definition authenticate ::
  "(string \<Rightarrow> string) \<Rightarrow> datetime \<Rightarrow> string \<Rightarrow> ApiKeyAuth \<Rightarrow> ApiKeyAuth \<times> ApiKey option" where
  "authenticate hash now plain a =
     (case store_get (keys_by_hash a) (hash plain) of
        None \<Rightarrow> (a, None)
      | Some k \<Rightarrow>
          if is_valid_key now k \<and> verify_key hash plain k
          then (a\<lparr>keys_by_hash := store_insert (hash plain) (touch_key now k) (keys_by_hash a)\<rparr>, Some (touch_key now k))
          else (a, None))"

definition get_user_keys :: "string \<Rightarrow> ApiKeyAuth \<Rightarrow> ApiKey list" where
  "get_user_keys user a =
     (case store_get (keys_by_user a) user of
        None \<Rightarrow> []
      | Some ids \<Rightarrow> List.map_filter (\<lambda>i. find (\<lambda>k. ak_id k = i) (store_values (keys_by_hash a))) ids)"

fun revoke_first :: "uuid \<Rightarrow> (string, ApiKey) store \<Rightarrow> (string, ApiKey) store \<times> bool" where
  "revoke_first i [] = ([], False)"
| "revoke_first i ((h, k) # ks) =
     (if ak_id k = i then ((h, deactivate_key k) # ks, True)
      else (case revoke_first i ks of (ks', b) \<Rightarrow> ((h, k) # ks', b)))"

definition revoke_key :: "uuid \<Rightarrow> ApiKeyAuth \<Rightarrow> ApiKeyAuth \<times> bool" where
  "revoke_key i a = (case revoke_first i (keys_by_hash a) of (ks, b) \<Rightarrow> (a\<lparr>keys_by_hash := ks\<rparr>, b))"

definition delete_key :: "uuid \<Rightarrow> string \<Rightarrow> ApiKeyAuth \<Rightarrow> ApiKeyAuth \<times> bool" where
  "delete_key i user a =
     (case find (\<lambda>(_, k). ak_id k = i) (keys_by_hash a) of
        None \<Rightarrow> (a, False)
      | Some (h, _) \<Rightarrow>
          (a\<lparr>keys_by_hash := store_remove h (keys_by_hash a),
             keys_by_user := (case store_get (keys_by_user a) user of
                None \<Rightarrow> keys_by_user a
              | Some ids \<Rightarrow> store_insert user (filter (\<lambda>j. j \<noteq> i) ids) (keys_by_user a))\<rparr>, True))"

definition count_active_keys :: "datetime \<Rightarrow> string \<Rightarrow> ApiKeyAuth \<Rightarrow> nat" where
  "count_active_keys now user a = length (filter (is_valid_key now) (get_user_keys user a))"

subsection \<open>The specification: the keys that are live\<close>

datatype key_op =
    Create uuid datetime string string string UserRole
  | Authenticate datetime string
  | Revoke uuid
  | Delete uuid string

fun key_step :: "(string \<Rightarrow> string) \<Rightarrow> key_op \<Rightarrow> ApiKeyAuth \<Rightarrow> ApiKeyAuth" where
  "key_step hash (Create i now plain user name role) a = fst (create_key hash i now plain user name role a)"
| "key_step hash (Authenticate now plain) a = fst (authenticate hash now plain a)"
| "key_step hash (Revoke i) a = fst (revoke_key i a)"
| "key_step hash (Delete i user) a = fst (delete_key i user a)"

definition run_keys :: "(string \<Rightarrow> string) \<Rightarrow> key_op list \<Rightarrow> ApiKeyAuth" where
  "run_keys hash ops = fold (key_step hash) ops auth_new"

text \<open>
  The specification keeps, for the plain keys that were handed out and neither revoked nor deleted,
  the id of the key and what it grants: its user and its role.
\<close>

type_synonym grant = "uuid \<times> string \<times> UserRole"

fun live_step :: "key_op \<Rightarrow> (string \<times> grant) list \<Rightarrow> (string \<times> grant) list" where
  "live_step (Create i now plain user name role) L = L @ [(plain, i, user, role)]"
| "live_step (Authenticate now plain) L = L"
| "live_step (Revoke i) L = filter (\<lambda>e. fst (snd e) \<noteq> i) L"
| "live_step (Delete i user) L = filter (\<lambda>e. fst (snd e) \<noteq> i) L"

definition live :: "key_op list \<Rightarrow> (string \<times> grant) list" where
  "live ops = fold live_step ops []"

fun issued :: "key_op list \<Rightarrow> (string \<times> grant) list" where
  "issued [] = []"
| "issued (Create i now plain user name role # ops) = (plain, i, user, role) # issued ops"
| "issued (_ # ops) = issued ops"

definition grant_of :: "ApiKey \<Rightarrow> grant" where
  "grant_of k = (ak_id k, ak_user_id k, ak_role k)"

lemma issued_append: "issued (xs @ ys) = issued xs @ issued ys"
  by (induction xs rule: issued.induct) auto

lemma run_keys_snoc: "run_keys hash (ops @ [oper]) = key_step hash oper (run_keys hash ops)"
  by (simp add: run_keys_def)

lemma live_snoc: "live (ops @ [oper]) = live_step oper (live ops)"
  by (simp add: live_def)

text \<open>No two keys share an id or a hash, as far as they were handed out.\<close>

definition distinct_keys :: "(string \<Rightarrow> string) \<Rightarrow> (string \<times> grant) list \<Rightarrow> bool" where
  "distinct_keys hash I \<longleftrightarrow> distinct (map (fst \<circ> snd) I) \<and> distinct (map (hash \<circ> fst) I)"

lemma distinct_keysD:
  assumes "distinct_keys hash I" "(p, g) \<in> set I" "(q, g') \<in> set I" "fst g = fst g' \<or> hash p = hash q"
  shows "p = q \<and> g = g'"
proof -
  have "inj_on (fst \<circ> snd) (set I)" "inj_on (hash \<circ> fst) (set I)"
    using assms(1) by (simp_all add: distinct_keys_def distinct_map)
  from this [THEN inj_onD, of "(p, g)" "(q, g')"] assms(2-4) show ?thesis by auto
qed

text \<open>
  The store holds only issued keys under their hash, with what they were issued for and no expiry,
  and the active ones are those of the specification.
\<close>

definition keys_ok :: "(string \<Rightarrow> string) \<Rightarrow> (string \<times> grant) list \<Rightarrow> (string \<times> grant) list \<Rightarrow> (string, ApiKey) store \<Rightarrow> bool" where
  "keys_ok hash I L ks \<longleftrightarrow> store_wf ks
     \<and> (\<forall>h k. store_get ks h = Some k \<longrightarrow> key_hash k = h \<and> ak_expires_at k = None
          \<and> (\<exists>plain. (plain, grant_of k) \<in> set I \<and> h = hash plain))
     \<and> (\<forall>plain g. (plain, g) \<in> set L \<longleftrightarrow>
          (plain, g) \<in> set I \<and> (\<exists>k. store_get ks (hash plain) = Some k \<and> ak_active k))"

lemma keys_okD:
  assumes "keys_ok hash I L ks" "store_get ks h = Some k"
  shows "key_hash k = h" "ak_expires_at k = None" "\<exists>plain. (plain, grant_of k) \<in> set I \<and> h = hash plain"
  using assms by (simp_all add: keys_ok_def)

lemma keys_ok_wf: "keys_ok hash I L ks \<Longrightarrow> store_wf ks"
  by (simp add: keys_ok_def)

lemma keys_ok_live:
  "keys_ok hash I L ks \<Longrightarrow>
    (p, g) \<in> set L \<longleftrightarrow> (p, g) \<in> set I \<and> (\<exists>k. store_get ks (hash p) = Some k \<and> ak_active k)"
  unfolding keys_ok_def by blast

text \<open>Two stored keys with one id are the same key.\<close>

lemma stored_id_unique:
  assumes ok: "keys_ok hash I L ks" and d: "distinct_keys hash I"
    and k: "store_get ks h = Some k" and k': "store_get ks h' = Some k'" and i: "ak_id k = ak_id k'"
  shows "h = h'"
proof -
  obtain p where p: "(p, grant_of k) \<in> set I" "h = hash p" using keys_okD(3) [OF ok k] by blast
  obtain q where q: "(q, grant_of k') \<in> set I" "h' = hash q" using keys_okD(3) [OF ok k'] by blast
  have "fst (grant_of k) = fst (grant_of k')" using i by (simp add: grant_of_def)
  with distinct_keysD [OF d p(1) q(1)] p(2) q(2) show ?thesis by simp
qed

text \<open>A stored key grants what the plain key with its hash was issued for.\<close>

lemma stored_grant:
  assumes ok: "keys_ok hash I L ks" and d: "distinct_keys hash I"
    and g: "(p, g) \<in> set L" and k: "store_get ks (hash p) = Some k"
  shows "grant_of k = g"
proof -
  obtain q where q: "(q, grant_of k) \<in> set I" "hash p = hash q" using keys_okD(3) [OF ok k] by blast
  have "(p, g) \<in> set I" using keys_ok_live [OF ok] g by blast
  from distinct_keysD [OF d this q(1)] q(2) show ?thesis by simp
qed

text \<open>
  A step that issues no key changes the stored keys one by one: it may deactivate, touch or remove
  them, and the specification follows as soon as it drops what is no longer active.
\<close>

lemma keys_ok_change:
  assumes ok: "keys_ok hash I L ks" and wf: "store_wf ks'"
    and same: "\<And>h k'. store_get ks' h = Some k' \<Longrightarrow>
      \<exists>k. store_get ks h = Some k \<and> key_hash k' = key_hash k \<and> ak_expires_at k' = ak_expires_at k
        \<and> grant_of k' = grant_of k \<and> (ak_active k' \<longrightarrow> ak_active k)"
    and L': "\<And>p g. (p, g) \<in> set L' \<longleftrightarrow>
      (p, g) \<in> set L \<and> (\<exists>k'. store_get ks' (hash p) = Some k' \<and> ak_active k')"
  shows "keys_ok hash I L' ks'"
  unfolding keys_ok_def
proof (intro conjI allI impI wf)
  fix h k'
  assume "store_get ks' h = Some k'"
  from same [OF this] obtain k where k: "store_get ks h = Some k" "key_hash k' = key_hash k"
    "ak_expires_at k' = ak_expires_at k" "grant_of k' = grant_of k" by blast
  show "key_hash k' = h" "ak_expires_at k' = None"
    "\<exists>plain. (plain, grant_of k') \<in> set I \<and> h = hash plain"
    using keys_okD [OF ok k(1)] k by simp_all
next
  fix p g
  have "(p, g) \<in> set L \<longleftrightarrow> (p, g) \<in> set I \<and> (\<exists>k. store_get ks (hash p) = Some k \<and> ak_active k)"
    by (rule keys_ok_live [OF ok])
  then show "(p, g) \<in> set L' \<longleftrightarrow> (p, g) \<in> set I \<and> (\<exists>k. store_get ks' (hash p) = Some k \<and> ak_active k)"
    using L' [of p g] same [of "hash p"] by blast
qed

subsection \<open>Each operation follows the specification\<close>

lemma create_keeps_ok:
  assumes ok: "keys_ok hash I L (keys_by_hash a)" and d: "distinct_keys hash (I @ [(plain, i, user, role)])"
  shows "keys_ok hash (I @ [(plain, i, user, role)]) (L @ [(plain, i, user, role)])
    (keys_by_hash (fst (create_key hash i now plain user name role a)))"
proof -
  have wf: "store_wf (keys_by_hash a)" by (rule keys_ok_wf [OF ok])
  have new: "hash plain \<noteq> hash p" if "(p, g) \<in> set I" for p g
    using d that by (force simp: distinct_keys_def)
  have L: "(p, g) \<in> set L \<longleftrightarrow> (p, g) \<in> set I \<and> (\<exists>k. store_get (keys_by_hash a) (hash p) = Some k \<and> ak_active k)" for p g
    by (rule keys_ok_live [OF ok])
  show ?thesis
    unfolding keys_ok_def
  proof (intro conjI allI impI)
    show "store_wf (keys_by_hash (fst (create_key hash i now plain user name role a)))"
      by (simp add: create_key_def Let_def st.wf_insert [OF wf])
  next
    fix h k
    assume k: "store_get (keys_by_hash (fst (create_key hash i now plain user name role a))) h = Some k"
    show "key_hash k = h" "ak_expires_at k = None"
      "\<exists>p. (p, grant_of k) \<in> set (I @ [(plain, i, user, role)]) \<and> h = hash p"
      using k keys_okD [OF ok, of h k]
      by (auto simp: create_key_def Let_def api_key_new_def grant_of_def store_simps split: if_splits)
  next
    fix p g
    show "((p, g) \<in> set (L @ [(plain, i, user, role)])) =
      ((p, g) \<in> set (I @ [(plain, i, user, role)]) \<and>
       (\<exists>k. store_get (keys_by_hash (fst (create_key hash i now plain user name role a))) (hash p) = Some k \<and> ak_active k))"
      using new [of p g] L [of p g]
      by (auto simp: create_key_def Let_def api_key_new_def store_simps)
  qed
qed

lemma authenticate_keeps_ok:
  assumes ok: "keys_ok hash I L (keys_by_hash a)"
  shows "keys_ok hash I L (keys_by_hash (fst (authenticate hash now plain a)))"
proof (cases "store_get (keys_by_hash a) (hash plain)")
  case None
  with ok show ?thesis by (simp add: authenticate_def)
next
  case (Some k)
  have wf: "store_wf (keys_by_hash a)" by (rule keys_ok_wf [OF ok])
  have L: "(p, g) \<in> set L \<Longrightarrow> \<exists>k. store_get (keys_by_hash a) (hash p) = Some k \<and> ak_active k" for p g
    using keys_ok_live [OF ok] by blast
  have "keys_ok hash I L (store_insert (hash plain) (touch_key now k) (keys_by_hash a))"
  proof (rule keys_ok_change [OF ok st.wf_insert [OF wf]])
    fix h k'
    assume "store_get (store_insert (hash plain) (touch_key now k) (keys_by_hash a)) h = Some k'"
    then show "\<exists>k. store_get (keys_by_hash a) h = Some k \<and> key_hash k' = key_hash k \<and> ak_expires_at k' = ak_expires_at k
        \<and> grant_of k' = grant_of k \<and> (ak_active k' \<longrightarrow> ak_active k)"
      using Some by (auto simp: store_simps touch_key_def grant_of_def split: if_splits)
  next
    fix p g
    show "(p, g) \<in> set L \<longleftrightarrow> (p, g) \<in> set L \<and>
      (\<exists>k'. store_get (store_insert (hash plain) (touch_key now k) (keys_by_hash a)) (hash p) = Some k' \<and> ak_active k')"
      using L [of p g] Some by (auto simp: store_simps touch_key_def)
  qed
  with ok Some show ?thesis by (simp add: authenticate_def)
qed

text \<open>Revoking stops at the first key with the id, which is the only one.\<close>

lemma revoke_first_keys: "map fst (fst (revoke_first i ks)) = map fst ks"
  by (induction ks rule: revoke_first.induct) (auto split: prod.split)

lemma revoke_first_get:
  assumes "store_wf ks"
    and "\<And>h h' k k'. store_get ks h = Some k \<Longrightarrow> store_get ks h' = Some k' \<Longrightarrow> ak_id k = i \<Longrightarrow> ak_id k' = i \<Longrightarrow> h = h'"
  shows "store_get (fst (revoke_first i ks)) h =
    map_option (\<lambda>k. if ak_id k = i then deactivate_key k else k) (store_get ks h)"
  using assms
proof (induction ks)
  case (Cons e ks)
  obtain h0 k0 where e: "e = (h0, k0)" by fastforce
  have wf: "store_wf ks" and h0: "store_get ks h0 = None"
    using Cons.prems(1) by (auto simp: e store_wf_def store_get_def map_of_eq_None_iff)
  have up: "store_get (e # ks) h' = Some k" if "store_get ks h' = Some k" for h' k
    using that h0 by (auto simp: e)
  have IH: "store_get (fst (revoke_first i ks)) h =
      map_option (\<lambda>k. if ak_id k = i then deactivate_key k else k) (store_get ks h)"
    by (rule Cons.IH [OF wf]) (rule Cons.prems(2) [OF up up])
  show ?case
  proof (cases "ak_id k0 = i")
    case True
    have "ak_id k \<noteq> i" if k: "store_get ks h = Some k" for k
    proof
      assume "ak_id k = i"
      have "h0 = h" by (rule Cons.prems(2) [OF _ up [OF k] True \<open>ak_id k = i\<close>]) (simp add: e)
      with h0 k show False by simp
    qed
    with True h0 show ?thesis by (cases "store_get ks h") (simp_all add: e)
  next
    case False
    with IH show ?thesis by (simp add: e case_prod_beta)
  qed
qed simp

lemma revoke_keeps_ok:
  assumes ok: "keys_ok hash I L (keys_by_hash a)" and d: "distinct_keys hash I"
  shows "keys_ok hash I (filter (\<lambda>e. fst (snd e) \<noteq> i) L) (keys_by_hash (fst (revoke_key i a)))"
proof -
  let ?ks = "keys_by_hash a"
  have wf: "store_wf ?ks" by (rule keys_ok_wf [OF ok])
  have ks': "keys_by_hash (fst (revoke_key i a)) = fst (revoke_first i ?ks)"
    by (simp add: revoke_key_def split: prod.split)
  have get: "store_get (fst (revoke_first i ?ks)) h =
      map_option (\<lambda>k. if ak_id k = i then deactivate_key k else k) (store_get ?ks h)" for h
    by (rule revoke_first_get [OF wf]) (erule (1) stored_id_unique [OF ok d], simp)
  have id: "fst g = ak_id k" if "(p, g) \<in> set L" "store_get ?ks (hash p) = Some k" for p g k
    using stored_grant [OF ok d that(1,2)] by (auto simp: grant_of_def)
  have act: "\<exists>k. store_get ?ks (hash p) = Some k \<and> ak_active k" if "(p, g) \<in> set L" for p g
    using keys_ok_live [OF ok] that by blast
  show ?thesis
    unfolding ks'
  proof (rule keys_ok_change [OF ok])
    show "store_wf (fst (revoke_first i ?ks))" using wf by (simp add: store_wf_def revoke_first_keys)
  next
    fix h k'
    assume "store_get (fst (revoke_first i ?ks)) h = Some k'"
    then show "\<exists>k. store_get ?ks h = Some k \<and> key_hash k' = key_hash k \<and> ak_expires_at k' = ak_expires_at k
        \<and> grant_of k' = grant_of k \<and> (ak_active k' \<longrightarrow> ak_active k)"
      by (auto simp: get deactivate_key_def grant_of_def)
  next
    fix p g
    show "(p, g) \<in> set (filter (\<lambda>e. fst (snd e) \<noteq> i) L) \<longleftrightarrow> (p, g) \<in> set L \<and>
      (\<exists>k'. store_get (fst (revoke_first i ?ks)) (hash p) = Some k' \<and> ak_active k')"
    proof (cases "(p, g) \<in> set L")
      case True
      obtain k where k: "store_get ?ks (hash p) = Some k" "ak_active k" using act [OF True] by blast
      with True id [OF True k(1)] show ?thesis by (simp add: get deactivate_key_def)
    qed simp
  qed
qed

lemma find_SomeD: "find P xs = Some x \<Longrightarrow> P x \<and> x \<in> set xs"
  by (induction xs) (auto split: if_splits)

text \<open>Deleting removes the key with the id, if there is one.\<close>

lemma delete_key_get:
  assumes ok: "keys_ok hash I L (keys_by_hash a)" and d: "distinct_keys hash I"
  shows "store_get (keys_by_hash (fst (delete_key i user a))) h =
    (case store_get (keys_by_hash a) h of None \<Rightarrow> None | Some k \<Rightarrow> if ak_id k = i then None else Some k)"
proof (cases "find (\<lambda>(_, k). ak_id k = i) (keys_by_hash a)")
  case None
  then have "ak_id k \<noteq> i" if "store_get (keys_by_hash a) h = Some k" for k
    using map_of_SomeD [of "keys_by_hash a" h k] that by (auto simp: find_None_iff store_get_def)
  with None show ?thesis by (simp add: delete_key_def split: option.split)
next
  case (Some e)
  obtain h0 k0 where e: "e = (h0, k0)" by fastforce
  have "(h0, k0) \<in> set (keys_by_hash a)" and i: "ak_id k0 = i"
    using find_SomeD [OF Some] by (simp_all add: e)
  moreover have "distinct (map fst (keys_by_hash a))" using ok by (simp add: keys_ok_def store_wf_def)
  ultimately have g: "store_get (keys_by_hash a) h0 = Some k0" by (simp add: store_get_def)
  have u: "h = h0" if "store_get (keys_by_hash a) h = Some k" "ak_id k = i" for k
    using stored_id_unique [OF ok d that(1) g] that(2) i by simp
  have "store_get (keys_by_hash (fst (delete_key i user a))) h = (if h = h0 then None else store_get (keys_by_hash a) h)"
    using Some by (simp add: delete_key_def e store_simps)
  then show ?thesis
  proof (cases "h = h0")
    case False
    then have "ak_id k \<noteq> i" if "store_get (keys_by_hash a) h = Some k" for k using u [OF that] by blast
    then show ?thesis
      using \<open>store_get (keys_by_hash (fst (delete_key i user a))) h = _\<close> False
      by (cases "store_get (keys_by_hash a) h") simp_all
  qed (simp add: g i)
qed

lemma delete_keeps_ok:
  assumes ok: "keys_ok hash I L (keys_by_hash a)" and d: "distinct_keys hash I"
  shows "keys_ok hash I (filter (\<lambda>e. fst (snd e) \<noteq> i) L) (keys_by_hash (fst (delete_key i user a)))"
proof (rule keys_ok_change [OF ok])
  have "store_wf (keys_by_hash a)" by (rule keys_ok_wf [OF ok])
  then show "store_wf (keys_by_hash (fst (delete_key i user a)))"
    by (auto simp: delete_key_def st.wf_remove split: option.split)
next
  fix h k'
  assume "store_get (keys_by_hash (fst (delete_key i user a))) h = Some k'"
  then show "\<exists>k. store_get (keys_by_hash a) h = Some k \<and> key_hash k' = key_hash k \<and> ak_expires_at k' = ak_expires_at k
      \<and> grant_of k' = grant_of k \<and> (ak_active k' \<longrightarrow> ak_active k)"
    by (auto simp: delete_key_get [OF ok d] split: option.splits if_splits)
next
  fix p g
  have id: "fst g = ak_id k" if "(p, g) \<in> set L" "store_get (keys_by_hash a) (hash p) = Some k" for k
    using stored_grant [OF ok d that] by (auto simp: grant_of_def)
  have act: "\<exists>k. store_get (keys_by_hash a) (hash p) = Some k \<and> ak_active k" if "(p, g) \<in> set L"
    using keys_ok_live [OF ok] that by blast
  show "(p, g) \<in> set (filter (\<lambda>e. fst (snd e) \<noteq> i) L) \<longleftrightarrow> (p, g) \<in> set L \<and>
    (\<exists>k'. store_get (keys_by_hash (fst (delete_key i user a))) (hash p) = Some k' \<and> ak_active k')"
  proof (cases "(p, g) \<in> set L")
    case True
    obtain k where k: "store_get (keys_by_hash a) (hash p) = Some k" "ak_active k" using act [OF True] by blast
    with True id [OF True k(1)] show ?thesis by (simp add: delete_key_get [OF ok d])
  qed simp
qed

lemma run_keys_ok:
  "distinct_keys hash (issued ops) \<Longrightarrow> keys_ok hash (issued ops) (live ops) (keys_by_hash (run_keys hash ops))"
proof (induction ops rule: rev_induct)
  case Nil
  show ?case by (simp add: keys_ok_def live_def run_keys_def auth_new_def)
next
  case (snoc oper ops)
  have d: "distinct_keys hash (issued ops)"
    using snoc.prems by (auto simp: issued_append distinct_keys_def)
  note ok = snoc.IH [OF d]
  show ?case
  proof (cases oper)
    case (Create i now plain user name role)
    with create_keeps_ok [OF ok] snoc.prems show ?thesis
      by (simp add: run_keys_snoc live_snoc issued_append)
  qed (simp_all add: run_keys_snoc live_snoc issued_append authenticate_keeps_ok [OF ok]
      revoke_keeps_ok [OF ok d] delete_keeps_ok [OF ok d])
qed

subsection \<open>Authentication\<close>

lemma authenticate_result:
  "map_option grant_of (snd (authenticate hash now plain a)) =
    (case store_get (keys_by_hash a) (hash plain) of
       Some k \<Rightarrow> if is_valid_key now k \<and> verify_key hash plain k then Some (grant_of k) else None
     | None \<Rightarrow> None)"
  by (auto simp: authenticate_def grant_of_def touch_key_def split: option.split)

text \<open>
  C37: After any sequence of creations, authentications, revocations and deletions, authenticating
  with a plain key succeeds exactly when that key was handed out and neither revoked nor deleted
  since, and then it gives the id, the user and the role the key was created with. The ids and the
  hashes of the keys handed out are distinct, and the presented key has no hash in common with
  another one.
\<close>

theorem authentication_exact:
  assumes d: "distinct_keys hash (issued ops)"
    and c: "\<And>q g. (q, g) \<in> set (issued ops) \<Longrightarrow> hash q = hash plain \<Longrightarrow> q = plain"
  shows "map_option grant_of (snd (authenticate hash now plain (run_keys hash ops))) = map_of (live ops) plain"
proof -
  let ?ks = "keys_by_hash (run_keys hash ops)"
  note ok = run_keys_ok [OF d]
  have L: "(plain, g) \<in> set (live ops) \<longleftrightarrow>
      (plain, g) \<in> set (issued ops) \<and> (\<exists>k. store_get ?ks (hash plain) = Some k \<and> ak_active k)" for g
    by (rule keys_ok_live [OF ok])
  show ?thesis
  proof (cases "map_of (live ops) plain")
    case None
    then have n: "(plain, g) \<notin> set (live ops)" for g by (force simp: map_of_eq_None_iff)
    have "\<not> ak_active k" if k: "store_get ?ks (hash plain) = Some k" for k
      using keys_okD(3) [OF ok k] c L n k by metis
    with None show ?thesis
      by (auto simp: authenticate_result is_valid_key_def split: option.split)
  next
    case (Some g)
    then have g: "(plain, g) \<in> set (live ops)" by (rule map_of_SomeD)
    then obtain k where k: "store_get ?ks (hash plain) = Some k" "ak_active k" using L by blast
    from stored_grant [OF ok d g k(1)] keys_okD(1,2) [OF ok k(1)] Some k show ?thesis
      by (simp add: authenticate_result is_valid_key_def verify_key_def)
  qed
qed

definition demo_ops :: "key_op list" where
  "demo_ops = [Create 1 0 ''ka'' ''u1'' ''first'' Trader, Create 2 1 ''kb'' ''u2'' ''second'' Viewer,
     Authenticate 5 ''ka'', Revoke 2]"

theorem authentication_exact_witness:
  "map_option grant_of (snd (authenticate (\<lambda>s. ''h'' @ s) 9 ''ka'' (run_keys (\<lambda>s. ''h'' @ s) demo_ops))) = Some (1, ''u1'', Trader)
   \<and> map_option grant_of (snd (authenticate (\<lambda>s. ''h'' @ s) 9 ''kb'' (run_keys (\<lambda>s. ''h'' @ s) demo_ops))) = None"
proof -
  have d: "distinct_keys (\<lambda>s. ''h'' @ s) (issued demo_ops)" by (simp add: distinct_keys_def demo_ops_def)
  have "map_of (live demo_ops) ''ka'' = Some (1, ''u1'', Trader)" "map_of (live demo_ops) ''kb'' = None"
    by (simp_all add: live_def demo_ops_def)
  then show ?thesis
    using authentication_exact [OF d, of "''ka''" 9] authentication_exact [OF d, of "''kb''" 9] by simp
qed

end
