(* ===== verification/Key_Vault.thy ===== *)
theory Key_Vault
  imports Prelude
begin

section \<open>Key vault\<close>

text \<open>
  Model of \<open>crates/auth/src/key_vault.rs\<close>: wallet keys encrypted under a key derived from the master
  key and a salt, cached in memory by lower-case address and, for the file provider, kept in a JSON
  file. SHA-256, AES-256-GCM, base64, hexadecimal and JSON are third-party code: the fields of
  \<open>vault_env\<close>. Salts and nonces, the environment variables and the outcome of file reads and writes
  are arguments. Addresses are ASCII.
\<close>

record StoredKey =
  sk_encrypted_key :: string
  sk_salt :: string

record vault_env =
  sha256 :: "u8 list \<Rightarrow> u8 list"
  aes_encrypt :: "u8 list \<Rightarrow> u8 list \<Rightarrow> u8 list \<Rightarrow> u8 list option"
  aes_decrypt :: "u8 list \<Rightarrow> u8 list \<Rightarrow> u8 list \<Rightarrow> u8 list option"
  b64_encode :: "u8 list \<Rightarrow> string"
  b64_decode :: "string \<Rightarrow> u8 list option"
  hex_decode :: "string \<Rightarrow> u8 list option"
  keys_to_json :: "(string, StoredKey) store \<Rightarrow> string option"
  keys_from_json :: "string \<Rightarrow> (string, StoredKey) store option"

datatype vault_error =
    Master_key_not_set | Cipher_error | Encryption_failed | Decryption_failed | Encrypted_too_short
  | Invalid_hex | Invalid_base64 | Json_error | Io_error | Not_implemented string

definition NONCE_SIZE :: nat where
  "NONCE_SIZE = 12"

record WalletKey =
  wk_address :: string
  wk_encrypted_key :: "u8 list"
  wk_salt :: "u8 list"

definition derive_key :: "vault_env \<Rightarrow> u8 list \<Rightarrow> u8 list \<Rightarrow> u8 list" where
  "derive_key V k salt = sha256 V (k @ salt)"

definition encrypt_data :: "vault_env \<Rightarrow> u8 list \<Rightarrow> u8 list \<Rightarrow> u8 list \<Rightarrow> u8 list \<Rightarrow> vault_error + u8 list" where
  "encrypt_data V data k salt nonce =
     (let d = derive_key V k salt
      in if length d \<noteq> 32 then Inl Cipher_error
         else (case aes_encrypt V d nonce data of
                 None \<Rightarrow> Inl Encryption_failed
               | Some c \<Rightarrow> Inr (nonce @ c)))"

definition decrypt_data :: "vault_env \<Rightarrow> u8 list \<Rightarrow> u8 list \<Rightarrow> u8 list \<Rightarrow> vault_error + u8 list" where
  "decrypt_data V encrypted k salt =
     (if length encrypted < NONCE_SIZE then Inl Encrypted_too_short
      else (let d = derive_key V k salt
            in if length d \<noteq> 32 then Inl Cipher_error
               else (case aes_decrypt V d (take NONCE_SIZE encrypted) (drop NONCE_SIZE encrypted) of
                       None \<Rightarrow> Inl Decryption_failed
                     | Some p \<Rightarrow> Inr p)))"

definition wallet_key_new ::
  "vault_env \<Rightarrow> u8 list \<Rightarrow> u8 list \<Rightarrow> string \<Rightarrow> u8 list \<Rightarrow> u8 list \<Rightarrow> vault_error + WalletKey" where
  "wallet_key_new V salt nonce address private_key encryption_key =
     (case encrypt_data V private_key encryption_key salt nonce of
        Inl e \<Rightarrow> Inl e
      | Inr c \<Rightarrow> Inr \<lparr>wk_address = address, wk_encrypted_key = c, wk_salt = salt\<rparr>)"

definition wallet_key_decrypt :: "vault_env \<Rightarrow> u8 list \<Rightarrow> WalletKey \<Rightarrow> vault_error + u8 list" where
  "wallet_key_decrypt V encryption_key w = decrypt_data V (wk_encrypted_key w) encryption_key (wk_salt w)"

datatype KeyVaultProvider =
    Environment
  | EncryptedFile string
  | Memory
  | AwsSecretsManager string
  | HashicorpVault string

record KeyVault =
  kv_provider :: KeyVaultProvider
  kv_master_key :: "u8 list"
  kv_cache :: "(string, WalletKey) store"

definition vault_new :: "KeyVaultProvider \<Rightarrow> u8 list \<Rightarrow> KeyVault" where
  "vault_new p m = \<lparr>kv_provider = p, kv_master_key = m, kv_cache = []\<rparr>"

text \<open>The bytes of an ASCII string.\<close>

definition into_bytes :: "string \<Rightarrow> u8 list" where
  "into_bytes s = map (\<lambda>c. of_nat (of_char c)) s"

definition vault_from_env :: "(string, string) store \<Rightarrow> vault_error + KeyVault" where
  "vault_from_env vars =
     (case store_get vars ''VAULT_MASTER_KEY'' of
        None \<Rightarrow> Inl Master_key_not_set
      | Some m \<Rightarrow>
          Inr (vault_new
            (if store_get vars ''VAULT_PROVIDER'' = Some ''aws''
             then AwsSecretsManager (case store_get vars ''AWS_REGION'' of None \<Rightarrow> ''us-east-1'' | Some r \<Rightarrow> r)
             else if store_get vars ''VAULT_PROVIDER'' = Some ''file''
             then EncryptedFile (case store_get vars ''VAULT_FILE_PATH'' of None \<Rightarrow> ''./vault.enc'' | Some p \<Rightarrow> p)
             else Environment)
            (into_bytes m)))"

subsection \<open>The providers\<close>

definition to_upper_char :: "char \<Rightarrow> char" where
  "to_upper_char c = (if 97 \<le> (of_char c :: nat) \<and> (of_char c :: nat) \<le> 122 then char_of ((of_char c :: nat) - 32) else c)"

definition to_uppercase :: "string \<Rightarrow> string" where
  "to_uppercase s = map to_upper_char s"

text \<open>\<open>address.replace("0x", "")\<close> and \<open>trim_start_matches("0x")\<close>.\<close>

fun remove_0x :: "string \<Rightarrow> string" where
  "remove_0x (a # b # s) = (if a = CHR ''0'' \<and> b = CHR ''x'' then remove_0x s else a # remove_0x (b # s))"
| "remove_0x s = s"

fun trim_0x :: "string \<Rightarrow> string" where
  "trim_0x (a # b # s) = (if a = CHR ''0'' \<and> b = CHR ''x'' then trim_0x s else a # b # s)"
| "trim_0x s = s"

definition load_from_env ::
  "vault_env \<Rightarrow> (string, string) store \<Rightarrow> u8 list \<Rightarrow> u8 list \<Rightarrow> string \<Rightarrow> KeyVault \<Rightarrow> vault_error + WalletKey option" where
  "load_from_env V vars salt nonce address v =
     (case store_get vars (''WALLET_KEY_'' @ to_uppercase (remove_0x address)) of
        None \<Rightarrow> Inr None
      | Some hex_key \<Rightarrow>
          (case hex_decode V (trim_0x hex_key) of
             None \<Rightarrow> Inl Invalid_hex
           | Some key_bytes \<Rightarrow>
               (case wallet_key_new V salt nonce address key_bytes (kv_master_key v) of
                  Inl e \<Rightarrow> Inl e
                | Inr w \<Rightarrow> Inr (Some w))))"

definition stored_wallet_key :: "vault_env \<Rightarrow> string \<Rightarrow> StoredKey \<Rightarrow> vault_error + WalletKey" where
  "stored_wallet_key V address s =
     (case b64_decode V (sk_encrypted_key s) of
        None \<Rightarrow> Inl Invalid_base64
      | Some c \<Rightarrow>
          (case b64_decode V (sk_salt s) of
             None \<Rightarrow> Inl Invalid_base64
           | Some salt \<Rightarrow> Inr \<lparr>wk_address = address, wk_encrypted_key = c, wk_salt = salt\<rparr>))"

text \<open>The files by path; \<open>rd\<close> tells whether reading the file works.\<close>

type_synonym files = "(string, string) store"

definition load_from_file :: "vault_env \<Rightarrow> bool \<Rightarrow> files \<Rightarrow> string \<Rightarrow> string \<Rightarrow> vault_error + WalletKey option" where
  "load_from_file V rd fs path address =
     (case store_get fs path of
        None \<Rightarrow> Inr None
      | Some content \<Rightarrow>
          if \<not> rd then Inl Io_error
          else (case keys_from_json V content of
                  None \<Rightarrow> Inl Json_error
                | Some ks \<Rightarrow>
                    (case store_get ks address of
                       None \<Rightarrow> Inr None
                     | Some s \<Rightarrow>
                         (case stored_wallet_key V address s of Inl e \<Rightarrow> Inl e | Inr w \<Rightarrow> Inr (Some w)))))"

text \<open>A failed write leaves the file missing or with any content.\<close>

datatype write_result = Written | Write_failed "string option"

definition store_to_file ::
  "vault_env \<Rightarrow> bool \<Rightarrow> write_result \<Rightarrow> string \<Rightarrow> string \<Rightarrow> WalletKey \<Rightarrow> files \<Rightarrow> files \<times> (vault_error + unit)" where
  "store_to_file V rd wr path address w fs =
     (if store_get fs path \<noteq> None \<and> \<not> rd then (fs, Inl Io_error)
      else (let ks = (case store_get fs path of
                        None \<Rightarrow> []
                      | Some content \<Rightarrow> (case keys_from_json V content of None \<Rightarrow> [] | Some ks \<Rightarrow> ks));
                ks' = store_insert (to_lowercase address)
                  \<lparr>sk_encrypted_key = b64_encode V (wk_encrypted_key w), sk_salt = b64_encode V (wk_salt w)\<rparr> ks
            in case keys_to_json V ks' of
                 None \<Rightarrow> (fs, Inl Json_error)
               | Some content \<Rightarrow>
                   (case wr of
                      Written \<Rightarrow> (store_insert path content fs, Inr ())
                    | Write_failed left_over \<Rightarrow>
                        ((case left_over of None \<Rightarrow> store_remove path fs | Some t \<Rightarrow> store_insert path t fs), Inl Io_error))))"

subsection \<open>The vault\<close>

definition store_wallet_key ::
  "vault_env \<Rightarrow> u8 list \<Rightarrow> u8 list \<Rightarrow> bool \<Rightarrow> write_result \<Rightarrow> string \<Rightarrow> u8 list \<Rightarrow> KeyVault \<times> files
   \<Rightarrow> (KeyVault \<times> files) \<times> (vault_error + unit)" where
  "store_wallet_key V salt nonce rd wr address private_key s =
     (case s of (v, fs) \<Rightarrow>
        (case wallet_key_new V salt nonce address private_key (kv_master_key v) of
           Inl e \<Rightarrow> ((v, fs), Inl e)
         | Inr w \<Rightarrow>
             (let cached = v\<lparr>kv_cache := store_insert (to_lowercase address) w (kv_cache v)\<rparr>
              in case kv_provider v of
                   Environment \<Rightarrow> ((cached, fs), Inr ())
                 | EncryptedFile path \<Rightarrow>
                     (case store_to_file V rd wr path address w fs of
                        (fs', Inl e) \<Rightarrow> ((v, fs'), Inl e)
                      | (fs', Inr _) \<Rightarrow> ((cached, fs'), Inr ()))
                 | Memory \<Rightarrow> ((cached, fs), Inr ())
                 | AwsSecretsManager region \<Rightarrow> ((v, fs), Inl (Not_implemented region))
                 | HashicorpVault addr \<Rightarrow> ((v, fs), Inl (Not_implemented addr)))))"

definition load_from_provider ::
  "vault_env \<Rightarrow> (string, string) store \<Rightarrow> u8 list \<Rightarrow> u8 list \<Rightarrow> bool \<Rightarrow> string \<Rightarrow> KeyVault \<times> files
   \<Rightarrow> vault_error + WalletKey option" where
  "load_from_provider V vars salt nonce rd address_lower s =
     (case kv_provider (fst s) of
        Environment \<Rightarrow> load_from_env V vars salt nonce address_lower (fst s)
      | EncryptedFile path \<Rightarrow> load_from_file V rd (snd s) path address_lower
      | Memory \<Rightarrow> Inr None
      | AwsSecretsManager region \<Rightarrow> Inl (Not_implemented region)
      | HashicorpVault addr \<Rightarrow> Inl (Not_implemented addr))"

definition get_wallet_key ::
  "vault_env \<Rightarrow> (string, string) store \<Rightarrow> u8 list \<Rightarrow> u8 list \<Rightarrow> bool \<Rightarrow> string \<Rightarrow> KeyVault \<times> files
   \<Rightarrow> (KeyVault \<times> files) \<times> (vault_error + u8 list option)" where
  "get_wallet_key V vars salt nonce rd address s =
     (case s of (v, fs) \<Rightarrow>
        (let address_lower = to_lowercase address
         in case store_get (kv_cache v) address_lower of
              Some w \<Rightarrow> (s, (case wallet_key_decrypt V (kv_master_key v) w of Inl e \<Rightarrow> Inl e | Inr p \<Rightarrow> Inr (Some p)))
            | None \<Rightarrow>
                (case load_from_provider V vars salt nonce rd address_lower s of
                   Inl e \<Rightarrow> (s, Inl e)
                 | Inr None \<Rightarrow> (s, Inr None)
                 | Inr (Some w) \<Rightarrow>
                     (case wallet_key_decrypt V (kv_master_key v) w of
                        Inl e \<Rightarrow> (s, Inl e)
                      | Inr p \<Rightarrow> ((v\<lparr>kv_cache := store_insert address_lower w (kv_cache v)\<rparr>, fs), Inr (Some p))))))"

definition has_wallet_key :: "string \<Rightarrow> KeyVault \<Rightarrow> bool" where
  "has_wallet_key address v = (store_get (kv_cache v) (to_lowercase address) \<noteq> None)"

definition remove_wallet_key :: "string \<Rightarrow> KeyVault \<Rightarrow> KeyVault \<times> bool" where
  "remove_wallet_key address v =
     (v\<lparr>kv_cache := store_remove (to_lowercase address) (kv_cache v)\<rparr>,
      store_get (kv_cache v) (to_lowercase address) \<noteq> None)"

definition list_wallet_addresses :: "KeyVault \<Rightarrow> string list" where
  "list_wallet_addresses v = map fst (kv_cache v)"

definition clear_cache :: "KeyVault \<Rightarrow> KeyVault" where
  "clear_cache v = v\<lparr>kv_cache := []\<rparr>"

subsection \<open>What the vault remembers\<close>

text \<open>
  What the vault relies on: SHA-256 gives 32 bytes, decryption inverts encryption, base64 and the
  JSON of a key table read back as they were written.
\<close>

definition vault_laws :: "vault_env \<Rightarrow> bool" where
  "vault_laws V \<longleftrightarrow> (\<forall>b. length (sha256 V b) = 32)
     \<and> (\<forall>k n d c. length k = 32 \<longrightarrow> length n = NONCE_SIZE \<longrightarrow> aes_encrypt V k n d = Some c \<longrightarrow> aes_decrypt V k n c = Some d)
     \<and> (\<forall>b. b64_decode V (b64_encode V b) = Some b)
     \<and> (\<forall>ks t. keys_to_json V ks = Some t \<longrightarrow> (\<exists>ks'. keys_from_json V t = Some ks' \<and> store_get ks' = store_get ks))"

lemma wallet_key_roundtrip:
  assumes "vault_laws V" "length nonce = NONCE_SIZE" "wallet_key_new V salt nonce address p m = Inr w"
  shows "wallet_key_decrypt V m w = Inr p"
  using assms
  by (auto simp: vault_laws_def wallet_key_new_def wallet_key_decrypt_def encrypt_data_def decrypt_data_def
      derive_key_def Let_def split: sum.splits option.splits if_splits)

lemma stored_key_roundtrip:
  assumes "vault_laws V"
  shows "stored_wallet_key V address
      \<lparr>sk_encrypted_key = b64_encode V (wk_encrypted_key w), sk_salt = b64_encode V (wk_salt w)\<rparr>
    = Inr (w\<lparr>wk_address := address\<rparr>)"
  using assms by (simp add: vault_laws_def stored_wallet_key_def)

lemma decrypt_address: "wallet_key_decrypt V m (w\<lparr>wk_address := a\<rparr>) = wallet_key_decrypt V m w"
  by (simp add: wallet_key_decrypt_def)

datatype vault_op =
    StoreKey "u8 list" "u8 list" bool write_result string "u8 list"
  | GetKey "u8 list" "u8 list" bool string
  | RemoveKey string
  | ClearCache

text \<open>
  The operations run with a record of the keys stored so far: by lower-case address, the last key
  for which storing reported success. Removing a key leaves the record alone.
\<close>

fun vault_step :: "vault_env \<Rightarrow> (string, string) store \<Rightarrow> vault_op \<Rightarrow> (KeyVault \<times> files) \<times> (string \<rightharpoonup> u8 list)
   \<Rightarrow> (KeyVault \<times> files) \<times> (string \<rightharpoonup> u8 list)" where
  "vault_step V vars (StoreKey salt nonce rd wr address p) (s, M) =
     (case store_wallet_key V salt nonce rd wr address p s of
        (s', Inl _) \<Rightarrow> (s', M)
      | (s', Inr _) \<Rightarrow> (s', M(to_lowercase address \<mapsto> p)))"
| "vault_step V vars (GetKey salt nonce rd address) (s, M) = (fst (get_wallet_key V vars salt nonce rd address s), M)"
| "vault_step V vars (RemoveKey address) (s, M) = ((fst (remove_wallet_key address (fst s)), snd s), M)"
| "vault_step V vars ClearCache (s, M) = ((clear_cache (fst s), snd s), M)"

definition run_vault :: "vault_env \<Rightarrow> (string, string) store \<Rightarrow> vault_op list \<Rightarrow> KeyVault \<times> files
   \<Rightarrow> (KeyVault \<times> files) \<times> (string \<rightharpoonup> u8 list)" where
  "run_vault V vars ops s = fold (vault_step V vars) ops (s, Map.empty)"

fun proper_op :: "vault_op \<Rightarrow> bool" where
  "proper_op (StoreKey salt nonce rd wr address p) \<longleftrightarrow> length nonce = NONCE_SIZE \<and> wr = Written"
| "proper_op _ \<longleftrightarrow> True"

text \<open>A stored key under the master key: present exactly when recorded, and then it decrypts to the record.\<close>

definition file_ok :: "vault_env \<Rightarrow> u8 list \<Rightarrow> (string \<rightharpoonup> u8 list) \<Rightarrow> string option \<Rightarrow> bool" where
  "file_ok V m M content \<longleftrightarrow>
     (case content of
        None \<Rightarrow> M = Map.empty
      | Some t \<Rightarrow> (\<exists>ks. keys_from_json V t = Some ks \<and>
          (\<forall>a. case M a of
             None \<Rightarrow> store_get ks a = None
           | Some p \<Rightarrow> (\<exists>sk w. store_get ks a = Some sk \<and> stored_wallet_key V a sk = Inr w \<and> wallet_key_decrypt V m w = Inr p))))"

definition vault_ok :: "vault_env \<Rightarrow> string \<Rightarrow> (KeyVault \<times> files) \<times> (string \<rightharpoonup> u8 list) \<Rightarrow> bool" where
  "vault_ok V path sM \<longleftrightarrow>
     (case sM of ((v, fs), M) \<Rightarrow>
        kv_provider v = EncryptedFile path
        \<and> (\<forall>a w. store_get (kv_cache v) a = Some w \<longrightarrow> (\<exists>p. M a = Some p \<and> wallet_key_decrypt V (kv_master_key v) w = Inr p))
        \<and> file_ok V (kv_master_key v) M (store_get fs path))"

lemma load_recorded:
  assumes "file_ok V m M (store_get fs path)"
  shows "case M a of
      None \<Rightarrow> load_from_file V True fs path a = Inr None
    | Some p \<Rightarrow> (\<exists>w. load_from_file V True fs path a = Inr (Some w) \<and> wallet_key_decrypt V m w = Inr p)"
proof (cases "store_get fs path")
  case None
  with assms show ?thesis by (simp add: file_ok_def load_from_file_def)
next
  case (Some t)
  with assms obtain ks where ks: "keys_from_json V t = Some ks"
    "case M a of None \<Rightarrow> store_get ks a = None
     | Some p \<Rightarrow> (\<exists>sk w. store_get ks a = Some sk \<and> stored_wallet_key V a sk = Inr w \<and> wallet_key_decrypt V m w = Inr p)"
    by (auto simp: file_ok_def)
  show ?thesis
  proof (cases "M a")
    case None
    with ks Some show ?thesis by (simp add: load_from_file_def)
  next
    case (Some p)
    with ks obtain sk w where "store_get ks a = Some sk" "stored_wallet_key V a sk = Inr w" "wallet_key_decrypt V m w = Inr p"
      by auto
    with Some ks \<open>store_get fs path = Some t\<close> show ?thesis by (simp add: load_from_file_def)
  qed
qed

text \<open>A read that fails changes nothing, so the result of a file load matters only when it works.\<close>

lemma load_cases: "load_from_file V rd fs path a = Inr (Some w) \<Longrightarrow> load_from_file V True fs path a = Inr (Some w)"
  by (auto simp: load_from_file_def split: option.splits if_splits)

lemma get_reads_record:
  assumes "vault_ok V path ((v, fs), M)"
  shows "snd (get_wallet_key V vars salt nonce True address (v, fs)) = Inr (M (to_lowercase address))"
proof (cases "store_get (kv_cache v) (to_lowercase address)")
  case (Some w)
  with assms obtain p where "M (to_lowercase address) = Some p" "wallet_key_decrypt V (kv_master_key v) w = Inr p"
    by (auto simp: vault_ok_def)
  with Some show ?thesis by (simp add: get_wallet_key_def Let_def)
next
  case None
  have prov: "load_from_provider V vars salt nonce True (to_lowercase address) (v, fs) = load_from_file V True fs path (to_lowercase address)"
    and f: "file_ok V (kv_master_key v) M (store_get fs path)"
    using assms by (simp_all add: vault_ok_def load_from_provider_def)
  show ?thesis
    using load_recorded [OF f, of "to_lowercase address"] None prov
    by (cases "M (to_lowercase address)") (auto simp: get_wallet_key_def Let_def)
qed

lemma get_keeps_ok:
  assumes ok: "vault_ok V path ((v, fs), M)"
  shows "vault_ok V path (fst (get_wallet_key V vars salt nonce rd address (v, fs)), M)"
proof (cases "fst (get_wallet_key V vars salt nonce rd address (v, fs)) = (v, fs)")
  case True
  with ok show ?thesis by simp
next
  case False
  let ?a = "to_lowercase address"
  have prov: "load_from_provider V vars salt nonce rd ?a (v, fs) = load_from_file V rd fs path ?a"
    and f: "file_ok V (kv_master_key v) M (store_get fs path)"
    using ok by (simp_all add: vault_ok_def load_from_provider_def)
  from False obtain w p where w: "load_from_file V rd fs path ?a = Inr (Some w)" "wallet_key_decrypt V (kv_master_key v) w = Inr p"
    and s': "fst (get_wallet_key V vars salt nonce rd address (v, fs)) = (v\<lparr>kv_cache := store_insert ?a w (kv_cache v)\<rparr>, fs)"
    by (auto simp: get_wallet_key_def Let_def prov split: option.splits sum.splits)
  have "M ?a = Some p"
    using load_recorded [OF f, of ?a] load_cases [OF w(1)] w(2) by (auto split: option.splits)
  with ok w(2) show ?thesis by (auto simp: s' vault_ok_def store_simps)
qed

lemma store_file_ok:
  assumes laws: "vault_laws V" and f: "file_ok V m M (store_get fs path)"
    and w: "wallet_key_decrypt V m w = Inr p"
    and st: "store_to_file V rd Written path address w fs = (fs', Inr u)"
  shows "file_ok V m (M(to_lowercase address \<mapsto> p)) (store_get fs' path)"
proof -
  let ?a = "to_lowercase address"
  let ?sk = "\<lparr>sk_encrypted_key = b64_encode V (wk_encrypted_key w), sk_salt = b64_encode V (wk_salt w)\<rparr>"
  obtain ks where ks: "case store_get fs path of None \<Rightarrow> ks = [] | Some t \<Rightarrow> keys_from_json V t = Some ks"
    and kM: "case M a of None \<Rightarrow> store_get ks a = None
       | Some q \<Rightarrow> (\<exists>sk w. store_get ks a = Some sk \<and> stored_wallet_key V a sk = Inr w \<and> wallet_key_decrypt V m w = Inr q)" for a
    using f by (cases "store_get fs path") (auto simp: file_ok_def)
  have "(case store_get fs path of None \<Rightarrow> []
      | Some content \<Rightarrow> (case keys_from_json V content of None \<Rightarrow> [] | Some ks \<Rightarrow> ks)) = ks"
    using ks by (auto split: option.splits)
  with st obtain t where t: "keys_to_json V (store_insert ?a ?sk ks) = Some t" "store_get fs' path = Some t"
    by (auto simp: store_to_file_def Let_def store_simps split: if_splits option.splits)
  from laws t(1) obtain ks' where ks': "keys_from_json V t = Some ks'" "store_get ks' = store_get (store_insert ?a ?sk ks)"
    unfolding vault_laws_def by blast
  have new: "stored_wallet_key V ?a ?sk = Inr (w\<lparr>wk_address := ?a\<rparr>)" by (rule stored_key_roundtrip [OF laws])
  have "case (M(?a \<mapsto> p)) a of None \<Rightarrow> store_get ks' a = None
     | Some q \<Rightarrow> (\<exists>sk w. store_get ks' a = Some sk \<and> stored_wallet_key V a sk = Inr w \<and> wallet_key_decrypt V m w = Inr q)" for a
  proof (cases "a = ?a")
    case True
    with w new show ?thesis by (simp add: ks'(2) store_simps decrypt_address)
  next
    case False
    then have "store_get ks' a = store_get ks a" by (simp add: ks'(2) store_simps)
    with kM [of a] False show ?thesis by (simp split: option.splits)
  qed
  with ks'(1) t(2) show ?thesis by (auto simp: file_ok_def)
qed

lemma store_keeps_ok:
  assumes laws: "vault_laws V" and ok: "vault_ok V path ((v, fs), M)" and n: "length nonce = NONCE_SIZE"
  shows "vault_ok V path (vault_step V vars (StoreKey salt nonce rd Written address p) ((v, fs), M))"
proof (cases "wallet_key_new V salt nonce address p (kv_master_key v)")
  case (Inl e)
  with ok show ?thesis by (simp add: store_wallet_key_def)
next
  case (Inr w)
  note w = wallet_key_roundtrip [OF laws n Inr]
  have prov: "kv_provider v = EncryptedFile path" and f: "file_ok V (kv_master_key v) M (store_get fs path)"
    using ok by (simp_all add: vault_ok_def)
  obtain fs' r where st: "store_to_file V rd Written path address w fs = (fs', r)" by fastforce
  show ?thesis
  proof (cases r)
    case (Inl e)
    with st have "fs' = fs" by (auto simp: store_to_file_def Let_def split: if_splits option.splits)
    with ok Inr Inl st prov show ?thesis by (simp add: store_wallet_key_def)
  next
    case (Inr u)
    have "file_ok V (kv_master_key v) (M(to_lowercase address \<mapsto> p)) (store_get fs' path)"
      by (rule store_file_ok [OF laws f w]) (use st Inr in simp)
    with ok w Inr \<open>wallet_key_new V salt nonce address p (kv_master_key v) = Inr w\<close> st prov show ?thesis
      by (auto simp: store_wallet_key_def vault_ok_def store_simps)
  qed
qed

lemma vault_step_ok:
  assumes "vault_laws V" "proper_op oper" "vault_ok V path sM"
  shows "vault_ok V path (vault_step V vars oper sM)"
proof -
  obtain v fs M where sM: "sM = ((v, fs), M)" by (metis prod.collapse)
  show ?thesis
  proof (cases oper)
    case (StoreKey salt nonce rd wr address p)
    with assms show ?thesis using store_keeps_ok [OF assms(1)] by (simp add: sM)
  next
    case (GetKey salt nonce rd address)
    with assms show ?thesis by (simp add: sM get_keeps_ok)
  next
    case (RemoveKey address)
    with assms show ?thesis by (auto simp: sM vault_ok_def remove_wallet_key_def store_simps)
  next
    case ClearCache
    with assms show ?thesis by (simp add: sM vault_ok_def clear_cache_def)
  qed
qed

lemma run_vault_ok:
  assumes "vault_laws V" "list_all proper_op ops" "store_get fs path = None"
  shows "vault_ok V path (run_vault V vars ops (vault_new (EncryptedFile path) m, fs))"
  using assms(2)
proof (induction ops rule: rev_induct)
  case Nil
  show ?case using assms(3) by (simp add: run_vault_def vault_ok_def vault_new_def file_ok_def)
next
  case (snoc oper ops)
  then show ?case using vault_step_ok [OF assms(1)] by (simp add: run_vault_def)
qed

text \<open>
  C39: A file vault that starts without a file answers a read for an address with the last key that
  was stored for it, in any letter case, and with no key when none was: after any sequence of
  stores, reads, removals and clearings of the cache, with reads of the file that may fail but
  writes that do not. Removing a key only empties the cache: the record of stored keys does not
  change, and the next read returns the removed key.
\<close>

theorem vault_reads_last_store:
  assumes "vault_laws V" "list_all proper_op ops" "store_get fs path = None"
  shows "case run_vault V vars ops (vault_new (EncryptedFile path) m, fs) of
      (s, M) \<Rightarrow> snd (get_wallet_key V vars salt nonce True address s) = Inr (M (to_lowercase address))"
proof -
  obtain v fs' M where r: "run_vault V vars ops (vault_new (EncryptedFile path) m, fs) = ((v, fs'), M)"
    by (metis prod.collapse)
  from run_vault_ok [OF assms, of vars m] have "vault_ok V path ((v, fs'), M)" by (simp add: r)
  from get_reads_record [OF this] show ?thesis by (simp add: r)
qed

text \<open>
  A concrete environment: the cipher is the identity, base64 is the byte of each character, and a
  table is written field by field with a marker before each character.
\<close>

fun put_str :: "string \<Rightarrow> string" where
  "put_str [] = '';''"
| "put_str (c # s) = CHR ''.'' # c # put_str s"

fun get_str :: "string \<Rightarrow> (string \<times> string) option" where
  "get_str [] = None"
| "get_str [a] = (if a = CHR '';'' then Some ([], []) else None)"
| "get_str (a # b # s) =
     (if a = CHR '';'' then Some ([], b # s) else map_option (\<lambda>(x, r). (b # x, r)) (get_str s))"

lemma get_put_str [simp]: "get_str (put_str x @ r) = Some (x, r)"
proof (induction x)
  case Nil
  show ?case by (cases r) simp_all
qed simp

definition put_keys :: "(string, StoredKey) store \<Rightarrow> string" where
  "put_keys ks = concat (map (\<lambda>(a, sk). put_str a @ put_str (sk_encrypted_key sk) @ put_str (sk_salt sk)) ks)"

primrec get_keys :: "nat \<Rightarrow> string \<Rightarrow> (string, StoredKey) store option" where
  "get_keys 0 t = (if t = [] then Some [] else None)"
| "get_keys (Suc n) t =
     (if t = [] then Some []
      else Option.bind (get_str t) (\<lambda>(a, t1). Option.bind (get_str t1) (\<lambda>(e, t2). Option.bind (get_str t2) (\<lambda>(z, t3).
        map_option (\<lambda>ks. (a, \<lparr>sk_encrypted_key = e, sk_salt = z\<rparr>) # ks) (get_keys n t3)))))"

lemma put_str_neq [simp]: "put_str x \<noteq> []"
  by (cases x) simp_all

lemma get_put_keys: "length ks \<le> n \<Longrightarrow> get_keys n (put_keys ks) = Some ks"
proof (induction ks arbitrary: n)
  case (Cons e ks)
  then obtain k where "n = Suc k" "length ks \<le> k" by (cases n) auto
  with Cons.IH [of k] show ?case by (cases e) (simp add: put_keys_def)
next
  case Nil
  show ?case by (cases n) (simp_all add: put_keys_def)
qed

lemma length_put_keys: "length ks \<le> length (put_keys ks)"
proof (induction ks)
  case (Cons e ks)
  obtain a sk where e: "e = (a, sk)" by fastforce
  have "length (put_str a) \<noteq> 0" by simp
  with Cons show ?case unfolding e put_keys_def list.map concat.simps length_append prod.case list.size by linarith
qed simp

definition demo_vault_env :: vault_env where
  "demo_vault_env = \<lparr>sha256 = (\<lambda>b. replicate 32 0), aes_encrypt = (\<lambda>k n d. Some d), aes_decrypt = (\<lambda>k n d. Some d),
     b64_encode = map (\<lambda>b. char_of (unat b)), b64_decode = (\<lambda>s. Some (map (\<lambda>c. of_nat (of_char c)) s)),
     hex_decode = (\<lambda>s. None), keys_to_json = (\<lambda>ks. Some (put_keys ks)), keys_from_json = (\<lambda>t. get_keys (length t) t)\<rparr>"

lemma demo_vault_laws: "vault_laws demo_vault_env"
proof -
  have "of_nat (unat b mod 256) = b" for b :: u8
    using unsigned_less [of b, where 'a = nat] by simp
  then show ?thesis
    by (simp add: vault_laws_def demo_vault_env_def comp_def get_put_keys length_put_keys)
qed

definition demo_vault_ops :: "vault_op list" where
  "demo_vault_ops = [StoreKey [] (replicate 12 0) True Written ''0xAb'' [7, 9], RemoveKey ''0xab'']"

lemma lower_demo: "to_lowercase ''0xAb'' = ''0xab''" "to_lowercase ''0xab'' = ''0xab''"
  by code_simp+

theorem vault_reads_last_store_witness:
  "vault_laws demo_vault_env \<and> list_all proper_op demo_vault_ops
   \<and> snd (get_wallet_key demo_vault_env [] [] [] True ''0xab''
       (fst (run_vault demo_vault_env [] demo_vault_ops (vault_new (EncryptedFile ''f'') [], []))))
     = Inr (Some [7, 9])"
proof -
  have p: "list_all proper_op demo_vault_ops" by (simp add: demo_vault_ops_def NONCE_SIZE_def)
  have M: "snd (run_vault demo_vault_env [] demo_vault_ops (vault_new (EncryptedFile ''f'') [], [])) ''0xab'' = Some [7, 9]"
    by (simp add: run_vault_def demo_vault_ops_def store_wallet_key_def wallet_key_new_def encrypt_data_def derive_key_def
        demo_vault_env_def vault_new_def store_to_file_def Let_def lower_demo)
  show ?thesis
    using p demo_vault_laws M vault_reads_last_store [OF demo_vault_laws p, where fs = "[]" and path = "''f''" and vars = "[]"
      and m = "[]" and salt = "[]" and nonce = "[]" and address = "''0xab''"]
    by (simp add: lower_demo case_prod_beta)
qed

end
