(* ===== verification/Audit_Log.thy ===== *)
theory Audit_Log
  imports Prelude "HOL-Library.Multiset" "HOL-Library.Sublist"
begin

section \<open>Audit log\<close>

text \<open>
  Model of \<open>crates/auth/src/audit.rs\<close> and \<open>audit_storage_pg.rs\<close>: the events and their builder, the
  in-memory storage, the PostgreSQL storage over the table \<open>audit_log\<close>, and the logger with its
  bounded channel. The database is modelled as far as the statements use it: the column widths, the
  order of a result, \<open>LIKE\<close>. What belongs to the database driver or to the types of Rust's network
  module, how an address or a time is written and read back, is a field of \<open>audit_env\<close>.
\<close>

datatype AuditAction =
    A_Login
  | A_Logout
  | A_LoginFailed
  | A_TokenRefresh
  | A_ApiKeyCreated
  | A_ApiKeyRevoked
  | A_UserCreated
  | A_UserUpdated
  | A_UserDeleted
  | A_UserViewed
  | A_CreatePosition
  | A_ClosePosition
  | A_ManualExit
  | A_EmergencyExitAll
  | A_CreateStopLoss
  | A_RemoveStopLoss
  | A_StopLossTriggered
  | A_CircuitBreakerTripped
  | A_CircuitBreakerReset
  | A_ConfigChange
  | A_PositionLimitsChange
  | A_ExportData
  | A_ViewSensitiveData
  | A_Custom string

record ('j, 'ip) AuditEvent =
  ev_id :: int
  ev_timestamp :: datetime
  ev_user_id :: "string option"
  ev_action :: AuditAction
  ev_resource :: string
  ev_details :: 'j
  ev_ip_address :: "'ip option"
  ev_user_agent :: "string option"
  ev_success :: bool
  ev_error :: "string option"

record ('j, 'ip) AuditEventBuilder =
  eb_action :: AuditAction
  eb_resource :: string
  eb_user_id :: "string option"
  eb_details :: 'j
  eb_ip_address :: "'ip option"
  eb_user_agent :: "string option"
  eb_success :: bool
  eb_error :: "string option"

text \<open>The JSON value \<open>null\<close> is the argument \<open>nul\<close>.\<close>

definition event_builder :: "'j \<Rightarrow> AuditAction \<Rightarrow> string \<Rightarrow> ('j, 'ip) AuditEventBuilder" where
  "event_builder nul act res = \<lparr>eb_action = act, eb_resource = res, eb_user_id = None, eb_details = nul,
     eb_ip_address = None, eb_user_agent = None, eb_success = True, eb_error = None\<rparr>"

definition builder_user :: "string \<Rightarrow> ('j, 'ip) AuditEventBuilder \<Rightarrow> ('j, 'ip) AuditEventBuilder" where
  "builder_user u b = b\<lparr>eb_user_id := Some u\<rparr>"

definition builder_details :: "'j \<Rightarrow> ('j, 'ip) AuditEventBuilder \<Rightarrow> ('j, 'ip) AuditEventBuilder" where
  "builder_details d b = b\<lparr>eb_details := d\<rparr>"

definition builder_ip :: "'ip \<Rightarrow> ('j, 'ip) AuditEventBuilder \<Rightarrow> ('j, 'ip) AuditEventBuilder" where
  "builder_ip a b = b\<lparr>eb_ip_address := Some a\<rparr>"

definition builder_user_agent :: "string \<Rightarrow> ('j, 'ip) AuditEventBuilder \<Rightarrow> ('j, 'ip) AuditEventBuilder" where
  "builder_user_agent u b = b\<lparr>eb_user_agent := Some u\<rparr>"

definition builder_failure :: "string \<Rightarrow> ('j, 'ip) AuditEventBuilder \<Rightarrow> ('j, 'ip) AuditEventBuilder" where
  "builder_failure e b = b\<lparr>eb_success := False, eb_error := Some e\<rparr>"

definition builder_build :: "datetime \<Rightarrow> ('j, 'ip) AuditEventBuilder \<Rightarrow> ('j, 'ip) AuditEvent" where
  "builder_build now b = \<lparr>ev_id = 0, ev_timestamp = now, ev_user_id = eb_user_id b, ev_action = eb_action b,
     ev_resource = eb_resource b, ev_details = eb_details b, ev_ip_address = eb_ip_address b,
     ev_user_agent = eb_user_agent b, ev_success = eb_success b, ev_error = eb_error b\<rparr>"

record AuditFilter =
  f_user_id :: "string option"
  f_action :: "AuditAction option"
  f_resource_prefix :: "string option"
  f_from :: "datetime option"
  f_to :: "datetime option"
  f_success_only :: "bool option"
  f_limit :: "u32 option"
  f_offset :: "u32 option"

definition filter_new :: AuditFilter where
  "filter_new = \<lparr>f_user_id = None, f_action = None, f_resource_prefix = None, f_from = None, f_to = None,
     f_success_only = None, f_limit = None, f_offset = None\<rparr>"

definition filter_user :: "string \<Rightarrow> AuditFilter \<Rightarrow> AuditFilter" where
  "filter_user u f = f\<lparr>f_user_id := Some u\<rparr>"

definition filter_action :: "AuditAction \<Rightarrow> AuditFilter \<Rightarrow> AuditFilter" where
  "filter_action a f = f\<lparr>f_action := Some a\<rparr>"

definition filter_resource :: "string \<Rightarrow> AuditFilter \<Rightarrow> AuditFilter" where
  "filter_resource p f = f\<lparr>f_resource_prefix := Some p\<rparr>"

definition filter_time_range :: "datetime \<Rightarrow> datetime \<Rightarrow> AuditFilter \<Rightarrow> AuditFilter" where
  "filter_time_range a b f = f\<lparr>f_from := Some a, f_to := Some b\<rparr>"

definition filter_limit :: "u32 \<Rightarrow> AuditFilter \<Rightarrow> AuditFilter" where
  "filter_limit n f = f\<lparr>f_limit := Some n\<rparr>"

definition filter_offset :: "u32 \<Rightarrow> AuditFilter \<Rightarrow> AuditFilter" where
  "filter_offset n f = f\<lparr>f_offset := Some n\<rparr>"

text \<open>A condition of a filter holds when it is absent.\<close>

definition opt_holds :: "('a \<Rightarrow> bool) \<Rightarrow> 'a option \<Rightarrow> bool" where
  "opt_holds P x = (case x of None \<Rightarrow> True | Some v \<Rightarrow> P v)"

lemma opt_holds_simps [simp]: "opt_holds P None" "opt_holds P (Some v) = P v"
  by (simp_all add: opt_holds_def)

subsection \<open>The in-memory storage\<close>

record ('j, 'ip) MemoryAuditStorage =
  mem_events :: "('j, 'ip) AuditEvent list"
  mem_next_id :: int

definition memory_new :: "('j, 'ip) MemoryAuditStorage" where
  "memory_new = \<lparr>mem_events = [], mem_next_id = 1\<rparr>"

definition memory_store :: "('j, 'ip) AuditEvent \<Rightarrow> ('j, 'ip) MemoryAuditStorage \<Rightarrow> ('j, 'ip) MemoryAuditStorage \<times> int" where
  "memory_store e m =
     (m\<lparr>mem_events := mem_events m @ [e\<lparr>ev_id := mem_next_id m\<rparr>], mem_next_id := mem_next_id m + 1\<rparr>, mem_next_id m)"

definition memory_matches :: "AuditFilter \<Rightarrow> ('j, 'ip) AuditEvent \<Rightarrow> bool" where
  "memory_matches f e \<longleftrightarrow>
     opt_holds (\<lambda>u. ev_user_id e = Some u) (f_user_id f)
   \<and> opt_holds (\<lambda>a. ev_action e = a) (f_action f)
   \<and> opt_holds (\<lambda>p. prefix p (ev_resource e)) (f_resource_prefix f)
   \<and> opt_holds (\<lambda>t. t \<le> ev_timestamp e) (f_from f)
   \<and> opt_holds (\<lambda>t. ev_timestamp e \<le> t) (f_to f)
   \<and> opt_holds (\<lambda>b. ev_success e = b) (f_success_only f)"

definition memory_query :: "AuditFilter \<Rightarrow> ('j, 'ip) MemoryAuditStorage \<Rightarrow> ('j, 'ip) AuditEvent list" where
  "memory_query f m =
     take (unat (case f_limit f of None \<Rightarrow> 100 | Some n \<Rightarrow> n))
       (drop (unat (case f_offset f of None \<Rightarrow> 0 | Some n \<Rightarrow> n)) (filter (memory_matches f) (mem_events m)))"

definition memory_count :: "AuditFilter \<Rightarrow> ('j, 'ip) MemoryAuditStorage \<Rightarrow> nat" where
  "memory_count f m = length (memory_query f m)"

subsection \<open>The PostgreSQL storage\<close>

fun action_to_string :: "AuditAction \<Rightarrow> string" where
  "action_to_string A_Login = ''login''"
| "action_to_string A_Logout = ''logout''"
| "action_to_string A_LoginFailed = ''login_failed''"
| "action_to_string A_TokenRefresh = ''token_refresh''"
| "action_to_string A_ApiKeyCreated = ''api_key_created''"
| "action_to_string A_ApiKeyRevoked = ''api_key_revoked''"
| "action_to_string A_UserCreated = ''user_created''"
| "action_to_string A_UserUpdated = ''user_updated''"
| "action_to_string A_UserDeleted = ''user_deleted''"
| "action_to_string A_UserViewed = ''user_viewed''"
| "action_to_string A_CreatePosition = ''create_position''"
| "action_to_string A_ClosePosition = ''close_position''"
| "action_to_string A_ManualExit = ''manual_exit''"
| "action_to_string A_EmergencyExitAll = ''emergency_exit_all''"
| "action_to_string A_CreateStopLoss = ''create_stop_loss''"
| "action_to_string A_RemoveStopLoss = ''remove_stop_loss''"
| "action_to_string A_StopLossTriggered = ''stop_loss_triggered''"
| "action_to_string A_CircuitBreakerTripped = ''circuit_breaker_tripped''"
| "action_to_string A_CircuitBreakerReset = ''circuit_breaker_reset''"
| "action_to_string A_ConfigChange = ''config_change''"
| "action_to_string A_PositionLimitsChange = ''position_limits_change''"
| "action_to_string A_ExportData = ''export_data''"
| "action_to_string A_ViewSensitiveData = ''view_sensitive_data''"
| "action_to_string (A_Custom s) = s"

definition action_names :: "(string \<times> AuditAction) list" where
  "action_names =
    [(''login'', A_Login),
     (''logout'', A_Logout),
     (''login_failed'', A_LoginFailed),
     (''token_refresh'', A_TokenRefresh),
     (''api_key_created'', A_ApiKeyCreated),
     (''api_key_revoked'', A_ApiKeyRevoked),
     (''user_created'', A_UserCreated),
     (''user_updated'', A_UserUpdated),
     (''user_deleted'', A_UserDeleted),
     (''user_viewed'', A_UserViewed),
     (''create_position'', A_CreatePosition),
     (''close_position'', A_ClosePosition),
     (''manual_exit'', A_ManualExit),
     (''emergency_exit_all'', A_EmergencyExitAll),
     (''create_stop_loss'', A_CreateStopLoss),
     (''remove_stop_loss'', A_RemoveStopLoss),
     (''stop_loss_triggered'', A_StopLossTriggered),
     (''circuit_breaker_tripped'', A_CircuitBreakerTripped),
     (''circuit_breaker_reset'', A_CircuitBreakerReset),
     (''config_change'', A_ConfigChange),
     (''position_limits_change'', A_PositionLimitsChange),
     (''export_data'', A_ExportData),
     (''view_sensitive_data'', A_ViewSensitiveData)]"

definition parse_action :: "string \<Rightarrow> AuditAction" where
  "parse_action s = (case map_of action_names s of Some a \<Rightarrow> a | None \<Rightarrow> A_Custom s)"

text \<open>
  The addresses: \<open>Display\<close> and \<open>FromStr\<close> of \<open>IpAddr\<close>, reading the column type \<open>inet\<close> and its cast to
  text, and the precision the driver keeps of a time.
\<close>

record 'ip audit_env =
  ip_to_string :: "'ip \<Rightarrow> string"
  ip_parse :: "string \<Rightarrow> 'ip option"
  inet_in :: "string \<Rightarrow> 'ip option"
  inet_text :: "'ip \<Rightarrow> string"
  db_time :: "datetime \<Rightarrow> datetime"

text \<open>A row of \<open>audit_log\<close>, with the column of type \<open>inet\<close>, and a row of a result.\<close>

record ('j, 'ip) audit_db_row =
  db_id :: int
  db_timestamp :: datetime
  db_user_id :: "string option"
  db_action :: string
  db_resource :: string
  db_details :: "'j option"
  db_ip_address :: "'ip option"
  db_user_agent :: "string option"
  db_success :: bool
  db_error :: "string option"

record 'j AuditRow =
  ar_id :: int
  ar_timestamp :: datetime
  ar_user_id :: "string option"
  ar_action :: string
  ar_resource :: string
  ar_details :: "'j option"
  ar_ip_address :: "string option"
  ar_user_agent :: "string option"
  ar_success :: bool
  ar_error :: "string option"

definition into_event :: "'ip audit_env \<Rightarrow> 'j \<Rightarrow> 'j AuditRow \<Rightarrow> ('j, 'ip) AuditEvent" where
  "into_event A nul r = \<lparr>ev_id = ar_id r, ev_timestamp = ar_timestamp r, ev_user_id = ar_user_id r,
     ev_action = parse_action (ar_action r), ev_resource = ar_resource r,
     ev_details = (case ar_details r of None \<Rightarrow> nul | Some d \<Rightarrow> d),
     ev_ip_address = Option.bind (ar_ip_address r) (ip_parse A),
     ev_user_agent = ar_user_agent r, ev_success = ar_success r, ev_error = ar_error r\<rparr>"

record ('j, 'ip) audit_table =
  at_rows :: "('j, 'ip) audit_db_row list"
  at_next_id :: int

definition table_new :: "('j, 'ip) audit_table" where
  "table_new = \<lparr>at_rows = [], at_next_id = 1\<rparr>"

text \<open>The widths of the columns: \<open>VARCHAR(100)\<close>, \<open>VARCHAR(50)\<close> and \<open>VARCHAR(255)\<close>.\<close>

definition fits_columns :: "('j, 'ip) AuditEvent \<Rightarrow> bool" where
  "fits_columns e \<longleftrightarrow> opt_holds (\<lambda>u. length u \<le> 100) (ev_user_id e)
     \<and> length (action_to_string (ev_action e)) \<le> 50 \<and> length (ev_resource e) \<le> 255"

text \<open>
  Storing an event. \<open>ok\<close> tells whether the database can be reached; the insert draws an id and is
  refused when a text does not fit its column or the address is not one.
\<close>

definition pg_store ::
  "'ip audit_env \<Rightarrow> bool \<Rightarrow> ('j, 'ip) AuditEvent \<Rightarrow> ('j, 'ip) audit_table \<Rightarrow> ('j, 'ip) audit_table \<times> int option" where
  "pg_store A ok e t =
     (if \<not> ok then (t, None)
      else (let i = at_next_id t; t' = t\<lparr>at_next_id := i + 1\<rparr>;
                ip = map_option (\<lambda>a. inet_in A (ip_to_string A a)) (ev_ip_address e)
            in if \<not> fits_columns e \<or> ip = Some None then (t', None)
               else (t'\<lparr>at_rows := at_rows t @ [\<lparr>db_id = i, db_timestamp = db_time A (ev_timestamp e), db_user_id = ev_user_id e,
                   db_action = action_to_string (ev_action e), db_resource = ev_resource e, db_details = Some (ev_details e),
                   db_ip_address = Option.bind ip (\<lambda>a. a), db_user_agent = ev_user_agent e, db_success = ev_success e,
                   db_error = ev_error e\<rparr>]\<rparr>, Some i)))"

text \<open>\<open>LIKE\<close>, with a percent sign for any text, an underscore for any character and the backslash as escape.\<close>

fun like :: "string \<Rightarrow> string \<Rightarrow> bool" where
  "like [] s = (s = [])"
| "like (c # p) s =
     (if c = CHR ''%'' then like p s \<or> (case s of [] \<Rightarrow> False | _ # s' \<Rightarrow> like (c # p) s')
      else if c = CHR ''_'' then (case s of [] \<Rightarrow> False | _ # s' \<Rightarrow> like p s')
      else if c = CHR 0x5C
      then (case p of [] \<Rightarrow> False | d # q \<Rightarrow> (case s of [] \<Rightarrow> False | x # s' \<Rightarrow> x = d \<and> like q s'))
      else (case s of [] \<Rightarrow> False | x # s' \<Rightarrow> x = c \<and> like p s'))"

definition pg_matches :: "'ip audit_env \<Rightarrow> AuditFilter \<Rightarrow> ('j, 'ip) audit_db_row \<Rightarrow> bool" where
  "pg_matches A f r \<longleftrightarrow>
     opt_holds (\<lambda>u. db_user_id r = Some u) (f_user_id f)
   \<and> opt_holds (\<lambda>a. db_action r = action_to_string a) (f_action f)
   \<and> opt_holds (\<lambda>p. like (p @ ''%'') (db_resource r)) (f_resource_prefix f)
   \<and> opt_holds (\<lambda>t. db_time A t \<le> db_timestamp r) (f_from f)
   \<and> opt_holds (\<lambda>t. db_timestamp r \<le> db_time A t) (f_to f)
   \<and> opt_holds (\<lambda>b. db_success r = b) (f_success_only f)"

definition select_row :: "'ip audit_env \<Rightarrow> ('j, 'ip) audit_db_row \<Rightarrow> 'j AuditRow" where
  "select_row A r = \<lparr>ar_id = db_id r, ar_timestamp = db_timestamp r, ar_user_id = db_user_id r, ar_action = db_action r,
     ar_resource = db_resource r, ar_details = db_details r, ar_ip_address = map_option (inet_text A) (db_ip_address r),
     ar_user_agent = db_user_agent r, ar_success = db_success r, ar_error = db_error r\<rparr>"

text \<open>\<open>ord\<close> puts the rows in the order of \<open>ORDER BY timestamp DESC\<close>, which leaves ties open.\<close>

definition newest_first :: "(('j, 'ip) audit_db_row list \<Rightarrow> ('j, 'ip) audit_db_row list) \<Rightarrow> bool" where
  "newest_first ord \<longleftrightarrow> (\<forall>rs. mset (ord rs) = mset rs \<and> sorted_wrt (\<lambda>a b. db_timestamp b \<le> db_timestamp a) (ord rs))"

definition pg_query ::
  "'ip audit_env \<Rightarrow> 'j \<Rightarrow> (('j, 'ip) audit_db_row list \<Rightarrow> ('j, 'ip) audit_db_row list) \<Rightarrow> AuditFilter
   \<Rightarrow> ('j, 'ip) audit_table \<Rightarrow> ('j, 'ip) AuditEvent list" where
  "pg_query A nul ord f t =
     map (into_event A nul \<circ> select_row A)
       ((case f_limit f of None \<Rightarrow> (\<lambda>rs. rs) | Some n \<Rightarrow> take (unat n))
         ((case f_offset f of None \<Rightarrow> (\<lambda>rs. rs) | Some n \<Rightarrow> drop (unat n))
           (ord (filter (pg_matches A f) (at_rows t)))))"

definition pg_count :: "'ip audit_env \<Rightarrow> AuditFilter \<Rightarrow> ('j, 'ip) audit_table \<Rightarrow> nat" where
  "pg_count A f t = length (filter (pg_matches A f) (at_rows t))"

subsection \<open>The logger\<close>

text \<open>The channel holds at most 10000 events; a full channel drops the event.\<close>

definition channel_capacity :: nat where
  "channel_capacity = 10000"

definition log_event :: "('j, 'ip) AuditEvent \<Rightarrow> ('j, 'ip) AuditEvent list \<Rightarrow> ('j, 'ip) AuditEvent list" where
  "log_event e q = (if length q < channel_capacity then q @ [e] else q)"

text \<open>One turn of the spawned task: the oldest event is stored, or lost with an error message.\<close>

fun logger_turn ::
  "'ip audit_env \<Rightarrow> bool \<Rightarrow> ('j, 'ip) AuditEvent list \<times> ('j, 'ip) audit_table
   \<Rightarrow> ('j, 'ip) AuditEvent list \<times> ('j, 'ip) audit_table" where
  "logger_turn A ok ([], t) = ([], t)"
| "logger_turn A ok (e # q, t) = (q, fst (pg_store A ok e t))"

definition log_login ::
  "'j \<Rightarrow> datetime \<Rightarrow> string \<Rightarrow> 'ip option \<Rightarrow> bool \<Rightarrow> ('j, 'ip) AuditEvent list \<Rightarrow> ('j, 'ip) AuditEvent list" where
  "log_login nul now user_id ip success q =
     (let b = builder_user user_id (event_builder nul (if success then A_Login else A_LoginFailed) (''user/'' @ user_id));
          b = (case ip of None \<Rightarrow> b | Some a \<Rightarrow> builder_ip a b);
          b = (if \<not> success then builder_failure ''Invalid credentials'' b else b)
      in log_event (builder_build now b) q)"

definition log_trade ::
  "'j \<Rightarrow> datetime \<Rightarrow> string \<Rightarrow> AuditAction \<Rightarrow> string \<Rightarrow> 'j \<Rightarrow> ('j, 'ip) AuditEvent list \<Rightarrow> ('j, 'ip) AuditEvent list" where
  "log_trade nul now user_id act position_id details q =
     log_event (builder_build now (builder_details details (builder_user user_id
       (event_builder nul act (''position/'' @ position_id))))) q"

text \<open>\<open>pair\<close> builds the JSON object with the old and the new value.\<close>

definition log_config_change ::
  "'j \<Rightarrow> ('j \<Rightarrow> 'j \<Rightarrow> 'j) \<Rightarrow> datetime \<Rightarrow> string \<Rightarrow> string \<Rightarrow> 'j \<Rightarrow> 'j \<Rightarrow> ('j, 'ip) AuditEvent list \<Rightarrow> ('j, 'ip) AuditEvent list" where
  "log_config_change nul pair now user_id config_key old_value new_value q =
     log_event (builder_build now (builder_details (pair old_value new_value) (builder_user user_id
       (event_builder nul A_ConfigChange (''config/'' @ config_key))))) q"

definition log_user_action ::
  "'j \<Rightarrow> datetime \<Rightarrow> string \<Rightarrow> AuditAction \<Rightarrow> string \<Rightarrow> 'j \<Rightarrow> ('j, 'ip) AuditEvent list \<Rightarrow> ('j, 'ip) AuditEvent list" where
  "log_user_action nul now admin_user_id act target_user_id details q =
     log_event (builder_build now (builder_details details (builder_user admin_user_id
       (event_builder nul act (''user/'' @ target_user_id))))) q"

subsection \<open>What is read back\<close>

lemma parse_action_roundtrip:
  "(\<And>s. a = A_Custom s \<Longrightarrow> map_of action_names s = None) \<Longrightarrow> parse_action (action_to_string a) = a"
  by (cases a) (simp_all add: parse_action_def, simp_all add: action_names_def)

text \<open>
  What the code relies on of the addresses: the database reads the text of an address, its text of
  the column carries the length of the network mask after a slash, and an address with a slash
  does not parse.
\<close>

definition inet_laws :: "'ip audit_env \<Rightarrow> bool" where
  "inet_laws A \<longleftrightarrow> (\<forall>a. inet_in A (ip_to_string A a) = Some a) \<and> (\<forall>a. CHR ''/'' \<in> set (inet_text A a))
     \<and> (\<forall>s. CHR ''/'' \<in> set s \<longrightarrow> ip_parse A s = None)"

definition row_of :: "'ip audit_env \<Rightarrow> int \<Rightarrow> ('j, 'ip) AuditEvent \<Rightarrow> ('j, 'ip) audit_db_row" where
  "row_of A i e = \<lparr>db_id = i, db_timestamp = db_time A (ev_timestamp e), db_user_id = ev_user_id e,
     db_action = action_to_string (ev_action e), db_resource = ev_resource e, db_details = Some (ev_details e),
     db_ip_address = ev_ip_address e, db_user_agent = ev_user_agent e, db_success = ev_success e, db_error = ev_error e\<rparr>"

definition read_back :: "'ip audit_env \<Rightarrow> int \<Rightarrow> ('j, 'ip) AuditEvent \<Rightarrow> ('j, 'ip) AuditEvent" where
  "read_back A i e = e\<lparr>ev_id := i, ev_timestamp := db_time A (ev_timestamp e),
     ev_action := parse_action (action_to_string (ev_action e)), ev_ip_address := None\<rparr>"

lemma pg_store_row:
  assumes "inet_laws A" "fits_columns e"
  shows "pg_store A True e t = (t\<lparr>at_rows := at_rows t @ [row_of A (at_next_id t) e], at_next_id := at_next_id t + 1\<rparr>, Some (at_next_id t))"
  using assms by (cases "ev_ip_address e") (simp_all add: pg_store_def Let_def inet_laws_def row_of_def)

lemma read_row:
  assumes "inet_laws A"
  shows "into_event A nul (select_row A (row_of A i e)) = read_back A i e"
  using assms
  by (cases "ev_ip_address e") (simp_all add: into_event_def select_row_def row_of_def read_back_def inet_laws_def)

lemma log_all: "length q + length es \<le> channel_capacity \<Longrightarrow> fold log_event es q = q @ es"
  by (induction es arbitrary: q) (simp_all add: log_event_def)

fun rows_from :: "'ip audit_env \<Rightarrow> int \<Rightarrow> ('j, 'ip) AuditEvent list \<Rightarrow> ('j, 'ip) audit_db_row list" where
  "rows_from A i [] = []"
| "rows_from A i (e # es) = row_of A i e # rows_from A (i + 1) es"

fun read_back_from :: "'ip audit_env \<Rightarrow> int \<Rightarrow> ('j, 'ip) AuditEvent list \<Rightarrow> ('j, 'ip) AuditEvent list" where
  "read_back_from A i [] = []"
| "read_back_from A i (e # es) = read_back A i e # read_back_from A (i + 1) es"

lemma drain_all:
  assumes "inet_laws A" "list_all fits_columns es"
  shows "((logger_turn A True ^^ length es) (es, t)) =
    ([], t\<lparr>at_rows := at_rows t @ rows_from A (at_next_id t) es, at_next_id := at_next_id t + int (length es)\<rparr>)"
  using assms(2)
proof (induction es arbitrary: t)
  case (Cons e es)
  then show ?case
    by (simp add: funpow_Suc_right pg_store_row [OF assms(1)] algebra_simps del: funpow.simps(2))
qed simp

lemma read_rows: "inet_laws A \<Longrightarrow> map (into_event A nul \<circ> select_row A) (rows_from A i es) = read_back_from A i es"
  by (induction es arbitrary: i) (simp_all add: read_row)

text \<open>
  C40: Events that fit the columns, logged through a channel that has room for them and stored by
  the spawned task while the database answers, are read back by an unfiltered query exactly once
  each, under successive ids, with the time the database keeps and the action its name stands for.
  The client address is lost: the query reads the column as text with its network mask, which does
  not parse as an address.
\<close>

theorem audit_log_reads_back:
  fixes es :: "('j, 'ip) AuditEvent list"
  assumes "inet_laws A" "list_all fits_columns es" "length es \<le> channel_capacity" "newest_first ord"
  shows "mset (pg_query A nul ord filter_new (snd ((logger_turn A True ^^ length es) (fold log_event es [], table_new))))
    = mset (read_back_from A 1 es)"
proof -
  have "at_rows (snd ((logger_turn A True ^^ length es) (fold log_event es [], table_new))) = rows_from A 1 es"
    using drain_all [OF assms(1,2)] assms(3) by (simp add: log_all table_new_def)
  moreover have "pg_matches A filter_new = (\<lambda>r :: ('j, 'ip) audit_db_row. True)"
    by (rule ext) (simp add: pg_matches_def filter_new_def)
  moreover have "mset (ord (rows_from A 1 es)) = mset (rows_from A 1 es)" using assms(4) by (simp add: newest_first_def)
  ultimately have "mset (pg_query A nul ord filter_new (snd ((logger_turn A True ^^ length es) (fold log_event es [], table_new))))
      = mset (map (into_event A nul \<circ> select_row A) (rows_from A 1 es))"
    by (simp add: pg_query_def filter_new_def)
  then show ?thesis by (simp only: read_rows [OF assms(1)])
qed

definition demo_inet :: "string audit_env" where
  "demo_inet = \<lparr>ip_to_string = (\<lambda>a. a), ip_parse = (\<lambda>s. if CHR ''/'' \<in> set s then None else Some s),
     inet_in = Some, inet_text = (\<lambda>a. a @ ''/32''), db_time = (\<lambda>t. t div 1000 * 1000)\<rparr>"

definition demo_audit_event :: "(unit, string) AuditEvent" where
  "demo_audit_event = builder_build 1234567 (builder_ip ''1.2.3.4'' (builder_user ''u'' (event_builder () A_Login ''user/u'')))"

theorem audit_log_reads_back_witness:
  "pg_query demo_inet () (sort_key (\<lambda>r. - db_timestamp r)) filter_new
      (snd ((logger_turn demo_inet True ^^ 1) (fold log_event [demo_audit_event] [], table_new)))
   = [demo_audit_event\<lparr>ev_id := 1, ev_timestamp := 1234000, ev_ip_address := None\<rparr>]"
proof -
  have l: "inet_laws demo_inet" by (simp add: inet_laws_def demo_inet_def)
  have f: "list_all fits_columns [demo_audit_event]"
    by (simp add: fits_columns_def demo_audit_event_def builder_build_def builder_ip_def builder_user_def event_builder_def)
  have c: "length [demo_audit_event] \<le> channel_capacity" by (simp add: channel_capacity_def)
  have n: "newest_first (sort_key (\<lambda>r :: (unit, string) audit_db_row. - db_timestamp r))"
    unfolding newest_first_def
  proof (intro allI conjI)
    fix rs :: "(unit, string) audit_db_row list"
    have "sorted (map (\<lambda>r. - db_timestamp r) (sort_key (\<lambda>r. - db_timestamp r) rs))" by (rule sorted_sort_key)
    then show "sorted_wrt (\<lambda>a b. db_timestamp b \<le> db_timestamp a) (sort_key (\<lambda>r. - db_timestamp r) rs)"
      by (simp add: sorted_wrt_map)
  qed simp
  have "read_back_from demo_inet 1 [demo_audit_event] = [demo_audit_event\<lparr>ev_id := 1, ev_timestamp := 1234000, ev_ip_address := None\<rparr>]"
    by (simp add: read_back_def demo_inet_def demo_audit_event_def builder_build_def builder_ip_def builder_user_def
        event_builder_def parse_action_def action_names_def)
  with audit_log_reads_back [OF l f c n, of "()"] show ?thesis by simp
qed

subsection \<open>The two storages\<close>

definition no_wildcards :: "string \<Rightarrow> bool" where
  "no_wildcards p \<longleftrightarrow> CHR ''%'' \<notin> set p \<and> CHR ''_'' \<notin> set p \<and> CHR 0x5C \<notin> set p"

lemma like_any: "like ''%'' s"
  by (induction s) simp_all

text \<open>A prefix without wildcards matches as a prefix.\<close>

lemma like_prefix: "no_wildcards p \<Longrightarrow> like (p @ ''%'') s \<longleftrightarrow> prefix p s"
proof (induction p arbitrary: s)
  case Nil
  show ?case using like_any by simp
next
  case (Cons c p)
  then show ?case by (cases s) (auto simp: no_wildcards_def)
qed

text \<open>
  On an event that both storages hold, the conditions of the PostgreSQL query select it exactly
  when the in-memory storage does, if the resource prefix has no wildcard of \<open>LIKE\<close>, the custom
  actions involved have names of their own, and the times are ones the database keeps exactly. The
  count of the PostgreSQL storage is then the number of all such events, whatever the page.
\<close>

lemma storages_select_alike:
  assumes "\<And>p. f_resource_prefix f = Some p \<Longrightarrow> no_wildcards p"
    and "\<And>a s. f_action f = Some a \<Longrightarrow> a = A_Custom s \<Longrightarrow> map_of action_names s = None"
    and "\<And>e s. e \<in> set es \<Longrightarrow> ev_action e = A_Custom s \<Longrightarrow> map_of action_names s = None"
    and "\<And>t. f_from f = Some t \<or> f_to f = Some t \<Longrightarrow> db_time A t = t"
    and "\<And>e. e \<in> set es \<Longrightarrow> db_time A (ev_timestamp e) = ev_timestamp e"
    and "at_rows t = rows_from A i es"
  shows "pg_count A f t = length (filter (memory_matches f) es)"
proof -
  have m: "pg_matches A f (row_of A j e) \<longleftrightarrow> memory_matches f e" if e: "e \<in> set es" for j e
  proof -
    have "action_to_string (ev_action e) = action_to_string a \<longleftrightarrow> ev_action e = a" if "f_action f = Some a" for a
      using parse_action_roundtrip [of a] parse_action_roundtrip [of "ev_action e"] assms(2) [OF that] assms(3) [OF e] by metis
    moreover have "like (p @ ''%'') (ev_resource e) \<longleftrightarrow> prefix p (ev_resource e)" if "f_resource_prefix f = Some p" for p
      using like_prefix [OF assms(1) [OF that]] .
    ultimately show ?thesis
      using assms(4) assms(5) [OF e]
      by (simp add: pg_matches_def memory_matches_def row_of_def opt_holds_def split: option.split)
  qed
  have "length (filter (pg_matches A f) (rows_from A j xs)) = length (filter (memory_matches f) xs)" if "set xs \<subseteq> set es" for j xs
    using that by (induction xs arbitrary: j) (simp_all add: m)
  then show ?thesis by (simp add: pg_count_def assms(6))
qed

end
