(* ===== verification/Spec2Isabelle.thy ===== *)
theory Spec2Isabelle
  imports Circuit_Breaker Orders Position Executor Stop_Loss Position_Manager Rbac
    Book_Feed Exit_Outcomes Arb_Outcomes Advanced_Stops Position_Tracker Order_Signing
    Quant_Slots Quant_Restart Backtest_Solvency Backtest_Accounts
    Tuner_Bounds Config_Subscriber Api_Keys Key_Vault Audit_Log
begin

text \<open>
  \<^bold>\<open>AB-Bot: a verification development of the trading core.\<close>

  AB-Bot trades on Polymarket, a market in binary outcome tokens priced between 0 and 1. The
  repository is a Rust workspace: \<open>polymarket-core\<close> (types and exchange clients), \<open>trading-engine\<close>
  (order execution and the table of positions), \<open>risk-manager\<close> (circuit breaker and stop-loss
  rules), \<open>arb-monitor\<close> (detects arbitrage and tracks positions), \<open>auth\<close> (roles, keys, tokens),
  \<open>backtester\<close>, \<open>wallet-tracker\<close>, \<open>bot-scanner\<close> and \<open>api-server\<close>, with a TypeScript dashboard. Before an
  order is placed the circuit breaker is asked; the order goes through the executor to the CLOB
  (the exchange); fills become positions; positions are closed by an exit, by the resolution of
  the market or by a stop-loss rule; the P\&L of a closed position is fed back to the circuit
  breaker. Access to all of it is checked by roles.

  \<^bold>\<open>Parts and theories.\<close>

  \<^item> \<open>Prelude\<close>: machine types, time, strings, keyed stores (locale \<open>keyed_store\<close>, interpreted on
    association lists) and state machines (\<open>reach\<close>, locale \<open>machine\<close>, interpreted once per component).
  \<^item> \<open>Numeric\<close>: \<open>rust_decimal\<close> and \<open>f64\<close> arithmetic. The rounding is the parameter \<open>E\<close>; the locale
    \<open>numeric_env\<close> is its contract (monotone, idempotent, exact on representable values), interpreted
    on exact arithmetic and on rounding to 28 places.
  \<^item> \<open>Database\<close>: PostgreSQL as the parameter \<open>P\<close> (which statement succeeds, how columns round).
  \<^item> \<open>Market\<close>: \<open>crates/polymarket-core/src/types/market.rs\<close>: books, and the arbitrage opportunity with
    flat and with share-based fees.
  \<^item> \<open>Orders\<close>: \<open>types/order.rs\<close>: orders and execution reports.
  \<^item> \<open>Position\<close>: \<open>types/position.rs\<close>: the life cycle of a position. The record \<open>Position\<close> has the
    struct's fields; each method is a function of the same name; \<open>pos_step\<close> is one successful call.
  \<^item> \<open>Circuit_Breaker\<close>: \<open>crates/risk-manager/src/circuit_breaker.rs\<close> and its repository. The record
    \<open>circuit_breaker\<close> has the configuration, the state, the atomic flag and the stored row; \<open>cb_step\<close>
    is one operation with any outcome of the database.
  \<^item> \<open>Executor\<close>: \<open>crates/trading-engine/src/executor.rs\<close>. The exchange is a record of calls on a state
    of the world, each of which may be cut off by the timeout; the retry loop is a partial function
    whose value is \<open>None\<close> when it does not end; an operation returns, blocks on the full report
    channel, or diverges.
  \<^item> \<open>Stop_Loss\<close>: \<open>risk-manager/src/stop_loss.rs\<close> and \<open>stop_loss_repo.rs\<close>: rules, the manager with its
    two maps, the check of all rules, and exits that run the executor's model.
  \<^item> \<open>Position_Manager\<close>: \<open>trading-engine/src/position_manager.rs\<close>: limits on positions and exposure.
  \<^item> \<open>Rbac\<close>: \<open>crates/auth/src/rbac.rs\<close>: permissions, inheritance of roles, the permission check.
  \<^item> \<open>Advanced_Stops\<close>: \<open>risk-manager/src/advanced_stops.rs\<close>: compound, volatility, step trailing,
    break-even, time-decay and session stops.
  \<^item> \<open>Book_Feed\<close>: the WebSocket feed of \<open>polymarket-core/src/api/clob.rs\<close>: decoding, order books by
    asset, the loop of one connection. \<open>Order_Signing\<close>: the amounts of limit and market orders in
    \<open>clob.rs\<close> and \<open>signing/\<close>, with the EIP-712 encoding. \<open>Sizing\<close>: \<open>sizing.rs\<close>.
  \<^item> \<open>Position_Tracker\<close>: \<open>crates/arb-monitor/src/position_tracker.rs\<close>: the cache over the table of
    positions, exits, recovery and startup reconciliation.
  \<^item> \<open>Position_Repo\<close>: \<open>polymarket-core/src/db/positions.rs\<close>: rows and statements. \<open>Position_Service\<close>:
    \<open>api-server/src/position_service.rs\<close> and \<open>trade_events.rs\<close>: every transition of a stored position
    with its event. \<open>Server\<close> and \<open>Task_Logic\<close>: the state the background tasks share and the rules by
    which the proofs follow a task through its calls (\<open>wp\<close>).
  \<^item> \<open>Token_Cache\<close>, \<open>Rollouts\<close>, \<open>Arb_Executor\<close> and \<open>Arb_Outcomes\<close>: \<open>api-server/src/arb_executor.rs\<close> with
    \<open>learning_rollouts.rs\<close>: from a signal through its checks to the two orders and the position.
  \<^item> \<open>Exit_Handler\<close> and \<open>Exit_Outcomes\<close>: \<open>api-server/src/exit_handler.rs\<close>: both tickers, the sale of the
    legs, one-legged exits and resolution.
  \<^item> \<open>Signals\<close>, \<open>Strategy_Risk\<close>, \<open>Quant_Executor\<close>, \<open>Quant_Outcomes\<close>, \<open>Quant_Slots\<close> and \<open>Quant_Restart\<close>:
    \<open>types/signal.rs\<close> and \<open>api-server/src/quant_signal_executor.rs\<close>: the signals, the breaker of each
    strategy, the checks in their order, entry, and startup from the stored rows.
  \<^item> \<open>Backtest_Data\<close>, \<open>Simulator\<close>, \<open>Backtest_Metrics\<close>, \<open>Backtest_Strategies\<close>, \<open>Backtest_Runs\<close>,
    \<open>Backtest_Solvency\<close> and \<open>Backtest_Accounts\<close>: \<open>crates/backtester/src/simulator.rs\<close> and \<open>strategy.rs\<close>.
    The locale \<open>sim_invariant\<close> of \<open>Backtest_Runs\<close> lifts a property of one simulation step to runs.
  \<^item> \<open>Dynamic_Tuner\<close>, \<open>Tuner_Bounds\<close> and \<open>Config_Subscriber\<close>: \<open>api-server/src/dynamic_tuner.rs\<close>: the
    cycle that moves the thresholds, and the subscriber that applies them to the executors.
  \<^item> \<open>Jwt\<close>, \<open>Api_Keys\<close>, \<open>Key_Vault\<close> and \<open>Audit_Log\<close>: \<open>jwt.rs\<close>, \<open>api_key.rs\<close>, \<open>key_vault.rs\<close>, \<open>audit.rs\<close>
    and \<open>audit_storage_pg.rs\<close> of \<open>crates/auth/src\<close>.

  \<^bold>\<open>What the theorems show.\<close>

  \<^item> Circuit breaker: in every reachable state the fast-path flag, the reason and the resume time
    agree, only a hard kill has no resume time, and a halted breaker stays halted until then; a
    trade trips exactly at the thresholds; staged recovery ends; capacity lies in \<open>[0, 1]\<close>; a restart
    on the same day restores the state. Three theorems describe how a hard kill can be undone:
    by a later trip, during recovery, and by a restart on the next day.
  \<^item> Executor: a live fill is a fill the exchange confirmed at a validated price; the retry loop
    invokes its operation between 1 and \<open>max_retries + 1\<close> times; the counters balance. Two theorems
    show that a late answer leads to a second post and that unread reports block the executor.
  \<^item> Position: closing is total and atomic and realizes the marked P\&L, shares are conserved, the
    retry budget is bounded, a profitable share-fee arbitrage never loses at resolution.
  \<^item> Stop loss: a check is sound, complete and counts every rule, trailing stops only rise, the
    position index is exact, rules survive a restart; trailing stops can deadlock the check and a
    rejected exit drops its rule.
  \<^item> Position manager: the limits hold in every reachable state; the advisory check agrees.
  \<^item> Roles: the recursive collection computes the inheritance closure; system roles are immutable,
    so a viewer stays read-only; only the time window among the conditions is enforced.

  \<^item> Feed, orders, stops: a price change refines an update of the levels by price; the digest
    determines the order, the amounts keep their scale; the step trailing stop equals its closed
    form, and a time-decay stop only tightens.
  \<^item> Tasks of the server: the arbitrage and the quant executor place no order unless all checks
    pass, and every entry ends in one of the listed outcomes; the exit handler keeps the entries, a
    one-legged exit never closes a position, startup reconciliation decides each interrupted
    position; a rollout over a guardrail is rolled back; the quant slots stay within the limit; a
    strategy halts exactly at its limits, and a restart rebuilds the breakers from the closed
    positions of the day, overwriting what was stored.
  \<^item> Backtester: a run never spends cash it does not have and its drawdown lies in \<open>[0, 1]\<close>; the
    accounts of an arbitrage run balance; a repeated buy forfeits the position before it.
  \<^item> Tuner: whatever statements and publications fail, a cycle keeps every value between its bounds,
    moves it by at most one step, and leaves the setup of the rows alone; whatever messages arrive,
    the subscriber keeps the executors within the bounds and changes nothing else.
  \<^item> Authentication: an API key authenticates exactly while it is live and with what it was issued
    for; a token is rejected exactly while a revocation of its id has not expired, however the
    blacklist was pruned; a file vault returns the last key stored, also after it was removed;
    audit events are read back once each, without their client address.

  \<^bold>\<open>Bounds and fuel.\<close> No fuel is used: loops over collections are structural recursions, the
  depth-first collection of permissions ends because each nested call visits a new role, and the
  retry loop is proved to end unless \<open>max_retries\<close> is the largest \<open>u32\<close>. Counters are words of their
  width and wrap as in a release build; statements about them bound the number of events below
  \<open>2 ^ 32\<close> where it matters. Decimal overflow (a panic at \<open>2 ^ 96\<close>) is outside the model.

  \<^bold>\<open>Not modelled.\<close> Log statements and texts for display; HTTP, WebSocket and Redis I/O; SQL beyond
  what the stored rows contain; cryptography; the interleaving of concurrent tasks inside one
  operation (locks are held for the state they protect, and each operation is one step). Of the
  parts of the program these are left out: the HTTP handlers and routes of the server, whose logic
  is the SQL they send; the accounting ledger, the learning pipeline and the reconcilers, for the
  same reason; the loop of the arbitrage monitor, which selects markets and forwards feed events
  over WebSocket and Redis; the floating-point scoring of wallets, bots and recommendations, which
  has no contract to state beyond its formulas; the historical data store of the backtester; the
  clients of Gamma and Polygon; and the dashboard.
\<close>

end
